(* ===== verification/Prelude.thy ===== *)
theory Prelude
  imports Main "HOL-Library.Multiset" "HOL-Library.Char_ord" "HOL-Library.List_Lexorder" "HOL-Library.Word" "HOL-Library.Product_Lexorder"
begin

text \<open>
  Shared vocabulary of the development: Go strings as byte lists with the operations of the
  package strings the code calls, decimal formatting and parsing, UTF-8 rune counting, and the
  error sum used by every fallible operation. Nothing here is specific to a component; the
  generic lemmas are declared as simp rules or collected in \<open>go_string\<close>.

  Go strings are byte sequences, so a \<^typ>\<open>string\<close> is a list of 8-bit characters.
  strings.TrimSpace and strings.ToLower are modelled on the ASCII range (bytes above 127 are
  left alone), which is the range of every literal the code compares against.
\<close>

named_theorems go_string \<open>defining equations of the Go string helpers\<close>
named_theorems error_simps \<open>evaluation of the error sum\<close>

section \<open>Results and errors\<close>

text \<open>
  The error values of internal/service/validate.go and internal/store/store.go. fmt.Errorf with
  the verb w keeps the sentinel and adds a message: the constructors carry the message.
  \<open>OtherErr\<close> is any error that wraps none of the sentinels.
\<close>

datatype svc_error =
    ErrValidation string
  | ErrUnauthorized
  | ErrForbidden
  | ErrUnknownRoute string
  | ErrAlreadyExists string
  | ErrNoCredentials
  | ErrNoGroupTargets
  | ErrNotFound string
  | OtherErr string

type_synonym 'a result = "svc_error + 'a"

definition bind_result :: "'a result \<Rightarrow> ('a \<Rightarrow> 'b result) \<Rightarrow> 'b result" where
  "bind_result r f = (case r of Inl e \<Rightarrow> Inl e | Inr a \<Rightarrow> f a)"

lemma bind_result_simps [simp, error_simps]:
  "bind_result (Inl e) f = Inl e"
  "bind_result (Inr a) f = f a"
  by (simp_all add: bind_result_def)

lemma bind_result_Inr [simp]:
  "bind_result r f = Inr b \<longleftrightarrow> (\<exists>a. r = Inr a \<and> f a = Inr b)"
  by (cases r) auto

section \<open>Bytes and ASCII classes\<close>

type_synonym byte = char

definition code_of :: "char \<Rightarrow> nat" where
  "code_of c = of_char c"

definition is_space :: "char \<Rightarrow> bool" where
  "is_space c \<longleftrightarrow> (let n = code_of c in (9 \<le> n \<and> n \<le> 13) \<or> n = 32)"

definition is_digit :: "char \<Rightarrow> bool" where
  "is_digit c \<longleftrightarrow> (let n = code_of c in 48 \<le> n \<and> n \<le> 57)"

definition is_lower :: "char \<Rightarrow> bool" where
  "is_lower c \<longleftrightarrow> (let n = code_of c in 97 \<le> n \<and> n \<le> 122)"

definition lower_char :: "char \<Rightarrow> char" where
  "lower_char c = (let n = code_of c in if 65 \<le> n \<and> n \<le> 90 then char_of (n + 32) else c)"

definition to_lower :: "string \<Rightarrow> string" where
  "to_lower s = map lower_char s"

text \<open>strings.EqualFold on the ASCII range; SQLite's NOCASE collation is exactly this.\<close>

definition equal_fold :: "string \<Rightarrow> string \<Rightarrow> bool" where
  "equal_fold a b \<longleftrightarrow> to_lower a = to_lower b"

lemma code_of_char_of [simp]: "n < 256 \<Longrightarrow> code_of (char_of n) = n"
  by (simp add: code_of_def)

lemma lower_char_idem [simp]: "lower_char (lower_char c) = lower_char c"
proof (cases "65 \<le> code_of c \<and> code_of c \<le> 90")
  case True
  then have "code_of (char_of (code_of c + 32) :: char) = code_of c + 32" by simp
  with True show ?thesis by (simp add: lower_char_def Let_def)
qed (auto simp: lower_char_def Let_def)

lemma to_lower_idem [simp]: "to_lower (to_lower s) = to_lower s"
  by (simp add: to_lower_def)

lemma to_lower_Nil [simp]: "to_lower [] = []"
  and to_lower_append [simp]: "to_lower (s @ t) = to_lower s @ to_lower t"
  and length_to_lower [simp]: "length (to_lower s) = length s"
  by (simp_all add: to_lower_def)

lemma to_lower_eq_Nil [simp]: "to_lower s = [] \<longleftrightarrow> s = []"
  by (simp add: to_lower_def)

lemma equal_fold_refl [simp]: "equal_fold s s"
  and equal_fold_sym: "equal_fold s t \<Longrightarrow> equal_fold t s"
  and equal_fold_trans: "equal_fold s t \<Longrightarrow> equal_fold t u \<Longrightarrow> equal_fold s u"
  by (simp_all add: equal_fold_def)

text \<open>A word between single quotes, as the error messages print it.\<close>

definition quoted :: "string \<Rightarrow> string" where
  "quoted s = CHR 0x27 # s @ [CHR 0x27]"

section \<open>Trimming\<close>

definition trim_left :: "(char \<Rightarrow> bool) \<Rightarrow> string \<Rightarrow> string" where
  "trim_left p s = dropWhile p s"

definition trim_right :: "(char \<Rightarrow> bool) \<Rightarrow> string \<Rightarrow> string" where
  "trim_right p s = rev (dropWhile p (rev s))"

definition trim_func :: "(char \<Rightarrow> bool) \<Rightarrow> string \<Rightarrow> string" where
  "trim_func p s = trim_right p (trim_left p s)"

definition trim_space :: "string \<Rightarrow> string" where
  "trim_space s = trim_func is_space s"

lemma dropWhile_hd: "dropWhile p s \<noteq> [] \<Longrightarrow> \<not> p (hd (dropWhile p s))"
  by (rule hd_dropWhile)

lemma dropWhile_idem [simp]: "dropWhile p (dropWhile p s) = dropWhile p s"
  by (induction s) auto

text \<open>Evaluation of the string functions on literals.\<close>

lemmas text_eval = trim_space_def trim_func_def trim_left_def trim_right_def is_space_def code_of_def
  to_lower_def lower_char_def

lemma trim_right_last: "trim_right p s \<noteq> [] \<Longrightarrow> \<not> p (last (trim_right p s))"
  using dropWhile_hd [of p "rev s"] by (simp add: trim_right_def last_rev)

lemma trim_right_id: "(s = [] \<or> \<not> p (last s)) \<Longrightarrow> trim_right p s = s"
  by (cases s rule: rev_cases) (auto simp: trim_right_def)

lemma trim_left_id: "(s = [] \<or> \<not> p (hd s)) \<Longrightarrow> trim_left p s = s"
  by (cases s) (auto simp: trim_left_def)

lemma trim_right_prefix: "\<exists>t. s = trim_right p s @ t \<and> (\<forall>c \<in> set t. p c)"
proof -
  have "rev s = takeWhile p (rev s) @ dropWhile p (rev s)" by simp
  then have "s = trim_right p s @ rev (takeWhile p (rev s))"
    unfolding trim_right_def by (metis rev_append rev_rev_ident)
  moreover have "\<forall>c \<in> set (rev (takeWhile p (rev s))). p c"
    by (auto dest: set_takeWhileD)
  ultimately show ?thesis by blast
qed

lemma trim_right_hd: "trim_right p s \<noteq> [] \<Longrightarrow> hd (trim_right p s) = hd s"
  using trim_right_prefix [of s p] by (metis hd_append2)

lemma trim_left_hd: "trim_left p s \<noteq> [] \<Longrightarrow> \<not> p (hd (trim_left p s))"
  by (simp add: trim_left_def dropWhile_hd)

lemma trim_func_ends:
  assumes "trim_func p s \<noteq> []"
  shows "\<not> p (hd (trim_func p s))" and "\<not> p (last (trim_func p s))"
proof -
  have ne: "trim_left p s \<noteq> []"
    using assms by (auto simp: trim_func_def trim_right_def)
  show "\<not> p (hd (trim_func p s))"
    using assms trim_right_hd [of p "trim_left p s"] trim_left_hd [OF ne]
    by (simp add: trim_func_def)
  show "\<not> p (last (trim_func p s))"
    using assms trim_right_last [of p "trim_left p s"] by (simp add: trim_func_def)
qed

lemma trim_func_id: "s = [] \<or> (\<not> p (hd s) \<and> \<not> p (last s)) \<Longrightarrow> trim_func p s = s"
  by (auto simp: trim_func_def trim_left_id trim_right_id)

lemma trim_func_idem [simp]: "trim_func p (trim_func p s) = trim_func p s"
  using trim_func_ends [of p s] by (intro trim_func_id) blast

lemma trim_space_idem [simp]: "trim_space (trim_space s) = trim_space s"
  by (simp add: trim_space_def)

lemma trim_space_Nil [simp]: "trim_space [] = []"
  by (simp add: trim_space_def trim_func_def trim_left_def trim_right_def)

lemma set_trim_func: "set (trim_func p s) \<subseteq> set s"
  by (auto simp: trim_func_def trim_right_def trim_left_def dest!: set_dropWhileD)

lemma length_trim_func: "length (trim_func p s) \<le> length s"
proof -
  have "length (dropWhile p (rev (dropWhile p s))) \<le> length (rev (dropWhile p s))"
    by (rule length_dropWhile_le)
  also have "\<dots> \<le> length s" using length_dropWhile_le [of p s] by simp
  finally show ?thesis by (simp add: trim_func_def trim_right_def trim_left_def)
qed

lemma length_trim_space: "length (trim_space s) \<le> length s"
  by (simp add: trim_space_def length_trim_func)

lemma trim_func_all: "\<forall>c \<in> set s. p c \<Longrightarrow> trim_func p s = []"
  by (auto simp: trim_func_def trim_left_def trim_right_def dropWhile_eq_Nil_conv
      dest: set_dropWhileD)

lemma trim_func_append_left:
  "\<forall>c \<in> set s. p c \<Longrightarrow> trim_func p (s @ t) = trim_func p t"
  by (simp add: trim_func_def trim_left_def dropWhile_append2)

section \<open>Prefixes, cutting, splitting and joining\<close>

text \<open>strings.CutPrefix, strings.TrimPrefix and strings.HasPrefix.\<close>

fun cut_prefix :: "string \<Rightarrow> string \<Rightarrow> string option" where
  "cut_prefix [] s = Some s"
| "cut_prefix (c # p) [] = None"
| "cut_prefix (c # p) (d # s) = (if c = d then cut_prefix p s else None)"

definition has_prefix :: "string \<Rightarrow> string \<Rightarrow> bool" where
  "has_prefix p s \<longleftrightarrow> cut_prefix p s \<noteq> None"

definition trim_prefix :: "string \<Rightarrow> string \<Rightarrow> string" where
  "trim_prefix p s = (case cut_prefix p s of Some r \<Rightarrow> r | None \<Rightarrow> s)"

lemma cut_prefix_Some [simp]: "cut_prefix p s = Some r \<longleftrightarrow> s = p @ r"
  by (induction p s rule: cut_prefix.induct) auto

lemma cut_prefix_append [simp]: "cut_prefix p (p @ r) = Some r"
  by simp

lemma has_prefix_iff: "has_prefix p s \<longleftrightarrow> (\<exists>r. s = p @ r)"
  by (metis cut_prefix_Some has_prefix_def not_Some_eq option.distinct(1))

lemma has_prefix_append [simp]: "has_prefix p (p @ s)"
  by (auto simp: has_prefix_iff)

definition trim_suffix :: "string \<Rightarrow> string \<Rightarrow> string" where
  "trim_suffix p s = rev (trim_prefix (rev p) (rev s))"

definition has_suffix :: "string \<Rightarrow> string \<Rightarrow> bool" where
  "has_suffix p s \<longleftrightarrow> has_prefix (rev p) (rev s)"

lemma has_suffix_append [simp]: "has_suffix p (s @ p)"
  by (simp add: has_suffix_def)

lemma has_suffix_iff: "has_suffix p s \<longleftrightarrow> (\<exists>r. s = r @ p)"
  by (metis has_suffix_append has_suffix_def has_prefix_iff rev_append rev_rev_ident)

lemma has_suffix_Nil [simp]: "has_suffix p [] \<longleftrightarrow> p = []"
  by (simp add: has_suffix_iff)

text \<open>strings.Cut at a one-byte separator: None when the separator does not occur.\<close>

fun cut_at :: "char \<Rightarrow> string \<Rightarrow> (string \<times> string) option" where
  "cut_at sep [] = None"
| "cut_at sep (c # s) =
     (if c = sep then Some ([], s)
      else map_option (\<lambda>(a, b). (c # a, b)) (cut_at sep s))"

lemma cut_at_Some: "cut_at sep s = Some (a, b) \<longleftrightarrow> s = a @ sep # b \<and> sep \<notin> set a"
  by (induction s arbitrary: a b) (auto simp: Cons_eq_append_conv)

lemma cut_at_None: "cut_at sep s = None \<longleftrightarrow> sep \<notin> set s"
  by (induction s) auto

lemma cut_at_append [simp]: "sep \<notin> set a \<Longrightarrow> cut_at sep (a @ sep # b) = Some (a, b)"
  by (simp add: cut_at_Some)

text \<open>strings.Split at a one-byte separator (never the empty list) and strings.Join.\<close>

fun split_on :: "char \<Rightarrow> string \<Rightarrow> string list" where
  "split_on sep [] = [[]]"
| "split_on sep (c # s) =
     (if c = sep then [] # split_on sep s
      else (case split_on sep s of [] \<Rightarrow> [[c]] | x # xs \<Rightarrow> (c # x) # xs))"

fun join :: "string \<Rightarrow> string list \<Rightarrow> string" where
  "join sep [] = []"
| "join sep [x] = x"
| "join sep (x # y # xs) = x @ sep @ join sep (y # xs)"

lemma split_on_neq_Nil [simp]: "split_on sep s \<noteq> []"
  by (cases s) (auto split: list.split)

lemma split_on_no_sep: "x \<in> set (split_on sep s) \<Longrightarrow> sep \<notin> set x"
  by (induction s arbitrary: x) (auto split: if_splits list.splits)

lemma join_split [simp]: "join [sep] (split_on sep s) = s"
proof (induction s)
  case (Cons c s)
  show ?case
  proof (cases "split_on sep s")
    case (Cons x xs)
    with Cons.IH show ?thesis by (cases xs) auto
  qed simp
qed simp

lemma split_on_append:
  "split_on sep (a @ sep # b) = split_on sep a @ split_on sep b"
  by (induction a) (auto split: list.splits simp: Cons_eq_append_conv)

lemma split_on_id: "sep \<notin> set s \<Longrightarrow> split_on sep s = [s]"
  by (induction s) auto

section \<open>Decimal numbers: strconv.FormatInt, strconv.Atoi\<close>

definition digit_char :: "nat \<Rightarrow> char" where
  "digit_char d = char_of (48 + d)"

definition digit_val :: "char \<Rightarrow> nat" where
  "digit_val c = code_of c - 48"

fun nat_to_dec :: "nat \<Rightarrow> string" where
  "nat_to_dec n = (if n < 10 then [digit_char n] else nat_to_dec (n div 10) @ [digit_char (n mod 10)])"

declare nat_to_dec.simps [simp del]

definition int_to_dec :: "int \<Rightarrow> string" where
  "int_to_dec i = (if i < 0 then ''-'' @ nat_to_dec (nat (- i)) else nat_to_dec (nat i))"

fun dec_acc :: "nat \<Rightarrow> string \<Rightarrow> nat" where
  "dec_acc a [] = a"
| "dec_acc a (c # s) = dec_acc (10 * a + digit_val c) s"

definition dec_to_nat :: "string \<Rightarrow> nat option" where
  "dec_to_nat s = (if s \<noteq> [] \<and> list_all is_digit s then Some (dec_acc 0 s) else None)"

text \<open>strconv.Atoi: an optional sign, digits, and the range of a 64-bit int.\<close>

definition in_int64 :: "int \<Rightarrow> bool" where
  "in_int64 i \<longleftrightarrow> - (2 ^ 63) \<le> i \<and> i < 2 ^ 63"

text \<open>Go's int arithmetic: 64-bit two's complement.\<close>

definition wrap64 :: "int \<Rightarrow> int" where
  "wrap64 i = (i + 2 ^ 63) mod 2 ^ 64 - 2 ^ 63"

lemma wrap64_id [simp]: "in_int64 i \<Longrightarrow> wrap64 i = i"
  by (simp add: wrap64_def in_int64_def)

definition atoi :: "string \<Rightarrow> int option" where
  "atoi s =
     (let (sgn, ds) = (case s of
            [] \<Rightarrow> (1, s)
          | c # r \<Rightarrow> if c = CHR ''-'' then (- 1, r) else if c = CHR ''+'' then (1, r) else (1, s))
      in case dec_to_nat ds of
           None \<Rightarrow> None
         | Some n \<Rightarrow> (let i = sgn * int n in if in_int64 i then Some i else None))"

lemma digit_char_code: "d < 10 \<Longrightarrow> code_of (digit_char d) = 48 + d"
  by (simp add: digit_char_def)

lemma digit_char_is_digit [simp]: "d < 10 \<Longrightarrow> is_digit (digit_char d)"
  by (simp add: is_digit_def Let_def digit_char_code)

lemma digit_val_char [simp]: "d < 10 \<Longrightarrow> digit_val (digit_char d) = d"
  by (simp add: digit_val_def digit_char_code)

lemma nat_to_dec_neq_Nil [simp]: "nat_to_dec n \<noteq> []"
  by (subst nat_to_dec.simps) simp

lemma nat_to_dec_digits: "list_all is_digit (nat_to_dec n)"
proof (induction n rule: nat_to_dec.induct)
  case (1 n)
  then show ?case by (cases "n < 10") (auto simp: nat_to_dec.simps [of n])
qed

lemma dec_acc_append: "dec_acc a (s @ t) = dec_acc (dec_acc a s) t"
  by (induction s arbitrary: a) auto

lemma dec_acc_nat_to_dec: "dec_acc 0 (nat_to_dec n) = n"
proof (induction n rule: nat_to_dec.induct)
  case (1 n)
  then show ?case
    by (cases "n < 10") (auto simp: nat_to_dec.simps [of n] dec_acc_append)
qed

lemma dec_to_nat_nat_to_dec [simp]: "dec_to_nat (nat_to_dec n) = Some n"
  by (simp add: dec_to_nat_def nat_to_dec_digits dec_acc_nat_to_dec)

lemma nat_to_dec_inj [simp]: "nat_to_dec m = nat_to_dec n \<longleftrightarrow> m = n"
  by (metis dec_acc_nat_to_dec)

lemma nat_to_dec_first: "\<exists>c r. nat_to_dec n = c # r \<and> is_digit c"
  using nat_to_dec_digits [of n] nat_to_dec_neq_Nil [of n]
  by (cases "nat_to_dec n") auto

lemma not_digit_sign [simp]: "\<not> is_digit CHR ''-''" "\<not> is_digit CHR ''+''" "\<not> is_digit CHR '' ''"
  by (simp_all add: is_digit_def code_of_def)

lemma atoi_nat_to_dec [simp]: "int n < 2 ^ 63 \<Longrightarrow> atoi (nat_to_dec n) = Some (int n)"
proof -
  assume n: "int n < 2 ^ 63"
  obtain c r where cr: "nat_to_dec n = c # r" "is_digit c" using nat_to_dec_first by blast
  then have "c \<noteq> CHR ''-''" "c \<noteq> CHR ''+''" by auto
  with cr(1) n show ?thesis
    using dec_to_nat_nat_to_dec [of n] by (simp add: atoi_def in_int64_def)
qed

lemma int_to_dec_inj [simp]: "int_to_dec i = int_to_dec j \<longleftrightarrow> i = j"
proof
  assume eq: "int_to_dec i = int_to_dec j"
  obtain c r where c: "nat_to_dec (nat i) = c # r" "is_digit c" using nat_to_dec_first by blast
  obtain d q where d: "nat_to_dec (nat j) = d # q" "is_digit d" using nat_to_dec_first by blast
  show "i = j"
  proof (cases "i < 0"; cases "j < 0")
    assume "i < 0" "j < 0"
    with eq have "nat (- i) = nat (- j)" by (simp add: int_to_dec_def)
    with \<open>i < 0\<close> \<open>j < 0\<close> show ?thesis by linarith
  next
    assume "\<not> i < 0" "\<not> j < 0"
    with eq have "nat i = nat j" by (simp add: int_to_dec_def)
    with \<open>\<not> i < 0\<close> \<open>\<not> j < 0\<close> show ?thesis by linarith
  qed (use eq c d in \<open>auto simp: int_to_dec_def\<close>)
qed simp

lemma atoi_int_to_dec: "in_int64 i \<Longrightarrow> atoi (int_to_dec i) = Some i"
proof (cases "i < 0")
  case True
  assume "in_int64 i"
  with True show ?thesis by (simp add: atoi_def int_to_dec_def)
next
  case False
  assume "in_int64 i"
  with False have i: "int (nat i) < 2 ^ 63" "int (nat i) = i" by (auto simp: in_int64_def)
  from False have "int_to_dec i = nat_to_dec (nat i)" by (simp add: int_to_dec_def)
  then show ?thesis using atoi_nat_to_dec [OF i(1)] i(2) by simp
qed

section \<open>Runes\<close>

text \<open>
  utf8.RuneCountInString: in valid UTF-8 every rune has exactly one byte that is not a
  continuation byte (10xxxxxx), so the count is the number of such bytes.
\<close>

definition rune_count :: "string \<Rightarrow> nat" where
  "rune_count s = length (filter (\<lambda>c. \<not> (128 \<le> code_of c \<and> code_of c < 192)) s)"

lemma rune_count_le: "rune_count s \<le> length s"
  by (simp add: rune_count_def)

section \<open>Lists\<close>

text \<open>The queue rotation written by the selection strategies: out[(cursor+i) mod n] for each i.\<close>

definition rotate_from :: "nat \<Rightarrow> 'a list \<Rightarrow> 'a list" where
  "rotate_from k xs = map (\<lambda>i. xs ! ((k + i) mod length xs)) [0..<length xs]"

lemma rotate_from_rotate: "rotate_from k xs = rotate k xs"
  by (rule nth_equalityI) (auto simp: rotate_from_def nth_rotate)

lemma mset_rotate_from [simp]: "mset (rotate_from k xs) = mset xs"
proof -
  have "mset (rotate k xs) = mset (take (k mod length xs) xs) + mset (drop (k mod length xs) xs)"
    by (simp add: rotate_drop_take add.commute)
  also have "\<dots> = mset xs" by (metis append_take_drop_id mset_append)
  finally show ?thesis by (simp add: rotate_from_rotate)
qed

lemma set_rotate_from [simp]: "set (rotate_from k xs) = set xs"
  and length_rotate_from [simp]: "length (rotate_from k xs) = length xs"
  and distinct_rotate_from [simp]: "distinct (rotate_from k xs) = distinct xs"
  by (simp_all add: rotate_from_rotate)

lemma rotate_from_hd: "k < length xs \<Longrightarrow> hd (rotate_from k xs) = xs ! k"
  by (cases xs) (auto simp: rotate_from_def hd_map upt_conv_Cons simp del: upt_Suc)

lemma find_Some_in: "find P xs = Some x \<Longrightarrow> x \<in> set xs \<and> P x"
  by (induction xs) (auto split: if_splits)

lemma find_None_all: "find P xs = None \<longleftrightarrow> (\<forall>x \<in> set xs. \<not> P x)"
  by (induction xs) auto

lemma find_append_none: "find P xs = None \<Longrightarrow> find P (xs @ ys) = find P ys"
  by (induction xs) (auto split: if_splits)

lemma map_filter_comm:
  "(\<And>x. x \<in> set xs \<Longrightarrow> P (f x) = P x) \<Longrightarrow> filter P (map f xs) = map f (filter P xs)"
  by (induction xs) auto

section \<open>Chunked input\<close>

text \<open>
  A consumer of a byte stream: Inr its next state, Inl the result it stopped with. Input arrives in
  chunks. The interface says that a chunk boundary is invisible: feeding two pieces is feeding their
  concatenation.
\<close>

fun feed_chunks :: "(string \<Rightarrow> 's \<Rightarrow> 'r + 's) \<Rightarrow> string list \<Rightarrow> 's \<Rightarrow> 'r + 's" where
  "feed_chunks feed [] s = Inr s"
| "feed_chunks feed (c # cs) s = (case feed c s of Inl r \<Rightarrow> Inl r | Inr s' \<Rightarrow> feed_chunks feed cs s')"

locale chunked =
  fixes feed :: "string \<Rightarrow> 's \<Rightarrow> 'r + 's"
    and ok :: "'s \<Rightarrow> bool"
  assumes feed_empty: "ok s \<Longrightarrow> feed [] s = Inr s"
    and feed_ok: "ok s \<Longrightarrow> feed a s = Inr s' \<Longrightarrow> ok s'"
    and feed_append: "ok s \<Longrightarrow>
      feed (a @ b) s = (case feed a s of Inl r \<Rightarrow> Inl r | Inr s' \<Rightarrow> feed b s')"
begin

lemma feed_chunks_concat: "ok s \<Longrightarrow> feed_chunks feed cs s = feed (concat cs) s"
proof (induction cs arbitrary: s)
  case (Cons c cs)
  then show ?case using feed_ok [OF Cons.prems] by (auto simp: feed_append split: sum.split)
qed (simp add: feed_empty)

lemma chunk_independent: "ok s \<Longrightarrow> concat cs = concat ds \<Longrightarrow> feed_chunks feed cs s = feed_chunks feed ds s"
  by (simp add: feed_chunks_concat)

end

section \<open>Transition systems\<close>

text \<open>The states a system reaches from its initial states by its steps.\<close>

inductive reachable :: "('s \<Rightarrow> bool) \<Rightarrow> ('s \<Rightarrow> 's \<Rightarrow> bool) \<Rightarrow> 's \<Rightarrow> bool"
  for init :: "'s \<Rightarrow> bool" and step :: "'s \<Rightarrow> 's \<Rightarrow> bool" where
  start: "init s \<Longrightarrow> reachable init step s"
| next_state: "reachable init step s \<Longrightarrow> step s s' \<Longrightarrow> reachable init step s'"

text \<open>The interface of a system with an inductive invariant.\<close>

locale inductive_invariant =
  fixes init :: "'s \<Rightarrow> bool"
    and step :: "'s \<Rightarrow> 's \<Rightarrow> bool"
    and inv :: "'s \<Rightarrow> bool"
  assumes init_inv: "init s \<Longrightarrow> inv s"
    and step_inv: "inv s \<Longrightarrow> step s s' \<Longrightarrow> inv s'"
begin

lemma reachable_inv: "reachable init step s \<Longrightarrow> inv s"
  by (induction rule: reachable.induct) (auto intro: init_inv step_inv)

end

end
