(* ===== verification/Crypto.thy ===== *)
theory Crypto
  imports Prelude
begin

text \<open>
  internal/crypto/crypto.go: sealing of provider secrets under the master key, the key
  fingerprint and the masked form shown to clients. AES-GCM, base64 and HMAC-SHA256 are the
  fields of the argument \<open>crypto_prims\<close>; what the code relies on is stated as hypotheses where
  it is used (opening what was sealed with the same nonce, decoding what was encoded).
\<close>

record crypto_prims =
  nonce_size :: nat
  gcm_seal :: "string \<Rightarrow> string \<Rightarrow> string \<Rightarrow> string"
  gcm_open :: "string \<Rightarrow> string \<Rightarrow> string \<Rightarrow> string option"
  b64_encode :: "string \<Rightarrow> string"
  b64_decode :: "string \<Rightarrow> string option"
  hmac_sha256 :: "string \<Rightarrow> string \<Rightarrow> string"

definition keyPrefix :: string where "keyPrefix = ''v1:''"

text \<open>gcm.Seal(nonce, nonce, plaintext, nil) appends the ciphertext to the nonce.\<close>

definition Encrypt :: "crypto_prims \<Rightarrow> string \<Rightarrow> string \<Rightarrow> string \<Rightarrow> string result" where
  "Encrypt c nonce master plaintext =
     (if length master \<noteq> 32 then Inl (OtherErr ''invalid master key'')
      else Inr (keyPrefix @ b64_encode c (nonce @ gcm_seal c master nonce plaintext)))"

definition Decrypt :: "crypto_prims \<Rightarrow> string \<Rightarrow> string \<Rightarrow> string result" where
  "Decrypt c master sealed =
     (if length master \<noteq> 32 then Inl (OtherErr ''invalid master key'')
      else case cut_prefix keyPrefix sealed of
        None \<Rightarrow> Inl (OtherErr ''decrypt ciphertext'')
      | Some enc \<Rightarrow> (case b64_decode c enc of
          None \<Rightarrow> Inl (OtherErr ''decrypt ciphertext'')
        | Some raw \<Rightarrow>
            if length raw < nonce_size c then Inl (OtherErr ''decrypt ciphertext'')
            else (case gcm_open c master (take (nonce_size c) raw) (drop (nonce_size c) raw) of
                None \<Rightarrow> Inl (OtherErr ''decrypt ciphertext'')
              | Some plain \<Rightarrow> Inr plain)))"

definition KeyFingerprint :: "crypto_prims \<Rightarrow> string \<Rightarrow> string \<Rightarrow> string" where
  "KeyFingerprint c master secret = hmac_sha256 c master (''pogu:provider_key:'' @ secret)"

definition last_n :: "nat \<Rightarrow> string \<Rightarrow> string" where
  "last_n n s = drop (length s - n) s"

definition MaskSecret :: "string \<Rightarrow> string" where
  "MaskSecret secret =
     (let s = trim_space secret in
      if s = [] then []
      else if length s \<le> 4 then ''****''
      else if length s \<le> 8 then ''...'' @ last_n 4 s
      else if has_prefix ''sk-'' s \<and> 10 \<le> length s then ''sk-...'' @ last_n 4 s
      else if 12 < length s then take 3 s @ ''...'' @ last_n 4 s
      else ''...'' @ last_n 4 s)"

lemma length_last_n [simp]: "n \<le> length s \<Longrightarrow> length (last_n n s) = n"
  by (simp add: last_n_def)

lemma Decrypt_Encrypt:
  assumes "\<And>n m p. gcm_open c m n (gcm_seal c m n p) = Some p"
    and "\<And>x. b64_decode c (b64_encode c x) = Some x"
    and "length nonce = nonce_size c" and "length master = 32"
  shows "bind_result (Encrypt c nonce master p) (Decrypt c master) = Inr p"
  using assms by (simp add: Encrypt_def Decrypt_def)

text \<open>
  The mask is a function of the last four bytes and, for secrets of more than twelve bytes without
  the sk- prefix, the first three: at most seven bytes of the secret are shown.
\<close>

lemma MaskSecret_depends:
  assumes "12 < length (trim_space a)" "12 < length (trim_space b)"
    and "take 3 (trim_space a) = take 3 (trim_space b)"
    and "last_n 4 (trim_space a) = last_n 4 (trim_space b)"
  shows "MaskSecret a = MaskSecret b"
proof -
  have "has_prefix ''sk-'' s \<longleftrightarrow> take 3 s = ''sk-''" for s
    by (cases s; cases "tl s"; cases "tl (tl s)")
       (auto simp: has_prefix_def numeral_3_eq_3)
  with assms show ?thesis by (auto simp: MaskSecret_def Let_def)
qed

lemma MaskSecret_length: "length (MaskSecret s) \<le> 10"
  by (auto simp: MaskSecret_def Let_def)

text \<open>
  The view of the cryptography the service operations take: the fingerprint of a secret, its sealed
  form (each call draws its own nonce, so a function of the secret) and the opening of a stored one,
  all under the service's master key.
\<close>

record crypto =
  c_fp :: "string \<Rightarrow> string"
  c_enc :: "string \<Rightarrow> string result"
  c_dec :: "string \<Rightarrow> string result"

definition crypto_with :: "crypto_prims \<Rightarrow> (string \<Rightarrow> string) \<Rightarrow> string \<Rightarrow> crypto" where
  "crypto_with p nonce master = \<lparr>c_fp = KeyFingerprint p master,
     c_enc = (\<lambda>s. Encrypt p (nonce s) master s), c_dec = Decrypt p master\<rparr>"

end
