(* ===== verification/Table.thy ===== *)
theory Table
  imports Prelude
begin

text \<open>
  The SQLite tables the service works on. A table is the list of its rows in rowid order with the
  value of its AUTOINCREMENT sequence: an INSERT takes the next value, which is never reused. The
  operations are the statement shapes of internal/service: INSERT, UPDATE ... WHERE,
  DELETE ... WHERE, SELECT ... WHERE id, COALESCE(MAX(..)) and ORDER BY position, id.

  The second half is the interface \<open>ordered_rows\<close> of every table whose rows carry a position that
  a reorder operation rewrites (group members, prompt rules, provider keys).
\<close>

section \<open>Rows and statements\<close>

type_synonym time = int

record 'r table =
  tbl_rows :: "'r list"
  tbl_seq :: int

definition empty_table :: "'r table" where
  "empty_table = \<lparr>tbl_rows = [], tbl_seq = 0\<rparr>"

definition tbl_insert :: "(int \<Rightarrow> 'r) \<Rightarrow> 'r table \<Rightarrow> 'r table" where
  "tbl_insert mk t = t\<lparr>tbl_rows := tbl_rows t @ [mk (tbl_seq t + 1)], tbl_seq := tbl_seq t + 1\<rparr>"

definition tbl_update :: "('r \<Rightarrow> bool) \<Rightarrow> ('r \<Rightarrow> 'r) \<Rightarrow> 'r table \<Rightarrow> 'r table" where
  "tbl_update p f t = t\<lparr>tbl_rows := map (\<lambda>r. if p r then f r else r) (tbl_rows t)\<rparr>"

definition tbl_delete :: "('r \<Rightarrow> bool) \<Rightarrow> 'r table \<Rightarrow> 'r table" where
  "tbl_delete p t = t\<lparr>tbl_rows := filter (\<lambda>r. \<not> p r) (tbl_rows t)\<rparr>"

definition tbl_find :: "('r \<Rightarrow> bool) \<Rightarrow> 'r table \<Rightarrow> 'r option" where
  "tbl_find p t = find p (tbl_rows t)"

text \<open>Whether a WHERE clause matches any row: RowsAffected, SELECT 1, and the UNIQUE checks.\<close>

definition tbl_exists :: "('r \<Rightarrow> bool) \<Rightarrow> 'r table \<Rightarrow> bool" where
  "tbl_exists p t = list_ex p (tbl_rows t)"

definition tbl_count :: "('r \<Rightarrow> bool) \<Rightarrow> 'r table \<Rightarrow> nat" where
  "tbl_count p t = length (filter p (tbl_rows t))"

text \<open>SELECT COALESCE(MAX(col), -1) ... WHERE p.\<close>

definition tbl_max :: "('r \<Rightarrow> int) \<Rightarrow> ('r \<Rightarrow> bool) \<Rightarrow> 'r table \<Rightarrow> int" where
  "tbl_max col p t =
     (case filter p (tbl_rows t) of [] \<Rightarrow> - 1 | r # rs \<Rightarrow> fold (\<lambda>r m. max m (col r)) rs (col r))"

lemmas tbl_defs = tbl_insert_def tbl_update_def tbl_delete_def tbl_find_def tbl_exists_def
  tbl_count_def tbl_max_def empty_table_def

lemma tbl_rows_simps [simp]:
  "tbl_rows empty_table = []"
  "tbl_rows (tbl_insert mk t) = tbl_rows t @ [mk (tbl_seq t + 1)]"
  "tbl_rows (tbl_update p f t) = map (\<lambda>r. if p r then f r else r) (tbl_rows t)"
  "tbl_rows (tbl_delete p t) = filter (\<lambda>r. \<not> p r) (tbl_rows t)"
  "tbl_seq empty_table = 0"
  "tbl_seq (tbl_insert mk t) = tbl_seq t + 1"
  "tbl_seq (tbl_update p f t) = tbl_seq t"
  "tbl_seq (tbl_delete p t) = tbl_seq t"
  by (simp_all add: tbl_defs)

lemma tbl_exists_iff: "tbl_exists p t \<longleftrightarrow> (\<exists>r \<in> set (tbl_rows t). p r)"
  by (simp add: tbl_exists_def list_ex_iff)

lemma tbl_exists_update:
  "(\<And>r. p (f r) = p r) \<Longrightarrow> tbl_exists p (tbl_update w f t) = tbl_exists p t"
  by (auto simp: tbl_exists_iff)

lemma tbl_find_Some: "tbl_find p t = Some r \<Longrightarrow> r \<in> set (tbl_rows t) \<and> p r"
  unfolding tbl_find_def by (rule find_Some_in)

lemma tbl_find_None: "tbl_find p t = None \<longleftrightarrow> \<not> tbl_exists p t"
  by (simp add: tbl_find_def tbl_exists_iff find_None_all)

lemma fold_max_ge: "(m :: int) \<le> fold (\<lambda>r m. max m (col r)) rs m"
proof (induction rs arbitrary: m)
  case (Cons a rs)
  have "m \<le> max m (col a)" by simp
  also have "\<dots> \<le> fold (\<lambda>r m. max m (col r)) rs (max m (col a))" by (rule Cons.IH)
  finally show ?case by (simp add: max.commute)
qed simp

lemma fold_max_in: "r \<in> set rs \<Longrightarrow> (col r :: int) \<le> fold (\<lambda>r m. max m (col r)) rs m"
proof (induction rs arbitrary: m)
  case (Cons a rs)
  then show ?case
    using fold_max_ge [of "max m (col a)" col rs] by (auto intro: order_trans [rotated])
qed simp

lemma tbl_max_ge: "r \<in> set (tbl_rows t) \<Longrightarrow> p r \<Longrightarrow> col r \<le> tbl_max col p t"
proof -
  assume "r \<in> set (tbl_rows t)" "p r"
  then have r: "r \<in> set (filter p (tbl_rows t))" by simp
  then obtain a rs where "filter p (tbl_rows t) = a # rs" by (cases "filter p (tbl_rows t)") auto
  with r show ?thesis
    using fold_max_in [of r rs col "col a"] fold_max_ge [of "col a" col rs]
    by (auto simp: tbl_max_def)
qed

section \<open>Row identity\<close>

definition ids_ok :: "('r \<Rightarrow> int) \<Rightarrow> 'r table \<Rightarrow> bool" where
  "ids_ok rid t \<longleftrightarrow> distinct (map rid (tbl_rows t)) \<and>
     (\<forall>r \<in> set (tbl_rows t). 0 < rid r \<and> rid r \<le> tbl_seq t) \<and> 0 \<le> tbl_seq t"

lemma ids_ok_empty [simp]: "ids_ok rid empty_table"
  by (simp add: ids_ok_def)

lemma ids_ok_insert [intro]:
  "ids_ok rid t \<Longrightarrow> (\<And>i. rid (mk i) = i) \<Longrightarrow> ids_ok rid (tbl_insert mk t)"
  by (force simp: ids_ok_def)

lemma ids_ok_update [intro]:
  "ids_ok rid t \<Longrightarrow> (\<And>r. rid (f r) = rid r) \<Longrightarrow> ids_ok rid (tbl_update p f t)"
  by (auto simp: ids_ok_def comp_def if_distrib cong: if_cong)

lemma ids_ok_delete [intro]: "ids_ok rid t \<Longrightarrow> ids_ok rid (tbl_delete p t)"
  by (auto simp: ids_ok_def distinct_map intro: inj_on_subset)

lemma ids_ok_unique:
  "ids_ok rid t \<Longrightarrow> r \<in> set (tbl_rows t) \<Longrightarrow> r' \<in> set (tbl_rows t) \<Longrightarrow> rid r = rid r' \<Longrightarrow> r = r'"
  by (auto simp: ids_ok_def distinct_map dest: inj_onD)

lemma ids_ok_fresh: "ids_ok rid t \<Longrightarrow> r \<in> set (tbl_rows t) \<Longrightarrow> rid r \<noteq> tbl_seq t + 1"
  by (auto simp: ids_ok_def)

lemma tbl_find_id:
  assumes "ids_ok rid t" and "r \<in> set (tbl_rows t)"
  shows "tbl_find (\<lambda>x. rid x = rid r) t = Some r"
proof -
  have "tbl_exists (\<lambda>x. rid x = rid r) t" using assms(2) by (auto simp: tbl_exists_iff)
  then obtain x where x: "tbl_find (\<lambda>x. rid x = rid r) t = Some x"
    using tbl_find_None by fastforce
  then have "x \<in> set (tbl_rows t)" "rid x = rid r" using tbl_find_Some [OF x] by auto
  with assms x show ?thesis using ids_ok_unique by metis
qed

lemma tbl_find_insert_new:
  assumes "ids_ok rid t" and "\<And>i. rid (mk i) = i"
  shows "tbl_find (\<lambda>x. rid x = tbl_seq t + 1) (tbl_insert mk t) = Some (mk (tbl_seq t + 1))"
proof -
  have "ids_ok rid (tbl_insert mk t)" using assms by (rule ids_ok_insert)
  then show ?thesis using tbl_find_id [of rid "tbl_insert mk t" "mk (tbl_seq t + 1)"] assms(2) by simp
qed

text \<open>SELECT by primary key: the first row with the id.\<close>

lemma tbl_find_update_id:
  assumes "ids_ok rid t" and "tbl_find (\<lambda>x. rid x = i) t = Some r" and "\<And>r. rid (f r) = rid r"
  shows "tbl_find (\<lambda>x. rid x = i) (tbl_update (\<lambda>x. rid x = i) f t) = Some (f r)"
proof -
  from tbl_find_Some [OF assms(2)] have r: "r \<in> set (tbl_rows t)" "rid r = i" by auto
  then have "f r \<in> set (tbl_rows (tbl_update (\<lambda>x. rid x = i) f t))" by force
  moreover have "ids_ok rid (tbl_update (\<lambda>x. rid x = i) f t)" using assms by blast
  ultimately show ?thesis using tbl_find_id [of rid _ "f r"] r assms(3) by metis
qed

section \<open>ORDER BY position, id\<close>

definition tbl_order :: "('r \<Rightarrow> int) \<Rightarrow> ('r \<Rightarrow> int) \<Rightarrow> ('r \<Rightarrow> bool) \<Rightarrow> 'r table \<Rightarrow> 'r list" where
  "tbl_order pos rid p t = sort_key (\<lambda>r. (pos r, rid r)) (filter p (tbl_rows t))"

lemma set_tbl_order [simp]: "set (tbl_order pos rid p t) = {r \<in> set (tbl_rows t). p r}"
  and length_tbl_order [simp]: "length (tbl_order pos rid p t) = tbl_count p t"
  by (simp_all add: tbl_order_def tbl_count_def)

lemma mset_tbl_order: "mset (tbl_order pos rid p t) = mset (filter p (tbl_rows t))"
  by (simp add: tbl_order_def)

lemma distinct_ids_tbl_order:
  "ids_ok rid t \<Longrightarrow> distinct (map rid (tbl_order pos rid p t))"
proof -
  assume "ids_ok rid t"
  then have "distinct (map rid (filter p (tbl_rows t)))"
    by (auto simp: ids_ok_def distinct_map_filter)
  moreover have "mset (map rid (tbl_order pos rid p t)) = mset (map rid (filter p (tbl_rows t)))"
    by (simp add: tbl_order_def)
  ultimately show ?thesis by (metis mset_eq_imp_distinct_iff)
qed

lemma sorted_map_fst_of:
  "sorted (map (\<lambda>r. (a r :: int, b r :: int)) xs) \<Longrightarrow> sorted (map a xs)"
  by (induction xs) auto

text \<open>
  The validation loop shared by ReorderGroupMembers and ReorderPromptRules: the maps current and
  seen, and the early return on an unknown or repeated id.
\<close>

fun order_loop :: "int set \<Rightarrow> int set \<Rightarrow> int list \<Rightarrow> bool" where
  "order_loop current seen [] = True"
| "order_loop current seen (i # ids) =
     (if i \<notin> current \<or> i \<in> seen then False else order_loop current (insert i seen) ids)"

definition order_valid :: "int list \<Rightarrow> int list \<Rightarrow> bool" where
  "order_valid ids existing \<longleftrightarrow> length ids = length existing \<and> order_loop (set existing) {} ids"

lemma order_loop_iff:
  "order_loop current seen ids \<longleftrightarrow> set ids \<subseteq> current \<and> distinct ids \<and> set ids \<inter> seen = {}"
  by (induction current seen ids rule: order_loop.induct) auto

lemma order_valid_iff:
  assumes "distinct existing"
  shows "order_valid ids existing \<longleftrightarrow> mset ids = mset existing"
proof
  assume v: "order_valid ids existing"
  then have d: "distinct ids" "set ids \<subseteq> set existing" "length ids = length existing"
    by (auto simp: order_valid_def order_loop_iff)
  have "card (set ids) = card (set existing)"
    using d(1,3) assms by (simp add: distinct_card)
  then have "set ids = set existing" using d(2) by (simp add: card_subset_eq)
  then show "mset ids = mset existing"
    using assms d(1) set_eq_iff_mset_eq_distinct by blast
next
  assume m: "mset ids = mset existing"
  have "distinct ids" using mset_eq_imp_distinct_iff [OF m] assms by simp
  then show "order_valid ids existing"
    using mset_eq_length [OF m] mset_eq_setD [OF m]
    by (simp add: order_valid_def order_loop_iff)
qed

text \<open>The UPDATE loop: position 0, 1, 2, ... written to the listed ids.\<close>

fun reposition :: "(int \<Rightarrow> 'r \<Rightarrow> bool) \<Rightarrow> (int \<Rightarrow> 'r \<Rightarrow> 'r) \<Rightarrow> int \<Rightarrow> int list \<Rightarrow> 'r table \<Rightarrow> 'r table"
where
  "reposition match setp p [] t = t"
| "reposition match setp p (i # ids) t =
     reposition match setp (p + 1) ids (tbl_update (match i) (setp p) t)"

fun order_pos :: "int \<Rightarrow> int list \<Rightarrow> int \<Rightarrow> int option" where
  "order_pos p [] i = None"
| "order_pos p (j # js) i = (if i = j then Some p else order_pos (p + 1) js i)"

lemma order_pos_None [simp]: "order_pos p ids i = None \<longleftrightarrow> i \<notin> set ids"
  by (induction p ids i rule: order_pos.induct) auto

lemma order_pos_ge: "order_pos p ids i = Some q \<Longrightarrow> p \<le> q"
  by (induction p ids i rule: order_pos.induct) (auto split: if_splits)

lemma order_pos_sorted:
  "distinct ids \<Longrightarrow> sorted (map (\<lambda>i. the (order_pos p ids i)) ids)"
proof (induction ids arbitrary: p)
  case (Cons j js)
  then have *: "map (\<lambda>i. the (order_pos p (j # js) i)) js = map (\<lambda>i. the (order_pos (p + 1) js i)) js"
    by (auto intro!: map_cong)
  have "p \<le> the (order_pos (p + 1) js i)" if "i \<in> set js" for i
    using that order_pos_None [of "p + 1" js i] order_pos_ge [of "p + 1" js i]
    by (cases "order_pos (p + 1) js i") auto
  moreover have "sorted (map (\<lambda>i. the (order_pos (p + 1) js i)) js)" using Cons by simp
  ultimately show ?case by (simp only: list.map * sorted_simps) auto
qed simp

lemma order_pos_inj:
  "order_pos p ids i = Some q \<Longrightarrow> order_pos p ids j = Some q \<Longrightarrow> i = j"
proof (induction ids arbitrary: p)
  case (Cons a ids)
  have "\<not> p + 1 \<le> p" by simp
  then show ?case
    using Cons order_pos_ge [of "p + 1" ids i q] order_pos_ge [of "p + 1" ids j q]
    by (simp split: if_splits)
qed simp

text \<open>
  The interface of a positioned table: a row's id, its position, the scope it is listed under, the
  WHERE clause of the reorder's UPDATE and its effect on the row.
\<close>

locale ordered_rows =
  fixes rid :: "'r \<Rightarrow> int"
    and pos :: "'r \<Rightarrow> int"
    and scope :: "'r \<Rightarrow> int"
    and match :: "int \<Rightarrow> int \<Rightarrow> 'r \<Rightarrow> bool"
    and set_pos :: "time \<Rightarrow> int \<Rightarrow> 'r \<Rightarrow> 'r"
  assumes rid_set_pos [simp]: "rid (set_pos now q r) = rid r"
    and pos_set_pos [simp]: "pos (set_pos now q r) = q"
    and scope_set_pos [simp]: "scope (set_pos now q r) = scope r"
    and match_rid: "match s i r \<Longrightarrow> rid r = i"
    and match_scope: "scope r = s \<Longrightarrow> rid r = i \<Longrightarrow> match s i r"
begin

lemma rows_reposition:
  "distinct ids \<Longrightarrow> (\<And>q r i. match s i (set_pos now q r) = match s i r) \<Longrightarrow>
   tbl_rows (reposition (match s) (set_pos now) p ids t) =
     map (\<lambda>r. case order_pos p ids (rid r) of None \<Rightarrow> r
            | Some q \<Rightarrow> if match s (rid r) r then set_pos now q r else r) (tbl_rows t)"
proof (induction ids arbitrary: p t)
  case (Cons i ids)
  let ?g = "\<lambda>r. case order_pos (p + 1) ids (rid r) of None \<Rightarrow> r
            | Some q \<Rightarrow> if match s (rid r) r then set_pos now q r else r"
  let ?h = "\<lambda>r. case order_pos p (i # ids) (rid r) of None \<Rightarrow> r
            | Some q \<Rightarrow> if match s (rid r) r then set_pos now q r else r"
  have key: "?g (if match s i r then set_pos now p r else r) = ?h r" for r
  proof (cases "match s i r")
    case True
    have "order_pos (p + 1) ids (rid r) = None" using Cons.prems(1) match_rid [OF True] by simp
    with True match_rid [OF True] show ?thesis by (simp del: order_pos_None)
  next
    case False
    then show ?thesis by (cases "rid r = i") (use Cons.prems(1) in \<open>auto split: option.split\<close>)
  qed
  have "tbl_rows (reposition (match s) (set_pos now) p (i # ids) t) =
      map ?g (map (\<lambda>r. if match s i r then set_pos now p r else r) (tbl_rows t))"
    using Cons.IH [OF _ Cons.prems(2), of "p + 1" "tbl_update (match s i) (set_pos now p) t"]
      Cons.prems(1) by simp
  also have "\<dots> = map ?h (tbl_rows t)"
    unfolding list.map_comp by (rule map_cong [OF refl]) (simp only: comp_apply key)
  finally show ?case .
qed simp

lemma ids_ok_reposition:
  "ids_ok rid t \<Longrightarrow> ids_ok rid (reposition (match s) (set_pos now) p ids t)"
proof (induction ids arbitrary: p t)
  case (Cons i ids)
  then show ?case by (simp add: ids_ok_update)
qed simp

lemma order_reposition:
  assumes ok: "ids_ok rid t"
    and stable: "\<And>q r i. match s i (set_pos now q r) = match s i r"
    and perm: "mset ids = mset (map rid (tbl_order pos rid (\<lambda>r. scope r = s) t))"
  shows "map rid (tbl_order pos rid (\<lambda>r. scope r = s)
           (reposition (match s) (set_pos now) 0 ids t)) = ids"
proof -
  let ?t' = "reposition (match s) (set_pos now) 0 ids t"
  let ?idx = "\<lambda>i. the (order_pos 0 ids i)"
  let ?S = "tbl_order pos rid (\<lambda>r. scope r = s) ?t'"
  have d: "distinct ids"
    using perm distinct_ids_tbl_order [OF ok, of pos] by (metis mset_eq_imp_distinct_iff)
  have ids: "set ids = rid ` {r \<in> set (tbl_rows t). scope r = s}"
    using mset_eq_setD [OF perm] by simp
  let ?f = "\<lambda>r. case order_pos 0 ids (rid r) of None \<Rightarrow> r
            | Some q \<Rightarrow> if match s (rid r) r then set_pos now q r else r"
  have rows: "tbl_rows ?t' = map ?f (tbl_rows t)" by (rule rows_reposition [OF d stable])
  have rid_f: "rid (?f r) = rid r" and scope_f: "scope (?f r) = scope r" for r
    by (auto split: option.split)
  have pos_f: "pos (?f r) = ?idx (rid r)" if "r \<in> set (tbl_rows t)" "scope r = s" for r
    using that ids match_scope [of r s "rid r"] by (auto split: option.split)
  have pos': "pos r = ?idx (rid r)" if "r \<in> set ?S" for r
  proof -
    from that have "r \<in> set (tbl_rows ?t')" "scope r = s" by simp_all
    then obtain r0 where "r0 \<in> set (tbl_rows t)" "r = ?f r0" "scope r = s"
      unfolding rows set_map by blast
    then show ?thesis using pos_f [of r0] rid_f [of r0] scope_f [of r0] by simp
  qed
  have "mset (map rid ?S) = mset (map rid (filter (\<lambda>r. scope r = s) (map ?f (tbl_rows t))))"
    by (simp add: tbl_order_def rows)
  also have "filter (\<lambda>r. scope r = s) (map ?f (tbl_rows t)) =
      map ?f (filter (\<lambda>r. scope r = s) (tbl_rows t))"
    by (rule map_filter_comm) (rule arg_cong [OF scope_f])
  also have "mset (map rid (map ?f (filter (\<lambda>r. scope r = s) (tbl_rows t)))) = mset ids"
    using perm rid_f by (simp add: tbl_order_def comp_def)
  finally have m: "mset (map rid ?S) = mset ids" .
  have "sorted (map (\<lambda>r. (pos r, rid r)) ?S)" by (simp add: tbl_order_def)
  then have "sorted (map pos ?S)" by (rule sorted_map_fst_of)
  also have "map pos ?S = map ?idx (map rid ?S)"
    unfolding list.map_comp by (rule map_cong [OF refl]) (simp only: comp_apply pos')
  finally have "sorted (map ?idx (map rid ?S))" .
  then have "sort_key ?idx (map rid ?S) = map rid ?S" by (rule sort_key_id_if_sorted)
  moreover have "sort_key ?idx (map rid ?S) = ids"
  proof (rule sort_key_inj_key_eq [OF m])
    have "set (map rid ?S) = set ids" using m by (rule mset_eq_setD)
    then show "inj_on ?idx (set (map rid ?S))"
      using order_pos_inj [of 0 ids] order_pos_None [of 0 ids]
      by (intro inj_onI) (metis option.collapse)
    show "sorted (map ?idx ids)" by (rule order_pos_sorted [OF d])
  qed
  ultimately show ?thesis by simp
qed

end

end
