(* ===== verification/Types.thy ===== *)
theory Types
  imports Prelude
begin

text \<open>
  internal/service/types.go and internal/service/validate.go: the string-valued enumerations
  with their Valid methods, the effective upstream scheme of a model, and the input validators
  of providers, models and groups. The regular expressions are written out as the byte
  conditions they denote. url.ParseRequestURI is the argument \<open>parse\<close> of the URL check: it
  returns None for its error and otherwise the parts the validator inspects.
\<close>

section \<open>Enumerations\<close>

type_synonym provider_type = string
type_synonym key_selection = string
type_synonym scheme = string

definition ProviderOpenAI :: provider_type where "ProviderOpenAI = ''openai''"
definition ProviderOpenAIResponses :: provider_type where
  "ProviderOpenAIResponses = ''openai-responses''"
definition ProviderAnthropic :: provider_type where "ProviderAnthropic = ''anthropic''"

definition provider_type_valid :: "provider_type \<Rightarrow> bool" where
  "provider_type_valid t \<longleftrightarrow>
     t = ProviderOpenAI \<or> t = ProviderOpenAIResponses \<or> t = ProviderAnthropic"

definition KeySelectionFirst :: key_selection where "KeySelectionFirst = ''first''"
definition KeySelectionRoundRobin :: key_selection where
  "KeySelectionRoundRobin = ''round_robin''"

definition key_selection_valid :: "key_selection \<Rightarrow> bool" where
  "key_selection_valid s \<longleftrightarrow> s = KeySelectionFirst \<or> s = KeySelectionRoundRobin"

definition SchemeOpenAI :: scheme where "SchemeOpenAI = ''openai''"
definition SchemeOpenAIResponses :: scheme where "SchemeOpenAIResponses = ''openai-responses''"
definition SchemeAnthropic :: scheme where "SchemeAnthropic = ''anthropic''"

definition scheme_valid :: "scheme \<Rightarrow> bool" where
  "scheme_valid s \<longleftrightarrow>
     s = '''' \<or> s = SchemeOpenAI \<or> s = SchemeOpenAIResponses \<or> s = SchemeAnthropic"

definition ValidModelScheme :: "string \<Rightarrow> bool" where
  "ValidModelScheme s = scheme_valid s"

definition DefaultScheme :: "provider_type \<Rightarrow> scheme" where
  "DefaultScheme t = (if t = ProviderAnthropic then SchemeAnthropic else SchemeOpenAI)"

text \<open>EffectiveScheme reads the provider's type and the model's pinned scheme.\<close>

definition EffectiveScheme :: "provider_type \<Rightarrow> scheme \<Rightarrow> scheme" where
  "EffectiveScheme ptype mscheme =
     (if scheme_valid mscheme \<and> mscheme \<noteq> '''' then mscheme else DefaultScheme ptype)"

lemmas enum_defs = ProviderOpenAI_def ProviderOpenAIResponses_def ProviderAnthropic_def
  KeySelectionFirst_def KeySelectionRoundRobin_def
  SchemeOpenAI_def SchemeOpenAIResponses_def SchemeAnthropic_def

lemma key_selection_valid_consts [simp]:
  "key_selection_valid KeySelectionFirst" "key_selection_valid KeySelectionRoundRobin"
  "KeySelectionFirst \<noteq> KeySelectionRoundRobin"
  by (simp_all add: key_selection_valid_def enum_defs)

lemma EffectiveScheme_valid:
  "scheme_valid (EffectiveScheme t s) \<and> EffectiveScheme t s \<noteq> ''''"
  by (auto simp: EffectiveScheme_def DefaultScheme_def scheme_valid_def enum_defs)

section \<open>Identifier patterns\<close>

definition lower_alnum :: "char \<Rightarrow> bool" where
  "lower_alnum c \<longleftrightarrow> is_lower c \<or> is_digit c"

text \<open>prefixPattern: first and last byte lowercase alphanumeric, 1 to 32 bytes, hyphens inside.\<close>

definition prefixPattern :: "string \<Rightarrow> bool" where
  "prefixPattern s \<longleftrightarrow> s \<noteq> [] \<and> length s \<le> 32 \<and> lower_alnum (hd s) \<and> lower_alnum (last s) \<and>
     list_all (\<lambda>c. lower_alnum c \<or> c = CHR ''-'') s"

definition ValidProviderPrefix :: "string \<Rightarrow> bool" where
  "ValidProviderPrefix s = prefixPattern s"

text \<open>groupNamePattern of internal/service/groups.go.\<close>

definition groupNamePattern :: "string \<Rightarrow> bool" where
  "groupNamePattern s \<longleftrightarrow> s \<noteq> [] \<and> length s \<le> 64 \<and> lower_alnum (hd s) \<and> lower_alnum (last s) \<and>
     list_all (\<lambda>c. lower_alnum c \<or> c = CHR ''.'' \<or> c = CHR ''_'' \<or> c = CHR ''-'') s"

definition model_char :: "char \<Rightarrow> bool" where
  "model_char c \<longleftrightarrow> c \<noteq> CHR 0x5C \<and> 32 < code_of c"

definition modelPattern :: "string \<Rightarrow> bool" where
  "modelPattern s \<longleftrightarrow> s \<noteq> [] \<and> list_all model_char s"

definition modelSegment :: "string \<Rightarrow> bool" where
  "modelSegment s \<longleftrightarrow> s \<noteq> [] \<and> list_all (\<lambda>c. model_char c \<and> c \<noteq> CHR ''/'') s"

text \<open>
  keyNamePattern \<^verbatim>\<open>^Key\s+(\d+)$\<close>: the captured digits. The class s of Go's regexp package does not
  contain the vertical tab.
\<close>

definition regex_space :: "char \<Rightarrow> bool" where
  "regex_space c \<longleftrightarrow> (let n = code_of c in n = 9 \<or> n = 10 \<or> n = 12 \<or> n = 13 \<or> n = 32)"

definition keyNamePattern :: "string \<Rightarrow> string option" where
  "keyNamePattern s = (case cut_prefix ''Key'' s of
     None \<Rightarrow> None
   | Some r \<Rightarrow>
       (let ds = dropWhile regex_space r in
        if r \<noteq> [] \<and> regex_space (hd r) \<and> ds \<noteq> [] \<and> list_all is_digit ds then Some ds else None))"

lemma lower_alnum_not [simp]:
  "\<not> lower_alnum CHR ''/''" "\<not> lower_alnum CHR ''-''" "\<not> lower_alnum CHR '' ''"
  by (simp_all add: lower_alnum_def is_lower_def is_digit_def code_of_def)

lemma lower_alnum_not_space: "lower_alnum c \<Longrightarrow> \<not> is_space c"
  by (auto simp: lower_alnum_def is_lower_def is_digit_def is_space_def Let_def)

lemma prefix_no_slash: "prefixPattern s \<Longrightarrow> CHR ''/'' \<notin> set s"
  by (auto simp: prefixPattern_def list_all_iff)

lemma groupName_no_slash: "groupNamePattern s \<Longrightarrow> CHR ''/'' \<notin> set s"
  by (auto simp: groupNamePattern_def list_all_iff)

lemma lower_alnum_lower_char: "lower_alnum c \<Longrightarrow> lower_char c = c"
  by (auto simp: lower_alnum_def is_lower_def is_digit_def lower_char_def Let_def)

lemma lower_char_punct [simp]:
  "lower_char CHR ''.'' = CHR ''.''" "lower_char CHR ''_'' = CHR ''_''"
  "lower_char CHR ''-'' = CHR ''-''"
  by (simp_all add: lower_char_def code_of_def)

lemma groupName_lower: "groupNamePattern s \<Longrightarrow> to_lower s = s"
  by (auto simp: groupNamePattern_def list_all_iff to_lower_def lower_alnum_lower_char
      intro!: map_idI)

lemma prefix_lower: "prefixPattern s \<Longrightarrow> to_lower s = s"
  by (auto simp: prefixPattern_def list_all_iff to_lower_def lower_alnum_lower_char
      intro!: map_idI)

lemma prefix_trimmed: "prefixPattern s \<Longrightarrow> trim_space s = s"
  unfolding trim_space_def prefixPattern_def
  by (rule trim_func_id) (auto dest: lower_alnum_not_space)

lemma keyNamePattern_Key: "keyNamePattern (''Key '' @ nat_to_dec n) = Some (nat_to_dec n)"
proof -
  obtain c r where cr: "nat_to_dec n = c # r" "is_digit c" using nat_to_dec_first by blast
  then have "\<not> regex_space c" by (auto simp: is_digit_def regex_space_def Let_def)
  moreover have "regex_space CHR '' ''" by (simp add: regex_space_def code_of_def)
  ultimately show ?thesis
    using cr nat_to_dec_digits [of n] by (simp add: keyNamePattern_def Let_def)
qed

section \<open>Validators\<close>

record url_parts =
  u_scheme :: string
  u_host :: string
  u_has_user :: bool
  u_raw_query :: string
  u_fragment :: string

definition validateProviderNameTypeURL ::
  "(string \<Rightarrow> url_parts option) \<Rightarrow> string \<Rightarrow> provider_type \<Rightarrow> string \<Rightarrow> unit result" where
  "validateProviderNameTypeURL parse name typ baseURL =
     (if trim_space name = [] \<or> 200 < rune_count (trim_space name)
      then Inl (ErrValidation ''name is required and must be at most 200 characters'')
      else if \<not> provider_type_valid typ
      then Inl (ErrValidation ''type must be openai, openai-responses, or anthropic'')
      else (case parse (trim_space baseURL) of
          None \<Rightarrow> Inl (ErrValidation ''base_url must be an absolute http(s) URL without credentials or query parameters'')
        | Some u \<Rightarrow>
            if (u_scheme u \<noteq> ''http'' \<and> u_scheme u \<noteq> ''https'') \<or> u_host u = [] \<or>
               u_has_user u \<or> u_raw_query u \<noteq> [] \<or> u_fragment u \<noteq> []
            then Inl (ErrValidation ''base_url must be an absolute http(s) URL without credentials or query parameters'')
            else Inr ()))"

definition validateProviderInput ::
  "(string \<Rightarrow> url_parts option) \<Rightarrow> string \<Rightarrow> provider_type \<Rightarrow> string \<Rightarrow> string \<Rightarrow> unit result" where
  "validateProviderInput parse name typ prefix baseURL =
     bind_result (validateProviderNameTypeURL parse name typ baseURL) (\<lambda>_.
       if \<not> prefixPattern prefix
       then Inl (ErrValidation ''prefix must use lowercase letters, numbers, and hyphens'')
       else Inr ())"

definition validateModelName :: "string \<Rightarrow> unit result" where
  "validateModelName name =
     (if \<not> modelPattern name \<or> 300 < rune_count name
      then Inl (ErrValidation ''model name must be 1-300 non-whitespace characters'')
      else if list_all modelSegment (split_on (CHR ''/'') name) then Inr ()
      else Inl (ErrValidation ''model name must not contain empty slash-delimited segments''))"

lemma validateProviderInput_ok:
  "validateProviderInput parse name typ prefix url = Inr () \<Longrightarrow>
     trim_space name \<noteq> [] \<and> provider_type_valid typ \<and> prefixPattern prefix"
  by (auto simp: validateProviderInput_def validateProviderNameTypeURL_def bind_result_def
      split: if_splits option.splits sum.splits)

lemma validateModelName_ok:
  "validateModelName name = Inr () \<longleftrightarrow>
     modelPattern name \<and> rune_count name \<le> 300 \<and>
     list_all modelSegment (split_on (CHR ''/'') name)"
  by (auto simp: validateModelName_def)

lemma modelPattern_neq_Nil: "modelPattern s \<Longrightarrow> s \<noteq> []"
  by (simp add: modelPattern_def)

end
