(* ===== verification/Store.thy ===== *)
theory Store
  imports Table Types
begin

text \<open>
  internal/store/schema.go and the Service value of internal/service/service.go: one row record per
  table, the database as the record of its tables, the foreign keys' ON DELETE CASCADE, the
  constraints of the schema as the predicate \<open>wf_store\<close>, and the service state (database, prompt
  cache, round-robin cursors). Columns written by boolInt and read with \<open>!= 0\<close> are booleans;
  timestamps are instants (nanoseconds); I/O failures of SQLite are not modelled, constraint
  violations are.
\<close>

section \<open>Rows\<close>

record provider_row =
  p_id :: int
  p_name :: string
  p_type :: string
  p_prefix :: string
  p_base_url :: string
  p_key_selection :: string
  p_enabled :: bool
  p_created :: time
  p_updated :: time

record key_row =
  pk_id :: int
  pk_provider :: int
  pk_name :: string
  pk_encrypted :: string
  pk_hash :: string
  pk_enabled :: bool
  pk_sort :: int
  pk_last_used :: "time option"
  pk_created :: time
  pk_updated :: time

record model_row =
  m_id :: int
  m_provider :: int
  m_name :: string
  m_scheme :: string
  m_enabled :: bool
  m_created :: time
  m_updated :: time

record client_key_row =
  ck_id :: int
  ck_name :: string
  ck_hash :: string
  ck_last_used :: "time option"
  ck_expires :: "time option"
  ck_revoked :: "time option"
  ck_created :: time

record admin_row =
  a_hash :: string
  a_created :: time
  a_updated :: time

record session_row =
  ss_hash :: string
  ss_created :: time
  ss_expires :: time

record group_row =
  g_id :: int
  g_name :: string
  g_selection :: string
  g_enabled :: bool
  g_created :: time
  g_updated :: time

record member_row =
  gm_id :: int
  gm_group :: int
  gm_model :: int
  gm_position :: int
  gm_enabled :: bool
  gm_created :: time
  gm_updated :: time

record rule_row =
  r_id :: int
  r_name :: string
  r_prompt :: string
  r_inherit :: bool
  r_enabled :: bool
  r_position :: int
  r_created :: time
  r_updated :: time

record target_row =
  t_id :: int
  t_rule :: int
  t_type :: string
  t_target :: int

record store =
  providers :: "provider_row table"
  provider_keys :: "key_row table"
  models :: "model_row table"
  client_keys :: "client_key_row table"
  admin :: "admin_row option"
  sessions :: "session_row list"
  groups :: "group_row table"
  group_members :: "member_row table"
  settings :: "string \<rightharpoonup> string"
  prompt_rules :: "rule_row table"
  prompt_rule_targets :: "target_row table"

definition empty_store :: store where
  "empty_store = \<lparr>providers = empty_table, provider_keys = empty_table, models = empty_table,
     client_keys = empty_table, admin = None, sessions = [], groups = empty_table,
     group_members = empty_table, settings = Map.empty, prompt_rules = empty_table,
     prompt_rule_targets = empty_table\<rparr>"

section \<open>ON DELETE CASCADE\<close>

definition delete_models_where :: "(model_row \<Rightarrow> bool) \<Rightarrow> store \<Rightarrow> store" where
  "delete_models_where p st = st\<lparr>
     models := tbl_delete p (models st),
     group_members :=
       tbl_delete (\<lambda>gm. tbl_exists (\<lambda>m. p m \<and> m_id m = gm_model gm) (models st)) (group_members st)\<rparr>"

definition delete_provider_row :: "int \<Rightarrow> store \<Rightarrow> store" where
  "delete_provider_row i st =
     (let st1 = delete_models_where (\<lambda>m. m_provider m = i) st
      in st1\<lparr>providers := tbl_delete (\<lambda>p. p_id p = i) (providers st1),
             provider_keys := tbl_delete (\<lambda>k. pk_provider k = i) (provider_keys st1)\<rparr>)"

definition delete_group_row :: "int \<Rightarrow> store \<Rightarrow> store" where
  "delete_group_row i st = st\<lparr>groups := tbl_delete (\<lambda>g. g_id g = i) (groups st),
     group_members := tbl_delete (\<lambda>gm. gm_group gm = i) (group_members st)\<rparr>"

definition delete_rule_row :: "int \<Rightarrow> store \<Rightarrow> store" where
  "delete_rule_row i st = st\<lparr>prompt_rules := tbl_delete (\<lambda>r. r_id r = i) (prompt_rules st),
     prompt_rule_targets := tbl_delete (\<lambda>t. t_rule t = i) (prompt_rule_targets st)\<rparr>"

section \<open>The schema's constraints\<close>

text \<open>UNIQUE (key): no two rows agree on the key.\<close>

definition unique_on :: "('r \<Rightarrow> 'k) \<Rightarrow> 'r table \<Rightarrow> bool" where
  "unique_on key t \<longleftrightarrow> distinct (map key (tbl_rows t))"

text \<open>REFERENCES: every row's foreign key is the id of a row of the parent table.\<close>

definition references :: "('r \<Rightarrow> int) \<Rightarrow> 'r table \<Rightarrow> ('q \<Rightarrow> int) \<Rightarrow> 'q table \<Rightarrow> bool" where
  "references fk t rid u \<longleftrightarrow> (\<forall>r \<in> set (tbl_rows t). \<exists>q \<in> set (tbl_rows u). rid q = fk r)"

definition all_rows :: "('r \<Rightarrow> bool) \<Rightarrow> 'r table \<Rightarrow> bool" where
  "all_rows p t \<longleftrightarrow> (\<forall>r \<in> set (tbl_rows t). p r)"

definition wf_providers :: "store \<Rightarrow> bool" where
  "wf_providers st \<longleftrightarrow> ids_ok p_id (providers st) \<and> unique_on p_prefix (providers st) \<and>
     all_rows (\<lambda>p. prefixPattern (p_prefix p) \<and> provider_type_valid (p_type p) \<and>
       key_selection_valid (p_key_selection p)) (providers st)"

definition wf_keys :: "store \<Rightarrow> bool" where
  "wf_keys st \<longleftrightarrow> ids_ok pk_id (provider_keys st) \<and>
     unique_on (\<lambda>k. (pk_provider k, pk_hash k)) (provider_keys st) \<and>
     references pk_provider (provider_keys st) p_id (providers st)"

definition wf_models :: "store \<Rightarrow> bool" where
  "wf_models st \<longleftrightarrow> ids_ok m_id (models st) \<and>
     unique_on (\<lambda>m. (m_provider m, m_name m)) (models st) \<and>
     references m_provider (models st) p_id (providers st) \<and>
     all_rows (\<lambda>m. validateModelName (m_name m) = Inr () \<and> scheme_valid (m_scheme m)) (models st)"

definition wf_groups :: "store \<Rightarrow> bool" where
  "wf_groups st \<longleftrightarrow> ids_ok g_id (groups st) \<and> unique_on (\<lambda>g. to_lower (g_name g)) (groups st) \<and>
     all_rows (\<lambda>g. groupNamePattern (g_name g) \<and> key_selection_valid (g_selection g)) (groups st)"

definition wf_members :: "store \<Rightarrow> bool" where
  "wf_members st \<longleftrightarrow> ids_ok gm_id (group_members st) \<and>
     unique_on (\<lambda>gm. (gm_group gm, gm_model gm)) (group_members st) \<and>
     references gm_group (group_members st) g_id (groups st) \<and>
     references gm_model (group_members st) m_id (models st)"

definition wf_rules :: "store \<Rightarrow> bool" where
  "wf_rules st \<longleftrightarrow> ids_ok r_id (prompt_rules st) \<and> ids_ok t_id (prompt_rule_targets st) \<and>
     unique_on (\<lambda>t. (t_type t, t_target t)) (prompt_rule_targets st) \<and>
     references t_rule (prompt_rule_targets st) r_id (prompt_rules st) \<and>
     all_rows (\<lambda>t. t_type t = ''group'' \<or> t_type t = ''model'') (prompt_rule_targets st)"

definition wf_clients :: "store \<Rightarrow> bool" where
  "wf_clients st \<longleftrightarrow> ids_ok ck_id (client_keys st) \<and> unique_on ck_hash (client_keys st) \<and>
     distinct (map ss_hash (sessions st))"

definition wf_store :: "store \<Rightarrow> bool" where
  "wf_store st \<longleftrightarrow> wf_providers st \<and> wf_keys st \<and> wf_models st \<and> wf_groups st \<and> wf_members st \<and>
     wf_rules st \<and> wf_clients st"

lemmas wf_defs = wf_providers_def wf_keys_def wf_models_def wf_groups_def wf_members_def
  wf_rules_def wf_clients_def

section \<open>Constraints under the statements\<close>

lemma unique_on_empty [simp]: "unique_on key empty_table"
  and references_empty [simp]: "references fk empty_table rid u"
  and all_rows_empty [simp]: "all_rows p empty_table"
  by (simp_all add: unique_on_def references_def all_rows_def)

lemma unique_on_insert:
  assumes "unique_on key t" and "\<not> tbl_exists (\<lambda>r. key r = key (mk (tbl_seq t + 1))) t"
  shows "unique_on key (tbl_insert mk t)"
  using assms by (auto simp: unique_on_def tbl_exists_iff)

lemma unique_on_delete: "unique_on key t \<Longrightarrow> unique_on key (tbl_delete p t)"
  by (auto simp: unique_on_def distinct_map intro: inj_on_subset)

lemma unique_on_update:
  "unique_on key t \<Longrightarrow> (\<And>r. key (f r) = key r) \<Longrightarrow> unique_on key (tbl_update p f t)"
  by (simp add: unique_on_def comp_def if_distrib cong: if_cong)

text \<open>UPDATE ... WHERE id=? of a UNIQUE column that no other row uses.\<close>

lemma unique_on_update_id:
  assumes u: "unique_on key t" and ok: "ids_ok rid t"
    and fk: "\<And>r. rid r = i \<Longrightarrow> key (f r) = k r"
    and free: "\<And>r. r \<in> set (tbl_rows t) \<Longrightarrow> rid r = i \<Longrightarrow>
       \<not> (\<exists>r' \<in> set (tbl_rows t). rid r' \<noteq> i \<and> key r' = k r)"
  shows "unique_on key (tbl_update (\<lambda>r. rid r = i) f t)"
proof -
  have d: "distinct (tbl_rows t)" using ok by (simp add: ids_ok_def distinct_map)
  have "inj_on (\<lambda>r. key (if rid r = i then f r else r)) (set (tbl_rows t))"
  proof (rule inj_onI)
    fix r r' assume r: "r \<in> set (tbl_rows t)" "r' \<in> set (tbl_rows t)"
      and eq: "key (if rid r = i then f r else r) = key (if rid r' = i then f r' else r')"
    have *: "\<And>a b. a \<in> set (tbl_rows t) \<Longrightarrow> b \<in> set (tbl_rows t) \<Longrightarrow> key a = key b \<Longrightarrow> a = b"
      using u by (auto simp: unique_on_def distinct_map dest: inj_onD)
    show "r = r'"
    proof (cases "rid r = i"; cases "rid r' = i")
      assume "rid r = i" "rid r' = i"
      then show ?thesis using ids_ok_unique [OF ok r] by simp
    next
      assume "rid r = i" "rid r' \<noteq> i"
      then show ?thesis using eq r free fk by fastforce
    next
      assume "rid r \<noteq> i" "rid r' = i"
      then show ?thesis using eq r free fk by fastforce
    next
      assume "rid r \<noteq> i" "rid r' \<noteq> i"
      then show ?thesis using eq r * by simp
    qed
  qed
  with d show ?thesis by (simp add: unique_on_def distinct_map comp_def inj_on_def)
qed

lemma references_insert:
  "references fk t rid u \<Longrightarrow> tbl_exists (\<lambda>q. rid q = fk (mk (tbl_seq t + 1))) u \<Longrightarrow>
     references fk (tbl_insert mk t) rid u"
  by (auto simp: references_def tbl_exists_iff)

lemma references_insert_parent:
  "references fk t rid u \<Longrightarrow> references fk t rid (tbl_insert mk u)"
  by (auto simp: references_def)

lemma references_update:
  "references fk t rid u \<Longrightarrow> (\<And>r. fk (f r) = fk r) \<Longrightarrow> references fk (tbl_update p f t) rid u"
  by (auto simp: references_def)

lemma references_update_parent:
  assumes "references fk t rid u" and "\<And>q. rid (f q) = rid q"
  shows "references fk t rid (tbl_update p f u)"
  unfolding references_def
proof
  fix r assume "r \<in> set (tbl_rows t)"
  then obtain q where q: "q \<in> set (tbl_rows u)" "rid q = fk r"
    using assms(1) by (auto simp: references_def)
  then have "(if p q then f q else q) \<in> set (tbl_rows (tbl_update p f u))" by simp
  moreover have "rid (if p q then f q else q) = fk r" using q assms(2) by simp
  ultimately show "\<exists>q\<in>set (tbl_rows (tbl_update p f u)). rid q = fk r" by blast
qed

lemma references_delete: "references fk t rid u \<Longrightarrow> references fk (tbl_delete p t) rid u"
  by (auto simp: references_def)

lemma references_cascade:
  assumes "references fk t rid u"
    and "\<And>r q. r \<in> set (tbl_rows t) \<Longrightarrow> q \<in> set (tbl_rows u) \<Longrightarrow> rid q = fk r \<Longrightarrow> p q \<Longrightarrow> d r"
  shows "references fk (tbl_delete d t) rid (tbl_delete p u)"
  using assms by (fastforce simp: references_def)

lemma all_rows_insert: "all_rows p t \<Longrightarrow> p (mk (tbl_seq t + 1)) \<Longrightarrow> all_rows p (tbl_insert mk t)"
  and all_rows_update: "all_rows p t \<Longrightarrow> (\<And>r. p r \<Longrightarrow> w r \<Longrightarrow> p (f r)) \<Longrightarrow> all_rows p (tbl_update w f t)"
  and all_rows_delete: "all_rows p t \<Longrightarrow> all_rows p (tbl_delete d t)"
  by (auto simp: all_rows_def)

lemmas constraint_intros = ids_ok_insert ids_ok_update ids_ok_delete
  unique_on_insert unique_on_update unique_on_delete
  references_insert references_insert_parent references_update references_update_parent
  references_delete all_rows_insert all_rows_update all_rows_delete

lemma wf_empty: "wf_store empty_store"
  by (simp add: wf_store_def wf_defs empty_store_def)

lemma wf_delete_models:
  assumes "wf_store st" shows "wf_store (delete_models_where p st)"
proof -
  have "references gm_model
      (tbl_delete (\<lambda>gm. tbl_exists (\<lambda>m. p m \<and> m_id m = gm_model gm) (models st)) (group_members st))
      m_id (tbl_delete p (models st))"
    by (rule references_cascade) (use assms in \<open>auto simp: wf_store_def wf_defs tbl_exists_iff\<close>)
  with assms show ?thesis
    by (auto simp: wf_store_def wf_defs delete_models_where_def
        intro: constraint_intros)
qed

lemma wf_delete_provider:
  assumes "wf_store st" shows "wf_store (delete_provider_row i st)"
proof -
  let ?s = "delete_models_where (\<lambda>m. m_provider m = i) st"
  have s: "wf_store ?s" using assms by (rule wf_delete_models)
  have k: "references pk_provider (tbl_delete (\<lambda>k. pk_provider k = i) (provider_keys ?s))
      p_id (tbl_delete (\<lambda>p. p_id p = i) (providers ?s))"
    by (rule references_cascade) (use s in \<open>auto simp: wf_store_def wf_defs\<close>)
  have "references m_provider (models ?s) p_id (providers ?s)" using s by (simp add: wf_store_def wf_defs)
  moreover have "\<And>m. m \<in> set (tbl_rows (models ?s)) \<Longrightarrow> m_provider m \<noteq> i"
    by (simp add: delete_models_where_def)
  ultimately have m: "references m_provider (models ?s) p_id (tbl_delete (\<lambda>p. p_id p = i) (providers ?s))"
    by (fastforce simp: references_def)
  from s k m show ?thesis
    unfolding delete_provider_row_def Let_def wf_store_def wf_defs
    by (auto intro: constraint_intros)
qed

lemma wf_delete_group:
  assumes "wf_store st" shows "wf_store (delete_group_row i st)"
proof -
  have "references gm_group (tbl_delete (\<lambda>gm. gm_group gm = i) (group_members st))
      g_id (tbl_delete (\<lambda>g. g_id g = i) (groups st))"
    by (rule references_cascade) (use assms in \<open>auto simp: wf_store_def wf_defs\<close>)
  with assms show ?thesis
    by (auto simp: wf_store_def wf_defs delete_group_row_def intro: constraint_intros)
qed

lemma wf_delete_rule:
  assumes "wf_store st" shows "wf_store (delete_rule_row i st)"
proof -
  have "references t_rule (tbl_delete (\<lambda>t. t_rule t = i) (prompt_rule_targets st))
      r_id (tbl_delete (\<lambda>r. r_id r = i) (prompt_rules st))"
    by (rule references_cascade) (use assms in \<open>auto simp: wf_store_def wf_defs\<close>)
  with assms show ?thesis
    by (auto simp: wf_store_def wf_defs delete_rule_row_def intro: constraint_intros)
qed

section \<open>The service value\<close>

text \<open>promptRule: the cached, target-resolved form of a rule (its Groups and Models maps as sets).\<close>

record cached_rule =
  c_id :: int
  c_name :: string
  c_prompt :: string
  c_inherit :: bool
  c_enabled :: bool
  c_position :: int
  c_groups :: "int set"
  c_models :: "int set"

record svc =
  db :: store
  promptLoaded :: bool
  promptRules :: "cached_rule list"
  rrCursors :: "string \<rightharpoonup> 64 word"

definition invalidatePromptRules :: "svc \<Rightarrow> svc" where
  "invalidatePromptRules s = s\<lparr>promptRules := [], promptLoaded := False\<rparr>"

definition with_db :: "(store \<Rightarrow> store) \<Rightarrow> svc \<Rightarrow> svc" where
  "with_db f s = s\<lparr>db := f (db s)\<rparr>"

lemma svc_simps [simp]:
  "db (invalidatePromptRules s) = db s"
  "rrCursors (invalidatePromptRules s) = rrCursors s"
  "db (with_db f s) = f (db s)"
  "promptLoaded (with_db f s) = promptLoaded s"
  "promptRules (with_db f s) = promptRules s"
  "rrCursors (with_db f s) = rrCursors s"
  by (simp_all add: invalidatePromptRules_def with_db_def)

end
