(* ===== verification/Round_Robin.thy ===== *)
theory Round_Robin
  imports Store
begin

text \<open>
  nextRoundRobinCursor of internal/service/service.go and the selection strategy that
  EligibleKeys (provider_keys.go) and ResolveGroupTargets (groups.go) share: keep the configured
  order, or start at the cursor and wrap around. The cursors are 64-bit unsigned and wrap.

  \<open>failover_order\<close> is the interface the gateway relies on: whatever the strategy, the list that is
  tried is a rearrangement of the eligible candidates.
\<close>

definition rr_key :: "string \<Rightarrow> int \<Rightarrow> string" where
  "rr_key domain i = domain @ '':'' @ int_to_dec i"

definition rr_current :: "string \<Rightarrow> svc \<Rightarrow> 64 word" where
  "rr_current key s = (case rrCursors s key of None \<Rightarrow> 0 | Some c \<Rightarrow> c)"

definition nextRoundRobinCursor :: "string \<Rightarrow> int \<Rightarrow> nat \<Rightarrow> svc \<Rightarrow> nat \<times> svc" where
  "nextRoundRobinCursor domain i n s =
     (if n \<le> 1 then (0, s)
      else (let key = rr_key domain i; curr = rr_current key s
            in (unat (curr mod word_of_nat n), s\<lparr>rrCursors := (rrCursors s)(key \<mapsto> curr + 1)\<rparr>)))"

definition order_candidates ::
  "string \<Rightarrow> int \<Rightarrow> key_selection \<Rightarrow> 'a list \<Rightarrow> svc \<Rightarrow> 'a list \<times> svc" where
  "order_candidates domain i sel xs s =
     (if sel = KeySelectionRoundRobin \<and> 1 < length xs
      then (let (cursor, s') = nextRoundRobinCursor domain i (length xs) s
            in (rotate_from cursor xs, s'))
      else (xs, s))"

section \<open>The cursor\<close>

lemma rr_key_inj:
  assumes "CHR '':'' \<notin> set d" "CHR '':'' \<notin> set d'"
  shows "rr_key d i = rr_key d' j \<longleftrightarrow> d = d' \<and> i = j"
proof
  assume "rr_key d i = rr_key d' j"
  then have "cut_at CHR '':'' (d @ CHR '':'' # int_to_dec i) =
      cut_at CHR '':'' (d' @ CHR '':'' # int_to_dec j)"
    by (simp add: rr_key_def)
  with assms show "d = d' \<and> i = j" by simp
qed simp

lemma rr_current_upd [simp]:
  "rr_current k (s\<lparr>rrCursors := (rrCursors s)(k' \<mapsto> v)\<rparr>) = (if k = k' then v else rr_current k s)"
  by (simp add: rr_current_def)

lemma cursor_value:
  assumes "1 < n" "n < 2 ^ 64"
  shows "fst (nextRoundRobinCursor d i n s) = unat (rr_current (rr_key d i) s) mod n"
proof -
  have "unat (word_of_nat n :: 64 word) = n"
    using assms(2) by (simp add: unat_of_nat)
  with assms(1) show ?thesis by (simp add: nextRoundRobinCursor_def Let_def unat_mod)
qed

lemma cursor_less: "0 < n \<Longrightarrow> n < 2 ^ 64 \<Longrightarrow> fst (nextRoundRobinCursor d i n s) < n"
proof (cases "1 < n")
  case True
  assume "n < 2 ^ 64"
  with True show ?thesis by (simp add: cursor_value)
qed (simp add: nextRoundRobinCursor_def)

lemma cursor_advances:
  "1 < n \<Longrightarrow> rr_current (rr_key d i) (snd (nextRoundRobinCursor d i n s)) =
     rr_current (rr_key d i) s + 1"
  by (simp add: nextRoundRobinCursor_def Let_def)

lemma cursor_independent:
  assumes "CHR '':'' \<notin> set d" "CHR '':'' \<notin> set d'" "(d, i) \<noteq> (d', j)"
  shows "rr_current (rr_key d' j) (snd (nextRoundRobinCursor d i n s)) = rr_current (rr_key d' j) s"
  using assms rr_key_inj [OF assms(1,2), of i j]
  by (auto simp: nextRoundRobinCursor_def Let_def)

lemma cursor_db [simp]:
  "db (snd (nextRoundRobinCursor d i n s)) = db s"
  "promptRules (snd (nextRoundRobinCursor d i n s)) = promptRules s"
  "promptLoaded (snd (nextRoundRobinCursor d i n s)) = promptLoaded s"
  by (simp_all add: nextRoundRobinCursor_def Let_def)

lemma order_candidates_db [simp]:
  "db (snd (order_candidates d i sel xs s)) = db s"
  "promptRules (snd (order_candidates d i sel xs s)) = promptRules s"
  "promptLoaded (snd (order_candidates d i sel xs s)) = promptLoaded s"
  by (auto simp: order_candidates_def case_prod_unfold Let_def)

text \<open>The results of \<open>m\<close> consecutive calls.\<close>

fun cursor_calls :: "string \<Rightarrow> int \<Rightarrow> nat \<Rightarrow> nat \<Rightarrow> svc \<Rightarrow> nat list" where
  "cursor_calls d i n 0 s = []"
| "cursor_calls d i n (Suc m) s =
     (let (c, s') = nextRoundRobinCursor d i n s in c # cursor_calls d i n m s')"

lemma cursor_calls_eq:
  assumes "1 < n" "n < 2 ^ 64"
  shows "unat (rr_current (rr_key d i) s) + m \<le> 2 ^ 64 \<Longrightarrow>
    cursor_calls d i n m s = map (\<lambda>k. (unat (rr_current (rr_key d i) s) + k) mod n) [0..<m]"
proof (induction m arbitrary: s)
  case (Suc m)
  let ?c = "rr_current (rr_key d i) s"
  let ?s' = "snd (nextRoundRobinCursor d i n s)"
  have eq: "cursor_calls d i n (Suc m) s = (unat ?c mod n) # cursor_calls d i n m ?s'"
    by (simp add: case_prod_unfold Let_def cursor_value [OF assms])
  show ?case
  proof (cases m)
    case 0
    then show ?thesis using eq by simp
  next
    case (Suc m')
    with Suc.prems have "unat ?c + 1 < 2 ^ 64" by simp
    then have u: "unat (?c + 1) = unat ?c + 1"
      by (simp add: unat_word_ariths)
    have "cursor_calls d i n m ?s' = map (\<lambda>k. (unat ?c + 1 + k) mod n) [0..<m]"
      using Suc.IH [of ?s'] Suc.prems u cursor_advances [OF assms(1), of d i s] by simp
    also have "\<dots> = map (\<lambda>k. (unat ?c + k) mod n) (map Suc [0..<m])" by simp
    finally show ?thesis
      unfolding eq by (simp add: map_Suc_upt upt_conv_Cons del: upt_Suc)
  qed
qed simp

lemma mod_window_inj: "inj_on (\<lambda>k. (c + k) mod n) {0..<(n::nat)}"
proof (rule inj_onI)
  fix x y assume xy: "x \<in> {0..<n}" "y \<in> {0..<n}" "(c + x) mod n = (c + y) mod n"
  show "x = y"
  proof (rule ccontr)
    assume "x \<noteq> y"
    then consider "x < y" | "y < x" by linarith
    then show False
    proof cases
      case 1
      with xy(3) have "n dvd (c + y) - (c + x)"
        by (metis add_le_cancel_left less_imp_le mod_eq_dvd_iff_nat)
      with 1 xy(1,2) show False by (auto dest: dvd_imp_le)
    next
      case 2
      with xy(3) have "n dvd (c + x) - (c + y)"
        by (metis add_le_cancel_left less_imp_le mod_eq_dvd_iff_nat)
      with 2 xy(1,2) show False by (auto dest: dvd_imp_le)
    qed
  qed
qed

section \<open>The interface of a selection strategy\<close>

locale failover_order =
  fixes order :: "'a list \<Rightarrow> 's \<Rightarrow> 'a list \<times> 's"
  assumes order_perm: "mset (fst (order xs s)) = mset xs"
begin

lemma order_set [simp]: "set (fst (order xs s)) = set xs"
  using order_perm [of xs s] by (rule mset_eq_setD)

lemma order_length [simp]: "length (fst (order xs s)) = length xs"
  using order_perm [of xs s] by (rule mset_eq_length)

lemma order_distinct [simp]: "distinct (fst (order xs s)) = distinct xs"
  using order_perm [of xs s] by (rule mset_eq_imp_distinct_iff)

lemma order_Nil [simp]: "fst (order [] s) = []"
  using order_length [of "[]" s] by (simp only: list.size length_0_conv)

lemma order_filter: "mset (filter p (fst (order xs s))) = mset (filter p xs)"
  using order_perm [of xs s] by simp

end

interpretation strategy: failover_order "order_candidates domain i sel" for domain i sel
  by unfold_locales (auto simp: order_candidates_def case_prod_unfold Let_def)

lemma order_candidates_hd:
  assumes "xs \<noteq> []" "length xs < 2 ^ 64"
  shows "hd (fst (order_candidates d i sel xs s)) =
    (if sel = KeySelectionRoundRobin \<and> 1 < length xs
     then xs ! (unat (rr_current (rr_key d i) s) mod length xs) else hd xs)"
proof (cases "sel = KeySelectionRoundRobin \<and> 1 < length xs")
  case True
  then show ?thesis
    using assms cursor_value [of "length xs" d i s]
      rotate_from_hd [of "unat (rr_current (rr_key d i) s) mod length xs" xs]
    by (auto simp: order_candidates_def case_prod_unfold Let_def)
qed (auto simp: order_candidates_def)

end
