(* ===== verification/Provider_Keys.thy ===== *)
theory Provider_Keys
  imports Crypto Round_Robin
begin

text \<open>
  internal/service/providers.go (reads) and internal/service/provider_keys.go: the credentials of a
  provider, their order, and the list of keys a request may try. Operations take the cryptography
  \<open>c\<close> and the current time and return the result with the new service state.

  Lemmas: every operation keeps the schema's constraints, created and imported names are fresh,
  the primary operation moves one key to the front and keeps the rest in order, and the eligible
  keys are exactly the provider's enabled keys.
\<close>

section \<open>Providers as the service returns them\<close>

record Provider =
  pv_id :: int
  pv_name :: string
  pv_type :: string
  pv_prefix :: string
  pv_base_url :: string
  pv_has_key :: bool
  pv_key_count :: nat
  pv_key_selection :: string
  pv_enabled :: bool
  pv_created :: time
  pv_updated :: time

definition scanProvider :: "store \<Rightarrow> provider_row \<Rightarrow> Provider" where
  "scanProvider st p =
     (let n = tbl_count (\<lambda>k. pk_provider k = p_id p) (provider_keys st);
          sel = (if key_selection_valid (p_key_selection p) then p_key_selection p
                 else KeySelectionFirst)
      in \<lparr>pv_id = p_id p, pv_name = p_name p, pv_type = p_type p, pv_prefix = p_prefix p,
          pv_base_url = p_base_url p, pv_has_key = 0 < n, pv_key_count = n,
          pv_key_selection = sel, pv_enabled = p_enabled p, pv_created = p_created p,
          pv_updated = p_updated p\<rparr>)"

definition GetProvider :: "int \<Rightarrow> svc \<Rightarrow> Provider result" where
  "GetProvider i s = (case tbl_find (\<lambda>p. p_id p = i) (providers (db s)) of
     None \<Rightarrow> Inl (ErrNotFound '''') | Some p \<Rightarrow> Inr (scanProvider (db s) p))"

definition ListProviders :: "svc \<Rightarrow> Provider list" where
  "ListProviders s = map (scanProvider (db s)) (sort_key p_id (tbl_rows (providers (db s))))"

section \<open>Keys\<close>

record ProviderKey =
  kv_id :: int
  kv_provider :: int
  kv_name :: string
  kv_masked :: string
  kv_enabled :: bool
  kv_sort :: int
  kv_last_used :: "time option"
  kv_created :: time
  kv_updated :: time

definition scanProviderKey :: "crypto \<Rightarrow> key_row \<Rightarrow> ProviderKey" where
  "scanProviderKey c k = \<lparr>kv_id = pk_id k, kv_provider = pk_provider k, kv_name = pk_name k,
     kv_masked = (case c_dec c (pk_encrypted k) of Inl _ \<Rightarrow> '''' | Inr secret \<Rightarrow> MaskSecret secret),
     kv_enabled = pk_enabled k, kv_sort = pk_sort k, kv_last_used = pk_last_used k,
     kv_created = pk_created k, kv_updated = pk_updated k\<rparr>"

text \<open>The scan over existing names for the largest n of a name "Key n"; Atoi failures are skipped.\<close>

definition key_number :: "string \<Rightarrow> int option" where
  "key_number name = (case keyNamePattern name of None \<Rightarrow> None | Some ds \<Rightarrow> atoi ds)"

definition max_key_number :: "string list \<Rightarrow> int" where
  "max_key_number names = fold (\<lambda>name maxN. case key_number name of
       None \<Rightarrow> maxN | Some n \<Rightarrow> if maxN < n then n else maxN) names 0"

definition provider_key_names :: "int \<Rightarrow> store \<Rightarrow> string list" where
  "provider_key_names pid st =
     map pk_name (filter (\<lambda>k. pk_provider k = pid) (tbl_rows (provider_keys st)))"

definition key_name :: "int \<Rightarrow> string" where
  "key_name n = ''Key '' @ int_to_dec n"

definition nextMonotonicKeyName :: "int \<Rightarrow> svc \<Rightarrow> string" where
  "nextMonotonicKeyName pid s = key_name (wrap64 (max_key_number (provider_key_names pid (db s)) + 1))"

definition GetProviderKey :: "crypto \<Rightarrow> int \<Rightarrow> svc \<Rightarrow> ProviderKey result" where
  "GetProviderKey c i s = (case tbl_find (\<lambda>k. pk_id k = i) (provider_keys (db s)) of
     None \<Rightarrow> Inl (ErrNotFound '''') | Some k \<Rightarrow> Inr (scanProviderKey c k))"

definition new_key_row ::
  "int \<Rightarrow> string \<Rightarrow> string \<Rightarrow> string \<Rightarrow> int \<Rightarrow> time \<Rightarrow> int \<Rightarrow> key_row" where
  "new_key_row pid name enc fp so now i = \<lparr>pk_id = i, pk_provider = pid, pk_name = name,
     pk_encrypted = enc, pk_hash = fp, pk_enabled = True, pk_sort = so, pk_last_used = None,
     pk_created = now, pk_updated = now\<rparr>"

definition key_hash_taken :: "int \<Rightarrow> string \<Rightarrow> store \<Rightarrow> bool" where
  "key_hash_taken pid fp st =
     tbl_exists (\<lambda>k. (pk_provider k, pk_hash k) = (pid, fp)) (provider_keys st)"

definition max_sort :: "int \<Rightarrow> store \<Rightarrow> int" where
  "max_sort pid st = tbl_max pk_sort (\<lambda>k. pk_provider k = pid) (provider_keys st)"

definition CreateProviderKey ::
  "crypto \<Rightarrow> time \<Rightarrow> int \<Rightarrow> string \<Rightarrow> string \<Rightarrow> svc \<Rightarrow> ProviderKey result \<times> svc" where
  "CreateProviderKey c now pid name secret s =
     (let secret = trim_space secret; st = db s in
      if secret = [] then (Inl (ErrValidation ''provider key secret is required''), s)
      else if \<not> tbl_exists (\<lambda>p. p_id p = pid) (providers st) then (Inl (ErrNotFound ''''), s)
      else let fp = c_fp c secret in
      if key_hash_taken pid fp st
      then (Inl (ErrAlreadyExists ''duplicate provider key secret''), s)
      else let name = trim_space name;
               name = (if name = [] then nextMonotonicKeyName pid s else name)
      in case c_enc c secret of
           Inl e \<Rightarrow> (Inl (OtherErr ''encrypt provider secret''), s)
         | Inr enc \<Rightarrow>
             let s' = with_db (\<lambda>st. st\<lparr>provider_keys :=
                   tbl_insert (new_key_row pid name enc fp (max_sort pid st + 1) now)
                     (provider_keys st)\<rparr>) s
             in (GetProviderKey c (tbl_seq (provider_keys (db s'))) s', s'))"

definition key_order :: "int \<Rightarrow> store \<Rightarrow> key_row list" where
  "key_order pid st = tbl_order pk_sort pk_id (\<lambda>k. pk_provider k = pid) (provider_keys st)"

definition ListProviderKeys :: "crypto \<Rightarrow> int \<Rightarrow> svc \<Rightarrow> ProviderKey list" where
  "ListProviderKeys c pid s = map (scanProviderKey c) (key_order pid (db s))"

definition UpdateProviderKey ::
  "crypto \<Rightarrow> time \<Rightarrow> int \<Rightarrow> string \<Rightarrow> bool \<Rightarrow> svc \<Rightarrow> ProviderKey result \<times> svc" where
  "UpdateProviderKey c now i name enabled s =
     (let name = trim_space name in
      if name = [] then (Inl (ErrValidation ''key name cannot be empty''), s)
      else let s' = with_db (\<lambda>st. st\<lparr>provider_keys := tbl_update (\<lambda>k. pk_id k = i)
                 (\<lambda>k. k\<lparr>pk_name := name, pk_enabled := enabled, pk_updated := now\<rparr>)
                 (provider_keys st)\<rparr>) s
      in if \<not> tbl_exists (\<lambda>k. pk_id k = i) (provider_keys (db s)) then (Inl (ErrNotFound ''''), s')
         else (GetProviderKey c i s', s'))"

definition DeleteProviderKey :: "int \<Rightarrow> svc \<Rightarrow> unit result \<times> svc" where
  "DeleteProviderKey i s =
     (if \<not> tbl_exists (\<lambda>k. pk_id k = i) (provider_keys (db s)) then (Inl (ErrNotFound ''''), s)
      else (Inr (), with_db (\<lambda>st. st\<lparr>provider_keys :=
              tbl_delete (\<lambda>k. pk_id k = i) (provider_keys st)\<rparr>) s))"

definition set_sort :: "time \<Rightarrow> int \<Rightarrow> key_row \<Rightarrow> key_row" where
  "set_sort now q k = k\<lparr>pk_sort := q, pk_updated := now\<rparr>"

definition key_match :: "int \<Rightarrow> int \<Rightarrow> key_row \<Rightarrow> bool" where
  "key_match pid i k \<longleftrightarrow> pk_id k = i"

text \<open>The target index scan, the early return for the first position, and the renumbering.\<close>

fun index_of :: "int \<Rightarrow> int list \<Rightarrow> nat option" where
  "index_of x [] = None"
| "index_of x (y # ys) = (if y = x then Some 0 else map_option Suc (index_of x ys))"

definition SetProviderKeyPrimary :: "time \<Rightarrow> int \<Rightarrow> int \<Rightarrow> svc \<Rightarrow> unit result \<times> svc" where
  "SetProviderKeyPrimary now pid keyID s =
     (let ids = map pk_id (key_order pid (db s)) in
      case index_of keyID ids of
        None \<Rightarrow> (Inl (ErrNotFound ''''), s)
      | Some t \<Rightarrow>
          if t = 0 then (Inr (), s)
          else let reordered = ids ! t # map (\<lambda>j. ids ! j) (filter (\<lambda>j. j \<noteq> t) [0..<length ids])
          in (Inr (), with_db (\<lambda>st. st\<lparr>provider_keys :=
                reposition (key_match pid) (set_sort now) 0 reordered (provider_keys st)\<rparr>) s))"

definition ProviderKeySecret :: "crypto \<Rightarrow> int \<Rightarrow> svc \<Rightarrow> string result" where
  "ProviderKeySecret c i s = (case tbl_find (\<lambda>k. pk_id k = i) (provider_keys (db s)) of
     None \<Rightarrow> Inl (ErrNotFound '''') | Some k \<Rightarrow> c_dec c (pk_encrypted k))"

definition ProviderPrimarySecret :: "crypto \<Rightarrow> int \<Rightarrow> svc \<Rightarrow> string result" where
  "ProviderPrimarySecret c pid s =
     (case tbl_order pk_sort pk_id (\<lambda>k. pk_provider k = pid \<and> pk_enabled k) (provider_keys (db s)) of
        [] \<Rightarrow> Inl (ErrNotFound ''no enabled provider keys'')
      | k # _ \<Rightarrow> c_dec c (pk_encrypted k))"

definition TouchProviderKeyUsed :: "time \<Rightarrow> int \<Rightarrow> svc \<Rightarrow> svc" where
  "TouchProviderKeyUsed now i s = with_db (\<lambda>st. st\<lparr>provider_keys := tbl_update (\<lambda>k. pk_id k = i)
     (\<lambda>k. k\<lparr>pk_last_used := Some now\<rparr>) (provider_keys st)\<rparr>) s"

definition EligibleKeys :: "crypto \<Rightarrow> int \<Rightarrow> svc \<Rightarrow> ProviderKey list result \<times> svc" where
  "EligibleKeys c pid s =
     (case GetProvider pid s of
        Inl e \<Rightarrow> (Inl e, s)
      | Inr p \<Rightarrow>
          let enabled = filter kv_enabled (ListProviderKeys c pid s) in
          if enabled = [] then (Inr [], s)
          else let (keys, s') = order_candidates ''provider'' pid (pv_key_selection p) enabled s
               in (Inr keys, s'))"

section \<open>Fresh names\<close>

lemma key_number_key_name: "0 \<le> n \<Longrightarrow> n < 2 ^ 63 \<Longrightarrow> key_number (key_name n) = Some n"
  using keyNamePattern_Key [of "nat n"] atoi_nat_to_dec [of "nat n"]
  by (simp add: key_number_def key_name_def int_to_dec_def)

lemma max_key_number_mono: "m \<le> fold (\<lambda>name maxN. case key_number name of
       None \<Rightarrow> maxN | Some n \<Rightarrow> if maxN < n then n else maxN) names m"
proof (induction names arbitrary: m)
  case (Cons a names)
  let ?m = "case key_number a of None \<Rightarrow> m | Some n \<Rightarrow> if m < n then n else m"
  have "m \<le> ?m" by (auto split: option.split)
  with Cons.IH [of ?m] show ?case by simp
qed simp

lemma max_key_number_ge:
  "name \<in> set names \<Longrightarrow> key_number name = Some n \<Longrightarrow> n \<le> fold (\<lambda>name maxN. case key_number name of
       None \<Rightarrow> maxN | Some n \<Rightarrow> if maxN < n then n else maxN) names m"
proof (induction names arbitrary: m)
  case (Cons a names)
  let ?m = "case key_number a of None \<Rightarrow> m | Some n \<Rightarrow> if m < n then n else m"
  show ?case
  proof (cases "name = a")
    case True
    with Cons.prems have "n \<le> ?m" by simp
    with max_key_number_mono [of ?m names] show ?thesis by simp
  next
    case False
    with Cons show ?thesis by simp
  qed
qed simp

lemma max_key_number_nonneg: "0 \<le> max_key_number names"
  unfolding max_key_number_def by (rule max_key_number_mono)

lemma next_name_fresh:
  assumes "max_key_number names < k" and "k < 2 ^ 63"
  shows "key_name k \<notin> set names"
proof
  assume "key_name k \<in> set names"
  moreover have "key_number (key_name k) = Some k"
    using assms max_key_number_nonneg [of names] by (intro key_number_key_name) auto
  ultimately have "k \<le> max_key_number names"
    unfolding max_key_number_def by (rule max_key_number_ge)
  with assms(1) show False by simp
qed

section \<open>Constraints\<close>

lemma new_key_row_simps [simp]:
  "pk_id (new_key_row pid name enc fp so now i) = i"
  "pk_provider (new_key_row pid name enc fp so now i) = pid"
  "pk_hash (new_key_row pid name enc fp so now i) = fp"
  "pk_name (new_key_row pid name enc fp so now i) = name"
  "pk_enabled (new_key_row pid name enc fp so now i)"
  "pk_encrypted (new_key_row pid name enc fp so now i) = enc"
  "pk_sort (new_key_row pid name enc fp so now i) = so"
  by (simp_all add: new_key_row_def)

text \<open>A change of the key table alone concerns the key constraints only.\<close>

lemma wf_set_keys:
  "wf_store st \<Longrightarrow> wf_keys (st\<lparr>provider_keys := t\<rparr>) \<Longrightarrow> wf_store (st\<lparr>provider_keys := t\<rparr>)"
  by (simp add: wf_store_def wf_defs)

lemma wf_insert_key:
  assumes "wf_store st" and "\<not> key_hash_taken pid fp st"
    and "tbl_exists (\<lambda>p. p_id p = pid) (providers st)"
  shows "wf_store (st\<lparr>provider_keys :=
     tbl_insert (new_key_row pid name enc fp so now) (provider_keys st)\<rparr>)"
proof (rule wf_set_keys [OF assms(1)])
  show "wf_keys (st\<lparr>provider_keys :=
     tbl_insert (new_key_row pid name enc fp so now) (provider_keys st)\<rparr>)"
    using assms by (auto simp: wf_store_def wf_keys_def key_hash_taken_def
        intro!: ids_ok_insert unique_on_insert references_insert)
qed

lemma wf_update_keys:
  assumes "wf_store st"
    and "\<And>k. pk_id (f k) = pk_id k" "\<And>k. pk_provider (f k) = pk_provider k"
    and "\<And>k. pk_hash (f k) = pk_hash k"
  shows "wf_store (st\<lparr>provider_keys := tbl_update p f (provider_keys st)\<rparr>)"
  by (rule wf_set_keys [OF assms(1)])
     (use assms in \<open>auto simp: wf_store_def wf_keys_def
        intro!: ids_ok_update unique_on_update references_update\<close>)

lemma wf_CreateProviderKey:
  "wf_store (db s) \<Longrightarrow> wf_store (db (snd (CreateProviderKey c now pid name secret s)))"
  by (auto simp: CreateProviderKey_def Let_def wf_insert_key split: sum.split)

lemma wf_UpdateProviderKey:
  "wf_store (db s) \<Longrightarrow> wf_store (db (snd (UpdateProviderKey c now i name enabled s)))"
  by (auto simp: UpdateProviderKey_def Let_def intro!: wf_update_keys)

lemma wf_TouchProviderKeyUsed:
  "wf_store (db s) \<Longrightarrow> wf_store (db (TouchProviderKeyUsed now i s))"
  by (auto simp: TouchProviderKeyUsed_def intro!: wf_update_keys)

lemma wf_DeleteProviderKey:
  "wf_store (db s) \<Longrightarrow> wf_store (db (snd (DeleteProviderKey i s)))"
proof -
  assume "wf_store (db s)"
  then have "wf_store ((db s)\<lparr>provider_keys := tbl_delete (\<lambda>k. pk_id k = i) (provider_keys (db s))\<rparr>)"
    by (intro wf_set_keys) (auto simp: wf_store_def wf_keys_def
        intro!: ids_ok_delete unique_on_delete references_delete)
  with \<open>wf_store (db s)\<close> show ?thesis by (simp add: DeleteProviderKey_def)
qed

lemma set_sort_simps [simp]:
  "pk_id (set_sort now q k) = pk_id k" "pk_provider (set_sort now q k) = pk_provider k"
  "pk_hash (set_sort now q k) = pk_hash k" "pk_sort (set_sort now q k) = q"
  "pk_enabled (set_sort now q k) = pk_enabled k" "pk_name (set_sort now q k) = pk_name k"
  by (simp_all add: set_sort_def)

interpretation key_rows: ordered_rows pk_id pk_sort pk_provider key_match set_sort
  by unfold_locales (auto simp: key_match_def)

lemma wf_reposition_keys:
  "wf_store st \<Longrightarrow> wf_store (st\<lparr>provider_keys :=
     reposition (key_match pid) (set_sort now) p ids (provider_keys st)\<rparr>)"
proof (induction ids arbitrary: p st)
  case (Cons i ids)
  let ?st = "st\<lparr>provider_keys := tbl_update (key_match pid i) (set_sort now p) (provider_keys st)\<rparr>"
  have "wf_store ?st" using Cons.prems by (intro wf_update_keys) simp_all
  from Cons.IH [OF this, of "p + 1"] show ?case by simp
qed simp

lemma wf_SetProviderKeyPrimary:
  "wf_store (db s) \<Longrightarrow> wf_store (db (snd (SetProviderKeyPrimary now pid keyID s)))"
  by (auto simp: SetProviderKeyPrimary_def Let_def wf_reposition_keys
      simp del: reposition.simps split: option.split)

lemma EligibleKeys_db [simp]: "db (snd (EligibleKeys c pid s)) = db s"
  by (auto simp: EligibleKeys_def Let_def case_prod_unfold split: sum.split)

section \<open>The primary key\<close>

lemma index_of_Some:
  "index_of x xs = Some t \<Longrightarrow> t < length xs \<and> xs ! t = x"
  by (induction xs arbitrary: t) (auto split: if_splits)

lemma index_of_None [simp]: "index_of x xs = None \<longleftrightarrow> x \<notin> set xs"
  by (induction xs) auto

lemma map_filter_index:
  assumes "t < length xs" "distinct xs"
  shows "map (\<lambda>j. xs ! j) (filter (\<lambda>j. j \<noteq> t) [0..<length xs]) = remove1 (xs ! t) xs"
proof -
  have "filter (\<lambda>j. j \<noteq> t) [0..<length xs] = filter (\<lambda>j. xs ! j \<noteq> xs ! t) [0..<length xs]"
    using assms by (intro filter_cong) (auto simp: nth_eq_iff_index_eq)
  then have "map (\<lambda>j. xs ! j) (filter (\<lambda>j. j \<noteq> t) [0..<length xs]) =
      filter (\<lambda>x. x \<noteq> xs ! t) (map (\<lambda>j. xs ! j) [0..<length xs])"
    by (simp add: filter_map comp_def)
  also have "\<dots> = filter (\<lambda>x. x \<noteq> xs ! t) xs" by (simp add: map_nth)
  also have "\<dots> = remove1 (xs ! t) xs" using assms(2)
    by (simp add: distinct_remove1_removeAll removeAll_filter_not_eq eq_commute)
  finally show ?thesis .
qed

lemma primary_order:
  assumes wf: "wf_store (db s)" and k: "keyID \<in> set (map pk_id (key_order pid (db s)))"
  shows "map pk_id (key_order pid (db (snd (SetProviderKeyPrimary now pid keyID s)))) =
    keyID # remove1 keyID (map pk_id (key_order pid (db s)))"
proof -
  let ?ids = "map pk_id (key_order pid (db s))"
  have ok: "ids_ok pk_id (provider_keys (db s))" using wf by (simp add: wf_store_def wf_keys_def)
  then have d: "distinct ?ids" unfolding key_order_def by (rule distinct_ids_tbl_order)
  obtain t where t: "index_of keyID ?ids = Some t"
    using k index_of_None [of keyID ?ids] by (cases "index_of keyID ?ids") auto
  note it = index_of_Some [OF t]
  show ?thesis
  proof (cases "t = 0")
    case True
    with it have "?ids = keyID # remove1 keyID ?ids" by (cases ?ids) auto
    with True t show ?thesis by (simp add: SetProviderKeyPrimary_def)
  next
    case False
    let ?new = "keyID # remove1 keyID ?ids"
    have perm: "mset ?new = mset (map pk_id (tbl_order pk_sort pk_id (\<lambda>r. pk_provider r = pid) (provider_keys (db s))))"
      using k by (simp add: key_order_def)
    have "SetProviderKeyPrimary now pid keyID s = (Inr (), with_db (\<lambda>st. st\<lparr>provider_keys :=
        reposition (key_match pid) (set_sort now) 0 ?new (provider_keys st)\<rparr>) s)"
      using False t it map_filter_index [of t ?ids] d by (simp add: SetProviderKeyPrimary_def Let_def)
    then show ?thesis
      using key_rows.order_reposition [OF ok _ perm, where now = now]
      by (simp add: key_order_def key_match_def)
  qed
qed

section \<open>Eligible keys\<close>

lemma EligibleKeys_perm:
  assumes "GetProvider pid s = Inr p"
  shows "\<exists>keys. fst (EligibleKeys c pid s) = Inr keys \<and>
    mset keys = mset (filter kv_enabled (ListProviderKeys c pid s))"
proof (cases "filter kv_enabled (ListProviderKeys c pid s) = []")
  case True
  with assms show ?thesis by (simp add: EligibleKeys_def Let_def)
next
  case False
  with assms show ?thesis
    by (simp add: EligibleKeys_def Let_def case_prod_unfold strategy.order_perm
        del: mset_filter filter_False)
qed

lemma EligibleKeys_first:
  assumes "GetProvider pid s = Inr p" "pv_key_selection p = KeySelectionFirst"
  shows "EligibleKeys c pid s = (Inr (filter kv_enabled (ListProviderKeys c pid s)), s)"
  using assms by (simp add: EligibleKeys_def order_candidates_def Let_def)

lemma GetProvider_Inr: "(\<exists>p. GetProvider i s = Inr p) \<longleftrightarrow> tbl_exists (\<lambda>p. p_id p = i) (providers (db s))"
  using tbl_find_None [of "\<lambda>p. p_id p = i" "providers (db s)"]
  by (auto simp: GetProvider_def split: option.split)

lemma scanProviderKey_simps [simp]:
  "kv_enabled (scanProviderKey c k) = pk_enabled k" "kv_id (scanProviderKey c k) = pk_id k"
  "kv_provider (scanProviderKey c k) = pk_provider k" "kv_name (scanProviderKey c k) = pk_name k"
  by (simp_all add: scanProviderKey_def)

lemma no_enabled_keys_iff:
  "filter kv_enabled (ListProviderKeys c pid s) = [] \<longleftrightarrow>
     \<not> tbl_exists (\<lambda>k. pk_provider k = pid \<and> pk_enabled k) (provider_keys (db s))"
  by (auto simp: ListProviderKeys_def key_order_def filter_empty_conv tbl_exists_iff)

lemma ListProviderKeys_cong: "db s = db s' \<Longrightarrow> ListProviderKeys c pid s = ListProviderKeys c pid s'"
  and GetProvider_cong: "db s = db s' \<Longrightarrow> GetProvider pid s = GetProvider pid s'"
  by (simp_all add: ListProviderKeys_def GetProvider_def cong: option.case_cong)

end
