(* ===== verification/Providers.thy ===== *)
theory Providers
  imports Provider_Keys
begin

text \<open>
  The write operations of internal/service/providers.go. url.ParseRequestURI is the argument
  \<open>parse\<close>; the variadic key selection is the list \<open>ks\<close>. A deleted provider takes its keys, its
  models and their group memberships with it (ON DELETE CASCADE); prompt rule targets carry no
  foreign key to models, so theirs stay.
\<close>

definition trim_right_slash :: "string \<Rightarrow> string" where
  "trim_right_slash s = trim_right (\<lambda>c. c = CHR ''/'') s"

definition new_provider_row ::
  "string \<Rightarrow> string \<Rightarrow> string \<Rightarrow> string \<Rightarrow> string \<Rightarrow> bool \<Rightarrow> time \<Rightarrow> int \<Rightarrow> provider_row" where
  "new_provider_row name typ prefix baseURL ks enabled now i = \<lparr>p_id = i, p_name = name, p_type = typ,
     p_prefix = prefix, p_base_url = baseURL, p_key_selection = ks, p_enabled = enabled,
     p_created = now, p_updated = now\<rparr>"

text \<open>The optional key selection: the first argument when it is not empty, else the default.\<close>

definition pick_selection :: "key_selection list \<Rightarrow> key_selection \<Rightarrow> key_selection result" where
  "pick_selection ks dflt =
     (if ks \<noteq> [] \<and> hd ks \<noteq> '''' then
        (if \<not> key_selection_valid (hd ks)
         then Inl (ErrValidation (''key_selection must be '' @ quoted ''first'' @ '' or '' @ quoted ''round_robin''))
         else Inr (hd ks))
      else Inr dflt)"

definition insert_provider ::
  "string \<Rightarrow> string \<Rightarrow> string \<Rightarrow> string \<Rightarrow> string \<Rightarrow> bool \<Rightarrow> time \<Rightarrow> store \<Rightarrow> store" where
  "insert_provider name typ prefix baseURL sel enabled now st = st\<lparr>providers :=
     tbl_insert (new_provider_row name typ prefix baseURL sel enabled now) (providers st)\<rparr>"

definition CreateProvider ::
  "crypto \<Rightarrow> (string \<Rightarrow> url_parts option) \<Rightarrow> time \<Rightarrow> string \<Rightarrow> provider_type \<Rightarrow> string \<Rightarrow> string \<Rightarrow>
   string \<Rightarrow> bool \<Rightarrow> key_selection list \<Rightarrow> svc \<Rightarrow> Provider result \<times> svc" where
  "CreateProvider c parse now name typ prefix baseURL apiKey enabled ks s =
     (let name = trim_space name; prefix = trim_space prefix;
          baseURL = trim_right_slash (trim_space baseURL) in
      case validateProviderInput parse name typ prefix baseURL of
        Inl e \<Rightarrow> (Inl e, s)
      | Inr _ \<Rightarrow>
      (case pick_selection ks KeySelectionFirst of
        Inl e \<Rightarrow> (Inl e, s)
      | Inr sel \<Rightarrow>
      if tbl_exists (\<lambda>p. p_prefix p = prefix) (providers (db s))
      then (Inl (ErrAlreadyExists ''prefix already exists''), s)
      else let s1 = with_db (insert_provider name typ prefix baseURL sel enabled now) s;
               i = tbl_seq (providers (db s1)) in
      if trim_space apiKey \<noteq> [] then
        (case CreateProviderKey c now i '''' apiKey s1 of
           (Inl e, s2) \<Rightarrow> (Inl e, s2)
         | (Inr _, s2) \<Rightarrow> (GetProvider i s2, s2))
      else (GetProvider i s1, s1)))"

definition set_provider_row ::
  "string \<Rightarrow> string \<Rightarrow> string \<Rightarrow> string \<Rightarrow> string \<Rightarrow> bool \<Rightarrow> time \<Rightarrow> provider_row \<Rightarrow> provider_row" where
  "set_provider_row name typ prefix baseURL sel enabled now p =
     p\<lparr>p_name := name, p_type := typ, p_prefix := prefix, p_base_url := baseURL,
       p_key_selection := sel, p_enabled := enabled, p_updated := now\<rparr>"

definition update_provider ::
  "int \<Rightarrow> string \<Rightarrow> string \<Rightarrow> string \<Rightarrow> string \<Rightarrow> string \<Rightarrow> bool \<Rightarrow> time \<Rightarrow> store \<Rightarrow> store" where
  "update_provider i name typ prefix baseURL sel enabled now st = st\<lparr>providers :=
     tbl_update (\<lambda>p. p_id p = i) (set_provider_row name typ prefix baseURL sel enabled now) (providers st)\<rparr>"

definition UpdateProvider ::
  "(string \<Rightarrow> url_parts option) \<Rightarrow> time \<Rightarrow> int \<Rightarrow> string \<Rightarrow> provider_type \<Rightarrow> string \<Rightarrow> string \<Rightarrow>
   bool \<Rightarrow> key_selection list \<Rightarrow> svc \<Rightarrow> Provider result \<times> svc" where
  "UpdateProvider parse now i name typ prefix baseURL enabled ks s =
     (let name = trim_space name; prefix = trim_space prefix;
          baseURL = trim_right_slash (trim_space baseURL) in
      case tbl_find (\<lambda>p. p_id p = i) (providers (db s)) of
        None \<Rightarrow> (Inl (ErrNotFound ''''), s)
      | Some cur \<Rightarrow>
      (case validateProviderInput parse name typ prefix baseURL of
        Inl e \<Rightarrow> (Inl e, s)
      | Inr _ \<Rightarrow>
      (case pick_selection ks (p_key_selection cur) of
        Inl e \<Rightarrow> (Inl e, s)
      | Inr sel \<Rightarrow>
      if tbl_exists (\<lambda>p. p_id p \<noteq> i \<and> p_prefix p = prefix) (providers (db s))
      then (Inl (ErrAlreadyExists ''prefix already exists''), s)
      else let s' = with_db (update_provider i name typ prefix baseURL sel enabled now) s
      in (GetProvider i s', s'))))"

definition DeleteProvider :: "int \<Rightarrow> svc \<Rightarrow> unit result \<times> svc" where
  "DeleteProvider i s =
     (if \<not> tbl_exists (\<lambda>p. p_id p = i) (providers (db s)) then (Inl (ErrNotFound ''''), s)
      else (Inr (), with_db (delete_provider_row i) s))"

section \<open>Constraints\<close>

lemma new_provider_row_simps [simp]:
  "p_id (new_provider_row name typ prefix url ks en now i) = i"
  "p_prefix (new_provider_row name typ prefix url ks en now i) = prefix"
  "p_type (new_provider_row name typ prefix url ks en now i) = typ"
  "p_key_selection (new_provider_row name typ prefix url ks en now i) = ks"
  "p_enabled (new_provider_row name typ prefix url ks en now i) = en"
  by (simp_all add: new_provider_row_def)

lemma set_provider_row_simps [simp]:
  "p_id (set_provider_row name typ prefix url ks en now p) = p_id p"
  "p_prefix (set_provider_row name typ prefix url ks en now p) = prefix"
  "p_type (set_provider_row name typ prefix url ks en now p) = typ"
  "p_key_selection (set_provider_row name typ prefix url ks en now p) = ks"
  "p_enabled (set_provider_row name typ prefix url ks en now p) = en"
  by (simp_all add: set_provider_row_def)

lemma pick_selection_valid:
  "pick_selection ks d = Inr sel \<Longrightarrow> key_selection_valid d \<Longrightarrow> key_selection_valid sel"
  by (auto simp: pick_selection_def split: if_splits)

lemma wf_set_providers:
  assumes "wf_store st" "wf_providers (st\<lparr>providers := t\<rparr>)"
    and "references pk_provider (provider_keys st) p_id t" "references m_provider (models st) p_id t"
  shows "wf_store (st\<lparr>providers := t\<rparr>)"
  using assms by (simp add: wf_store_def wf_defs)

lemma wf_insert_provider:
  assumes wf: "wf_store st" and v: "prefixPattern prefix" "provider_type_valid typ" "key_selection_valid ks"
    and free: "\<not> tbl_exists (\<lambda>p. p_prefix p = prefix) (providers st)"
  shows "wf_store (insert_provider name typ prefix url ks en now st)"
  unfolding insert_provider_def
proof (rule wf_set_providers [OF wf])
  let ?t = "tbl_insert (new_provider_row name typ prefix url ks en now) (providers st)"
  from wf have w: "wf_providers st" by (simp add: wf_store_def)
  then have "ids_ok p_id ?t" "unique_on p_prefix ?t"
    using free by (auto simp: wf_providers_def intro!: ids_ok_insert unique_on_insert)
  moreover have "all_rows (\<lambda>p. prefixPattern (p_prefix p) \<and> provider_type_valid (p_type p) \<and>
       key_selection_valid (p_key_selection p)) ?t"
    using w v by (intro all_rows_insert) (simp_all add: wf_providers_def)
  ultimately show "wf_providers (st\<lparr>providers := ?t\<rparr>)" by (simp add: wf_providers_def)
  show "references pk_provider (provider_keys st) p_id ?t" "references m_provider (models st) p_id ?t"
    using wf by (simp_all add: wf_store_def wf_defs references_insert_parent)
qed

lemma wf_update_provider:
  assumes wf: "wf_store st" and v: "prefixPattern prefix" "provider_type_valid typ" "key_selection_valid ks"
    and free: "\<not> tbl_exists (\<lambda>p. p_id p \<noteq> i \<and> p_prefix p = prefix) (providers st)"
  shows "wf_store (update_provider i name typ prefix url ks en now st)"
  unfolding update_provider_def
proof (rule wf_set_providers [OF wf])
  let ?t = "tbl_update (\<lambda>p. p_id p = i) (set_provider_row name typ prefix url ks en now) (providers st)"
  from wf have w: "wf_providers st" by (simp add: wf_store_def)
  then have ok: "ids_ok p_id (providers st)" "unique_on p_prefix (providers st)"
    by (simp_all add: wf_providers_def)
  have "unique_on p_prefix ?t"
    by (rule unique_on_update_id [OF ok(2,1), where k = "\<lambda>_. prefix"])
       (use free in \<open>auto simp: tbl_exists_iff\<close>)
  moreover have "ids_ok p_id ?t" using ok(1) by (rule ids_ok_update) simp
  moreover have "all_rows (\<lambda>p. prefixPattern (p_prefix p) \<and> provider_type_valid (p_type p) \<and>
       key_selection_valid (p_key_selection p)) ?t"
    using w v by (intro all_rows_update) (simp_all add: wf_providers_def)
  ultimately show "wf_providers (st\<lparr>providers := ?t\<rparr>)" by (simp add: wf_providers_def)
  show "references pk_provider (provider_keys st) p_id ?t" "references m_provider (models st) p_id ?t"
    using wf by (simp_all add: wf_store_def wf_defs references_update_parent)
qed

lemma wf_CreateProvider:
  assumes "wf_store (db s)"
  shows "wf_store (db (snd (CreateProvider c parse now name typ prefix url key en ks s)))"
  using assms
  by (auto simp: CreateProvider_def Let_def split: sum.split prod.split
      dest!: validateProviderInput_ok pick_selection_valid
      intro!: wf_insert_provider)
     (metis wf_CreateProviderKey svc_simps(3) wf_insert_provider snd_conv)+

lemma wf_UpdateProvider:
  assumes wf: "wf_store (db s)"
  shows "wf_store (db (snd (UpdateProvider parse now i name typ prefix url en ks s)))"
proof -
  have sel: "key_selection_valid sel"
    if "tbl_find (\<lambda>p. p_id p = i) (providers (db s)) = Some cur"
      "pick_selection ks (p_key_selection cur) = Inr sel" for cur sel
    using tbl_find_Some [OF that(1)] wf
    by (intro pick_selection_valid [OF that(2)]) (auto simp: wf_store_def wf_providers_def all_rows_def)
  show ?thesis
    using wf sel
    by (auto simp: UpdateProvider_def Let_def split: sum.split option.split
        dest!: validateProviderInput_ok intro!: wf_update_provider)
qed

lemma wf_DeleteProvider: "wf_store (db s) \<Longrightarrow> wf_store (db (snd (DeleteProvider i s)))"
  by (simp add: DeleteProvider_def wf_delete_provider)

end
