(* ===== verification/Models.thy ===== *)
theory Models
  imports Providers
begin

text \<open>
  internal/service/models.go: models under their providers, and ResolveRoute, which turns a
  client's \<open>prefix/model\<close> into the enabled provider and model it names. SELECTs over the join
  with providers return the rows whose provider exists.
\<close>

record Model =
  mv_id :: int
  mv_provider_id :: int
  mv_provider :: string
  mv_prefix :: string
  mv_name :: string
  mv_public_id :: string
  mv_enabled :: bool
  mv_scheme :: string
  mv_created :: time
  mv_updated :: time

definition public_id :: "string \<Rightarrow> string \<Rightarrow> string" where
  "public_id prefix name = prefix @ ''/'' @ name"

definition scanModel :: "model_row \<Rightarrow> provider_row \<Rightarrow> Model" where
  "scanModel m p = \<lparr>mv_id = m_id m, mv_provider_id = m_provider m, mv_provider = p_name p,
     mv_prefix = p_prefix p, mv_name = m_name m, mv_public_id = public_id (p_prefix p) (m_name m),
     mv_enabled = m_enabled m, mv_scheme = m_scheme m, mv_created = m_created m,
     mv_updated = m_updated m\<rparr>"

text \<open>FROM models m JOIN providers p ON p.id=m.provider_id.\<close>

definition model_join :: "store \<Rightarrow> (model_row \<times> provider_row) list" where
  "model_join st = List.map_filter (\<lambda>m. map_option (Pair m)
     (tbl_find (\<lambda>p. p_id p = m_provider m) (providers st))) (tbl_rows (models st))"

definition GetModel :: "int \<Rightarrow> svc \<Rightarrow> Model result" where
  "GetModel i s = (case find (\<lambda>(m, p). m_id m = i) (model_join (db s)) of
     None \<Rightarrow> Inl (ErrNotFound '''') | Some (m, p) \<Rightarrow> Inr (scanModel m p))"

definition ListModels :: "svc \<Rightarrow> Model list" where
  "ListModels s = map (\<lambda>(m, p). scanModel m p) (sort_key (\<lambda>(m, p). m_id m) (model_join (db s)))"

definition new_model_row :: "int \<Rightarrow> string \<Rightarrow> bool \<Rightarrow> time \<Rightarrow> int \<Rightarrow> model_row" where
  "new_model_row pid name enabled now i = \<lparr>m_id = i, m_provider = pid, m_name = name,
     m_scheme = '''', m_enabled = enabled, m_created = now, m_updated = now\<rparr>"

definition CreateModel :: "time \<Rightarrow> int \<Rightarrow> string \<Rightarrow> bool \<Rightarrow> svc \<Rightarrow> Model result \<times> svc" where
  "CreateModel now pid name enabled s =
     (case validateModelName name of
        Inl e \<Rightarrow> (Inl e, s)
      | Inr _ \<Rightarrow>
      if \<not> tbl_exists (\<lambda>p. p_id p = pid) (providers (db s)) then (Inl (ErrNotFound ''''), s)
      else if tbl_exists (\<lambda>m. (m_provider m, m_name m) = (pid, name)) (models (db s))
      then (Inl (ErrAlreadyExists ''model already exists''), s)
      else let s' = with_db (\<lambda>st. st\<lparr>models :=
             tbl_insert (new_model_row pid name enabled now) (models st)\<rparr>) s
           in (GetModel (tbl_seq (models (db s'))) s', s'))"

definition UpdateModel :: "time \<Rightarrow> int \<Rightarrow> string \<Rightarrow> bool \<Rightarrow> svc \<Rightarrow> Model result \<times> svc" where
  "UpdateModel now i name enabled s =
     (case validateModelName name of
        Inl e \<Rightarrow> (Inl e, s)
      | Inr _ \<Rightarrow>
      (case tbl_find (\<lambda>m. m_id m = i) (models (db s)) of
        None \<Rightarrow> (Inl (ErrNotFound ''''), s)
      | Some cur \<Rightarrow>
      if tbl_exists (\<lambda>m. m_id m \<noteq> i \<and> m_provider m = m_provider cur \<and> m_name m = name) (models (db s))
      then (Inl (ErrAlreadyExists ''model already exists''), s)
      else let s' = with_db (\<lambda>st. st\<lparr>models := tbl_update (\<lambda>m. m_id m = i)
             (\<lambda>m. m\<lparr>m_name := name, m_enabled := enabled, m_updated := now\<rparr>) (models st)\<rparr>) s
           in (GetModel i s', s')))"

text \<open>deletePromptTargetsFor of promptrules.go, called inside the deleting transactions.\<close>

definition deletePromptTargetsFor :: "string \<Rightarrow> int \<Rightarrow> store \<Rightarrow> store" where
  "deletePromptTargetsFor typ i st = st\<lparr>prompt_rule_targets :=
     tbl_delete (\<lambda>t. t_type t = typ \<and> t_target t = i) (prompt_rule_targets st)\<rparr>"

text \<open>The transaction: a missing model rolls the target deletion back.\<close>

definition DeleteModel :: "int \<Rightarrow> svc \<Rightarrow> unit result \<times> svc" where
  "DeleteModel i s =
     (if \<not> tbl_exists (\<lambda>m. m_id m = i) (models (db s)) then (Inl (ErrNotFound ''''), s)
      else (Inr (), invalidatePromptRules (with_db (\<lambda>st.
              delete_models_where (\<lambda>m. m_id m = i) (deletePromptTargetsFor ''model'' i st)) s)))"

definition SetModelScheme :: "time \<Rightarrow> int \<Rightarrow> string \<Rightarrow> svc \<Rightarrow> unit result \<times> svc" where
  "SetModelScheme now i sch s =
     (if \<not> ValidModelScheme sch then (Inl (ErrValidation ''unknown model scheme''), s)
      else if \<not> tbl_exists (\<lambda>m. m_id m = i) (models (db s)) then (Inl (ErrNotFound ''''), s)
      else (Inr (), with_db (\<lambda>st. st\<lparr>models := tbl_update (\<lambda>m. m_id m = i)
              (\<lambda>m. m\<lparr>m_scheme := sch, m_updated := now\<rparr>) (models st)\<rparr>) s))"

record Route =
  rt_provider :: Provider
  rt_model :: Model

definition ResolveRoute :: "string \<Rightarrow> svc \<Rightarrow> Route result" where
  "ResolveRoute publicID s =
     (case cut_at CHR ''/'' publicID of
        None \<Rightarrow> Inl (ErrUnknownRoute ''malformed model identifier'')
      | Some (prefix, name) \<Rightarrow>
          if prefix = [] \<or> name = [] then Inl (ErrUnknownRoute ''malformed model identifier'')
          else (case find (\<lambda>(m, p). p_prefix p = prefix \<and> m_name m = name \<and> p_enabled p \<and> m_enabled m)
                  (model_join (db s)) of
              None \<Rightarrow> Inl (ErrUnknownRoute '''')
            | Some (m, p) \<Rightarrow>
                bind_result (GetProvider (m_provider m) s) (\<lambda>pv.
                  Inr \<lparr>rt_provider = pv, rt_model = scanModel m p\<rparr>)))"

section \<open>Constraints\<close>

lemma new_model_row_simps [simp]:
  "m_id (new_model_row pid name en now i) = i" "m_provider (new_model_row pid name en now i) = pid"
  "m_name (new_model_row pid name en now i) = name" "m_scheme (new_model_row pid name en now i) = ''''"
  by (simp_all add: new_model_row_def)

lemma scheme_valid_empty [simp]: "scheme_valid ''''"
  by (simp add: scheme_valid_def)

lemma wf_set_models:
  assumes "wf_store st" "wf_models (st\<lparr>models := t\<rparr>)" "wf_members (st\<lparr>models := t\<rparr>)"
  shows "wf_store (st\<lparr>models := t\<rparr>)"
  using assms by (simp add: wf_store_def wf_defs)

lemma wf_CreateModel:
  assumes "wf_store (db s)" shows "wf_store (db (snd (CreateModel now pid name en s)))"
proof -
  let ?t = "tbl_insert (new_model_row pid name en now) (models (db s))"
  have "wf_store ((db s)\<lparr>models := ?t\<rparr>)"
    if "validateModelName name = Inr ()" "tbl_exists (\<lambda>p. p_id p = pid) (providers (db s))"
      "\<not> tbl_exists (\<lambda>m. (m_provider m, m_name m) = (pid, name)) (models (db s))"
    by (rule wf_set_models [OF assms])
       (use that assms in \<open>auto simp: wf_store_def wf_models_def wf_members_def
          intro!: ids_ok_insert unique_on_insert references_insert all_rows_insert
            references_insert_parent\<close>)
  with assms show ?thesis by (auto simp: CreateModel_def Let_def split: sum.split)
qed

lemma wf_UpdateModel:
  assumes "wf_store (db s)" shows "wf_store (db (snd (UpdateModel now i name en s)))"
proof -
  let ?f = "\<lambda>m. m\<lparr>m_name := name, m_enabled := en, m_updated := now\<rparr>"
  let ?t = "tbl_update (\<lambda>m. m_id m = i) ?f (models (db s))"
  have "wf_store ((db s)\<lparr>models := ?t\<rparr>)"
    if v: "validateModelName name = Inr ()" and c: "tbl_find (\<lambda>m. m_id m = i) (models (db s)) = Some cur"
      and free: "\<not> tbl_exists (\<lambda>m. m_id m \<noteq> i \<and> m_provider m = m_provider cur \<and> m_name m = name) (models (db s))"
    for cur
  proof (rule wf_set_models [OF assms])
    have ok: "ids_ok m_id (models (db s))" using assms by (simp add: wf_store_def wf_defs)
    have only: "r = cur" if "r \<in> set (tbl_rows (models (db s)))" "m_id r = i" for r
      using ids_ok_unique [OF ok that(1)] tbl_find_Some [OF c] that(2) by metis
    have "unique_on (\<lambda>m. (m_provider m, m_name m)) ?t"
      using assms free only
      by (intro unique_on_update_id [where k = "\<lambda>m. (m_provider m, name)"])
         (auto simp: wf_store_def wf_models_def tbl_exists_iff)
    with assms v show "wf_models ((db s)\<lparr>models := ?t\<rparr>)" "wf_members ((db s)\<lparr>models := ?t\<rparr>)"
      by (auto simp: wf_store_def wf_models_def wf_members_def
          intro!: ids_ok_update references_update all_rows_update references_update_parent)
  qed
  with assms show ?thesis by (auto simp: UpdateModel_def Let_def split: sum.split option.split)
qed

lemma wf_deletePromptTargetsFor:
  "wf_store st \<Longrightarrow> wf_store (deletePromptTargetsFor typ i st)"
  by (auto simp: wf_store_def wf_defs deletePromptTargetsFor_def
      intro: ids_ok_delete unique_on_delete references_delete all_rows_delete)

lemma wf_DeleteModel: "wf_store (db s) \<Longrightarrow> wf_store (db (snd (DeleteModel i s)))"
  by (simp add: DeleteModel_def wf_delete_models wf_deletePromptTargetsFor)

lemma wf_SetModelScheme:
  assumes "wf_store (db s)" shows "wf_store (db (snd (SetModelScheme now i sch s)))"
proof -
  have "wf_store ((db s)\<lparr>models := tbl_update (\<lambda>m. m_id m = i)
      (\<lambda>m. m\<lparr>m_scheme := sch, m_updated := now\<rparr>) (models (db s))\<rparr>)" if "scheme_valid sch"
    by (rule wf_set_models [OF assms])
       (use that assms in \<open>auto simp: wf_store_def wf_models_def wf_members_def
          intro!: ids_ok_update unique_on_update references_update all_rows_update
            references_update_parent\<close>)
  with assms show ?thesis by (simp add: SetModelScheme_def ValidModelScheme_def)
qed

section \<open>Routing\<close>

lemma model_join_iff:
  assumes "wf_store st"
  shows "(m, p) \<in> set (model_join st) \<longleftrightarrow>
    m \<in> set (tbl_rows (models st)) \<and> p \<in> set (tbl_rows (providers st)) \<and> p_id p = m_provider m"
proof -
  have ok: "ids_ok p_id (providers st)" using assms by (simp add: wf_store_def wf_defs)
  have "tbl_find (\<lambda>q. p_id q = m_provider m) (providers st) = Some p \<longleftrightarrow>
      p \<in> set (tbl_rows (providers st)) \<and> p_id p = m_provider m"
    using tbl_find_Some [of "\<lambda>q. p_id q = m_provider m" "providers st" p] tbl_find_id [OF ok, of p]
    by auto
  moreover have "(m, p) \<in> set (model_join st) \<longleftrightarrow> m \<in> set (tbl_rows (models st)) \<and>
      tbl_find (\<lambda>q. p_id q = m_provider m) (providers st) = Some p"
    unfolding model_join_def map_filter_def by (force simp: image_iff)
  ultimately show ?thesis by blast
qed

lemma model_by_route_unique:
  assumes wf: "wf_store st" and x: "(m, p) \<in> set (model_join st)" "(m', p') \<in> set (model_join st)"
    and eq: "p_prefix p = p_prefix p'" "m_name m = m_name m'"
  shows "m = m' \<and> p = p'"
proof -
  have "unique_on p_prefix (providers st)" "unique_on (\<lambda>m. (m_provider m, m_name m)) (models st)"
    using wf by (simp_all add: wf_store_def wf_defs)
  then have inj: "inj_on p_prefix (set (tbl_rows (providers st)))"
      "inj_on (\<lambda>m. (m_provider m, m_name m)) (set (tbl_rows (models st)))"
    by (simp_all add: unique_on_def distinct_map)
  from x wf have j: "p \<in> set (tbl_rows (providers st))" "p' \<in> set (tbl_rows (providers st))"
      "m \<in> set (tbl_rows (models st))" "m' \<in> set (tbl_rows (models st))"
      "p_id p = m_provider m" "p_id p' = m_provider m'"
    by (auto simp: model_join_iff)
  have "p = p'" using inj(1) j eq(1) by (auto dest: inj_onD)
  with inj(2) j eq(2) show ?thesis by (auto dest: inj_onD)
qed

lemma ResolveRoute_complete:
  assumes wf: "wf_store (db s)" and mp: "(m, p) \<in> set (model_join (db s))"
    and en: "p_enabled p" "m_enabled m"
  shows "ResolveRoute (public_id (p_prefix p) (m_name m)) s =
    Inr \<lparr>rt_provider = scanProvider (db s) p, rt_model = scanModel m p\<rparr>"
proof -
  from wf mp have p: "p \<in> set (tbl_rows (providers (db s)))" "p_id p = m_provider m"
      and m: "m \<in> set (tbl_rows (models (db s)))" by (simp_all add: model_join_iff)
  have pre: "prefixPattern (p_prefix p)" and name: "validateModelName (m_name m) = Inr ()"
    using wf p(1) m by (auto simp: wf_store_def wf_defs all_rows_def)
  have ne: "p_prefix p \<noteq> []" "m_name m \<noteq> []"
    using pre name by (auto simp: prefixPattern_def validateModelName_ok modelPattern_def)
  have cut: "cut_at CHR ''/'' (public_id (p_prefix p) (m_name m)) = Some (p_prefix p, m_name m)"
    using prefix_no_slash [OF pre] by (simp add: public_id_def)
  let ?P = "\<lambda>(m', p'). p_prefix p' = p_prefix p \<and> m_name m' = m_name m \<and> p_enabled p' \<and> m_enabled m'"
  have "find ?P (model_join (db s)) = Some (m, p)"
  proof -
    have "find ?P (model_join (db s)) \<noteq> None" using mp en by (auto simp: find_None_iff)
    then obtain m' p' where f: "find ?P (model_join (db s)) = Some (m', p')" by auto
    from find_Some_in [OF this] have "(m', p') \<in> set (model_join (db s))"
        "p_prefix p' = p_prefix p" "m_name m' = m_name m" by auto
    with model_by_route_unique [OF wf this(1) mp] f show ?thesis by simp
  qed
  moreover have "GetProvider (m_provider m) s = Inr (scanProvider (db s) p)"
    using tbl_find_id [of p_id "providers (db s)" p] p wf
    by (simp add: GetProvider_def wf_store_def wf_defs)
  ultimately show ?thesis using cut ne by (simp add: ResolveRoute_def)
qed

lemma ResolveRoute_sound:
  assumes wf: "wf_store (db s)" and r: "ResolveRoute pid s = Inr r"
  shows "\<exists>m p. (m, p) \<in> set (model_join (db s)) \<and> p_enabled p \<and> m_enabled m \<and>
    pid = public_id (p_prefix p) (m_name m) \<and>
    r = \<lparr>rt_provider = scanProvider (db s) p, rt_model = scanModel m p\<rparr>"
proof -
  from r obtain prefix name m p where c: "cut_at CHR ''/'' pid = Some (prefix, name)"
      "find (\<lambda>(m, p). p_prefix p = prefix \<and> m_name m = name \<and> p_enabled p \<and> m_enabled m)
         (model_join (db s)) = Some (m, p)"
    by (auto simp: ResolveRoute_def split: option.splits prod.splits if_splits)
  from find_Some_in [OF c(2)] have mp: "(m, p) \<in> set (model_join (db s))" "p_prefix p = prefix"
      "m_name m = name" "p_enabled p" "m_enabled m" by auto
  from c(1) have pid: "pid = public_id (p_prefix p) (m_name m)"
    using mp by (simp add: cut_at_Some public_id_def)
  with ResolveRoute_complete [OF wf mp(1,4,5)] r mp show ?thesis by auto
qed

text \<open>A public id names its prefix and model: the prefix has no slash.\<close>

lemma public_id_inj:
  assumes "prefixPattern a" "prefixPattern b" "public_id a m = public_id b n"
  shows "a = b \<and> m = n"
proof -
  have "cut_at CHR ''/'' (a @ CHR ''/'' # m) = cut_at CHR ''/'' (b @ CHR ''/'' # n)"
    using assms(3) by (simp add: public_id_def)
  then show ?thesis using prefix_no_slash [OF assms(1)] prefix_no_slash [OF assms(2)] by simp
qed

lemma model_join_prefix:
  "wf_store st \<Longrightarrow> (m, p) \<in> set (model_join st) \<Longrightarrow> prefixPattern (p_prefix p)"
  by (auto simp: model_join_iff wf_store_def wf_providers_def all_rows_def)

lemma ResolveRoute_disabled:
  assumes wf: "wf_store (db s)" and mp: "(m, p) \<in> set (model_join (db s))"
    and dis: "\<not> (p_enabled p \<and> m_enabled m)"
  shows "\<exists>e. ResolveRoute (public_id (p_prefix p) (m_name m)) s = Inl e"
proof (cases "ResolveRoute (public_id (p_prefix p) (m_name m)) s")
  case (Inr r)
  from ResolveRoute_sound [OF wf Inr] obtain m' p' where x: "(m', p') \<in> set (model_join (db s))"
      "p_enabled p'" "m_enabled m'" "public_id (p_prefix p) (m_name m) = public_id (p_prefix p') (m_name m')"
    by blast
  from public_id_inj [OF model_join_prefix [OF wf mp] model_join_prefix [OF wf x(1)] x(4)]
  have "m = m' \<and> p = p'" using model_by_route_unique [OF wf mp x(1)] by simp
  with dis x show ?thesis by simp
qed simp

end
