(* ===== verification/Model_Groups.thy ===== *)
theory Model_Groups
  imports Models
begin

text \<open>
  internal/service/groups.go: logical model groups, their ordered members, and
  ResolveGroupTargets, which turns a group name into the candidates a request tries in order.

  Lemmas: every operation keeps the schema's constraints; a reorder succeeds exactly on
  permutations of the members and installs the requested order; the candidates of a group are its
  enabled members whose model, provider and at least one key are enabled.
\<close>

section \<open>Groups\<close>

record Group =
  gv_id :: int
  gv_name :: string
  gv_selection :: string
  gv_enabled :: bool
  gv_member_count :: nat
  gv_created :: time
  gv_updated :: time

definition validateGroupName :: "store \<Rightarrow> string \<Rightarrow> string result" where
  "validateGroupName st name =
     (let name = trim_space name in
      if \<not> groupNamePattern name \<or> CHR ''/'' \<in> set name
      then Inl (ErrValidation ''group name must be 1-64 lowercase letters, digits, dots, underscores, or hyphens'')
      else if 64 < rune_count name
      then Inl (ErrValidation ''group name must be at most 64 characters'')
      else if tbl_exists (\<lambda>p. equal_fold (p_prefix p) name) (providers st)
      then Inl (ErrValidation ''group name conflicts with a provider prefix'')
      else Inr name)"

definition validateGroupSelection :: "key_selection \<Rightarrow> key_selection result" where
  "validateGroupSelection sel =
     (if sel = '''' then Inr KeySelectionFirst
      else if \<not> key_selection_valid sel
      then Inl (ErrValidation (''selection must be '' @ quoted ''first'' @ '' or '' @ quoted ''round_robin''))
      else Inr sel)"

definition scanGroup :: "store \<Rightarrow> group_row \<Rightarrow> Group" where
  "scanGroup st g = \<lparr>gv_id = g_id g, gv_name = g_name g,
     gv_selection = (if key_selection_valid (g_selection g) then g_selection g else KeySelectionFirst),
     gv_enabled = g_enabled g,
     gv_member_count = tbl_count (\<lambda>gm. gm_group gm = g_id g) (group_members st),
     gv_created = g_created g, gv_updated = g_updated g\<rparr>"

definition GetGroup :: "int \<Rightarrow> svc \<Rightarrow> Group result" where
  "GetGroup i s = (case tbl_find (\<lambda>g. g_id g = i) (groups (db s)) of
     None \<Rightarrow> Inl (ErrNotFound '''') | Some g \<Rightarrow> Inr (scanGroup (db s) g))"

definition ListGroups :: "svc \<Rightarrow> Group list" where
  "ListGroups s = map (scanGroup (db s)) (sort_key (\<lambda>g. to_lower (g_name g)) (tbl_rows (groups (db s))))"

definition new_group_row :: "string \<Rightarrow> string \<Rightarrow> bool \<Rightarrow> time \<Rightarrow> int \<Rightarrow> group_row" where
  "new_group_row name sel enabled now i = \<lparr>g_id = i, g_name = name, g_selection = sel,
     g_enabled = enabled, g_created = now, g_updated = now\<rparr>"

definition insert_group :: "string \<Rightarrow> string \<Rightarrow> bool \<Rightarrow> time \<Rightarrow> store \<Rightarrow> store" where
  "insert_group name sel enabled now st = st\<lparr>groups :=
     tbl_insert (new_group_row name sel enabled now) (groups st)\<rparr>"

definition CreateGroup :: "time \<Rightarrow> string \<Rightarrow> bool \<Rightarrow> key_selection \<Rightarrow> svc \<Rightarrow> Group result \<times> svc" where
  "CreateGroup now name enabled selection s =
     (case validateGroupName (db s) name of
        Inl e \<Rightarrow> (Inl e, s)
      | Inr name \<Rightarrow>
      (case validateGroupSelection selection of
        Inl e \<Rightarrow> (Inl e, s)
      | Inr sel \<Rightarrow>
      if tbl_exists (\<lambda>g. equal_fold (g_name g) name) (groups (db s))
      then (Inl (ErrAlreadyExists ''group name already exists''), s)
      else let s' = with_db (insert_group name sel enabled now) s
           in (GetGroup (tbl_seq (groups (db s'))) s', s')))"

definition set_group_row :: "string \<Rightarrow> string \<Rightarrow> bool \<Rightarrow> time \<Rightarrow> group_row \<Rightarrow> group_row" where
  "set_group_row name sel enabled now g =
     g\<lparr>g_name := name, g_selection := sel, g_enabled := enabled, g_updated := now\<rparr>"

definition update_group :: "int \<Rightarrow> (group_row \<Rightarrow> group_row) \<Rightarrow> store \<Rightarrow> store" where
  "update_group i f st = st\<lparr>groups := tbl_update (\<lambda>g. g_id g = i) f (groups st)\<rparr>"

definition UpdateGroup ::
  "time \<Rightarrow> int \<Rightarrow> string \<Rightarrow> bool \<Rightarrow> key_selection \<Rightarrow> svc \<Rightarrow> Group result \<times> svc" where
  "UpdateGroup now i name enabled selection s =
     (case GetGroup i s of
        Inl e \<Rightarrow> (Inl e, s)
      | Inr _ \<Rightarrow>
      (case validateGroupName (db s) name of
        Inl e \<Rightarrow> (Inl e, s)
      | Inr name \<Rightarrow>
      (case validateGroupSelection selection of
        Inl e \<Rightarrow> (Inl e, s)
      | Inr sel \<Rightarrow>
      if tbl_exists (\<lambda>g. g_id g \<noteq> i \<and> equal_fold (g_name g) name) (groups (db s))
      then (Inl (ErrAlreadyExists ''group name already exists''), s)
      else let s' = with_db (update_group i (set_group_row name sel enabled now)) s
           in (GetGroup i s', s'))))"

definition set_group_selection :: "string \<Rightarrow> time \<Rightarrow> group_row \<Rightarrow> group_row" where
  "set_group_selection sel now g = g\<lparr>g_selection := sel, g_updated := now\<rparr>"

definition SetGroupSelection :: "time \<Rightarrow> int \<Rightarrow> key_selection \<Rightarrow> svc \<Rightarrow> Group result \<times> svc" where
  "SetGroupSelection now i selection s =
     (case validateGroupSelection selection of
        Inl e \<Rightarrow> (Inl e, s)
      | Inr sel \<Rightarrow>
      if \<not> tbl_exists (\<lambda>g. g_id g = i) (groups (db s)) then (Inl (ErrNotFound ''''), s)
      else let s' = with_db (update_group i (set_group_selection sel now)) s
           in (GetGroup i s', s'))"

definition DeleteGroup :: "int \<Rightarrow> svc \<Rightarrow> unit result \<times> svc" where
  "DeleteGroup i s =
     (if \<not> tbl_exists (\<lambda>g. g_id g = i) (groups (db s)) then (Inl (ErrNotFound ''''), s)
      else (Inr (), invalidatePromptRules
              (with_db (\<lambda>st. delete_group_row i (deletePromptTargetsFor ''group'' i st)) s)))"

section \<open>Members\<close>

record GroupMember =
  gmv_id :: int
  gmv_group :: int
  gmv_model :: int
  gmv_position :: int
  gmv_enabled :: bool
  gmv_provider :: string
  gmv_prefix :: string
  gmv_model_name :: string
  gmv_public_id :: string
  gmv_created :: time
  gmv_updated :: time

definition scanGroupMember :: "member_row \<Rightarrow> model_row \<Rightarrow> provider_row \<Rightarrow> GroupMember" where
  "scanGroupMember gm m p = \<lparr>gmv_id = gm_id gm, gmv_group = gm_group gm, gmv_model = gm_model gm,
     gmv_position = gm_position gm, gmv_enabled = gm_enabled gm, gmv_provider = p_name p,
     gmv_prefix = p_prefix p, gmv_model_name = m_name m,
     gmv_public_id = public_id (p_prefix p) (m_name m),
     gmv_created = gm_created gm, gmv_updated = gm_updated gm\<rparr>"

text \<open>groupMemberSelect: the member joined with its model and that model's provider.\<close>

definition member_view :: "store \<Rightarrow> member_row \<Rightarrow> GroupMember option" where
  "member_view st gm =
     (case tbl_find (\<lambda>m. m_id m = gm_model gm) (models st) of
        None \<Rightarrow> None
      | Some m \<Rightarrow> map_option (scanGroupMember gm m) (tbl_find (\<lambda>p. p_id p = m_provider m) (providers st)))"

definition member_order :: "int \<Rightarrow> store \<Rightarrow> member_row list" where
  "member_order gid st = tbl_order gm_position gm_id (\<lambda>gm. gm_group gm = gid) (group_members st)"

definition select_members :: "int \<Rightarrow> store \<Rightarrow> GroupMember list" where
  "select_members gid st = List.map_filter (member_view st) (member_order gid st)"

definition select_member :: "int \<Rightarrow> store \<Rightarrow> GroupMember result" where
  "select_member i st = (case tbl_find (\<lambda>gm. gm_id gm = i) (group_members st) of
     None \<Rightarrow> Inl (ErrNotFound '''')
   | Some gm \<Rightarrow> (case member_view st gm of None \<Rightarrow> Inl (ErrNotFound '''') | Some v \<Rightarrow> Inr v))"

definition ListGroupMembers :: "int \<Rightarrow> svc \<Rightarrow> GroupMember list result" where
  "ListGroupMembers gid s = bind_result (GetGroup gid s) (\<lambda>_. Inr (select_members gid (db s)))"

definition new_member_row :: "int \<Rightarrow> int \<Rightarrow> int \<Rightarrow> time \<Rightarrow> int \<Rightarrow> member_row" where
  "new_member_row gid mid position now i = \<lparr>gm_id = i, gm_group = gid, gm_model = mid,
     gm_position = position, gm_enabled = True, gm_created = now, gm_updated = now\<rparr>"

definition max_position :: "int \<Rightarrow> store \<Rightarrow> int" where
  "max_position gid st = tbl_max gm_position (\<lambda>gm. gm_group gm = gid) (group_members st)"

definition set_members :: "(member_row table \<Rightarrow> member_row table) \<Rightarrow> store \<Rightarrow> store" where
  "set_members f st = st\<lparr>group_members := f (group_members st)\<rparr>"

definition AddGroupMember :: "time \<Rightarrow> int \<Rightarrow> int \<Rightarrow> svc \<Rightarrow> GroupMember result \<times> svc" where
  "AddGroupMember now gid mid s =
     (case GetGroup gid s of
        Inl e \<Rightarrow> (Inl e, s)
      | Inr _ \<Rightarrow>
      (case GetModel mid s of
        Inl e \<Rightarrow> (Inl e, s)
      | Inr _ \<Rightarrow>
      if tbl_exists (\<lambda>gm. (gm_group gm, gm_model gm) = (gid, mid)) (group_members (db s))
      then (Inl (ErrAlreadyExists ''model is already a member of this group''), s)
      else let s' = with_db (set_members (tbl_insert
                 (new_member_row gid mid (max_position gid (db s) + 1) now))) s
           in (select_member (tbl_seq (group_members (db s'))) (db s'), s')))"

definition member_match :: "int \<Rightarrow> int \<Rightarrow> member_row \<Rightarrow> bool" where
  "member_match gid i gm \<longleftrightarrow> gm_id gm = i \<and> gm_group gm = gid"

definition set_member_enabled :: "bool \<Rightarrow> time \<Rightarrow> member_row \<Rightarrow> member_row" where
  "set_member_enabled enabled now gm = gm\<lparr>gm_enabled := enabled, gm_updated := now\<rparr>"

definition UpdateGroupMember ::
  "time \<Rightarrow> int \<Rightarrow> int \<Rightarrow> bool \<Rightarrow> svc \<Rightarrow> GroupMember result \<times> svc" where
  "UpdateGroupMember now gid i enabled s =
     (if \<not> tbl_exists (member_match gid i) (group_members (db s)) then (Inl (ErrNotFound ''''), s)
      else let s' = with_db (set_members (tbl_update (member_match gid i) (set_member_enabled enabled now))) s
           in (select_member i (db s'), s'))"

definition DeleteGroupMember :: "int \<Rightarrow> int \<Rightarrow> svc \<Rightarrow> unit result \<times> svc" where
  "DeleteGroupMember gid i s =
     (if \<not> tbl_exists (member_match gid i) (group_members (db s)) then (Inl (ErrNotFound ''''), s)
      else (Inr (), with_db (set_members (tbl_delete (member_match gid i))) s))"

definition set_member_position :: "time \<Rightarrow> int \<Rightarrow> member_row \<Rightarrow> member_row" where
  "set_member_position now q gm = gm\<lparr>gm_position := q, gm_updated := now\<rparr>"

definition ReorderGroupMembers :: "time \<Rightarrow> int \<Rightarrow> int list \<Rightarrow> svc \<Rightarrow> unit result \<times> svc" where
  "ReorderGroupMembers now gid memberIDs s =
     (case ListGroupMembers gid s of
        Inl e \<Rightarrow> (Inl e, s)
      | Inr members \<Rightarrow>
      if \<not> order_valid memberIDs (map gmv_id members)
      then (Inl (ErrValidation ''member order must include every member exactly once''), s)
      else (Inr (), with_db (set_members
             (reposition (member_match gid) (set_member_position now) 0 memberIDs)) s))"

section \<open>Resolution\<close>

record groupCandidate =
  gc_route :: Route
  gc_keys :: "ProviderKey list"

text \<open>The loop over the members; a failing route or key lookup skips the member.\<close>

fun collect_candidates :: "crypto \<Rightarrow> GroupMember list \<Rightarrow> svc \<Rightarrow> groupCandidate list \<times> svc" where
  "collect_candidates c [] s = ([], s)"
| "collect_candidates c (gm # gms) s =
     (if \<not> gmv_enabled gm then collect_candidates c gms s
      else (case ResolveRoute (gmv_public_id gm) s of
          Inl _ \<Rightarrow> collect_candidates c gms s
        | Inr route \<Rightarrow>
            (case EligibleKeys c (pv_id (rt_provider route)) s of
               (Inl _, s') \<Rightarrow> collect_candidates c gms s'
             | (Inr keys, s') \<Rightarrow>
                 if keys = [] then collect_candidates c gms s'
                 else (let (out, s'') = collect_candidates c gms s'
                       in (\<lparr>gc_route = route, gc_keys = keys\<rparr> # out, s'')))))"

definition ResolveGroupTargets ::
  "crypto \<Rightarrow> string \<Rightarrow> svc \<Rightarrow> (Group \<times> groupCandidate list) result \<times> svc" where
  "ResolveGroupTargets c name s =
     (case tbl_find (\<lambda>g. equal_fold (g_name g) name) (groups (db s)) of
        None \<Rightarrow> (Inl (ErrUnknownRoute ''''), s)
      | Some row \<Rightarrow>
      let group = scanGroup (db s) row in
      if \<not> gv_enabled group then (Inl (ErrUnknownRoute ''''), s)
      else let (out, s1) = collect_candidates c (select_members (gv_id group) (db s)) s in
      if out = [] then (Inl ErrNoGroupTargets, s1)
      else let (ordered, s2) = order_candidates ''group'' (gv_id group) (gv_selection group) out s1
      in (Inr (group, ordered), s2))"

section \<open>Constraints\<close>

lemma group_row_simps [simp]:
  "g_id (new_group_row name sel en now i) = i" "g_name (new_group_row name sel en now i) = name"
  "g_selection (new_group_row name sel en now i) = sel"
  "g_id (set_group_row name sel en now g) = g_id g" "g_name (set_group_row name sel en now g) = name"
  "g_selection (set_group_row name sel en now g) = sel"
  "g_id (set_group_selection sel now g) = g_id g" "g_name (set_group_selection sel now g) = g_name g"
  "g_selection (set_group_selection sel now g) = sel"
  by (simp_all add: new_group_row_def set_group_row_def set_group_selection_def)

lemma member_row_simps [simp]:
  "gm_id (new_member_row gid mid q now i) = i" "gm_group (new_member_row gid mid q now i) = gid"
  "gm_model (new_member_row gid mid q now i) = mid" "gm_position (new_member_row gid mid q now i) = q"
  "gm_enabled (new_member_row gid mid q now i)"
  "gm_id (set_member_enabled en now gm) = gm_id gm" "gm_group (set_member_enabled en now gm) = gm_group gm"
  "gm_model (set_member_enabled en now gm) = gm_model gm"
  "gm_position (set_member_enabled en now gm) = gm_position gm"
  "gm_id (set_member_position now q gm) = gm_id gm" "gm_group (set_member_position now q gm) = gm_group gm"
  "gm_model (set_member_position now q gm) = gm_model gm" "gm_position (set_member_position now q gm) = q"
  "gm_enabled (set_member_position now q gm) = gm_enabled gm"
  by (simp_all add: new_member_row_def set_member_enabled_def set_member_position_def)

lemma validateGroupName_ok:
  "validateGroupName st name = Inr n \<Longrightarrow> n = trim_space name \<and> groupNamePattern n \<and>
     \<not> tbl_exists (\<lambda>p. equal_fold (p_prefix p) n) (providers st)"
  by (auto simp: validateGroupName_def Let_def split: if_splits)

lemma validateGroupSelection_ok:
  "validateGroupSelection sel = Inr s \<Longrightarrow> key_selection_valid s"
  by (auto simp: validateGroupSelection_def split: if_splits)

lemma wf_set_groups:
  assumes "wf_store st" "wf_groups (st\<lparr>groups := t\<rparr>)" "references gm_group (group_members st) g_id t"
  shows "wf_store (st\<lparr>groups := t\<rparr>)"
  using assms by (simp add: wf_store_def wf_defs)

lemma wf_insert_group:
  assumes wf: "wf_store st" and v: "groupNamePattern name" "key_selection_valid sel"
    and free: "\<not> tbl_exists (\<lambda>g. equal_fold (g_name g) name) (groups st)"
  shows "wf_store (insert_group name sel en now st)"
  unfolding insert_group_def
proof (rule wf_set_groups [OF wf])
  let ?t = "tbl_insert (new_group_row name sel en now) (groups st)"
  from wf have w: "wf_groups st" by (simp add: wf_store_def)
  then have "ids_ok g_id ?t" "unique_on (\<lambda>g. to_lower (g_name g)) ?t"
    using free by (auto simp: wf_groups_def equal_fold_def intro!: ids_ok_insert unique_on_insert)
  moreover have "all_rows (\<lambda>g. groupNamePattern (g_name g) \<and> key_selection_valid (g_selection g)) ?t"
    using w v by (intro all_rows_insert) (simp_all add: wf_groups_def)
  ultimately show "wf_groups (st\<lparr>groups := ?t\<rparr>)" by (simp add: wf_groups_def)
  show "references gm_group (group_members st) g_id ?t"
    using wf by (simp add: wf_store_def wf_defs references_insert_parent)
qed

lemma wf_update_group:
  assumes wf: "wf_store st" and id: "\<And>g. g_id (f g) = g_id g"
    and u: "unique_on (\<lambda>g. to_lower (g_name g)) (tbl_update (\<lambda>g. g_id g = i) f (groups st))"
    and v: "\<And>g. groupNamePattern (g_name g) \<Longrightarrow> groupNamePattern (g_name (f g)) \<and> key_selection_valid (g_selection (f g))"
  shows "wf_store (update_group i f st)"
  unfolding update_group_def
proof (rule wf_set_groups [OF wf])
  let ?t = "tbl_update (\<lambda>g. g_id g = i) f (groups st)"
  from wf have w: "wf_groups st" by (simp add: wf_store_def)
  then have "ids_ok g_id ?t" using id by (intro ids_ok_update) (simp_all add: wf_groups_def)
  moreover have "all_rows (\<lambda>g. groupNamePattern (g_name g) \<and> key_selection_valid (g_selection g)) ?t"
    using w v by (intro all_rows_update) (simp_all add: wf_groups_def)
  ultimately show "wf_groups (st\<lparr>groups := ?t\<rparr>)" using u by (simp add: wf_groups_def)
  show "references gm_group (group_members st) g_id ?t"
    using wf id by (simp add: wf_store_def wf_defs references_update_parent)
qed

lemma wf_CreateGroup:
  "wf_store (db s) \<Longrightarrow> wf_store (db (snd (CreateGroup now name en sel s)))"
  by (auto simp: CreateGroup_def Let_def split: sum.split
      dest!: validateGroupName_ok validateGroupSelection_ok intro!: wf_insert_group)

lemma wf_UpdateGroup:
  assumes wf: "wf_store (db s)" shows "wf_store (db (snd (UpdateGroup now i name en sel s)))"
proof -
  have w: "ids_ok g_id (groups (db s))" "unique_on (\<lambda>g. to_lower (g_name g)) (groups (db s))"
    using wf by (simp_all add: wf_store_def wf_groups_def)
  have "wf_store (update_group i (set_group_row n sl en now) (db s))"
    if "validateGroupName (db s) name = Inr n" "validateGroupSelection sel = Inr sl"
      "\<not> tbl_exists (\<lambda>g. g_id g \<noteq> i \<and> equal_fold (g_name g) n) (groups (db s))" for n sl
  proof (rule wf_update_group [OF wf])
    show "unique_on (\<lambda>g. to_lower (g_name g))
        (tbl_update (\<lambda>g. g_id g = i) (set_group_row n sl en now) (groups (db s)))"
      by (rule unique_on_update_id [OF w(2,1), where k = "\<lambda>_. to_lower n"])
         (use that(3) in \<open>auto simp: tbl_exists_iff equal_fold_def\<close>)
  qed (use that validateGroupName_ok validateGroupSelection_ok in auto)
  with wf show ?thesis by (auto simp: UpdateGroup_def Let_def split: sum.split)
qed

lemma wf_SetGroupSelection:
  assumes wf: "wf_store (db s)" shows "wf_store (db (snd (SetGroupSelection now i sel s)))"
proof -
  have u: "unique_on (\<lambda>g. to_lower (g_name g)) (groups (db s))"
    using wf by (simp add: wf_store_def wf_groups_def)
  have "wf_store (update_group i (set_group_selection sl now) (db s))"
    if "key_selection_valid sl" for sl
    by (rule wf_update_group [OF wf])
       (use that unique_on_update [OF u] in auto)
  with wf show ?thesis
    by (auto simp: SetGroupSelection_def Let_def split: sum.split dest!: validateGroupSelection_ok)
qed

lemma wf_DeleteGroup: "wf_store (db s) \<Longrightarrow> wf_store (db (snd (DeleteGroup i s)))"
  by (simp add: DeleteGroup_def wf_delete_group wf_deletePromptTargetsFor)

lemma wf_set_members:
  "wf_store st \<Longrightarrow> wf_members (set_members f st) \<Longrightarrow> wf_store (set_members f st)"
  by (simp add: wf_store_def wf_defs set_members_def)

lemma set_members_simps [simp]:
  "group_members (set_members f st) = f (group_members st)"
  "groups (set_members f st) = groups st" "models (set_members f st) = models st"
  "providers (set_members f st) = providers st" "provider_keys (set_members f st) = provider_keys st"
  by (simp_all add: set_members_def)

lemma wf_update_members:
  assumes "wf_store st" "\<And>gm. gm_id (f gm) = gm_id gm" "\<And>gm. gm_group (f gm) = gm_group gm"
    "\<And>gm. gm_model (f gm) = gm_model gm"
  shows "wf_store (set_members (tbl_update p f) st)"
proof (rule wf_set_members [OF assms(1)])
  from assms(1) have w: "wf_members st" by (simp add: wf_store_def)
  show "wf_members (set_members (tbl_update p f) st)"
    unfolding wf_members_def set_members_simps
    by (intro conjI ids_ok_update unique_on_update references_update)
       (use w assms(2-4) in \<open>simp_all add: wf_members_def\<close>)
qed

lemma GetGroup_Inr: "GetGroup i s = Inr g \<Longrightarrow> tbl_exists (\<lambda>g. g_id g = i) (groups (db s))"
  using tbl_find_None [of "\<lambda>g. g_id g = i" "groups (db s)"]
  by (auto simp: GetGroup_def split: option.splits)

lemma GetModel_Inr:
  assumes "GetModel i s = Inr m" shows "tbl_exists (\<lambda>m. m_id m = i) (models (db s))"
proof -
  from assms obtain r p where "find (\<lambda>(m, p). m_id m = i) (model_join (db s)) = Some (r, p)"
    by (auto simp: GetModel_def split: option.splits)
  from find_Some_in [OF this] show ?thesis
    by (force simp: model_join_def map_filter_def tbl_exists_iff)
qed

lemma wf_AddGroupMember:
  assumes wf: "wf_store (db s)" shows "wf_store (db (snd (AddGroupMember now gid mid s)))"
proof -
  have "wf_store (set_members (tbl_insert (new_member_row gid mid q now)) (db s))"
    if "tbl_exists (\<lambda>g. g_id g = gid) (groups (db s))" "tbl_exists (\<lambda>m. m_id m = mid) (models (db s))"
      "\<not> tbl_exists (\<lambda>gm. (gm_group gm, gm_model gm) = (gid, mid)) (group_members (db s))" for q
  proof (rule wf_set_members [OF wf])
    from wf have w: "wf_members (db s)" by (simp add: wf_store_def)
    show "wf_members (set_members (tbl_insert (new_member_row gid mid q now)) (db s))"
      unfolding wf_members_def set_members_simps
      by (intro conjI ids_ok_insert unique_on_insert references_insert)
         (use w that in \<open>simp_all add: wf_members_def\<close>)
  qed
  with wf show ?thesis
    by (auto simp: AddGroupMember_def Let_def split: sum.split dest: GetGroup_Inr GetModel_Inr)
qed

lemma wf_UpdateGroupMember:
  "wf_store (db s) \<Longrightarrow> wf_store (db (snd (UpdateGroupMember now gid i en s)))"
  by (simp add: UpdateGroupMember_def Let_def wf_update_members)

lemma wf_DeleteGroupMember:
  assumes wf: "wf_store (db s)" shows "wf_store (db (snd (DeleteGroupMember gid i s)))"
proof -
  from wf have w: "wf_members (db s)" by (simp add: wf_store_def)
  have "wf_members (set_members (tbl_delete (member_match gid i)) (db s))"
    unfolding wf_members_def set_members_simps
    by (intro conjI ids_ok_delete unique_on_delete references_delete)
       (use w in \<open>simp_all add: wf_members_def\<close>)
  from wf_set_members [OF wf this] wf show ?thesis by (simp add: DeleteGroupMember_def)
qed

section \<open>Member order\<close>

interpretation member_rows: ordered_rows gm_id gm_position gm_group member_match set_member_position
  by unfold_locales (auto simp: member_match_def)

lemma wf_reposition_members:
  "wf_store st \<Longrightarrow> wf_store (set_members (reposition (member_match gid) (set_member_position now) p ids) st)"
proof (induction ids arbitrary: p st)
  case (Cons i ids)
  let ?st = "set_members (tbl_update (member_match gid i) (set_member_position now p)) st"
  have "wf_store ?st" using Cons.prems by (intro wf_update_members) simp_all
  from Cons.IH [OF this, of "p + 1"] show ?case by (simp add: set_members_def)
qed (simp add: set_members_def)

lemma wf_ReorderGroupMembers:
  "wf_store (db s) \<Longrightarrow> wf_store (db (snd (ReorderGroupMembers now gid ids s)))"
  by (simp add: ReorderGroupMembers_def wf_reposition_members split: sum.split)

lemma scanGroupMember_simps [simp]:
  "gmv_id (scanGroupMember gm m p) = gm_id gm" "gmv_model (scanGroupMember gm m p) = gm_model gm"
  "gmv_enabled (scanGroupMember gm m p) = gm_enabled gm"
  "gmv_public_id (scanGroupMember gm m p) = public_id (p_prefix p) (m_name m)"
  by (simp_all add: scanGroupMember_def)

lemma member_view_Some:
  assumes wf: "wf_store st" and gm: "gm \<in> set (tbl_rows (group_members st))"
  obtains m p where "m \<in> set (tbl_rows (models st))" "p \<in> set (tbl_rows (providers st))"
    "m_id m = gm_model gm" "p_id p = m_provider m" "member_view st gm = Some (scanGroupMember gm m p)"
proof -
  obtain m where m: "m \<in> set (tbl_rows (models st))" "m_id m = gm_model gm"
    using wf gm by (auto simp: wf_store_def wf_members_def references_def)
  obtain p where p: "p \<in> set (tbl_rows (providers st))" "p_id p = m_provider m"
    using wf m by (auto simp: wf_store_def wf_models_def references_def)
  have "ids_ok m_id (models st)" "ids_ok p_id (providers st)"
    using wf by (simp_all add: wf_store_def wf_defs)
  from tbl_find_id [OF this(1) m(1)] tbl_find_id [OF this(2) p(1)] m p that show thesis
    by (simp add: member_view_def)
qed

lemma map_filter_total:
  "(\<And>x. x \<in> set xs \<Longrightarrow> f x = Some (g x)) \<Longrightarrow> List.map_filter f xs = map g xs"
  by (induction xs) (auto simp: List.map_filter_simps)

lemma select_members_map:
  assumes wf: "wf_store st"
  shows "select_members gid st = map (\<lambda>gm. the (member_view st gm)) (member_order gid st)"
  unfolding select_members_def
proof (rule map_filter_total)
  fix gm assume "gm \<in> set (member_order gid st)"
  then have "gm \<in> set (tbl_rows (group_members st))" by (simp add: member_order_def)
  from member_view_Some [OF wf this] show "member_view st gm = Some (the (member_view st gm))"
    by (metis option.sel)
qed

lemma select_members_ids:
  assumes wf: "wf_store st"
  shows "map gmv_id (select_members gid st) = map gm_id (member_order gid st)"
proof -
  have "gmv_id (the (member_view st gm)) = gm_id gm" if "gm \<in> set (member_order gid st)" for gm
  proof -
    from that have "gm \<in> set (tbl_rows (group_members st))" by (simp add: member_order_def)
    from member_view_Some [OF wf this] show ?thesis by (metis option.sel scanGroupMember_simps(1))
  qed
  then show ?thesis by (simp add: select_members_map [OF wf])
qed

lemma reorder_members:
  assumes wf: "wf_store (db s)" and g: "GetGroup gid s = Inr g"
    and perm: "mset ids = mset (map gmv_id (select_members gid (db s)))"
  shows "fst (ReorderGroupMembers now gid ids s) = Inr () \<and>
    map gmv_id (select_members gid (db (snd (ReorderGroupMembers now gid ids s)))) = ids"
proof -
  have ok: "ids_ok gm_id (group_members (db s))" using wf by (simp add: wf_store_def wf_members_def)
  have p: "mset ids = mset (map gm_id (tbl_order gm_position gm_id (\<lambda>r. gm_group r = gid) (group_members (db s))))"
    using perm by (simp only: select_members_ids [OF wf] member_order_def)
  have "distinct (map gmv_id (select_members gid (db s)))"
    using distinct_ids_tbl_order [OF ok] by (simp add: select_members_ids [OF wf] member_order_def)
  then have v: "order_valid ids (map gmv_id (select_members gid (db s)))"
    using perm by (simp add: order_valid_iff)
  let ?s' = "with_db (set_members (reposition (member_match gid) (set_member_position now) 0 ids)) s"
  have "wf_store (db ?s')" using wf by (simp add: wf_reposition_members)
  from select_members_ids [OF this, of gid]
  have "map gmv_id (select_members gid (db ?s')) = ids"
    using member_rows.order_reposition [OF ok _ p, where now = now]
    by (simp add: member_order_def member_match_def)
  with v g show ?thesis by (simp add: ReorderGroupMembers_def ListGroupMembers_def)
qed

lemma reorder_members_rejects:
  assumes wf: "wf_store (db s)" and g: "GetGroup gid s = Inr g"
    and perm: "mset ids \<noteq> mset (map gmv_id (select_members gid (db s)))"
  shows "\<exists>msg. ReorderGroupMembers now gid ids s = (Inl (ErrValidation msg), s)"
proof -
  have ok: "ids_ok gm_id (group_members (db s))" using wf by (simp add: wf_store_def wf_members_def)
  have "distinct (map gmv_id (select_members gid (db s)))"
    using distinct_ids_tbl_order [OF ok] by (simp add: select_members_ids [OF wf] member_order_def)
  then have "\<not> order_valid ids (map gmv_id (select_members gid (db s)))"
    using perm by (simp add: order_valid_iff)
  with g show ?thesis by (simp add: ReorderGroupMembers_def ListGroupMembers_def)
qed

section \<open>Candidates\<close>

lemma collect_candidates_db [simp]:
  "db (snd (collect_candidates c gms s)) = db s"
proof (induction c gms s rule: collect_candidates.induct)
  case (2 c gm gms s)
  show ?case
  proof (cases "gmv_enabled gm \<and> (\<exists>r. ResolveRoute (gmv_public_id gm) s = Inr r)")
    case True
    then obtain r where r: "ResolveRoute (gmv_public_id gm) s = Inr r" "gmv_enabled gm" by auto
    obtain ks s' where e: "EligibleKeys c (pv_id (rt_provider r)) s = (ks, s')" by force
    then have "db s' = db s" using EligibleKeys_db [of c "pv_id (rt_provider r)" s] by simp
    with 2 r e show ?thesis by (cases ks) (auto simp: case_prod_unfold Let_def)
  next
    case False
    with 2 show ?thesis by (auto split: sum.split)
  qed
qed simp

text \<open>What it takes for a member to be a candidate.\<close>

definition member_ready :: "store \<Rightarrow> member_row \<Rightarrow> bool" where
  "member_ready st gm \<longleftrightarrow> gm_enabled gm \<and>
     (case tbl_find (\<lambda>m. m_id m = gm_model gm) (models st) of
        None \<Rightarrow> False
      | Some m \<Rightarrow> m_enabled m \<and>
          tbl_exists (\<lambda>p. p_id p = m_provider m \<and> p_enabled p) (providers st) \<and>
          tbl_exists (\<lambda>k. pk_provider k = m_provider m \<and> pk_enabled k) (provider_keys st))"

definition candidate_ok :: "crypto \<Rightarrow> svc \<Rightarrow> groupCandidate \<Rightarrow> bool" where
  "candidate_ok c s cand \<longleftrightarrow> gc_keys cand \<noteq> [] \<and> mset (gc_keys cand) =
     mset (filter kv_enabled (ListProviderKeys c (pv_id (rt_provider (gc_route cand))) s))"

lemma candidate_ok_cong: "db s = db s' \<Longrightarrow> candidate_ok c s = candidate_ok c s'"
  by (rule ext) (simp add: candidate_ok_def cong: ListProviderKeys_cong)

lemma scan_ids [simp]: "pv_id (scanProvider st p) = p_id p" "mv_id (scanModel m p) = m_id m"
  by (simp_all add: scanProvider_def scanModel_def Let_def)

text \<open>One iteration of the loop.\<close>

lemma collect_step_skip:
  "\<not> gmv_enabled gm \<or> (\<exists>e. ResolveRoute (gmv_public_id gm) s = Inl e) \<Longrightarrow>
     collect_candidates c (gm # gms) s = collect_candidates c gms s"
  by (auto split: sum.split)

lemma collect_step:
  assumes en: "gmv_enabled gm" and r: "ResolveRoute (gmv_public_id gm) s = Inr r"
    and p: "GetProvider (pv_id (rt_provider r)) s = Inr pv"
  obtains keys s' where "db s' = db s"
    "mset keys = mset (filter kv_enabled (ListProviderKeys c (pv_id (rt_provider r)) s))"
    "fst (collect_candidates c (gm # gms) s) =
       (if keys = [] then [] else [\<lparr>gc_route = r, gc_keys = keys\<rparr>]) @ fst (collect_candidates c gms s')"
proof -
  obtain keys where k: "fst (EligibleKeys c (pv_id (rt_provider r)) s) = Inr keys"
      "mset keys = mset (filter kv_enabled (ListProviderKeys c (pv_id (rt_provider r)) s))"
    using EligibleKeys_perm [OF p] by blast
  let ?s' = "snd (EligibleKeys c (pv_id (rt_provider r)) s)"
  have e: "EligibleKeys c (pv_id (rt_provider r)) s = (Inr keys, ?s')" using k(1) by (simp add: prod_eq_iff)
  show thesis
    by (rule that [of ?s' keys]) (use en r k e in \<open>simp_all add: case_prod_unfold Let_def\<close>)
qed

lemma collect_sound:
  assumes "wf_store st" "set gms \<subseteq> set (tbl_rows (group_members st))"
  shows "db s = st \<Longrightarrow>
    map (\<lambda>cand. mv_id (rt_model (gc_route cand)))
      (fst (collect_candidates c (map (\<lambda>gm. the (member_view st gm)) gms) s)) =
      map gm_model (filter (member_ready st) gms) \<and>
    (\<forall>cand \<in> set (fst (collect_candidates c (map (\<lambda>gm. the (member_view st gm)) gms) s)).
       candidate_ok c s cand)"
  using assms(2)
proof (induction gms arbitrary: s)
  case (Cons gm gms)
  let ?v = "\<lambda>gm. the (member_view st gm)"
  from Cons.prems have wf: "wf_store (db s)" and gm: "gm \<in> set (tbl_rows (group_members st))"
    using assms(1) by auto
  obtain m p where mp: "m \<in> set (tbl_rows (models st))" "p \<in> set (tbl_rows (providers st))"
      "m_id m = gm_model gm" "p_id p = m_provider m" "member_view st gm = Some (scanGroupMember gm m p)"
    using member_view_Some [OF assms(1) gm] by metis
  have ids: "ids_ok m_id (models st)" "ids_ok p_id (providers st)"
    using assms(1) by (simp_all add: wf_store_def wf_defs)
  have join: "(m, p) \<in> set (model_join (db s))" using mp Cons.prems assms(1) by (simp add: model_join_iff)
  have pe: "tbl_exists (\<lambda>q. p_id q = m_provider m \<and> p_enabled q) (providers st) \<longleftrightarrow> p_enabled p"
  proof
    assume "tbl_exists (\<lambda>q. p_id q = m_provider m \<and> p_enabled q) (providers st)"
    then obtain q where q: "q \<in> set (tbl_rows (providers st))" "p_id q = m_provider m" "p_enabled q"
      by (auto simp: tbl_exists_iff)
    have "q = p" by (rule ids_ok_unique [OF ids(2) q(1) mp(2)]) (simp add: q(2) mp(4))
    with q show "p_enabled p" by simp
  next
    assume "p_enabled p"
    then show "tbl_exists (\<lambda>q. p_id q = m_provider m \<and> p_enabled q) (providers st)"
      using mp(2,4) by (auto simp: tbl_exists_iff)
  qed
  have ready: "member_ready st gm \<longleftrightarrow> gm_enabled gm \<and> m_enabled m \<and> p_enabled p \<and>
      tbl_exists (\<lambda>k. pk_provider k = m_provider m \<and> pk_enabled k) (provider_keys st)"
    using tbl_find_id [OF ids(1) mp(1)] mp(3) pe by (simp add: member_ready_def)
  show ?case
  proof (cases "gm_enabled gm \<and> p_enabled p \<and> m_enabled m")
    case False
    then have "\<not> gmv_enabled (?v gm) \<or> (\<exists>e. ResolveRoute (gmv_public_id (?v gm)) s = Inl e)"
      using ResolveRoute_disabled [OF wf join] mp(5) by auto
    from collect_step_skip [OF this]
    have "collect_candidates c (map ?v (gm # gms)) s = collect_candidates c (map ?v gms) s"
      by (simp del: collect_candidates.simps)
    moreover have "\<not> member_ready st gm" using False ready by blast
    ultimately show ?thesis using Cons by (simp del: collect_candidates.simps)
  next
    case True
    let ?r = "\<lparr>rt_provider = scanProvider (db s) p, rt_model = scanModel m p\<rparr>"
    have r: "ResolveRoute (gmv_public_id (?v gm)) s = Inr ?r" and en: "gmv_enabled (?v gm)"
      using ResolveRoute_complete [OF wf join] True mp(5) by auto
    have gp: "GetProvider (pv_id (rt_provider ?r)) s = Inr (scanProvider st p)"
      using tbl_find_id [OF ids(2) mp(2)] Cons.prems by (simp add: GetProvider_def)
    obtain keys s' where k: "db s' = db s"
        "mset keys = mset (filter kv_enabled (ListProviderKeys c (pv_id (rt_provider ?r)) s))"
        "fst (collect_candidates c (map ?v (gm # gms)) s) =
           (if keys = [] then [] else [\<lparr>gc_route = ?r, gc_keys = keys\<rparr>]) @
             fst (collect_candidates c (map ?v gms) s')"
      by (rule collect_step [OF en r gp, of c "map ?v gms"]) simp
    have ne: "keys = [] \<longleftrightarrow> \<not> member_ready st gm"
    proof -
      have "keys = [] \<longleftrightarrow> filter kv_enabled (ListProviderKeys c (pv_id (rt_provider ?r)) s) = []"
        using k(2) by (metis mset_zero_iff)
      then show ?thesis using True ready mp(4) Cons.prems by (simp add: no_enabled_keys_iff)
    qed
    have IH: "map (\<lambda>cand. mv_id (rt_model (gc_route cand))) (fst (collect_candidates c (map ?v gms) s')) =
        map gm_model (filter (member_ready st) gms)"
        "\<forall>cand \<in> set (fst (collect_candidates c (map ?v gms) s')). candidate_ok c s cand"
      using Cons.IH [of s'] Cons.prems k(1) candidate_ok_cong [OF k(1)] by auto
    show ?thesis
    proof (cases "keys = []")
      case True
      then show ?thesis using k(3) ne IH by simp
    next
      case False
      then have "candidate_ok c s \<lparr>gc_route = ?r, gc_keys = keys\<rparr>"
        using k(2) by (simp add: candidate_ok_def)
      then show ?thesis using False k(3) ne IH mp(3) by simp
    qed
  qed
qed simp

lemma group_candidates:
  assumes wf: "wf_store (db s)"
    and c: "cands = fst (collect_candidates c (select_members gid (db s)) s)"
  shows "map (\<lambda>cand. mv_id (rt_model (gc_route cand))) cands =
      map gm_model (filter (member_ready (db s)) (member_order gid (db s)))"
    and "\<forall>cand \<in> set cands. candidate_ok c s cand"
  using collect_sound [OF wf _ refl, of "member_order gid (db s)" c]
  by (auto simp: c select_members_map [OF wf] member_order_def)

lemma ResolveGroupTargets_db [simp]: "db (snd (ResolveGroupTargets c name s)) = db s"
proof -
  have "db (snd (collect_candidates c gms s)) = db s" for gms by simp
  then show ?thesis
    by (auto simp: ResolveGroupTargets_def Let_def case_prod_unfold simp del: collect_candidates_db
        split: option.split)
qed

lemma ResolveGroupTargets_enabled:
  assumes g: "tbl_find (\<lambda>g. equal_fold (g_name g) name) (groups (db s)) = Some row"
    and en: "g_enabled row"
    and c: "collect_candidates c (select_members (g_id row) (db s)) s = (cands, s1)"
  shows "fst (ResolveGroupTargets c name s) = (if cands = [] then Inl ErrNoGroupTargets
    else Inr (scanGroup (db s) row, fst (order_candidates ''group'' (g_id row)
      (gv_selection (scanGroup (db s) row)) cands s1)))"
  using g en c by (simp add: ResolveGroupTargets_def Let_def case_prod_unfold scanGroup_def)

end
