(* ===== verification/Prompt_Rules.thy ===== *)
theory Prompt_Rules
  imports Model_Groups
begin

text \<open>
  internal/service/promptrules.go: named system prompts claimed by groups and models, their
  in-memory snapshot, and the resolution of the prompts a request gets.

  Lemmas: every operation keeps the schema's constraints and the coherence of the snapshot (when it
  is loaded it equals what a load from the database would give); resolution picks the enabled rules
  that claim the group or the model in list order, and the model's rule decides over the group's
  whether the global prompt is suppressed.
\<close>

section \<open>Rules as the service returns them\<close>

record PromptRuleTarget =
  tg_type :: string
  tg_id :: int
  tg_label :: string

record PromptRule =
  pr_id :: int
  pr_name :: string
  pr_prompt :: string
  pr_inherit :: bool
  pr_enabled :: bool
  pr_position :: int
  pr_targets :: "PromptRuleTarget list"
  pr_created :: time
  pr_updated :: time

record PromptRuleInput =
  in_name :: string
  in_prompt :: string
  in_inherit :: bool
  in_enabled :: bool
  in_targets :: "PromptRuleTarget list"

definition PromptTargetGroup :: string where "PromptTargetGroup = ''group''"
definition PromptTargetModel :: string where "PromptTargetModel = ''model''"

lemmas target_type_defs = PromptTargetGroup_def PromptTargetModel_def

definition scanPromptRule :: "rule_row \<Rightarrow> PromptRule" where
  "scanPromptRule r = \<lparr>pr_id = r_id r, pr_name = r_name r, pr_prompt = r_prompt r,
     pr_inherit = r_inherit r, pr_enabled = r_enabled r, pr_position = r_position r,
     pr_targets = [], pr_created = r_created r, pr_updated = r_updated r\<rparr>"

text \<open>
  promptTargetSelect: the label of a group target is the group's name, NULL (a Scan error) when the
  group is gone; the label of a model target falls back to the empty string.
\<close>

definition target_label :: "store \<Rightarrow> target_row \<Rightarrow> string option" where
  "target_label st t =
     (if t_type t = PromptTargetGroup
      then map_option g_name (tbl_find (\<lambda>g. g_id g = t_target t) (groups st))
      else Some (case tbl_find (\<lambda>m. t_type t = PromptTargetModel \<and> m_id m = t_target t) (models st) of
          None \<Rightarrow> ''''
        | Some m \<Rightarrow> (case tbl_find (\<lambda>p. p_id p = m_provider m) (providers st) of
              None \<Rightarrow> '''' | Some p \<Rightarrow> public_id (p_prefix p) (m_name m))))"

definition targets_of :: "store \<Rightarrow> int \<Rightarrow> PromptRuleTarget list" where
  "targets_of st i =
     map (\<lambda>t. \<lparr>tg_type = t_type t, tg_id = t_target t, tg_label = the (target_label st t)\<rparr>)
       (filter (\<lambda>t. t_rule t = i) (sort_key t_id (tbl_rows (prompt_rule_targets st))))"

definition attachTargets :: "store \<Rightarrow> PromptRule list \<Rightarrow> PromptRule list result" where
  "attachTargets st rules =
     (if rules = [] then Inr []
      else if list_ex (\<lambda>t. target_label st t = None) (tbl_rows (prompt_rule_targets st))
      then Inl (OtherErr ''scan prompt target'')
      else Inr (map (\<lambda>r. r\<lparr>pr_targets := pr_targets r @ targets_of st (pr_id r)\<rparr>) rules))"

text \<open>validatePromptRule; the map seen holds the keys type:id.\<close>

definition target_key :: "PromptRuleTarget \<Rightarrow> string" where
  "target_key t = tg_type t @ '':'' @ int_to_dec (tg_id t)"

fun validate_targets :: "string set \<Rightarrow> PromptRuleTarget list \<Rightarrow> unit result" where
  "validate_targets seen [] = Inr ()"
| "validate_targets seen (t # ts) =
     (if tg_type t \<noteq> PromptTargetGroup \<and> tg_type t \<noteq> PromptTargetModel
      then Inl (ErrValidation (''target type must be '' @ quoted ''group'' @ '' or '' @ quoted ''model''))
      else if target_key t \<in> seen then Inl (ErrValidation ''duplicate target in rule'')
      else validate_targets (insert (target_key t) seen) ts)"

definition validatePromptRule :: "string \<Rightarrow> string \<Rightarrow> PromptRuleTarget list \<Rightarrow> string result" where
  "validatePromptRule name prompt targets =
     (let name = trim_space name in
      if name = [] then Inl (ErrValidation ''rule name is required'')
      else if 64 < rune_count name
      then Inl (ErrValidation ''rule name must be at most 64 characters'')
      else if 16384 < rune_count prompt
      then Inl (ErrValidation ''system prompt must be at most 16384 characters'')
      else if targets = [] then Inl (ErrValidation ''at least one target is required'')
      else bind_result (validate_targets {} targets) (\<lambda>_. Inr name))"

definition target_exists :: "store \<Rightarrow> PromptRuleTarget \<Rightarrow> bool" where
  "target_exists st t =
     (if tg_type t = PromptTargetGroup then tbl_exists (\<lambda>g. g_id g = tg_id t) (groups st)
      else if tg_type t = PromptTargetModel then tbl_exists (\<lambda>m. m_id m = tg_id t) (models st)
      else True)"

definition target_text :: "PromptRuleTarget \<Rightarrow> string" where
  "target_text t = ''target '' @ tg_type t @ '' '' @ int_to_dec (tg_id t)"

fun validateTargetsExist :: "store \<Rightarrow> PromptRuleTarget list \<Rightarrow> unit result" where
  "validateTargetsExist st [] = Inr ()"
| "validateTargetsExist st (t # ts) =
     (if \<not> target_exists st t then Inl (ErrValidation (target_text t @ '' does not exist''))
      else validateTargetsExist st ts)"

definition target_owner :: "store \<Rightarrow> PromptRuleTarget \<Rightarrow> int option" where
  "target_owner st t = map_option t_rule
     (tbl_find (\<lambda>r. t_type r = tg_type t \<and> t_target r = tg_id t) (prompt_rule_targets st))"

fun validateTargetsClaimable :: "store \<Rightarrow> int \<Rightarrow> PromptRuleTarget list \<Rightarrow> unit result" where
  "validateTargetsClaimable st exclude [] = Inr ()"
| "validateTargetsClaimable st exclude (t # ts) =
     (case target_owner st t of
        None \<Rightarrow> validateTargetsClaimable st exclude ts
      | Some owner \<Rightarrow>
          if owner \<noteq> exclude
          then Inl (ErrAlreadyExists (target_text t @ '' is already used by another rule''))
          else validateTargetsClaimable st exclude ts)"

section \<open>Operations\<close>

definition rule_order :: "store \<Rightarrow> rule_row list" where
  "rule_order st = tbl_order r_position r_id (\<lambda>r. True) (prompt_rules st)"

definition ListPromptRules :: "svc \<Rightarrow> PromptRule list result" where
  "ListPromptRules s = attachTargets (db s) (map scanPromptRule (rule_order (db s)))"

definition GetPromptRule :: "int \<Rightarrow> svc \<Rightarrow> PromptRule result" where
  "GetPromptRule i s = (case tbl_find (\<lambda>r. r_id r = i) (prompt_rules (db s)) of
     None \<Rightarrow> Inl (ErrNotFound '''')
   | Some r \<Rightarrow> bind_result (attachTargets (db s) [scanPromptRule r]) (\<lambda>rules. Inr (rules ! 0)))"

definition new_target_row :: "int \<Rightarrow> PromptRuleTarget \<Rightarrow> int \<Rightarrow> target_row" where
  "new_target_row rule t i = \<lparr>t_id = i, t_rule = rule, t_type = tg_type t, t_target = tg_id t\<rparr>"

definition insert_target :: "int \<Rightarrow> PromptRuleTarget \<Rightarrow> store \<Rightarrow> store" where
  "insert_target rule t st =
     st\<lparr>prompt_rule_targets := tbl_insert (new_target_row rule t) (prompt_rule_targets st)\<rparr>"

text \<open>The INSERTs of the transaction: a UNIQUE violation fails it as a whole.\<close>

fun insertPromptTargets :: "int \<Rightarrow> PromptRuleTarget list \<Rightarrow> store \<Rightarrow> store result" where
  "insertPromptTargets rule [] st = Inr st"
| "insertPromptTargets rule (t # ts) st =
     (if tbl_exists (\<lambda>r. (t_type r, t_target r) = (tg_type t, tg_id t)) (prompt_rule_targets st)
      then Inl (ErrAlreadyExists (target_text t @ '' is already used by another rule''))
      else insertPromptTargets rule ts (insert_target rule t st))"

definition new_rule_row :: "string \<Rightarrow> PromptRuleInput \<Rightarrow> int \<Rightarrow> time \<Rightarrow> int \<Rightarrow> rule_row" where
  "new_rule_row name inp position now i = \<lparr>r_id = i, r_name = name, r_prompt = in_prompt inp,
     r_inherit = in_inherit inp, r_enabled = in_enabled inp, r_position = position,
     r_created = now, r_updated = now\<rparr>"

definition insert_rule :: "string \<Rightarrow> PromptRuleInput \<Rightarrow> time \<Rightarrow> store \<Rightarrow> store" where
  "insert_rule name inp now st = st\<lparr>prompt_rules :=
     tbl_insert (new_rule_row name inp (tbl_max r_position (\<lambda>r. True) (prompt_rules st) + 1) now)
       (prompt_rules st)\<rparr>"

definition CreatePromptRule :: "time \<Rightarrow> PromptRuleInput \<Rightarrow> svc \<Rightarrow> PromptRule result \<times> svc" where
  "CreatePromptRule now inp s =
     (case validatePromptRule (in_name inp) (in_prompt inp) (in_targets inp) of
        Inl e \<Rightarrow> (Inl e, s)
      | Inr name \<Rightarrow>
      (case validateTargetsExist (db s) (in_targets inp) of
        Inl e \<Rightarrow> (Inl e, s)
      | Inr _ \<Rightarrow>
      (case validateTargetsClaimable (db s) 0 (in_targets inp) of
        Inl e \<Rightarrow> (Inl e, s)
      | Inr _ \<Rightarrow>
      let st = insert_rule name inp now (db s); i = tbl_seq (prompt_rules st) in
      (case insertPromptTargets i (in_targets inp) st of
        Inl e \<Rightarrow> (Inl e, s)
      | Inr st' \<Rightarrow> let s' = invalidatePromptRules (with_db (\<lambda>_. st') s) in (GetPromptRule i s', s')))))"

definition set_rule_row :: "string \<Rightarrow> PromptRuleInput \<Rightarrow> time \<Rightarrow> rule_row \<Rightarrow> rule_row" where
  "set_rule_row name inp now r = r\<lparr>r_name := name, r_prompt := in_prompt inp,
     r_inherit := in_inherit inp, r_enabled := in_enabled inp, r_updated := now\<rparr>"

definition replace_rule :: "int \<Rightarrow> string \<Rightarrow> PromptRuleInput \<Rightarrow> time \<Rightarrow> store \<Rightarrow> store" where
  "replace_rule i name inp now st = st\<lparr>
     prompt_rules := tbl_update (\<lambda>r. r_id r = i) (set_rule_row name inp now) (prompt_rules st),
     prompt_rule_targets := tbl_delete (\<lambda>t. t_rule t = i) (prompt_rule_targets st)\<rparr>"

definition UpdatePromptRule :: "time \<Rightarrow> int \<Rightarrow> PromptRuleInput \<Rightarrow> svc \<Rightarrow> PromptRule result \<times> svc" where
  "UpdatePromptRule now i inp s =
     (case GetPromptRule i s of
        Inl e \<Rightarrow> (Inl e, s)
      | Inr _ \<Rightarrow>
      (case validatePromptRule (in_name inp) (in_prompt inp) (in_targets inp) of
        Inl e \<Rightarrow> (Inl e, s)
      | Inr name \<Rightarrow>
      (case validateTargetsExist (db s) (in_targets inp) of
        Inl e \<Rightarrow> (Inl e, s)
      | Inr _ \<Rightarrow>
      (case validateTargetsClaimable (db s) i (in_targets inp) of
        Inl e \<Rightarrow> (Inl e, s)
      | Inr _ \<Rightarrow>
      (case insertPromptTargets i (in_targets inp) (replace_rule i name inp now (db s)) of
        Inl e \<Rightarrow> (Inl e, s)
      | Inr st' \<Rightarrow> let s' = invalidatePromptRules (with_db (\<lambda>_. st') s) in (GetPromptRule i s', s'))))))"

definition DeletePromptRule :: "int \<Rightarrow> svc \<Rightarrow> unit result \<times> svc" where
  "DeletePromptRule i s =
     (if \<not> tbl_exists (\<lambda>r. r_id r = i) (prompt_rules (db s)) then (Inl (ErrNotFound ''''), s)
      else (Inr (), invalidatePromptRules (with_db (delete_rule_row i) s)))"

definition rule_match :: "int \<Rightarrow> int \<Rightarrow> rule_row \<Rightarrow> bool" where
  "rule_match u i r \<longleftrightarrow> r_id r = i"

definition set_rule_position :: "time \<Rightarrow> int \<Rightarrow> rule_row \<Rightarrow> rule_row" where
  "set_rule_position now q r = r\<lparr>r_position := q, r_updated := now\<rparr>"

definition set_rules :: "(rule_row table \<Rightarrow> rule_row table) \<Rightarrow> store \<Rightarrow> store" where
  "set_rules f st = st\<lparr>prompt_rules := f (prompt_rules st)\<rparr>"

definition ReorderPromptRules :: "time \<Rightarrow> int list \<Rightarrow> svc \<Rightarrow> unit result \<times> svc" where
  "ReorderPromptRules now ids s =
     (case ListPromptRules s of
        Inl e \<Rightarrow> (Inl e, s)
      | Inr rules \<Rightarrow>
      if \<not> order_valid ids (map pr_id rules)
      then (Inl (ErrValidation ''order must include every rule exactly once''), s)
      else (Inr (), invalidatePromptRules (with_db (set_rules
             (reposition (rule_match 0) (set_rule_position now) 0 ids)) s)))"

section \<open>The snapshot and the resolution\<close>

definition load_rule :: "store \<Rightarrow> rule_row \<Rightarrow> cached_rule" where
  "load_rule st r =
     (let ts = filter (\<lambda>t. t_rule t = r_id r) (tbl_rows (prompt_rule_targets st))
      in \<lparr>c_id = r_id r, c_name = r_name r, c_prompt = r_prompt r, c_inherit = r_inherit r,
          c_enabled = r_enabled r, c_position = r_position r,
          c_groups = set (map t_target (filter (\<lambda>t. t_type t = PromptTargetGroup) ts)),
          c_models = set (map t_target (filter (\<lambda>t. t_type t = PromptTargetModel) ts))\<rparr>)"

definition loadPromptRules :: "store \<Rightarrow> cached_rule list" where
  "loadPromptRules st = map (load_rule st) (rule_order st)"

definition promptRuleSnapshot :: "svc \<Rightarrow> cached_rule list \<times> svc" where
  "promptRuleSnapshot s =
     (if promptLoaded s then (promptRules s, s)
      else (let rules = loadPromptRules (db s)
            in (rules, s\<lparr>promptRules := rules, promptLoaded := True\<rparr>)))"

record PromptSegment =
  sg_rule :: int
  sg_name :: string
  sg_text :: string

definition segment_of :: "cached_rule \<Rightarrow> PromptSegment" where
  "segment_of r = \<lparr>sg_rule = c_id r, sg_name = c_name r, sg_text = c_prompt r\<rparr>"

definition matches_model :: "int \<Rightarrow> cached_rule \<Rightarrow> bool" where
  "matches_model modelID r \<longleftrightarrow> modelID \<noteq> 0 \<and> modelID \<in> c_models r"

definition matches_group :: "int option \<Rightarrow> cached_rule \<Rightarrow> bool" where
  "matches_group groupID r \<longleftrightarrow> (case groupID of None \<Rightarrow> False | Some g \<Rightarrow> g \<in> c_groups r)"

text \<open>The loop, with modelRule, groupRule and segments as the loop variables.\<close>

fun resolve_loop :: "int option \<Rightarrow> int \<Rightarrow> cached_rule list \<Rightarrow>
    cached_rule option \<Rightarrow> cached_rule option \<Rightarrow> PromptSegment list \<Rightarrow>
    cached_rule option \<times> cached_rule option \<times> PromptSegment list" where
  "resolve_loop groupID modelID [] modelRule groupRule segments = (modelRule, groupRule, segments)"
| "resolve_loop groupID modelID (r # rs) modelRule groupRule segments =
     (if \<not> c_enabled r then resolve_loop groupID modelID rs modelRule groupRule segments
      else let mm = matches_model modelID r; mg = matches_group groupID r
      in resolve_loop groupID modelID rs
           (if mm then Some r else modelRule) (if mg then Some r else groupRule)
           (if mm \<or> mg then segments @ [segment_of r] else segments))"

definition ResolvePromptRules ::
  "int option \<Rightarrow> int \<Rightarrow> svc \<Rightarrow> (PromptSegment list \<times> bool) \<times> svc" where
  "ResolvePromptRules groupID modelID s =
     (let (rules, s') = promptRuleSnapshot s in
      if rules = [] then (([], False), s')
      else let (modelRule, groupRule, segments) = resolve_loop groupID modelID rules None None [];
               suppressed = (case modelRule of Some r \<Rightarrow> \<not> c_inherit r
                 | None \<Rightarrow> (case groupRule of Some r \<Rightarrow> \<not> c_inherit r | None \<Rightarrow> False))
      in ((segments, suppressed), s'))"

definition PromptRuleByName :: "string \<Rightarrow> svc \<Rightarrow> (PromptSegment \<times> bool) option \<times> svc" where
  "PromptRuleByName name s =
     (let name = trim_space name in
      if name = [] then (None, s)
      else let (rules, s') = promptRuleSnapshot s
      in (map_option (\<lambda>r. (segment_of r, c_inherit r))
            (find (\<lambda>r. c_enabled r \<and> equal_fold (c_name r) name) rules), s'))"

section \<open>Target validation\<close>

lemma target_key_inj:
  assumes "tg_type t = ''group'' \<or> tg_type t = ''model''" "tg_type u = ''group'' \<or> tg_type u = ''model''"
  shows "target_key t = target_key u \<longleftrightarrow> (tg_type t, tg_id t) = (tg_type u, tg_id u)"
proof
  assume "target_key t = target_key u"
  then have "cut_at CHR '':'' (tg_type t @ CHR '':'' # int_to_dec (tg_id t)) =
      cut_at CHR '':'' (tg_type u @ CHR '':'' # int_to_dec (tg_id u))"
    by (simp add: target_key_def)
  moreover have "CHR '':'' \<notin> set (tg_type t)" "CHR '':'' \<notin> set (tg_type u)" using assms by auto
  ultimately show "(tg_type t, tg_id t) = (tg_type u, tg_id u)" by simp
qed (simp add: target_key_def)

definition target_pair :: "PromptRuleTarget \<Rightarrow> string \<times> int" where
  "target_pair t = (tg_type t, tg_id t)"

lemma validate_targets_keys:
  "validate_targets seen ts = Inr () \<Longrightarrow> (\<forall>t \<in> set ts. tg_type t = ''group'' \<or> tg_type t = ''model'') \<and>
     distinct (map target_key ts) \<and> seen \<inter> set (map target_key ts) = {}"
proof (induction ts arbitrary: seen)
  case (Cons t ts)
  from Cons.prems have "tg_type t = ''group'' \<or> tg_type t = ''model''" "target_key t \<notin> seen"
      "validate_targets (insert (target_key t) seen) ts = Inr ()"
    by (auto simp: target_type_defs split: if_splits)
  with Cons.IH [OF this(3)] show ?case by auto
qed simp

lemma validate_targets_ok:
  assumes "validate_targets seen ts = Inr ()"
  shows "\<forall>t \<in> set ts. tg_type t = ''group'' \<or> tg_type t = ''model''" and "distinct (map target_pair ts)"
proof -
  note k = validate_targets_keys [OF assms]
  then show ty: "\<forall>t \<in> set ts. tg_type t = ''group'' \<or> tg_type t = ''model''" by blast
  have "inj_on target_pair (set ts)"
  proof (rule inj_onI)
    fix t u assume tu: "t \<in> set ts" "u \<in> set ts" "target_pair t = target_pair u"
    then have "target_key t = target_key u" by (simp add: target_pair_def target_key_def)
    moreover have "inj_on target_key (set ts)" using k by (simp add: distinct_map)
    ultimately show "t = u" using tu by (simp add: inj_on_def)
  qed
  moreover have "distinct ts" using k by (simp add: distinct_map)
  ultimately show "distinct (map target_pair ts)" by (simp add: distinct_map)
qed

lemma validatePromptRule_ok:
  "validatePromptRule name prompt ts = Inr n \<Longrightarrow>
     n = trim_space name \<and> n \<noteq> [] \<and> rune_count n \<le> 64 \<and> rune_count prompt \<le> 16384 \<and> ts \<noteq> [] \<and>
     validate_targets {} ts = Inr ()"
  by (auto simp: validatePromptRule_def Let_def split: if_splits)

lemma validateTargetsExist_iff:
  "validateTargetsExist st ts = Inr () \<longleftrightarrow> list_all (target_exists st) ts"
  by (induction ts) auto

lemma validateTargetsClaimable_iff:
  "validateTargetsClaimable st x ts = Inr () \<longleftrightarrow>
     list_all (\<lambda>t. target_owner st t = None \<or> target_owner st t = Some x) ts"
  by (induction ts) (auto split: option.split)

section \<open>Constraints\<close>

lemma rule_row_simps [simp]:
  "r_id (new_rule_row name inp q now i) = i" "r_id (set_rule_row name inp now r) = r_id r"
  "r_id (set_rule_position now q r) = r_id r" "r_position (set_rule_position now q r) = q"
  "r_name (new_rule_row name inp q now i) = name"
  "t_id (new_target_row i t n) = n" "t_rule (new_target_row i t n) = i"
  "t_type (new_target_row i t n) = tg_type t" "t_target (new_target_row i t n) = tg_id t"
  by (simp_all add: new_rule_row_def set_rule_row_def set_rule_position_def new_target_row_def)

lemma prompt_table_simps [simp]:
  "prompt_rules (insert_target i t st) = prompt_rules st"
  "prompt_rule_targets (insert_target i t st) = tbl_insert (new_target_row i t) (prompt_rule_targets st)"
  "groups (insert_target i t st) = groups st" "models (insert_target i t st) = models st"
  "prompt_rule_targets (insert_rule name inp now st) = prompt_rule_targets st"
  "prompt_rules (insert_rule name inp now st) = tbl_insert (new_rule_row name inp
     (tbl_max r_position (\<lambda>r. True) (prompt_rules st) + 1) now) (prompt_rules st)"
  "groups (insert_rule name inp now st) = groups st" "models (insert_rule name inp now st) = models st"
  "prompt_rules (replace_rule j name inp now st) =
     tbl_update (\<lambda>r. r_id r = j) (set_rule_row name inp now) (prompt_rules st)"
  "prompt_rule_targets (replace_rule j name inp now st) = tbl_delete (\<lambda>t. t_rule t = j) (prompt_rule_targets st)"
  "groups (replace_rule j name inp now st) = groups st" "models (replace_rule j name inp now st) = models st"
  "prompt_rules (set_rules f st) = f (prompt_rules st)"
  "prompt_rule_targets (set_rules f st) = prompt_rule_targets st"
  "groups (set_rules f st) = groups st" "models (set_rules f st) = models st"
  by (simp_all add: insert_target_def insert_rule_def replace_rule_def set_rules_def)

lemma wf_insert_target:
  assumes wf: "wf_store st" and r: "tbl_exists (\<lambda>r. r_id r = i) (prompt_rules st)"
    and ty: "tg_type t = ''group'' \<or> tg_type t = ''model''"
    and free: "\<not> tbl_exists (\<lambda>r. (t_type r, t_target r) = (tg_type t, tg_id t)) (prompt_rule_targets st)"
  shows "wf_store (insert_target i t st)"
proof -
  have "wf_rules (insert_target i t st)"
    unfolding wf_rules_def prompt_table_simps
    by (intro conjI ids_ok_insert unique_on_insert references_insert all_rows_insert)
       (use wf r ty free in \<open>simp_all add: wf_store_def wf_rules_def\<close>)
  with wf show ?thesis by (simp add: wf_store_def wf_defs insert_target_def)
qed

lemma insertPromptTargets_frame:
  "insertPromptTargets i ts st = Inr st' \<Longrightarrow>
     prompt_rules st' = prompt_rules st \<and> groups st' = groups st \<and> models st' = models st"
  by (induction ts arbitrary: st) (auto split: if_splits)

lemma wf_insertPromptTargets:
  "insertPromptTargets i ts st = Inr st' \<Longrightarrow> wf_store st \<Longrightarrow>
   tbl_exists (\<lambda>r. r_id r = i) (prompt_rules st) \<Longrightarrow>
   \<forall>t \<in> set ts. tg_type t = ''group'' \<or> tg_type t = ''model'' \<Longrightarrow> wf_store st'"
proof (induction ts arbitrary: st)
  case (Cons t ts)
  from Cons.prems(1) have f: "\<not> tbl_exists (\<lambda>r. (t_type r, t_target r) = (tg_type t, tg_id t)) (prompt_rule_targets st)"
    and r: "insertPromptTargets i ts (insert_target i t st) = Inr st'"
    by (auto split: if_splits)
  have "wf_store (insert_target i t st)"
    by (rule wf_insert_target [OF Cons.prems(2,3) _ f]) (use Cons.prems(4) in simp)
  from Cons.IH [OF r this] Cons.prems show ?case by simp
qed simp

lemma wf_insert_rule:
  assumes wf: "wf_store st" shows "wf_store (insert_rule name inp now st)"
proof -
  have "wf_rules (insert_rule name inp now st)"
    unfolding wf_rules_def prompt_table_simps
    by (intro conjI ids_ok_insert references_insert_parent)
       (use wf in \<open>simp_all add: wf_store_def wf_rules_def\<close>)
  with wf show ?thesis by (simp add: wf_store_def wf_defs insert_rule_def)
qed

lemma wf_replace_rule:
  assumes wf: "wf_store st" shows "wf_store (replace_rule i name inp now st)"
proof -
  have "wf_rules (replace_rule i name inp now st)"
    unfolding wf_rules_def prompt_table_simps
    by (intro conjI ids_ok_update ids_ok_delete unique_on_delete references_delete
        references_update_parent all_rows_delete)
       (use wf in \<open>simp_all add: wf_store_def wf_rules_def\<close>)
  with wf show ?thesis by (simp add: wf_store_def wf_defs replace_rule_def)
qed

lemma insert_rule_exists: "tbl_exists (\<lambda>r. r_id r = tbl_seq (prompt_rules (insert_rule name inp now st)))
    (prompt_rules (insert_rule name inp now st))"
  by (simp add: tbl_exists_iff)

lemma replace_rule_exists:
  "tbl_exists (\<lambda>r. r_id r = i) (prompt_rules st) \<Longrightarrow>
   tbl_exists (\<lambda>r. r_id r = i) (prompt_rules (replace_rule i name inp now st))"
  by (simp add: tbl_exists_update)

lemma GetPromptRule_Inr:
  "GetPromptRule i s = Inr r \<Longrightarrow> tbl_exists (\<lambda>r. r_id r = i) (prompt_rules (db s))"
  using tbl_find_None [of "\<lambda>r. r_id r = i" "prompt_rules (db s)"]
  by (auto simp: GetPromptRule_def split: option.splits)

lemma wf_CreatePromptRule:
  assumes wf: "wf_store (db s)" shows "wf_store (db (snd (CreatePromptRule now inp s)))"
proof -
  have "wf_store st'" if v: "validatePromptRule (in_name inp) (in_prompt inp) (in_targets inp) = Inr n"
    and i: "insertPromptTargets (tbl_seq (prompt_rules (insert_rule n inp now (db s)))) (in_targets inp)
       (insert_rule n inp now (db s)) = Inr st'" for n st'
    using wf_insertPromptTargets [OF i wf_insert_rule [OF wf] insert_rule_exists]
      validate_targets_ok(1) validatePromptRule_ok [OF v] by blast
  with wf show ?thesis by (auto simp: CreatePromptRule_def Let_def split: sum.split)
qed

lemma wf_UpdatePromptRule:
  assumes wf: "wf_store (db s)" shows "wf_store (db (snd (UpdatePromptRule now i inp s)))"
proof -
  have "wf_store st'" if v: "validatePromptRule (in_name inp) (in_prompt inp) (in_targets inp) = Inr n"
    and g: "GetPromptRule i s = Inr r"
    and t: "insertPromptTargets i (in_targets inp) (replace_rule i n inp now (db s)) = Inr st'" for n r st'
    using wf_insertPromptTargets [OF t wf_replace_rule [OF wf] replace_rule_exists [OF GetPromptRule_Inr [OF g]]]
      validate_targets_ok(1) validatePromptRule_ok [OF v] by blast
  with wf show ?thesis by (auto simp: UpdatePromptRule_def Let_def split: sum.split)
qed

lemma wf_DeletePromptRule: "wf_store (db s) \<Longrightarrow> wf_store (db (snd (DeletePromptRule i s)))"
  by (simp add: DeletePromptRule_def wf_delete_rule)

text \<open>All rules share one list.\<close>

definition rule_scope :: "rule_row \<Rightarrow> int" where
  "rule_scope r = 0"

interpretation rule_rows: ordered_rows r_id r_position rule_scope rule_match set_rule_position
  by unfold_locales (auto simp: rule_match_def rule_scope_def)

lemma wf_update_rules:
  assumes wf: "wf_store st" and id: "\<And>r. r_id (f r) = r_id r"
  shows "wf_store (set_rules (tbl_update p f) st)"
proof -
  have "wf_rules (set_rules (tbl_update p f) st)"
    unfolding wf_rules_def prompt_table_simps
    by (intro conjI ids_ok_update references_update_parent)
       (use wf id in \<open>simp_all add: wf_store_def wf_rules_def\<close>)
  with wf show ?thesis by (simp add: wf_store_def wf_defs set_rules_def)
qed

lemma wf_reposition_rules:
  "wf_store st \<Longrightarrow> wf_store (set_rules (reposition (rule_match u) (set_rule_position now) p ids) st)"
proof (induction ids arbitrary: p st)
  case (Cons i ids)
  let ?st = "set_rules (tbl_update (rule_match u i) (set_rule_position now p)) st"
  have "wf_store ?st" using Cons.prems by (intro wf_update_rules) simp_all
  from Cons.IH [OF this, of "p + 1"] show ?case by (simp add: set_rules_def)
qed (simp add: set_rules_def)

lemma wf_ReorderPromptRules: "wf_store (db s) \<Longrightarrow> wf_store (db (snd (ReorderPromptRules now ids s)))"
  by (simp add: ReorderPromptRules_def wf_reposition_rules split: sum.split)

section \<open>The snapshot\<close>

definition coherent :: "svc \<Rightarrow> bool" where
  "coherent s \<longleftrightarrow> (promptLoaded s \<longrightarrow> promptRules s = loadPromptRules (db s))"

lemma loadPromptRules_cong:
  assumes "prompt_rules st = prompt_rules st'" "prompt_rule_targets st = prompt_rule_targets st'"
  shows "loadPromptRules st = loadPromptRules st'"
  using assms by (simp add: loadPromptRules_def load_rule_def rule_order_def)

lemma coherent_invalidate [simp]: "coherent (invalidatePromptRules s)"
  by (simp add: coherent_def invalidatePromptRules_def)

lemma coherent_frame:
  assumes "coherent s" "promptLoaded s' = promptLoaded s" "promptRules s' = promptRules s"
    "prompt_rules (db s') = prompt_rules (db s)"
    "prompt_rule_targets (db s') = prompt_rule_targets (db s)"
  shows "coherent s'"
  using assms loadPromptRules_cong [OF assms(4,5)] by (simp add: coherent_def)

lemma promptRuleSnapshot_fst: "coherent s \<Longrightarrow> fst (promptRuleSnapshot s) = loadPromptRules (db s)"
  by (simp add: promptRuleSnapshot_def coherent_def Let_def)

lemma promptRuleSnapshot_snd [simp]:
  "db (snd (promptRuleSnapshot s)) = db s"
  "rrCursors (snd (promptRuleSnapshot s)) = rrCursors s"
  "coherent s \<Longrightarrow> coherent (snd (promptRuleSnapshot s))"
  by (auto simp: promptRuleSnapshot_def coherent_def Let_def)

lemma coherent_CreatePromptRule: "coherent s \<Longrightarrow> coherent (snd (CreatePromptRule now inp s))"
  and coherent_UpdatePromptRule: "coherent s \<Longrightarrow> coherent (snd (UpdatePromptRule now i inp s))"
  and coherent_DeletePromptRule: "coherent s \<Longrightarrow> coherent (snd (DeletePromptRule i s))"
  and coherent_ReorderPromptRules: "coherent s \<Longrightarrow> coherent (snd (ReorderPromptRules now ids s))"
  by (auto simp: CreatePromptRule_def UpdatePromptRule_def DeletePromptRule_def
      ReorderPromptRules_def Let_def split: sum.split)

lemma ResolvePromptRules_snd: "snd (ResolvePromptRules g m s) = snd (promptRuleSnapshot s)"
  by (simp add: ResolvePromptRules_def case_prod_unfold Let_def)

lemma PromptRuleByName_snd: "snd (PromptRuleByName name s) = s \<or>
    snd (PromptRuleByName name s) = snd (promptRuleSnapshot s)"
  by (simp add: PromptRuleByName_def case_prod_unfold Let_def)

section \<open>Live group targets\<close>

text \<open>Group targets point at groups: DeleteGroup removes them in its transaction.\<close>

definition group_targets_live :: "store \<Rightarrow> bool" where
  "group_targets_live st \<longleftrightarrow> (\<forall>t \<in> set (tbl_rows (prompt_rule_targets st)).
     t_type t = ''group'' \<longrightarrow> tbl_exists (\<lambda>g. g_id g = t_target t) (groups st))"

lemma group_targets_live_frame:
  assumes "group_targets_live st" "prompt_rule_targets st' = prompt_rule_targets st"
    "\<And>i. tbl_exists (\<lambda>g. g_id g = i) (groups st) \<Longrightarrow> tbl_exists (\<lambda>g. g_id g = i) (groups st')"
  shows "group_targets_live st'"
  using assms by (simp add: group_targets_live_def)

lemma live_insert_target:
  "group_targets_live st \<Longrightarrow> target_exists st t \<Longrightarrow> group_targets_live (insert_target i t st)"
  by (auto simp: group_targets_live_def target_exists_def target_type_defs)

lemma target_exists_insert [simp]: "target_exists (insert_target i t st) = target_exists st"
  by (rule ext) (simp add: target_exists_def)

lemma live_insertPromptTargets:
  "insertPromptTargets i ts st = Inr st' \<Longrightarrow> group_targets_live st \<Longrightarrow>
   list_all (target_exists st) ts \<Longrightarrow> group_targets_live st'"
  by (induction ts arbitrary: st) (auto simp: live_insert_target split: if_splits)

lemma live_insert_rule: "group_targets_live st \<Longrightarrow> group_targets_live (insert_rule name inp now st)"
  and live_replace_rule: "group_targets_live st \<Longrightarrow> group_targets_live (replace_rule i name inp now st)"
  by (simp_all add: group_targets_live_def)

lemma target_exists_rule [simp]:
  "target_exists (insert_rule name inp now st) = target_exists st"
  "target_exists (replace_rule i name inp now st) = target_exists st"
  by (rule ext, simp add: target_exists_def)+

lemma live_CreatePromptRule:
  assumes "group_targets_live (db s)" shows "group_targets_live (db (snd (CreatePromptRule now inp s)))"
proof -
  have "group_targets_live st'" if "validateTargetsExist (db s) (in_targets inp) = Inr ()"
    and i: "insertPromptTargets j (in_targets inp) (insert_rule n inp now (db s)) = Inr st'" for n j st'
    using live_insertPromptTargets [OF i live_insert_rule [OF assms]] that(1)
    by (simp add: validateTargetsExist_iff)
  with assms show ?thesis by (auto simp: CreatePromptRule_def Let_def split: sum.split)
qed

lemma live_UpdatePromptRule:
  assumes "group_targets_live (db s)" shows "group_targets_live (db (snd (UpdatePromptRule now i inp s)))"
proof -
  have "group_targets_live st'" if "validateTargetsExist (db s) (in_targets inp) = Inr ()"
    and t: "insertPromptTargets i (in_targets inp) (replace_rule i n inp now (db s)) = Inr st'" for n st'
    using live_insertPromptTargets [OF t live_replace_rule [OF assms]] that(1)
    by (simp add: validateTargetsExist_iff)
  with assms show ?thesis by (auto simp: UpdatePromptRule_def Let_def split: sum.split)
qed

lemma live_DeletePromptRule: "group_targets_live (db s) \<Longrightarrow> group_targets_live (db (snd (DeletePromptRule i s)))"
  by (auto simp: DeletePromptRule_def delete_rule_row_def group_targets_live_def)

lemma live_ReorderPromptRules:
  "group_targets_live (db s) \<Longrightarrow> group_targets_live (db (snd (ReorderPromptRules now ids s)))"
  by (simp add: ReorderPromptRules_def group_targets_live_def split: sum.split)

lemma live_deletePromptTargetsFor:
  "group_targets_live st \<Longrightarrow> group_targets_live (deletePromptTargetsFor typ i st)"
  by (auto simp: deletePromptTargetsFor_def group_targets_live_def)

lemma live_DeleteGroup:
  "group_targets_live (db s) \<Longrightarrow> group_targets_live (db (snd (DeleteGroup i s)))"
  unfolding group_targets_live_def tbl_exists_iff
  by (auto simp: DeleteGroup_def delete_group_row_def deletePromptTargetsFor_def) metis

lemma target_label_live:
  assumes "group_targets_live st" "t \<in> set (tbl_rows (prompt_rule_targets st))"
  shows "target_label st t \<noteq> None"
proof (cases "t_type t = PromptTargetGroup")
  case True
  with assms have "tbl_exists (\<lambda>g. g_id g = t_target t) (groups st)"
    by (simp add: group_targets_live_def target_type_defs)
  then have "tbl_find (\<lambda>g. g_id g = t_target t) (groups st) \<noteq> None" by (simp add: tbl_find_None)
  with True show ?thesis by (simp add: target_label_def)
qed (simp add: target_label_def)

lemma attachTargets_live:
  assumes "group_targets_live st"
  shows "attachTargets st rules =
    Inr (map (\<lambda>r. r\<lparr>pr_targets := pr_targets r @ targets_of st (pr_id r)\<rparr>) rules)"
proof -
  have "\<not> list_ex (\<lambda>t. target_label st t = None) (tbl_rows (prompt_rule_targets st))"
    using target_label_live [OF assms] by (auto simp: list_ex_iff)
  then show ?thesis by (simp add: attachTargets_def)
qed

lemma ListPromptRules_live:
  assumes "group_targets_live (db s)"
  shows "\<exists>rules. ListPromptRules s = Inr rules \<and> map pr_id rules = map r_id (rule_order (db s))"
  by (simp add: ListPromptRules_def attachTargets_live [OF assms] scanPromptRule_def comp_def)

section \<open>Resolution\<close>

lemma resolve_loop_eq:
  "resolve_loop g m rs mr gr segs =
     (let ms = filter (\<lambda>r. c_enabled r \<and> matches_model m r) rs;
          gs = filter (\<lambda>r. c_enabled r \<and> matches_group g r) rs
      in (if ms = [] then mr else Some (last ms), if gs = [] then gr else Some (last gs),
          segs @ map segment_of (filter (\<lambda>r. c_enabled r \<and> (matches_model m r \<or> matches_group g r)) rs)))"
  by (induction g m rs mr gr segs rule: resolve_loop.induct) (auto simp: Let_def)

lemma one_owner:
  assumes wf: "wf_store st"
    and t: "t \<in> set (tbl_rows (prompt_rule_targets st))" "u \<in> set (tbl_rows (prompt_rule_targets st))"
    and eq: "t_type t = t_type u" "t_target t = t_target u"
  shows "t = u"
proof -
  have "inj_on (\<lambda>t. (t_type t, t_target t)) (set (tbl_rows (prompt_rule_targets st)))"
    using wf by (simp add: wf_store_def wf_rules_def unique_on_def distinct_map)
  from inj_onD [OF this _ t] eq show ?thesis by simp
qed

lemma rule_order_props:
  assumes "wf_store st"
  shows "distinct (map r_id (rule_order st))" "set (rule_order st) = set (tbl_rows (prompt_rules st))"
  using assms distinct_ids_tbl_order [of r_id "prompt_rules st" r_position]
  by (simp_all add: rule_order_def wf_store_def wf_rules_def)

lemma at_most_one:
  assumes "distinct (map f xs)" "\<And>x y. x \<in> set xs \<Longrightarrow> y \<in> set xs \<Longrightarrow> P x \<Longrightarrow> P y \<Longrightarrow> f x = f y"
  shows "length (filter P xs) \<le> 1"
  using assms
proof (induction xs)
  case (Cons x xs)
  show ?case
  proof (cases "P x")
    case True
    have "\<not> P y" if "y \<in> set xs" for y
      using Cons.prems(1) Cons.prems(2) [of x y] that True by auto
    then have "filter P xs = []" by (simp add: filter_empty_conv)
    with True show ?thesis by simp
  next
    case False
    then show ?thesis using Cons by simp
  qed
qed simp

lemma last_is_find: "length (filter P xs) \<le> 1 \<Longrightarrow>
    (if filter P xs = [] then None else Some (last (filter P xs))) = find P xs"
  by (induction xs) (auto split: if_splits)

lemma loaded_claim:
  assumes "r \<in> set (loadPromptRules st)"
  shows "a \<in> c_models r \<Longrightarrow> \<exists>t \<in> set (tbl_rows (prompt_rule_targets st)).
      t_rule t = c_id r \<and> t_type t = ''model'' \<and> t_target t = a"
    and "a \<in> c_groups r \<Longrightarrow> \<exists>t \<in> set (tbl_rows (prompt_rule_targets st)).
      t_rule t = c_id r \<and> t_type t = ''group'' \<and> t_target t = a"
  using assms by (auto simp: loadPromptRules_def load_rule_def Let_def target_type_defs)

lemma claim_unique:
  assumes wf: "wf_store st"
  shows "length (filter (\<lambda>r. c_enabled r \<and> matches_model m r) (loadPromptRules st)) \<le> 1"
    and "length (filter (\<lambda>r. c_enabled r \<and> matches_group g r) (loadPromptRules st)) \<le> 1"
proof -
  have d: "distinct (map c_id (loadPromptRules st))"
    using rule_order_props(1) [OF wf] by (simp add: loadPromptRules_def load_rule_def comp_def Let_def)
  have same: "c_id x = c_id y"
    if xy: "x \<in> set (loadPromptRules st)" "y \<in> set (loadPromptRules st)"
      "a \<in> c_models x \<and> a \<in> c_models y \<or> a \<in> c_groups x \<and> a \<in> c_groups y" for x y a
  proof -
    obtain t u where "t \<in> set (tbl_rows (prompt_rule_targets st))" "u \<in> set (tbl_rows (prompt_rule_targets st))"
        "t_type t = t_type u" "t_target t = t_target u" "t_rule t = c_id x" "t_rule u = c_id y"
      using xy(3) loaded_claim [OF xy(1), of a] loaded_claim [OF xy(2), of a] by metis
    from one_owner [OF wf this(1-4)] this(5,6) show ?thesis by simp
  qed
  show "length (filter (\<lambda>r. c_enabled r \<and> matches_model m r) (loadPromptRules st)) \<le> 1"
    by (rule at_most_one [OF d]) (use same in \<open>auto simp: matches_model_def\<close>)
  show "length (filter (\<lambda>r. c_enabled r \<and> matches_group g r) (loadPromptRules st)) \<le> 1"
    by (rule at_most_one [OF d]) (use same in \<open>auto simp: matches_group_def split: option.splits\<close>)
qed

text \<open>Whether a rule applies, and who decides about the global prompt.\<close>

definition rule_applies :: "int option \<Rightarrow> int \<Rightarrow> cached_rule \<Rightarrow> bool" where
  "rule_applies g m r \<longleftrightarrow> c_enabled r \<and> (matches_model m r \<or> matches_group g r)"

definition suppresses_global :: "int option \<Rightarrow> int \<Rightarrow> cached_rule list \<Rightarrow> bool" where
  "suppresses_global g m rules =
     (case find (\<lambda>r. c_enabled r \<and> matches_model m r) rules of
        Some r \<Rightarrow> \<not> c_inherit r
      | None \<Rightarrow> (case find (\<lambda>r. c_enabled r \<and> matches_group g r) rules of
            Some r \<Rightarrow> \<not> c_inherit r | None \<Rightarrow> False))"

lemma ResolvePromptRules_eq:
  assumes "wf_store (db s)" "coherent s"
  shows "fst (ResolvePromptRules g m s) =
    (map segment_of (filter (rule_applies g m) (loadPromptRules (db s))),
     suppresses_global g m (loadPromptRules (db s)))"
proof (cases "loadPromptRules (db s) = []")
  case True
  then show ?thesis using promptRuleSnapshot_fst [OF assms(2)]
    by (simp add: ResolvePromptRules_def case_prod_unfold Let_def suppresses_global_def)
next
  case False
  let ?R = "loadPromptRules (db s)"
  obtain s' where sn: "promptRuleSnapshot s = (?R, s')"
    using promptRuleSnapshot_fst [OF assms(2)] by (metis prod.collapse)
  have loop: "resolve_loop g m ?R None None [] =
      (find (\<lambda>r. c_enabled r \<and> matches_model m r) ?R, find (\<lambda>r. c_enabled r \<and> matches_group g r) ?R,
       map segment_of (filter (rule_applies g m) ?R))"
    by (simp add: resolve_loop_eq Let_def rule_applies_def [abs_def] del: filter_False
        flip: last_is_find [OF claim_unique(1) [OF assms(1)]] last_is_find [OF claim_unique(2) [OF assms(1)]])
  show ?thesis using False by (simp add: ResolvePromptRules_def sn loop suppresses_global_def)
qed

lemma reorder_rules:
  assumes wf: "wf_store (db s)" and live: "group_targets_live (db s)"
    and perm: "mset ids = mset (map r_id (rule_order (db s)))"
  shows "fst (ReorderPromptRules now ids s) = Inr () \<and>
    map r_id (rule_order (db (snd (ReorderPromptRules now ids s)))) = ids"
proof -
  have ok: "ids_ok r_id (prompt_rules (db s))" using wf by (simp add: wf_store_def wf_rules_def)
  obtain rules where l: "ListPromptRules s = Inr rules" "map pr_id rules = map r_id (rule_order (db s))"
    using ListPromptRules_live [OF live] by blast
  have v: "order_valid ids (map pr_id rules)"
    using rule_order_props(1) [OF wf] perm l(2) by (simp add: order_valid_iff)
  have p: "mset ids = mset (map r_id (tbl_order r_position r_id (\<lambda>r. rule_scope r = 0) (prompt_rules (db s))))"
    using perm by (simp add: rule_order_def rule_scope_def)
  show ?thesis
    using v l rule_rows.order_reposition [OF ok _ p, where now = now]
    by (simp add: ReorderPromptRules_def rule_order_def rule_scope_def rule_match_def)
qed

end
