(* ===== verification/Timestamps.thy ===== *)
theory Timestamps
  imports Table
begin

text \<open>
  The text form of the timestamps the SQL statements compare: store.Now and every other writer
  format a UTC instant with time.RFC3339Nano, which drops the trailing zeros of the fraction and the
  fraction itself when it is zero. SQLite compares the texts bytewise. For four-digit years the part
  up to the seconds has a fixed width and orders like the number of seconds, so the comparison is
  the lexicographic one on the seconds and the text after them.
\<close>

definition nanos_per_second :: int where "nanos_per_second = 1000000000"

text \<open>The nine digits of a fraction, most significant first.\<close>

fun pad_digits :: "nat \<Rightarrow> nat \<Rightarrow> string" where
  "pad_digits 0 n = []"
| "pad_digits (Suc k) n = pad_digits k (n div 10) @ [digit_char (n mod 10)]"

definition frac_text :: "nat \<Rightarrow> string" where
  "frac_text n = (if n = 0 then ''Z''
     else ''.'' @ trim_right (\<lambda>c. c = CHR ''0'') (pad_digits 9 n) @ ''Z'')"

definition text_key :: "time \<Rightarrow> int \<times> string" where
  "text_key t = (t div nanos_per_second, frac_text (nat (t mod nanos_per_second)))"

definition text_le :: "time \<Rightarrow> time \<Rightarrow> bool" where
  "text_le a b \<longleftrightarrow> text_key a \<le> text_key b"

definition text_less :: "time \<Rightarrow> time \<Rightarrow> bool" where
  "text_less a b \<longleftrightarrow> text_key a < text_key b"

lemma text_less_seconds:
  "a div nanos_per_second < b div nanos_per_second \<Longrightarrow> text_less a b"
  by (simp add: text_less_def text_key_def less_prod_def)

lemma text_le_seconds:
  "text_le a b \<Longrightarrow> a div nanos_per_second \<le> b div nanos_per_second"
  by (auto simp: text_le_def text_key_def less_eq_prod_def)

lemma text_not_le: "\<not> text_le a b \<longleftrightarrow> text_less b a"
  by (auto simp: text_le_def text_less_def)

lemma seconds_apart:
  assumes "a + nanos_per_second \<le> b" shows "a div nanos_per_second < b div nanos_per_second"
proof -
  have "a div nanos_per_second + 1 = (a + nanos_per_second) div nanos_per_second"
    by (simp add: nanos_per_second_def)
  also have "\<dots> \<le> b div nanos_per_second"
    using assms by (intro zdiv_mono1) (simp_all add: nanos_per_second_def)
  finally show ?thesis by simp
qed

text \<open>Instants at least a second apart compare as texts the way they compare as instants.\<close>

lemma text_less_apart: "a + nanos_per_second \<le> b \<Longrightarrow> text_less a b"
  by (intro text_less_seconds seconds_apart)

lemma text_le_apart: "a + nanos_per_second \<le> b \<Longrightarrow> text_le a b"
  using text_less_apart by (force simp: text_le_def text_less_def)

lemma text_not_le_apart: "a + nanos_per_second \<le> b \<Longrightarrow> \<not> text_le b a"
  using text_less_apart text_not_le by blast

end
