(* ===== verification/Password.thy ===== *)
theory Password
  imports Prelude
begin

text \<open>
  internal/crypto/password.go: the encoded form of an administrator password. Argon2id, base64 and
  SHA-256 are the fields of the argument \<open>password_prims\<close>. Parameters are parsed with strconv.Atoi
  and bounded before the derivation runs.
\<close>

record password_prims =
  argon_idkey :: "string \<Rightarrow> string \<Rightarrow> int \<Rightarrow> int \<Rightarrow> int \<Rightarrow> int \<Rightarrow> string"
  std_encode :: "string \<Rightarrow> string"
  std_decode :: "string \<Rightarrow> string option"
  sha256 :: "string \<Rightarrow> string"

definition argonTime :: int where "argonTime = 3"
definition argonMemory :: int where "argonMemory = 65536"
definition argonThreads :: int where "argonThreads = 2"
definition argonKeyLen :: int where "argonKeyLen = 32"
definition argonSaltLen :: int where "argonSaltLen = 16"

lemmas argon_defs = argonTime_def argonMemory_def argonThreads_def argonKeyLen_def argonSaltLen_def

definition argon_params :: string where
  "argon_params = ''m='' @ int_to_dec argonMemory @ '',t='' @ int_to_dec argonTime @
     '',p='' @ int_to_dec argonThreads"

definition HashPassword :: "password_prims \<Rightarrow> string \<Rightarrow> string \<Rightarrow> string result" where
  "HashPassword c salt password =
     (if password = [] then Inl (OtherErr ''password is required'')
      else let hash = argon_idkey c password salt argonTime argonMemory argonThreads argonKeyLen
      in Inr (''$argon2id$v=19$'' @ argon_params @ ''$'' @ std_encode c salt @ ''$'' @ std_encode c hash))"

fun params_loop :: "string list \<Rightarrow> (string \<rightharpoonup> int) \<Rightarrow> (string \<rightharpoonup> int) option" where
  "params_loop [] out = Some out"
| "params_loop (kv # kvs) out =
     (case cut_at CHR ''='' kv of
        None \<Rightarrow> None
      | Some (name, value) \<Rightarrow> (case atoi value of
          None \<Rightarrow> None | Some n \<Rightarrow> params_loop kvs (out(name \<mapsto> n))))"

definition parseParams :: "string \<Rightarrow> (string \<rightharpoonup> int) option" where
  "parseParams s = params_loop (split_on CHR '','' s) Map.empty"

definition params_ok :: "int \<Rightarrow> int \<Rightarrow> int \<Rightarrow> bool" where
  "params_ok m t p \<longleftrightarrow> \<not> (m < 8 * 1024 \<or> m > 1024 * 1024 \<or> t < 1 \<or> t > 20 \<or> p < 1 \<or> p > 32)"

text \<open>The checks, in their order; None is each early \<open>return false\<close>.\<close>

definition parse_encoded :: "password_prims \<Rightarrow> string \<Rightarrow> (int \<times> int \<times> int \<times> string \<times> string) option" where
  "parse_encoded c encoded =
     (case split_on CHR ''$'' encoded of
        [a, alg, ver, params, salt64, hash64] \<Rightarrow>
          if alg \<noteq> ''argon2id'' \<or> ver \<noteq> ''v=19'' then None
          else (case parseParams params of
              None \<Rightarrow> None
            | Some ps \<Rightarrow>
              (case (ps ''m'', ps ''t'', ps ''p'') of
                 (Some m, Some t, Some p) \<Rightarrow>
                   if \<not> params_ok m t p then None
                   else (case std_decode c salt64 of
                       None \<Rightarrow> None
                     | Some salt \<Rightarrow>
                         if length salt < 8 \<or> 64 < length salt then None
                         else (case std_decode c hash64 of
                             None \<Rightarrow> None
                           | Some expected \<Rightarrow>
                               if length expected < 16 \<or> 64 < length expected then None
                               else Some (m, t, p, salt, expected)))
               | _ \<Rightarrow> None))
      | _ \<Rightarrow> None)"

definition CheckPassword :: "password_prims \<Rightarrow> string \<Rightarrow> string \<Rightarrow> bool" where
  "CheckPassword c password encoded =
     (case parse_encoded c encoded of
        None \<Rightarrow> False
      | Some (m, t, p, salt, expected) \<Rightarrow>
          argon_idkey c password salt t m p (int (length expected)) = expected)"

definition HashToken :: "password_prims \<Rightarrow> string \<Rightarrow> string" where
  "HashToken c token = sha256 c token"

section \<open>The accepted form\<close>

lemma argon_params_text: "argon_params = ''m=65536,t=3,p=2''"
  by (simp add: argon_params_def argon_defs int_to_dec_def nat_to_dec.simps digit_char_def
      char_of_def bit_iff_odd)

lemma parse_argon_params:
  "parseParams argon_params = Some [''m'' \<mapsto> argonMemory, ''t'' \<mapsto> argonTime, ''p'' \<mapsto> argonThreads]"
proof -
  have "split_on CHR '','' argon_params = [''m=65536'', ''t=3'', ''p=2'']"
    by (simp add: argon_params_text)
  moreover have "atoi ''65536'' = Some 65536" "atoi ''3'' = Some 3" "atoi ''2'' = Some 2"
    by (simp_all add: atoi_def dec_to_nat_def is_digit_def digit_val_def code_of_def in_int64_def)
  ultimately show ?thesis by (simp add: parseParams_def argon_defs)
qed

text \<open>What the encoder's text splits into, for any base64 alphabet without the separator.\<close>

lemma encoded_parts:
  assumes "\<And>x. CHR ''$'' \<notin> set (std_encode c x)"
  shows "split_on CHR ''$'' (''$argon2id$v=19$'' @ argon_params @ ''$'' @ std_encode c salt @ ''$'' @
      std_encode c hash) =
    [[], ''argon2id'', ''v=19'', argon_params, std_encode c salt, std_encode c hash]"
proof -
  let ?d = "CHR ''$''"
  have p: "?d \<notin> set argon_params" "?d \<notin> set ''argon2id''" "?d \<notin> set ''v=19''"
    by (simp_all add: argon_params_text)
  have "''$argon2id$v=19$'' @ argon_params @ ''$'' @ std_encode c salt @ ''$'' @ std_encode c hash =
      [] @ ?d # ''argon2id'' @ ?d # ''v=19'' @ ?d # argon_params @ ?d # std_encode c salt @ ?d #
      std_encode c hash" by simp
  then show ?thesis by (simp only: split_on_append split_on_id [OF p(1)] split_on_id [OF p(2)]
        split_on_id [OF p(3)] split_on_id [OF assms] split_on.simps(1)) simp
qed

lemma parse_encoded_HashPassword:
  assumes enc: "\<And>x. CHR ''$'' \<notin> set (std_encode c x)" "\<And>x. std_decode c (std_encode c x) = Some x"
    and len: "length salt = 16" "length hash = 32"
  shows "parse_encoded c (''$argon2id$v=19$'' @ argon_params @ ''$'' @ std_encode c salt @ ''$'' @
      std_encode c hash) = Some (argonMemory, argonTime, argonThreads, salt, hash)"
proof -
  have ok: "params_ok argonMemory argonTime argonThreads" by (simp add: params_ok_def argon_defs)
  have ps: "[''m'' \<mapsto> argonMemory, ''t'' \<mapsto> argonTime, ''p'' \<mapsto> argonThreads] ''m'' = Some argonMemory"
    "[''m'' \<mapsto> argonMemory, ''t'' \<mapsto> argonTime, ''p'' \<mapsto> argonThreads] ''t'' = Some argonTime"
    "[''m'' \<mapsto> argonMemory, ''t'' \<mapsto> argonTime, ''p'' \<mapsto> argonThreads] ''p'' = Some argonThreads"
    by simp_all
  show ?thesis
    unfolding parse_encoded_def encoded_parts [OF enc(1)]
    by (simp add: parse_argon_params ps ok enc(2) len del: fun_upd_apply)
qed

lemma parse_encoded_bounds:
  assumes "parse_encoded c encoded = Some (m, t, p, salt, expected)"
  shows "params_ok m t p" "8 \<le> length salt" "length salt \<le> 64" "16 \<le> length expected" "length expected \<le> 64"
  using assms by (auto simp: parse_encoded_def split: list.splits option.splits if_splits prod.splits)

end
