(* ===== verification/Access.thy ===== *)
theory Access
  imports Store Timestamps Password
begin

text \<open>
  internal/service/auth.go, admin.go and settings.go: the clients' API keys, the administrator's
  password and sessions, and the global prompt. Random bytes are the argument \<open>raw\<close>, the clock
  readings are arguments, base64 and the hashes are \<open>c\<close>. SQL comparisons of timestamps go through
  their texts (\<open>text_le\<close>, \<open>text_less\<close>); Go's time.Time comparisons are on instants.
\<close>

section \<open>API keys\<close>

record APIKey =
  ak_id :: int
  ak_name :: string
  ak_last_used :: "time option"
  ak_expires :: "time option"
  ak_revoked :: "time option"
  ak_created :: time

definition scanAPIKey :: "client_key_row \<Rightarrow> APIKey" where
  "scanAPIKey k = \<lparr>ak_id = ck_id k, ak_name = ck_name k, ak_last_used = ck_last_used k,
     ak_expires = ck_expires k, ak_revoked = ck_revoked k, ak_created = ck_created k\<rparr>"

definition GetAPIKey :: "int \<Rightarrow> svc \<Rightarrow> APIKey result" where
  "GetAPIKey i s = (case tbl_find (\<lambda>k. ck_id k = i) (client_keys (db s)) of
     None \<Rightarrow> Inl (ErrNotFound '''') | Some k \<Rightarrow> Inr (scanAPIKey k))"

definition ListAPIKeys :: "svc \<Rightarrow> APIKey list" where
  "ListAPIKeys s = map scanAPIKey (sort_key (\<lambda>k. - ck_id k) (tbl_rows (client_keys (db s))))"

definition new_client_row :: "string \<Rightarrow> string \<Rightarrow> time \<Rightarrow> int \<Rightarrow> client_key_row" where
  "new_client_row name hash now i = \<lparr>ck_id = i, ck_name = name, ck_hash = hash, ck_last_used = None,
     ck_expires = None, ck_revoked = None, ck_created = now\<rparr>"

definition api_key_prefix :: string where "api_key_prefix = ''sk-pogu-''"

text \<open>The url-safe base64 of auth.go is the argument \<open>b64\<close>.\<close>

definition CreateAPIKey ::
  "password_prims \<Rightarrow> (string \<Rightarrow> string) \<Rightarrow> time \<Rightarrow> string \<Rightarrow> string \<Rightarrow> svc \<Rightarrow> (APIKey \<times> string) result \<times> svc" where
  "CreateAPIKey c b64 now raw name s =
     (let name = trim_space name in
      if name = [] \<or> 200 < rune_count name
      then (Inl (ErrValidation ''key name is required and must be at most 200 characters''), s)
      else let plaintext = api_key_prefix @ b64 raw; hash = HashToken c plaintext in
      if tbl_exists (\<lambda>k. ck_hash k = hash) (client_keys (db s))
      then (Inl (OtherErr ''UNIQUE constraint failed''), s)
      else let s' = with_db (\<lambda>st. st\<lparr>client_keys :=
                 tbl_insert (new_client_row name hash now) (client_keys st)\<rparr>) s
           in (bind_result (GetAPIKey (tbl_seq (client_keys (db s'))) s') (\<lambda>k. Inr (k, plaintext)), s'))"

definition set_revoked :: "time \<Rightarrow> client_key_row \<Rightarrow> client_key_row" where
  "set_revoked now k = k\<lparr>ck_revoked := (case ck_revoked k of None \<Rightarrow> Some now | Some t \<Rightarrow> Some t)\<rparr>"

definition set_client_used :: "time \<Rightarrow> client_key_row \<Rightarrow> client_key_row" where
  "set_client_used now k = k\<lparr>ck_last_used := Some now\<rparr>"

definition update_client :: "int \<Rightarrow> (client_key_row \<Rightarrow> client_key_row) \<Rightarrow> store \<Rightarrow> store" where
  "update_client i f st = st\<lparr>client_keys := tbl_update (\<lambda>k. ck_id k = i) f (client_keys st)\<rparr>"

definition RevokeAPIKey :: "time \<Rightarrow> int \<Rightarrow> svc \<Rightarrow> unit result \<times> svc" where
  "RevokeAPIKey now i s =
     (if \<not> tbl_exists (\<lambda>k. ck_id k = i) (client_keys (db s)) then (Inl (ErrNotFound ''''), s)
      else (Inr (), with_db (update_client i (set_revoked now)) s))"

text \<open>key_hash=? AND revoked_at IS NULL AND (expires_at IS NULL OR expires_at>?).\<close>

definition key_live :: "string \<Rightarrow> time \<Rightarrow> client_key_row \<Rightarrow> bool" where
  "key_live hash now k \<longleftrightarrow> ck_hash k = hash \<and> ck_revoked k = None \<and>
     (case ck_expires k of None \<Rightarrow> True | Some e \<Rightarrow> text_less now e)"

definition AuthenticateAPIKey ::
  "password_prims \<Rightarrow> time \<Rightarrow> time \<Rightarrow> string \<Rightarrow> svc \<Rightarrow> APIKey result \<times> svc" where
  "AuthenticateAPIKey c now now' plaintext s =
     (if \<not> has_prefix api_key_prefix plaintext \<or> length plaintext < length api_key_prefix + 20
      then (Inl ErrUnauthorized, s)
      else (case tbl_find (key_live (HashToken c plaintext) now) (client_keys (db s)) of
          None \<Rightarrow> (Inl ErrUnauthorized, s)
        | Some k \<Rightarrow> let s' = with_db (update_client (ck_id k) (set_client_used now')) s
            in (GetAPIKey (ck_id k) s', s')))"

section \<open>Sessions\<close>

definition day :: int where "day = 24 * 3600 * nanos_per_second"

definition set_sessions :: "(session_row list \<Rightarrow> session_row list) \<Rightarrow> store \<Rightarrow> store" where
  "set_sessions f st = st\<lparr>sessions := f (sessions st)\<rparr>"

definition purge_sessions :: "time \<Rightarrow> session_row list \<Rightarrow> session_row list" where
  "purge_sessions now = filter (\<lambda>r. \<not> text_le (ss_expires r) now)"

definition delete_session :: "string \<Rightarrow> session_row list \<Rightarrow> session_row list" where
  "delete_session hash = filter (\<lambda>r. ss_hash r \<noteq> hash)"

definition CreateSession ::
  "password_prims \<Rightarrow> (string \<Rightarrow> string) \<Rightarrow> time \<Rightarrow> time \<Rightarrow> string \<Rightarrow> int \<Rightarrow> svc \<Rightarrow> string result \<times> svc" where
  "CreateSession c b64 now now' raw ttl s =
     (let ttl = (if ttl \<le> 0 then day else ttl); token = b64 raw; hash = HashToken c token;
          s1 = with_db (set_sessions (purge_sessions now')) s in
      if list_ex (\<lambda>r. ss_hash r = hash) (sessions (db s1))
      then (Inl (OtherErr ''UNIQUE constraint failed''), s1)
      else (Inr token, with_db (set_sessions (\<lambda>rs. rs @
             [\<lparr>ss_hash = hash, ss_created = now, ss_expires = now + ttl\<rparr>])) s1))"

definition ValidateSession :: "password_prims \<Rightarrow> time \<Rightarrow> string \<Rightarrow> svc \<Rightarrow> bool \<times> svc" where
  "ValidateSession c now token s =
     (if token = [] then (False, s)
      else (case find (\<lambda>r. ss_hash r = HashToken c token) (sessions (db s)) of
          None \<Rightarrow> (False, s)
        | Some r \<Rightarrow>
            if \<not> now < ss_expires r
            then (False, with_db (set_sessions (delete_session (HashToken c token))) s)
            else (True, s)))"

definition DeleteSession :: "password_prims \<Rightarrow> string \<Rightarrow> svc \<Rightarrow> svc" where
  "DeleteSession c token s = with_db (set_sessions (delete_session (HashToken c token))) s"

section \<open>The administrator\<close>

definition SetAdminPassword :: "password_prims \<Rightarrow> string \<Rightarrow> time \<Rightarrow> string \<Rightarrow> svc \<Rightarrow> unit result \<times> svc" where
  "SetAdminPassword c salt now password s =
     (if rune_count password < 12
      then (Inl (ErrValidation ''administrator password must be at least 12 characters''), s)
      else (case HashPassword c salt password of
          Inl e \<Rightarrow> (Inl e, s)
        | Inr hash \<Rightarrow> (Inr (), with_db (\<lambda>st. st\<lparr>sessions := [],
            admin := Some (case admin st of
                None \<Rightarrow> \<lparr>a_hash = hash, a_created = now, a_updated = now\<rparr>
              | Some a \<Rightarrow> a\<lparr>a_hash := hash, a_updated := now\<rparr>)\<rparr>) s)))"

definition InitializeAdmin ::
  "password_prims \<Rightarrow> string \<Rightarrow> time \<Rightarrow> time \<Rightarrow> string \<Rightarrow> svc \<Rightarrow> unit result \<times> svc" where
  "InitializeAdmin c salt now now' password s =
     (if rune_count password < 12
      then (Inl (ErrValidation ''administrator password must be at least 12 characters''), s)
      else (case HashPassword c salt password of
          Inl e \<Rightarrow> (Inl e, s)
        | Inr hash \<Rightarrow>
            if admin (db s) \<noteq> None
            then (Inl (ErrAlreadyExists ''administrator already initialized''), s)
            else (Inr (), with_db (\<lambda>st. st\<lparr>admin :=
                    Some \<lparr>a_hash = hash, a_created = now, a_updated = now'\<rparr>\<rparr>) s)))"

definition AdminInitialized :: "svc \<Rightarrow> bool" where
  "AdminInitialized s \<longleftrightarrow> admin (db s) \<noteq> None"

definition CheckAdminPassword :: "password_prims \<Rightarrow> string \<Rightarrow> svc \<Rightarrow> bool" where
  "CheckAdminPassword c password s =
     (case admin (db s) of None \<Rightarrow> False | Some a \<Rightarrow> CheckPassword c password (a_hash a))"

definition ChangeAdminPassword ::
  "password_prims \<Rightarrow> string \<Rightarrow> time \<Rightarrow> string \<Rightarrow> string \<Rightarrow> svc \<Rightarrow> unit result \<times> svc" where
  "ChangeAdminPassword c salt now current next s =
     (if \<not> CheckAdminPassword c current s then (Inl ErrUnauthorized, s)
      else SetAdminPassword c salt now next s)"

section \<open>The global prompt\<close>

definition SettingGlobalPrompt :: string where "SettingGlobalPrompt = ''global_system_prompt''"
definition SettingGlobalPromptEnabled :: string where
  "SettingGlobalPromptEnabled = ''global_system_prompt_enabled''"

definition setting_or_empty :: "string \<Rightarrow> store \<Rightarrow> string" where
  "setting_or_empty key st = (case settings st key of None \<Rightarrow> '''' | Some v \<Rightarrow> v)"

definition GetGlobalPrompt :: "svc \<Rightarrow> string \<times> bool" where
  "GetGlobalPrompt s = (setting_or_empty SettingGlobalPrompt (db s),
     setting_or_empty SettingGlobalPromptEnabled (db s) = ''1'')"

definition SetGlobalPrompt :: "string \<Rightarrow> bool \<Rightarrow> svc \<Rightarrow> unit result \<times> svc" where
  "SetGlobalPrompt txt enabled s =
     (if 16384 < rune_count txt
      then (Inl (ErrValidation ''system prompt must be at most 16384 characters''), s)
      else (Inr (), with_db (\<lambda>st. st\<lparr>settings := (settings st)
             (SettingGlobalPrompt \<mapsto> txt,
              SettingGlobalPromptEnabled \<mapsto> (if enabled then ''1'' else ''0''))\<rparr>) s))"

definition ActivePrompt :: "string \<Rightarrow> bool \<Rightarrow> string" where
  "ActivePrompt txt enabled = (if \<not> enabled \<or> trim_space txt = [] then '''' else txt)"

section \<open>Constraints\<close>

lemma client_row_simps [simp]:
  "ck_id (new_client_row name hash now i) = i" "ck_hash (new_client_row name hash now i) = hash"
  "ck_revoked (new_client_row name hash now i) = None"
  "ck_expires (new_client_row name hash now i) = None"
  "ck_id (set_revoked now k) = ck_id k" "ck_hash (set_revoked now k) = ck_hash k"
  "ck_expires (set_revoked now k) = ck_expires k"
  "ck_id (set_client_used now k) = ck_id k" "ck_hash (set_client_used now k) = ck_hash k"
  "ck_revoked (set_client_used now k) = ck_revoked k"
  "ck_expires (set_client_used now k) = ck_expires k"
  by (simp_all add: new_client_row_def set_revoked_def set_client_used_def)

lemma wf_set_access:
  assumes "wf_store st" "wf_clients (st\<lparr>client_keys := k, sessions := se\<rparr>)"
  shows "wf_store (st\<lparr>client_keys := k, sessions := se\<rparr>)"
  using assms by (simp add: wf_store_def wf_defs)

lemma wf_set_clients:
  "wf_store st \<Longrightarrow> wf_clients (st\<lparr>client_keys := k\<rparr>) \<Longrightarrow> wf_store (st\<lparr>client_keys := k\<rparr>)"
  by (simp add: wf_store_def wf_defs)

lemma wf_set_sessions:
  "wf_store st \<Longrightarrow> distinct (map ss_hash (f (sessions st))) \<Longrightarrow> wf_store (set_sessions f st)"
  by (simp add: wf_store_def wf_defs set_sessions_def)

lemma set_sessions_simps [simp]:
  "sessions (set_sessions f st) = f (sessions st)" "admin (set_sessions f st) = admin st"
  by (simp_all add: set_sessions_def)

lemma wf_CreateAPIKey:
  assumes wf: "wf_store (db s)" shows "wf_store (db (snd (CreateAPIKey c b64 now raw name s)))"
proof -
  have "wf_store ((db s)\<lparr>client_keys := tbl_insert (new_client_row n h now) (client_keys (db s))\<rparr>)"
    if "\<not> tbl_exists (\<lambda>k. ck_hash k = h) (client_keys (db s))" for n h
  proof (rule wf_set_clients [OF wf])
    have w: "ids_ok ck_id (client_keys (db s))" "unique_on ck_hash (client_keys (db s))"
        "distinct (map ss_hash (sessions (db s)))"
      using wf by (simp_all add: wf_store_def wf_clients_def)
    from w(1) have "ids_ok ck_id (tbl_insert (new_client_row n h now) (client_keys (db s)))"
      by (rule ids_ok_insert) simp
    moreover from w(2) that have "unique_on ck_hash (tbl_insert (new_client_row n h now) (client_keys (db s)))"
      by (intro unique_on_insert) simp_all
    ultimately show "wf_clients ((db s)\<lparr>client_keys :=
        tbl_insert (new_client_row n h now) (client_keys (db s))\<rparr>)"
      using w(3) by (simp add: wf_clients_def)
  qed
  with wf show ?thesis by (simp add: CreateAPIKey_def Let_def)
qed

lemma wf_update_client:
  assumes wf: "wf_store st" and f: "\<And>k. ck_id (f k) = ck_id k" "\<And>k. ck_hash (f k) = ck_hash k"
  shows "wf_store (update_client i f st)"
  unfolding update_client_def
proof (rule wf_set_clients [OF wf])
  have w: "ids_ok ck_id (client_keys st)" "unique_on ck_hash (client_keys st)" "distinct (map ss_hash (sessions st))"
    using wf by (simp_all add: wf_store_def wf_clients_def)
  then show "wf_clients (st\<lparr>client_keys := tbl_update (\<lambda>k. ck_id k = i) f (client_keys st)\<rparr>)"
    using ids_ok_update [OF w(1) f(1)] unique_on_update [OF w(2) f(2)] by (simp add: wf_clients_def)
qed

lemma wf_RevokeAPIKey: "wf_store (db s) \<Longrightarrow> wf_store (db (snd (RevokeAPIKey now i s)))"
  by (simp add: RevokeAPIKey_def wf_update_client)

lemma wf_AuthenticateAPIKey:
  "wf_store (db s) \<Longrightarrow> wf_store (db (snd (AuthenticateAPIKey c now now' plain s)))"
  by (simp add: AuthenticateAPIKey_def Let_def wf_update_client split: option.split)

lemma distinct_filter_sessions:
  "distinct (map ss_hash rs) \<Longrightarrow> distinct (map ss_hash (filter p rs))"
  by (simp add: distinct_map_filter)

lemma wf_sessions: "wf_store st \<Longrightarrow> distinct (map ss_hash (sessions st))"
  by (simp add: wf_store_def wf_clients_def)

lemma wf_CreateSession:
  assumes wf: "wf_store (db s)"
  shows "wf_store (db (snd (CreateSession c b64 now now' raw ttl s)))"
proof -
  let ?st = "set_sessions (purge_sessions now') (db s)"
  have st: "wf_store ?st"
    using wf by (intro wf_set_sessions) (simp_all add: purge_sessions_def distinct_filter_sessions wf_sessions)
  have "wf_store (set_sessions (\<lambda>rs. rs @ [\<lparr>ss_hash = h, ss_created = now, ss_expires = e\<rparr>]) ?st)"
    if "\<not> list_ex (\<lambda>r. ss_hash r = h) (sessions ?st)" for h e
    using that wf_sessions [OF st]
    by (intro wf_set_sessions [OF st]) (auto simp: list_ex_iff)
  with st show ?thesis by (simp add: CreateSession_def Let_def)
qed

lemma wf_ValidateSession: "wf_store (db s) \<Longrightarrow> wf_store (db (snd (ValidateSession c now token s)))"
  by (auto simp: ValidateSession_def delete_session_def distinct_filter_sessions wf_sessions
      intro!: wf_set_sessions split: option.split)

lemma wf_DeleteSession: "wf_store (db s) \<Longrightarrow> wf_store (db (DeleteSession c token s))"
  by (auto simp: DeleteSession_def delete_session_def distinct_filter_sessions wf_sessions
      intro!: wf_set_sessions)

lemma wf_admin:
  assumes "wf_store st" "distinct (map ss_hash se)"
  shows "wf_store (st\<lparr>sessions := se, admin := a\<rparr>)" and "wf_store (st\<lparr>admin := a\<rparr>)"
  using assms by (simp_all add: wf_store_def wf_defs)

lemma wf_SetAdminPassword: "wf_store (db s) \<Longrightarrow> wf_store (db (snd (SetAdminPassword c salt now pw s)))"
  by (simp add: SetAdminPassword_def wf_admin split: sum.split)

lemma wf_InitializeAdmin:
  "wf_store (db s) \<Longrightarrow> wf_store (db (snd (InitializeAdmin c salt now now' pw s)))"
  by (simp add: InitializeAdmin_def wf_admin(2) [OF _ wf_sessions] split: sum.split)

lemma wf_ChangeAdminPassword:
  "wf_store (db s) \<Longrightarrow> wf_store (db (snd (ChangeAdminPassword c salt now cur pw s)))"
  by (simp add: ChangeAdminPassword_def wf_SetAdminPassword)

lemma wf_SetGlobalPrompt: "wf_store (db s) \<Longrightarrow> wf_store (db (snd (SetGlobalPrompt txt en s)))"
  by (simp add: SetGlobalPrompt_def wf_store_def wf_defs)

section \<open>Revocation and sessions\<close>

lemma HashPassword_Check:
  assumes enc: "\<And>x. CHR ''$'' \<notin> set (std_encode c x)" "\<And>x. std_decode c (std_encode c x) = Some x"
    and len: "length salt = 16" "\<And>p t m th. length (argon_idkey c p salt t m th argonKeyLen) = 32"
    and h: "HashPassword c salt pw = Inr h"
  shows "CheckPassword c pw' h \<longleftrightarrow> argon_idkey c pw' salt argonTime argonMemory argonThreads argonKeyLen =
    argon_idkey c pw salt argonTime argonMemory argonThreads argonKeyLen"
proof -
  let ?hash = "argon_idkey c pw salt argonTime argonMemory argonThreads argonKeyLen"
  have "h = ''$argon2id$v=19$'' @ argon_params @ ''$'' @ std_encode c salt @ ''$'' @ std_encode c ?hash"
    using h by (auto simp: HashPassword_def Let_def split: if_splits)
  then have "parse_encoded c h = Some (argonMemory, argonTime, argonThreads, salt, ?hash)"
    using parse_encoded_HashPassword [OF enc len(1) len(2)] by simp
  moreover have "int (length ?hash) = argonKeyLen" using len(2) by (simp add: argonKeyLen_def)
  ultimately show ?thesis by (simp add: CheckPassword_def)
qed

lemma revoked_stays:
  assumes ok: "wf_store (db s)" and k: "k \<in> set (tbl_rows (client_keys (db s)))" "HashToken c plain = ck_hash k"
    and s': "s' = snd (RevokeAPIKey now (ck_id k) s)"
  shows "AuthenticateAPIKey c t t' plain s' = (Inl ErrUnauthorized, s')"
proof -
  have u: "inj_on ck_hash (set (tbl_rows (client_keys (db s))))" and ids: "ids_ok ck_id (client_keys (db s))"
    using ok by (simp_all add: wf_store_def wf_clients_def unique_on_def distinct_map)
  have "tbl_exists (\<lambda>r. ck_id r = ck_id k) (client_keys (db s))" using k by (auto simp: tbl_exists_iff)
  then have db: "db s' = update_client (ck_id k) (set_revoked now) (db s)"
    by (simp add: s' RevokeAPIKey_def)
  have "\<not> key_live (HashToken c plain) t r" if r: "r \<in> set (tbl_rows (client_keys (db s')))" for r
  proof
    assume live: "key_live (HashToken c plain) t r"
    obtain r0 where r0: "r0 \<in> set (tbl_rows (client_keys (db s)))"
        "r = (if ck_id r0 = ck_id k then set_revoked now r0 else r0)"
      using r by (auto simp: db update_client_def)
    then have "ck_hash r0 = ck_hash k" using live k(2) by (simp add: key_live_def split: if_splits)
    then have "r0 = k" using u r0 k by (simp add: inj_onD)
    then have "ck_revoked r \<noteq> None" using r0 by (simp add: set_revoked_def split: option.split)
    with live show False by (simp add: key_live_def)
  qed
  then have "tbl_find (key_live (HashToken c plain) t) (client_keys (db s')) = None"
    by (simp add: tbl_find_None tbl_exists_iff)
  then show ?thesis by (simp add: AuthenticateAPIKey_def)
qed

end
