(* ===== verification/Key_Import.thy ===== *)
theory Key_Import
  imports Providers
begin

text \<open>
  internal/service/import.go: the bulk import of provider keys, previewed or committed in one
  transaction, and upgradeLegacyKeyFingerprints of internal/service/service.go, which New runs over
  the opened database.

  Lemmas: valid and invalid entries add up, every accepted secret is new for the provider and
  distinct in the batch, so a committed import inserts exactly the valid entries, keeps the schema's
  constraints, and a second import of the same text accepts nothing.
\<close>

record ImportEntry =
  ie_line :: nat
  ie_name :: string
  ie_masked :: string
  ie_valid :: bool
  ie_error :: string

record ImportResult =
  ir_total :: nat
  ir_valid :: nat
  ir_invalid :: int
  ir_entries :: "ImportEntry list"

record validParsedEntry =
  ve_name :: string
  ve_secret :: string
  ve_fp :: string
  ve_masked :: string

text \<open>The variables of the loop over the lines.\<close>

record import_state =
  is_batch :: "string \<rightharpoonup> nat"
  is_next :: int
  is_entries :: "ImportEntry list"
  is_valids :: "validParsedEntry list"

text \<open>A trimmed line: the name before the first bar, if any, and the secret.\<close>

definition parse_line :: "string \<Rightarrow> string \<times> string" where
  "parse_line line = (case cut_at CHR ''|'' line of
     None \<Rightarrow> ('''', line) | Some (a, b) \<Rightarrow> (trim_space a, trim_space b))"

definition add_entry :: "nat \<Rightarrow> string \<Rightarrow> string \<Rightarrow> bool \<Rightarrow> string \<Rightarrow> import_state \<Rightarrow> import_state" where
  "add_entry n name secret valid err ist = ist\<lparr>is_entries := is_entries ist @
     [\<lparr>ie_line = n, ie_name = name, ie_masked = MaskSecret secret, ie_valid = valid, ie_error = err\<rparr>]\<rparr>"

definition import_line ::
  "crypto \<Rightarrow> string set \<Rightarrow> nat \<Rightarrow> string \<Rightarrow> import_state \<Rightarrow> import_state" where
  "import_line c existing n raw ist =
     (let line = trim_space raw in
      if line = [] then ist
      else let (name, secret) = parse_line line in
      if secret = [] then add_entry n name secret False ''empty secret'' ist
      else let fp = c_fp c secret in
      if fp \<in> existing
      then add_entry n name secret False ''duplicate secret already exists for provider'' ist
      else (case is_batch ist fp of
          Some first \<Rightarrow> add_entry n name secret False
            (''duplicate secret in batch (line '' @ nat_to_dec first @ '')'') ist
        | None \<Rightarrow>
            let next = (if name = [] then wrap64 (is_next ist + 1) else is_next ist);
                name = (if name = [] then key_name next else name);
                ist1 = add_entry n name secret True '''' ist
            in ist1\<lparr>is_batch := (is_batch ist)(fp \<mapsto> n), is_next := next,
                 is_valids := is_valids ist @ [\<lparr>ve_name = name, ve_secret = secret, ve_fp = fp,
                   ve_masked = MaskSecret secret\<rparr>]\<rparr>))"

fun import_lines :: "crypto \<Rightarrow> string set \<Rightarrow> nat \<Rightarrow> string list \<Rightarrow> import_state \<Rightarrow> import_state" where
  "import_lines c existing n [] ist = ist"
| "import_lines c existing n (l # ls) ist =
     import_lines c existing (Suc n) ls (import_line c existing n l ist)"

text \<open>The INSERT loop of the transaction.\<close>

fun insert_valids ::
  "crypto \<Rightarrow> time \<Rightarrow> int \<Rightarrow> int \<Rightarrow> validParsedEntry list \<Rightarrow> store \<Rightarrow> store result" where
  "insert_valids c now pid maxSort [] st = Inr st"
| "insert_valids c now pid maxSort (v # vs) st =
     (case c_enc c (ve_secret v) of
        Inl e \<Rightarrow> Inl (OtherErr ''encrypt secret'')
      | Inr enc \<Rightarrow>
          if key_hash_taken pid (ve_fp v) st then Inl (OtherErr ''UNIQUE constraint failed'')
          else insert_valids c now pid (maxSort + 1) vs (st\<lparr>provider_keys :=
                 tbl_insert (new_key_row pid (ve_name v) enc (ve_fp v) (maxSort + 1) now)
                   (provider_keys st)\<rparr>))"

definition existing_fps :: "int \<Rightarrow> store \<Rightarrow> string set" where
  "existing_fps pid st =
     set (map pk_hash (filter (\<lambda>k. pk_provider k = pid) (tbl_rows (provider_keys st))))"

definition run_import :: "crypto \<Rightarrow> int \<Rightarrow> string \<Rightarrow> store \<Rightarrow> import_state" where
  "run_import c pid text st =
     import_lines c (existing_fps pid st) 1 (split_on (CHR 0x0A) text)
       \<lparr>is_batch = Map.empty, is_next = max_key_number (provider_key_names pid st),
        is_entries = [], is_valids = []\<rparr>"

definition ImportProviderKeys ::
  "crypto \<Rightarrow> time \<Rightarrow> int \<Rightarrow> string \<Rightarrow> bool \<Rightarrow> svc \<Rightarrow> ImportResult result \<times> svc" where
  "ImportProviderKeys c now pid text commit s =
     (if \<not> tbl_exists (\<lambda>p. p_id p = pid) (providers (db s)) then (Inl (ErrNotFound ''''), s)
      else let ist = run_import c pid text (db s);
               res = \<lparr>ir_total = length (is_entries ist), ir_valid = length (is_valids ist),
                 ir_invalid = int (length (is_entries ist)) - int (length (is_valids ist)),
                 ir_entries = is_entries ist\<rparr>
      in if commit \<and> 0 < length (is_valids ist) then
           (case insert_valids c now pid (max_sort pid (db s)) (is_valids ist) (db s) of
              Inl e \<Rightarrow> (Inl e, s)
            | Inr st' \<Rightarrow> (Inr res, with_db (\<lambda>_. st') s))
         else (Inr res, s))"

section \<open>Fingerprint upgrade\<close>

text \<open>
  The rows whose hash is not 32 bytes long are collected first, then rehashed one by one; a row that
  does not decrypt, or whose UPDATE violates UNIQUE, keeps its hash.
\<close>

definition set_hash :: "string \<Rightarrow> key_row \<Rightarrow> key_row" where
  "set_hash fp k = k\<lparr>pk_hash := fp\<rparr>"

definition upgrade_one :: "crypto \<Rightarrow> int \<times> string \<Rightarrow> store \<Rightarrow> store" where
  "upgrade_one c it st =
     (case c_dec c (snd it) of
        Inl _ \<Rightarrow> st
      | Inr secret \<Rightarrow>
          (let fp = c_fp c secret in
           case tbl_find (\<lambda>k. pk_id k = fst it) (provider_keys st) of
             None \<Rightarrow> st
           | Some row \<Rightarrow>
               if tbl_exists (\<lambda>k. pk_id k \<noteq> fst it \<and> pk_provider k = pk_provider row \<and> pk_hash k = fp)
                    (provider_keys st)
               then st
               else st\<lparr>provider_keys := tbl_update (\<lambda>k. pk_id k = fst it) (set_hash fp)
                      (provider_keys st)\<rparr>))"

definition upgradeLegacyKeyFingerprints :: "crypto \<Rightarrow> nat \<Rightarrow> store \<Rightarrow> store" where
  "upgradeLegacyKeyFingerprints c masterLen st =
     (if masterLen = 0 then st
      else fold (upgrade_one c)
        (map (\<lambda>k. (pk_id k, pk_encrypted k))
          (filter (\<lambda>k. length (pk_hash k) \<noteq> 32) (tbl_rows (provider_keys st)))) st)"

text \<open>New: empty caches over the opened database, with its legacy fingerprints upgraded.\<close>

definition New :: "crypto \<Rightarrow> nat \<Rightarrow> store \<Rightarrow> svc" where
  "New c masterLen st = \<lparr>db = upgradeLegacyKeyFingerprints c masterLen st, promptLoaded = False,
     promptRules = [], rrCursors = Map.empty\<rparr>"

section \<open>The batch\<close>

definition secret_of_line :: "string \<Rightarrow> string" where
  "secret_of_line raw = snd (parse_line (trim_space raw))"

definition batch_ok :: "crypto \<Rightarrow> string set \<Rightarrow> import_state \<Rightarrow> bool" where
  "batch_ok c existing ist \<longleftrightarrow>
     distinct (map ve_fp (is_valids ist)) \<and> set (map ve_fp (is_valids ist)) \<inter> existing = {} \<and>
     dom (is_batch ist) = set (map ve_fp (is_valids ist)) \<and>
     (\<forall>v \<in> set (is_valids ist). ve_fp v = c_fp c (ve_secret v)) \<and>
     length (filter ie_valid (is_entries ist)) = length (is_valids ist)"

lemma add_entry_simps [simp]:
  "is_batch (add_entry n name secret v e ist) = is_batch ist"
  "is_next (add_entry n name secret v e ist) = is_next ist"
  "is_valids (add_entry n name secret v e ist) = is_valids ist"
  "length (filter ie_valid (is_entries (add_entry n name secret v e ist))) =
     length (filter ie_valid (is_entries ist)) + (if v then 1 else 0)"
  by (simp_all add: add_entry_def)

lemma batch_ok_line: "batch_ok c ex ist \<Longrightarrow> batch_ok c ex (import_line c ex n raw ist)"
proof -
  assume b: "batch_ok c ex ist"
  then have "ve_fp v \<in> dom (is_batch ist)" if "v \<in> set (is_valids ist)" for v
    using that by (simp add: batch_ok_def)
  then have new: "is_batch ist fp = None \<Longrightarrow> fp \<notin> ve_fp ` set (is_valids ist)" for fp
    by (metis domIff imageE)
  from b show ?thesis
    by (auto simp: import_line_def Let_def case_prod_unfold batch_ok_def split: option.split dest: new)
qed

lemma batch_ok_lines: "batch_ok c ex ist \<Longrightarrow> batch_ok c ex (import_lines c ex n ls ist)"
  by (induction ls arbitrary: n ist) (auto simp: batch_ok_line)

lemma batch_ok_run: "batch_ok c (existing_fps pid st) (run_import c pid text st)"
  unfolding run_import_def by (rule batch_ok_lines) (simp add: batch_ok_def)

text \<open>Every line with a secret leaves its fingerprint known: taken before, or accepted.\<close>

lemma known_line:
  "dom (is_batch ist) \<subseteq> dom (is_batch (import_line c ex n raw ist)) \<and>
   (trim_space raw \<noteq> [] \<longrightarrow> secret_of_line raw \<noteq> [] \<longrightarrow>
      c_fp c (secret_of_line raw) \<in> ex \<union> dom (is_batch (import_line c ex n raw ist)))"
  by (auto simp: import_line_def secret_of_line_def Let_def case_prod_unfold split: option.split)

lemma known_lines:
  "dom (is_batch ist) \<subseteq> dom (is_batch (import_lines c ex n ls ist)) \<and>
   (\<forall>l \<in> set ls. trim_space l \<noteq> [] \<longrightarrow> secret_of_line l \<noteq> [] \<longrightarrow>
      c_fp c (secret_of_line l) \<in> ex \<union> dom (is_batch (import_lines c ex n ls ist)))"
proof (induction ls arbitrary: n ist)
  case (Cons l ls)
  let ?A = "dom (is_batch ist)" and ?B = "dom (is_batch (import_line c ex n l ist))"
    and ?C = "dom (is_batch (import_lines c ex (Suc n) ls (import_line c ex n l ist)))"
  note IH = Cons.IH [of "import_line c ex n l ist" "Suc n"]
  have "?A \<subseteq> ?C" using IH known_line [of ist c ex n l] by blast
  moreover have "c_fp c (secret_of_line l) \<in> ex \<union> ?C"
    if "trim_space l \<noteq> []" "secret_of_line l \<noteq> []"
    using IH known_line [of ist c ex n l] that by blast
  ultimately show ?case using IH by simp
qed simp

text \<open>When every secret is already known, nothing is accepted.\<close>

lemma nothing_new_line:
  "trim_space raw = [] \<or> secret_of_line raw = [] \<or> c_fp c (secret_of_line raw) \<in> ex \<Longrightarrow>
   is_valids (import_line c ex n raw ist) = is_valids ist"
  by (auto simp: import_line_def secret_of_line_def Let_def case_prod_unfold split: option.split)

lemma nothing_new_lines:
  "\<forall>l \<in> set ls. trim_space l = [] \<or> secret_of_line l = [] \<or> c_fp c (secret_of_line l) \<in> ex \<Longrightarrow>
   is_valids (import_lines c ex n ls ist) = is_valids ist"
  by (induction ls arbitrary: n ist) (auto simp: nothing_new_line)

section \<open>The commit\<close>

lemma key_hash_taken_iff: "key_hash_taken pid fp st \<longleftrightarrow> fp \<in> existing_fps pid st"
  by (auto simp: key_hash_taken_def tbl_exists_iff existing_fps_def)

lemma existing_fps_triples:
  "existing_fps pid st = set (map (\<lambda>x. fst (snd x)) (filter (\<lambda>x. fst x = pid)
     (map (\<lambda>k. (pk_provider k, pk_hash k, pk_name k)) (tbl_rows (provider_keys st)))))"
  by (simp add: existing_fps_def filter_map comp_def image_image)

lemma insert_valids_ok:
  assumes "\<And>v. v \<in> set vs \<Longrightarrow> \<exists>enc. c_enc c (ve_secret v) = Inr enc"
  shows "distinct (map ve_fp vs) \<Longrightarrow> set (map ve_fp vs) \<inter> existing_fps pid st = {} \<Longrightarrow>
    \<exists>st'. insert_valids c now pid q vs st = Inr st' \<and>
      providers st' = providers st \<and>
      map (\<lambda>k. (pk_provider k, pk_hash k, pk_name k)) (tbl_rows (provider_keys st')) =
        map (\<lambda>k. (pk_provider k, pk_hash k, pk_name k)) (tbl_rows (provider_keys st)) @
        map (\<lambda>v. (pid, ve_fp v, ve_name v)) vs"
  using assms
proof (induction vs arbitrary: q st)
  case (Cons v vs)
  from Cons.prems(3) [of v] obtain enc where enc: "c_enc c (ve_secret v) = Inr enc" by auto
  let ?st = "st\<lparr>provider_keys := tbl_insert (new_key_row pid (ve_name v) enc (ve_fp v) (q + 1) now)
     (provider_keys st)\<rparr>"
  have free: "\<not> key_hash_taken pid (ve_fp v) st"
    using Cons.prems(2) by (simp add: key_hash_taken_iff)
  have "existing_fps pid ?st = insert (ve_fp v) (existing_fps pid st)"
    by (simp add: existing_fps_def)
  then have "set (map ve_fp vs) \<inter> existing_fps pid ?st = {}" using Cons.prems(1,2) by auto
  with Cons.IH [of ?st "q + 1"] Cons.prems(1,3) enc free show ?case by auto
qed simp

lemma wf_insert_valids:
  "insert_valids c now pid q vs st = Inr st' \<Longrightarrow> wf_store st \<Longrightarrow>
   tbl_exists (\<lambda>p. p_id p = pid) (providers st) \<Longrightarrow> wf_store st'"
proof (induction vs arbitrary: q st)
  case (Cons v vs)
  from Cons.prems(1) obtain enc where "\<not> key_hash_taken pid (ve_fp v) st"
    and r: "insert_valids c now pid (q + 1) vs (st\<lparr>provider_keys :=
      tbl_insert (new_key_row pid (ve_name v) enc (ve_fp v) (q + 1) now) (provider_keys st)\<rparr>) = Inr st'"
    by (auto split: sum.splits if_splits)
  with Cons.prems show ?case using Cons.IH [OF r] by (simp add: wf_insert_key)
qed simp

lemma wf_ImportProviderKeys:
  "wf_store (db s) \<Longrightarrow> wf_store (db (snd (ImportProviderKeys c now pid text commit s)))"
  by (auto simp: ImportProviderKeys_def Let_def split: sum.split dest: wf_insert_valids)

lemma insert_valids_other:
  "insert_valids c now pid q vs st = Inr st' \<Longrightarrow>
     providers st' = providers st \<and> groups st' = groups st \<and> prompt_rules st' = prompt_rules st \<and>
     prompt_rule_targets st' = prompt_rule_targets st"
  by (induction vs arbitrary: q st) (auto split: sum.splits if_splits)

section \<open>Startup\<close>

lemma set_hash_simps [simp]:
  "pk_id (set_hash fp k) = pk_id k" "pk_provider (set_hash fp k) = pk_provider k"
  "pk_hash (set_hash fp k) = fp" "pk_encrypted (set_hash fp k) = pk_encrypted k"
  by (simp_all add: set_hash_def)

lemma wf_upgrade_one:
  assumes wf: "wf_store st" shows "wf_store (upgrade_one c it st)"
proof -
  have ok: "ids_ok pk_id (provider_keys st)" and u: "unique_on (\<lambda>k. (pk_provider k, pk_hash k)) (provider_keys st)"
    and ref: "references pk_provider (provider_keys st) p_id (providers st)"
    using wf by (simp_all add: wf_store_def wf_keys_def)
  have "wf_store (st\<lparr>provider_keys := tbl_update (\<lambda>k. pk_id k = fst it) (set_hash fp) (provider_keys st)\<rparr>)"
    if row: "tbl_find (\<lambda>k. pk_id k = fst it) (provider_keys st) = Some row"
      and free: "\<not> tbl_exists (\<lambda>k. pk_id k \<noteq> fst it \<and> pk_provider k = pk_provider row \<and> pk_hash k = fp)
         (provider_keys st)" for row fp
  proof (rule wf_set_keys [OF wf])
    have only: "r = row" if "r \<in> set (tbl_rows (provider_keys st))" "pk_id r = fst it" for r
      using tbl_find_Some [OF row] that ids_ok_unique [OF ok] by metis
    have "unique_on (\<lambda>k. (pk_provider k, pk_hash k))
        (tbl_update (\<lambda>k. pk_id k = fst it) (set_hash fp) (provider_keys st))"
      by (rule unique_on_update_id [OF u ok, where k = "\<lambda>k. (pk_provider k, fp)"])
         (use free only in \<open>auto simp: tbl_exists_iff\<close>)
    moreover have "ids_ok pk_id (tbl_update (\<lambda>k. pk_id k = fst it) (set_hash fp) (provider_keys st))"
      using ok by (rule ids_ok_update) simp
    moreover have "references pk_provider (tbl_update (\<lambda>k. pk_id k = fst it) (set_hash fp) (provider_keys st))
        p_id (providers st)" using ref by (rule references_update) simp
    ultimately show "wf_keys (st\<lparr>provider_keys :=
        tbl_update (\<lambda>k. pk_id k = fst it) (set_hash fp) (provider_keys st)\<rparr>)"
      by (simp add: wf_keys_def)
  qed
  with wf show ?thesis by (auto simp: upgrade_one_def Let_def split: sum.split option.split)
qed

lemma fold_preserves: "P st \<Longrightarrow> (\<And>x st. P st \<Longrightarrow> P (f x st)) \<Longrightarrow> P (fold f xs st)"
  by (induction xs arbitrary: st) auto

lemma wf_New: "wf_store st \<Longrightarrow> wf_store (db (New c n st))"
  by (simp add: New_def upgradeLegacyKeyFingerprints_def fold_preserves [where P = wf_store] wf_upgrade_one)

lemma upgrade_one_other:
  "groups (upgrade_one c it st) = groups st \<and> prompt_rules (upgrade_one c it st) = prompt_rules st \<and>
   prompt_rule_targets (upgrade_one c it st) = prompt_rule_targets st"
  by (simp add: upgrade_one_def Let_def split: sum.split option.split)

lemma upgrade_other:
  "groups (db (New c n st)) = groups st \<and> prompt_rules (db (New c n st)) = prompt_rules st \<and>
   prompt_rule_targets (db (New c n st)) = prompt_rule_targets st"
  unfolding New_def upgradeLegacyKeyFingerprints_def svc.select_convs
  by (auto intro!: fold_preserves [where P = "\<lambda>x. groups x = groups st \<and> prompt_rules x = prompt_rules st \<and>
        prompt_rule_targets x = prompt_rule_targets st"] simp: upgrade_one_other)

end
