(* ===== verification/Json.thy ===== *)
theory Json
  imports Prelude Complex_Main
begin

text \<open>
  JSON values as internal/provider handles them, and the decoding rules of encoding/json that the
  code relies on. A body is the value it decodes to, None when json.Unmarshal rejects it. Numbers
  are their values. The order of an object's keys is not observed; of duplicate keys the last
  counts. Decoding into a struct matches keys without regard to case, treats null as absent, and
  fails as a whole when one field has the wrong type. Where text is needed (tool arguments, event
  payloads) the encoder and decoder are the argument \<open>codec\<close>.
\<close>

datatype json =
    JNull
  | JBool bool
  | JNum rat
  | JStr string
  | JArr "json list"
  | JObj "(string \<times> json) list"

type_synonym obj = "(string \<times> json) list"
type_synonym body = "json option"

record codec =
  enc :: "json \<Rightarrow> string"
  dec :: "string \<Rightarrow> json option"

definition JInt :: "int \<Rightarrow> json" where
  "JInt i = JNum (of_int i)"

lemma JInt_inj [simp]: "JInt i = JInt j \<longleftrightarrow> i = j"
  by (simp add: JInt_def)

section \<open>Maps: map[string]any\<close>

text \<open>m[k]: nil when absent.\<close>

definition mget :: "string \<Rightarrow> obj \<Rightarrow> json" where
  "mget k kvs = (case map_of (rev kvs) k of None \<Rightarrow> JNull | Some v \<Rightarrow> v)"

definition mhas :: "string \<Rightarrow> obj \<Rightarrow> bool" where
  "mhas k kvs \<longleftrightarrow> k \<in> fst ` set kvs"

definition mdel :: "string \<Rightarrow> obj \<Rightarrow> obj" where
  "mdel k kvs = filter (\<lambda>kv. fst kv \<noteq> k) kvs"

definition mset_field :: "string \<Rightarrow> json \<Rightarrow> obj \<Rightarrow> obj" where
  "mset_field k v kvs = mdel k kvs @ [(k, v)]"

lemma map_of_mdel: "map_of (rev (mdel k kvs)) j = (if j = k then None else map_of (rev kvs) j)"
proof -
  have "map_of (filter (\<lambda>kv. fst kv \<noteq> k) xs) j = (if j = k then None else map_of xs j)" for xs :: obj
    by (induction xs) auto
  then show ?thesis by (simp add: mdel_def rev_filter)
qed

lemma mget_mdel [simp]: "mget j (mdel k kvs) = (if j = k then JNull else mget j kvs)"
  by (simp add: mget_def map_of_mdel)

lemma mget_mset_field [simp]: "mget j (mset_field k v kvs) = (if j = k then v else mget j kvs)"
  by (simp add: mset_field_def mget_def map_of_mdel)

lemma mhas_simps [simp]:
  "mhas j (mdel k kvs) \<longleftrightarrow> j \<noteq> k \<and> mhas j kvs"
  "mhas j (mset_field k v kvs) \<longleftrightarrow> j = k \<or> mhas j kvs"
  by (auto simp: mhas_def mdel_def mset_field_def)

lemma mget_Nil [simp]: "mget k [] = JNull"
  and mget_Cons: "mget k ((j, v) # kvs) = (if mhas k kvs then mget k kvs else if k = j then v else JNull)"
  by (auto simp: mget_def mhas_def map_add_def map_of_eq_None_iff split: option.splits)
     (metis (no_types, lifting) fst_conv image_eqI map_of_SomeD set_rev)+

lemma mhas_code [simp]: "mhas k [] = False" "mhas k ((j, v) # kvs) = (k = j \<or> mhas k kvs)"
  by (auto simp: mhas_def)

lemma mget_append [simp]: "mget k (xs @ ys) = (if mhas k ys then mget k ys else mget k xs)"
proof (cases "map_of (rev ys) k")
  case None
  then have "\<not> mhas k ys" by (simp add: mhas_def map_of_eq_None_iff)
  with None show ?thesis by (simp add: mget_def map_add_def)
next
  case (Some v)
  then have "mhas k ys" by (metis map_of_eq_None_iff mhas_def option.distinct(1) set_rev)
  with Some show ?thesis by (simp add: mget_def map_add_def)
qed

lemma mhas_append [simp]: "mhas k (xs @ ys) \<longleftrightarrow> mhas k xs \<or> mhas k ys"
  by (auto simp: mhas_def)

text \<open>A key written only when there is a value.\<close>

definition opt_key :: "string \<Rightarrow> json option \<Rightarrow> obj" where
  "opt_key k v = (case v of None \<Rightarrow> [] | Some x \<Rightarrow> [(k, x)])"

lemma opt_key_simps [simp]:
  "opt_key k None = []" "opt_key k (Some v) = [(k, v)]"
  "mhas j (opt_key k w) \<longleftrightarrow> j = k \<and> w \<noteq> None"
  "mget k (opt_key k w) = (case w of None \<Rightarrow> JNull | Some x \<Rightarrow> x)"
  by (auto simp: opt_key_def mget_Cons split: option.split)

text \<open>stringOf and the type switches.\<close>

definition stringOf :: "json \<Rightarrow> string" where
  "stringOf v = (case v of JStr s \<Rightarrow> s | _ \<Rightarrow> '''')"

definition as_obj :: "json \<Rightarrow> obj option" where
  "as_obj v = (case v of JObj kvs \<Rightarrow> Some kvs | _ \<Rightarrow> None)"

definition as_arr :: "json \<Rightarrow> json list option" where
  "as_arr v = (case v of JArr xs \<Rightarrow> Some xs | _ \<Rightarrow> None)"

lemma json_view_simps [simp]:
  "stringOf (JStr s) = s" "stringOf JNull = ''''" "stringOf (JObj o1) = ''''" "stringOf (JArr xs) = ''''"
  "as_obj (JObj o1) = Some o1" "as_obj JNull = None" "as_obj (JStr s) = None" "as_obj (JArr xs) = None"
  "as_arr (JArr xs) = Some xs" "as_arr JNull = None" "as_arr (JStr s) = None"
  by (simp_all add: stringOf_def as_obj_def as_arr_def)

section \<open>Structs\<close>

text \<open>The value a struct field with the (lower-case) key takes; null leaves the field alone.\<close>

definition field :: "string \<Rightarrow> obj \<Rightarrow> json" where
  "field k kvs = (case map_of (rev (map (\<lambda>(j, v). (to_lower j, v)) kvs)) k of None \<Rightarrow> JNull | Some v \<Rightarrow> v)"

text \<open>Typed fields; the outer None is an UnmarshalTypeError, which fails the whole decoding.\<close>

definition str_field :: "string \<Rightarrow> obj \<Rightarrow> string option" where
  "str_field k kvs = (case field k kvs of JNull \<Rightarrow> Some '''' | JStr s \<Rightarrow> Some s | _ \<Rightarrow> None)"

definition strp_field :: "string \<Rightarrow> obj \<Rightarrow> string option option" where
  "strp_field k kvs = (case field k kvs of JNull \<Rightarrow> Some None | JStr s \<Rightarrow> Some (Some s) | _ \<Rightarrow> None)"

definition bool_field :: "string \<Rightarrow> obj \<Rightarrow> bool option" where
  "bool_field k kvs = (case field k kvs of JNull \<Rightarrow> Some False | JBool b \<Rightarrow> Some b | _ \<Rightarrow> None)"

definition json_int :: "json \<Rightarrow> int option" where
  "json_int v = (case v of
     JNum r \<Rightarrow> if of_int \<lfloor>r\<rfloor> = r \<and> in_int64 \<lfloor>r\<rfloor> then Some \<lfloor>r\<rfloor> else None | _ \<Rightarrow> None)"

definition intp_field :: "string \<Rightarrow> obj \<Rightarrow> int option option" where
  "intp_field k kvs = (case field k kvs of JNull \<Rightarrow> Some None
     | v \<Rightarrow> (case json_int v of None \<Rightarrow> None | Some i \<Rightarrow> Some (Some i)))"

definition nump_field :: "string \<Rightarrow> obj \<Rightarrow> rat option option" where
  "nump_field k kvs = (case field k kvs of JNull \<Rightarrow> Some None | JNum r \<Rightarrow> Some (Some r) | _ \<Rightarrow> None)"

text \<open>A nested struct (absent as the empty one) and a pointer to one.\<close>

definition obj_field :: "string \<Rightarrow> obj \<Rightarrow> obj option" where
  "obj_field k kvs = (case field k kvs of JNull \<Rightarrow> Some [] | JObj o1 \<Rightarrow> Some o1 | _ \<Rightarrow> None)"

definition objp_field :: "string \<Rightarrow> obj \<Rightarrow> obj option option" where
  "objp_field k kvs = (case field k kvs of JNull \<Rightarrow> Some None | JObj o1 \<Rightarrow> Some (Some o1) | _ \<Rightarrow> None)"

text \<open>A slice of maps or structs; a null element is an empty one.\<close>

fun decode_objs :: "json list \<Rightarrow> obj list option" where
  "decode_objs [] = Some []"
| "decode_objs (v # vs) = (case v of
     JNull \<Rightarrow> map_option (Cons []) (decode_objs vs)
   | JObj o1 \<Rightarrow> map_option (Cons o1) (decode_objs vs)
   | _ \<Rightarrow> None)"

definition objs_field :: "string \<Rightarrow> obj \<Rightarrow> obj list option" where
  "objs_field k kvs = (case field k kvs of JNull \<Rightarrow> Some [] | JArr xs \<Rightarrow> decode_objs xs | _ \<Rightarrow> None)"

text \<open>json.Unmarshal of a body into a struct or map: the literal null is accepted and leaves it empty.\<close>

definition body_obj :: "body \<Rightarrow> obj option" where
  "body_obj b = (case b of Some (JObj kvs) \<Rightarrow> Some kvs | Some JNull \<Rightarrow> Some [] | _ \<Rightarrow> None)"

text \<open>
  Decode into a map, write, encode again; a body that is no object passes through. (The literal null
  would decode to a nil map; the writers are only reached with a body that has a model.)
\<close>

definition with_map :: "(obj \<Rightarrow> obj) \<Rightarrow> body \<Rightarrow> body" where
  "with_map f b = (case b of Some (JObj kvs) \<Rightarrow> Some (JObj (f kvs)) | _ \<Rightarrow> b)"

lemma body_simps [simp]:
  "body_obj (Some (JObj kvs)) = Some kvs" "body_obj None = None" "body_obj (Some JNull) = Some []"
  "with_map f (Some (JObj kvs)) = Some (JObj (f kvs))" "with_map f None = None"
  "with_map f (Some JNull) = Some JNull"
  by (simp_all add: body_obj_def with_map_def)

lemma body_obj_with_map:
  "body_obj b = Some kvs \<Longrightarrow> b \<noteq> Some JNull \<Longrightarrow> with_map f b = Some (JObj (f kvs))"
  by (auto simp: body_obj_def with_map_def split: option.splits json.splits)

lemma field_mset_field: "to_lower k = k \<Longrightarrow> field k (mset_field k v kvs) = v"
  by (simp add: field_def mset_field_def)

end
