(* ===== verification/Client.thy ===== *)
theory Client
  imports Json Provider_Keys
begin

text \<open>
  internal/provider/client.go: the requests sent to a provider, the errors they end in and the
  headers copied back. An HTTP exchange is a function from the request to a transport error or a
  response, whose body is the sequence of chunks a reader gets and the way reading ends; net/url is
  the argument \<open>url_prims\<close>. A header is the list of its key-value pairs, keys in canonical form.
\<close>

section \<open>Errors\<close>

datatype go_error =
    Canceled
  | DeadlineExceeded
  | UpstreamError int string "go_error option"
  | ServiceError svc_error
  | OtherError string

text \<open>errors.As with an UpstreamError target, and errors.Is with a context error.\<close>

definition as_upstream :: "go_error \<Rightarrow> (int \<times> string) option" where
  "as_upstream e = (case e of UpstreamError status body _ \<Rightarrow> Some (status, body) | _ \<Rightarrow> None)"

fun is_canceled :: "go_error \<Rightarrow> bool" where
  "is_canceled Canceled = True"
| "is_canceled (UpstreamError status body (Some e)) = is_canceled e"
| "is_canceled e = False"

fun is_deadline :: "go_error \<Rightarrow> bool" where
  "is_deadline DeadlineExceeded = True"
| "is_deadline (UpstreamError status body (Some e)) = is_deadline e"
| "is_deadline e = False"

definition payload_message :: "codec \<Rightarrow> string \<Rightarrow> string option" where
  "payload_message cd body =
     Option.bind (body_obj (dec cd body)) (\<lambda>kvs. Option.bind (obj_field ''error'' kvs) (str_field ''message''))"

definition StatusMessage :: "codec \<Rightarrow> go_error \<Rightarrow> string" where
  "StatusMessage cd e =
     (case as_upstream e of
        Some (status, body) \<Rightarrow>
          (case payload_message cd body of
             Some m \<Rightarrow> if m \<noteq> '''' then m else ''upstream returned HTTP '' @ int_to_dec status
           | None \<Rightarrow> ''upstream returned HTTP '' @ int_to_dec status)
      | None \<Rightarrow> if is_canceled e \<or> is_deadline e then ''request canceled'' else ''upstream unavailable'')"

definition IsAuthFailure :: "go_error \<Rightarrow> bool" where
  "IsAuthFailure e \<longleftrightarrow> (case as_upstream e of
     Some (status, _) \<Rightarrow> status = 401 \<or> status = 403 | None \<Rightarrow> False)"

section \<open>Endpoints and requests\<close>

text \<open>url.Parse to a path and the remaining parts, String back, and the URL check of http.NewRequest.\<close>

record url_prims =
  url_parse :: "string \<Rightarrow> (string \<times> string) option"
  url_print :: "string \<Rightarrow> string \<Rightarrow> string"
  url_ok :: "string \<Rightarrow> bool"

definition is_slash :: "char \<Rightarrow> bool" where
  "is_slash c \<longleftrightarrow> c = CHR ''/''"

definition endpoint_path :: "string \<Rightarrow> string \<Rightarrow> string" where
  "endpoint_path path route =
     (let basePath = trim_right is_slash path; route = trim_left is_slash route;
          route = (if has_suffix ''/v1'' basePath \<and> has_prefix ''v1/'' route
                   then trim_prefix ''v1/'' route else route)
      in if basePath = '''' then ''/'' @ route else basePath @ ''/'' @ route)"

definition endpointURL :: "url_prims \<Rightarrow> Provider \<Rightarrow> string \<Rightarrow> string option" where
  "endpointURL u p path = (case url_parse u (pv_base_url p) of
     None \<Rightarrow> None | Some (base, rest) \<Rightarrow> Some (url_print u (endpoint_path base path) rest))"

type_synonym header = "(string \<times> string) list"

definition header_set :: "string \<Rightarrow> string \<Rightarrow> header \<Rightarrow> header" where
  "header_set k v h = filter (\<lambda>kv. fst kv \<noteq> k) h @ [(k, v)]"

definition header_get :: "string \<Rightarrow> header \<Rightarrow> string" where
  "header_get k h = (case map_of h k of None \<Rightarrow> '''' | Some v \<Rightarrow> v)"

record http_request =
  rq_method :: string
  rq_url :: string
  rq_headers :: header
  rq_body :: body

text \<open>How reading a body ends; a canceled context is seen before the next read.\<close>

datatype read_end = EndOfStream | ReadFailed go_error | ContextDone go_error

record http_response =
  rs_status :: int
  rs_headers :: header
  rs_chunks :: "string list"
  rs_end :: read_end

type_synonym exchange = "http_request \<Rightarrow> go_error + http_response"

definition auth_headers :: "Provider \<Rightarrow> string \<Rightarrow> header \<Rightarrow> header" where
  "auth_headers p secret h =
     (if pv_type p = ProviderAnthropic
      then header_set ''Anthropic-Version'' ''2023-06-01'' (header_set ''X-Api-Key'' secret h)
      else header_set ''Authorization'' (''Bearer '' @ secret) h)"

definition NewRequest ::
  "url_prims \<Rightarrow> Provider \<Rightarrow> string \<Rightarrow> string \<Rightarrow> body \<Rightarrow> bool \<Rightarrow> go_error + http_request" where
  "NewRequest u p secret path body stream =
     (case endpointURL u p path of
        None \<Rightarrow> Inl (OtherError ''invalid base URL'')
      | Some endpoint \<Rightarrow>
          if \<not> url_ok u endpoint then Inl (OtherError ''invalid base URL'')
          else let h = auth_headers p secret (header_set ''Content-Type'' ''application/json'' []) in
            Inr \<lparr>rq_method = ''POST'', rq_url = endpoint,
              rq_headers = (if stream then header_set ''Accept'' ''text/event-stream'' h else h),
              rq_body = body\<rparr>)"

text \<open>ReadError: at most a megabyte of the body, reading errors ignored.\<close>

definition read_error_limit :: nat where "read_error_limit = 1048576"

definition ReadError :: "http_response \<Rightarrow> go_error" where
  "ReadError resp = UpstreamError (rs_status resp) (take read_error_limit (concat (rs_chunks resp))) None"

definition status_ok :: "int \<Rightarrow> bool" where
  "status_ok status \<longleftrightarrow> 200 \<le> status \<and> status < 300"

definition send :: "exchange \<Rightarrow> http_request \<Rightarrow> go_error + http_response" where
  "send http req = (case http req of
     Inl e \<Rightarrow> Inl (UpstreamError 0 '''' (Some e))
   | Inr resp \<Rightarrow> if status_ok (rs_status resp) then Inr resp else Inl (ReadError resp))"

definition Test :: "url_prims \<Rightarrow> exchange \<Rightarrow> Provider \<Rightarrow> string \<Rightarrow> go_error option" where
  "Test u http p secret =
     (case endpointURL u p ''/v1/models'' of
        None \<Rightarrow> Some (OtherError ''invalid base URL'')
      | Some endpoint \<Rightarrow>
          if \<not> url_ok u endpoint then Some (OtherError ''invalid base URL'')
          else (case send http \<lparr>rq_method = ''GET'', rq_url = endpoint,
                  rq_headers = auth_headers p secret [], rq_body = None\<rparr> of
              Inl e \<Rightarrow> Some e | Inr _ \<Rightarrow> None))"

section \<open>Response headers\<close>

definition connection_tokens :: "header \<Rightarrow> string set" where
  "connection_tokens src =
     set (concat (map (\<lambda>(k, v). if k = ''Connection''
       then map (\<lambda>t. to_lower (trim_space t)) (split_on (CHR '','') v) else []) src))"

definition hop_headers :: "string list" where
  "hop_headers = [''connection'', ''content-length'', ''keep-alive'', ''proxy-authenticate'',
     ''proxy-authorization'', ''set-cookie'', ''te'', ''trailer'', ''transfer-encoding'', ''upgrade'']"

definition copyHeaders :: "header \<Rightarrow> header \<Rightarrow> header" where
  "copyHeaders dst src = dst @ filter (\<lambda>(k, v).
     to_lower k \<notin> connection_tokens src \<and> to_lower k \<notin> set hop_headers) src"

section \<open>Laws\<close>

lemma as_upstream_Some: "as_upstream e = Some (st, b) \<longleftrightarrow> (\<exists>i. e = UpstreamError st b i)"
  by (auto simp: as_upstream_def split: go_error.splits)

lemma send_errors:
  "send http req = Inl e \<Longrightarrow> \<exists>st b i. e = UpstreamError st b i \<and> \<not> status_ok st"
  by (auto simp: send_def ReadError_def status_ok_def split: sum.splits if_splits)

text \<open>
  The two ways to write a base URL, with and without the version, name the same endpoint.
\<close>

lemma trim_right_append_end:
  "\<not> p (last t) \<Longrightarrow> t \<noteq> [] \<Longrightarrow> trim_right p (s @ t) = s @ t"
  by (rule trim_right_id) simp

lemma endpoint_path_v1:
  assumes "\<not> has_suffix ''/v1'' (trim_right is_slash base)"
  shows "endpoint_path base (''v1/'' @ route) = trim_right is_slash base @ ''/v1/'' @ route"
    and "endpoint_path (trim_right is_slash base @ ''/v1'') (''v1/'' @ route) =
      trim_right is_slash base @ ''/v1/'' @ route"
proof -
  have l: "trim_left is_slash (''v1/'' @ route) = ''v1/'' @ route"
    by (simp add: trim_left_def is_slash_def)
  show "endpoint_path base (''v1/'' @ route) = trim_right is_slash base @ ''/v1/'' @ route"
    using assms unfolding endpoint_path_def Let_def l by simp
  have r: "trim_right is_slash (trim_right is_slash base @ ''/v1'') = trim_right is_slash base @ ''/v1''"
    by (rule trim_right_append_end) (simp_all add: is_slash_def)
  show "endpoint_path (trim_right is_slash base @ ''/v1'') (''v1/'' @ route) =
      trim_right is_slash base @ ''/v1/'' @ route"
    unfolding endpoint_path_def Let_def l r by (simp add: trim_prefix_def has_prefix_def)
qed

lemma copyHeaders_in:
  "(k, v) \<in> set (copyHeaders dst src) \<longleftrightarrow> (k, v) \<in> set dst \<or>
     ((k, v) \<in> set src \<and> to_lower k \<notin> connection_tokens src \<and> to_lower k \<notin> set hop_headers)"
  by (auto simp: copyHeaders_def)

end
