(* ===== verification/Sse.thy ===== *)
theory Sse
  imports Client
begin

text \<open>
  internal/provider/sse.go: the scanner of server-sent events. It assembles lines across the
  chunks it reads, collects the fields of an event and calls its handler at every blank line; the
  handler stops the scan by returning false. The frames the stream translators write, and what
  observeFrames of proxy.go reads in them, close the theory.
\<close>

section \<open>The scanner\<close>

definition nl :: char where "nl = CHR 0x0A"
definition cr :: char where "cr = CHR 0x0D"

type_synonym 's event_handler = "string \<Rightarrow> string \<Rightarrow> 's \<Rightarrow> 's \<times> bool"

record 's sse =
  sse_event :: string
  sse_lines :: "string list"
  sse_st :: 's

definition sse_init :: "'s \<Rightarrow> 's sse" where
  "sse_init st = \<lparr>sse_event = '''', sse_lines = [], sse_st = st\<rparr>"

lemma sse_init_simps [simp]:
  "sse_event (sse_init st) = ''''" "sse_lines (sse_init st) = []" "sse_st (sse_init st) = st"
  by (simp_all add: sse_init_def)

text \<open>Inl is the state the handler left when it stopped the scan.\<close>

definition sse_flush :: "'s event_handler \<Rightarrow> 's sse \<Rightarrow> 's + 's sse" where
  "sse_flush h s =
     (if sse_lines s = [] then Inr (s\<lparr>sse_event := ''''\<rparr>)
      else (case h (sse_event s) (join [nl] (sse_lines s)) (sse_st s) of
          (st, True) \<Rightarrow> Inr (sse_init st)
        | (st, False) \<Rightarrow> Inl st))"

definition sse_line :: "'s event_handler \<Rightarrow> string \<Rightarrow> 's sse \<Rightarrow> 's + 's sse" where
  "sse_line h line s =
     (if line = '''' then sse_flush h s
      else if has_prefix '':'' line then Inr s
      else (case cut_at CHR '':'' line of
          None \<Rightarrow> Inr s
        | Some (name, v) \<Rightarrow>
            let value = trim_prefix '' '' v in
            if name = ''event'' then Inr (s\<lparr>sse_event := value\<rparr>)
            else if name = ''data'' then Inr (s\<lparr>sse_lines := sse_lines s @ [value]\<rparr>)
            else Inr s))"

text \<open>The inner loop over the complete lines of the pending bytes.\<close>

function sse_drain :: "'s event_handler \<Rightarrow> string \<Rightarrow> 's sse \<Rightarrow> 's + string \<times> 's sse" where
  "sse_drain h pending s =
     (case cut_at nl pending of
        None \<Rightarrow> Inr (pending, s)
      | Some (l, rest) \<Rightarrow>
          (case sse_line h (trim_suffix [cr] l) s of
             Inl st \<Rightarrow> Inl st
           | Inr s' \<Rightarrow> sse_drain h rest s'))"
  by pat_completeness auto
termination
  by (relation "measure (\<lambda>(h, pending, s). length pending)") (auto simp: cut_at_Some)

definition sse_feed :: "'s event_handler \<Rightarrow> string \<Rightarrow> string \<times> 's sse \<Rightarrow> 's + string \<times> 's sse" where
  "sse_feed h chunk ps = sse_drain h (fst ps @ chunk) (snd ps)"

definition scanSSE :: "'s event_handler \<Rightarrow> string list \<Rightarrow> read_end \<Rightarrow> 's \<Rightarrow> go_error option \<times> 's" where
  "scanSSE h chunks e st =
     (case feed_chunks (sse_feed h) chunks ('''', sse_init st) of
        Inl st' \<Rightarrow> (Some Canceled, st')
      | Inr (_, s) \<Rightarrow>
          (case e of
             ContextDone err \<Rightarrow> (Some err, sse_st s)
           | ReadFailed err \<Rightarrow> (Some (UpstreamError 0 '''' (Some err)), sse_st s)
           | EndOfStream \<Rightarrow>
               if sse_lines s = [] then (None, sse_st s)
               else (case h (sse_event s) (join [nl] (sse_lines s)) (sse_st s) of
                   (st', True) \<Rightarrow> (None, st')
                 | (st', False) \<Rightarrow> (Some Canceled, st'))))"

section \<open>Chunk boundaries are invisible\<close>

declare sse_drain.simps [simp del]

lemma sse_drain_none: "nl \<notin> set p \<Longrightarrow> sse_drain h p s = Inr (p, s)"
  by (simp add: sse_drain.simps cut_at_None [THEN iffD2])

lemma sse_drain_line:
  "nl \<notin> set l \<Longrightarrow> sse_drain h (l @ nl # rest) s =
    (case sse_line h (trim_suffix [cr] l) s of Inl st \<Rightarrow> Inl st | Inr s' \<Rightarrow> sse_drain h rest s')"
  by (simp add: sse_drain.simps [of h "l @ nl # rest"])

lemma sse_drain_rest: "sse_drain h p s = Inr (p', s') \<Longrightarrow> nl \<notin> set p'"
proof (induction h p s rule: sse_drain.induct)
  case (1 h p s)
  show ?case
  proof (cases "cut_at nl p")
    case None
    with 1(2) show ?thesis by (auto simp: sse_drain_none cut_at_None)
  next
    case (Some lr)
    obtain l rest where lr: "lr = (l, rest)" by fastforce
    with Some have p: "p = l @ nl # rest" "nl \<notin> set l" by (auto simp: cut_at_Some)
    show ?thesis
      using 1(1) [OF Some lr [symmetric]] 1(2) p(2) by (auto simp: p(1) sse_drain_line split: sum.splits)
  qed
qed

lemma sse_drain_append:
  "sse_drain h (a @ b) s =
    (case sse_drain h a s of Inl st \<Rightarrow> Inl st | Inr (p, s') \<Rightarrow> sse_drain h (p @ b) s')"
proof (induction h a s rule: sse_drain.induct)
  case (1 h a s)
  show ?case
  proof (cases "cut_at nl a")
    case None
    then show ?thesis by (simp add: sse_drain_none cut_at_None)
  next
    case (Some lr)
    obtain l rest where lr: "lr = (l, rest)" by fastforce
    with Some have a: "a = l @ nl # rest" "nl \<notin> set l" by (auto simp: cut_at_Some)
    show ?thesis
      using 1 [OF Some lr [symmetric]] a(2) by (auto simp: a(1) sse_drain_line split: sum.split)
  qed
qed

interpretation scanner: chunked "sse_feed h" "\<lambda>ps. nl \<notin> set (fst ps)" for h :: "'s event_handler"
  by unfold_locales
    (auto simp: sse_feed_def sse_drain_none sse_drain_append [of h "fst _ @ _", simplified]
      dest: sse_drain_rest split: sum.splits)

lemma scanSSE_chunks:
  "concat cs = concat ds \<Longrightarrow> scanSSE h cs e st = scanSSE h ds e st"
  using scanner.chunk_independent [of "('''', sse_init st)" cs ds h] by (simp add: scanSSE_def)

section \<open>Frames\<close>

datatype frame = DataFrame json | EventFrame string json | DoneFrame

fun frame_event :: "frame \<Rightarrow> string" where
  "frame_event (EventFrame e _) = e"
| "frame_event _ = ''''"

fun frame_data :: "codec \<Rightarrow> frame \<Rightarrow> string" where
  "frame_data cd (DataFrame v) = enc cd v"
| "frame_data cd (EventFrame _ v) = enc cd v"
| "frame_data cd DoneFrame = ''[DONE]''"

fun frame_text :: "codec \<Rightarrow> frame \<Rightarrow> string" where
  "frame_text cd (EventFrame e v) =
     ''event: '' @ e @ [nl] @ ''data: '' @ enc cd v @ [nl, nl]"
| "frame_text cd f = ''data: '' @ frame_data cd f @ [nl, nl]"

text \<open>Text that fits on a line of an event stream.\<close>

definition line_text :: "string \<Rightarrow> bool" where
  "line_text t \<longleftrightarrow> nl \<notin> set t \<and> t \<noteq> [] \<and> last t \<noteq> cr"

definition frame_ok :: "codec \<Rightarrow> frame \<Rightarrow> bool" where
  "frame_ok cd f \<longleftrightarrow> line_text (frame_data cd f) \<and>
     (case f of EventFrame e _ \<Rightarrow> line_text e | _ \<Rightarrow> True)"

lemma trim_suffix_cr: "t \<noteq> [] \<Longrightarrow> last t \<noteq> cr \<Longrightarrow> trim_suffix [cr] t = t"
  by (cases t rule: rev_cases) (auto simp: trim_suffix_def trim_prefix_def)

lemma trim_suffix_cr_Nil [simp]: "trim_suffix [cr] [] = []"
  by (simp add: trim_suffix_def trim_prefix_def)

lemma sse_drain_field:
  assumes "nl \<notin> set n" "CHR '':'' \<notin> set n" "n \<noteq> []" "line_text v"
  shows "sse_drain h (n @ '': '' @ v @ nl # rest) s =
    (if n = ''event'' then sse_drain h rest (s\<lparr>sse_event := v\<rparr>)
     else if n = ''data'' then sse_drain h rest (s\<lparr>sse_lines := sse_lines s @ [v]\<rparr>)
     else sse_drain h rest s)"
proof -
  let ?l = "n @ '': '' @ v"
  have colon: "CHR '':'' \<noteq> nl" "CHR '' '' \<noteq> nl" by (simp_all add: nl_def)
  have l: "nl \<notin> set ?l" using assms colon by (auto simp: line_text_def)
  have t: "trim_suffix [cr] ?l = ?l"
    by (rule trim_suffix_cr) (use assms in \<open>auto simp: line_text_def\<close>)
  have c: "cut_at CHR '':'' ?l = Some (n, '' '' @ v)" using assms(2) by (simp add: cut_at_Some)
  have hp: "\<not> has_prefix '':'' ?l" using assms(2,3) by (cases n) (auto simp: has_prefix_iff)
  have tp: "trim_prefix '' '' ('' '' @ v) = v" by (simp add: trim_prefix_def)
  have "sse_line h ?l s = Inr (if n = ''event'' then s\<lparr>sse_event := v\<rparr>
      else if n = ''data'' then s\<lparr>sse_lines := sse_lines s @ [v]\<rparr> else s)"
    unfolding sse_line_def c using hp tp assms(3) by (simp add: Let_def)
  then show ?thesis using sse_drain_line [OF l, of h rest s] unfolding t by simp
qed

lemma sse_drain_blank:
  "sse_drain h (nl # rest) s = (case sse_flush h s of Inl st \<Rightarrow> Inl st | Inr s' \<Rightarrow> sse_drain h rest s')"
  using sse_drain_line [of "[]" h rest s] by (simp add: sse_line_def)

lemma sse_drain_frame:
  assumes "frame_ok cd f"
  shows "sse_drain h (frame_text cd f @ rest) (sse_init st) =
    (case h (frame_event f) (frame_data cd f) st of
       (st', True) \<Rightarrow> sse_drain h rest (sse_init st')
     | (st', False) \<Rightarrow> Inl st')"
proof -
  have d: "nl \<notin> set ''data''" "CHR '':'' \<notin> set ''data''" "nl \<notin> set ''event''" "CHR '':'' \<notin> set ''event''"
    by (simp_all add: nl_def)
  have tail: "sse_drain h (''data: '' @ frame_data cd f @ [nl, nl] @ rest)
      \<lparr>sse_event = e, sse_lines = [], sse_st = st\<rparr> = (case h e (frame_data cd f) st of
       (st', True) \<Rightarrow> sse_drain h rest (sse_init st') | (st', False) \<Rightarrow> Inl st')"
    for e
    using sse_drain_field [OF d(1,2), of "frame_data cd f" h "nl # rest"] assms
    by (simp add: frame_ok_def sse_drain_blank sse_flush_def split: prod.split bool.split)
  show ?thesis
  proof (cases f)
    case (EventFrame e v)
    with assms have e: "line_text e" by (simp add: frame_ok_def)
    show ?thesis
      using sse_drain_field [OF d(3,4) _ e, of h "''data: '' @ frame_data cd f @ [nl, nl] @ rest" "sse_init st"]
        tail [of e] EventFrame by (simp add: sse_init_def)
  qed (use tail [of "''''"] in \<open>simp_all add: sse_init_def\<close>)
qed

text \<open>Calling a handler on the events of a list of frames until it stops.\<close>

fun run_handler :: "'s event_handler \<Rightarrow> (string \<times> string) list \<Rightarrow> 's \<Rightarrow> go_error option \<times> 's" where
  "run_handler h [] st = (None, st)"
| "run_handler h ((e, d) # evs) st = (case h e d st of
     (st', True) \<Rightarrow> run_handler h evs st' | (st', False) \<Rightarrow> (Some Canceled, st'))"

lemma sse_drain_frames:
  assumes "\<forall>f \<in> set fs. frame_ok cd f"
  shows "sse_drain h (concat (map (frame_text cd) fs)) (sse_init st) =
    (case run_handler h (map (\<lambda>f. (frame_event f, frame_data cd f)) fs) st of
       (None, st') \<Rightarrow> Inr ('''', sse_init st') | (Some _, st') \<Rightarrow> Inl st')"
  using assms
proof (induction fs arbitrary: st)
  case Nil
  then show ?case by (simp add: sse_drain_none)
next
  case (Cons f fs)
  then show ?case
    by (simp add: sse_drain_frame split: prod.split bool.split)
qed

lemma run_handler_error: "fst (run_handler h evs st) \<in> {None, Some Canceled}"
  by (induction h evs st rule: run_handler.induct) (auto split: prod.splits bool.splits)

lemma scanSSE_frames:
  assumes "\<forall>f \<in> set fs. frame_ok cd f" "concat cs = concat (map (frame_text cd) fs)"
  shows "scanSSE h cs EndOfStream st =
    run_handler h (map (\<lambda>f. (frame_event f, frame_data cd f)) fs) st"
proof -
  have "feed_chunks (sse_feed h) cs ('''', sse_init st) = sse_drain h (concat cs) (sse_init st)"
    using scanner.feed_chunks_concat [of "('''', sse_init st)" h cs] by (simp add: sse_feed_def)
  moreover obtain r st' where r: "run_handler h (map (\<lambda>f. (frame_event f, frame_data cd f)) fs) st = (r, st')"
    by fastforce
  moreover have "r = None \<or> r = Some Canceled"
    using run_handler_error [of h "map (\<lambda>f. (frame_event f, frame_data cd f)) fs" st] r by simp
  ultimately show ?thesis
    by (auto simp: scanSSE_def assms(2) sse_drain_frames [OF assms(1)])
qed

end
