(* ===== verification/Caveman.thy ===== *)
theory Caveman
  imports Access Sse
begin

text \<open>
  internal/service/caveman.go: the style directive. The markdown of a skill is parsed into its
  sections and the table of its levels; a level's prompt is assembled from them. The service caches
  the parsed skill; the settings hold the flag, the level and the text last fetched. The bundled
  text is the argument \<open>dflt\<close>, the fetch of the upstream text an HTTP response.
\<close>

section \<open>Parsing\<close>

record CavemanSkill =
  sk_lead :: string
  sk_levels :: "(string \<times> string) list"
  sk_rules :: string
  sk_auto_clarity :: string
  sk_boundaries :: string

text \<open>m[k] = v on a map kept as a list with one entry for each key.\<close>

definition put :: "string \<Rightarrow> 'a \<Rightarrow> (string \<times> 'a) list \<Rightarrow> (string \<times> 'a) list" where
  "put k v m = filter (\<lambda>kv. fst kv \<noteq> k) m @ [(k, v)]"

definition level_char :: "char \<Rightarrow> bool" where
  "level_char c \<longleftrightarrow> is_digit c \<or> is_lower (lower_char c) \<or> c = CHR ''_'' \<or> c = CHR ''-''"

text \<open>
  levelRowRegex at one position: a bar, a name in double asterisks, a bar, text, a bar. When only
  spaces stand between the last two bars the second group is the last of them, which is trimmed away.
\<close>

definition row_at :: "string \<Rightarrow> (string \<times> string) option" where
  "row_at s =
     Option.bind (cut_prefix ''|'' s) (\<lambda>r1.
     Option.bind (cut_prefix ''**'' (dropWhile regex_space r1)) (\<lambda>r2.
       let name = takeWhile level_char r2 in
       if name = '''' then None
       else Option.bind (cut_prefix ''**'' (dropWhile level_char r2)) (\<lambda>r3.
         Option.bind (cut_prefix ''|'' (dropWhile regex_space r3)) (\<lambda>r4.
           let body = dropWhile regex_space r4; desc = takeWhile (\<lambda>c. c \<noteq> CHR ''|'') body in
           if dropWhile (\<lambda>c. c \<noteq> CHR ''|'') body = [] then None
           else if desc \<noteq> '''' then Some (name, desc)
           else if takeWhile regex_space r4 = '''' then None
           else Some (name, [last (takeWhile regex_space r4)])))))"

fun level_row :: "string \<Rightarrow> (string \<times> string) option" where
  "level_row [] = None"
| "level_row (c # s) = (case row_at (c # s) of Some m \<Rightarrow> Some m | None \<Rightarrow> level_row s)"

fun level_rows :: "string list \<Rightarrow> (string \<times> string) list \<Rightarrow> (string \<times> string) list" where
  "level_rows [] m = m"
| "level_rows (row # rows) m = level_rows rows (case level_row row of
     None \<Rightarrow> m | Some (name, desc) \<Rightarrow> put (to_lower (trim_space name)) (trim_space desc) m)"

text \<open>strings.Cut with a longer separator.\<close>

fun cut_text :: "string \<Rightarrow> string \<Rightarrow> (string \<times> string) option" where
  "cut_text sep [] = None"
| "cut_text sep (c # s) = (case cut_prefix sep (c # s) of
     Some r \<Rightarrow> Some ('''', r) | None \<Rightarrow> map_option (\<lambda>(a, b). (c # a, b)) (cut_text sep s))"

definition strip_frontmatter :: "string \<Rightarrow> string" where
  "strip_frontmatter txt = (case cut_prefix ''---'' txt of
     None \<Rightarrow> txt
   | Some r \<Rightarrow> (case cut_text ''---'' r of None \<Rightarrow> txt | Some (_, rest) \<Rightarrow> trim_space rest))"

fun skill_sections :: "string list \<Rightarrow> string \<Rightarrow> string list \<Rightarrow> (string \<times> string) list \<Rightarrow> (string \<times> string) list" where
  "skill_sections [] cur ls m = put cur (trim_space (join [nl] ls)) m"
| "skill_sections (line # lines) cur ls m =
     (let trimmed = trim_space line in
      if has_prefix ''## '' trimmed
      then skill_sections lines (trim_space (trim_prefix ''## '' trimmed)) []
             (put cur (trim_space (join [nl] ls)) m)
      else skill_sections lines cur (ls @ [line]) m)"

definition section_of :: "string \<Rightarrow> (string \<times> string) list \<Rightarrow> string" where
  "section_of k m = (case map_of m k of None \<Rightarrow> '''' | Some v \<Rightarrow> v)"

definition ParseCavemanSkill :: "string \<Rightarrow> CavemanSkill result" where
  "ParseCavemanSkill raw =
     (let txt = trim_space raw in
      if txt = '''' then Inl (OtherErr ''empty caveman skill content'')
      else let sections = skill_sections (split_on nl (strip_frontmatter txt)) ''_lead'' [] [];
               levels = level_rows (split_on nl (section_of ''Intensity'' sections)) []
      in if levels = [] then Inl (OtherErr ''caveman skill missing intensity levels table'')
         else if section_of ''Rules'' sections = '''' then Inl (OtherErr ''caveman skill missing rules section'')
         else Inr \<lparr>sk_lead = section_of ''_lead'' sections, sk_levels = levels,
           sk_rules = section_of ''Rules'' sections, sk_auto_clarity = section_of ''Auto-Clarity'' sections,
           sk_boundaries = section_of ''Boundaries'' sections\<rparr>)"

section \<open>Levels and prompts\<close>

definition DefaultCavemanLevel :: string where "DefaultCavemanLevel = ''full''"

definition upper_char :: "char \<Rightarrow> char" where
  "upper_char c = (if is_lower c then char_of (code_of c - 32) else c)"

text \<open>The two characters of the Chinese labels, in UTF-8.\<close>

definition wenyan :: string where
  "wenyan = [CHR 0xE6, CHR 0x96, CHR 0x87, CHR 0xE8, CHR 0xA8, CHR 0x80]"

definition formatLevelLabel :: "string \<Rightarrow> string" where
  "formatLevelLabel i =
     (if i = ''full'' then ''Full (Classic Caveman)''
      else if i = ''lite'' then ''Lite (Concise Professional)''
      else if i = ''ultra'' then ''Ultra (Telegraphic)''
      else if i = ''wenyan-lite'' then wenyan @ '' Lite (Classical Chinese)''
      else if i = ''wenyan-full'' then wenyan @ '' Full (Classical Chinese)''
      else if i = ''wenyan-ultra'' then wenyan @ '' Ultra (Classical Chinese)''
      else map upper_char (take 1 i) @ drop 1 i)"

record CavemanLevelMeta =
  lm_id :: string
  lm_label :: string
  lm_description :: string

definition preferredOrder :: "string list" where
  "preferredOrder = [''full'', ''lite'', ''ultra'', ''wenyan-lite'', ''wenyan-full'', ''wenyan-ultra'']"

definition level_meta :: "string \<times> string \<Rightarrow> CavemanLevelMeta" where
  "level_meta kv = \<lparr>lm_id = fst kv, lm_label = formatLevelLabel (fst kv), lm_description = snd kv\<rparr>"

text \<open>The preferred levels in their order, then the others (Go leaves their order open).\<close>

definition LevelMetas :: "CavemanSkill \<Rightarrow> CavemanLevelMeta list" where
  "LevelMetas sk =
     map level_meta (List.map_filter (\<lambda>i. map_option (Pair i) (map_of (sk_levels sk) i)) preferredOrder
       @ filter (\<lambda>kv. fst kv \<notin> set preferredOrder) (sk_levels sk))"

definition normalize_level :: "string \<Rightarrow> string" where
  "normalize_level level = (let l = to_lower (trim_space level) in
     if l = '''' \<or> l = ''default'' then DefaultCavemanLevel else l)"

definition level_description :: "CavemanSkill \<Rightarrow> string \<Rightarrow> string" where
  "level_description sk l = (case map_of (sk_levels sk) l of
     Some d \<Rightarrow> d
   | None \<Rightarrow> (let d = section_of DefaultCavemanLevel (sk_levels sk) in
       if d = '''' then ''Drop articles, fragments OK, short synonyms. Classic caveman.'' else d))"

definition paragraph_of :: "string \<Rightarrow> string \<Rightarrow> string" where
  "paragraph_of title txt = (if txt = '''' then '''' else title @ [nl] @ txt @ [nl, nl])"

definition reasoning_note :: string where
  "reasoning_note = ''Reasoning/Thinking:'' @ [nl] @
     ''If internal reasoning or thinking is enabled, keep chain-of-thought thorough and deep; apply caveman compression only to the final emitted response.''"

definition PromptForLevel :: "CavemanSkill \<Rightarrow> string \<Rightarrow> string" where
  "PromptForLevel sk level =
     (let l = normalize_level level;
          lead = (if sk_lead sk = '''' then ''Respond terse like smart caveman. All technical substance stay. Only fluff die.''
                  else sk_lead sk)
      in trim_space (''[Caveman Mode: '' @ l @ '']'' @ [nl] @ lead @ [nl, nl]
           @ ''Intensity ('' @ l @ ''):'' @ [nl] @ level_description sk l @ [nl, nl]
           @ paragraph_of ''Rules:'' (sk_rules sk) @ paragraph_of ''Auto-Clarity:'' (sk_auto_clarity sk)
           @ paragraph_of ''Boundaries:'' (sk_boundaries sk) @ reasoning_note))"

section \<open>Operations\<close>

definition SettingCavemanEnabled :: string where "SettingCavemanEnabled = ''caveman_enabled''"
definition SettingCavemanLevel :: string where "SettingCavemanLevel = ''caveman_level''"
definition SettingCavemanSkillRaw :: string where "SettingCavemanSkillRaw = ''caveman_skill_raw''"
definition SettingCavemanSyncedAt :: string where "SettingCavemanSyncedAt = ''caveman_synced_at''"

lemmas caveman_settings = SettingCavemanEnabled_def SettingCavemanLevel_def SettingCavemanSkillRaw_def
  SettingCavemanSyncedAt_def

text \<open>The state is the service with the cached skill, nil before its first use.\<close>

type_synonym cave = "svc \<times> CavemanSkill option"

definition ensureCavemanSkill :: "string \<Rightarrow> cave \<Rightarrow> CavemanSkill result \<times> cave" where
  "ensureCavemanSkill dflt cs = (case cs of
     (s, Some sk) \<Rightarrow> (Inr sk, cs)
   | (s, None) \<Rightarrow>
       let raw = setting_or_empty SettingCavemanSkillRaw (db s);
           raw = (if trim_space raw = '''' then dflt else raw)
       in (case (case ParseCavemanSkill raw of Inl e \<Rightarrow> ParseCavemanSkill dflt | Inr sk \<Rightarrow> Inr sk) of
             Inl e \<Rightarrow> (Inl (OtherErr ''parse default caveman skill''), cs)
           | Inr sk \<Rightarrow> (Inr sk, (s, Some sk))))"

record CavemanSettings =
  cv_enabled :: bool
  cv_level :: string
  cv_synced :: string
  cv_levels :: "CavemanLevelMeta list"

definition level_setting :: "store \<Rightarrow> string" where
  "level_setting st = (let l = setting_or_empty SettingCavemanLevel st in
     if l = '''' then DefaultCavemanLevel else l)"

definition GetCavemanSettings :: "string \<Rightarrow> cave \<Rightarrow> CavemanSettings result \<times> cave" where
  "GetCavemanSettings dflt cs = (case ensureCavemanSkill dflt cs of
     (Inl e, cs') \<Rightarrow> (Inl e, cs')
   | (Inr sk, cs') \<Rightarrow> let st = db (fst cs) in
       (Inr \<lparr>cv_enabled = (setting_or_empty SettingCavemanEnabled st = ''1''), cv_level = level_setting st,
          cv_synced = setting_or_empty SettingCavemanSyncedAt st, cv_levels = LevelMetas sk\<rparr>, cs'))"

definition put_settings :: "(string \<times> string) list \<Rightarrow> svc \<Rightarrow> svc" where
  "put_settings kvs = with_db (\<lambda>st. st\<lparr>settings := settings st ++ map_of kvs\<rparr>)"

definition SetCavemanSettings :: "string \<Rightarrow> bool \<Rightarrow> string \<Rightarrow> cave \<Rightarrow> unit result \<times> cave" where
  "SetCavemanSettings dflt enabled level cs =
     (let l = to_lower (trim_space level); l = (if l = '''' then DefaultCavemanLevel else l) in
      case ensureCavemanSkill dflt cs of
        (Inl e, cs') \<Rightarrow> (Inl e, cs')
      | (Inr sk, (s, c)) \<Rightarrow>
          if map_of (sk_levels sk) l = None \<and> l \<noteq> DefaultCavemanLevel
          then (Inl (ErrValidation ''unknown caveman level''), (s, c))
          else (Inr (), (put_settings [(SettingCavemanEnabled, if enabled then ''1'' else ''0''),
                 (SettingCavemanLevel, l)] s, c)))"

text \<open>The response of the fetch: a transport error, or a status and what could be read of the body.\<close>

definition SyncCavemanSkill ::
  "string \<Rightarrow> svc_error + (int \<times> string result) \<Rightarrow> cave \<Rightarrow> unit result \<times> cave" where
  "SyncCavemanSkill now fetched cs = (case fetched of
     Inl e \<Rightarrow> (Inl e, cs)
   | Inr (status, body) \<Rightarrow>
       if \<not> status_ok status then (Inl (OtherErr (''fetch caveman skill: status '' @ int_to_dec status)), cs)
       else (case body of
           Inl e \<Rightarrow> (Inl e, cs)
         | Inr txt \<Rightarrow> let raw = take 1048576 txt in
             (case ParseCavemanSkill raw of
                Inl e \<Rightarrow> (Inl e, cs)
              | Inr sk \<Rightarrow> (Inr (), (put_settings [(SettingCavemanSkillRaw, raw),
                    (SettingCavemanSyncedAt, now)] (fst cs), Some sk)))))"

definition GetCavemanPrompt :: "string \<Rightarrow> string \<Rightarrow> cave \<Rightarrow> string result \<times> cave" where
  "GetCavemanPrompt dflt level cs = (case ensureCavemanSkill dflt cs of
     (Inl e, cs') \<Rightarrow> (Inl e, cs')
   | (Inr sk, cs') \<Rightarrow> (Inr (PromptForLevel sk level), cs'))"

definition ActiveCavemanPrompt :: "string \<Rightarrow> cave \<Rightarrow> string result \<times> cave" where
  "ActiveCavemanPrompt dflt cs =
     (let st = db (fst cs) in
      if setting_or_empty SettingCavemanEnabled st \<noteq> ''1'' then (Inr '''', cs)
      else GetCavemanPrompt dflt (level_setting st) cs)"

section \<open>Laws\<close>

lemma map_of_put [simp]: "map_of (put k v m) j = (if j = k then Some v else map_of m j)"
proof -
  have "map_of (filter (\<lambda>kv. fst kv \<noteq> k) m) j = (if j = k then None else map_of m j)"
    by (induction m) auto
  then show ?thesis by (auto simp: put_def map_add_def split: option.split)
qed

lemma distinct_put: "distinct (map fst m) \<Longrightarrow> distinct (map fst (put k v m))"
  by (auto simp: put_def distinct_map_filter)

lemma level_rows_distinct: "distinct (map fst m) \<Longrightarrow> distinct (map fst (level_rows rows m))"
  by (induction rows arbitrary: m) (auto simp: distinct_put split: option.split prod.split)

lemma parsed_skill:
  assumes "ParseCavemanSkill raw = Inr sk"
  shows "sk_levels sk \<noteq> []" "sk_rules sk \<noteq> ''''" "distinct (map fst (sk_levels sk))"
  using assms level_rows_distinct [of "[]"]
  by (auto simp: ParseCavemanSkill_def Let_def split: if_splits)

lemma ensured_skill:
  assumes "ensureCavemanSkill dflt cs = (Inr sk, cs')"
  shows "fst cs' = fst cs" "snd cs' = Some sk" "ensureCavemanSkill dflt cs' = (Inr sk, cs')"
  using assms by (auto simp: ensureCavemanSkill_def Let_def split: prod.splits option.splits sum.splits)

text \<open>Every level is listed once.\<close>

lemma LevelMetas_ids:
  assumes "distinct (map fst (sk_levels sk))"
  shows "distinct (map lm_id (LevelMetas sk))" "set (map lm_id (LevelMetas sk)) = fst ` set (sk_levels sk)"
proof -
  let ?p = "List.map_filter (\<lambda>i. map_option (Pair i) (map_of (sk_levels sk) i)) preferredOrder"
  have p: "map fst ?p = filter (\<lambda>i. map_of (sk_levels sk) i \<noteq> None) preferredOrder"
  proof -
    have "map fst (List.map_filter (\<lambda>i. map_option (Pair i) (map_of m i)) xs) =
        filter (\<lambda>i. map_of m i \<noteq> None) xs" for xs and m :: "(string \<times> string) list"
      by (induction xs) (auto simp: List.map_filter_def)
    then show ?thesis .
  qed
  have ids: "map lm_id (LevelMetas sk) =
      map fst ?p @ map fst (filter (\<lambda>kv. fst kv \<notin> set preferredOrder) (sk_levels sk))"
    by (simp add: LevelMetas_def level_meta_def comp_def)
  have "distinct preferredOrder" by (simp add: preferredOrder_def)
  then show "distinct (map lm_id (LevelMetas sk))"
    using assms unfolding ids p by (auto simp: distinct_map_filter)
  show "set (map lm_id (LevelMetas sk)) = fst ` set (sk_levels sk)"
    unfolding ids p by (force simp: map_of_eq_None_iff)
qed

text \<open>After a synchronisation the prompts are those of the fetched text.\<close>

lemma synced_prompt:
  assumes "SyncCavemanSkill now fetched cs = (Inr (), cs')"
  shows "\<exists>status t sk. fetched = Inr (status, Inr t) \<and> ParseCavemanSkill (take 1048576 t) = Inr sk \<and>
    GetCavemanPrompt dflt level cs' = (Inr (PromptForLevel sk level), cs') \<and>
    GetCavemanPrompt dflt level (fst cs', None) = (Inr (PromptForLevel sk level), cs')"
proof -
  from assms obtain status t sk where 1: "fetched = Inr (status, Inr t)" "ParseCavemanSkill (take 1048576 t) = Inr sk"
      "cs' = (put_settings [(SettingCavemanSkillRaw, take 1048576 t), (SettingCavemanSyncedAt, now)] (fst cs), Some sk)"
    by (auto simp: SyncCavemanSkill_def Let_def split: sum.splits prod.splits if_splits)
  have "trim_space (take 1048576 t) \<noteq> ''''" using 1(2) by (auto simp: ParseCavemanSkill_def)
  moreover have "setting_or_empty SettingCavemanSkillRaw (db (fst cs')) = take 1048576 t"
    by (simp add: 1(3) setting_or_empty_def put_settings_def with_db_def map_add_def caveman_settings)
  ultimately have "ensureCavemanSkill dflt (fst cs', None) = (Inr sk, cs')"
    using 1 by (simp add: ensureCavemanSkill_def Let_def)
  moreover have "ensureCavemanSkill dflt cs' = (Inr sk, cs')" by (simp add: 1(3) ensureCavemanSkill_def)
  ultimately show ?thesis using 1 by (simp add: GetCavemanPrompt_def)
qed

end
