(* ===== verification/Service.thy ===== *)
theory Service
  imports Prompt_Rules Access Key_Import Caveman
begin

text \<open>
  The Service value as one state machine: a step is one call of an operation of internal/service,
  with any arguments and any outcome, or a restart of the process over the same database. The
  arguments \<open>c\<close> (sealing of secrets), \<open>parse\<close> (URLs), \<open>pw\<close> and \<open>b64\<close> (passwords and tokens) are
  fixed for a run.

  The invariant: the schema's constraints hold, the prompt snapshot is coherent with the database,
  and every group target of a prompt rule names a group.
\<close>

inductive service_step ::
  "crypto \<Rightarrow> (string \<Rightarrow> url_parts option) \<Rightarrow> password_prims \<Rightarrow> (string \<Rightarrow> string) \<Rightarrow> svc \<Rightarrow> svc \<Rightarrow> bool"
  for c parse pw b64 where
  op_restart: "service_step c parse pw b64 s (New c n (db s))"
| op_create_provider: "service_step c parse pw b64 s
    (snd (CreateProvider c parse now name typ prefix url key enabled ks s))"
| op_update_provider: "service_step c parse pw b64 s
    (snd (UpdateProvider parse now i name typ prefix url enabled ks s))"
| op_delete_provider: "service_step c parse pw b64 s (snd (DeleteProvider i s))"
| op_create_provider_key: "service_step c parse pw b64 s (snd (CreateProviderKey c now pid name secret s))"
| op_update_provider_key: "service_step c parse pw b64 s (snd (UpdateProviderKey c now i name enabled s))"
| op_delete_provider_key: "service_step c parse pw b64 s (snd (DeleteProviderKey i s))"
| op_set_primary: "service_step c parse pw b64 s (snd (SetProviderKeyPrimary now pid i s))"
| op_touch_key: "service_step c parse pw b64 s (TouchProviderKeyUsed now i s)"
| op_eligible_keys: "service_step c parse pw b64 s (snd (EligibleKeys c pid s))"
| op_import_keys: "service_step c parse pw b64 s (snd (ImportProviderKeys c now pid txt commit s))"
| op_create_model: "service_step c parse pw b64 s (snd (CreateModel now pid name enabled s))"
| op_update_model: "service_step c parse pw b64 s (snd (UpdateModel now i name enabled s))"
| op_delete_model: "service_step c parse pw b64 s (snd (DeleteModel i s))"
| op_set_scheme: "service_step c parse pw b64 s (snd (SetModelScheme now i scheme s))"
| op_create_group: "service_step c parse pw b64 s (snd (CreateGroup now name enabled sel s))"
| op_update_group: "service_step c parse pw b64 s (snd (UpdateGroup now i name enabled sel s))"
| op_group_selection: "service_step c parse pw b64 s (snd (SetGroupSelection now i sel s))"
| op_delete_group: "service_step c parse pw b64 s (snd (DeleteGroup i s))"
| op_add_member: "service_step c parse pw b64 s (snd (AddGroupMember now gid mid s))"
| op_update_member: "service_step c parse pw b64 s (snd (UpdateGroupMember now gid i enabled s))"
| op_delete_member: "service_step c parse pw b64 s (snd (DeleteGroupMember gid i s))"
| op_reorder_members: "service_step c parse pw b64 s (snd (ReorderGroupMembers now gid ids s))"
| op_resolve_group: "service_step c parse pw b64 s (snd (ResolveGroupTargets c name s))"
| op_create_rule: "service_step c parse pw b64 s (snd (CreatePromptRule now inp s))"
| op_update_rule: "service_step c parse pw b64 s (snd (UpdatePromptRule now i inp s))"
| op_delete_rule: "service_step c parse pw b64 s (snd (DeletePromptRule i s))"
| op_reorder_rules: "service_step c parse pw b64 s (snd (ReorderPromptRules now ids s))"
| op_resolve_rules: "service_step c parse pw b64 s (snd (ResolvePromptRules gid mid s))"
| op_rule_by_name: "service_step c parse pw b64 s (snd (PromptRuleByName name s))"
| op_create_api_key: "service_step c parse pw b64 s (snd (CreateAPIKey pw b64 now raw name s))"
| op_revoke_api_key: "service_step c parse pw b64 s (snd (RevokeAPIKey now i s))"
| op_authenticate: "service_step c parse pw b64 s (snd (AuthenticateAPIKey pw now now' plain s))"
| op_create_session: "service_step c parse pw b64 s (snd (CreateSession pw b64 now now' raw ttl s))"
| op_validate_session: "service_step c parse pw b64 s (snd (ValidateSession pw now token s))"
| op_delete_session: "service_step c parse pw b64 s (DeleteSession pw token s)"
| op_set_admin: "service_step c parse pw b64 s (snd (SetAdminPassword pw salt now password s))"
| op_init_admin: "service_step c parse pw b64 s (snd (InitializeAdmin pw salt now now' password s))"
| op_change_admin: "service_step c parse pw b64 s (snd (ChangeAdminPassword pw salt now cur password s))"
| op_set_prompt: "service_step c parse pw b64 s (snd (SetGlobalPrompt txt enabled s))"
| op_set_caveman: "service_step c parse pw b64 s (fst (snd (SetCavemanSettings dflt enabled level (s, sk))))"
| op_sync_caveman: "service_step c parse pw b64 s (fst (snd (SyncCavemanSkill stamp fetched (s, sk))))"

text \<open>A fresh installation: an empty database, opened.\<close>

definition service_init :: "crypto \<Rightarrow> svc \<Rightarrow> bool" where
  "service_init c s \<longleftrightarrow> (\<exists>n. s = New c n empty_store)"

section \<open>Frames\<close>

text \<open>The operations outside promptrules.go that leave the rules and every group in place.\<close>

definition same_prompts :: "svc \<Rightarrow> svc \<Rightarrow> bool" where
  "same_prompts s s' \<longleftrightarrow> promptLoaded s' = promptLoaded s \<and> promptRules s' = promptRules s \<and>
     prompt_rules (db s') = prompt_rules (db s) \<and>
     prompt_rule_targets (db s') = prompt_rule_targets (db s) \<and>
     (\<forall>i. tbl_exists (\<lambda>g. g_id g = i) (groups (db s)) \<longrightarrow> tbl_exists (\<lambda>g. g_id g = i) (groups (db s')))"

definition svc_ok :: "svc \<Rightarrow> bool" where
  "svc_ok s \<longleftrightarrow> wf_store (db s) \<and> coherent s \<and> group_targets_live (db s)"

lemma same_prompts_refl [simp]: "same_prompts s s"
  by (simp add: same_prompts_def)

lemma same_prompts_trans: "same_prompts s t \<Longrightarrow> same_prompts t u \<Longrightarrow> same_prompts s u"
  by (simp add: same_prompts_def)

lemma svc_ok_frame: "svc_ok s \<Longrightarrow> wf_store (db s') \<Longrightarrow> same_prompts s s' \<Longrightarrow> svc_ok s'"
  using coherent_frame [of s s'] group_targets_live_frame [of "db s" "db s'"]
  by (simp add: svc_ok_def same_prompts_def)

text \<open>A change of the database alone, to tables the rules do not depend on.\<close>

lemma same_prompts_with_db:
  assumes "prompt_rules (f (db s)) = prompt_rules (db s)"
    "prompt_rule_targets (f (db s)) = prompt_rule_targets (db s)" "groups (f (db s)) = groups (db s)"
  shows "same_prompts s (with_db f s)"
  using assms by (simp add: same_prompts_def)

lemma frame_CreateProviderKey: "same_prompts s (snd (CreateProviderKey c now pid name secret s))"
  by (auto simp: CreateProviderKey_def Let_def intro!: same_prompts_with_db split: sum.split)

lemma frame_CreateProvider:
  "same_prompts s (snd (CreateProvider c parse now name typ prefix url key en ks s))"
proof -
  have ins: "same_prompts s (with_db (insert_provider n t p u k e now) s)" for n t p u k e
    by (rule same_prompts_with_db) (simp_all add: insert_provider_def)
  have keys: "same_prompts s (snd (CreateProviderKey c now i nm sec (with_db (insert_provider n t p u k e now) s)))"
    for i nm sec n t p u k e
    using same_prompts_trans [OF ins frame_CreateProviderKey] .
  have keys': "same_prompts s s2"
    if "CreateProviderKey c now i nm sec (with_db (insert_provider n t p u k e now) s) = (r, s2)"
    for i nm sec n t p u k e r s2
    using keys [of i nm sec n t p u k e] that by simp
  show ?thesis
    by (auto simp: CreateProvider_def Let_def ins keys' split: sum.split prod.split)
qed

lemma frame_providers:
  "same_prompts s (snd (UpdateProvider parse now i name typ prefix url en ks s))"
  "same_prompts s (snd (DeleteProvider i s))"
  "same_prompts s (snd (UpdateProviderKey c now i name en s))"
  "same_prompts s (snd (DeleteProviderKey i s))"
  "same_prompts s (snd (SetProviderKeyPrimary now pid i s))"
  "same_prompts s (TouchProviderKeyUsed now i s)"
  by (auto simp: UpdateProvider_def update_provider_def DeleteProvider_def delete_provider_row_def
      delete_models_where_def UpdateProviderKey_def DeleteProviderKey_def SetProviderKeyPrimary_def
      TouchProviderKeyUsed_def Let_def intro!: same_prompts_with_db split: sum.split option.split)

text \<open>
  The selection of keys and of group targets moves the cursors only. The locale is for a relation that
  does not look at them: it holds of the selection of a key, and of the resolution of a group.
\<close>

locale svc_frame =
  fixes R :: "svc \<Rightarrow> svc \<Rightarrow> bool"
  assumes R_cursors: "db s' = db s \<Longrightarrow> promptLoaded s' = promptLoaded s \<Longrightarrow> promptRules s' = promptRules s \<Longrightarrow> R s s'"
    and R_trans: "R s t \<Longrightarrow> R t u \<Longrightarrow> R s u"
begin

lemma R_EligibleKeys: "R s (snd (EligibleKeys c pid s))"
  by (rule R_cursors) (auto simp: EligibleKeys_def Let_def case_prod_unfold split: sum.split)

lemma R_collect_candidates: "R s (snd (collect_candidates c gms s))"
proof (induction c gms s rule: collect_candidates.induct)
  case (2 c gm gms s)
  show ?case
  proof (cases "gmv_enabled gm \<and> (\<exists>r. ResolveRoute (gmv_public_id gm) s = Inr r)")
    case True
    then obtain r where r: "ResolveRoute (gmv_public_id gm) s = Inr r" "gmv_enabled gm" by auto
    obtain ks s' where e: "EligibleKeys c (pv_id (rt_provider r)) s = (ks, s')" by force
    then have f: "R s s'" using R_EligibleKeys [of s c "pv_id (rt_provider r)"] by simp
    with 2 r e R_trans [OF f] show ?thesis
      by (cases ks) (auto simp: case_prod_unfold Let_def)
  next
    case False
    with 2 show ?thesis by (auto split: sum.split)
  qed
qed (simp add: R_cursors)

lemma R_order_candidates: "R s (snd (order_candidates d i sel xs s))"
  by (rule R_cursors) simp_all

lemma R_ResolveGroupTargets: "R s (snd (ResolveGroupTargets c name s))"
  using R_collect_candidates R_trans [OF R_collect_candidates R_order_candidates] R_cursors [of s s]
  by (auto simp: ResolveGroupTargets_def Let_def case_prod_unfold split: option.split)

end

interpretation prompts: svc_frame same_prompts
  by unfold_locales (auto simp: same_prompts_def)

lemma frame_ImportProviderKeys: "same_prompts s (snd (ImportProviderKeys c now pid txt commit s))"
  by (auto simp: ImportProviderKeys_def Let_def intro!: same_prompts_with_db split: sum.split
      dest: insert_valids_other)

lemma frame_models:
  "same_prompts s (snd (CreateModel now pid name en s))"
  "same_prompts s (snd (UpdateModel now i name en s))"
  "same_prompts s (snd (SetModelScheme now i sch s))"
  by (auto simp: CreateModel_def UpdateModel_def SetModelScheme_def Let_def
      intro!: same_prompts_with_db split: sum.split option.split)

lemma frame_group_change:
  "same_prompts s (with_db (insert_group n sel en now) s)"
  "(\<And>g. g_id (f g) = g_id g) \<Longrightarrow> same_prompts s (with_db (update_group i f) s)"
  "same_prompts s (with_db (set_members h) s)"
  by (auto simp: same_prompts_def insert_group_def update_group_def set_members_def
      tbl_exists_update) (auto simp: tbl_exists_iff)

lemma frame_groups:
  "same_prompts s (snd (CreateGroup now name en sel s))"
  "same_prompts s (snd (UpdateGroup now i name en sel s))"
  "same_prompts s (snd (SetGroupSelection now i sel s))"
  "same_prompts s (snd (AddGroupMember now gid mid s))"
  "same_prompts s (snd (UpdateGroupMember now gid i en s))"
  "same_prompts s (snd (DeleteGroupMember gid i s))"
  "same_prompts s (snd (ReorderGroupMembers now gid ids s))"
  by (auto simp: CreateGroup_def UpdateGroup_def SetGroupSelection_def AddGroupMember_def
      UpdateGroupMember_def DeleteGroupMember_def ReorderGroupMembers_def Let_def
      frame_group_change split: sum.split)

lemma frame_set_sessions: "same_prompts s (with_db (set_sessions f) s)"
  by (rule same_prompts_with_db) (simp_all add: set_sessions_def)

lemma frame_access:
  "same_prompts s (snd (CreateAPIKey pw b64 now raw name s))"
  "same_prompts s (snd (RevokeAPIKey now i s))"
  "same_prompts s (snd (AuthenticateAPIKey pw now now' plain s))"
  "same_prompts s (snd (CreateSession pw b64 now now' raw ttl s))"
  "same_prompts s (snd (ValidateSession pw now token s))"
  "same_prompts s (DeleteSession pw token s)"
  "same_prompts s (snd (SetAdminPassword pw salt now password s))"
  "same_prompts s (snd (InitializeAdmin pw salt now now' password s))"
  "same_prompts s (snd (ChangeAdminPassword pw salt now cur password s))"
  "same_prompts s (snd (SetGlobalPrompt txt en s))"
  by (auto simp: CreateAPIKey_def RevokeAPIKey_def AuthenticateAPIKey_def CreateSession_def
      ValidateSession_def DeleteSession_def SetAdminPassword_def InitializeAdmin_def
      ChangeAdminPassword_def SetGlobalPrompt_def update_client_def Let_def
      frame_set_sessions same_prompts_trans [OF frame_set_sessions frame_set_sessions]
      intro!: same_prompts_with_db split: sum.split option.split)

text \<open>The caveman operations write settings only; the skill they work with is cached.\<close>

lemma ensureCavemanSkill_svc: "ensureCavemanSkill dflt cs = (r, cs') \<Longrightarrow> fst cs' = fst cs"
  by (auto simp: ensureCavemanSkill_def Let_def split: prod.splits option.splits sum.splits)

lemma caveman_writes:
  "\<exists>kvs. fst (snd (SetCavemanSettings dflt en level cs)) \<in> {fst cs, put_settings kvs (fst cs)}"
  "\<exists>kvs. fst (snd (SyncCavemanSkill now fetched cs)) \<in> {fst cs, put_settings kvs (fst cs)}"
proof -
  have "fst (snd (SetCavemanSettings dflt en level cs)) \<in> {fst cs} \<union> range (\<lambda>kvs. put_settings kvs (fst cs))"
  proof -
    obtain r s sk where e: "ensureCavemanSkill dflt cs = (r, s, sk)" by (rule prod_cases3)
    from ensureCavemanSkill_svc [OF this] have "s = fst cs" by simp
    then show ?thesis unfolding SetCavemanSettings_def Let_def e by (simp split: sum.split)
  qed
  then show "\<exists>kvs. fst (snd (SetCavemanSettings dflt en level cs)) \<in> {fst cs, put_settings kvs (fst cs)}" by auto
  have "fst (snd (SyncCavemanSkill now fetched cs)) \<in> {fst cs} \<union> range (\<lambda>kvs. put_settings kvs (fst cs))"
    by (auto simp: SyncCavemanSkill_def Let_def split: sum.split)
  then show "\<exists>kvs. fst (snd (SyncCavemanSkill now fetched cs)) \<in> {fst cs, put_settings kvs (fst cs)}" by auto
qed

lemma caveman_ok:
  "svc_ok s \<Longrightarrow> svc_ok (fst (snd (SetCavemanSettings dflt en level (s, sk))))"
  "svc_ok s \<Longrightarrow> svc_ok (fst (snd (SyncCavemanSkill now fetched (s, sk))))"
proof -
  assume ok: "svc_ok s"
  have "svc_ok (put_settings kvs s)" for kvs
  proof (rule svc_ok_frame [OF ok])
    show "wf_store (db (put_settings kvs s))" using ok by (simp add: svc_ok_def put_settings_def wf_store_def wf_defs)
    show "same_prompts s (put_settings kvs s)"
      unfolding put_settings_def by (rule same_prompts_with_db) simp_all
  qed
  with ok show "svc_ok (fst (snd (SetCavemanSettings dflt en level (s, sk))))"
    "svc_ok (fst (snd (SyncCavemanSkill now fetched (s, sk))))"
    using caveman_writes(1) [of dflt en level "(s, sk)"] caveman_writes(2) [of now fetched "(s, sk)"] by auto
qed

lemma snapshot_ok: "svc_ok s \<Longrightarrow> svc_ok (snd (promptRuleSnapshot s))"
  by (simp add: svc_ok_def)

lemma delete_model_ok: "svc_ok s \<Longrightarrow> svc_ok (snd (DeleteModel i s))"
proof -
  assume ok: "svc_ok s"
  have "coherent (snd (DeleteModel i s))" using ok by (simp add: DeleteModel_def svc_ok_def)
  moreover have "group_targets_live (db (snd (DeleteModel i s)))"
    using ok live_deletePromptTargetsFor [of "db s" "''model''" i]
    by (auto simp: DeleteModel_def svc_ok_def delete_models_where_def group_targets_live_def)
  ultimately show ?thesis using ok wf_DeleteModel by (simp add: svc_ok_def)
qed

lemma delete_group_ok: "svc_ok s \<Longrightarrow> svc_ok (snd (DeleteGroup i s))"
  using wf_DeleteGroup live_DeleteGroup by (simp add: svc_ok_def) (simp add: DeleteGroup_def)

lemma rule_ops_ok:
  "svc_ok s \<Longrightarrow> svc_ok (snd (CreatePromptRule now inp s))"
  "svc_ok s \<Longrightarrow> svc_ok (snd (UpdatePromptRule now i inp s))"
  "svc_ok s \<Longrightarrow> svc_ok (snd (DeletePromptRule i s))"
  "svc_ok s \<Longrightarrow> svc_ok (snd (ReorderPromptRules now ids s))"
  by (simp_all add: svc_ok_def wf_CreatePromptRule wf_UpdatePromptRule wf_DeletePromptRule
      wf_ReorderPromptRules coherent_CreatePromptRule coherent_UpdatePromptRule
      coherent_DeletePromptRule coherent_ReorderPromptRules live_CreatePromptRule
      live_UpdatePromptRule live_DeletePromptRule live_ReorderPromptRules)

lemma New_ok: "wf_store st \<Longrightarrow> group_targets_live st \<Longrightarrow> svc_ok (New c n st)"
  using upgrade_other [of c n st] wf_New [of st c n]
  by (auto simp: svc_ok_def coherent_def group_targets_live_def) (simp add: New_def)

section \<open>The invariant\<close>

lemmas frame_lemmas = frame_CreateProvider frame_CreateProviderKey frame_providers
  prompts.R_EligibleKeys frame_ImportProviderKeys frame_models frame_groups frame_access
  prompts.R_ResolveGroupTargets

lemmas wf_op_lemmas = wf_CreateProvider wf_UpdateProvider wf_DeleteProvider wf_CreateProviderKey
  wf_UpdateProviderKey wf_DeleteProviderKey wf_SetProviderKeyPrimary wf_TouchProviderKeyUsed
  wf_ImportProviderKeys wf_CreateModel wf_UpdateModel wf_SetModelScheme wf_CreateGroup
  wf_UpdateGroup wf_SetGroupSelection wf_AddGroupMember wf_UpdateGroupMember wf_DeleteGroupMember
  wf_ReorderGroupMembers wf_CreateAPIKey wf_RevokeAPIKey wf_AuthenticateAPIKey wf_CreateSession
  wf_ValidateSession wf_DeleteSession wf_SetAdminPassword wf_InitializeAdmin
  wf_ChangeAdminPassword wf_SetGlobalPrompt

lemma svc_okD: "svc_ok s \<Longrightarrow> wf_store (db s)"
  by (simp add: svc_ok_def)

lemma step_ok:
  assumes ok: "svc_ok s" and st: "service_step c parse pw b64 s s'"
  shows "svc_ok s'"
proof -
  note wf = svc_okD [OF ok]
  note frame = svc_ok_frame [OF ok]
  from st show ?thesis
  proof cases
    case (op_restart n)
    with ok show ?thesis by (simp add: svc_ok_def New_ok [unfolded svc_ok_def])
  next
    case op_eligible_keys
    then show ?thesis using wf by (intro frame) (simp_all add: frame_lemmas)
  next
    case op_resolve_group
    then show ?thesis using wf by (intro frame) (simp_all add: frame_lemmas)
  next
    case (op_resolve_rules gid mid)
    with ok show ?thesis by (simp add: ResolvePromptRules_snd snapshot_ok)
  next
    case (op_rule_by_name name)
    with ok show ?thesis using PromptRuleByName_snd [of name s] snapshot_ok by auto
  qed (use wf ok in \<open>simp_all add: delete_model_ok delete_group_ok rule_ops_ok caveman_ok
      frame [OF wf_op_lemmas(1)] frame [OF wf_op_lemmas(2)] frame_lemmas wf_op_lemmas frame\<close>)
qed

interpretation service: inductive_invariant "service_init c" "service_step c parse pw b64" svc_ok
  for c parse pw b64
proof unfold_locales
  fix s assume "service_init c s"
  then show "svc_ok s"
    by (auto simp: service_init_def wf_empty intro!: New_ok) (simp add: group_targets_live_def empty_store_def)
next
  fix s s' assume "svc_ok s" "service_step c parse pw b64 s s'"
  then show "svc_ok s'" by (rule step_ok)
qed

end
