(* ===== verification/Sample.thy ===== *)
theory Sample
  imports Service
begin

text \<open>
  A small installation on which the properties' hypotheses are shown to hold: two providers, three
  keys, two models, a group of both models and two prompt rules. The cryptography of the sample is
  the identity.
\<close>

definition sample_provider :: "int \<Rightarrow> string \<Rightarrow> string \<Rightarrow> string \<Rightarrow> string \<Rightarrow> provider_row" where
  "sample_provider i name typ prefix sel = \<lparr>p_id = i, p_name = name, p_type = typ, p_prefix = prefix,
     p_base_url = ''https://h'', p_key_selection = sel, p_enabled = True, p_created = 0, p_updated = 0\<rparr>"

definition sample_key :: "int \<Rightarrow> int \<Rightarrow> string \<Rightarrow> string \<Rightarrow> int \<Rightarrow> key_row" where
  "sample_key i pid name secret q = \<lparr>pk_id = i, pk_provider = pid, pk_name = name,
     pk_encrypted = secret, pk_hash = secret, pk_enabled = True, pk_sort = q, pk_last_used = None,
     pk_created = 0, pk_updated = 0\<rparr>"

definition sample_model :: "int \<Rightarrow> int \<Rightarrow> string \<Rightarrow> model_row" where
  "sample_model i pid name = \<lparr>m_id = i, m_provider = pid, m_name = name, m_scheme = '''',
     m_enabled = True, m_created = 0, m_updated = 0\<rparr>"

definition sample_member :: "int \<Rightarrow> int \<Rightarrow> int \<Rightarrow> member_row" where
  "sample_member i mid q = \<lparr>gm_id = i, gm_group = 1, gm_model = mid, gm_position = q,
     gm_enabled = True, gm_created = 0, gm_updated = 0\<rparr>"

definition sample_rule :: "int \<Rightarrow> string \<Rightarrow> int \<Rightarrow> bool \<Rightarrow> rule_row" where
  "sample_rule i name q inherit = \<lparr>r_id = i, r_name = name, r_prompt = name, r_inherit = inherit,
     r_enabled = True, r_position = q, r_created = 0, r_updated = 0\<rparr>"

definition sample_store :: store where
  "sample_store = empty_store\<lparr>
     providers := \<lparr>tbl_rows = [sample_provider 1 ''A'' ''openai'' ''oa'' ''round_robin'',
        sample_provider 2 ''B'' ''anthropic'' ''an'' ''first''], tbl_seq = 2\<rparr>,
     provider_keys := \<lparr>tbl_rows = [sample_key 1 1 ''Key 1'' ''sa'' 0, sample_key 2 1 ''Key 2'' ''sb'' 1,
        sample_key 3 2 ''Key 1'' ''sc'' 0], tbl_seq = 3\<rparr>,
     models := \<lparr>tbl_rows = [sample_model 1 1 ''gpt'', sample_model 2 2 ''claude''], tbl_seq = 2\<rparr>,
     groups := \<lparr>tbl_rows = [\<lparr>g_id = 1, g_name = ''fast'', g_selection = ''first'', g_enabled = True,
        g_created = 0, g_updated = 0\<rparr>], tbl_seq = 1\<rparr>,
     group_members := \<lparr>tbl_rows = [sample_member 1 1 0, sample_member 2 2 1], tbl_seq = 2\<rparr>,
     prompt_rules := \<lparr>tbl_rows = [sample_rule 1 ''terse'' 0 True, sample_rule 2 ''safe'' 1 False],
        tbl_seq = 2\<rparr>,
     prompt_rule_targets := \<lparr>tbl_rows = [\<lparr>t_id = 1, t_rule = 1, t_type = ''group'', t_target = 1\<rparr>,
        \<lparr>t_id = 2, t_rule = 2, t_type = ''model'', t_target = 1\<rparr>], tbl_seq = 2\<rparr>,
     client_keys := \<lparr>tbl_rows = [\<lparr>ck_id = 1, ck_name = ''cli'', ck_hash = ''sk-pogu-01234567890123456789'', ck_last_used = None,
        ck_expires = None, ck_revoked = None, ck_created = 0\<rparr>], tbl_seq = 1\<rparr>\<rparr>"

definition sample_svc :: svc where
  "sample_svc = \<lparr>db = sample_store, promptLoaded = False, promptRules = [], rrCursors = Map.empty\<rparr>"

definition sample_crypto :: crypto where
  "sample_crypto = \<lparr>c_fp = (\<lambda>s. s), c_enc = Inr, c_dec = Inr\<rparr>"

text \<open>The sample's tables.\<close>

lemma sample_tables [simp]:
  "tbl_rows (providers sample_store) = [sample_provider 1 ''A'' ''openai'' ''oa'' ''round_robin'',
     sample_provider 2 ''B'' ''anthropic'' ''an'' ''first'']"
  "tbl_rows (provider_keys sample_store) = [sample_key 1 1 ''Key 1'' ''sa'' 0,
     sample_key 2 1 ''Key 2'' ''sb'' 1, sample_key 3 2 ''Key 1'' ''sc'' 0]"
  "tbl_rows (models sample_store) = [sample_model 1 1 ''gpt'', sample_model 2 2 ''claude'']"
  "tbl_rows (groups sample_store) = [\<lparr>g_id = 1, g_name = ''fast'', g_selection = ''first'',
     g_enabled = True, g_created = 0, g_updated = 0\<rparr>]"
  "tbl_rows (group_members sample_store) = [sample_member 1 1 0, sample_member 2 2 1]"
  "tbl_rows (prompt_rules sample_store) = [sample_rule 1 ''terse'' 0 True, sample_rule 2 ''safe'' 1 False]"
  "tbl_rows (prompt_rule_targets sample_store) =
     [\<lparr>t_id = 1, t_rule = 1, t_type = ''group'', t_target = 1\<rparr>,
      \<lparr>t_id = 2, t_rule = 2, t_type = ''model'', t_target = 1\<rparr>]"
  "tbl_rows (client_keys sample_store) = [\<lparr>ck_id = 1, ck_name = ''cli'', ck_hash = ''sk-pogu-01234567890123456789'',
     ck_last_used = None, ck_expires = None, ck_revoked = None, ck_created = 0\<rparr>]"
  "tbl_seq (providers sample_store) = 2" "tbl_seq (provider_keys sample_store) = 3"
  "tbl_seq (models sample_store) = 2" "tbl_seq (groups sample_store) = 1"
  "tbl_seq (group_members sample_store) = 2" "tbl_seq (prompt_rules sample_store) = 2"
  "tbl_seq (prompt_rule_targets sample_store) = 2" "tbl_seq (client_keys sample_store) = 1"
  "sessions sample_store = []" "admin sample_store = None"
  by (simp_all add: sample_store_def empty_store_def)

lemmas sample_rows = sample_provider_def sample_key_def sample_model_def sample_member_def
  sample_rule_def

lemma sample_svc_simps [simp]:
  "db sample_svc = sample_store" "promptLoaded sample_svc = False" "promptRules sample_svc = []"
  "rrCursors sample_svc = Map.empty"
  by (simp_all add: sample_svc_def)

lemma sample_wf: "wf_store sample_store"
  unfolding wf_store_def
proof (intro conjI)
  show "wf_providers sample_store"
    by (simp add: wf_providers_def ids_ok_def unique_on_def all_rows_def sample_rows prefixPattern_def
        lower_alnum_def is_lower_def is_digit_def code_of_def provider_type_valid_def
        key_selection_valid_def enum_defs)
  show "wf_keys sample_store"
    by (simp add: wf_keys_def ids_ok_def unique_on_def references_def sample_rows)
  show "wf_models sample_store"
    by (simp add: wf_models_def ids_ok_def unique_on_def references_def all_rows_def sample_rows
        validateModelName_ok modelPattern_def model_char_def modelSegment_def code_of_def
        rune_count_def scheme_valid_def)
  show "wf_groups sample_store"
    by (simp add: wf_groups_def ids_ok_def unique_on_def all_rows_def groupNamePattern_def
        lower_alnum_def is_lower_def is_digit_def code_of_def key_selection_valid_def enum_defs)
  show "wf_members sample_store"
    by (simp add: wf_members_def ids_ok_def unique_on_def references_def sample_rows)
  show "wf_rules sample_store"
    by (simp add: wf_rules_def ids_ok_def unique_on_def references_def all_rows_def sample_rows)
  show "wf_clients sample_store"
    by (simp add: wf_clients_def ids_ok_def unique_on_def)
qed

lemma sample_ok: "svc_ok sample_svc"
  by (simp add: svc_ok_def sample_wf coherent_def group_targets_live_def tbl_exists_def)

text \<open>An encoding without the dollar sign, standing for base64 in the sample.\<close>

fun sample_encode :: "string \<Rightarrow> string" where
  "sample_encode [] = []"
| "sample_encode (c # s) = (if c = CHR ''$'' then ''%0'' else if c = CHR ''%'' then ''%1'' else [c]) @
     sample_encode s"

fun sample_decode :: "string \<Rightarrow> string option" where
  "sample_decode [] = Some []"
| "sample_decode [c] = (if c = CHR ''%'' then None else Some [c])"
| "sample_decode (c # d # s) =
     (if c = CHR ''%'' then map_option (Cons (if d = CHR ''0'' then CHR ''$'' else CHR ''%'')) (sample_decode s)
      else map_option (Cons c) (sample_decode (d # s)))"

lemma sample_decode_Cons: "c \<noteq> CHR ''%'' \<Longrightarrow> sample_decode (c # s) = map_option (Cons c) (sample_decode s)"
  by (cases s) simp_all

lemma sample_encode_dollar: "CHR ''$'' \<notin> set (sample_encode s)"
  by (induction s) simp_all

lemma sample_decode_encode: "sample_decode (sample_encode s) = Some s"
  by (induction s) (simp_all add: sample_decode_Cons)

definition sample_passwords :: password_prims where
  "sample_passwords = \<lparr>argon_idkey = (\<lambda>p salt t m th l. take 32 (p @ replicate 32 CHR ''x'')),
     std_encode = sample_encode, std_decode = sample_decode, sha256 = (\<lambda>s. s)\<rparr>"

definition sample_salt :: string where
  "sample_salt = replicate 16 CHR ''s''"

lemma sample_salt_length: "length sample_salt = 16"
  by (simp add: sample_salt_def)

lemma sample_passwords_laws:
  "CHR ''$'' \<notin> set (std_encode sample_passwords x)"
  "std_decode sample_passwords (std_encode sample_passwords x) = Some x"
  "length (argon_idkey sample_passwords p salt t m th l) = 32"
  by (simp_all add: sample_passwords_def sample_encode_dollar sample_decode_encode)

end
