(* ===== verification/Service_Properties.thy ===== *)
theory Service_Properties
  imports Sample
begin

text \<open>
  The properties of internal/service and internal/crypto, each with the instance that shows its
  hypotheses can hold. The proofs combine the component theories' lemmas.
\<close>

section \<open>The service invariant\<close>

text \<open>C5: Whatever operations run, in whatever order and with whatever outcome, and across restarts,
  the database satisfies every constraint of the schema, the prompt snapshot agrees with the
  database, and every group target of a prompt rule names an existing group.\<close>

theorem service_invariant:
  assumes "reachable (service_init c) (service_step c parse pw b64) s"
  shows "wf_store (db s) \<and> coherent s \<and> group_targets_live (db s)"
  using service.reachable_inv [OF assms] by (simp add: svc_ok_def)

lemma service_invariant_witness:
  "wf_store (db (snd (CreateGroup 5 ''fast'' True ''first'' (New sample_crypto 32 empty_store))))"
proof -
  have "reachable (service_init sample_crypto) (service_step sample_crypto (\<lambda>_. None) undefined id)
      (snd (CreateGroup 5 ''fast'' True ''first'' (New sample_crypto 32 empty_store)))"
    by (rule next_state [OF start]) (auto simp: service_init_def intro: op_create_group)
  from service_invariant [OF this] show ?thesis by blast
qed

section \<open>Routing\<close>

text \<open>C7: ResolveRoute answers exactly the requests that name an enabled model of an enabled
  provider as prefix/name, and then with that provider and that model: the split at the first slash
  is never ambiguous although model names may contain slashes.\<close>

theorem resolve_route_iff:
  assumes wf: "wf_store (db s)"
  shows "ResolveRoute pid s = Inr r \<longleftrightarrow>
    (\<exists>m p. (m, p) \<in> set (model_join (db s)) \<and> p_enabled p \<and> m_enabled m \<and>
       pid = p_prefix p @ ''/'' @ m_name m \<and>
       r = \<lparr>rt_provider = scanProvider (db s) p, rt_model = scanModel m p\<rparr>)"
  using ResolveRoute_sound [OF wf] ResolveRoute_complete [OF wf] unfolding public_id_def by blast

lemma resolve_route_iff_witness:
  "\<exists>r. ResolveRoute ''oa/gpt'' sample_svc = Inr r \<and> mv_id (rt_model r) = 1"
proof -
  let ?m = "sample_model 1 1 ''gpt''" and ?p = "sample_provider 1 ''A'' ''openai'' ''oa'' ''round_robin''"
  let ?r = "\<lparr>rt_provider = scanProvider sample_store ?p, rt_model = scanModel ?m ?p\<rparr>"
  have "(?m, ?p) \<in> set (model_join sample_store)"
    by (simp add: model_join_iff [OF sample_wf]) (simp add: sample_rows)
  moreover have "''oa/gpt'' = p_prefix ?p @ ''/'' @ m_name ?m" "p_enabled ?p" "m_enabled ?m"
    by (simp_all add: sample_rows)
  ultimately have "ResolveRoute ''oa/gpt'' sample_svc = Inr ?r"
    using resolve_route_iff [of sample_svc "''oa/gpt''" ?r] sample_wf by auto
  then show ?thesis by (simp add: sample_rows)
qed

section \<open>Selection\<close>

text \<open>C16: Round robin is fair: among n candidates, n consecutive selections for a provider or group
  start once at each of them, as long as the 64-bit cursor does not wrap in between.\<close>

theorem round_robin_fair:
  assumes "1 < n" "n < 2 ^ 64" "unat (rr_current (rr_key domain i) s) + n \<le> 2 ^ 64"
  shows "mset (cursor_calls domain i n n s) = mset [0..<n]"
proof -
  let ?f = "\<lambda>k. (unat (rr_current (rr_key domain i) s) + k) mod n"
  have "inj_on ?f {0..<n}" by (rule mod_window_inj)
  then have d: "distinct (map ?f [0..<n])" by (simp add: distinct_map)
  have "?f ` {0..<n} \<subseteq> {0..<n}" using assms(1) by auto
  then have "?f ` {0..<n} = {0..<n}"
    using \<open>inj_on ?f {0..<n}\<close> by (intro endo_inj_surj) auto
  then have "mset (map ?f [0..<n]) = mset [0..<n]"
    using d by (intro set_eq_iff_mset_eq_distinct [THEN iffD1]) (auto simp: atLeast_upt)
  then show ?thesis using cursor_calls_eq [OF assms(1,2,3)] by simp
qed

lemma round_robin_fair_witness:
  "mset (cursor_calls ''group'' 7 3 3 sample_svc) = mset [0, 1, 2]"
  using round_robin_fair [of 3 "''group''" 7 sample_svc] by (simp add: rr_current_def upt_rec)

text \<open>C17: The keys a request may try are a rearrangement of the provider's enabled keys: nothing is
  dropped, repeated or added, disabled keys never appear, and with the selection first they come in
  the configured order; the database is untouched.\<close>

theorem eligible_keys_complete:
  assumes "GetProvider pid s = Inr p"
  shows "\<exists>keys. fst (EligibleKeys c pid s) = Inr keys \<and>
    mset (map kv_id keys) = mset (map pk_id (filter pk_enabled (key_order pid (db s)))) \<and>
    (pv_key_selection p = KeySelectionFirst \<longrightarrow>
       map kv_id keys = map pk_id (filter pk_enabled (key_order pid (db s)))) \<and>
    db (snd (EligibleKeys c pid s)) = db s"
proof -
  have ids: "map kv_id (filter kv_enabled (ListProviderKeys c pid s)) =
      map pk_id (filter pk_enabled (key_order pid (db s)))"
    by (simp add: ListProviderKeys_def filter_map comp_def)
  obtain keys where k: "fst (EligibleKeys c pid s) = Inr keys"
      "mset keys = mset (filter kv_enabled (ListProviderKeys c pid s))"
    using EligibleKeys_perm [OF assms] by blast
  have "mset (map kv_id keys) = mset (map kv_id (filter kv_enabled (ListProviderKeys c pid s)))"
    by (simp only: mset_map k(2))
  with k(1) ids EligibleKeys_first [OF assms, of c] show ?thesis by auto
qed

lemma eligible_keys_complete_witness:
  "\<exists>keys. fst (EligibleKeys sample_crypto 2 sample_svc) = Inr keys \<and> map kv_id keys = [3]"
proof -
  have p: "GetProvider 2 sample_svc =
      Inr (scanProvider sample_store (sample_provider 2 ''B'' ''anthropic'' ''an'' ''first''))"
    by (simp add: GetProvider_def tbl_find_def) (simp add: sample_rows)
  have "map pk_id (filter pk_enabled (key_order 2 sample_store)) = [3]"
    by (simp add: key_order_def tbl_order_def sample_rows)
  with eligible_keys_complete [OF p, of sample_crypto] show ?thesis
    by (auto simp: scanProvider_def sample_rows key_selection_valid_def enum_defs Let_def)
qed

text \<open>Making a key primary moves it to the front of its provider's list and keeps the other keys
  in their order, and the primary secret is then that key's if it is enabled.\<close>

theorem primary_key_first:
  assumes wf: "wf_store (db s)" and k: "k \<in> set (key_order pid (db s))"
  shows "fst (SetProviderKeyPrimary now pid (pk_id k) s) = Inr () \<and>
    map pk_id (key_order pid (db (snd (SetProviderKeyPrimary now pid (pk_id k) s)))) =
      pk_id k # remove1 (pk_id k) (map pk_id (key_order pid (db s)))"
proof -
  have "fst (SetProviderKeyPrimary now pid (pk_id k) s) = Inr ()"
    using k by (auto simp: SetProviderKeyPrimary_def Let_def split: option.split)
  with primary_order [OF wf, of "pk_id k" pid now] k show ?thesis by simp
qed

lemma primary_key_first_witness:
  "map pk_id (key_order 1 (db (snd (SetProviderKeyPrimary 9 1 2 sample_svc)))) = [2, 1]"
proof -
  have o: "key_order 1 sample_store = [sample_key 1 1 ''Key 1'' ''sa'' 0, sample_key 2 1 ''Key 2'' ''sb'' 1]"
    by (simp add: key_order_def tbl_order_def sample_key_def)
  have "sample_key 2 1 ''Key 2'' ''sb'' 1 \<in> set (key_order 1 (db sample_svc))" by (simp add: o)
  from primary_key_first [OF _ this, of 9] show ?thesis
    by (simp add: sample_wf o) (simp add: sample_key_def)
qed

section \<open>Groups\<close>



text \<open>Reordering a group's members succeeds exactly for the orders that name every member once;
  it then installs that order, and otherwise changes nothing.\<close>

theorem reorder_members_iff:
  assumes "wf_store (db s)" "GetGroup gid s = Inr g"
  shows "if mset ids = mset (map gmv_id (select_members gid (db s)))
    then fst (ReorderGroupMembers now gid ids s) = Inr () \<and>
      map gmv_id (select_members gid (db (snd (ReorderGroupMembers now gid ids s)))) = ids
    else \<exists>msg. ReorderGroupMembers now gid ids s = (Inl (ErrValidation msg), s)"
  using reorder_members [OF assms] reorder_members_rejects [OF assms] by simp

lemma reorder_members_iff_witness:
  "map gmv_id (select_members 1 (db (snd (ReorderGroupMembers 9 1 [2, 1] sample_svc)))) = [2, 1]"
proof -
  have g: "\<exists>g. GetGroup 1 sample_svc = Inr g" by (simp add: GetGroup_def tbl_find_def)
  have "map gmv_id (select_members 1 sample_store) = [1, 2]"
    by (simp add: select_members_ids [OF sample_wf] member_order_def tbl_order_def sample_member_def)
  with g reorder_members_iff [of sample_svc 1 _ "[2, 1]" 9] show ?thesis
    by (auto simp: sample_wf)
qed

section \<open>Prompt rules\<close>

text \<open>C19: The prompts of a request are the enabled rules that claim its group or its model, in list
  order; the global prompt is suppressed by the rule that claims the model when it does not inherit,
  and only without such a rule by the rule that claims the group.\<close>

theorem prompt_resolution:
  assumes "reachable (service_init c) (service_step c parse pw b64) s"
  shows "fst (ResolvePromptRules g m s) =
    (map segment_of (filter (rule_applies g m) (loadPromptRules (db s))),
     suppresses_global g m (loadPromptRules (db s)))"
  using service.reachable_inv [OF assms] by (intro ResolvePromptRules_eq) (simp_all add: svc_ok_def)

lemma prompt_resolution_witness:
  "fst (ResolvePromptRules (Some 1) 2 (New sample_crypto 0 empty_store)) = ([], False)"
proof -
  have "reachable (service_init sample_crypto) (service_step sample_crypto (\<lambda>_. None) undefined id)
      (New sample_crypto 0 empty_store)"
    by (rule start) (auto simp: service_init_def)
  from prompt_resolution [OF this, of "Some 1" 2] show ?thesis
    by (simp add: New_def upgradeLegacyKeyFingerprints_def loadPromptRules_def rule_order_def
        tbl_order_def empty_store_def suppresses_global_def)
qed

text \<open>The list of prompt rules can always be read, and reordering it installs every order that
  names each rule once.\<close>

theorem prompt_rules_reorder:
  assumes ok: "wf_store (db s)" "group_targets_live (db s)"
    and perm: "mset ids = mset (map r_id (rule_order (db s)))"
  shows "\<exists>rules. ListPromptRules (snd (ReorderPromptRules now ids s)) = Inr rules \<and>
    map pr_id rules = ids"
proof -
  let ?s = "snd (ReorderPromptRules now ids s)"
  have "group_targets_live (db ?s)" using ok(2) by (rule live_ReorderPromptRules)
  from ListPromptRules_live [OF this] reorder_rules [OF ok perm, of now] show ?thesis by auto
qed

lemma prompt_rules_reorder_witness:
  "\<exists>rules. ListPromptRules (snd (ReorderPromptRules 9 [2, 1] sample_svc)) = Inr rules \<and>
     map pr_id rules = [2, 1]"
proof (rule prompt_rules_reorder)
  show "mset [2, 1] = mset (map r_id (rule_order (db sample_svc)))"
    by (simp add: rule_order_def tbl_order_def sample_rule_def)
qed (simp_all add: sample_wf group_targets_live_def tbl_exists_def)



section \<open>Key import\<close>



text \<open>A key created without a name gets a name no other key of its provider has, its fingerprint
  was not known for the provider, and it comes last in the provider's order.\<close>

theorem generated_name_fresh:
  assumes wf: "wf_store (db s)" and blank: "trim_space name = []"
    and r: "CreateProviderKey c now pid name secret s = (Inr k, s')"
    and bound: "max_key_number (provider_key_names pid (db s)) < 2 ^ 63 - 1"
  shows "kv_name k \<notin> set (provider_key_names pid (db s)) \<and>
    c_fp c (trim_space secret) \<notin> existing_fps pid (db s) \<and>
    (\<forall>r \<in> set (key_order pid (db s)). pk_sort r < kv_sort k)"
proof -
  let ?m = "max_key_number (provider_key_names pid (db s))"
  let ?row = "\<lambda>enc q. new_key_row pid (nextMonotonicKeyName pid s) enc (c_fp c (trim_space secret)) (q + 1) now"
  let ?mk = "\<lambda>enc. ?row enc (max_sort pid (db s))"
  have "in_int64 (?m + 1)" using bound max_key_number_nonneg [of "provider_key_names pid (db s)"]
    by (simp add: in_int64_def)
  then have fresh: "nextMonotonicKeyName pid s \<notin> set (provider_key_names pid (db s))"
    using next_name_fresh [of "provider_key_names pid (db s)" "?m + 1"] bound
    by (simp add: nextMonotonicKeyName_def)
  from r blank obtain enc where free: "\<not> key_hash_taken pid (c_fp c (trim_space secret)) (db s)"
    and k: "GetProviderKey c (tbl_seq (provider_keys (db s)) + 1)
      (with_db (\<lambda>st. st\<lparr>provider_keys := tbl_insert (?row enc (max_sort pid st)) (provider_keys st)\<rparr>) s) = Inr k"
    by (auto simp: CreateProviderKey_def Let_def split: if_splits sum.splits)
  have ids: "ids_ok pk_id (provider_keys (db s))" using wf by (simp add: wf_store_def wf_keys_def)
  have row: "k = scanProviderKey c (?mk enc (tbl_seq (provider_keys (db s)) + 1))"
    using k tbl_find_insert_new [OF ids, of "?mk enc"] by (simp add: GetProviderKey_def)
  have "pk_sort r \<le> max_sort pid (db s)" if "r \<in> set (key_order pid (db s))" for r
    using that unfolding max_sort_def key_order_def by (intro tbl_max_ge) auto
  with fresh free row show ?thesis by (force simp: key_hash_taken_iff scanProviderKey_def)
qed

lemma generated_name_fresh_witness:
  "\<exists>k s'. CreateProviderKey sample_crypto 9 2 '''' ''new'' sample_svc = (Inr k, s') \<and>
     kv_name k \<notin> set (provider_key_names 2 sample_store)"
proof -
  have names: "provider_key_names 2 sample_store = [''Key 1'']"
    by (simp add: provider_key_names_def sample_key_def)
  have one: "''1'' = nat_to_dec 1" by (simp add: nat_to_dec.simps digit_char_def char_of_def bit_iff_odd)
  have "key_number ''Key 1'' = Some 1"
    using key_number_key_name [of 1] one by (simp add: key_name_def int_to_dec_def)
  then have m: "max_key_number (provider_key_names 2 (db sample_svc)) < 2 ^ 63 - 1"
    by (simp add: names max_key_number_def)
  have trim: "trim_space ''new'' = ''new''"
    by (simp add: trim_space_def trim_func_def trim_left_def trim_right_def is_space_def code_of_def)
  have "\<exists>k s'. CreateProviderKey sample_crypto 9 2 '''' ''new'' sample_svc = (Inr k, s')"
    using tbl_find_insert_new [of pk_id "provider_keys sample_store"
        "new_key_row 2 (nextMonotonicKeyName 2 sample_svc) ''new'' ''new'' (max_sort 2 sample_store + 1) 9"]
      sample_wf
    by (simp add: CreateProviderKey_def Let_def trim sample_crypto_def tbl_exists_def sample_rows
        key_hash_taken_def GetProviderKey_def wf_store_def wf_keys_def)
  with generated_name_fresh [of sample_svc "''''", OF _ _ _ m] show ?thesis
    using sample_wf by fastforce
qed

section \<open>Secrets, passwords and sessions\<close>

text \<open>A sealed provider secret opens to itself under the same 32-byte master key, given that
  AES-GCM opens what it sealed and base64 decodes what it encoded; without the version prefix nothing
  opens.\<close>

theorem seal_roundtrip:
  assumes "\<And>n m p. gcm_open c m n (gcm_seal c m n p) = Some p"
    and "\<And>x. b64_decode c (b64_encode c x) = Some x"
    and "length nonce = nonce_size c" and "length master = 32"
  shows "bind_result (Encrypt c nonce master p) (Decrypt c master) = Inr p \<and>
    (\<not> has_prefix ''v1:'' sealed \<longrightarrow> Decrypt c master sealed = Inl (OtherErr ''decrypt ciphertext''))"
  using Decrypt_Encrypt [OF assms] assms(4)
  by (auto simp: Decrypt_def has_prefix_def keyPrefix_def split: option.split)

lemma seal_roundtrip_witness:
  "bind_result (Encrypt \<lparr>nonce_size = 1, gcm_seal = (\<lambda>m n p. p), gcm_open = (\<lambda>m n p. Some p),
       b64_encode = id, b64_decode = Some, hmac_sha256 = (\<lambda>m s. s)\<rparr> ''n'' (replicate 32 CHR ''k'') ''sk'')
     (Decrypt \<lparr>nonce_size = 1, gcm_seal = (\<lambda>m n p. p), gcm_open = (\<lambda>m n p. Some p),
       b64_encode = id, b64_decode = Some, hmac_sha256 = (\<lambda>m s. s)\<rparr> (replicate 32 CHR ''k'')) = Inr ''sk''"
  using seal_roundtrip [of "\<lparr>nonce_size = 1, gcm_seal = (\<lambda>m n p. p), gcm_open = (\<lambda>m n p. Some p),
       b64_encode = id, b64_decode = Some, hmac_sha256 = (\<lambda>m s. s)\<rparr>" "''n''" "replicate 32 CHR ''k''" "''sk''"]
  by simp

text \<open>The masked form of a secret never shows more than seven of its bytes: two secrets of more
  than twelve bytes with the same first three and last four bytes have the same mask, and a mask has
  at most ten bytes.\<close>

theorem mask_hides:
  assumes "12 < length (trim_space a)" "12 < length (trim_space b)"
    and "take 3 (trim_space a) = take 3 (trim_space b)"
    and "last_n 4 (trim_space a) = last_n 4 (trim_space b)"
  shows "MaskSecret a = MaskSecret b \<and> length (MaskSecret a) \<le> 10"
  using MaskSecret_depends [OF assms] MaskSecret_length by simp

lemma mask_hides_witness:
  "MaskSecret ''sk-aaaaaaaaawxyz'' = MaskSecret ''sk-bbbbbbbbbwxyz''"
proof -
  have "trim_space ''sk-aaaaaaaaawxyz'' = ''sk-aaaaaaaaawxyz''" "trim_space ''sk-bbbbbbbbbwxyz'' = ''sk-bbbbbbbbbwxyz''"
    by (simp_all add: trim_space_def trim_func_def trim_left_def trim_right_def is_space_def code_of_def)
  with mask_hides [of "''sk-aaaaaaaaawxyz''" "''sk-bbbbbbbbbwxyz''"] show ?thesis
    by (simp add: last_n_def)
qed





text \<open>C25: A session made by CreateSession is accepted exactly until its expiry, at which point the
  check also removes it; creating a session removes every session that expired at least a second ago
  and none that has at least a second to live. (Within a second the comparison of the timestamps'
  texts decides, see \<open>text_le\<close>.)\<close>

theorem session_lifetime:
  assumes r: "CreateSession c b64 now now' raw ttl s = (Inr token, s')" and ttl: "0 < ttl" "token \<noteq> []"
  shows "(fst (ValidateSession c t token s') \<longleftrightarrow> t < now + ttl) \<and>
    (now + ttl \<le> t \<longrightarrow> \<not> fst (ValidateSession c t2 token (snd (ValidateSession c t token s')))) \<and>
    (\<forall>x \<in> set (sessions (db s)). now' + nanos_per_second \<le> ss_expires x \<longrightarrow> x \<in> set (sessions (db s'))) \<and>
    (\<forall>x \<in> set (sessions (db s)). ss_expires x + nanos_per_second \<le> now' \<and> ss_hash x \<noteq> HashToken c token \<longrightarrow>
       x \<notin> set (sessions (db s')))"
proof -
  let ?h = "HashToken c token" and ?old = "purge_sessions now' (sessions (db s))"
  from r ttl have s': "token = b64 raw" "\<not> list_ex (\<lambda>r. ss_hash r = ?h) ?old"
      "sessions (db s') = ?old @ [\<lparr>ss_hash = ?h, ss_created = now, ss_expires = now + ttl\<rparr>]"
    by (auto simp: CreateSession_def Let_def split: if_splits)
  have none: "find (\<lambda>r. ss_hash r = ?h) ?old = None" using s'(2) by (auto simp: find_None_iff list_ex_iff)
  have found: "find (\<lambda>r. ss_hash r = ?h) (?old @ ys) = find (\<lambda>r. ss_hash r = ?h) ys" for ys
    by (rule find_append_none [OF none])
  have v: "ValidateSession c t token s' =
      (if t < now + ttl then (True, s')
       else (False, with_db (set_sessions (delete_session ?h)) s'))" for t
    using ttl s'(3) found by (simp add: ValidateSession_def)
  have gone: "find (\<lambda>r. ss_hash r = ?h) (delete_session ?h xs) = None" for xs
    by (auto simp: delete_session_def find_None_iff)
  have "\<not> fst (ValidateSession c t2 token (snd (ValidateSession c t token s')))" if "now + ttl \<le> t"
    using that ttl gone by (simp add: v) (simp add: ValidateSession_def)
  moreover have "x \<in> set (sessions (db s'))"
    if "x \<in> set (sessions (db s))" "now' + nanos_per_second \<le> ss_expires x" for x
    using that text_not_le_apart by (simp add: s'(3) purge_sessions_def)
  moreover have "x \<notin> set (sessions (db s'))"
    if "ss_expires x + nanos_per_second \<le> now'" "ss_hash x \<noteq> ?h" for x
    using that text_le_apart by (auto simp: s'(3) purge_sessions_def)
  ultimately show ?thesis by (auto simp: v)
qed

lemma session_lifetime_witness:
  "\<exists>s'. CreateSession sample_passwords id 0 0 ''tok'' 5 sample_svc = (Inr ''tok'', s') \<and>
     fst (ValidateSession sample_passwords 4 ''tok'' s') \<and> \<not> fst (ValidateSession sample_passwords 5 ''tok'' s')"
proof -
  obtain s' where c: "CreateSession sample_passwords id 0 0 ''tok'' 5 sample_svc = (Inr ''tok'', s')"
    by (simp add: CreateSession_def Let_def purge_sessions_def)
  from session_lifetime [OF c, of 4] session_lifetime [OF c, of 5] c show ?thesis by auto
qed

text \<open>Two instants less than a second apart may compare the wrong way round as texts: the texts
  drop trailing zeros, so an expiry of 0.1 seconds compares as not later than second zero, and
  creating a session at second zero removes a session that has a tenth of a second to live.\<close>

theorem text_order_not_chronological:
  "(0 :: time) < 100000000 \<and> text_less 100000000 0 \<and>
   purge_sessions 0 [\<lparr>ss_hash = h, ss_created = c, ss_expires = 100000000\<rparr>] = []"
proof -
  have "CHR ''.'' # x < ''Z''" for x by (simp add: less_char_def)
  then have "text_less 100000000 0"
    by (simp add: text_less_def text_key_def nanos_per_second_def frac_text_def less_prod_def)
  moreover from this have "text_le 100000000 0" by (auto simp: text_less_def text_le_def)
  ultimately show ?thesis by (simp add: purge_sessions_def)
qed

text \<open>Changing the administrator's password needs the current one, ends every session, and makes
  the new password the only derivation that is accepted.\<close>

theorem change_password:
  assumes "\<And>x. CHR ''$'' \<notin> set (std_encode c x)" "\<And>x. std_decode c (std_encode c x) = Some x"
    and "length salt = 16" "\<And>p t m th. length (argon_idkey c p salt t m th argonKeyLen) = 32"
    and r: "ChangeAdminPassword c salt now current next s = (Inr (), s')"
  shows "CheckAdminPassword c current s \<and> sessions (db s') = [] \<and> 12 \<le> rune_count next \<and>
    (CheckAdminPassword c pw s' \<longleftrightarrow>
      argon_idkey c pw salt argonTime argonMemory argonThreads argonKeyLen =
      argon_idkey c next salt argonTime argonMemory argonThreads argonKeyLen)"
proof -
  from r have cur: "CheckAdminPassword c current s" and set: "SetAdminPassword c salt now next s = (Inr (), s')"
    by (simp_all add: ChangeAdminPassword_def split: if_splits)
  from set have len: "12 \<le> rune_count next" by (simp add: SetAdminPassword_def split: if_splits)
  from set obtain h where h: "HashPassword c salt next = Inr h"
    by (simp add: SetAdminPassword_def split: if_splits sum.splits)
  from set len have s': "sessions (db s') = []" "\<exists>a. admin (db s') = Some a \<and> a_hash a = h"
    by (auto simp: SetAdminPassword_def h split: option.split)
  then have "CheckAdminPassword c pw s' = CheckPassword c pw h" by (auto simp: CheckAdminPassword_def)
  with cur len s'(1) HashPassword_Check [OF assms(1-4) h, of pw] show ?thesis by simp
qed

lemma change_password_witness:
  "\<exists>s s'. ChangeAdminPassword sample_passwords sample_salt 2 ''first password'' ''second password'' s =
     (Inr (), s') \<and> sessions (db s') = [] \<and> CheckAdminPassword sample_passwords ''second password'' s'"
proof -
  let ?s = "snd (InitializeAdmin sample_passwords sample_salt 1 1 ''first password'' sample_svc)"
  have len: "\<not> rune_count ''first password'' < 12" "\<not> rune_count ''second password'' < 12"
    by (simp_all add: rune_count_def code_of_def)
  obtain h where h: "HashPassword sample_passwords sample_salt ''first password'' = Inr h"
    by (simp add: HashPassword_def)
  obtain h2 where h2: "HashPassword sample_passwords sample_salt ''second password'' = Inr h2"
    by (simp add: HashPassword_def)
  have ini: "admin (db ?s) = Some \<lparr>a_hash = h, a_created = 1, a_updated = 1\<rparr>"
    by (simp add: InitializeAdmin_def h len)
  have "CheckPassword sample_passwords ''first password'' h"
    using HashPassword_Check [OF sample_passwords_laws(1,2) sample_salt_length sample_passwords_laws(3) h] by simp
  then have cur: "CheckAdminPassword sample_passwords ''first password'' ?s"
    by (simp add: CheckAdminPassword_def ini)
  obtain s' where r: "ChangeAdminPassword sample_passwords sample_salt 2 ''first password'' ''second password'' ?s = (Inr (), s')"
    by (simp add: ChangeAdminPassword_def cur SetAdminPassword_def len h2)
  from change_password [OF sample_passwords_laws(1,2) sample_salt_length sample_passwords_laws(3) r, of "''second password''"] r
  show ?thesis by blast
qed

end
