(* ===== verification/Stream_Base.thy ===== *)
theory Stream_Base
  imports Sse
begin

text \<open>
  What the stream translators share: emission of frames under a translator state, the decoding of
  optional lists, and the contract of a stream protocol. A protocol is an automaton over frames; a
  translator keeps it when every step takes a related automaton state to a related one and its
  Finish leaves the automaton in a final state.
\<close>

section \<open>Emission\<close>

type_synonym 's emit = "'s \<Rightarrow> frame list \<times> 's"

definition emit_seq :: "'s emit \<Rightarrow> 's emit \<Rightarrow> 's emit" where
  "emit_seq f g s = (let (a, s1) = f s; (b, s2) = g s1 in (a @ b, s2))"

definition emit_none :: "'s emit" where "emit_none s = ([], s)"

lemma emit_seq_simps [simp]:
  "fst (emit_seq f g s) = fst (f s) @ fst (g (snd (f s)))"
  "snd (emit_seq f g s) = snd (g (snd (f s)))"
  by (simp_all add: emit_seq_def split: prod.split)

fun emit_all :: "'s emit list \<Rightarrow> 's emit" where
  "emit_all [] = emit_none"
| "emit_all (f # fs) = emit_seq f (emit_all fs)"

section \<open>Protocols\<close>

type_synonym 'q acceptor = "frame \<Rightarrow> 'q \<Rightarrow> 'q option"

fun accept_all :: "'q acceptor \<Rightarrow> frame list \<Rightarrow> 'q \<Rightarrow> 'q option" where
  "accept_all acc [] q = Some q"
| "accept_all acc (f # fs) q = (case acc f q of None \<Rightarrow> None | Some q' \<Rightarrow> accept_all acc fs q')"

lemma accept_all_append:
  "accept_all acc (fs @ gs) q = (case accept_all acc fs q of None \<Rightarrow> None | Some q' \<Rightarrow> accept_all acc gs q')"
  by (induction fs arbitrary: q) (auto split: option.split)

text \<open>A step of a translator keeps the automaton under a relation of their states.\<close>

definition keeps :: "'q acceptor \<Rightarrow> ('s \<Rightarrow> 'q \<Rightarrow> bool) \<Rightarrow> ('s \<Rightarrow> 'q \<Rightarrow> bool) \<Rightarrow> 's emit \<Rightarrow> bool" where
  "keeps acc P Q f \<longleftrightarrow> (\<forall>s q. P s q \<longrightarrow>
     (\<exists>q'. accept_all acc (fst (f s)) q = Some q' \<and> Q (snd (f s)) q'))"

lemma keepsI:
  "(\<And>s q. P s q \<Longrightarrow> \<exists>q'. accept_all acc (fst (f s)) q = Some q' \<and> Q (snd (f s)) q') \<Longrightarrow> keeps acc P Q f"
  by (simp add: keeps_def)

lemma keepsD:
  "keeps acc P Q f \<Longrightarrow> P s q \<Longrightarrow> \<exists>q'. accept_all acc (fst (f s)) q = Some q' \<and> Q (snd (f s)) q'"
  by (simp add: keeps_def)

lemma keeps_seq [intro]:
  assumes "keeps acc P Q f" "keeps acc Q R g"
  shows "keeps acc P R (emit_seq f g)"
proof (rule keepsI)
  fix s q assume "P s q"
  with assms(1) obtain q1 where 1: "accept_all acc (fst (f s)) q = Some q1" "Q (snd (f s)) q1"
    by (blast dest: keepsD)
  with assms(2) obtain q2 where 2: "accept_all acc (fst (g (snd (f s)))) q1 = Some q2"
      "R (snd (g (snd (f s)))) q2"
    by (blast dest: keepsD)
  show "\<exists>q'. accept_all acc (fst (emit_seq f g s)) q = Some q' \<and> R (snd (emit_seq f g s)) q'"
    using 1 2 by (auto simp: emit_seq_def accept_all_append split: prod.split)
qed

lemma keeps_none [simp, intro]: "keeps acc P P emit_none"
  by (simp add: keeps_def emit_none_def)

lemma keeps_all:
  "(\<And>f. f \<in> set fs \<Longrightarrow> keeps acc P P f) \<Longrightarrow> keeps acc P P (emit_all fs)"
  by (induction fs) auto

lemma keeps_weaken:
  "keeps acc P Q f \<Longrightarrow> (\<And>s q. P' s q \<Longrightarrow> P s q) \<Longrightarrow> (\<And>s q. Q s q \<Longrightarrow> Q' s q) \<Longrightarrow> keeps acc P' Q' f"
  unfolding keeps_def by blast

lemma keeps_pre:
  "keeps acc P Q f \<Longrightarrow> (\<And>s q. P' s q \<Longrightarrow> P (g s) q) \<Longrightarrow> keeps acc P' Q (\<lambda>s. f (g s))"
  unfolding keeps_def by blast

lemma keeps_conj:
  "keeps acc P Q f \<Longrightarrow> (\<And>s. A s \<Longrightarrow> B (snd (f s))) \<Longrightarrow>
    keeps acc (\<lambda>s q. P s q \<and> A s) (\<lambda>s q. Q s q \<and> B s) f"
  unfolding keeps_def by blast

lemma keeps_silent: "(\<And>s q. P s q \<Longrightarrow> Q (g s) q) \<Longrightarrow> keeps acc P Q (\<lambda>s. ([], g s))"
  by (simp add: keeps_def)

lemma keeps_if:
  "(\<And>s. keeps acc (\<lambda>t q. P t q \<and> t = s \<and> b s) Q f) \<Longrightarrow>
   (\<And>s. keeps acc (\<lambda>t q. P t q \<and> t = s \<and> \<not> b s) Q g) \<Longrightarrow> keeps acc P Q (\<lambda>s. if b s then f s else g s)"
  unfolding keeps_def by auto

text \<open>A property of the translator state that a step keeps.\<close>

definition preserves :: "('s \<Rightarrow> bool) \<Rightarrow> 's emit \<Rightarrow> bool" where
  "preserves P f \<longleftrightarrow> (\<forall>s. P s \<longrightarrow> P (snd (f s)))"

lemma preserves_seq [intro]: "preserves P f \<Longrightarrow> preserves P g \<Longrightarrow> preserves P (emit_seq f g)"
  by (simp add: preserves_def)

lemma preserves_none [simp, intro]: "preserves P emit_none"
  by (simp add: preserves_def emit_none_def)

lemma preserves_all: "(\<And>f. f \<in> set fs \<Longrightarrow> preserves P f) \<Longrightarrow> preserves P (emit_all fs)"
  by (induction fs) auto

text \<open>A whole stream: feed every event, then finish.\<close>

definition run_stream :: "('e \<Rightarrow> 's emit) \<Rightarrow> 's emit \<Rightarrow> 'e list \<Rightarrow> 's \<Rightarrow> frame list" where
  "run_stream feed finish es s = fst (emit_seq (emit_all (map feed es)) finish s)"

lemma run_stream_Nil: "run_stream feed finish [] s = fst (finish s)"
  by (simp add: run_stream_def emit_seq_def emit_none_def split: prod.split)

lemma run_stream_Cons:
  "run_stream feed finish (e # es) s = fst (feed e s) @ run_stream feed finish es (snd (feed e s))"
  by (simp add: run_stream_def emit_seq_def split: prod.split)

locale stream_protocol =
  fixes feed :: "'e \<Rightarrow> 's emit"
    and finish :: "'s emit"
    and acc :: "'q acceptor"
    and rel :: "'s \<Rightarrow> 'q \<Rightarrow> bool"
    and live :: "'s \<Rightarrow> bool"
    and final :: "'q \<Rightarrow> bool"
  assumes feed_keeps: "keeps acc rel rel (feed e)"
    and feed_live: "live s \<Longrightarrow> live (snd (feed e s))"
    and finish_final: "keeps acc (\<lambda>s q. rel s q \<and> live s) (\<lambda>_. final) finish"
begin

lemma stream_accepted:
  assumes "rel s q" "live s"
  shows "\<exists>q'. accept_all acc (run_stream feed finish es s) q = Some q' \<and> final q'"
  using assms
proof (induction es arbitrary: s q)
  case Nil
  then show ?case using keepsD [OF finish_final, of s q] by (simp add: run_stream_Nil)
next
  case (Cons e es)
  obtain q1 where "accept_all acc (fst (feed e s)) q = Some q1" "rel (snd (feed e s)) q1"
    using keepsD [OF feed_keeps Cons.prems(1)] by blast
  moreover from this Cons obtain q2 where
      "accept_all acc (run_stream feed finish es (snd (feed e s))) q1 = Some q2" "final q2"
    using feed_live by blast
  ultimately show ?case by (simp add: run_stream_Cons accept_all_append)
qed

lemma prefix_accepted:
  "rel s q \<Longrightarrow> \<exists>q'. accept_all acc (fst (emit_all (map feed es) s)) q = Some q' \<and>
    rel (snd (emit_all (map feed es) s)) q'"
  using keepsD [OF keeps_all [of "map feed es"]] feed_keeps by fastforce

end

section \<open>The chat completion stream\<close>

text \<open>
  chunk, delta and finalChunk, which both translators to chat share: the identity of the stream,
  whether the role was announced, and the usage the final chunk reports.
\<close>

record chat_head =
  hd_model :: string
  hd_id :: string
  hd_created :: int

definition tool_delta :: "int \<Rightarrow> obj \<Rightarrow> json" where
  "tool_delta idx kvs = JObj [(''tool_calls'', JArr [JObj ((''index'', JInt idx) # kvs)])]"

definition with_role :: "bool \<Rightarrow> obj \<Rightarrow> obj" where
  "with_role sent delta = (if sent then delta else mset_field ''role'' (JStr ''assistant'') delta)"

definition chat_frame :: "chat_head \<Rightarrow> obj \<Rightarrow> json \<Rightarrow> obj \<Rightarrow> frame" where
  "chat_frame h delta finish extra = DataFrame (JObj ([(''id'', JStr (hd_id h)),
     (''object'', JStr ''chat.completion.chunk''), (''created'', JInt (hd_created h)),
     (''model'', JStr (hd_model h)),
     (''choices'', JArr [JObj [(''index'', JInt 0), (''delta'', JObj delta), (''finish_reason'', finish)]])]
     @ extra))"

definition opt_int :: "int option \<Rightarrow> json" where
  "opt_int v = (case v of None \<Rightarrow> JNull | Some i \<Rightarrow> JInt i)"

definition usage_fields :: "int option \<Rightarrow> int option \<Rightarrow> obj" where
  "usage_fields prompt completion =
     (if prompt = None \<and> completion = None then []
      else [(''usage'', JObj [(''prompt_tokens'', opt_int prompt), (''completion_tokens'', opt_int completion),
        (''total_tokens'', case (prompt, completion) of
            (Some p, Some c) \<Rightarrow> JInt (wrap64 (p + c)) | _ \<Rightarrow> JNull)])])"

text \<open>What a client sees of a chunk: its delta and its finish reason.\<close>

definition first_choice :: "json \<Rightarrow> obj" where
  "first_choice v = (case as_obj v of None \<Rightarrow> [] | Some kvs \<Rightarrow>
     (case as_arr (mget ''choices'' kvs) of Some (c # _) \<Rightarrow> (case as_obj c of None \<Rightarrow> [] | Some m \<Rightarrow> m)
      | _ \<Rightarrow> []))"

definition delta_of :: "json \<Rightarrow> obj" where
  "delta_of v = (case as_obj (mget ''delta'' (first_choice v)) of None \<Rightarrow> [] | Some m \<Rightarrow> m)"

definition finish_of :: "json \<Rightarrow> json" where
  "finish_of v = mget ''finish_reason'' (first_choice v)"

definition frame_json :: "frame \<Rightarrow> json" where
  "frame_json f = (case f of DataFrame v \<Rightarrow> v | EventFrame _ v \<Rightarrow> v | DoneFrame \<Rightarrow> JNull)"

lemma chat_frame_choice:
  assumes "\<forall>kv \<in> set extra. fst kv \<noteq> ''choices''"
  shows "first_choice (frame_json (chat_frame h delta fin extra)) =
      [(''index'', JInt 0), (''delta'', JObj delta), (''finish_reason'', fin)]"
proof -
  have "map_of (rev extra) ''choices'' = None"
    using assms by (auto simp: map_of_eq_None_iff)
  then show ?thesis
    by (simp add: first_choice_def chat_frame_def frame_json_def mget_def map_add_def)
qed

lemma usage_fields_choices [simp]: "\<forall>kv \<in> set (usage_fields p c). fst kv \<noteq> ''choices''"
  by (simp add: usage_fields_def)

lemma chat_frame_views [simp]:
  "\<forall>kv \<in> set extra. fst kv \<noteq> ''choices'' \<Longrightarrow> delta_of (frame_json (chat_frame h delta fin extra)) = delta"
  "\<forall>kv \<in> set extra. fst kv \<noteq> ''choices'' \<Longrightarrow> finish_of (frame_json (chat_frame h delta fin extra)) = fin"
  by (simp_all add: delta_of_def finish_of_def chat_frame_choice mget_Cons)

text \<open>
  The protocol a client of a chat stream relies on: chunks with no finish reason, one chunk with a
  finish reason, the [DONE] marker, and nothing after it.
\<close>

datatype chat_phase = Streaming | Finishing | Ended

definition chat_acc :: "chat_phase acceptor" where
  "chat_acc f q = (case f of
     DataFrame v \<Rightarrow>
       if q \<noteq> Streaming then None
       else (case finish_of v of JNull \<Rightarrow> Some Streaming | JStr r \<Rightarrow> Some Finishing | _ \<Rightarrow> None)
   | DoneFrame \<Rightarrow> if q = Finishing then Some Ended else None
   | EventFrame _ _ \<Rightarrow> None)"

lemma chat_acc_chunk:
  "\<forall>kv \<in> set extra. fst kv \<noteq> ''choices'' \<Longrightarrow>
    chat_acc (chat_frame h delta fin extra) Streaming =
      (case fin of JNull \<Rightarrow> Some Streaming | JStr r \<Rightarrow> Some Finishing | _ \<Rightarrow> None)"
  using chat_frame_views(2) [of extra h delta fin]
  by (simp add: chat_acc_def chat_frame_def frame_json_def)

lemma chat_acc_done [simp]: "chat_acc DoneFrame Finishing = Some Ended"
  by (simp add: chat_acc_def)

text \<open>The text a client assembles.\<close>

definition content_of :: "frame \<Rightarrow> string" where
  "content_of f = stringOf (mget ''content'' (delta_of (frame_json f)))"

definition stream_content :: "frame list \<Rightarrow> string" where
  "stream_content fs = concat (map content_of fs)"

lemma stream_content_simps [simp]:
  "stream_content [] = []" "stream_content (f # fs) = content_of f @ stream_content fs"
  "stream_content (fs @ gs) = stream_content fs @ stream_content gs"
  by (simp_all add: stream_content_def)

lemma content_of_simps [simp]:
  "\<forall>kv \<in> set extra. fst kv \<noteq> ''choices'' \<Longrightarrow>
     content_of (chat_frame h delta fin extra) = stringOf (mget ''content'' delta)"
  "content_of DoneFrame = ''''"
  by (simp add: content_of_def)
     (simp add: content_of_def frame_json_def delta_of_def first_choice_def)

lemma with_role_content [simp]: "mget ''content'' (with_role b delta) = mget ''content'' delta"
  by (simp add: with_role_def)

end
