(* ===== verification/Stream_Anthropic.thy ===== *)
theory Stream_Anthropic
  imports Stream_Base
begin

text \<open>
  internal/provider/stream_anthropic.go: the two translators between an Anthropic event stream and
  a stream of chat completion chunks, each a state with a step per event and a Finish. Decoding an
  event is a function of its data; a fresh random identifier is the next element of the sequence
  \<open>rid\<close>, counted in the state.
\<close>

section \<open>Decoding\<close>

record ant_block =
  ab_type :: string
  ab_id :: string
  ab_name :: string

record ant_delta =
  ad_type :: string
  ad_text :: string
  ad_partial :: string
  ad_stop :: "string option"

record anthropicEvent =
  ae_type :: string
  ae_index :: "int option"
  ae_message :: "(string \<times> (int option) option) option"
  ae_block :: "ant_block option"
  ae_delta :: "ant_delta option"
  ae_usage :: "(int option) option"
  ae_error :: "string option"

text \<open>A pointer to a struct: absent, or decoded by the function; a failure anywhere is a failure.\<close>

definition ptr_field :: "string \<Rightarrow> (obj \<Rightarrow> 'a option) \<Rightarrow> obj \<Rightarrow> 'a option option" where
  "ptr_field k f kvs = Option.bind (objp_field k kvs) (\<lambda>p. case p of
     None \<Rightarrow> Some None | Some o1 \<Rightarrow> map_option Some (f o1))"

definition int64_pair :: "string \<Rightarrow> string \<Rightarrow> obj \<Rightarrow> (int option \<times> int option) option" where
  "int64_pair a b kvs =
     Option.bind (intp_field a kvs) (\<lambda>x. map_option (Pair x) (intp_field b kvs))"

definition decode_message :: "obj \<Rightarrow> (string \<times> (int option) option) option" where
  "decode_message kvs =
     Option.bind (str_field ''model'' kvs) (\<lambda>m.
     Option.bind (ptr_field ''usage'' (int64_pair ''input_tokens'' ''output_tokens'') kvs) (\<lambda>u.
       Some (m, map_option fst u)))"

definition decode_block :: "obj \<Rightarrow> ant_block option" where
  "decode_block kvs =
     Option.bind (str_field ''type'' kvs) (\<lambda>t.
     Option.bind (str_field ''id'' kvs) (\<lambda>i.
     Option.bind (str_field ''name'' kvs) (\<lambda>n.
       Some \<lparr>ab_type = t, ab_id = i, ab_name = n\<rparr>)))"

definition decode_delta :: "obj \<Rightarrow> ant_delta option" where
  "decode_delta kvs =
     Option.bind (str_field ''type'' kvs) (\<lambda>t.
     Option.bind (str_field ''text'' kvs) (\<lambda>x.
     Option.bind (str_field ''partial_json'' kvs) (\<lambda>p.
     Option.bind (strp_field ''stop_reason'' kvs) (\<lambda>s.
       Some \<lparr>ad_type = t, ad_text = x, ad_partial = p, ad_stop = s\<rparr>))))"

definition decode_anthropicEvent :: "body \<Rightarrow> anthropicEvent option" where
  "decode_anthropicEvent b =
     Option.bind (body_obj b) (\<lambda>kvs.
     Option.bind (str_field ''type'' kvs) (\<lambda>t.
     Option.bind (intp_field ''index'' kvs) (\<lambda>i.
     Option.bind (ptr_field ''message'' decode_message kvs) (\<lambda>m.
     Option.bind (ptr_field ''content_block'' decode_block kvs) (\<lambda>cb.
     Option.bind (ptr_field ''delta'' decode_delta kvs) (\<lambda>d.
     Option.bind (ptr_field ''usage'' (intp_field ''output_tokens'') kvs) (\<lambda>u.
     Option.bind (ptr_field ''error'' (str_field ''message'') kvs) (\<lambda>e.
       Some \<lparr>ae_type = t, ae_index = i, ae_message = m, ae_block = cb, ae_delta = d,
         ae_usage = u, ae_error = e\<rparr>))))))))"

definition anthropicStopToChat :: "string \<Rightarrow> string" where
  "anthropicStopToChat stop =
     (if stop = ''max_tokens'' then ''length'' else if stop = ''tool_use'' then ''tool_calls''
      else if stop = ''refusal'' then ''content_filter'' else ''stop'')"

definition chatFinishToAnthropic :: "string \<Rightarrow> string" where
  "chatFinishToAnthropic finish =
     (if finish = ''length'' then ''max_tokens''
      else if finish = ''tool_calls'' \<or> finish = ''function_call'' then ''tool_use''
      else if finish = ''content_filter'' then ''refusal'' else ''end_turn'')"

section \<open>Anthropic to chat\<close>

record AnthropicToChatTranslator =
  ac_head :: chat_head
  ac_roleSent :: bool
  ac_toolIndex :: int
  ac_finishReason :: string
  ac_toolByBlock :: "int \<rightharpoonup> int"
  ac_toolStarted :: "int set"
  ac_promptTokens :: "int option"
  ac_completionTokens :: "int option"
  ac_finished :: bool
  ac_rand :: nat

definition NewAnthropicToChatTranslator :: "(nat \<Rightarrow> string) \<Rightarrow> int \<Rightarrow> string \<Rightarrow> AnthropicToChatTranslator" where
  "NewAnthropicToChatTranslator rid now model = \<lparr>
     ac_head = \<lparr>hd_model = model, hd_id = ''chatcmpl-'' @ rid 0, hd_created = now\<rparr>,
     ac_roleSent = False, ac_toolIndex = 0, ac_finishReason = '''', ac_toolByBlock = Map.empty,
     ac_toolStarted = {}, ac_promptTokens = None, ac_completionTokens = None, ac_finished = False,
     ac_rand = 1\<rparr>"

definition ac_chunk :: "obj \<Rightarrow> json \<Rightarrow> AnthropicToChatTranslator emit" where
  "ac_chunk delta fin t =
     ([chat_frame (ac_head t) (with_role (ac_roleSent t) delta) fin []], t\<lparr>ac_roleSent := True\<rparr>)"

definition ac_terminal :: "AnthropicToChatTranslator emit" where
  "ac_terminal t =
     (let reason = (if ac_finishReason t = ''''
            then (if 0 < ac_toolIndex t then ''tool_calls'' else ''stop'') else ac_finishReason t)
      in ([chat_frame (ac_head t) [] (JStr reason) (usage_fields (ac_promptTokens t) (ac_completionTokens t)),
           DoneFrame], t\<lparr>ac_finished := True\<rparr>))"

definition ac_Finish :: "AnthropicToChatTranslator emit" where
  "ac_Finish t = (if ac_finished t then ([], t) else ac_terminal t)"

text \<open>The cases of the event switch.\<close>

definition ac_message_start :: "anthropicEvent \<Rightarrow> AnthropicToChatTranslator emit" where
  "ac_message_start evt t =
     (case ae_message evt of
        None \<Rightarrow> ([], t)
      | Some (model, usage) \<Rightarrow>
          let t1 = (if hd_model (ac_head t) = '''' \<and> model \<noteq> ''''
                then t\<lparr>ac_head := (ac_head t)\<lparr>hd_model := model\<rparr>\<rparr> else t);
              t2 = (case usage of None \<Rightarrow> t1 | Some input \<Rightarrow> t1\<lparr>ac_promptTokens := input\<rparr>)
          in ([], t2))"

definition ac_block_index :: "anthropicEvent \<Rightarrow> int" where
  "ac_block_index evt = (case ae_index evt of None \<Rightarrow> - 1 | Some i \<Rightarrow> i)"

text \<open>The index of a starting tool call and the state that knows it.\<close>

definition ac_tool_slot :: "int \<Rightarrow> AnthropicToChatTranslator \<Rightarrow> int \<times> AnthropicToChatTranslator" where
  "ac_tool_slot blockIndex t =
     (if 0 \<le> blockIndex
      then (case ac_toolByBlock t blockIndex of
          Some known \<Rightarrow> (known, t)
        | None \<Rightarrow> (ac_toolIndex t, t\<lparr>ac_toolByBlock := (ac_toolByBlock t)(blockIndex \<mapsto> ac_toolIndex t),
              ac_toolIndex := ac_toolIndex t + 1\<rparr>))
      else (ac_toolIndex t, t\<lparr>ac_toolIndex := ac_toolIndex t + 1\<rparr>))"

definition fresh_call :: "(nat \<Rightarrow> string) \<Rightarrow> AnthropicToChatTranslator \<Rightarrow> string \<times> AnthropicToChatTranslator" where
  "fresh_call rid t = (''call_'' @ rid (ac_rand t), t\<lparr>ac_rand := ac_rand t + 1\<rparr>)"

definition tool_start :: "int \<Rightarrow> string \<Rightarrow> string \<Rightarrow> obj" where
  "tool_start idx callID name = [(''tool_calls'', JArr [JObj [(''index'', JInt idx), (''id'', JStr callID),
     (''type'', JStr ''function''),
     (''function'', JObj [(''name'', JStr name), (''arguments'', JStr '''')])]])]"

definition tool_args :: "int \<Rightarrow> string \<Rightarrow> obj" where
  "tool_args idx args = [(''tool_calls'', JArr [JObj [(''index'', JInt idx),
     (''function'', JObj [(''arguments'', JStr args)])]])]"

definition ac_block_start :: "(nat \<Rightarrow> string) \<Rightarrow> anthropicEvent \<Rightarrow> AnthropicToChatTranslator emit" where
  "ac_block_start rid evt t =
     (case ae_block evt of
        None \<Rightarrow> ([], t)
      | Some cb \<Rightarrow>
          if ab_type cb \<noteq> ''tool_use'' then ([], t)
          else let (idx, t1) = ac_tool_slot (ac_block_index evt) t;
                   t2 = t1\<lparr>ac_toolStarted := insert idx (ac_toolStarted t1)\<rparr>;
                   (callID, t3) = (if ab_id cb = '''' then fresh_call rid t2 else (ab_id cb, t2))
               in ac_chunk (tool_start idx callID (ab_name cb)) JNull t3)"

definition ac_announce :: "(nat \<Rightarrow> string) \<Rightarrow> int \<Rightarrow> AnthropicToChatTranslator emit" where
  "ac_announce rid idx t =
     (let (callID, t1) = fresh_call rid (t\<lparr>ac_toolStarted := insert idx (ac_toolStarted t)\<rparr>)
      in ac_chunk (tool_start idx callID '''') JNull t1)"

definition ac_plain :: "obj \<Rightarrow> AnthropicToChatTranslator emit" where
  "ac_plain delta t = ([chat_frame (ac_head t) delta JNull []], t)"

definition ac_tool_of :: "int \<Rightarrow> AnthropicToChatTranslator \<Rightarrow> int" where
  "ac_tool_of blockIndex t =
     max 0 (case ac_toolByBlock t blockIndex of Some known \<Rightarrow> known | None \<Rightarrow> ac_toolIndex t - 1)"

text \<open>A delta for a tool that was not started announces it; the second chunk skips the role.\<close>

definition ac_json_delta :: "(nat \<Rightarrow> string) \<Rightarrow> int \<Rightarrow> string \<Rightarrow> AnthropicToChatTranslator emit" where
  "ac_json_delta rid blockIndex partial t =
     (let idx = ac_tool_of blockIndex t in
      if partial = '''' then ([], t)
      else if idx \<notin> ac_toolStarted t
      then emit_seq (ac_announce rid idx) (ac_plain (tool_args idx partial)) t
      else ac_chunk (tool_args idx partial) JNull t)"

definition ac_block_delta :: "(nat \<Rightarrow> string) \<Rightarrow> anthropicEvent \<Rightarrow> AnthropicToChatTranslator emit" where
  "ac_block_delta rid evt t =
     (case ae_delta evt of
        None \<Rightarrow> ([], t)
      | Some d \<Rightarrow>
          if ad_type d = ''text_delta''
          then (if ad_text d = '''' then ([], t) else ac_chunk [(''content'', JStr (ad_text d))] JNull t)
          else if ad_type d = ''input_json_delta'' then ac_json_delta rid (ac_block_index evt) (ad_partial d) t
          else ([], t))"

definition ac_message_delta :: "anthropicEvent \<Rightarrow> AnthropicToChatTranslator emit" where
  "ac_message_delta evt t =
     (let t1 = (case ae_usage evt of None \<Rightarrow> t | Some output \<Rightarrow> t\<lparr>ac_completionTokens := output\<rparr>);
          t2 = (case Option.bind (ae_delta evt) ad_stop of
                  None \<Rightarrow> t1 | Some stop \<Rightarrow> t1\<lparr>ac_finishReason := anthropicStopToChat stop\<rparr>)
      in ac_terminal t2)"

definition ac_error :: "anthropicEvent \<Rightarrow> string \<Rightarrow> AnthropicToChatTranslator emit" where
  "ac_error evt data t =
     (let message = (case ae_error evt of None \<Rightarrow> '''' | Some m \<Rightarrow> m);
          message = (if message = '''' then data else message)
      in emit_seq (ac_chunk [(''content'', JStr (''[Error] '' @ message))] (JStr ''stop''))
           (\<lambda>t. ([DoneFrame], t)) (t\<lparr>ac_finished := True\<rparr>))"

definition ac_event_type :: "string \<Rightarrow> anthropicEvent \<Rightarrow> string" where
  "ac_event_type event evt = (if ae_type evt \<noteq> '''' then ae_type evt else event)"

definition ac_dispatch :: "(nat \<Rightarrow> string) \<Rightarrow> string \<Rightarrow> string \<Rightarrow> anthropicEvent \<Rightarrow> AnthropicToChatTranslator emit" where
  "ac_dispatch rid evty data evt t =
     (if evty = ''message_start'' then ac_message_start evt t
      else if evty = ''content_block_start'' then ac_block_start rid evt t
      else if evty = ''content_block_delta'' then ac_block_delta rid evt t
      else if evty = ''content_block_stop'' \<or> evty = ''ping'' then ([], t)
      else if evty = ''message_delta'' then ac_message_delta evt t
      else if evty = ''message_stop'' then ac_Finish t
      else if evty = ''error'' then ac_error evt data t
      else ([], t))"

definition ac_FeedEvent :: "codec \<Rightarrow> (nat \<Rightarrow> string) \<Rightarrow> string \<times> string \<Rightarrow> AnthropicToChatTranslator emit" where
  "ac_FeedEvent cd rid ed t =
     (if ac_finished t then ([], t)
      else (case decode_anthropicEvent (dec cd (snd ed)) of
          None \<Rightarrow> ([], t)
        | Some evt \<Rightarrow> ac_dispatch rid (ac_event_type (fst ed) evt) (snd ed) evt t))"

section \<open>The chat protocol\<close>

definition ac_rel :: "AnthropicToChatTranslator \<Rightarrow> chat_phase \<Rightarrow> bool" where
  "ac_rel t q \<longleftrightarrow> q = (if ac_finished t then Ended else Streaming)"

abbreviation ac_running :: "AnthropicToChatTranslator \<Rightarrow> chat_phase \<Rightarrow> bool" where
  "ac_running t q \<equiv> \<not> ac_finished t \<and> q = Streaming"

lemma ac_chunk_keeps: "keeps chat_acc ac_running ac_running (ac_chunk d JNull)"
  and ac_plain_keeps: "keeps chat_acc ac_running ac_running (ac_plain d)"
  by (simp_all add: keeps_def ac_chunk_def ac_plain_def chat_acc_chunk)

lemma ac_terminal_keeps: "keeps chat_acc ac_running ac_rel ac_terminal"
  by (rule keepsI) (simp add: ac_terminal_def ac_rel_def chat_acc_chunk Let_def)

lemma ac_running_rel: "ac_running t q \<Longrightarrow> ac_rel t q"
  by (simp add: ac_rel_def)

lemma ac_lift: "keeps chat_acc ac_running ac_running f \<Longrightarrow> keeps chat_acc ac_running ac_rel f"
  unfolding keeps_def ac_rel_def by fastforce

lemma ac_tool_slot_finished [simp]: "ac_finished (snd (ac_tool_slot b t)) = ac_finished t"
  by (auto simp: ac_tool_slot_def split: option.split)

lemma ac_announce_keeps: "keeps chat_acc ac_running ac_running (ac_announce rid idx)"
  by (rule keepsI) (simp add: ac_announce_def fresh_call_def ac_chunk_def chat_acc_chunk Let_def)

lemma ac_json_delta_keeps: "keeps chat_acc ac_running ac_running (ac_json_delta rid b p)"
proof (rule keepsI)
  fix t q assume run: "ac_running t q"
  let ?i = "ac_tool_of b t"
  have "keeps chat_acc ac_running ac_running (emit_seq (ac_announce rid ?i) (ac_plain (tool_args ?i p)))"
    by (rule keeps_seq [OF ac_announce_keeps ac_plain_keeps])
  from keepsD [OF this run] keepsD [OF ac_chunk_keeps run, of "tool_args ?i p"] run
  show "\<exists>q'. accept_all chat_acc (fst (ac_json_delta rid b p t)) q = Some q' \<and>
      ac_running (snd (ac_json_delta rid b p t)) q'"
    by (simp add: ac_json_delta_def Let_def)
qed

lemma ac_block_delta_keeps: "keeps chat_acc ac_running ac_running (ac_block_delta rid evt)"
proof (rule keepsI)
  fix t q assume run: "ac_running t q"
  show "\<exists>q'. accept_all chat_acc (fst (ac_block_delta rid evt t)) q = Some q' \<and>
      ac_running (snd (ac_block_delta rid evt t)) q'"
    using run keepsD [OF ac_chunk_keeps run] keepsD [OF ac_json_delta_keeps run]
    by (simp add: ac_block_delta_def split: option.split)
qed

lemma ac_block_start_keeps: "keeps chat_acc ac_running ac_running (ac_block_start rid evt)"
proof (rule keepsI)
  fix t q assume run: "ac_running t q"
  obtain idx t1 where slot: "ac_tool_slot (ac_block_index evt) t = (idx, t1)" by fastforce
  with run have "\<not> ac_finished t1" using ac_tool_slot_finished [of "ac_block_index evt" t] by simp
  with run show "\<exists>q'. accept_all chat_acc (fst (ac_block_start rid evt t)) q = Some q' \<and>
      ac_running (snd (ac_block_start rid evt t)) q'"
    by (simp add: ac_block_start_def slot ac_chunk_def chat_acc_chunk fresh_call_def Let_def
        split: option.split)
qed

lemma ac_message_start_keeps: "keeps chat_acc ac_running ac_running (ac_message_start evt)"
  by (rule keepsI) (auto simp: ac_message_start_def Let_def split: option.split)

lemma ac_message_delta_keeps: "keeps chat_acc ac_running ac_rel (ac_message_delta evt)"
  unfolding ac_message_delta_def Let_def
  by (rule keeps_pre [OF ac_terminal_keeps]) (auto split: option.split)

lemma ac_error_keeps: "keeps chat_acc ac_running ac_rel (ac_error evt data)"
  by (rule keepsI) (simp add: ac_error_def emit_seq_def ac_chunk_def chat_acc_chunk ac_rel_def Let_def)

lemma ac_Finish_keeps: "keeps chat_acc ac_rel (\<lambda>_ q. q = Ended) ac_Finish"
  by (rule keepsI) (simp add: ac_Finish_def ac_terminal_def ac_rel_def chat_acc_chunk Let_def)

lemmas ac_case_keeps = ac_block_delta_keeps ac_block_start_keeps ac_message_start_keeps

lemma ac_dispatch_keeps: "keeps chat_acc ac_running ac_rel (ac_dispatch rid evty data evt)"
proof (rule keepsI)
  fix t q assume run: "ac_running t q"
  have fin: "keeps chat_acc ac_running ac_rel ac_Finish"
    by (rule keepsI) (simp add: ac_Finish_def ac_terminal_def ac_rel_def chat_acc_chunk Let_def)
  show "\<exists>q'. accept_all chat_acc (fst (ac_dispatch rid evty data evt t)) q = Some q' \<and>
      ac_rel (snd (ac_dispatch rid evty data evt t)) q'"
    using run ac_running_rel [OF run] keepsD [OF ac_case_keeps(1) [THEN ac_lift] run]
      keepsD [OF ac_case_keeps(2) [THEN ac_lift] run] keepsD [OF ac_case_keeps(3) [THEN ac_lift] run]
      keepsD [OF ac_message_delta_keeps run] keepsD [OF ac_error_keeps run] keepsD [OF fin run]
    by (simp add: ac_dispatch_def)
qed

lemma ac_FeedEvent_keeps: "keeps chat_acc ac_rel ac_rel (ac_FeedEvent cd rid ed)"
proof (rule keepsI)
  fix t q assume rel: "ac_rel t q"
  show "\<exists>q'. accept_all chat_acc (fst (ac_FeedEvent cd rid ed t)) q = Some q' \<and>
      ac_rel (snd (ac_FeedEvent cd rid ed t)) q'"
  proof (cases "ac_finished t")
    case True
    with rel show ?thesis by (simp add: ac_FeedEvent_def)
  next
    case False
    with rel have "ac_running t q" by (simp add: ac_rel_def)
    from keepsD [OF ac_dispatch_keeps this] rel False show ?thesis
      by (simp add: ac_FeedEvent_def split: option.split)
  qed
qed

definition always :: "'s \<Rightarrow> bool" where "always s \<longleftrightarrow> True"

interpretation ac: stream_protocol "ac_FeedEvent cd rid" ac_Finish chat_acc ac_rel always
    "\<lambda>q. q = Ended" for cd rid
  by unfold_locales
    (auto simp: always_def intro: ac_FeedEvent_keeps keeps_weaken [OF ac_Finish_keeps])

lemma ac_rel_new [simp]: "ac_rel (NewAnthropicToChatTranslator rid now model) Streaming"
  by (simp add: ac_rel_def NewAnthropicToChatTranslator_def)

section \<open>The text is preserved\<close>

text \<open>The text an Anthropic stream carries: its text deltas up to the first terminal event.\<close>

definition delta_text :: "anthropicEvent \<Rightarrow> string" where
  "delta_text evt = (case ae_delta evt of None \<Rightarrow> ''''
     | Some d \<Rightarrow> if ad_type d = ''text_delta'' then ad_text d else '''')"

definition error_text :: "anthropicEvent \<Rightarrow> string \<Rightarrow> string" where
  "error_text evt data = (let m = (case ae_error evt of None \<Rightarrow> '''' | Some m \<Rightarrow> m)
     in ''[Error] '' @ (if m = '''' then data else m))"

fun anthropic_text :: "codec \<Rightarrow> (string \<times> string) list \<Rightarrow> string" where
  "anthropic_text cd [] = ''''"
| "anthropic_text cd (ed # eds) =
     (case decode_anthropicEvent (dec cd (snd ed)) of
        None \<Rightarrow> anthropic_text cd eds
      | Some evt \<Rightarrow> let evty = ac_event_type (fst ed) evt in
          if evty = ''error'' then error_text evt (snd ed)
          else if evty = ''message_delta'' \<or> evty = ''message_stop'' then ''''
          else if evty = ''content_block_delta'' then delta_text evt @ anthropic_text cd eds
          else anthropic_text cd eds)"

lemma tool_content [simp]:
  "mget ''content'' (tool_start i c n) = JNull" "mget ''content'' (tool_args i a) = JNull"
  by (simp_all add: tool_start_def tool_args_def mget_Cons)

lemma ac_chunk_content [simp]:
  "stream_content (fst (ac_chunk d f t)) = stringOf (mget ''content'' d)"
  "stream_content (fst (ac_plain d t)) = stringOf (mget ''content'' d)"
  by (simp_all add: ac_chunk_def ac_plain_def)

lemma emit_seq_content:
  "stream_content (fst (emit_seq f g t)) = stream_content (fst (f t)) @ stream_content (fst (g (snd (f t))))"
  by (simp add: emit_seq_def split: prod.split)

lemma ac_terminal_content [simp]: "stream_content (fst (ac_terminal t)) = ''''"
  and ac_Finish_content [simp]: "stream_content (fst (ac_Finish t)) = ''''"
  by (simp_all add: ac_terminal_def ac_Finish_def Let_def)

lemma ac_announce_content [simp]: "stream_content (fst (ac_announce rid i t)) = ''''"
  by (simp add: ac_announce_def fresh_call_def Let_def)

lemma ac_json_delta_content [simp]: "stream_content (fst (ac_json_delta rid b p t)) = ''''"
  by (simp add: ac_json_delta_def emit_seq_content Let_def)

lemma ac_block_delta_content: "stream_content (fst (ac_block_delta rid evt t)) = delta_text evt"
  by (auto simp: ac_block_delta_def delta_text_def mget_Cons split: option.split)

lemma ac_block_start_content: "stream_content (fst (ac_block_start rid evt t)) = ''''"
  by (simp add: ac_block_start_def Let_def split: option.split prod.split)

lemma ac_message_start_content: "stream_content (fst (ac_message_start evt t)) = ''''"
  by (simp add: ac_message_start_def Let_def split: option.split)

lemma ac_error_content: "stream_content (fst (ac_error evt data t)) = error_text evt data"
  by (simp add: ac_error_def error_text_def emit_seq_content mget_Cons Let_def)

lemma ac_message_delta_content: "stream_content (fst (ac_message_delta evt t)) = ''''"
  by (simp add: ac_message_delta_def Let_def)

lemmas ac_case_content = ac_block_delta_content ac_block_start_content ac_message_start_content
  ac_error_content ac_message_delta_content

text \<open>Only the terminal events finish the stream.\<close>

lemma keeps_running:
  "keeps chat_acc ac_running ac_running f \<Longrightarrow> \<not> ac_finished t \<Longrightarrow> \<not> ac_finished (snd (f t))"
  using keepsD [of chat_acc ac_running ac_running f t Streaming] by blast

lemma ac_finished_emits:
  "ac_finished t \<Longrightarrow> run_stream (ac_FeedEvent cd rid) ac_Finish es t = []"
proof (induction es)
  case Nil
  then show ?case by (simp add: run_stream_Nil ac_Finish_def)
next
  case (Cons e es)
  then show ?case by (simp add: run_stream_Cons ac_FeedEvent_def)
qed

lemma ac_terminal_finished:
  "ac_finished (snd (ac_terminal t))" "ac_finished (snd (ac_error evt d t))"
  "ac_finished (snd (ac_message_delta evt t))" "ac_finished (snd (ac_Finish t))"
  by (simp_all add: ac_terminal_def ac_error_def emit_seq_def ac_chunk_def ac_message_delta_def
      ac_Finish_def Let_def)

lemma ac_text_preserved:
  "\<not> ac_finished t \<Longrightarrow>
    stream_content (run_stream (ac_FeedEvent cd rid) ac_Finish es t) = anthropic_text cd es"
proof (induction es arbitrary: t)
  case Nil
  then show ?case by (simp add: run_stream_Nil)
next
  case (Cons ed es)
  show ?case
  proof (cases "decode_anthropicEvent (dec cd (snd ed))")
    case None
    with Cons show ?thesis by (simp add: run_stream_Cons ac_FeedEvent_def)
  next
    case (Some evt)
    let ?evty = "ac_event_type (fst ed) evt"
    have feed: "ac_FeedEvent cd rid ed t = ac_dispatch rid ?evty (snd ed) evt t"
      using Cons.prems Some by (simp add: ac_FeedEvent_def)
    show ?thesis
    proof (cases "?evty \<in> {''error'', ''message_delta'', ''message_stop''}")
      case True
      then have "ac_finished (snd (ac_dispatch rid ?evty (snd ed) evt t))"
        by (auto simp: ac_dispatch_def ac_terminal_finished)
      with True show ?thesis
        by (auto simp: run_stream_Cons feed ac_finished_emits ac_dispatch_def ac_case_content Some Let_def)
    next
      case False
      then have "\<not> ac_finished (snd (ac_dispatch rid ?evty (snd ed) evt t))"
        using Cons.prems ac_case_keeps [THEN keeps_running, of t] by (auto simp: ac_dispatch_def)
      from Cons.IH [OF this] False show ?thesis
        by (auto simp: run_stream_Cons feed ac_dispatch_def ac_case_content Some Let_def)
    qed
  qed
qed

section \<open>Chat to Anthropic\<close>

record chatToolCallDelta =
  td_index :: "int option"
  td_id :: string
  td_name :: string
  td_args :: string

record chat_choice =
  ch_content :: "string option"
  ch_reasoning :: "string option"
  ch_tools :: "chatToolCallDelta list"
  ch_finish :: "string option"

record chatChunk =
  cc_model :: string
  cc_choices :: "chat_choice list"
  cc_completion :: "int option"

definition decode_tool_delta :: "obj \<Rightarrow> chatToolCallDelta option" where
  "decode_tool_delta kvs =
     Option.bind (intp_field ''index'' kvs) (\<lambda>i.
     Option.bind (str_field ''id'' kvs) (\<lambda>d.
     Option.bind (obj_field ''function'' kvs) (\<lambda>f.
     Option.bind (str_field ''name'' f) (\<lambda>n.
     Option.bind (str_field ''arguments'' f) (\<lambda>a.
       Some \<lparr>td_index = i, td_id = d, td_name = n, td_args = a\<rparr>)))))"

definition decode_choice :: "obj \<Rightarrow> chat_choice option" where
  "decode_choice kvs =
     Option.bind (obj_field ''delta'' kvs) (\<lambda>d.
     Option.bind (str_field ''role'' d) (\<lambda>_.
     Option.bind (strp_field ''content'' d) (\<lambda>c.
     Option.bind (strp_field ''reasoning_content'' d) (\<lambda>r.
     Option.bind (Option.bind (objs_field ''tool_calls'' d) (\<lambda>xs. those (map decode_tool_delta xs))) (\<lambda>ts.
     Option.bind (strp_field ''finish_reason'' kvs) (\<lambda>f.
       Some \<lparr>ch_content = c, ch_reasoning = r, ch_tools = ts, ch_finish = f\<rparr>))))))"

definition decode_chatChunk :: "body \<Rightarrow> chatChunk option" where
  "decode_chatChunk b =
     Option.bind (body_obj b) (\<lambda>kvs.
     Option.bind (str_field ''id'' kvs) (\<lambda>_.
     Option.bind (str_field ''model'' kvs) (\<lambda>m.
     Option.bind (Option.bind (objs_field ''choices'' kvs) (\<lambda>xs. those (map decode_choice xs))) (\<lambda>cs.
     Option.bind (ptr_field ''usage'' (int64_pair ''prompt_tokens'' ''completion_tokens'') kvs) (\<lambda>u.
       Some \<lparr>cc_model = m, cc_choices = cs, cc_completion = Option.bind u snd\<rparr>)))))"

record ChatToAnthropicTranslator =
  ca_model :: string
  ca_id :: string
  ca_started :: bool
  ca_blockIndex :: int
  ca_openBlock :: string
  ca_toolBlocks :: "int \<rightharpoonup> int"
  ca_finished :: bool
  ca_rand :: nat

definition NewChatToAnthropicTranslator :: "(nat \<Rightarrow> string) \<Rightarrow> string \<Rightarrow> ChatToAnthropicTranslator" where
  "NewChatToAnthropicTranslator rid model = \<lparr>ca_model = model, ca_id = ''msg_'' @ rid 0,
     ca_started = False, ca_blockIndex = 0, ca_openBlock = '''', ca_toolBlocks = Map.empty,
     ca_finished = False, ca_rand = 1\<rparr>"

definition block_frame :: "string \<Rightarrow> int \<Rightarrow> obj \<Rightarrow> frame" where
  "block_frame evty idx kvs = EventFrame evty (JObj ([(''type'', JStr evty), (''index'', JInt idx)] @ kvs))"

definition block_start :: "int \<Rightarrow> obj \<Rightarrow> frame" where
  "block_start idx blk = block_frame ''content_block_start'' idx [(''content_block'', JObj blk)]"

definition block_delta :: "int \<Rightarrow> obj \<Rightarrow> frame" where
  "block_delta idx d = block_frame ''content_block_delta'' idx [(''delta'', JObj d)]"

definition closeBlock :: "ChatToAnthropicTranslator emit" where
  "closeBlock t =
     (if ca_openBlock t = '''' then ([], t)
      else ([block_frame ''content_block_stop'' (ca_blockIndex t - 1) []], t\<lparr>ca_openBlock := ''''\<rparr>))"

text \<open>textFrames and thinkingFrames differ in the kind of block.\<close>

definition openBlock :: "string \<Rightarrow> obj \<Rightarrow> ChatToAnthropicTranslator emit" where
  "openBlock kind blk t =
     ([block_start (ca_blockIndex t) blk],
      t\<lparr>ca_openBlock := kind, ca_blockIndex := ca_blockIndex t + 1\<rparr>)"

definition ensureBlock :: "string \<Rightarrow> obj \<Rightarrow> ChatToAnthropicTranslator emit" where
  "ensureBlock kind blk t =
     (if ca_openBlock t = kind then ([], t) else emit_seq closeBlock (openBlock kind blk) t)"

definition deltaFrame :: "obj \<Rightarrow> ChatToAnthropicTranslator emit" where
  "deltaFrame d t = ([block_delta (ca_blockIndex t - 1) d], t)"

definition textFrames :: "string \<Rightarrow> ChatToAnthropicTranslator emit" where
  "textFrames txt = emit_seq
     (ensureBlock ''text'' [(''type'', JStr ''text''), (''text'', JStr '''')])
     (deltaFrame [(''type'', JStr ''text_delta''), (''text'', JStr txt)])"

definition thinkingFrames :: "string \<Rightarrow> ChatToAnthropicTranslator emit" where
  "thinkingFrames txt = emit_seq
     (ensureBlock ''thinking'' [(''type'', JStr ''thinking''), (''thinking'', JStr '''')])
     (deltaFrame [(''type'', JStr ''thinking_delta''), (''thinking'', JStr txt)])"

definition startTool :: "(nat \<Rightarrow> string) \<Rightarrow> int \<Rightarrow> chatToolCallDelta \<Rightarrow> ChatToAnthropicTranslator emit" where
  "startTool rid chatIdx tc t =
     (let blockIdx = ca_blockIndex t;
          t1 = t\<lparr>ca_toolBlocks := (ca_toolBlocks t)(chatIdx \<mapsto> blockIdx), ca_blockIndex := blockIdx + 1\<rparr>;
          (callID, t2) = (if td_id tc = '''' then (''call_'' @ rid (ca_rand t1), t1\<lparr>ca_rand := ca_rand t1 + 1\<rparr>)
                          else (td_id tc, t1))
      in ([block_start blockIdx [(''type'', JStr ''tool_use''), (''id'', JStr callID),
             (''name'', JStr (td_name tc)), (''input'', JObj [])]], t2\<lparr>ca_openBlock := ''tool''\<rparr>))"

definition toolArgs :: "int \<Rightarrow> string \<Rightarrow> ChatToAnthropicTranslator emit" where
  "toolArgs chatIdx args t =
     (if args = '''' then ([], t)
      else ([block_delta (case ca_toolBlocks t chatIdx of None \<Rightarrow> 0 | Some b \<Rightarrow> b)
              [(''type'', JStr ''input_json_delta''), (''partial_json'', JStr args)]], t))"

definition toolFrames :: "(nat \<Rightarrow> string) \<Rightarrow> chatToolCallDelta \<Rightarrow> ChatToAnthropicTranslator emit" where
  "toolFrames rid tc t =
     (let chatIdx = (case td_index tc of None \<Rightarrow> 0 | Some i \<Rightarrow> i) in
      emit_seq (if ca_toolBlocks t chatIdx = None then emit_seq closeBlock (startTool rid chatIdx tc) else emit_none)
        (toolArgs chatIdx (td_args tc)) t)"

definition closeFrames :: "string \<Rightarrow> int option \<Rightarrow> ChatToAnthropicTranslator emit" where
  "closeFrames stop output = emit_seq closeBlock (\<lambda>t.
     ([EventFrame ''message_delta'' (JObj [(''type'', JStr ''message_delta''),
         (''delta'', JObj [(''stop_reason'', JStr stop), (''stop_sequence'', JNull)]),
         (''usage'', JObj [(''output_tokens'', opt_int output)])]),
       EventFrame ''message_stop'' (JObj [(''type'', JStr ''message_stop'')])], t))"

definition ca_start :: "ChatToAnthropicTranslator emit" where
  "ca_start t =
     (if ca_started t then ([], t)
      else ([EventFrame ''message_start'' (JObj [(''type'', JStr ''message_start''),
              (''message'', JObj [(''id'', JStr (ca_id t)), (''type'', JStr ''message''),
                (''role'', JStr ''assistant''), (''model'', JStr (ca_model t)), (''content'', JArr []),
                (''stop_reason'', JNull), (''stop_sequence'', JNull),
                (''usage'', JObj [(''input_tokens'', JInt 0), (''output_tokens'', JInt 0)])])])],
            t\<lparr>ca_started := True\<rparr>))"

definition nonempty :: "string option \<Rightarrow> (string \<Rightarrow> 's emit) \<Rightarrow> 's emit" where
  "nonempty v f = (case v of None \<Rightarrow> emit_none | Some s \<Rightarrow> if s = '''' then emit_none else f s)"

definition ca_choice :: "(nat \<Rightarrow> string) \<Rightarrow> int option \<Rightarrow> chat_choice \<Rightarrow> ChatToAnthropicTranslator emit" where
  "ca_choice rid completion choice =
     emit_seq (nonempty (ch_content choice) textFrames)
     (emit_seq (nonempty (ch_reasoning choice) thinkingFrames)
     (emit_seq (emit_all (map (toolFrames rid) (ch_tools choice)))
       (case ch_finish choice of
          None \<Rightarrow> emit_none
        | Some r \<Rightarrow> emit_seq (closeFrames (chatFinishToAnthropic r) completion)
            (\<lambda>t. ([], t\<lparr>ca_finished := True\<rparr>)))))"

definition ca_chunk :: "(nat \<Rightarrow> string) \<Rightarrow> chatChunk \<Rightarrow> ChatToAnthropicTranslator emit" where
  "ca_chunk rid chunk t =
     (let t1 = (if ca_model t = '''' \<and> cc_model chunk \<noteq> '''' then t\<lparr>ca_model := cc_model chunk\<rparr> else t)
      in emit_seq ca_start (case cc_choices chunk of
           [] \<Rightarrow> emit_none | choice # _ \<Rightarrow> ca_choice rid (cc_completion chunk) choice) t1)"

definition ca_FeedChunk :: "codec \<Rightarrow> (nat \<Rightarrow> string) \<Rightarrow> string \<Rightarrow> ChatToAnthropicTranslator emit" where
  "ca_FeedChunk cd rid data t =
     (if ca_finished t then ([], t)
      else (case decode_chatChunk (dec cd data) of None \<Rightarrow> ([], t) | Some chunk \<Rightarrow> ca_chunk rid chunk t))"

definition ca_Finish :: "ChatToAnthropicTranslator emit" where
  "ca_Finish t = (if ca_finished t then ([], t) else closeFrames ''end_turn'' None (t\<lparr>ca_finished := True\<rparr>))"

section \<open>The Anthropic protocol\<close>

text \<open>
  The automaton of an Anthropic event stream: message_start; blocks numbered from 0, one open at a
  time; message_delta with no block open; message_stop, and nothing after. A delta names a block:
  the open one in the strict reading, any started one in the lenient.
\<close>

record ant_state =
  as_started :: bool
  as_next :: int
  as_open :: "int option"
  as_ending :: bool
  as_done :: bool

definition ant_init :: ant_state where
  "ant_init = \<lparr>as_started = False, as_next = 0, as_open = None, as_ending = False, as_done = False\<rparr>"

definition frame_index :: "json \<Rightarrow> int option" where
  "frame_index v = (case as_obj v of None \<Rightarrow> None | Some m \<Rightarrow>
     (case mget ''index'' m of JNum r \<Rightarrow> Some \<lfloor>r\<rfloor> | _ \<Rightarrow> None))"

definition delta_addressed :: "bool \<Rightarrow> ant_state \<Rightarrow> int \<Rightarrow> bool" where
  "delta_addressed strict q i = (if strict then as_open q = Some i else 0 \<le> i \<and> i < as_next q)"

definition ant_event :: "bool \<Rightarrow> string \<Rightarrow> int option \<Rightarrow> ant_state \<Rightarrow> ant_state option" where
  "ant_event strict e idx q =
     (if as_done q then None
      else if e = ''message_start'' then (if as_started q then None else Some (q\<lparr>as_started := True\<rparr>))
      else if \<not> as_started q then None
      else if e = ''message_stop'' then (if as_ending q then Some (q\<lparr>as_done := True\<rparr>) else None)
      else if as_ending q then None
      else if e = ''content_block_start'' then
        (if as_open q = None \<and> idx = Some (as_next q)
         then Some (q\<lparr>as_open := idx, as_next := as_next q + 1\<rparr>) else None)
      else if e = ''content_block_delta'' then
        (case idx of None \<Rightarrow> None | Some i \<Rightarrow> if delta_addressed strict q i then Some q else None)
      else if e = ''content_block_stop'' then
        (if as_open q \<noteq> None \<and> idx = as_open q then Some (q\<lparr>as_open := None\<rparr>) else None)
      else if e = ''message_delta'' then
        (if as_open q = None then Some (q\<lparr>as_ending := True\<rparr>) else None)
      else None)"

definition ant_acc :: "bool \<Rightarrow> ant_state acceptor" where
  "ant_acc strict f q = (case f of EventFrame e v \<Rightarrow> ant_event strict e (frame_index v) q | _ \<Rightarrow> None)"

definition ca_rel :: "ChatToAnthropicTranslator \<Rightarrow> ant_state \<Rightarrow> bool" where
  "ca_rel t q \<longleftrightarrow> as_started q = ca_started t \<and> as_done q = ca_finished t \<and>
     (ca_finished t \<or> (\<not> as_ending q \<and> as_next q = ca_blockIndex t \<and> 0 \<le> ca_blockIndex t \<and>
      as_open q = (if ca_openBlock t = '''' then None else Some (ca_blockIndex t - 1)) \<and>
      (ca_openBlock t \<noteq> '''' \<longrightarrow> 1 \<le> ca_blockIndex t) \<and>
      (\<forall>c b. ca_toolBlocks t c = Some b \<longrightarrow> 0 \<le> b \<and> b < ca_blockIndex t)))"

abbreviation ca_run :: "ChatToAnthropicTranslator \<Rightarrow> ant_state \<Rightarrow> bool" where
  "ca_run t q \<equiv> ca_rel t q \<and> ca_started t \<and> \<not> ca_finished t"

lemma block_frame_acc [simp]:
  "ant_acc strict (block_frame e i kvs) q = ant_event strict e (frame_index (JObj ((''type'', JStr e) # (''index'', JInt i) # kvs))) q"
  by (simp add: ant_acc_def block_frame_def)

lemma frame_index_block [simp]:
  "\<not> mhas ''index'' kvs \<Longrightarrow> frame_index (JObj ((''type'', JStr e) # (''index'', JInt i) # kvs)) = Some i"
  by (simp add: frame_index_def mget_Cons JInt_def)

lemma closeBlock_keeps:
  "keeps (ant_acc b) ca_run (\<lambda>t q. ca_run t q \<and> ca_openBlock t = '''') closeBlock"
  by (rule keepsI) (auto simp: closeBlock_def ca_rel_def ant_event_def split: if_splits)

lemma openBlock_keeps:
  "kind \<noteq> '''' \<Longrightarrow> keeps (ant_acc b) (\<lambda>t q. ca_run t q \<and> ca_openBlock t = '''')
    (\<lambda>t q. ca_run t q \<and> ca_openBlock t = kind) (openBlock kind blk)"
  by (rule keepsI) (fastforce simp: openBlock_def block_start_def ca_rel_def ant_event_def)

lemma ensureBlock_keeps:
  assumes "kind \<noteq> ''''"
  shows "keeps (ant_acc b) ca_run (\<lambda>t q. ca_run t q \<and> ca_openBlock t = kind) (ensureBlock kind blk)"
proof (rule keepsI)
  fix t q assume run: "ca_run t q"
  show "\<exists>q'. accept_all (ant_acc b) (fst (ensureBlock kind blk t)) q = Some q' \<and>
      ca_run (snd (ensureBlock kind blk t)) q' \<and> ca_openBlock (snd (ensureBlock kind blk t)) = kind"
    using run keepsD [OF keeps_seq [OF closeBlock_keeps openBlock_keeps [OF assms]] run]
    by (simp add: ensureBlock_def)
qed

lemma deltaFrame_keeps:
  "kind \<noteq> '''' \<Longrightarrow> keeps (ant_acc b) (\<lambda>t q. ca_run t q \<and> ca_openBlock t = kind) ca_run (deltaFrame d)"
  by (rule keepsI)
    (auto simp: deltaFrame_def block_delta_def ca_rel_def ant_event_def delta_addressed_def)

lemma textFrames_keeps: "keeps (ant_acc b) ca_run ca_run (textFrames txt)"
  and thinkingFrames_keeps: "keeps (ant_acc b) ca_run ca_run (thinkingFrames txt)"
  unfolding textFrames_def thinkingFrames_def
  by (rule keeps_seq [OF ensureBlock_keeps deltaFrame_keeps]; simp)+

lemma startTool_keeps:
  "keeps (ant_acc b) (\<lambda>t q. ca_run t q \<and> ca_openBlock t = '''')
    (\<lambda>t q. ca_run t q \<and> ca_toolBlocks t i \<noteq> None) (startTool rid i tc)"
  by (rule keepsI, auto simp: startTool_def block_start_def ca_rel_def ant_event_def Let_def
      split: if_splits) (meson less_imp_le)+

lemma toolArgs_keeps:
  "keeps (ant_acc False) (\<lambda>t q. ca_run t q \<and> ca_toolBlocks t i \<noteq> None) ca_run (toolArgs i args)"
  by (rule keepsI)
    (auto simp: toolArgs_def block_delta_def ca_rel_def ant_event_def delta_addressed_def split: option.split)

lemma toolFrames_keeps: "keeps (ant_acc False) ca_run ca_run (toolFrames rid tc)"
proof (rule keepsI)
  fix t q assume run: "ca_run t q"
  let ?i = "case td_index tc of None \<Rightarrow> 0 | Some i \<Rightarrow> i"
  have 1: "keeps (ant_acc False) ca_run ca_run
      (emit_seq (emit_seq closeBlock (startTool rid ?i tc)) (toolArgs ?i (td_args tc)))"
    by (rule keeps_seq [OF keeps_seq [OF closeBlock_keeps startTool_keeps] toolArgs_keeps])
  have 2: "keeps (ant_acc False) (\<lambda>t q. ca_run t q \<and> ca_toolBlocks t ?i \<noteq> None) ca_run
      (emit_seq emit_none (toolArgs ?i (td_args tc)))"
    by (rule keeps_seq [OF keeps_none toolArgs_keeps])
  show "\<exists>q'. accept_all (ant_acc False) (fst (toolFrames rid tc t)) q = Some q' \<and>
      ca_run (snd (toolFrames rid tc t)) q'"
    using keepsD [OF 1 run] keepsD [OF 2, of t q] run unfolding toolFrames_def Let_def
    by (cases "ca_toolBlocks t ?i = None") (simp_all only: if_True if_False simp_thms)
qed

lemma closeFrames_keeps:
  "keeps (ant_acc b) ca_run (\<lambda>t q. as_started q \<and> as_done q \<and> ca_started t \<and> \<not> ca_finished t)
    (closeFrames stop output)"
proof -
  have "keeps (ant_acc b) (\<lambda>t q. ca_run t q \<and> ca_openBlock t = '''')
      (\<lambda>t q. as_started q \<and> as_done q \<and> ca_started t \<and> \<not> ca_finished t)
      (\<lambda>t. ([EventFrame ''message_delta'' v, EventFrame ''message_stop'' w], t))" for v w
    by (rule keepsI) (auto simp: ant_acc_def ca_rel_def ant_event_def)
  then show ?thesis unfolding closeFrames_def by (rule keeps_seq [OF closeBlock_keeps])
qed

lemma nonempty_keeps:
  "(\<And>s. keeps acc P P (f s)) \<Longrightarrow> keeps acc P P (nonempty v f)"
  by (auto simp: nonempty_def split: option.split)

lemma ca_finish_keeps:
  "keeps (ant_acc b) ca_run ca_rel (emit_seq (closeFrames stop output) (\<lambda>t. ([], t\<lparr>ca_finished := True\<rparr>)))"
  by (rule keeps_seq [OF closeFrames_keeps keeps_silent]) (simp add: ca_rel_def)

lemma ca_choice_keeps: "keeps (ant_acc False) ca_run ca_rel (ca_choice rid completion choice)"
proof -
  have fin: "keeps (ant_acc False) ca_run ca_rel (case ch_finish choice of None \<Rightarrow> emit_none
      | Some r \<Rightarrow> emit_seq (closeFrames (chatFinishToAnthropic r) completion)
          (\<lambda>t. ([], t\<lparr>ca_finished := True\<rparr>)))"
    using ca_finish_keeps [of False] by (cases "ch_finish choice") (simp_all add: keeps_def emit_none_def)
  have tools: "keeps (ant_acc False) ca_run ca_run (emit_all (map (toolFrames rid) (ch_tools choice)))"
    by (rule keeps_all) (auto intro: toolFrames_keeps)
  show ?thesis unfolding ca_choice_def
    by (rule keeps_seq [OF nonempty_keeps [OF textFrames_keeps]
          keeps_seq [OF nonempty_keeps [OF thinkingFrames_keeps] keeps_seq [OF tools fin]]])
qed

lemma ca_start_keeps:
  "keeps (ant_acc b) (\<lambda>t q. ca_rel t q \<and> \<not> ca_finished t) ca_run ca_start"
  by (rule keepsI) (auto simp: ca_start_def ca_rel_def ant_acc_def ant_event_def)

lemma ca_run_rel: "keeps acc P ca_run f \<Longrightarrow> keeps acc P ca_rel f"
  unfolding keeps_def by blast

lemma ca_chunk_keeps: "keeps (ant_acc False) (\<lambda>t q. ca_rel t q \<and> \<not> ca_finished t) ca_rel (ca_chunk rid chunk)"
proof -
  have "keeps (ant_acc False) (\<lambda>t q. ca_rel t q \<and> \<not> ca_finished t) ca_rel
      (emit_seq ca_start (case cc_choices chunk of
         [] \<Rightarrow> emit_none | choice # _ \<Rightarrow> ca_choice rid (cc_completion chunk) choice))"
    by (cases "cc_choices chunk")
      (auto intro: keeps_seq [OF ca_start_keeps] ca_choice_keeps ca_run_rel [OF keeps_none])
  then show ?thesis unfolding ca_chunk_def Let_def
    by (rule keeps_pre) (auto simp: ca_rel_def)
qed

lemma ca_FeedChunk_keeps: "keeps (ant_acc False) ca_rel ca_rel (ca_FeedChunk cd rid data)"
proof (rule keepsI)
  fix t q assume rel: "ca_rel t q"
  show "\<exists>q'. accept_all (ant_acc False) (fst (ca_FeedChunk cd rid data t)) q = Some q' \<and>
      ca_rel (snd (ca_FeedChunk cd rid data t)) q'"
    using rel keepsD [OF ca_chunk_keeps, of t q rid] by (simp add: ca_FeedChunk_def split: option.split)
qed

lemma ca_Finish_keeps:
  "keeps (ant_acc b) (\<lambda>t q. ca_rel t q \<and> ca_started t) (\<lambda>_ q. as_done q) ca_Finish"
proof (rule keepsI)
  fix t q assume rel: "ca_rel t q \<and> ca_started t"
  have "keeps (ant_acc b) ca_run (\<lambda>_ q. as_done q) (closeFrames ''end_turn'' None)"
    by (rule keeps_weaken [OF closeFrames_keeps]) auto
  moreover have "closeFrames a o1 (t\<lparr>ca_finished := True\<rparr>) =
      (fst (closeFrames a o1 t), (snd (closeFrames a o1 t))\<lparr>ca_finished := True\<rparr>)" for a o1
    by (simp add: closeFrames_def emit_seq_def closeBlock_def)
  ultimately show "\<exists>q'. accept_all (ant_acc b) (fst (ca_Finish t)) q = Some q' \<and> as_done q'"
    using rel keepsD [of "ant_acc b" ca_run "\<lambda>_ q. as_done q" "closeFrames ''end_turn'' None" t q]
    by (auto simp: ca_Finish_def ca_rel_def)
qed

lemma started_preserves:
  "preserves ca_started closeBlock" "preserves ca_started (openBlock kind blk)"
  "preserves ca_started (deltaFrame d)" "preserves ca_started (startTool rid i tc)"
  "preserves ca_started (toolArgs i args)" "preserves ca_started ca_start"
  "preserves ca_started (\<lambda>t. ([], t\<lparr>ca_finished := True\<rparr>))"
  by (simp_all add: preserves_def closeBlock_def openBlock_def deltaFrame_def startTool_def toolArgs_def
      ca_start_def Let_def)

lemma started_preserves_frames:
  "preserves ca_started (textFrames txt)" "preserves ca_started (thinkingFrames txt)"
  "preserves ca_started (toolFrames rid tc)" "preserves ca_started (closeFrames stop output)"
proof -
  have ensure: "preserves ca_started (ensureBlock kind blk)" for kind blk
    using preserves_seq [OF started_preserves(1,2)] by (simp add: ensureBlock_def preserves_def)
  show "preserves ca_started (textFrames txt)" "preserves ca_started (thinkingFrames txt)"
    unfolding textFrames_def thinkingFrames_def by (rule preserves_seq [OF ensure started_preserves(3)])+
  show "preserves ca_started (toolFrames rid tc)"
    using preserves_seq [OF preserves_seq [OF started_preserves(1,4)] started_preserves(5)]
      preserves_seq [OF preserves_none started_preserves(5)]
    by (simp add: toolFrames_def preserves_def Let_def)
  have "preserves ca_started (\<lambda>t. (fs, t))" for fs by (simp add: preserves_def)
  then show "preserves ca_started (closeFrames stop output)"
    unfolding closeFrames_def by (rule preserves_seq [OF started_preserves(1)])
qed

lemma started_preserves_choice: "preserves ca_started (ca_choice rid completion choice)"
proof -
  have none: "preserves ca_started (nonempty v f)" if "\<And>s. preserves ca_started (f s)" for v f
    using that by (simp add: nonempty_def split: option.split)
  have "preserves ca_started (case ch_finish choice of None \<Rightarrow> emit_none
      | Some r \<Rightarrow> emit_seq (closeFrames (chatFinishToAnthropic r) completion)
          (\<lambda>t. ([], t\<lparr>ca_finished := True\<rparr>)))"
    using preserves_seq [OF started_preserves_frames(4) started_preserves(7)]
    by (simp split: option.split)
  then show ?thesis unfolding ca_choice_def
    by (intro preserves_seq none preserves_all started_preserves_frames)
      (auto intro: started_preserves_frames)
qed

lemma started_preserves_feed: "preserves ca_started (ca_FeedChunk cd rid data)"
proof -
  have "preserves ca_started (emit_seq ca_start (case cc_choices chunk of
      [] \<Rightarrow> emit_none | choice # _ \<Rightarrow> ca_choice rid (cc_completion chunk) choice))" for chunk
    by (cases "cc_choices chunk") (auto intro: started_preserves started_preserves_choice)
  then show ?thesis
    by (auto simp: preserves_def ca_FeedChunk_def ca_chunk_def Let_def split: option.split)
qed

interpretation ca: stream_protocol "ca_FeedChunk cd rid" ca_Finish "ant_acc False" ca_rel ca_started as_done
  for cd rid
  by unfold_locales
    (use started_preserves_feed in \<open>auto simp: preserves_def intro: ca_FeedChunk_keeps ca_Finish_keeps\<close>)

lemma ca_rel_new [simp]: "ca_rel (NewChatToAnthropicTranslator rid model) ant_init"
  by (simp add: ca_rel_def NewChatToAnthropicTranslator_def ant_init_def)

text \<open>The first chunk that decodes opens the message; before it nothing is emitted.\<close>

lemma ca_first_started:
  assumes "decode_chatChunk (dec cd data) = Some chunk" "\<not> ca_finished t"
  shows "ca_started (snd (ca_FeedChunk cd rid data t))"
proof -
  have "ca_started (snd (ca_start t1))" for t1 by (simp add: ca_start_def)
  moreover have "ca_started (snd (ca_choice rid completion choice t1))" if "ca_started t1"
    for completion choice t1
    using started_preserves_choice that by (simp add: preserves_def)
  ultimately show ?thesis
    using assms by (simp add: ca_FeedChunk_def ca_chunk_def emit_none_def Let_def split: list.split)
qed

lemma ca_skip: "decode_chatChunk (dec cd data) = None \<Longrightarrow> ca_FeedChunk cd rid data t = ([], t)"
  by (simp add: ca_FeedChunk_def)

lemma ca_stream_accepted:
  assumes "\<exists>data \<in> set ds. decode_chatChunk (dec cd data) \<noteq> None"
    and "ca_rel t q" "\<not> ca_finished t"
  shows "\<exists>q'. accept_all (ant_acc False) (run_stream (ca_FeedChunk cd rid) ca_Finish ds t) q = Some q' \<and> as_done q'"
  using assms
proof (induction ds)
  case (Cons d ds)
  show ?case
  proof (cases "decode_chatChunk (dec cd d)")
    case None
    with Cons show ?thesis by (simp add: run_stream_Cons ca_skip)
  next
    case (Some chunk)
    obtain q1 where q1: "accept_all (ant_acc False) (fst (ca_FeedChunk cd rid d t)) q = Some q1"
        "ca_rel (snd (ca_FeedChunk cd rid d t)) q1"
      using keepsD [OF ca_FeedChunk_keeps Cons.prems(2)] by blast
    have "ca_started (snd (ca_FeedChunk cd rid d t))" using Some Cons.prems(3) by (rule ca_first_started)
    from ca.stream_accepted [OF q1(2) this] q1(1) show ?thesis
      by (simp add: run_stream_Cons accept_all_append)
  qed
qed simp

end
