(* ===== verification/Stream_Strict.thy ===== *)
theory Stream_Strict
  imports Stream_Anthropic
begin

text \<open>
  The strict reading of the Anthropic protocol for ChatToAnthropicTranslator: when the chunks name
  their tool calls one after the other, every delta addresses the block that is open.
\<close>

section \<open>Contiguous chunks\<close>

datatype part = TextPart | ToolPart int

definition given :: "string option \<Rightarrow> bool" where
  "given v \<longleftrightarrow> v \<noteq> None \<and> v \<noteq> Some ''''"

definition tool_index :: "chatToolCallDelta \<Rightarrow> int" where
  "tool_index tc = (case td_index tc of None \<Rightarrow> 0 | Some i \<Rightarrow> i)"

definition choice_parts :: "chat_choice \<Rightarrow> part list" where
  "choice_parts c = (if given (ch_content c) then [TextPart] else []) @
     (if given (ch_reasoning c) then [TextPart] else []) @ map (\<lambda>tc. ToolPart (tool_index tc)) (ch_tools c)"

definition data_parts :: "codec \<Rightarrow> string \<Rightarrow> part list" where
  "data_parts cd data = (case decode_chatChunk (dec cd data) of
     None \<Rightarrow> [] | Some c \<Rightarrow> (case cc_choices c of [] \<Rightarrow> [] | choice # _ \<Rightarrow> choice_parts choice))"

text \<open>A tool call that was left (for text or another tool) is not taken up again.\<close>

fun contiguous :: "int option \<Rightarrow> int set \<Rightarrow> part list \<Rightarrow> bool" where
  "contiguous cur seen [] = True"
| "contiguous cur seen (TextPart # ps) = contiguous None seen ps"
| "contiguous cur seen (ToolPart i # ps) =
     ((i \<in> seen \<longrightarrow> cur = Some i) \<and> contiguous (Some i) (insert i seen) ps)"

fun parts_state :: "int option \<times> int set \<Rightarrow> part list \<Rightarrow> int option \<times> int set" where
  "parts_state cs [] = cs"
| "parts_state cs (TextPart # ps) = parts_state (None, snd cs) ps"
| "parts_state cs (ToolPart i # ps) = parts_state (Some i, insert i (snd cs)) ps"

lemma contiguous_append:
  "contiguous cur seen (ps @ qs) \<longleftrightarrow> contiguous cur seen ps \<and>
    contiguous (fst (parts_state (cur, seen) ps)) (snd (parts_state (cur, seen) ps)) qs"
  by (induction cur seen ps rule: contiguous.induct) auto

lemma parts_state_append: "parts_state cs (ps @ qs) = parts_state (parts_state cs ps) qs"
  by (induction cs ps rule: parts_state.induct) auto

section \<open>The invariant\<close>

definition tools_at :: "int option \<times> int set \<Rightarrow> ChatToAnthropicTranslator \<Rightarrow> bool" where
  "tools_at cs t \<longleftrightarrow> dom (ca_toolBlocks t) = snd cs \<and> (\<forall>i. fst cs = Some i \<longrightarrow>
     ca_openBlock t = ''tool'' \<and> ca_toolBlocks t i = Some (ca_blockIndex t - 1))"

abbreviation strict_run :: "int option \<times> int set \<Rightarrow> ChatToAnthropicTranslator \<Rightarrow> ant_state \<Rightarrow> bool" where
  "strict_run cs t q \<equiv> ca_run t q \<and> tools_at cs t"

lemma same_tools:
  "ca_toolBlocks (snd (closeBlock t)) = ca_toolBlocks t"
  "ca_toolBlocks (snd (openBlock kind blk t)) = ca_toolBlocks t"
  "ca_toolBlocks (snd (ensureBlock kind blk t)) = ca_toolBlocks t"
  "ca_toolBlocks (snd (deltaFrame d t)) = ca_toolBlocks t"
  by (simp_all add: closeBlock_def openBlock_def ensureBlock_def deltaFrame_def)

lemma textFrames_strict: "keeps (ant_acc True) (strict_run cs) (strict_run (None, snd cs)) (textFrames txt)"
  and thinkingFrames_strict: "keeps (ant_acc True) (strict_run cs) (strict_run (None, snd cs)) (thinkingFrames txt)"
  by (rule keeps_conj [OF textFrames_keeps] keeps_conj [OF thinkingFrames_keeps];
      simp add: textFrames_def thinkingFrames_def tools_at_def same_tools)+

lemma toolArgs_strict:
  "keeps (ant_acc True) (\<lambda>t q. ca_run t q \<and> ca_openBlock t = ''tool'' \<and>
      ca_toolBlocks t i = Some (ca_blockIndex t - 1)) ca_run (toolArgs i args)"
  by (rule keepsI)
    (auto simp: toolArgs_def block_delta_def ca_rel_def ant_event_def delta_addressed_def)

lemma startTool_tools:
  "ca_toolBlocks (snd (startTool rid i tc t)) = (ca_toolBlocks t)(i \<mapsto> ca_blockIndex t)"
  "ca_openBlock (snd (startTool rid i tc t)) = ''tool''"
  "ca_blockIndex (snd (startTool rid i tc t)) = ca_blockIndex t + 1"
  "ca_blockIndex (snd (closeBlock t)) = ca_blockIndex t"
  "snd (toolArgs i args t) = t"
  by (simp_all add: startTool_def closeBlock_def toolArgs_def Let_def)

lemma toolFrames_tools_at:
  assumes "tools_at cs t" "tool_index tc \<in> snd cs \<longrightarrow> fst cs = Some (tool_index tc)"
  shows "tools_at (Some (tool_index tc), insert (tool_index tc) (snd cs)) (snd (toolFrames rid tc t))"
proof (cases "ca_toolBlocks t (tool_index tc)")
  case None
  with assms show ?thesis
    by (auto simp: toolFrames_def tools_at_def startTool_tools same_tools Let_def
        tool_index_def [symmetric])
next
  case (Some b)
  with assms have "tool_index tc \<in> snd cs" by (auto simp: tools_at_def)
  with assms Some show ?thesis
    by (auto simp: toolFrames_def tools_at_def startTool_tools emit_none_def Let_def
        tool_index_def [symmetric])
qed

lemma startTool_open_keeps:
  "keeps (ant_acc True) (\<lambda>t q. ca_run t q \<and> ca_openBlock t = '''')
    (\<lambda>t q. ca_run t q \<and> ca_openBlock t = ''tool'' \<and> ca_toolBlocks t i = Some (ca_blockIndex t - 1))
    (startTool rid i tc)"
proof (rule keepsI)
  fix t q assume "ca_run t q \<and> ca_openBlock t = ''''"
  from keepsD [OF startTool_keeps [of True i rid tc] this] show "\<exists>q'.
      accept_all (ant_acc True) (fst (startTool rid i tc t)) q = Some q' \<and>
      ca_run (snd (startTool rid i tc t)) q' \<and> ca_openBlock (snd (startTool rid i tc t)) = ''tool'' \<and>
      ca_toolBlocks (snd (startTool rid i tc t)) i = Some (ca_blockIndex (snd (startTool rid i tc t)) - 1)"
    by (auto simp: startTool_tools)
qed

lemma toolFrames_strict:
  assumes "tool_index tc \<in> snd cs \<longrightarrow> fst cs = Some (tool_index tc)"
  shows "keeps (ant_acc True) (strict_run cs)
    (strict_run (Some (tool_index tc), insert (tool_index tc) (snd cs))) (toolFrames rid tc)"
proof (rule keepsI)
  fix t q assume run: "strict_run cs t q"
  let ?i = "tool_index tc"
  have 1: "keeps (ant_acc True) ca_run ca_run
      (emit_seq (emit_seq closeBlock (startTool rid ?i tc)) (toolArgs ?i (td_args tc)))"
    by (rule keeps_seq [OF keeps_seq [OF closeBlock_keeps startTool_open_keeps] toolArgs_strict])
  have "\<exists>q'. accept_all (ant_acc True) (fst (toolFrames rid tc t)) q = Some q' \<and>
      ca_run (snd (toolFrames rid tc t)) q'"
  proof (cases "ca_toolBlocks t ?i")
    case None
    then show ?thesis using keepsD [OF 1, of t q] run
      unfolding toolFrames_def Let_def tool_index_def by simp
  next
    case (Some b)
    with run assms have "ca_openBlock t = ''tool'' \<and> ca_toolBlocks t ?i = Some (ca_blockIndex t - 1)"
      by (auto simp: tools_at_def)
    then show ?thesis using keepsD [OF toolArgs_strict, of t q ?i "td_args tc"] run Some
      unfolding toolFrames_def Let_def tool_index_def by (simp add: emit_none_def)
  qed
  with toolFrames_tools_at [OF _ assms, of t rid] run show "\<exists>q'.
      accept_all (ant_acc True) (fst (toolFrames rid tc t)) q = Some q' \<and>
      strict_run (Some ?i, insert ?i (snd cs)) (snd (toolFrames rid tc t)) q'"
    by blast
qed

lemma tools_strict:
  "contiguous (fst cs) (snd cs) (map (\<lambda>tc. ToolPart (tool_index tc)) tcs) \<Longrightarrow>
    keeps (ant_acc True) (strict_run cs)
      (strict_run (parts_state cs (map (\<lambda>tc. ToolPart (tool_index tc)) tcs)))
      (emit_all (map (toolFrames rid) tcs))"
proof (induction tcs arbitrary: cs)
  case (Cons tc tcs)
  then have "keeps (ant_acc True) (strict_run cs)
      (strict_run (Some (tool_index tc), insert (tool_index tc) (snd cs))) (toolFrames rid tc)"
    by (intro toolFrames_strict) auto
  from keeps_seq [OF this Cons.IH] Cons.prems show ?case by simp
qed simp

lemma nonempty_strict:
  assumes "\<And>cs s. keeps (ant_acc True) (strict_run cs) (strict_run (None, snd cs)) (f s)"
  shows "keeps (ant_acc True) (strict_run cs)
    (strict_run (parts_state cs (if given v then [TextPart] else []))) (nonempty v f)"
  using assms by (auto simp: nonempty_def given_def split: option.split)

definition strict_rel :: "int option \<times> int set \<Rightarrow> ChatToAnthropicTranslator \<Rightarrow> ant_state \<Rightarrow> bool" where
  "strict_rel cs t q \<longleftrightarrow> ca_rel t q \<and> (ca_finished t \<or> tools_at cs t)"

lemma ca_choice_strict:
  assumes "contiguous (fst cs) (snd cs) (choice_parts choice)"
  shows "keeps (ant_acc True) (strict_run cs) (strict_rel (parts_state cs (choice_parts choice)))
    (ca_choice rid completion choice)"
proof -
  let ?c = "if given (ch_content choice) then [TextPart] else []"
  let ?r = "if given (ch_reasoning choice) then [TextPart] else []"
  let ?t = "map (\<lambda>tc. ToolPart (tool_index tc)) (ch_tools choice)"
  have fin: "keeps (ant_acc True) (strict_run cs') (strict_rel cs') (case ch_finish choice of None \<Rightarrow> emit_none
      | Some r \<Rightarrow> emit_seq (closeFrames (chatFinishToAnthropic r) completion)
          (\<lambda>t. ([], t\<lparr>ca_finished := True\<rparr>)))" for cs'
    using ca_finish_keeps [of True]
    by (cases "ch_finish choice") (fastforce simp: keeps_def emit_none_def strict_rel_def)+
  have split: "parts_state cs (choice_parts choice) = parts_state (parts_state (parts_state cs ?c) ?r) ?t"
    by (simp only: choice_parts_def parts_state_append)
  have "contiguous (fst (parts_state (parts_state cs ?c) ?r)) (snd (parts_state (parts_state cs ?c) ?r)) ?t"
    using assms unfolding choice_parts_def contiguous_append by simp
  from keeps_seq [OF nonempty_strict [of textFrames, OF textFrames_strict, of cs "ch_content choice"]
      keeps_seq [OF nonempty_strict [of thinkingFrames, OF thinkingFrames_strict, of _ "ch_reasoning choice"]
        keeps_seq [OF tools_strict [OF this] fin]]]
  show ?thesis unfolding ca_choice_def split .
qed

lemma ca_start_strict:
  "keeps (ant_acc True) (\<lambda>t q. strict_rel cs t q \<and> \<not> ca_finished t) (strict_run cs) ca_start"
proof (rule keepsI)
  fix t q assume rel: "strict_rel cs t q \<and> \<not> ca_finished t"
  then have "ca_rel t q \<and> \<not> ca_finished t" by (simp add: strict_rel_def)
  from keepsD [OF ca_start_keeps this, of True] rel
  show "\<exists>q'. accept_all (ant_acc True) (fst (ca_start t)) q = Some q' \<and> strict_run cs (snd (ca_start t)) q'"
    by (auto simp: strict_rel_def ca_start_def tools_at_def)
qed

lemma ca_FeedChunk_strict:
  assumes "contiguous (fst cs) (snd cs) (data_parts cd data)" "strict_rel cs t q"
  shows "\<exists>q'. accept_all (ant_acc True) (fst (ca_FeedChunk cd rid data t)) q = Some q' \<and>
    strict_rel (parts_state cs (data_parts cd data)) (snd (ca_FeedChunk cd rid data t)) q'"
proof (cases "ca_finished t")
  case True
  with assms(2) show ?thesis by (simp add: ca_FeedChunk_def strict_rel_def)
next
  case False
  show ?thesis
  proof (cases "decode_chatChunk (dec cd data)")
    case None
    with assms False show ?thesis by (simp add: ca_FeedChunk_def data_parts_def)
  next
    case (Some chunk)
    let ?t1 = "if ca_model t = '''' \<and> cc_model chunk \<noteq> '''' then t\<lparr>ca_model := cc_model chunk\<rparr> else t"
    let ?f = "case cc_choices chunk of [] \<Rightarrow> emit_none | choice # _ \<Rightarrow> ca_choice rid (cc_completion chunk) choice"
    have "strict_rel cs ?t1 q \<and> \<not> ca_finished ?t1"
      using assms(2) False by (simp add: strict_rel_def ca_rel_def tools_at_def)
    moreover have "keeps (ant_acc True) (strict_run cs) (strict_rel (parts_state cs (data_parts cd data))) ?f"
    proof (cases "cc_choices chunk")
      case Nil
      then show ?thesis using Some by (auto simp: keeps_def emit_none_def strict_rel_def data_parts_def)
    next
      case (Cons choice cs')
      then show ?thesis using ca_choice_strict assms(1) Some by (simp add: data_parts_def)
    qed
    ultimately have "\<exists>q'. accept_all (ant_acc True) (fst (emit_seq ca_start ?f ?t1)) q = Some q' \<and>
        strict_rel (parts_state cs (data_parts cd data)) (snd (emit_seq ca_start ?f ?t1)) q'"
      using keepsD [OF keeps_seq [OF ca_start_strict]] by blast
    moreover have "ca_FeedChunk cd rid data t = emit_seq ca_start ?f ?t1"
      using False Some by (simp add: ca_FeedChunk_def ca_chunk_def Let_def)
    ultimately show ?thesis by simp
  qed
qed

lemma ca_stream_strict:
  assumes "contiguous (fst cs) (snd cs) (concat (map (data_parts cd) ds))" "strict_rel cs t q"
    and "ca_started t \<or> (\<not> ca_finished t \<and> (\<exists>data \<in> set ds. decode_chatChunk (dec cd data) \<noteq> None))"
  shows "\<exists>q'. accept_all (ant_acc True) (run_stream (ca_FeedChunk cd rid) ca_Finish ds t) q = Some q' \<and> as_done q'"
  using assms
proof (induction ds arbitrary: cs t q)
  case Nil
  then show ?case using keepsD [OF ca_Finish_keeps, of t q True]
    by (simp add: run_stream_Nil strict_rel_def)
next
  case (Cons d ds)
  let ?t = "snd (ca_FeedChunk cd rid d t)"
  obtain q1 where q1: "accept_all (ant_acc True) (fst (ca_FeedChunk cd rid d t)) q = Some q1"
      "strict_rel (parts_state cs (data_parts cd d)) ?t q1"
    using ca_FeedChunk_strict [of cs cd d t q rid] Cons.prems by (auto simp: contiguous_append)
  have "contiguous (fst (parts_state cs (data_parts cd d))) (snd (parts_state cs (data_parts cd d)))
      (concat (map (data_parts cd) ds))"
    using Cons.prems(1) by (simp add: contiguous_append)
  moreover have "ca_started ?t \<or> (\<not> ca_finished ?t \<and> (\<exists>data \<in> set ds. decode_chatChunk (dec cd data) \<noteq> None))"
  proof (cases "decode_chatChunk (dec cd d)")
    case None
    with Cons.prems(3) show ?thesis by (auto simp: ca_skip)
  next
    case (Some chunk)
    then show ?thesis
      using Cons.prems(3) ca_first_started [OF Some, of t rid] started_preserves_feed [of cd rid d]
      by (auto simp: preserves_def)
  qed
  ultimately obtain q2 where "accept_all (ant_acc True) (run_stream (ca_FeedChunk cd rid) ca_Finish ds ?t) q1 = Some q2"
      "as_done q2"
    using Cons.IH q1(2) by blast
  with q1(1) show ?case by (simp add: run_stream_Cons accept_all_append)
qed

lemma strict_rel_new [simp]: "strict_rel (None, {}) (NewChatToAnthropicTranslator rid model) ant_init"
  by (simp add: strict_rel_def tools_at_def) (simp add: NewChatToAnthropicTranslator_def)

end
