(* ===== verification/Stream_Responses.thy ===== *)
theory Stream_Responses
  imports Stream_Anthropic
begin

text \<open>
  internal/provider/stream_responses.go: the translator from a Responses event stream to chat
  completion chunks. Its output obeys the chat protocol for every input, and carries exactly the
  text deltas up to the first terminal event.
\<close>

section \<open>Decoding\<close>

record resp_item =
  ri_id :: string
  ri_type :: string
  ri_call_id :: string
  ri_name :: string
  ri_arguments :: json
  ri_input :: json

record resp_usage =
  ru_input :: "int option"
  ru_prompt :: "int option"
  ru_output :: "int option"
  ru_completion :: "int option"

record resp_response =
  rr_model :: string
  rr_usage :: "resp_usage option"
  rr_error :: "string option"

record responsesEvent =
  re_type :: string
  re_delta :: string
  re_item_id :: string
  re_item :: "resp_item option"
  re_response :: "resp_response option"
  re_error :: "string option"

definition decode_item :: "obj \<Rightarrow> resp_item option" where
  "decode_item kvs =
     Option.bind (str_field ''id'' kvs) (\<lambda>i.
     Option.bind (str_field ''type'' kvs) (\<lambda>t.
     Option.bind (str_field ''call_id'' kvs) (\<lambda>c.
     Option.bind (str_field ''name'' kvs) (\<lambda>n.
       Some \<lparr>ri_id = i, ri_type = t, ri_call_id = c, ri_name = n,
         ri_arguments = field ''arguments'' kvs, ri_input = field ''input'' kvs\<rparr>))))"

definition decode_resp_usage :: "obj \<Rightarrow> resp_usage option" where
  "decode_resp_usage kvs =
     Option.bind (int64_pair ''input_tokens'' ''prompt_tokens'' kvs) (\<lambda>(i, p).
     Option.bind (int64_pair ''output_tokens'' ''completion_tokens'' kvs) (\<lambda>(out, c).
       Some \<lparr>ru_input = i, ru_prompt = p, ru_output = out, ru_completion = c\<rparr>))"

definition decode_response :: "obj \<Rightarrow> resp_response option" where
  "decode_response kvs =
     Option.bind (str_field ''model'' kvs) (\<lambda>m.
     Option.bind (ptr_field ''usage'' decode_resp_usage kvs) (\<lambda>u.
     Option.bind (ptr_field ''error'' (str_field ''message'') kvs) (\<lambda>e.
       Some \<lparr>rr_model = m, rr_usage = u, rr_error = e\<rparr>)))"

definition decode_responsesEvent :: "body \<Rightarrow> responsesEvent option" where
  "decode_responsesEvent b =
     Option.bind (body_obj b) (\<lambda>kvs.
     Option.bind (str_field ''type'' kvs) (\<lambda>t.
     Option.bind (str_field ''delta'' kvs) (\<lambda>d.
     Option.bind (str_field ''item_id'' kvs) (\<lambda>ii.
     Option.bind (ptr_field ''item'' decode_item kvs) (\<lambda>i.
     Option.bind (ptr_field ''response'' decode_response kvs) (\<lambda>r.
     Option.bind (ptr_field ''error'' (str_field ''message'') kvs) (\<lambda>e.
       Some \<lparr>re_type = t, re_delta = d, re_item_id = ii, re_item = i, re_response = r, re_error = e\<rparr>)))))))"

text \<open>json.Marshal of the decoded event.\<close>

definition error_json :: "string option \<Rightarrow> json" where
  "error_json e = (case e of None \<Rightarrow> JNull | Some m \<Rightarrow> JObj [(''message'', JStr m)])"

definition event_json :: "responsesEvent \<Rightarrow> json" where
  "event_json e = JObj [(''type'', JStr (re_type e)), (''delta'', JStr (re_delta e)),
     (''item_id'', JStr (re_item_id e)),
     (''item'', case re_item e of None \<Rightarrow> JNull
        | Some i \<Rightarrow> JObj [(''id'', JStr (ri_id i)), (''type'', JStr (ri_type i)),
            (''call_id'', JStr (ri_call_id i)), (''name'', JStr (ri_name i)),
            (''arguments'', ri_arguments i), (''input'', ri_input i)]),
     (''response'', case re_response e of None \<Rightarrow> JNull
        | Some r \<Rightarrow> JObj [(''model'', JStr (rr_model r)),
            (''usage'', case rr_usage r of None \<Rightarrow> JNull
               | Some u \<Rightarrow> JObj [(''input_tokens'', opt_int (ru_input u)),
                   (''prompt_tokens'', opt_int (ru_prompt u)), (''output_tokens'', opt_int (ru_output u)),
                   (''completion_tokens'', opt_int (ru_completion u))]),
            (''error'', error_json (rr_error r))]),
     (''error'', error_json (re_error e))]"

definition usagePair :: "responsesEvent \<Rightarrow> int option \<times> int option" where
  "usagePair e =
     (case Option.bind (re_response e) rr_usage of
        None \<Rightarrow> (None, None)
      | Some u \<Rightarrow> (if ru_input u = None then ru_prompt u else ru_input u,
                   if ru_output u = None then ru_completion u else ru_output u))"

definition argumentsString :: "codec \<Rightarrow> json \<Rightarrow> json \<Rightarrow> string" where
  "argumentsString cd primary fallback =
     (case primary of
        JStr s \<Rightarrow> s
      | _ \<Rightarrow> (case fallback of
          JStr s \<Rightarrow> s
        | _ \<Rightarrow> if primary \<noteq> JNull then enc cd primary
              else if fallback \<noteq> JNull then enc cd fallback else ''''))"

section \<open>The translator\<close>

record ResponsesToChatTranslator =
  rc_head :: chat_head
  rc_roleSent :: bool
  rc_toolIndex :: int
  rc_toolByItem :: "string \<rightharpoonup> int"
  rc_argsEmitted :: "int set"
  rc_promptTokens :: "int option"
  rc_completionTokens :: "int option"
  rc_finished :: bool
  rc_rand :: nat

definition NewResponsesToChatTranslator :: "(nat \<Rightarrow> string) \<Rightarrow> int \<Rightarrow> string \<Rightarrow> ResponsesToChatTranslator" where
  "NewResponsesToChatTranslator rid now model = \<lparr>
     rc_head = \<lparr>hd_model = model, hd_id = ''chatcmpl-'' @ rid 0, hd_created = now\<rparr>,
     rc_roleSent = False, rc_toolIndex = 0, rc_toolByItem = Map.empty, rc_argsEmitted = {},
     rc_promptTokens = None, rc_completionTokens = None, rc_finished = False, rc_rand = 1\<rparr>"

definition rc_chunk :: "obj \<Rightarrow> json \<Rightarrow> ResponsesToChatTranslator emit" where
  "rc_chunk delta fin t =
     ([chat_frame (rc_head t) (with_role (rc_roleSent t) delta) fin []], t\<lparr>rc_roleSent := True\<rparr>)"

definition rc_terminal :: "ResponsesToChatTranslator emit" where
  "rc_terminal t =
     ([chat_frame (rc_head t) [] (JStr (if 0 < rc_toolIndex t then ''tool_calls'' else ''stop''))
         (usage_fields (rc_promptTokens t) (rc_completionTokens t)), DoneFrame],
      t\<lparr>rc_finished := True\<rparr>)"

definition rc_Finish :: "ResponsesToChatTranslator emit" where
  "rc_Finish t = (if rc_finished t then ([], t) else rc_terminal t)"

definition is_tool_item :: "resp_item \<Rightarrow> bool" where
  "is_tool_item i \<longleftrightarrow> ri_type i = ''function_call'' \<or> ri_type i = ''custom_tool_call''"

definition rc_text :: "string \<Rightarrow> string \<Rightarrow> ResponsesToChatTranslator emit" where
  "rc_text key txt t = (if txt = '''' then ([], t) else rc_chunk [(key, JStr txt)] JNull t)"

text \<open>The slot of a new item; an item without any key gets one that is not remembered.\<close>

definition rc_slot :: "string \<Rightarrow> ResponsesToChatTranslator \<Rightarrow> int \<times> ResponsesToChatTranslator" where
  "rc_slot key t =
     (case rc_toolByItem t key of
        Some idx \<Rightarrow> (idx, t)
      | None \<Rightarrow> let t1 = t\<lparr>rc_toolIndex := rc_toolIndex t + 1\<rparr> in
          (rc_toolIndex t, if key = '''' then t1 else t1\<lparr>rc_toolByItem := (rc_toolByItem t)(key \<mapsto> rc_toolIndex t)\<rparr>))"

definition rc_item_added :: "(nat \<Rightarrow> string) \<Rightarrow> responsesEvent \<Rightarrow> ResponsesToChatTranslator emit" where
  "rc_item_added rid evt t =
     (case re_item evt of
        None \<Rightarrow> ([], t)
      | Some i \<Rightarrow>
          if \<not> is_tool_item i then ([], t)
          else let key = (if ri_id i \<noteq> '''' then ri_id i
                     else if re_item_id evt \<noteq> '''' then re_item_id evt else ri_call_id i);
                   (idx, t1) = rc_slot key t;
                   (callID, t2) = (if ri_call_id i = ''''
                     then (''call_'' @ rid (rc_rand t1), t1\<lparr>rc_rand := rc_rand t1 + 1\<rparr>)
                     else (ri_call_id i, t1))
               in rc_chunk (tool_start idx callID (ri_name i)) JNull t2)"

definition rc_tool_of :: "string \<Rightarrow> ResponsesToChatTranslator \<Rightarrow> int" where
  "rc_tool_of key t = max 0 (case rc_toolByItem t key of Some known \<Rightarrow> known | None \<Rightarrow> rc_toolIndex t - 1)"

definition rc_args :: "int \<Rightarrow> string \<Rightarrow> ResponsesToChatTranslator emit" where
  "rc_args idx args t =
     rc_chunk (tool_args idx args) JNull (t\<lparr>rc_argsEmitted := insert idx (rc_argsEmitted t)\<rparr>)"

definition rc_args_delta :: "responsesEvent \<Rightarrow> ResponsesToChatTranslator emit" where
  "rc_args_delta evt t =
     (if re_delta evt = '''' then ([], t) else rc_args (rc_tool_of (re_item_id evt) t) (re_delta evt) t)"

definition rc_item_done :: "codec \<Rightarrow> responsesEvent \<Rightarrow> ResponsesToChatTranslator emit" where
  "rc_item_done cd evt t =
     (case re_item evt of
        None \<Rightarrow> ([], t)
      | Some i \<Rightarrow>
          if \<not> is_tool_item i then ([], t)
          else let key = (if ri_id i \<noteq> '''' then ri_id i else re_item_id evt);
                   idx = rc_tool_of key t;
                   args = argumentsString cd (ri_arguments i) (ri_input i)
               in if idx \<in> rc_argsEmitted t \<or> args = '''' then ([], t) else rc_args idx args t)"

definition rc_completed :: "responsesEvent \<Rightarrow> ResponsesToChatTranslator emit" where
  "rc_completed evt t =
     (let (input, out) = usagePair evt
      in rc_terminal (if input \<noteq> None \<or> out \<noteq> None
           then t\<lparr>rc_promptTokens := input, rc_completionTokens := out\<rparr> else t))"

definition rc_error_text :: "codec \<Rightarrow> responsesEvent \<Rightarrow> string" where
  "rc_error_text cd evt =
     (let m = (case re_error evt of
            Some m \<Rightarrow> m
          | None \<Rightarrow> (case Option.bind (re_response evt) rr_error of None \<Rightarrow> '''' | Some m \<Rightarrow> m))
      in ''[Error] '' @ (if m = '''' then enc cd (event_json evt) else m))"

definition rc_error :: "codec \<Rightarrow> responsesEvent \<Rightarrow> ResponsesToChatTranslator emit" where
  "rc_error cd evt t =
     emit_seq (rc_chunk [(''content'', JStr (rc_error_text cd evt))] (JStr ''stop''))
       (\<lambda>t. ([DoneFrame], t)) (t\<lparr>rc_finished := True\<rparr>)"

definition rc_dispatch :: "codec \<Rightarrow> (nat \<Rightarrow> string) \<Rightarrow> string \<Rightarrow> responsesEvent \<Rightarrow> ResponsesToChatTranslator emit" where
  "rc_dispatch cd rid kind evt t =
     (if kind = ''response.output_text.delta'' then rc_text ''content'' (re_delta evt) t
      else if kind = ''response.output_text.done'' then ([], t)
      else if kind = ''response.output_item.added'' then rc_item_added rid evt t
      else if kind = ''response.function_call_arguments.delta''
           \<or> kind = ''response.custom_tool_call_input.delta'' then rc_args_delta evt t
      else if kind = ''response.output_item.done'' then rc_item_done cd evt t
      else if kind \<in> {''response.completed'', ''response.done'', ''response.incomplete''} then rc_completed evt t
      else if kind = ''error'' \<or> kind = ''response.failed'' then rc_error cd evt t
      else if kind = ''response.reasoning_summary_text.delta'' then rc_text ''reasoning_content'' (re_delta evt) t
      else ([], t))"

definition rc_event_type :: "string \<Rightarrow> responsesEvent \<Rightarrow> string" where
  "rc_event_type event evt = (if re_type evt \<noteq> '''' then re_type evt else event)"

definition rc_learn_model :: "responsesEvent \<Rightarrow> ResponsesToChatTranslator \<Rightarrow> ResponsesToChatTranslator" where
  "rc_learn_model evt t =
     (case re_response evt of
        None \<Rightarrow> t
      | Some r \<Rightarrow> if hd_model (rc_head t) = '''' \<and> rr_model r \<noteq> ''''
          then t\<lparr>rc_head := (rc_head t)\<lparr>hd_model := rr_model r\<rparr>\<rparr> else t)"

definition rc_FeedEvent :: "codec \<Rightarrow> (nat \<Rightarrow> string) \<Rightarrow> string \<times> string \<Rightarrow> ResponsesToChatTranslator emit" where
  "rc_FeedEvent cd rid ed t =
     (if rc_finished t then ([], t)
      else (case decode_responsesEvent (dec cd (snd ed)) of
          None \<Rightarrow> ([], t)
        | Some evt \<Rightarrow> rc_dispatch cd rid (rc_event_type (fst ed) evt) evt (rc_learn_model evt t)))"

section \<open>The chat protocol\<close>

definition rc_rel :: "ResponsesToChatTranslator \<Rightarrow> chat_phase \<Rightarrow> bool" where
  "rc_rel t q \<longleftrightarrow> q = (if rc_finished t then Ended else Streaming)"

abbreviation rc_running :: "ResponsesToChatTranslator \<Rightarrow> chat_phase \<Rightarrow> bool" where
  "rc_running t q \<equiv> \<not> rc_finished t \<and> q = Streaming"

lemma rc_chunk_keeps: "keeps chat_acc rc_running rc_running (rc_chunk d JNull)"
  by (simp add: keeps_def rc_chunk_def chat_acc_chunk)

lemma rc_text_keeps: "keeps chat_acc rc_running rc_running (rc_text k txt)"
  by (rule keepsI) (simp add: rc_text_def rc_chunk_def chat_acc_chunk)

lemma rc_args_keeps: "keeps chat_acc rc_running rc_running (rc_args idx args)"
  unfolding rc_args_def by (rule keeps_pre [OF rc_chunk_keeps]) simp

lemma rc_args_delta_keeps: "keeps chat_acc rc_running rc_running (rc_args_delta evt)"
proof (rule keepsI)
  fix t q assume run: "rc_running t q"
  from keepsD [OF rc_args_keeps this] run
  show "\<exists>q'. accept_all chat_acc (fst (rc_args_delta evt t)) q = Some q' \<and> rc_running (snd (rc_args_delta evt t)) q'"
    by (simp add: rc_args_delta_def)
qed

lemma rc_item_done_keeps: "keeps chat_acc rc_running rc_running (rc_item_done cd evt)"
proof (rule keepsI)
  fix t q assume run: "rc_running t q"
  from keepsD [OF rc_args_keeps this] run
  show "\<exists>q'. accept_all chat_acc (fst (rc_item_done cd evt t)) q = Some q' \<and> rc_running (snd (rc_item_done cd evt t)) q'"
    by (simp add: rc_item_done_def Let_def split: option.split)
qed

lemma rc_slot_finished: "rc_slot key t = (idx, t') \<Longrightarrow> rc_finished t' = rc_finished t"
  by (auto simp: rc_slot_def Let_def split: option.splits if_splits)

lemma rc_item_added_keeps: "keeps chat_acc rc_running rc_running (rc_item_added rid evt)"
proof (rule keepsI)
  fix t q assume run: "rc_running t q"
  show "\<exists>q'. accept_all chat_acc (fst (rc_item_added rid evt t)) q = Some q' \<and> rc_running (snd (rc_item_added rid evt t)) q'"
  proof (cases "re_item evt")
    case None
    with run show ?thesis by (simp add: rc_item_added_def)
  next
    case (Some i)
    let ?key = "if ri_id i \<noteq> '''' then ri_id i else if re_item_id evt \<noteq> '''' then re_item_id evt else ri_call_id i"
    obtain idx t1 where slot: "rc_slot ?key t = (idx, t1)" by fastforce
    with run have "\<not> rc_finished t1" using rc_slot_finished by blast
    with run Some slot show ?thesis by (simp add: rc_item_added_def rc_chunk_def chat_acc_chunk Let_def)
  qed
qed

lemma rc_terminal_keeps: "keeps chat_acc rc_running rc_rel rc_terminal"
  by (rule keepsI) (simp add: rc_terminal_def rc_rel_def chat_acc_chunk)

lemma rc_completed_keeps: "keeps chat_acc rc_running rc_rel (rc_completed evt)"
  unfolding rc_completed_def Let_def case_prod_unfold by (rule keeps_pre [OF rc_terminal_keeps]) simp

lemma rc_error_keeps: "keeps chat_acc rc_running rc_rel (rc_error cd evt)"
  by (rule keepsI) (simp add: rc_error_def rc_chunk_def chat_acc_chunk rc_rel_def)

lemma rc_lift: "keeps chat_acc rc_running rc_running f \<Longrightarrow> keeps chat_acc rc_running rc_rel f"
  unfolding keeps_def rc_rel_def by fastforce

lemmas rc_case_keeps = rc_text_keeps rc_item_added_keeps rc_args_delta_keeps rc_item_done_keeps

lemma rc_dispatch_keeps: "keeps chat_acc rc_running rc_rel (rc_dispatch cd rid kind evt)"
proof (rule keepsI)
  fix t q assume run: "rc_running t q"
  then have "rc_rel t q" by (simp add: rc_rel_def)
  with run keepsD [OF rc_case_keeps(1) [THEN rc_lift] run] keepsD [OF rc_case_keeps(2) [THEN rc_lift] run]
    keepsD [OF rc_case_keeps(3) [THEN rc_lift] run] keepsD [OF rc_case_keeps(4) [THEN rc_lift] run]
    keepsD [OF rc_completed_keeps run] keepsD [OF rc_error_keeps run]
  show "\<exists>q'. accept_all chat_acc (fst (rc_dispatch cd rid kind evt t)) q = Some q' \<and>
      rc_rel (snd (rc_dispatch cd rid kind evt t)) q'"
    by (simp add: rc_dispatch_def)
qed

lemma rc_learn_finished [simp]: "rc_finished (rc_learn_model evt t) = rc_finished t"
  by (simp add: rc_learn_model_def split: option.split)

lemma rc_FeedEvent_keeps: "keeps chat_acc rc_rel rc_rel (rc_FeedEvent cd rid ed)"
proof (rule keepsI)
  fix t q assume rel: "rc_rel t q"
  show "\<exists>q'. accept_all chat_acc (fst (rc_FeedEvent cd rid ed t)) q = Some q' \<and>
      rc_rel (snd (rc_FeedEvent cd rid ed t)) q'"
  proof (cases "rc_finished t")
    case True
    with rel show ?thesis by (simp add: rc_FeedEvent_def)
  next
    case False
    with rel have "rc_running (rc_learn_model evt t) q" for evt by (simp add: rc_rel_def)
    from keepsD [OF rc_dispatch_keeps this] rel False show ?thesis
      by (simp add: rc_FeedEvent_def split: option.split)
  qed
qed

lemma rc_Finish_keeps: "keeps chat_acc rc_rel (\<lambda>_ q. q = Ended) rc_Finish"
  by (rule keepsI) (simp add: rc_Finish_def rc_terminal_def rc_rel_def chat_acc_chunk)

interpretation rc: stream_protocol "rc_FeedEvent cd rid" rc_Finish chat_acc rc_rel always
    "\<lambda>q. q = Ended" for cd rid
  by unfold_locales
    (auto simp: always_def intro: rc_FeedEvent_keeps keeps_weaken [OF rc_Finish_keeps])

lemma rc_rel_new [simp]: "rc_rel (NewResponsesToChatTranslator rid now model) Streaming"
  by (simp add: rc_rel_def NewResponsesToChatTranslator_def)

section \<open>The text is preserved\<close>

definition rc_terminal_type :: "string \<Rightarrow> bool" where
  "rc_terminal_type kind \<longleftrightarrow> kind \<in> {''response.completed'', ''response.done'', ''response.incomplete''}"

fun responses_text :: "codec \<Rightarrow> (string \<times> string) list \<Rightarrow> string" where
  "responses_text cd [] = ''''"
| "responses_text cd (ed # eds) =
     (case decode_responsesEvent (dec cd (snd ed)) of
        None \<Rightarrow> responses_text cd eds
      | Some evt \<Rightarrow> let kind = rc_event_type (fst ed) evt in
          if kind = ''error'' \<or> kind = ''response.failed'' then rc_error_text cd evt
          else if rc_terminal_type kind then ''''
          else if kind = ''response.output_text.delta'' then re_delta evt @ responses_text cd eds
          else responses_text cd eds)"

lemma rc_chunk_content [simp]:
  "stream_content (fst (rc_chunk d f t)) = stringOf (mget ''content'' d)"
  by (simp add: rc_chunk_def)

lemma rc_case_content:
  "stream_content (fst (rc_text ''content'' txt t)) = txt"
  "stream_content (fst (rc_text ''reasoning_content'' txt t)) = ''''"
  "stream_content (fst (rc_item_added rid evt t)) = ''''"
  "stream_content (fst (rc_args_delta evt t)) = ''''"
  "stream_content (fst (rc_item_done cd evt t)) = ''''"
  "stream_content (fst (rc_completed evt t)) = ''''"
  "stream_content (fst (rc_error cd evt t)) = rc_error_text cd evt"
  by (simp_all add: rc_text_def rc_item_added_def rc_args_delta_def rc_item_done_def rc_completed_def
      rc_error_def rc_args_def rc_terminal_def mget_Cons Let_def split: option.split prod.split)

lemma rc_keeps_running:
  "keeps chat_acc rc_running rc_running f \<Longrightarrow> \<not> rc_finished t \<Longrightarrow> \<not> rc_finished (snd (f t))"
  using keepsD [of chat_acc rc_running rc_running f t Streaming] by blast

lemma rc_finished_emits:
  "rc_finished t \<Longrightarrow> run_stream (rc_FeedEvent cd rid) rc_Finish es t = []"
proof (induction es)
  case Nil
  then show ?case by (simp add: run_stream_Nil rc_Finish_def)
next
  case (Cons e es)
  then show ?case by (simp add: run_stream_Cons rc_FeedEvent_def)
qed

lemma rc_terminal_finished:
  "rc_finished (snd (rc_completed evt t))" "rc_finished (snd (rc_error cd evt t))"
  by (simp_all add: rc_completed_def rc_terminal_def rc_error_def rc_chunk_def Let_def split: prod.split)

lemma rc_dispatch_text:
  "stream_content (fst (rc_dispatch cd rid kind evt t)) =
    (if kind = ''error'' \<or> kind = ''response.failed'' then rc_error_text cd evt
     else if kind = ''response.output_text.delta'' then re_delta evt else '''')"
  by (auto simp: rc_dispatch_def rc_case_content)

lemma rc_dispatch_finished:
  assumes "\<not> rc_finished t"
  shows "rc_finished (snd (rc_dispatch cd rid kind evt t)) \<longleftrightarrow>
    kind = ''error'' \<or> kind = ''response.failed'' \<or> rc_terminal_type kind"
  using assms rc_case_keeps [THEN rc_keeps_running, OF assms]
  by (auto simp: rc_dispatch_def rc_terminal_type_def rc_terminal_finished)

lemma rc_text_preserved:
  "\<not> rc_finished t \<Longrightarrow>
    stream_content (run_stream (rc_FeedEvent cd rid) rc_Finish es t) = responses_text cd es"
proof (induction es arbitrary: t)
  case Nil
  then show ?case by (simp add: run_stream_Nil rc_Finish_def rc_terminal_def)
next
  case (Cons ed es)
  show ?case
  proof (cases "decode_responsesEvent (dec cd (snd ed))")
    case None
    with Cons show ?thesis by (simp add: run_stream_Cons rc_FeedEvent_def)
  next
    case (Some evt)
    let ?kind = "rc_event_type (fst ed) evt"
    let ?t = "snd (rc_dispatch cd rid ?kind evt (rc_learn_model evt t))"
    have feed: "rc_FeedEvent cd rid ed t = rc_dispatch cd rid ?kind evt (rc_learn_model evt t)"
      using Cons.prems Some by (simp add: rc_FeedEvent_def)
    have fin: "rc_finished ?t \<longleftrightarrow> ?kind = ''error'' \<or> ?kind = ''response.failed'' \<or> rc_terminal_type ?kind"
      using Cons.prems by (intro rc_dispatch_finished) simp
    show ?thesis
    proof (cases "rc_finished ?t")
      case True
      with fin show ?thesis
        by (auto simp: run_stream_Cons feed rc_dispatch_text rc_finished_emits rc_terminal_type_def Some Let_def)
    next
      case False
      with fin Cons.IH [OF False] show ?thesis
        by (simp add: run_stream_Cons feed rc_dispatch_text Some Let_def)
    qed
  qed
qed

end
