(* ===== verification/Translate_Base.thy ===== *)
theory Translate_Base
  imports Stream_Anthropic "HOL-Library.State_Monad"
begin

text \<open>
  The shared parts of the request translators (internal/provider/common.go): the text of a message's
  content and its tool calls. Fresh identifiers make the translators stateful; they run in the state
  monad over the count of identifiers drawn from the sequence \<open>rid\<close>.
\<close>

type_synonym 'a fresh = "(nat, 'a) state"

definition randomHexID :: "(nat \<Rightarrow> string) \<Rightarrow> string fresh" where
  "randomHexID rid = State (\<lambda>n. (rid n, n + 1))"

definition call_id :: "(nat \<Rightarrow> string) \<Rightarrow> string \<Rightarrow> string fresh" where
  "call_id rid given = (if given = ''''
     then State_Monad.bind (randomHexID rid) (\<lambda>h. State_Monad.return (''call_'' @ h))
     else State_Monad.return given)"

text \<open>A field of a nested map; a missing map reads as empty.\<close>

definition sub_map :: "string \<Rightarrow> obj \<Rightarrow> obj" where
  "sub_map k m = (case as_obj (mget k m) of None \<Rightarrow> [] | Some o1 \<Rightarrow> o1)"

definition is_map :: "json \<Rightarrow> bool" where
  "is_map v \<longleftrightarrow> as_obj v \<noteq> None"

definition content_text :: "json \<Rightarrow> string list" where
  "content_text p = (case p of
     JObj m \<Rightarrow> if stringOf (mget ''text'' m) \<noteq> '''' then [stringOf (mget ''text'' m)]
               else if stringOf (mget ''content'' m) \<noteq> '''' then [stringOf (mget ''content'' m)] else []
   | JStr s \<Rightarrow> [s]
   | _ \<Rightarrow> [])"

definition instructionsText :: "json \<Rightarrow> string" where
  "instructionsText content = (case content of
     JStr s \<Rightarrow> s | JArr ps \<Rightarrow> join [nl] (concat (map content_text ps)) | _ \<Rightarrow> '''')"

definition messageText :: "json \<Rightarrow> string" where
  "messageText content = instructionsText content"

record chatToolCall =
  tc_id :: string
  tc_name :: string
  tc_arguments :: string

definition toolCallOf :: "(nat \<Rightarrow> string) \<Rightarrow> json \<Rightarrow> chatToolCall list fresh" where
  "toolCallOf rid item =
     (case as_obj item of
        None \<Rightarrow> State_Monad.return []
      | Some tc \<Rightarrow>
          let fn = sub_map ''function'' tc; name = trim_space (stringOf (mget ''name'' fn));
              args = stringOf (mget ''arguments'' fn)
          in if name = '''' then State_Monad.return []
             else State_Monad.bind (call_id rid (stringOf (mget ''id'' tc))) (\<lambda>i. State_Monad.return
               [\<lparr>tc_id = i, tc_name = name, tc_arguments = (if args = '''' then ''{}'' else args)\<rparr>]))"

fun toolCallList :: "(nat \<Rightarrow> string) \<Rightarrow> json list \<Rightarrow> chatToolCall list fresh" where
  "toolCallList rid [] = State_Monad.return []"
| "toolCallList rid (item # items) =
     State_Monad.bind (toolCallOf rid item) (\<lambda>cs.
     State_Monad.bind (toolCallList rid items) (\<lambda>ds. State_Monad.return (cs @ ds)))"

definition toolCallsOf :: "(nat \<Rightarrow> string) \<Rightarrow> obj \<Rightarrow> chatToolCall list fresh" where
  "toolCallsOf rid msg = (case as_arr (mget ''tool_calls'' msg) of
     None \<Rightarrow> State_Monad.return [] | Some raw \<Rightarrow> toolCallList rid raw)"

definition upstreamModelName :: "body \<Rightarrow> string" where
  "upstreamModelName body =
     (case Option.bind (body_obj body) (str_field ''model'') of None \<Rightarrow> '''' | Some m \<Rightarrow> m)"

definition default_schema :: obj where
  "default_schema = [(''type'', JStr ''object''), (''properties'', JObj [])]"

text \<open>The value a fresh computation returns.\<close>

definition value_of :: "'a fresh \<Rightarrow> nat \<Rightarrow> 'a" where
  "value_of m n = fst (run_state m n)"

definition next_of :: "'a fresh \<Rightarrow> nat \<Rightarrow> nat" where
  "next_of m n = snd (run_state m n)"

lemma fresh_simps [simp]:
  "value_of (State_Monad.return a) n = a" "next_of (State_Monad.return a) n = n"
  "value_of (State_Monad.bind m f) n = value_of (f (value_of m n)) (next_of m n)"
  "next_of (State_Monad.bind m f) n = next_of (f (value_of m n)) (next_of m n)"
  "value_of (randomHexID rid) n = rid n" "next_of (randomHexID rid) n = n + 1"
  by (simp_all add: value_of_def next_of_def State_Monad.return_def State_Monad.bind_def
      randomHexID_def split: prod.split)

lemma call_id_given: "given \<noteq> '''' \<Longrightarrow> value_of (call_id rid given) n = given"
  and call_id_fresh: "value_of (call_id rid '''') n = ''call_'' @ rid n"
  and call_id_nonempty: "value_of (call_id rid given) n \<noteq> ''''"
  by (simp_all add: call_id_def)

text \<open>Every call has a name, an identifier and arguments.\<close>

definition call_ok :: "chatToolCall \<Rightarrow> bool" where
  "call_ok c \<longleftrightarrow> tc_id c \<noteq> '''' \<and> tc_name c \<noteq> '''' \<and> tc_arguments c \<noteq> ''''"

lemma toolCallOf_ok: "\<forall>c \<in> set (value_of (toolCallOf rid item) n). call_ok c"
  by (auto simp: toolCallOf_def call_ok_def call_id_nonempty Let_def split: option.split)

lemma toolCallList_ok: "\<forall>c \<in> set (value_of (toolCallList rid items) n). call_ok c"
  by (induction items arbitrary: n) (use toolCallOf_ok in auto)

lemma toolCallsOf_ok: "\<forall>c \<in> set (value_of (toolCallsOf rid msg) n). call_ok c"
  using toolCallList_ok by (auto simp: toolCallsOf_def split: option.split)

end
