(* ===== verification/Reasoning.thy ===== *)
theory Reasoning
  imports Json Types
begin

text \<open>
  internal/provider/reasoning.go and the chatRequest of common.go: the canonical reasoning effort and
  its extraction from and installation in the two request formats.
\<close>

section \<open>The effort ladder\<close>

definition effort_switch :: "string \<Rightarrow> string option" where
  "effort_switch e =
     (if e = '''' then None
      else if e = ''auto'' then None
      else if e \<in> {''off'', ''none'', ''disabled''} then Some ''none''
      else if e \<in> {''min'', ''minimal''} then Some ''minimal''
      else if e \<in> {''low'', ''medium'', ''high'', ''xhigh'', ''max''} then Some e
      else if e = ''ultra'' then Some ''xhigh''
      else if e = ''adaptive'' then Some ''high''
      else None)"

definition NormalizeEffort :: "string \<Rightarrow> string option" where
  "NormalizeEffort s = effort_switch (to_lower (trim_space s))"

definition MapChatEffortToAnthropic :: "string \<Rightarrow> string" where
  "MapChatEffortToAnthropic effort =
     (if effort = ''minimal'' then ''low'' else if effort = ''adaptive'' then ''high'' else effort)"

text \<open>Its second result is always true.\<close>

definition BudgetToLevel :: "int \<Rightarrow> string" where
  "BudgetToLevel budget =
     (if budget \<le> 0 then ''none'' else if budget \<le> 768 then ''minimal'' else if budget \<le> 4096 then ''low''
      else if budget \<le> 16384 then ''medium'' else if budget \<le> 28672 then ''high''
      else if budget \<le> 32768 then ''xhigh'' else ''max'')"

definition canonical_efforts :: "string list" where
  "canonical_efforts = [''none'', ''minimal'', ''low'', ''medium'', ''high'', ''xhigh'', ''max'']"

text \<open>suffixRe: the text before the last pair of parentheses, and the text inside.\<close>

definition is_paren :: "char \<Rightarrow> bool" where
  "is_paren c \<longleftrightarrow> c = CHR ''('' \<or> c = CHR '')''"

definition suffix_match :: "string \<Rightarrow> (string \<times> string) option" where
  "suffix_match m =
     (case dropWhile regex_space (rev m) of
        [] \<Rightarrow> None
      | c # r \<Rightarrow>
          let b = takeWhile (\<lambda>c. \<not> is_paren c) r in
          if c \<noteq> CHR '')'' \<or> b = [] then None
          else (case dropWhile (\<lambda>c. \<not> is_paren c) r of
              [] \<Rightarrow> None
            | d # a \<Rightarrow> if d \<noteq> CHR ''('' \<or> CHR 0x0A \<in> set a then None else Some (rev a, rev b)))"

definition ParseThinkingSuffix :: "string \<Rightarrow> string \<times> string \<times> bool" where
  "ParseThinkingSuffix model =
     (case suffix_match model of
        None \<Rightarrow> (model, '''', False)
      | Some (m1, m2) \<Rightarrow>
          let clean = trim_space m1 in
          if clean = '''' then (model, '''', False)
          else let raw = to_lower (trim_space m2) in
          if raw = ''none'' \<or> raw = ''off'' then (clean, ''none'', True)
          else if raw = ''auto'' then (clean, '''', False)
          else (case atoi raw of
              Some n \<Rightarrow> (clean, BudgetToLevel n, True)
            | None \<Rightarrow> (case NormalizeEffort raw of
                  Some lvl \<Rightarrow> (clean, lvl, True)
                | None \<Rightarrow> (model, '''', False))))"

section \<open>Chat requests\<close>

record chatRequest =
  cr_model :: string
  cr_messages :: "obj list"
  cr_tools :: "obj list"
  cr_tool_choice :: json
  cr_temperature :: "rat option"
  cr_top_p :: "rat option"
  cr_max_tokens :: "int option"
  cr_max_completion :: "int option"
  cr_max_output :: "int option"
  cr_effort :: "string option"
  cr_reasoning :: json
  cr_service_tier :: "string option"
  cr_response_format :: json
  cr_stop :: json
  cr_input :: json

definition decode_chatRequest :: "body \<Rightarrow> chatRequest option" where
  "decode_chatRequest b =
     Option.bind (body_obj b) (\<lambda>kvs.
     Option.bind (str_field ''model'' kvs) (\<lambda>model.
     Option.bind (objs_field ''messages'' kvs) (\<lambda>messages.
     Option.bind (objs_field ''tools'' kvs) (\<lambda>tools.
     Option.bind (nump_field ''temperature'' kvs) (\<lambda>temperature.
     Option.bind (nump_field ''top_p'' kvs) (\<lambda>topP.
     Option.bind (intp_field ''max_tokens'' kvs) (\<lambda>maxTokens.
     Option.bind (intp_field ''max_completion_tokens'' kvs) (\<lambda>maxCompletion.
     Option.bind (intp_field ''max_output_tokens'' kvs) (\<lambda>maxOutput.
     Option.bind (strp_field ''reasoning_effort'' kvs) (\<lambda>effort.
     Option.bind (strp_field ''service_tier'' kvs) (\<lambda>tier.
       Some \<lparr>cr_model = model, cr_messages = messages, cr_tools = tools,
         cr_tool_choice = field ''tool_choice'' kvs, cr_temperature = temperature, cr_top_p = topP,
         cr_max_tokens = maxTokens, cr_max_completion = maxCompletion, cr_max_output = maxOutput,
         cr_effort = effort, cr_reasoning = field ''reasoning'' kvs, cr_service_tier = tier,
         cr_response_format = field ''response_format'' kvs, cr_stop = field ''stop'' kvs,
         cr_input = field ''input'' kvs\<rparr>)))))))))))"

text \<open>nested effort: m["effort"] of a value that is an object.\<close>

definition nested_effort :: "json \<Rightarrow> string option" where
  "nested_effort v = (case as_obj v of None \<Rightarrow> None | Some m \<Rightarrow> NormalizeEffort (stringOf (mget ''effort'' m)))"

definition ExtractChatEffort :: "body \<Rightarrow> string option" where
  "ExtractChatEffort b =
     (case decode_chatRequest b of
        None \<Rightarrow> None
      | Some r \<Rightarrow>
          (case Option.bind (cr_effort r) NormalizeEffort of
             Some lvl \<Rightarrow> Some lvl
           | None \<Rightarrow> nested_effort (cr_reasoning r)))"

text \<open>int(v) of a float64 truncates towards zero.\<close>

definition truncate_rat :: "rat \<Rightarrow> int" where
  "truncate_rat r = (if 0 \<le> r then \<lfloor>r\<rfloor> else \<lceil>r\<rceil>)"

definition budget_of :: "json \<Rightarrow> int" where
  "budget_of v = (case v of
     JNum r \<Rightarrow> truncate_rat r
   | JStr s \<Rightarrow> (case atoi (trim_space s) of None \<Rightarrow> 0 | Some n \<Rightarrow> n)
   | _ \<Rightarrow> 0)"

definition thinking_effort :: "obj \<Rightarrow> string option" where
  "thinking_effort th =
     (let typ = to_lower (trim_space (stringOf (mget ''type'' th))) in
      if typ = ''disabled'' then Some ''none''
      else if typ = ''adaptive'' \<or> typ = ''enabled'' then
        (case NormalizeEffort (stringOf (mget ''effort'' th)) of
           Some lvl \<Rightarrow> Some lvl
         | None \<Rightarrow> let budget = budget_of (mget ''budget_tokens'' th) in
             if 0 < budget then Some (BudgetToLevel budget) else None)
      else None)"

definition ExtractAnthropicEffort :: "body \<Rightarrow> string option" where
  "ExtractAnthropicEffort b =
     (case body_obj b of
        None \<Rightarrow> None
      | Some raw \<Rightarrow>
          let th = as_obj (mget ''thinking'' raw); oc = as_obj (mget ''output_config'' raw);
              disabled = (case th of None \<Rightarrow> False
                | Some m \<Rightarrow> equal_fold (trim_space (stringOf (mget ''type'' m))) ''disabled'');
              rest = (case th of None \<Rightarrow> None | Some m \<Rightarrow> thinking_effort m) in
          if disabled then Some ''none''
          else (case oc of
              None \<Rightarrow> rest
            | Some m \<Rightarrow> (case NormalizeEffort (stringOf (mget ''effort'' m)) of
                  Some lvl \<Rightarrow> Some lvl
                | None \<Rightarrow> if equal_fold (trim_space (stringOf (mget ''effort'' m))) ''auto''
                    then None else rest)))"

section \<open>Writers\<close>

definition SetChatEffort :: "string \<Rightarrow> body \<Rightarrow> body" where
  "SetChatEffort effort = with_map (mset_field ''reasoning_effort'' (JStr effort))"

definition SetAnthropicThinking :: "string \<Rightarrow> body \<Rightarrow> body" where
  "SetAnthropicThinking effort = with_map (\<lambda>kvs.
     if effort = ''none''
     then mdel ''output_config'' (mset_field ''thinking'' (JObj [(''type'', JStr ''disabled'')]) kvs)
     else mset_field ''output_config'' (JObj [(''effort'', JStr (MapChatEffortToAnthropic effort))])
            (mset_field ''thinking'' (JObj [(''type'', JStr ''adaptive'')]) kvs))"

definition SetAnthropicBudget :: "int \<Rightarrow> body \<Rightarrow> body" where
  "SetAnthropicBudget budget = with_map (mset_field ''thinking''
     (JObj [(''type'', JStr ''enabled''), (''budget_tokens'', JInt (max 1024 budget))]))"

definition StripChatForeign :: "body \<Rightarrow> body" where
  "StripChatForeign = with_map (\<lambda>kvs. mdel ''output_config'' (mdel ''thinking'' kvs))"

definition StripAnthropicForeign :: "body \<Rightarrow> body" where
  "StripAnthropicForeign = with_map (\<lambda>kvs. mdel ''reasoning'' (mdel ''reasoning_effort'' kvs))"

section \<open>The ladder's laws\<close>

lemma BudgetToLevel_canonical: "BudgetToLevel n \<in> set canonical_efforts"
  by (simp add: BudgetToLevel_def canonical_efforts_def)

lemma NormalizeEffort_canonical:
  "NormalizeEffort s = Some e \<Longrightarrow> e \<in> set canonical_efforts"
  by (auto simp: NormalizeEffort_def effort_switch_def canonical_efforts_def split: if_splits)

lemma effort_switch_all: "list_all (\<lambda>e. effort_switch e = Some e) canonical_efforts"
  by (simp add: effort_switch_def canonical_efforts_def)

lemma canonical_trim_all: "list_all (\<lambda>e. to_lower (trim_space e) = e) canonical_efforts"
  by (simp add: canonical_efforts_def text_eval)

lemma canonical_trim: "e \<in> set canonical_efforts \<Longrightarrow> to_lower (trim_space e) = e"
  using canonical_trim_all by (simp add: list_all_iff)

lemma NormalizeEffort_id: "e \<in> set canonical_efforts \<Longrightarrow> NormalizeEffort e = Some e"
  using effort_switch_all canonical_trim by (simp add: NormalizeEffort_def list_all_iff)

lemma NormalizeEffort_idem: "NormalizeEffort s = Some e \<Longrightarrow> NormalizeEffort e = Some e"
  using NormalizeEffort_canonical NormalizeEffort_id by blast

definition effort_rank :: "string \<Rightarrow> nat" where
  "effort_rank e = length (takeWhile (\<lambda>x. x \<noteq> e) canonical_efforts)"

lemma BudgetToLevel_mono: "a \<le> b \<Longrightarrow> effort_rank (BudgetToLevel a) \<le> effort_rank (BudgetToLevel b)"
  by (auto simp: BudgetToLevel_def effort_rank_def canonical_efforts_def)

lemma suffix_match_Some:
  assumes "suffix_match m = Some (a, b)"
  shows "\<exists>w. m = a @ ''('' @ b @ '')'' @ w \<and> (\<forall>c \<in> set w. regex_space c) \<and> b \<noteq> [] \<and>
    CHR ''('' \<notin> set b \<and> CHR '')'' \<notin> set b \<and> CHR 0x0A \<notin> set a"
proof -
  from assms obtain r d ra where r: "dropWhile regex_space (rev m) = CHR '')'' # r"
      and b: "b = rev (takeWhile (\<lambda>c. \<not> is_paren c) r)" "b \<noteq> []"
      and a: "dropWhile (\<lambda>c. \<not> is_paren c) r = CHR ''('' # ra" "a = rev ra" "CHR 0x0A \<notin> set ra"
    by (auto simp: suffix_match_def Let_def split: list.splits if_splits)
  have "rev m = takeWhile regex_space (rev m) @ CHR '')'' # r"
    using takeWhile_dropWhile_id [of regex_space "rev m"] r by simp
  moreover have "r = rev b @ CHR ''('' # ra"
    using takeWhile_dropWhile_id [of "\<lambda>c. \<not> is_paren c" r] a(1) b(1) by simp
  ultimately have "rev m = takeWhile regex_space (rev m) @ CHR '')'' # rev b @ CHR ''('' # ra" by simp
  then have "m = rev (takeWhile regex_space (rev m) @ CHR '')'' # rev b @ CHR ''('' # ra)"
    by (metis rev_rev_ident)
  then have "m = a @ ''('' @ b @ '')'' @ rev (takeWhile regex_space (rev m))" using a(2) by simp
  moreover have "\<forall>c \<in> set b. \<not> is_paren c" using b(1) by (auto dest: set_takeWhileD)
  then have "CHR ''('' \<notin> set b" "CHR '')'' \<notin> set b" by (auto simp: is_paren_def)
  moreover have "\<forall>c \<in> set (rev (takeWhile regex_space (rev m))). regex_space c"
    by (auto dest: set_takeWhileD)
  moreover have "CHR 0x0A \<notin> set a" using a by simp
  ultimately show ?thesis using b(2) by blast
qed

lemma suffix_match_intro:
  assumes "b \<noteq> []" "CHR ''('' \<notin> set b" "CHR '')'' \<notin> set b" "CHR 0x0A \<notin> set a"
  shows "suffix_match (a @ ''('' @ b @ '')'') = Some (a, b)"
proof -
  have p: "\<not> is_paren c" if "c \<in> set (rev b)" for c
    using assms(2,3) that by (auto simp: is_paren_def)
  have par: "is_paren CHR ''(''" by (simp add: is_paren_def)
  have ns: "\<not> regex_space CHR '')''" by (simp add: regex_space_def code_of_def)
  have "takeWhile (\<lambda>c. \<not> is_paren c) (rev b @ CHR ''('' # rev a) = rev b"
      "dropWhile (\<lambda>c. \<not> is_paren c) (rev b @ CHR ''('' # rev a) = CHR ''('' # rev a"
    by (subst takeWhile_append2, erule p, simp add: par) (subst dropWhile_append2, erule p, simp add: par)
  with ns assms show ?thesis by (simp add: suffix_match_def Let_def)
qed

end
