(* ===== verification/Translate_Anthropic.thy ===== *)
theory Translate_Anthropic
  imports Translate_Base Reasoning
begin

text \<open>
  internal/provider/translate_anthropic.go, requests from chat to Anthropic: content blocks, images
  and documents, tools, and the merging of consecutive messages of one role.
\<close>

definition defaultAnthropicMaxTokens :: int where "defaultAnthropicMaxTokens = 4096"

definition text_block :: "string \<Rightarrow> json" where
  "text_block txt = JObj [(''type'', JStr ''text''), (''text'', JStr txt)]"

definition add_text :: "string \<Rightarrow> json list" where
  "add_text txt = (if txt = '''' then [] else [text_block txt])"

text \<open>strings.Cut with its results when the separator is missing.\<close>

definition cut_pair :: "char \<Rightarrow> string \<Rightarrow> string \<times> string" where
  "cut_pair sep s = (case cut_at sep s of None \<Rightarrow> (s, '''') | Some p \<Rightarrow> p)"

definition base64_source :: "string \<Rightarrow> string \<Rightarrow> json" where
  "base64_source media payload = JObj [(''type'', JStr ''base64''), (''media_type'', JStr media),
     (''data'', JStr payload)]"

text \<open>A data URL without its scheme: the media type before the first semicolon and the payload.\<close>

definition data_url_source :: "string \<Rightarrow> string \<Rightarrow> json option" where
  "data_url_source dflt rest =
     (let (meta, payload) = cut_pair CHR '','' rest; media = fst (cut_pair CHR '';'' meta)
      in if payload = '''' then None
         else Some (base64_source (if media = '''' then dflt else media) payload))"

definition image_of :: "json \<Rightarrow> json" where
  "image_of source = JObj [(''type'', JStr ''image''), (''source'', source)]"

definition image_url_of :: "json \<Rightarrow> string" where
  "image_url_of v = (case v of JStr u \<Rightarrow> u | JObj m \<Rightarrow> stringOf (mget ''url'' m) | _ \<Rightarrow> '''')"

definition anthropicImageBlock :: "json \<Rightarrow> json option" where
  "anthropicImageBlock v =
     (let url = image_url_of v in
      if url = '''' then None
      else (case cut_prefix ''data:'' url of
          Some rest \<Rightarrow> map_option image_of (data_url_source ''image/png'' rest)
        | None \<Rightarrow> Some (image_of (JObj [(''type'', JStr ''url''), (''url'', JStr url)]))))"

definition document_of :: "json \<Rightarrow> json" where
  "document_of source = JObj [(''type'', JStr ''document''), (''source'', source)]"

definition anthropicDocumentBlock :: "obj \<Rightarrow> json option" where
  "anthropicDocumentBlock m =
     (let f = (case as_obj (mget ''file'' m) of Some f \<Rightarrow> f | None \<Rightarrow> m);
          i = stringOf (mget ''file_id'' f); payload = stringOf (mget ''file_data'' f)
      in if i \<noteq> '''' then Some (document_of (JObj [(''type'', JStr ''file''), (''file_id'', JStr i)]))
         else if payload = '''' then None
         else (case cut_prefix ''data:'' payload of
             Some rest \<Rightarrow> map_option document_of (data_url_source ''application/pdf'' rest)
           | None \<Rightarrow> Some (document_of (base64_source ''application/pdf'' payload))))"

definition opt_list :: "'a option \<Rightarrow> 'a list" where
  "opt_list v = (case v of None \<Rightarrow> [] | Some x \<Rightarrow> [x])"

definition content_part :: "json \<Rightarrow> json list" where
  "content_part p = (case p of
     JObj m \<Rightarrow>
       let k = stringOf (mget ''type'' m) in
       if k = ''text'' \<or> k = ''input_text'' \<or> k = ''output_text'' then add_text (stringOf (mget ''text'' m))
       else if k = ''image_url'' then opt_list (anthropicImageBlock (mget ''image_url'' m))
       else if k = ''input_image'' then
         (let url = stringOf (mget ''image_url'' m) in
          if url = '''' then [] else opt_list (anthropicImageBlock (JStr url)))
       else if k = ''file'' \<or> k = ''input_file'' then opt_list (anthropicDocumentBlock m)
       else if k = ''input_audio'' then []
       else add_text (stringOf (mget ''text'' m))
   | JStr s \<Rightarrow> add_text s
   | _ \<Rightarrow> [])"

definition chatContentToAnthropic :: "json \<Rightarrow> json list" where
  "chatContentToAnthropic content = (case content of
     JStr s \<Rightarrow> add_text s | JArr ps \<Rightarrow> concat (map content_part ps) | _ \<Rightarrow> [])"

definition toolArguments :: "codec \<Rightarrow> string \<Rightarrow> json" where
  "toolArguments cd args =
     (if args = '''' then JObj [] else (case dec cd args of Some (JObj kvs) \<Rightarrow> JObj kvs | _ \<Rightarrow> JObj []))"

definition tool_result_part :: "json \<Rightarrow> json list" where
  "tool_result_part p = (case p of
     JStr s \<Rightarrow> add_text s
   | JObj m \<Rightarrow>
       let k = stringOf (mget ''type'' m) in
       if k = ''text'' \<or> k = ''input_text'' \<or> k = ''output_text'' then add_text (stringOf (mget ''text'' m))
       else if k = ''image_url'' \<or> k = ''input_image'' then opt_list (anthropicImageBlock (mget ''image_url'' m))
       else if k = ''file'' \<or> k = ''input_file'' then opt_list (anthropicDocumentBlock m)
       else []
   | _ \<Rightarrow> [])"

definition toolResultContent :: "codec \<Rightarrow> json \<Rightarrow> json" where
  "toolResultContent cd content = (case content of
     JStr s \<Rightarrow> JStr s
   | JArr ps \<Rightarrow> let blocks = concat (map tool_result_part ps) in
       if blocks = [] then JStr '''' else JArr blocks
   | _ \<Rightarrow> JStr (enc cd content))"

definition chatToolChoiceToAnthropic :: "json \<Rightarrow> json" where
  "chatToolChoiceToAnthropic choice =
     (let auto_choice = JObj [(''type'', JStr ''auto'')] in
      case choice of
        JStr s \<Rightarrow> if s = ''required'' then JObj [(''type'', JStr ''any'')]
                 else if s = ''none'' \<or> s = ''auto'' then JObj [(''type'', JStr s)] else auto_choice
      | JObj m \<Rightarrow> (case as_obj (mget ''function'' m) of
            None \<Rightarrow> auto_choice
          | Some fn \<Rightarrow> let name = stringOf (mget ''name'' fn) in
              if name = '''' then auto_choice
              else JObj [(''type'', JStr ''tool''), (''name'', JStr name)])
      | _ \<Rightarrow> auto_choice)"

definition chatStopToAnthropic :: "json \<Rightarrow> string list" where
  "chatStopToAnthropic stop = (case stop of
     JStr s \<Rightarrow> if s = '''' then [] else [s]
   | JArr vs \<Rightarrow> filter (\<lambda>s. s \<noteq> '''') (map stringOf vs)
   | _ \<Rightarrow> [])"

definition stop_field :: "string \<Rightarrow> json \<Rightarrow> obj" where
  "stop_field k stop = (let ss = chatStopToAnthropic stop in if ss = [] then [] else [(k, JArr (map JStr ss))])"

section \<open>Messages\<close>

text \<open>The messages under construction: a role and its blocks; flush merges with the last one.\<close>

type_synonym turn = "string \<times> json list"

definition flush :: "string \<Rightarrow> json list \<Rightarrow> turn list \<Rightarrow> turn list" where
  "flush role blocks ms =
     (if blocks = [] then ms
      else if ms \<noteq> [] \<and> fst (last ms) = role then butlast ms @ [(role, snd (last ms) @ blocks)]
      else ms @ [(role, blocks)])"

definition tool_use_block :: "codec \<Rightarrow> chatToolCall \<Rightarrow> json" where
  "tool_use_block cd tc = JObj [(''type'', JStr ''tool_use''), (''id'', JStr (tc_id tc)),
     (''name'', JStr (tc_name tc)), (''input'', toolArguments cd (tc_arguments tc))]"

definition tool_result_block :: "codec \<Rightarrow> obj \<Rightarrow> json" where
  "tool_result_block cd msg = JObj [(''type'', JStr ''tool_result''),
     (''tool_use_id'', JStr (stringOf (mget ''tool_call_id'' msg))),
     (''content'', toolResultContent cd (mget ''content'' msg))]"

text \<open>One message: the system texts and the turns after it.\<close>

definition chat_message :: "codec \<Rightarrow> (nat \<Rightarrow> string) \<Rightarrow> obj \<Rightarrow> string list \<times> turn list \<Rightarrow>
    (string list \<times> turn list) fresh" where
  "chat_message cd rid msg acc =
     (let (system, ms) = acc; role = stringOf (mget ''role'' msg) in
      if role = ''system'' \<or> role = ''developer'' then
        (let txt = instructionsText (mget ''content'' msg) in
         State_Monad.return (if txt = '''' then system else system @ [txt], ms))
      else if role = ''user'' \<or> role = ''assistant'' then
        State_Monad.bind (toolCallsOf rid msg) (\<lambda>calls. State_Monad.return (system,
          flush role (chatContentToAnthropic (mget ''content'' msg) @ map (tool_use_block cd) calls) ms))
      else if role = ''tool'' then State_Monad.return (system, flush ''user'' [tool_result_block cd msg] ms)
      else State_Monad.return (system, ms))"

fun chat_messages :: "codec \<Rightarrow> (nat \<Rightarrow> string) \<Rightarrow> obj list \<Rightarrow> string list \<times> turn list \<Rightarrow>
    (string list \<times> turn list) fresh" where
  "chat_messages cd rid [] acc = State_Monad.return acc"
| "chat_messages cd rid (msg # msgs) acc =
     State_Monad.bind (chat_message cd rid msg acc) (chat_messages cd rid msgs)"

definition turn_json :: "turn \<Rightarrow> json" where
  "turn_json m = JObj [(''role'', JStr (fst m)), (''content'', JArr (snd m))]"

section \<open>Tools and the request\<close>

definition schema_of :: "json \<Rightarrow> json" where
  "schema_of v = JObj (case as_obj v of Some o1 \<Rightarrow> o1 | None \<Rightarrow> default_schema)"

definition description_field :: "obj \<Rightarrow> obj" where
  "description_field fn = (let d = stringOf (mget ''description'' fn) in
     if d = '''' then [] else [(''description'', JStr d)])"

definition chat_tool :: "obj \<Rightarrow> json option" where
  "chat_tool tool =
     (let fn = (case as_obj (mget ''function'' tool) of Some f \<Rightarrow> f | None \<Rightarrow> tool);
          name = trim_space (stringOf (mget ''name'' fn))
      in if name = '''' then None
         else Some (JObj ([(''name'', JStr name), (''input_schema'', schema_of (mget ''parameters'' fn))]
                @ description_field fn)))"

definition tools_field :: "(obj \<Rightarrow> json option) \<Rightarrow> obj list \<Rightarrow> obj" where
  "tools_field f tools = (let ts = List.map_filter f tools in if ts = [] then [] else [(''tools'', JArr ts)])"

definition max_tokens_of :: "chatRequest \<Rightarrow> int" where
  "max_tokens_of r = (case cr_max_tokens r of Some n \<Rightarrow> n
     | None \<Rightarrow> (case cr_max_completion r of Some n \<Rightarrow> n
       | None \<Rightarrow> (case cr_max_output r of Some n \<Rightarrow> n | None \<Rightarrow> defaultAnthropicMaxTokens)))"

definition thinking_fields :: "body \<Rightarrow> obj" where
  "thinking_fields body = (case ExtractChatEffort body of
     None \<Rightarrow> []
   | Some effort \<Rightarrow>
       if effort = ''none'' then [(''thinking'', JObj [(''type'', JStr ''disabled'')])]
       else [(''thinking'', JObj [(''type'', JStr ''adaptive'')]),
             (''output_config'', JObj [(''effort'', JStr (MapChatEffortToAnthropic effort))])])"

definition opt_num :: "string \<Rightarrow> rat option \<Rightarrow> obj" where
  "opt_num k v = opt_key k (map_option JNum v)"

definition anthropic_request :: "body \<Rightarrow> bool \<Rightarrow> chatRequest \<Rightarrow> string list \<times> turn list \<Rightarrow> obj" where
  "anthropic_request body stream r acc =
     [(''model'', JStr (cr_model r)), (''max_tokens'', JInt (max_tokens_of r)), (''stream'', JBool stream)]
     @ (if fst acc = [] then [] else [(''system'', JStr (join [nl] (fst acc)))])
     @ [(''messages'', JArr (map turn_json (snd acc)))]
     @ tools_field chat_tool (cr_tools r)
     @ (if cr_tool_choice r = JNull then [] else [(''tool_choice'', chatToolChoiceToAnthropic (cr_tool_choice r))])
     @ opt_num ''temperature'' (cr_temperature r) @ opt_num ''top_p'' (cr_top_p r)
     @ stop_field ''stop_sequences'' (cr_stop r)
     @ thinking_fields body"

definition TranslateChatToAnthropic ::
  "codec \<Rightarrow> (nat \<Rightarrow> string) \<Rightarrow> body \<Rightarrow> bool \<Rightarrow> (go_error + body) fresh" where
  "TranslateChatToAnthropic cd rid body stream =
     (case decode_chatRequest body of
        None \<Rightarrow> State_Monad.return (Inl (OtherError ''decode chat request''))
      | Some r \<Rightarrow> State_Monad.bind (chat_messages cd rid (cr_messages r) ([], [])) (\<lambda>acc.
          State_Monad.return (Inr (Some (JObj (anthropic_request body stream r acc))))))"

section \<open>The shape of the messages\<close>

definition turn_ok :: "turn \<Rightarrow> bool" where
  "turn_ok m \<longleftrightarrow> (fst m = ''user'' \<or> fst m = ''assistant'') \<and> snd m \<noteq> []"

text \<open>Roles alternate and no turn is empty, as the Messages API requires.\<close>

definition turns_ok :: "turn list \<Rightarrow> bool" where
  "turns_ok ms \<longleftrightarrow> (\<forall>m \<in> set ms. turn_ok m) \<and> distinct_adj (map fst ms)"

lemma turns_ok_Nil [simp]: "turns_ok []"
  by (simp add: turns_ok_def)

lemma flush_ok:
  assumes "turns_ok ms" "role = ''user'' \<or> role = ''assistant''"
  shows "turns_ok (flush role blocks ms)"
proof (cases ms rule: rev_cases)
  case Nil
  with assms show ?thesis by (auto simp: flush_def turns_ok_def turn_ok_def)
next
  case (snoc ms' m)
  with assms show ?thesis
    by (auto simp: flush_def turns_ok_def turn_ok_def distinct_adj_append_iff)
qed

lemma chat_message_ok:
  "turns_ok (snd acc) \<Longrightarrow> turns_ok (snd (value_of (chat_message cd rid msg acc) n))"
  by (auto simp: chat_message_def Let_def flush_ok split: prod.split)

lemma chat_messages_ok:
  "turns_ok (snd acc) \<Longrightarrow> turns_ok (snd (value_of (chat_messages cd rid msgs acc) n))"
  by (induction msgs arbitrary: acc n) (simp_all add: chat_message_ok)

text \<open>The system texts are those of the system and developer messages, in order.\<close>

definition is_system_role :: "obj \<Rightarrow> bool" where
  "is_system_role msg \<longleftrightarrow> stringOf (mget ''role'' msg) \<in> {''system'', ''developer''}"

definition system_texts :: "obj list \<Rightarrow> string list" where
  "system_texts msgs = filter (\<lambda>t. t \<noteq> '''')
     (map (\<lambda>msg. instructionsText (mget ''content'' msg)) (filter is_system_role msgs))"

lemma chat_messages_system:
  "fst (value_of (chat_messages cd rid msgs acc) n) = fst acc @ system_texts msgs"
proof (induction msgs arbitrary: acc n)
  case (Cons msg msgs)
  then show ?case
    by (auto simp: chat_message_def Let_def system_texts_def is_system_role_def split: prod.splits)
qed (simp add: system_texts_def)

text \<open>The blocks, all turns together, are the blocks of the messages in order.\<close>

definition turn_blocks :: "turn list \<Rightarrow> json list" where
  "turn_blocks ms = concat (map snd ms)"

lemma flush_blocks: "turn_blocks (flush role blocks ms) = turn_blocks ms @ blocks"
  by (cases ms rule: rev_cases) (auto simp: flush_def turn_blocks_def)

definition message_blocks :: "codec \<Rightarrow> (nat \<Rightarrow> string) \<Rightarrow> nat \<Rightarrow> obj \<Rightarrow> json list" where
  "message_blocks cd rid n msg =
     (let role = stringOf (mget ''role'' msg) in
      if role = ''user'' \<or> role = ''assistant''
      then chatContentToAnthropic (mget ''content'' msg)
        @ map (tool_use_block cd) (value_of (toolCallsOf rid msg) n)
      else if role = ''tool'' then [tool_result_block cd msg] else [])"

lemma chat_message_blocks:
  "turn_blocks (snd (value_of (chat_message cd rid msg acc) n)) =
     turn_blocks (snd acc) @ message_blocks cd rid n msg"
  by (auto simp: chat_message_def message_blocks_def flush_blocks Let_def split: prod.split)

fun all_blocks :: "codec \<Rightarrow> (nat \<Rightarrow> string) \<Rightarrow> nat \<Rightarrow> obj list \<Rightarrow> json list" where
  "all_blocks cd rid n [] = []"
| "all_blocks cd rid n (msg # msgs) = message_blocks cd rid n msg
     @ all_blocks cd rid (next_of (chat_message cd rid msg ([], [])) n) msgs"

lemma chat_message_next: "next_of (chat_message cd rid msg acc) n = next_of (chat_message cd rid msg ([], [])) n"
  by (simp add: chat_message_def Let_def split: prod.split)

lemma chat_messages_blocks:
  "turn_blocks (snd (value_of (chat_messages cd rid msgs acc) n)) =
     turn_blocks (snd acc) @ all_blocks cd rid n msgs"
proof (induction msgs arbitrary: acc n)
  case (Cons msg msgs)
  then show ?case by (simp add: chat_message_blocks chat_message_next [of cd rid msg acc])
qed simp

lemma mhas_fields [simp]:
  "mhas k (tools_field f ts) \<longleftrightarrow> k = ''tools'' \<and> List.map_filter f ts \<noteq> []"
  "mhas k (opt_num j v) \<longleftrightarrow> k = j \<and> v \<noteq> None"
  "mhas k (stop_field j s) \<longleftrightarrow> k = j \<and> chatStopToAnthropic s \<noteq> []"
  "mhas k (thinking_fields b) \<Longrightarrow> k = ''thinking'' \<or> k = ''output_config''"
  by (auto simp: tools_field_def opt_num_def stop_field_def thinking_fields_def Let_def
      split: option.splits if_splits)

end
