(* ===== verification/Translate_Chat.thy ===== *)
theory Translate_Chat
  imports Translate_Anthropic
begin

text \<open>
  internal/provider/translate_anthropic.go, the other directions: requests from Anthropic to chat,
  and the complete responses either way.
\<close>

section \<open>Requests\<close>

record anthropicRequest =
  ar_model :: string
  ar_system :: json
  ar_messages :: "obj list"
  ar_tools :: "obj list"
  ar_tool_choice :: json
  ar_max_tokens :: "int option"
  ar_temperature :: "rat option"
  ar_top_p :: "rat option"
  ar_stop :: json

definition decode_anthropicRequest :: "body \<Rightarrow> anthropicRequest option" where
  "decode_anthropicRequest b =
     Option.bind (body_obj b) (\<lambda>kvs.
     Option.bind (str_field ''model'' kvs) (\<lambda>model.
     Option.bind (objs_field ''messages'' kvs) (\<lambda>messages.
     Option.bind (objs_field ''tools'' kvs) (\<lambda>tools.
     Option.bind (intp_field ''max_tokens'' kvs) (\<lambda>maxTokens.
     Option.bind (nump_field ''temperature'' kvs) (\<lambda>temperature.
     Option.bind (nump_field ''top_p'' kvs) (\<lambda>topP.
     Option.bind (bool_field ''stream'' kvs) (\<lambda>_.
       Some \<lparr>ar_model = model, ar_system = field ''system'' kvs, ar_messages = messages,
         ar_tools = tools, ar_tool_choice = field ''tool_choice'' kvs, ar_max_tokens = maxTokens,
         ar_temperature = temperature, ar_top_p = topP, ar_stop = field ''stop_sequences'' kvs\<rparr>))))))))"

definition block_text_of :: "json \<Rightarrow> string list" where
  "block_text_of b = (case as_obj b of None \<Rightarrow> []
     | Some m \<Rightarrow> let t = stringOf (mget ''text'' m) in if t = '''' then [] else [t])"

definition anthropicSystemText :: "json \<Rightarrow> string" where
  "anthropicSystemText system = (case system of
     JStr s \<Rightarrow> s | JArr bs \<Rightarrow> join [nl] (concat (map block_text_of bs)) | _ \<Rightarrow> '''')"

text \<open>The blocks of a content; None is the nil slice of a content that is neither text nor a list.\<close>

definition anthropicContentBlocks :: "json \<Rightarrow> obj list" where
  "anthropicContentBlocks content = (case content of
     JStr s \<Rightarrow> if s = '''' then [] else [[(''type'', JStr ''text''), (''text'', JStr s)]]
   | JArr bs \<Rightarrow> List.map_filter as_obj bs
   | _ \<Rightarrow> [])"

definition data_url :: "string \<Rightarrow> string \<Rightarrow> string" where
  "data_url media payload = ''data:'' @ media @ '';base64,'' @ payload"

definition or_default :: "string \<Rightarrow> string \<Rightarrow> string" where
  "or_default dflt s = (if s = '''' then dflt else s)"

definition image_url_part :: "string \<Rightarrow> json" where
  "image_url_part url = JObj [(''type'', JStr ''image_url''), (''image_url'', JObj [(''url'', JStr url)])]"

definition chatImagePart :: "json \<Rightarrow> json option" where
  "chatImagePart source = (case as_obj source of
     None \<Rightarrow> None
   | Some m \<Rightarrow> let k = stringOf (mget ''type'' m) in
       if k = ''base64'' then
         Some (image_url_part (data_url (or_default ''image/png'' (stringOf (mget ''media_type'' m)))
           (stringOf (mget ''data'' m))))
       else if k = ''url'' then
         (let url = stringOf (mget ''url'' m) in if url = '''' then None else Some (image_url_part url))
       else None)"

definition fileExtension :: "string \<Rightarrow> string" where
  "fileExtension mediaType =
     (if mediaType = ''application/pdf'' then ''pdf''
      else if mediaType = ''text/plain'' then ''txt''
      else (case cut_at CHR ''/'' mediaType of
          Some (_, ext) \<Rightarrow> if CHR ''/'' \<in> set ext then ''bin'' else ext
        | None \<Rightarrow> ''bin''))"

definition file_part :: "obj \<Rightarrow> json" where
  "file_part f = JObj [(''type'', JStr ''file''), (''file'', JObj f)]"

definition chatFilePart :: "obj \<Rightarrow> json option" where
  "chatFilePart b = (case as_obj (mget ''source'' b) of
     None \<Rightarrow> None
   | Some src \<Rightarrow> let k = stringOf (mget ''type'' src) in
       if k = ''base64'' then
         (let media = or_default ''application/pdf'' (stringOf (mget ''media_type'' src)) in
          Some (file_part [(''file_data'', JStr (data_url media (stringOf (mget ''data'' src)))),
            (''filename'', JStr (''document.'' @ fileExtension media))]))
       else if k = ''file'' then
         (let i = stringOf (mget ''file_id'' src) in
          if i = '''' then None else Some (file_part [(''file_id'', JStr i)]))
       else None)"

definition result_text :: "obj \<Rightarrow> string list" where
  "result_text b = (let t = stringOf (mget ''text'' b) in
     if stringOf (mget ''type'' b) = ''text'' \<and> t \<noteq> '''' then [t] else [])"

definition result_media :: "obj \<Rightarrow> json list" where
  "result_media b = (let k = stringOf (mget ''type'' b) in
     if k = ''image'' then opt_list (chatImagePart (mget ''source'' b))
     else if k = ''document'' then opt_list (chatFilePart b) else [])"

text \<open>
  A content without blocks comes back unchanged: a nil slice, which is what an empty string, an
  empty list, and any list without an object give.
\<close>

definition chatToolResultContent :: "json \<Rightarrow> json" where
  "chatToolResultContent content =
     (let blocks = anthropicContentBlocks content;
          texts = concat (map result_text blocks); media = concat (map result_media blocks)
      in if blocks = [] then content
         else if media = [] then JStr (join [nl] texts)
         else JArr (map text_block texts @ media))"

definition anthropicToolChoiceToChat :: "json \<Rightarrow> json" where
  "anthropicToolChoiceToChat choice = (case as_obj choice of
     None \<Rightarrow> JStr ''auto''
   | Some m \<Rightarrow> let k = stringOf (mget ''type'' m); name = stringOf (mget ''name'' m) in
       if k = ''any'' then JStr ''required''
       else if k = ''tool'' then
         (if name = '''' then JStr ''auto''
          else JObj [(''type'', JStr ''function''), (''function'', JObj [(''name'', JStr name)])])
       else if k = ''none'' \<or> k = ''auto'' then JStr k
       else JStr ''auto'')"

section \<open>Messages\<close>

text \<open>What a message's blocks collect.\<close>

record collected =
  co_parts :: "json list"
  co_calls :: "json list"
  co_reasoning :: "string list"
  co_results :: "json list"
  co_texts :: "string list"

definition collect_none :: collected where
  "collect_none = \<lparr>co_parts = [], co_calls = [], co_reasoning = [], co_results = [], co_texts = []\<rparr>"

definition input_text :: "codec \<Rightarrow> json \<Rightarrow> string" where
  "input_text cd input = (if input = JNull then ''{}'' else enc cd input)"

definition function_call :: "string \<Rightarrow> string \<Rightarrow> string \<Rightarrow> json" where
  "function_call i name args = JObj [(''id'', JStr i), (''type'', JStr ''function''),
     (''function'', JObj [(''name'', JStr name), (''arguments'', JStr args)])]"

definition tool_message :: "codec \<Rightarrow> obj \<Rightarrow> json" where
  "tool_message cd b =
     (let content = chatToolResultContent (mget ''content'' b) in
      JObj [(''role'', JStr ''tool''), (''tool_call_id'', JStr (stringOf (mget ''tool_use_id'' b))),
        (''content'', if content = JStr '''' then JStr (enc cd (mget ''content'' b)) else content)])"

definition collect_block :: "codec \<Rightarrow> (nat \<Rightarrow> string) \<Rightarrow> obj \<Rightarrow> collected \<Rightarrow> collected fresh" where
  "collect_block cd rid b c =
     (let k = stringOf (mget ''type'' b) in
      if k = ''text'' then
        (let t = stringOf (mget ''text'' b) in
         State_Monad.return (if t = '''' then c else c\<lparr>co_texts := co_texts c @ [t]\<rparr>))
      else if k = ''image'' then
        State_Monad.return (c\<lparr>co_parts := co_parts c @ opt_list (chatImagePart (mget ''source'' b))\<rparr>)
      else if k = ''document'' then
        State_Monad.return (c\<lparr>co_parts := co_parts c @ opt_list (chatFilePart b)\<rparr>)
      else if k = ''tool_use'' then
        State_Monad.bind (call_id rid (stringOf (mget ''id'' b))) (\<lambda>i.
          let name = trim_space (stringOf (mget ''name'' b)) in
          State_Monad.return (if name = '''' then c
            else c\<lparr>co_calls := co_calls c @ [function_call i name (input_text cd (mget ''input'' b))]\<rparr>))
      else if k = ''tool_result'' then
        State_Monad.return (c\<lparr>co_results := co_results c @ [tool_message cd b]\<rparr>)
      else if k = ''thinking'' \<or> k = ''redacted_thinking'' then
        (let t = stringOf (mget ''thinking'' b) in
         State_Monad.return (if t = '''' then c else c\<lparr>co_reasoning := co_reasoning c @ [t]\<rparr>))
      else State_Monad.return c)"

fun collect_blocks :: "codec \<Rightarrow> (nat \<Rightarrow> string) \<Rightarrow> obj list \<Rightarrow> collected \<Rightarrow> collected fresh" where
  "collect_blocks cd rid [] c = State_Monad.return c"
| "collect_blocks cd rid (b # bs) c = State_Monad.bind (collect_block cd rid b c) (collect_blocks cd rid bs)"

definition part_type :: "json \<Rightarrow> string" where
  "part_type p = (case as_obj p of None \<Rightarrow> '''' | Some m \<Rightarrow> stringOf (mget ''type'' m))"

definition part_text :: "json \<Rightarrow> string" where
  "part_text p = (case as_obj p of None \<Rightarrow> '''' | Some m \<Rightarrow> stringOf (mget ''text'' m))"

definition message_content :: "json list \<Rightarrow> json" where
  "message_content parts = (case parts of
     [] \<Rightarrow> JNull
   | [p] \<Rightarrow> if part_type p = ''text'' then JStr (part_text p) else JArr parts
   | _ \<Rightarrow> JArr parts)"

definition reasoning_field :: "string list \<Rightarrow> obj" where
  "reasoning_field rs = (if rs = [] then [] else [(''reasoning_content'', JStr (join [nl] rs))])"

definition calls_field :: "json list \<Rightarrow> obj" where
  "calls_field cs = (if cs = [] then [] else [(''tool_calls'', JArr cs)])"

text \<open>The chat messages of one Anthropic message: its own, then the tool results.\<close>

definition collected_messages :: "string \<Rightarrow> collected \<Rightarrow> json list" where
  "collected_messages role c =
     (let parts = co_parts c @ map text_block (co_texts c) in
      (if parts = [] \<and> co_calls c = [] \<and> co_reasoning c = [] then []
       else [JObj ([(''role'', JStr role), (''content'', message_content parts)]
               @ calls_field (co_calls c) @ reasoning_field (co_reasoning c))])
      @ co_results c)"

definition anthropic_message :: "codec \<Rightarrow> (nat \<Rightarrow> string) \<Rightarrow> obj \<Rightarrow> json list fresh" where
  "anthropic_message cd rid msg =
     (let role = stringOf (mget ''role'' msg) in
      if role \<noteq> ''user'' \<and> role \<noteq> ''assistant'' then State_Monad.return []
      else State_Monad.bind (collect_blocks cd rid (anthropicContentBlocks (mget ''content'' msg)) collect_none)
        (\<lambda>c. State_Monad.return (collected_messages role c)))"

fun anthropic_messages :: "codec \<Rightarrow> (nat \<Rightarrow> string) \<Rightarrow> obj list \<Rightarrow> json list fresh" where
  "anthropic_messages cd rid [] = State_Monad.return []"
| "anthropic_messages cd rid (msg # msgs) =
     State_Monad.bind (anthropic_message cd rid msg) (\<lambda>a.
     State_Monad.bind (anthropic_messages cd rid msgs) (\<lambda>b. State_Monad.return (a @ b)))"

definition anthropic_tool :: "obj \<Rightarrow> json option" where
  "anthropic_tool tool =
     (let name = trim_space (stringOf (mget ''name'' tool)) in
      if name = '''' then None
      else Some (JObj [(''type'', JStr ''function''),
        (''function'', JObj ([(''name'', JStr name), (''parameters'', schema_of (mget ''input_schema'' tool))]
          @ description_field tool))]))"

definition system_message :: "json \<Rightarrow> json list" where
  "system_message system = (let t = anthropicSystemText system in
     if t = '''' then [] else [JObj [(''role'', JStr ''system''), (''content'', JStr t)]])"

definition chat_request :: "body \<Rightarrow> bool \<Rightarrow> anthropicRequest \<Rightarrow> json list \<Rightarrow> obj" where
  "chat_request body stream r messages =
     [(''model'', JStr (ar_model r)), (''stream'', JBool stream),
      (''messages'', JArr (system_message (ar_system r) @ messages))]
     @ tools_field anthropic_tool (ar_tools r)
     @ (if ar_tool_choice r = JNull then [] else [(''tool_choice'', anthropicToolChoiceToChat (ar_tool_choice r))])
     @ opt_key ''max_tokens'' (map_option JInt (ar_max_tokens r))
     @ opt_num ''temperature'' (ar_temperature r) @ opt_num ''top_p'' (ar_top_p r)
     @ stop_field ''stop'' (ar_stop r)
     @ opt_key ''reasoning_effort'' (map_option JStr (ExtractAnthropicEffort body))"

definition TranslateAnthropicToChat ::
  "codec \<Rightarrow> (nat \<Rightarrow> string) \<Rightarrow> body \<Rightarrow> bool \<Rightarrow> (go_error + body) fresh" where
  "TranslateAnthropicToChat cd rid body stream =
     (case decode_anthropicRequest body of
        None \<Rightarrow> State_Monad.return (Inl (OtherError ''decode anthropic request''))
      | Some r \<Rightarrow> State_Monad.bind (anthropic_messages cd rid (ar_messages r)) (\<lambda>ms.
          State_Monad.return (Inr (Some (JObj (chat_request body stream r ms))))))"

section \<open>Complete responses\<close>

record anthropic_message_object =
  mo_model :: string
  mo_stop :: "string option"
  mo_content :: "obj list"
  mo_usage :: "(int option \<times> int option) option"

definition decode_message_object :: "body \<Rightarrow> anthropic_message_object option" where
  "decode_message_object b =
     Option.bind (body_obj b) (\<lambda>kvs.
     Option.bind (str_field ''id'' kvs) (\<lambda>_.
     Option.bind (str_field ''model'' kvs) (\<lambda>m.
     Option.bind (strp_field ''stop_reason'' kvs) (\<lambda>s.
     Option.bind (objs_field ''content'' kvs) (\<lambda>c.
     Option.bind (ptr_field ''usage'' (int64_pair ''input_tokens'' ''output_tokens'') kvs) (\<lambda>u.
       Some \<lparr>mo_model = m, mo_stop = s, mo_content = c, mo_usage = u\<rparr>))))))"

definition block_reasoning :: "obj \<Rightarrow> string list" where
  "block_reasoning b = (let t = stringOf (mget ''thinking'' b) in
     if stringOf (mget ''type'' b) \<in> {''thinking'', ''redacted_thinking''} \<and> t \<noteq> '''' then [t] else [])"

definition block_call :: "codec \<Rightarrow> obj \<Rightarrow> json list" where
  "block_call cd b = (if stringOf (mget ''type'' b) = ''tool_use''
     then [function_call (stringOf (mget ''id'' b)) (stringOf (mget ''name'' b)) (input_text cd (mget ''input'' b))]
     else [])"

text \<open>The message of a chat completion, from its texts, tool calls and reasoning.\<close>

definition completion_message :: "string list \<Rightarrow> json list \<Rightarrow> string list \<Rightarrow> obj" where
  "completion_message texts calls reasoning =
     [(''role'', JStr ''assistant''),
      (''content'', if calls \<noteq> [] \<and> texts = [] then JNull else JStr (concat texts))]
     @ calls_field calls @ reasoning_field reasoning"

definition completion_object ::
  "string \<Rightarrow> int \<Rightarrow> string \<Rightarrow> obj \<Rightarrow> string \<Rightarrow> obj \<Rightarrow> body" where
  "completion_object i now model message finish usage = Some (JObj (
     [(''id'', JStr i), (''object'', JStr ''chat.completion''), (''created'', JInt now),
      (''model'', JStr model), (''choices'', JArr [JObj [(''index'', JInt 0),
        (''message'', JObj message), (''finish_reason'', JStr finish)]])] @ usage))"

definition total_of :: "int option \<Rightarrow> int option \<Rightarrow> int option" where
  "total_of p c = (case (p, c) of (Some a, Some b) \<Rightarrow> Some (wrap64 (a + b)) | _ \<Rightarrow> None)"

definition usage_object :: "int option \<Rightarrow> int option \<Rightarrow> int option \<Rightarrow> obj" where
  "usage_object p c t = [(''usage'', JObj [(''prompt_tokens'', opt_int p),
     (''completion_tokens'', opt_int c), (''total_tokens'', opt_int t)])]"

definition unary_finish :: "json list \<Rightarrow> string option \<Rightarrow> string" where
  "unary_finish calls stop =
     (if calls \<noteq> [] then ''tool_calls''
      else if stop = Some ''max_tokens'' then ''length''
      else if stop = Some ''tool_use'' then ''tool_calls'' else ''stop'')"

definition TranslateAnthropicToChatObject ::
  "codec \<Rightarrow> (nat \<Rightarrow> string) \<Rightarrow> int \<Rightarrow> body \<Rightarrow> (go_error + body) fresh" where
  "TranslateAnthropicToChatObject cd rid now data =
     (case decode_message_object data of
        None \<Rightarrow> State_Monad.return (Inl (OtherError ''decode anthropic message''))
      | Some r \<Rightarrow>
          let texts = concat (map result_text (mo_content r));
              calls = concat (map (block_call cd) (mo_content r));
              reasoning = concat (map block_reasoning (mo_content r));
              usage = (case mo_usage r of None \<Rightarrow> [] | Some (p, c) \<Rightarrow> usage_object p c (total_of p c))
          in State_Monad.bind (randomHexID rid) (\<lambda>h. State_Monad.return (Inr
               (completion_object (''chatcmpl-'' @ h) now (mo_model r) (completion_message texts calls reasoning)
                 (unary_finish calls (mo_stop r)) usage))))"

record chat_object =
  ob_model :: string
  ob_choices :: "(json \<times> (string \<times> string \<times> string) list \<times> string option) list"
  ob_usage :: "(int option \<times> int option) option"

definition decode_call :: "obj \<Rightarrow> (string \<times> string \<times> string) option" where
  "decode_call kvs =
     Option.bind (str_field ''id'' kvs) (\<lambda>i.
     Option.bind (obj_field ''function'' kvs) (\<lambda>f.
     Option.bind (str_field ''name'' f) (\<lambda>n.
     Option.bind (str_field ''arguments'' f) (\<lambda>a. Some (i, n, a)))))"

definition decode_completion_choice :: "obj \<Rightarrow> (json \<times> (string \<times> string \<times> string) list \<times> string option) option" where
  "decode_completion_choice kvs =
     Option.bind (obj_field ''message'' kvs) (\<lambda>m.
     Option.bind (Option.bind (objs_field ''tool_calls'' m) (\<lambda>xs. those (map decode_call xs))) (\<lambda>cs.
     Option.bind (strp_field ''finish_reason'' kvs) (\<lambda>f. Some (field ''content'' m, cs, f))))"

definition decode_chat_object :: "body \<Rightarrow> chat_object option" where
  "decode_chat_object b =
     Option.bind (body_obj b) (\<lambda>kvs.
     Option.bind (str_field ''model'' kvs) (\<lambda>m.
     Option.bind (Option.bind (objs_field ''choices'' kvs) (\<lambda>xs. those (map decode_completion_choice xs))) (\<lambda>cs.
     Option.bind (ptr_field ''usage'' (int64_pair ''prompt_tokens'' ''completion_tokens'') kvs) (\<lambda>u.
       Some \<lparr>ob_model = m, ob_choices = cs, ob_usage = u\<rparr>))))"

definition call_block :: "codec \<Rightarrow> string \<times> string \<times> string \<Rightarrow> json" where
  "call_block cd c = (case c of (i, n, a) \<Rightarrow> JObj [(''type'', JStr ''tool_use''), (''id'', JStr i),
     (''name'', JStr n), (''input'', toolArguments cd a)])"

definition unary_stop :: "string option \<Rightarrow> string" where
  "unary_stop finish =
     (if finish = Some ''length'' then ''max_tokens'' else if finish = Some ''tool_calls'' then ''tool_use''
      else if finish = Some ''content_filter'' then ''refusal'' else ''end_turn'')"

definition message_object :: "string \<Rightarrow> string \<Rightarrow> json list \<Rightarrow> string \<Rightarrow> obj \<Rightarrow> body" where
  "message_object i model content stop usage = Some (JObj (
     [(''id'', JStr i), (''type'', JStr ''message''), (''role'', JStr ''assistant''), (''model'', JStr model),
      (''content'', JArr content), (''stop_reason'', JStr stop), (''stop_sequence'', JNull)] @ usage))"

definition TranslateChatToAnthropicObject ::
  "codec \<Rightarrow> (nat \<Rightarrow> string) \<Rightarrow> body \<Rightarrow> string \<Rightarrow> (go_error + body) fresh" where
  "TranslateChatToAnthropicObject cd rid data model =
     (case decode_chat_object data of
        None \<Rightarrow> State_Monad.return (Inl (OtherError ''decode chat completion''))
      | Some r \<Rightarrow> (case ob_choices r of
          [] \<Rightarrow> State_Monad.return (Inl (OtherError ''decode chat completion: no choices''))
        | (c, calls, finish) # _ \<Rightarrow>
            let content = add_text (messageText c) @ map (call_block cd) calls;
                usage = (case ob_usage r of None \<Rightarrow> []
                  | Some (p, q) \<Rightarrow> [(''usage'', JObj [(''input_tokens'', opt_int p), (''output_tokens'', opt_int q)])])
            in State_Monad.bind (randomHexID rid) (\<lambda>h. State_Monad.return (Inr
                 (message_object (''msg_'' @ h) (if model = '''' then ob_model r else model) content
                   (unary_stop finish) usage)))))"

end
