(* ===== verification/Translate_Responses.thy ===== *)
theory Translate_Responses
  imports Translate_Chat Stream_Responses
begin

text \<open>
  internal/provider/translate_responses.go: chat requests as Responses requests, and complete
  Responses objects as chat completions.
\<close>

section \<open>Requests\<close>

definition tokenBudget :: "int option \<Rightarrow> int option \<Rightarrow> int option \<Rightarrow> int option" where
  "tokenBudget out completion legacy =
     (if out \<noteq> None then out else if completion \<noteq> None then completion else legacy)"

definition move_budget :: "string \<Rightarrow> obj \<Rightarrow> obj" where
  "move_budget key raw =
     mdel key (case mget key raw of JNum r \<Rightarrow> mset_field ''max_output_tokens'' (JNum r) raw | _ \<Rightarrow> raw)"

definition normalizeResponsesTokenBudget :: "obj \<Rightarrow> obj" where
  "normalizeResponsesTokenBudget raw =
     (if mhas ''max_output_tokens'' raw then raw
      else move_budget ''max_tokens'' (move_budget ''max_completion_tokens'' raw))"

definition strict_field :: "obj \<Rightarrow> obj" where
  "strict_field m = (if mhas ''strict'' m then [(''strict'', mget ''strict'' m)] else [])"

definition responsesTextFormat :: "json \<Rightarrow> json option" where
  "responsesTextFormat format = (case as_obj format of
     None \<Rightarrow> None
   | Some m \<Rightarrow> let k = stringOf (mget ''type'' m) in
       if k = ''json_schema'' then
         (let schema = sub_map ''json_schema'' m in
          if stringOf (mget ''name'' schema) = '''' \<or> mget ''schema'' schema = JNull then None
          else Some (JObj ([(''type'', JStr ''json_schema''), (''name'', JStr (stringOf (mget ''name'' schema))),
            (''schema'', mget ''schema'' schema)] @ strict_field schema)))
       else if k = ''json_object'' then Some (JObj [(''type'', JStr ''json_object'')])
       else None)"

definition clampEffort :: "string \<Rightarrow> string" where
  "clampEffort effort =
     (if to_lower (trim_space effort) \<in> {''max'', ''ultra''} then ''xhigh'' else effort)"

definition kind_part :: "string \<Rightarrow> string \<Rightarrow> json" where
  "kind_part k txt = JObj [(''type'', JStr k), (''text'', JStr txt)]"

definition responsesFilePart :: "obj \<Rightarrow> json option" where
  "responsesFilePart m =
     (let f = (case as_obj (mget ''file'' m) of Some f \<Rightarrow> f | None \<Rightarrow> m);
          filled = (\<lambda>k. let s = stringOf (mget k f) in if s = '''' then [] else [(k, JStr s)])
      in if filled ''file_data'' = [] \<and> filled ''file_id'' = [] then None
         else Some (JObj ([(''type'', JStr ''input_file'')] @ filled ''file_data'' @ filled ''file_id''
                @ filled ''filename'')))"

definition input_image_part :: "json \<Rightarrow> json" where
  "input_image_part v =
     (let (url, detail) = (case v of
          JStr u \<Rightarrow> (u, ''auto'')
        | JObj m \<Rightarrow> (stringOf (mget ''url'' m), or_default ''auto'' (stringOf (mget ''detail'' m)))
        | _ \<Rightarrow> ('''', ''auto''))
      in JObj [(''type'', JStr ''input_image''), (''image_url'', JStr url), (''detail'', JStr detail)])"

definition other_text :: "codec \<Rightarrow> obj \<Rightarrow> string" where
  "other_text cd m = or_default (or_default (enc cd (JObj m)) (stringOf (mget ''content'' m)))
     (stringOf (mget ''text'' m))"

definition content_item :: "codec \<Rightarrow> string \<Rightarrow> json \<Rightarrow> json list" where
  "content_item cd k p = (case p of
     JObj m \<Rightarrow>
       let ty = stringOf (mget ''type'' m) in
       if ty = ''text'' then [kind_part k (stringOf (mget ''text'' m))]
       else if ty = ''image_url'' then [input_image_part (mget ''image_url'' m)]
       else if ty = ''input_image'' \<or> ty = ''input_audio'' \<or> ty = ''input_file'' then [p]
       else if ty = ''file'' then opt_list (responsesFilePart m)
       else [kind_part k (other_text cd m)]
   | JStr s \<Rightarrow> if s = '''' then [] else [kind_part k s]
   | _ \<Rightarrow> [])"

definition contentParts :: "codec \<Rightarrow> json \<Rightarrow> string \<Rightarrow> json list" where
  "contentParts cd content k = (case content of
     JStr s \<Rightarrow> if s = '''' then [] else [kind_part k s]
   | JArr ps \<Rightarrow> concat (map (content_item cd k) ps)
   | _ \<Rightarrow> [])"

definition reasoningInputItem :: "obj \<Rightarrow> json list" where
  "reasoningInputItem msg =
     (let s = trim_space (stringOf (mget ''reasoning_content'' msg)) in
      if s = '''' then []
      else [JObj [(''type'', JStr ''reasoning''),
              (''summary'', JArr [JObj [(''type'', JStr ''summary_text''), (''text'', JStr s)]])]])"

definition tool_params :: "json \<Rightarrow> json" where
  "tool_params v = JObj (case as_obj v of
     None \<Rightarrow> default_schema
   | Some o1 \<Rightarrow> if mget ''type'' o1 = JStr ''object'' \<and> \<not> mhas ''properties'' o1
       then mset_field ''properties'' (JObj []) o1 else o1)"

definition flatten_tool :: "obj \<Rightarrow> obj" where
  "flatten_tool tool = (case as_obj (mget ''function'' tool) of
     None \<Rightarrow> tool
   | Some fn \<Rightarrow> [(''type'', JStr ''function''), (''name'', mget ''name'' fn),
       (''description'', mget ''description'' fn), (''parameters'', mget ''parameters'' fn),
       (''strict'', mget ''strict'' fn)])"

definition responsesTool :: "obj \<Rightarrow> json option" where
  "responsesTool tool =
     (let t = flatten_tool tool; name = trim_space (stringOf (mget ''name'' t)) in
      if name = '''' then None
      else Some (JObj ([(''type'', JStr ''function''), (''name'', JStr name),
        (''description'', JStr (stringOf (mget ''description'' t))),
        (''parameters'', tool_params (mget ''parameters'' t))] @ strict_field t)))"

definition responsesToolChoice :: "json \<Rightarrow> json" where
  "responsesToolChoice choice = (case choice of
     JObj m \<Rightarrow> (case as_obj (mget ''function'' m) of
         None \<Rightarrow> choice
       | Some fn \<Rightarrow> let name = stringOf (mget ''name'' fn) in
           if name = '''' then choice else JObj [(''type'', JStr ''function''), (''name'', JStr name)])
   | _ \<Rightarrow> choice)"

section \<open>Input items\<close>

definition call_item :: "chatToolCall \<Rightarrow> json" where
  "call_item tc = JObj [(''type'', JStr ''function_call''), (''call_id'', JStr (tc_id tc)),
     (''name'', JStr (tc_name tc)), (''arguments'', JStr (tc_arguments tc))]"

definition message_item :: "string \<Rightarrow> json list \<Rightarrow> json list" where
  "message_item role parts = (if parts = [] then []
     else [JObj [(''type'', JStr ''message''), (''role'', JStr role), (''content'', JArr parts)]])"

definition output_item :: "codec \<Rightarrow> obj \<Rightarrow> json" where
  "output_item cd msg = JObj [(''type'', JStr ''function_call_output''),
     (''call_id'', JStr (stringOf (mget ''tool_call_id'' msg))),
     (''output'', case mget ''content'' msg of
        JStr s \<Rightarrow> if s = '''' then JStr (enc cd (JStr s)) else JStr s
      | v \<Rightarrow> JStr (enc cd v))]"

text \<open>The instructions, None until the first system message, and the input so far.\<close>

definition input_message :: "codec \<Rightarrow> (nat \<Rightarrow> string) \<Rightarrow> obj \<Rightarrow> string option \<times> json list \<Rightarrow>
    (string option \<times> json list) fresh" where
  "input_message cd rid msg acc =
     (let (ins, items) = acc; role = stringOf (mget ''role'' msg); content = mget ''content'' msg in
      if role = ''system'' \<or> role = ''developer'' then
        (case ins of
           None \<Rightarrow> State_Monad.return (Some (instructionsText content), items)
         | Some _ \<Rightarrow> State_Monad.return (ins, items @
             [JObj [(''type'', JStr ''message''), (''role'', JStr ''developer''),
                (''content'', JArr [kind_part ''input_text'' (messageText content)])]]))
      else if role = ''user'' then
        State_Monad.return (ins, items @ message_item role (contentParts cd content ''input_text''))
      else if role = ''assistant'' then
        State_Monad.bind (toolCallsOf rid msg) (\<lambda>calls. State_Monad.return (ins,
          items @ reasoningInputItem msg @ message_item role (contentParts cd content ''output_text'')
            @ map call_item calls))
      else if role = ''tool'' then State_Monad.return (ins, items @ [output_item cd msg])
      else State_Monad.return acc)"

fun input_messages :: "codec \<Rightarrow> (nat \<Rightarrow> string) \<Rightarrow> obj list \<Rightarrow> string option \<times> json list \<Rightarrow>
    (string option \<times> json list) fresh" where
  "input_messages cd rid [] acc = State_Monad.return acc"
| "input_messages cd rid (msg # msgs) acc =
     State_Monad.bind (input_message cd rid msg acc) (input_messages cd rid msgs)"

definition reasoning_of :: "chatRequest \<Rightarrow> obj" where
  "reasoning_of r = (case cr_effort r of
     Some e \<Rightarrow> [(''reasoning'', JObj [(''effort'', JStr (clampEffort e)), (''summary'', JStr ''auto'')])]
   | None \<Rightarrow> if cr_reasoning r = JNull then [] else [(''reasoning'', cr_reasoning r)])"

definition responses_request :: "bool \<Rightarrow> chatRequest \<Rightarrow> string option \<times> json list \<Rightarrow> obj" where
  "responses_request stream r acc =
     [(''model'', JStr (cr_model r)), (''stream'', JBool stream), (''store'', JBool False),
      (''instructions'', JStr (case fst acc of None \<Rightarrow> '''' | Some s \<Rightarrow> s)), (''input'', JArr (snd acc))]
     @ tools_field responsesTool (cr_tools r)
     @ (if cr_tool_choice r = JNull then [] else [(''tool_choice'', responsesToolChoice (cr_tool_choice r))])
     @ opt_num ''temperature'' (cr_temperature r) @ opt_num ''top_p'' (cr_top_p r)
     @ opt_key ''max_output_tokens''
         (map_option JInt (tokenBudget (cr_max_output r) (cr_max_completion r) (cr_max_tokens r)))
     @ reasoning_of r
     @ opt_key ''service_tier'' (map_option JStr (cr_service_tier r))
     @ opt_key ''text'' (map_option (\<lambda>f. JObj [(''format'', f)]) (responsesTextFormat (cr_response_format r)))"

text \<open>A request that already is in Responses form keeps its own fields.\<close>

definition passthrough_request :: "bool \<Rightarrow> obj \<Rightarrow> obj" where
  "passthrough_request stream raw =
     normalizeResponsesTokenBudget (mset_field ''store'' (JBool False) (mset_field ''stream'' (JBool stream) raw))"

definition TranslateChatToResponses ::
  "codec \<Rightarrow> (nat \<Rightarrow> string) \<Rightarrow> body \<Rightarrow> bool \<Rightarrow> (go_error + body) fresh" where
  "TranslateChatToResponses cd rid body stream =
     (case decode_chatRequest body of
        None \<Rightarrow> State_Monad.return (Inl (OtherError ''decode chat request''))
      | Some r \<Rightarrow>
          if cr_input r \<noteq> JNull then
            State_Monad.return (Inr (with_map (passthrough_request stream) body))
          else State_Monad.bind (input_messages cd rid (cr_messages r) (None, [])) (\<lambda>acc.
            State_Monad.return (Inr (Some (JObj (responses_request stream r acc))))))"

section \<open>Complete responses\<close>

record responses_item =
  it_type :: string
  it_content :: "(string \<times> string) list"
  it_summary :: "string list"
  it_call_id :: string
  it_name :: string
  it_arguments :: json
  it_input :: json

record responses_object =
  ro_id :: string
  ro_model :: string
  ro_status :: string
  ro_error :: "string option"
  ro_output :: "responses_item list"
  ro_usage :: "(resp_usage \<times> int option) option"

definition decode_content :: "obj \<Rightarrow> (string \<times> string) option" where
  "decode_content kvs = Option.bind (str_field ''type'' kvs) (\<lambda>t. map_option (Pair t) (str_field ''text'' kvs))"

definition decode_output_item :: "obj \<Rightarrow> responses_item option" where
  "decode_output_item kvs =
     Option.bind (str_field ''type'' kvs) (\<lambda>t.
     Option.bind (str_field ''role'' kvs) (\<lambda>_.
     Option.bind (Option.bind (objs_field ''content'' kvs) (\<lambda>xs. those (map decode_content xs))) (\<lambda>c.
     Option.bind (Option.bind (objs_field ''summary'' kvs) (\<lambda>xs. those (map (str_field ''text'') xs))) (\<lambda>s.
     Option.bind (str_field ''call_id'' kvs) (\<lambda>i.
     Option.bind (str_field ''name'' kvs) (\<lambda>n.
       Some \<lparr>it_type = t, it_content = c, it_summary = s, it_call_id = i, it_name = n,
         it_arguments = field ''arguments'' kvs, it_input = field ''input'' kvs\<rparr>))))))"

definition decode_unary_usage :: "obj \<Rightarrow> (resp_usage \<times> int option) option" where
  "decode_unary_usage kvs = Option.bind (decode_resp_usage kvs) (\<lambda>u. map_option (Pair u) (intp_field ''total_tokens'' kvs))"

definition decode_responses_object :: "body \<Rightarrow> responses_object option" where
  "decode_responses_object b =
     Option.bind (body_obj b) (\<lambda>kvs.
     Option.bind (str_field ''id'' kvs) (\<lambda>i.
     Option.bind (str_field ''model'' kvs) (\<lambda>m.
     Option.bind (str_field ''status'' kvs) (\<lambda>s.
     Option.bind (ptr_field ''error'' (str_field ''message'') kvs) (\<lambda>e.
     Option.bind (Option.bind (objs_field ''output'' kvs) (\<lambda>xs. those (map decode_output_item xs))) (\<lambda>out.
     Option.bind (ptr_field ''usage'' decode_unary_usage kvs) (\<lambda>u.
       Some \<lparr>ro_id = i, ro_model = m, ro_status = s, ro_error = e, ro_output = out, ro_usage = u\<rparr>)))))))"

definition item_texts :: "responses_item \<Rightarrow> string list" where
  "item_texts i = (if it_type i = ''message''
     then map snd (filter (\<lambda>(t, x). t = ''output_text'' \<and> x \<noteq> '''') (it_content i)) else [])"

definition item_reasoning :: "responses_item \<Rightarrow> string list" where
  "item_reasoning i = (if it_type i = ''reasoning'' then filter (\<lambda>t. t \<noteq> '''') (it_summary i) else [])"

definition item_calls :: "codec \<Rightarrow> (nat \<Rightarrow> string) \<Rightarrow> responses_item \<Rightarrow> json list fresh" where
  "item_calls cd rid i =
     (if it_type i \<noteq> ''function_call'' \<and> it_type i \<noteq> ''custom_tool_call'' \<or> trim_space (it_name i) = ''''
      then State_Monad.return []
      else State_Monad.bind (call_id rid (it_call_id i)) (\<lambda>c. State_Monad.return
        [function_call c (it_name i) (argumentsString cd (it_arguments i) (it_input i))]))"

fun items_calls :: "codec \<Rightarrow> (nat \<Rightarrow> string) \<Rightarrow> responses_item list \<Rightarrow> json list fresh" where
  "items_calls cd rid [] = State_Monad.return []"
| "items_calls cd rid (i # is) =
     State_Monad.bind (item_calls cd rid i) (\<lambda>a.
     State_Monad.bind (items_calls cd rid is) (\<lambda>b. State_Monad.return (a @ b)))"

definition firstNonNil :: "int option \<Rightarrow> int option \<Rightarrow> int option" where
  "firstNonNil a b = (if a \<noteq> None then a else b)"

definition responses_usage :: "(resp_usage \<times> int option) option \<Rightarrow> obj" where
  "responses_usage u = (case u of
     None \<Rightarrow> []
   | Some (v, tot) \<Rightarrow>
       let p = firstNonNil (ru_input v) (ru_prompt v); c = firstNonNil (ru_output v) (ru_completion v)
       in usage_object p c (if tot = None then total_of p c else tot))"

definition responses_finish :: "json list \<Rightarrow> string \<Rightarrow> string" where
  "responses_finish calls status =
     (if calls \<noteq> [] then ''tool_calls'' else if status = ''incomplete'' then ''length'' else ''stop'')"

definition response_id :: "(nat \<Rightarrow> string) \<Rightarrow> string \<Rightarrow> string fresh" where
  "response_id rid i = (if i = '''' then State_Monad.bind (randomHexID rid) (\<lambda>h. State_Monad.return (''chatcmpl-'' @ h))
     else State_Monad.return i)"

definition TranslateResponsesToChat ::
  "codec \<Rightarrow> (nat \<Rightarrow> string) \<Rightarrow> int \<Rightarrow> body \<Rightarrow> (go_error + body) fresh" where
  "TranslateResponsesToChat cd rid now data =
     (case decode_responses_object data of
        None \<Rightarrow> State_Monad.return (Inl (OtherError ''decode responses object''))
      | Some r \<Rightarrow>
          let message = (case ro_error r of None \<Rightarrow> '''' | Some m \<Rightarrow> m) in
          if message \<noteq> '''' then State_Monad.return (Inl (OtherError (''upstream responses error: '' @ message)))
          else State_Monad.bind (items_calls cd rid (ro_output r)) (\<lambda>calls.
               State_Monad.bind (response_id rid (ro_id r)) (\<lambda>i.
                 State_Monad.return (Inr (completion_object i now (ro_model r)
                   (completion_message (concat (map item_texts (ro_output r))) calls
                     (concat (map item_reasoning (ro_output r))))
                   (responses_finish calls (ro_status r)) (responses_usage (ro_usage r)))))))"

end
