(* ===== verification/Translate_Laws.thy ===== *)
theory Translate_Laws
  imports Translate_Responses
begin

text \<open>
  Laws of the translators: what they emit decodes again (so the two-step translations do not fail at
  the second step), the effort level survives, images survive the way there and back, and a complete
  response keeps its text, its tool calls and its stop reason.
\<close>

section \<open>Decoding what was encoded\<close>

definition plain :: "obj \<Rightarrow> bool" where
  "plain kvs \<longleftrightarrow> list_all (\<lambda>kv. to_lower (fst kv) = fst kv) kvs"

lemma plain_simps [simp]:
  "plain []" "plain ((k, v) # kvs) \<longleftrightarrow> to_lower k = k \<and> plain kvs"
  "plain (xs @ ys) \<longleftrightarrow> plain xs \<and> plain ys"
  by (simp_all add: plain_def)

lemma field_plain: "plain kvs \<Longrightarrow> field k kvs = mget k kvs"
proof -
  assume "plain kvs"
  then have "map (\<lambda>(j, v). (to_lower j, v)) kvs = kvs"
    by (induction kvs) auto
  then show ?thesis by (simp add: field_def mget_def)
qed

lemma lower_keys [simp]:
  "to_lower ''model'' = ''model''" "to_lower ''stream'' = ''stream''" "to_lower ''messages'' = ''messages''"
  "to_lower ''tools'' = ''tools''" "to_lower ''tool_choice'' = ''tool_choice''"
  "to_lower ''max_tokens'' = ''max_tokens''" "to_lower ''temperature'' = ''temperature''"
  "to_lower ''top_p'' = ''top_p''" "to_lower ''stop'' = ''stop''"
  "to_lower ''reasoning_effort'' = ''reasoning_effort''" "to_lower ''id'' = ''id''"
  "to_lower ''object'' = ''object''" "to_lower ''created'' = ''created''" "to_lower ''choices'' = ''choices''"
  "to_lower ''usage'' = ''usage''" "to_lower ''index'' = ''index''" "to_lower ''message'' = ''message''"
  "to_lower ''finish_reason'' = ''finish_reason''" "to_lower ''role'' = ''role''"
  "to_lower ''content'' = ''content''" "to_lower ''tool_calls'' = ''tool_calls''"
  "to_lower ''reasoning_content'' = ''reasoning_content''" "to_lower ''type'' = ''type''"
  "to_lower ''function'' = ''function''" "to_lower ''name'' = ''name''" "to_lower ''arguments'' = ''arguments''"
  "to_lower ''prompt_tokens'' = ''prompt_tokens''" "to_lower ''completion_tokens'' = ''completion_tokens''"
  "to_lower ''total_tokens'' = ''total_tokens''"
  by (simp_all add: text_eval)

lemma decode_objs_map [simp]: "decode_objs (map JObj os) = Some os"
  by (induction os) auto

lemma decode_objs_maps: "(\<And>v. v \<in> set vs \<Longrightarrow> is_map v) \<Longrightarrow> \<exists>os. decode_objs vs = Some os"
proof (induction vs)
  case (Cons v vs)
  then obtain os where "decode_objs vs = Some os" by auto
  moreover obtain o1 where "v = JObj o1"
    using Cons.prems [of v] by (auto simp: is_map_def as_obj_def split: json.splits)
  ultimately show ?case by simp
qed simp

lemma is_map_JObj [simp]: "is_map (JObj o1)"
  by (simp add: is_map_def)

lemma objs_field_maps:
  "field k kvs = JArr vs \<Longrightarrow> (\<And>v. v \<in> set vs \<Longrightarrow> is_map v) \<Longrightarrow> \<exists>os. objs_field k kvs = Some os"
  using decode_objs_maps [of vs] by (simp add: objs_field_def)

text \<open>Fields that were read from a body are in range.\<close>

lemma json_int_range: "json_int v = Some i \<Longrightarrow> in_int64 i"
  by (auto simp: json_int_def split: json.splits if_splits)

lemma json_int_JInt [simp]: "json_int (JInt i) = (if in_int64 i then Some i else None)"
  by (simp add: json_int_def JInt_def)

lemma JInt_not_null [simp]: "JInt i \<noteq> JNull" "JNull \<noteq> JInt i"
  by (simp_all add: JInt_def)

lemma intp_field_range: "intp_field k kvs = Some (Some i) \<Longrightarrow> in_int64 i"
  by (auto simp: intp_field_def dest!: json_int_range split: json.splits option.splits)

lemma intp_field_opt:
  "field k kvs = (case v of None \<Rightarrow> JNull | Some i \<Rightarrow> JInt i) \<Longrightarrow>
    (\<And>i. v = Some i \<Longrightarrow> in_int64 i) \<Longrightarrow> intp_field k kvs = Some v"
  by (cases v) (auto simp: intp_field_def JInt_def json_int_def)

section \<open>From Anthropic to chat and on\<close>

lemma tool_message_map [simp]: "is_map (tool_message cd b)"
  by (simp add: tool_message_def Let_def)

lemma collect_block_results:
  "(\<And>v. v \<in> set (co_results c) \<Longrightarrow> is_map v) \<Longrightarrow>
    v \<in> set (co_results (value_of (collect_block cd rid b c) n)) \<Longrightarrow> is_map v"
  by (auto simp: collect_block_def Let_def split: if_splits)

lemma collect_blocks_results:
  "(\<And>v. v \<in> set (co_results c) \<Longrightarrow> is_map v) \<Longrightarrow>
    v \<in> set (co_results (value_of (collect_blocks cd rid bs c) n)) \<Longrightarrow> is_map v"
proof (induction bs arbitrary: c n)
  case (Cons b bs)
  have "v \<in> set (co_results (value_of (collect_blocks cd rid bs (value_of (collect_block cd rid b c) n))
      (next_of (collect_block cd rid b c) n)))"
    using Cons.prems(2) by simp
  moreover have "\<And>v. v \<in> set (co_results (value_of (collect_block cd rid b c) n)) \<Longrightarrow> is_map v"
    using collect_block_results Cons.prems(1) by blast
  ultimately show ?case using Cons.IH by blast
qed simp

lemma anthropic_message_maps:
  assumes "v \<in> set (value_of (anthropic_message cd rid msg) n)"
  shows "is_map v"
proof -
  let ?c = "value_of (collect_blocks cd rid (anthropicContentBlocks (mget ''content'' msg)) collect_none) n"
  have "is_map w" if "w \<in> set (co_results ?c)" for w
    by (rule collect_blocks_results [OF _ that]) (simp add: collect_none_def)
  with assms show ?thesis
    by (auto simp: anthropic_message_def collected_messages_def Let_def split: if_splits)
qed

lemma anthropic_messages_maps:
  "v \<in> set (value_of (anthropic_messages cd rid msgs) n) \<Longrightarrow> is_map v"
  by (induction msgs arbitrary: n) (auto dest: anthropic_message_maps)

lemma map_filter_maps:
  "(\<And>x y. f x = Some y \<Longrightarrow> is_map y) \<Longrightarrow> v \<in> set (List.map_filter f xs) \<Longrightarrow> is_map v"
  by (auto simp: List.map_filter_def)

lemma anthropic_tool_map: "anthropic_tool t = Some v \<Longrightarrow> is_map v"
  by (auto simp: anthropic_tool_def Let_def split: if_splits)

lemma decode_anthropic_ranges:
  assumes "decode_anthropicRequest b = Some r"
  shows "ar_max_tokens r = Some i \<Longrightarrow> in_int64 i"
  using assms by (auto simp: decode_anthropicRequest_def bind_eq_Some_conv dest: intp_field_range)

lemma chat_request_plain: "plain (chat_request body stream r ms)"
  by (simp add: chat_request_def tools_field_def opt_key_def opt_num_def stop_field_def Let_def
      split: option.split)

lemma chat_request_gets:
  "mget ''model'' (chat_request b st r ms) = JStr (ar_model r)"
  "mget ''messages'' (chat_request b st r ms) = JArr (system_message (ar_system r) @ ms)"
  "mget ''max_tokens'' (chat_request b st r ms) =
     (case ar_max_tokens r of None \<Rightarrow> JNull | Some i \<Rightarrow> JInt i)"
  "mget ''reasoning_effort'' (chat_request b st r ms) =
     (case ExtractAnthropicEffort b of None \<Rightarrow> JNull | Some e \<Rightarrow> JStr e)"
  "mget ''temperature'' (chat_request b st r ms) =
     (case ar_temperature r of None \<Rightarrow> JNull | Some e \<Rightarrow> JNum e)"
  "mget ''top_p'' (chat_request b st r ms) = (case ar_top_p r of None \<Rightarrow> JNull | Some e \<Rightarrow> JNum e)"
  by (auto simp: chat_request_def opt_num_def mget_Cons split: option.split)

lemma chat_request_absent:
  assumes "k \<in> {''max_completion_tokens'', ''max_output_tokens'', ''service_tier'', ''reasoning'',
      ''input'', ''response_format''}"
  shows "mget k (chat_request b st r ms) = JNull"
proof -
  have "\<not> mhas k (chat_request b st r ms)" using assms by (auto simp: chat_request_def)
  then show ?thesis
    by (metis map_of_eq_None_iff mget_def mhas_def option.simps(4) set_rev)
qed

lemma chat_request_tools:
  "\<exists>vs. mget ''tools'' (chat_request b st r ms) = JArr vs \<and> (\<forall>v \<in> set vs. is_map v)
    \<or> mget ''tools'' (chat_request b st r ms) = JNull"
  using map_filter_maps [of anthropic_tool, OF anthropic_tool_map]
  by (auto simp: chat_request_def tools_field_def mget_Cons Let_def)

lemma chat_request_decodes:
  assumes "decode_anthropicRequest b = Some r"
    and "\<And>v. v \<in> set ms \<Longrightarrow> is_map v"
  shows "\<exists>q. decode_chatRequest (Some (JObj (chat_request b st r ms))) = Some q \<and>
    cr_model q = ar_model r \<and> cr_effort q = ExtractAnthropicEffort b \<and>
    cr_reasoning q = JNull \<and> cr_input q = JNull"
proof -
  let ?k = "chat_request b st r ms"
  note f = field_plain [OF chat_request_plain [of b st r ms]]
  have "is_map v" if "v \<in> set (system_message (ar_system r) @ ms)" for v
    using that assms(2) by (auto simp: system_message_def Let_def split: if_splits)
  then obtain os where "objs_field ''messages'' ?k = Some os"
    using objs_field_maps [of "''messages''" ?k "system_message (ar_system r) @ ms"]
    by (auto simp: f chat_request_gets)
  moreover obtain ts where "objs_field ''tools'' ?k = Some ts"
    using chat_request_tools [of b st r ms] objs_field_maps [of "''tools''" ?k]
    by (force simp: f objs_field_def)
  moreover have "intp_field ''max_tokens'' ?k = Some (ar_max_tokens r)"
    by (rule intp_field_opt) (auto simp: f chat_request_gets decode_anthropic_ranges [OF assms(1)])
  moreover have "intp_field k ?k = Some None" if "k \<in> {''max_completion_tokens'', ''max_output_tokens''}" for k
    using that by (auto simp: intp_field_def f chat_request_absent)
  moreover have "nump_field ''temperature'' ?k = Some (ar_temperature r)" "nump_field ''top_p'' ?k = Some (ar_top_p r)"
    by (simp_all add: nump_field_def f chat_request_gets split: option.split)
  moreover have "strp_field ''reasoning_effort'' ?k = Some (ExtractAnthropicEffort b)"
      "strp_field ''service_tier'' ?k = Some None" "str_field ''model'' ?k = Some (ar_model r)"
    by (simp_all add: strp_field_def str_field_def f chat_request_gets chat_request_absent split: option.split)
  ultimately show ?thesis
    by (simp add: decode_chatRequest_def f chat_request_absent)
qed

lemma anthropic_effort_canonical: "ExtractAnthropicEffort b = Some e \<Longrightarrow> e \<in> set canonical_efforts"
  by (auto simp: ExtractAnthropicEffort_def thinking_effort_def Let_def canonical_efforts_def [symmetric]
      dest!: NormalizeEffort_canonical intro: BudgetToLevel_canonical split: option.splits if_splits)
     (simp_all add: canonical_efforts_def)

lemma chat_effort_canonical: "ExtractChatEffort b = Some e \<Longrightarrow> e \<in> set canonical_efforts"
  by (auto simp: ExtractChatEffort_def nested_effort_def bind_eq_Some_conv
      dest: NormalizeEffort_canonical split: option.splits)

lemma effort_to_chat:
  assumes "value_of (TranslateAnthropicToChat cd rid b st) n = Inr out"
  shows "ExtractChatEffort out = ExtractAnthropicEffort b"
proof -
  from assms obtain r where r: "decode_anthropicRequest b = Some r"
    by (auto simp: TranslateAnthropicToChat_def split: option.splits)
  let ?ms = "value_of (anthropic_messages cd rid (ar_messages r)) n"
  have out: "out = Some (JObj (chat_request b st r ?ms))"
    using assms r by (simp add: TranslateAnthropicToChat_def)
  have maps: "is_map v" if "v \<in> set ?ms" for v using that by (rule anthropic_messages_maps)
  obtain q where q: "decode_chatRequest out = Some q" "cr_effort q = ExtractAnthropicEffort b"
      "cr_reasoning q = JNull"
    using chat_request_decodes [OF r maps] unfolding out by blast
  have "Option.bind (ExtractAnthropicEffort b) NormalizeEffort = ExtractAnthropicEffort b"
    using anthropic_effort_canonical NormalizeEffort_id by (cases "ExtractAnthropicEffort b") auto
  with q show ?thesis by (simp add: ExtractChatEffort_def nested_effort_def split: option.split)
qed

lemma anthropic_request_thinking:
  "mget ''thinking'' (anthropic_request b st r acc) = mget ''thinking'' (thinking_fields b)"
  "mget ''output_config'' (anthropic_request b st r acc) = mget ''output_config'' (thinking_fields b)"
  by (simp_all add: anthropic_request_def thinking_fields_def mget_Cons split: option.split)

lemma MapChat_canonical: "e \<in> set canonical_efforts \<Longrightarrow> MapChatEffortToAnthropic e \<in> set canonical_efforts"
  by (auto simp: canonical_efforts_def MapChatEffortToAnthropic_def)

lemma equal_fold_disabled:
  "equal_fold (trim_space ''disabled'') ''disabled''" "\<not> equal_fold (trim_space ''adaptive'') ''disabled''"
  by (simp_all add: equal_fold_def text_eval)

lemma effort_to_anthropic:
  assumes "value_of (TranslateChatToAnthropic cd rid b st) n = Inr out"
  shows "ExtractAnthropicEffort out = map_option MapChatEffortToAnthropic (ExtractChatEffort b)"
proof -
  from assms obtain r where r: "decode_chatRequest b = Some r"
    by (auto simp: TranslateChatToAnthropic_def split: option.splits)
  define acc where "acc = value_of (chat_messages cd rid (cr_messages r) ([], [])) n"
  have out: "out = Some (JObj (anthropic_request b st r acc))"
    using assms r by (simp add: TranslateChatToAnthropic_def acc_def)
  show ?thesis
  proof (cases "ExtractChatEffort b")
    case None
    then show ?thesis
      by (simp add: out ExtractAnthropicEffort_def anthropic_request_thinking thinking_fields_def)
  next
    case (Some e)
    have norm: "NormalizeEffort (MapChatEffortToAnthropic e) = Some (MapChatEffortToAnthropic e)"
      by (intro NormalizeEffort_id MapChat_canonical chat_effort_canonical [OF Some])
    show ?thesis
    proof (cases "e = ''none''")
      case True
      with Some show ?thesis
        by (simp add: out ExtractAnthropicEffort_def anthropic_request_thinking thinking_fields_def
            mget_Cons equal_fold_disabled MapChatEffortToAnthropic_def)
    next
      case False
      with Some show ?thesis
        by (simp add: out ExtractAnthropicEffort_def anthropic_request_thinking thinking_fields_def
            mget_Cons equal_fold_disabled norm)
    qed
  qed
qed

lemma two_step_succeeds:
  assumes "value_of (TranslateAnthropicToChat cd rid b st) n = Inr out"
  shows "\<exists>req. value_of (TranslateChatToResponses cd rid out st') n' = Inr req"
proof -
  from assms obtain r where r: "decode_anthropicRequest b = Some r"
    by (auto simp: TranslateAnthropicToChat_def split: option.splits)
  let ?ms = "value_of (anthropic_messages cd rid (ar_messages r)) n"
  have out: "out = Some (JObj (chat_request b st r ?ms))"
    using assms r by (simp add: TranslateAnthropicToChat_def)
  have maps: "is_map v" if "v \<in> set ?ms" for v using that by (rule anthropic_messages_maps)
  obtain q where "decode_chatRequest out = Some q" "cr_input q = JNull"
    using chat_request_decodes [OF r maps] unfolding out by blast
  then show ?thesis by (simp add: TranslateChatToResponses_def)
qed

section \<open>Images\<close>

lemma cut_pair_append: "sep \<notin> set a \<Longrightarrow> cut_pair sep (a @ sep # b) = (a, b)"
  by (simp add: cut_pair_def)

lemma image_base64_roundtrip:
  assumes "media \<noteq> ''''" "payload \<noteq> ''''" "CHR '','' \<notin> set media" "CHR '';'' \<notin> set media"
  shows "anthropicImageBlock (JStr (data_url media payload)) = Some (image_of (base64_source media payload))"
    and "chatImagePart (base64_source media payload) = Some (image_url_part (data_url media payload))"
proof -
  have "cut_pair CHR '','' (media @ '';base64,'' @ payload) = (media @ '';base64'', payload)"
    using cut_pair_append [of "CHR '',''" "media @ '';base64''" payload] assms(3) by simp
  moreover have "cut_pair CHR '';'' (media @ '';base64'') = (media, ''base64'')"
    using cut_pair_append [of "CHR '';''" media "''base64''"] assms(4) by simp
  ultimately have src: "data_url_source ''image/png'' (media @ '';base64,'' @ payload) = Some (base64_source media payload)"
    using assms(1,2) unfolding data_url_source_def by simp
  have pre: "cut_prefix ''data:'' (data_url media payload) = Some (media @ '';base64,'' @ payload)"
    unfolding data_url_def by (rule cut_prefix_append)
  have "data_url media payload \<noteq> ''''" by (simp add: data_url_def)
  then show "anthropicImageBlock (JStr (data_url media payload)) = Some (image_of (base64_source media payload))"
    unfolding anthropicImageBlock_def image_url_of_def using pre src by simp
  show "chatImagePart (base64_source media payload) = Some (image_url_part (data_url media payload))"
    using assms(1) by (simp add: chatImagePart_def base64_source_def mget_Cons or_default_def)
qed

lemma image_url_roundtrip:
  assumes "url \<noteq> ''''" "cut_prefix ''data:'' url = None"
  shows "anthropicImageBlock (JStr url) = Some (image_of (JObj [(''type'', JStr ''url''), (''url'', JStr url)]))"
    and "chatImagePart (JObj [(''type'', JStr ''url''), (''url'', JStr url)]) = Some (image_url_part url)"
  using assms unfolding anthropicImageBlock_def image_url_of_def chatImagePart_def
  by (simp_all add: mget_Cons del: cut_prefix.simps)

section \<open>Complete responses\<close>

lemma field_mget_plain: "plain kvs \<Longrightarrow> objs_field k kvs = (case mget k kvs of
    JNull \<Rightarrow> Some [] | JArr xs \<Rightarrow> decode_objs xs | _ \<Rightarrow> None)"
  by (simp add: objs_field_def field_plain)

lemma decode_function_calls:
  "those (map decode_call (map (\<lambda>(i, n, a). [(''id'', JStr i), (''type'', JStr ''function''),
     (''function'', JObj [(''name'', JStr n), (''arguments'', JStr a)])]) cs)) = Some cs"
  by (induction cs) (auto simp: decode_call_def str_field_def obj_field_def field_plain mget_Cons)

lemma function_calls_map:
  "map (\<lambda>(i, n, a). function_call i n a) cs = map JObj (map (\<lambda>(i, n, a). [(''id'', JStr i),
     (''type'', JStr ''function''), (''function'', JObj [(''name'', JStr n), (''arguments'', JStr a)])]) cs)"
  by (auto simp: function_call_def)

lemma completion_message_decodes:
  fixes cs :: "(string \<times> string \<times> string) list"
  defines "calls \<equiv> map (\<lambda>(i, n, a). function_call i n a) cs"
  shows "field ''content'' (completion_message ts calls rs) =
      (if calls \<noteq> [] \<and> ts = [] then JNull else JStr (concat ts))"
    and "Option.bind (objs_field ''tool_calls'' (completion_message ts calls rs))
      (\<lambda>xs. those (map decode_call xs)) = Some cs"
proof -
  have p: "plain (completion_message ts calls rs)"
    by (simp add: completion_message_def calls_field_def reasoning_field_def)
  show "field ''content'' (completion_message ts calls rs) =
      (if calls \<noteq> [] \<and> ts = [] then JNull else JStr (concat ts))"
    by (simp add: field_plain [OF p]) (simp add: completion_message_def calls_field_def reasoning_field_def mget_Cons)
  define os where "os = map (\<lambda>(i, n, a). [(''id'', JStr i), (''type'', JStr ''function''),
     (''function'', JObj [(''name'', JStr n), (''arguments'', JStr a)])]) cs"
  have calls: "calls = map JObj os" unfolding calls_def os_def by (rule function_calls_map)
  have decoded: "those (map decode_call os) = Some cs" unfolding os_def by (rule decode_function_calls)
  have "mget ''tool_calls'' (completion_message ts calls rs) = (if calls = [] then JNull else JArr calls)"
    by (simp add: completion_message_def calls_field_def reasoning_field_def mget_Cons)
  then have "objs_field ''tool_calls'' (completion_message ts calls rs) = Some os"
    unfolding field_mget_plain [OF p] by (cases os) (simp_all add: calls)
  with decoded show "Option.bind (objs_field ''tool_calls'' (completion_message ts calls rs))
      (\<lambda>xs. those (map decode_call xs)) = Some cs"
    by simp
qed

lemma completion_object_decodes:
  fixes cs :: "(string \<times> string \<times> string) list"
  assumes calls: "calls = map (\<lambda>(i, n, a). function_call i n a) cs"
    and usage: "usage = [] \<or> (\<exists>p c t. usage = usage_object p c t \<and>
      (\<forall>i. p = Some i \<longrightarrow> in_int64 i) \<and> (\<forall>i. c = Some i \<longrightarrow> in_int64 i))"
  shows "\<exists>u. decode_chat_object (completion_object i now model (completion_message ts calls rs) fin usage) =
    Some \<lparr>ob_model = model, ob_choices = [(if calls \<noteq> [] \<and> ts = [] then JNull else JStr (concat ts), cs, Some fin)],
      ob_usage = u\<rparr>"
proof -
  let ?m = "completion_message ts calls rs"
  let ?choice = "[(''index'', JInt 0), (''message'', JObj ?m), (''finish_reason'', JStr fin)]"
  let ?o = "[(''id'', JStr i), (''object'', JStr ''chat.completion''), (''created'', JInt now),
      (''model'', JStr model), (''choices'', JArr [JObj ?choice])] @ usage"
  have po: "plain ?o" using usage by (auto simp: usage_object_def)
  obtain os where os: "objs_field ''tool_calls'' ?m = Some os" "those (map decode_call os) = Some cs"
    using completion_message_decodes(2) [of ts cs rs, folded calls] by (auto simp: bind_eq_Some_conv)
  have choice: "decode_completion_choice ?choice =
      Some (if calls \<noteq> [] \<and> ts = [] then JNull else JStr (concat ts), cs, Some fin)"
    using completion_message_decodes(1) [of ts cs rs, folded calls] os
    by (simp add: decode_completion_choice_def obj_field_def strp_field_def field_plain mget_Cons)
  have "mget ''choices'' ?o = JArr [JObj ?choice]" "mget ''model'' ?o = JStr model"
    using usage by (auto simp: usage_object_def mget_Cons)
  then have 1: "objs_field ''choices'' ?o = Some [?choice]" "str_field ''model'' ?o = Some model"
    by (simp_all add: field_mget_plain [OF po] str_field_def field_plain [OF po] del: append_Cons append.simps)
  have "\<exists>u. ptr_field ''usage'' (int64_pair ''prompt_tokens'' ''completion_tokens'') ?o = Some u"
  proof (cases "usage = []")
    case True
    then have "field ''usage'' ?o = JNull" by (simp add: field_plain mget_Cons)
    then have "objp_field ''usage'' ?o = Some None" unfolding objp_field_def by simp
    then show ?thesis by (simp add: ptr_field_def)
  next
    case False
    with usage obtain p c t where u: "usage = usage_object p c t" "\<And>i. p = Some i \<Longrightarrow> in_int64 i"
        "\<And>i. c = Some i \<Longrightarrow> in_int64 i" by blast
    let ?u = "[(''prompt_tokens'', opt_int p), (''completion_tokens'', opt_int c), (''total_tokens'', opt_int t)]"
    have "field ''usage'' ?o = JObj ?u" unfolding field_plain [OF po] by (simp add: u(1) usage_object_def mget_Cons)
    then have "objp_field ''usage'' ?o = Some (Some ?u)" unfolding objp_field_def by simp
    moreover have "intp_field ''prompt_tokens'' ?u = Some p" "intp_field ''completion_tokens'' ?u = Some c"
      by (rule intp_field_opt; simp add: field_plain mget_Cons opt_int_def u split: option.split)+
    ultimately show ?thesis by (simp add: ptr_field_def int64_pair_def)
  qed
  with 1 choice show ?thesis
    unfolding decode_chat_object_def completion_object_def body_simps bind.bind_lunit by auto
qed

text \<open>The tool uses of a message, as identifier, name and encoded input.\<close>

definition tool_uses :: "codec \<Rightarrow> obj list \<Rightarrow> (string \<times> string \<times> string) list" where
  "tool_uses cd bs = map (\<lambda>b. (stringOf (mget ''id'' b), stringOf (mget ''name'' b),
     input_text cd (mget ''input'' b))) (filter (\<lambda>b. stringOf (mget ''type'' b) = ''tool_use'') bs)"

lemma block_calls: "concat (map (block_call cd) bs) = map (\<lambda>(i, n, a). function_call i n a) (tool_uses cd bs)"
  by (induction bs) (simp_all add: block_call_def tool_uses_def)

lemma int64_pair_range:
  "int64_pair a b kvs = Some (p, c) \<Longrightarrow> (\<forall>i. p = Some i \<longrightarrow> in_int64 i) \<and> (\<forall>i. c = Some i \<longrightarrow> in_int64 i)"
  by (auto simp: int64_pair_def bind_eq_Some_conv dest: intp_field_range)

lemma ptr_field_Some: "ptr_field k f kvs = Some (Some x) \<Longrightarrow> \<exists>o1. f o1 = Some x"
  by (auto simp: ptr_field_def bind_eq_Some_conv split: option.splits)

lemma decode_message_usage:
  assumes "decode_message_object data = Some r" "mo_usage r = Some (p, c)"
  shows "(\<forall>i. p = Some i \<longrightarrow> in_int64 i) \<and> (\<forall>i. c = Some i \<longrightarrow> in_int64 i)"
proof -
  obtain o1 where "int64_pair ''input_tokens'' ''output_tokens'' o1 = Some (p, c)"
    using assms by (auto simp: decode_message_object_def bind_eq_Some_conv dest!: ptr_field_Some)
  then show ?thesis by (rule int64_pair_range)
qed

lemma messageText_simps [simp]: "messageText (JStr s) = s" "messageText JNull = ''''"
  by (simp_all add: messageText_def instructionsText_def)

lemma unary_back:
  assumes "calls = map (\<lambda>(i, n, a). function_call i n a) cs"
    and "usage = [] \<or> (\<exists>p c t. usage = usage_object p c t \<and>
      (\<forall>i. p = Some i \<longrightarrow> in_int64 i) \<and> (\<forall>i. c = Some i \<longrightarrow> in_int64 i))"
  shows "\<exists>u. value_of (TranslateChatToAnthropicObject cd rid
      (completion_object i now model (completion_message ts calls rs) fin usage) model') n =
    Inr (message_object (''msg_'' @ rid n) (if model' = '''' then model else model')
      (add_text (concat ts) @ map (call_block cd) cs) (unary_stop (Some fin)) u)"
proof -
  obtain u where dec: "decode_chat_object (completion_object i now model (completion_message ts calls rs) fin usage) =
      Some \<lparr>ob_model = model, ob_choices = [(if calls \<noteq> [] \<and> ts = [] then JNull else JStr (concat ts), cs, Some fin)],
        ob_usage = u\<rparr>"
    using completion_object_decodes [OF assms] by blast
  show ?thesis
    unfolding TranslateChatToAnthropicObject_def dec
    by (auto simp: Let_def add_text_def split: option.split prod.split)
qed

lemma unary_roundtrip:
  assumes "decode_message_object data = Some r"
    and "value_of (TranslateAnthropicToChatObject cd rid now data) n = Inr out"
  shows "\<exists>u. value_of (TranslateChatToAnthropicObject cd rid out model) m =
    Inr (message_object (''msg_'' @ rid m) (if model = '''' then mo_model r else model)
      (add_text (concat (concat (map result_text (mo_content r)))) @ map (call_block cd) (tool_uses cd (mo_content r)))
      (unary_stop (Some (unary_finish (concat (map (block_call cd) (mo_content r))) (mo_stop r)))) u)"
proof -
  define usage where "usage = (case mo_usage r of None \<Rightarrow> [] | Some (p, c) \<Rightarrow> usage_object p c (total_of p c))"
  have usage: "usage = [] \<or> (\<exists>p c t. usage = usage_object p c t \<and>
      (\<forall>i. p = Some i \<longrightarrow> in_int64 i) \<and> (\<forall>i. c = Some i \<longrightarrow> in_int64 i))"
  proof (cases "mo_usage r")
    case (Some pc)
    obtain p c where pc: "pc = (p, c)" by fastforce
    have "usage = usage_object p c (total_of p c)" by (simp add: usage_def Some pc)
    with decode_message_usage [OF assms(1) Some [unfolded pc]] show ?thesis by blast
  qed (simp add: usage_def)
  have "out = completion_object (''chatcmpl-'' @ rid n) now (mo_model r)
      (completion_message (concat (map result_text (mo_content r))) (concat (map (block_call cd) (mo_content r)))
        (concat (map block_reasoning (mo_content r))))
      (unary_finish (concat (map (block_call cd) (mo_content r))) (mo_stop r)) usage"
    using assms by (simp add: TranslateAnthropicToChatObject_def usage_def Let_def)
  with unary_back [OF block_calls usage] show ?thesis by simp
qed

text \<open>The input of a tool use survives a codec that reads back what it wrote.\<close>

lemma toolArguments_input:
  assumes "dec cd (enc cd (JObj kvs)) = Some (JObj kvs)" "enc cd (JObj kvs) \<noteq> ''''"
  shows "toolArguments cd (input_text cd (JObj kvs)) = JObj kvs"
  using assms by (simp add: toolArguments_def input_text_def)

lemma unary_stop_finish:
  "stop \<in> {''end_turn'', ''max_tokens''} \<Longrightarrow> unary_stop (Some (unary_finish [] (Some stop))) = stop"
  "calls \<noteq> [] \<Longrightarrow> unary_stop (Some (unary_finish calls stop')) = ''tool_use''"
  by (auto simp: unary_stop_def unary_finish_def)

lemma item_calls_form:
  "\<exists>cs. value_of (item_calls cd rid i) n = map (\<lambda>(i, n, a). function_call i n a) cs"
proof (cases "value_of (item_calls cd rid i) n = []")
  case False
  then have "value_of (item_calls cd rid i) n = map (\<lambda>(i, n, a). function_call i n a)
      [(value_of (call_id rid (it_call_id i)) n, it_name i, argumentsString cd (it_arguments i) (it_input i))]"
    by (auto simp: item_calls_def split: if_splits)
  then show ?thesis by blast
qed auto

lemma items_calls_form:
  "\<exists>cs. value_of (items_calls cd rid is) n = map (\<lambda>(i, n, a). function_call i n a) cs"
proof (induction "is" arbitrary: n)
  case (Cons i "is")
  obtain cs where "value_of (item_calls cd rid i) n = map (\<lambda>(i, n, a). function_call i n a) cs"
    using item_calls_form by blast
  moreover obtain ds where "value_of (items_calls cd rid is) (next_of (item_calls cd rid i) n) =
      map (\<lambda>(i, n, a). function_call i n a) ds"
    using Cons.IH by blast
  ultimately have "value_of (items_calls cd rid (i # is)) n = map (\<lambda>(i, n, a). function_call i n a) (cs @ ds)"
    by simp
  then show ?case by blast
qed simp

lemma decode_responses_usage:
  assumes "decode_responses_object data = Some r" "ro_usage r = Some (u, t)"
  shows "(\<forall>i. ru_input u = Some i \<or> ru_prompt u = Some i \<or> ru_output u = Some i \<or> ru_completion u = Some i
    \<longrightarrow> in_int64 i)"
proof -
  obtain o1 where "decode_resp_usage o1 = Some u"
    using assms by (auto simp: decode_responses_object_def bind_eq_Some_conv decode_unary_usage_def
        dest!: ptr_field_Some)
  then show ?thesis
    by (auto simp: decode_resp_usage_def bind_eq_Some_conv dest!: int64_pair_range)
qed

lemma responses_then_anthropic:
  assumes "decode_responses_object data = Some r"
    and "value_of (TranslateResponsesToChat cd rid now data) n = Inr out"
  shows "\<exists>stop cs u model'. value_of (TranslateChatToAnthropicObject cd rid out model) m =
    Inr (message_object (''msg_'' @ rid m) model'
      (add_text (concat (concat (map item_texts (ro_output r)))) @ map (call_block cd) cs) stop u)"
proof -
  define calls where "calls = value_of (items_calls cd rid (ro_output r)) n"
  obtain cs where cs: "calls = map (\<lambda>(i, n, a). function_call i n a) cs"
    using items_calls_form unfolding calls_def by blast
  have usage: "responses_usage (ro_usage r) = [] \<or> (\<exists>p c t. responses_usage (ro_usage r) = usage_object p c t \<and>
      (\<forall>i. p = Some i \<longrightarrow> in_int64 i) \<and> (\<forall>i. c = Some i \<longrightarrow> in_int64 i))"
  proof (cases "ro_usage r")
    case (Some ut)
    obtain u t where ut: "ut = (u, t)" by fastforce
    let ?p = "firstNonNil (ru_input u) (ru_prompt u)" and ?c = "firstNonNil (ru_output u) (ru_completion u)"
    have "\<forall>i. (?p = Some i \<longrightarrow> in_int64 i) \<and> (?c = Some i \<longrightarrow> in_int64 i)"
      using decode_responses_usage [OF assms(1) Some [unfolded ut]] by (simp add: firstNonNil_def)
    moreover have "responses_usage (ro_usage r) = usage_object ?p ?c (if t = None then total_of ?p ?c else t)"
      by (simp add: responses_usage_def Some ut Let_def)
    ultimately show ?thesis by blast
  qed (simp add: responses_usage_def)
  have "\<exists>i. out = completion_object i now (ro_model r)
      (completion_message (concat (map item_texts (ro_output r))) calls (concat (map item_reasoning (ro_output r))))
      (responses_finish calls (ro_status r)) (responses_usage (ro_usage r))"
    using assms by (auto simp: TranslateResponsesToChat_def calls_def Let_def split: option.splits if_splits)
  then obtain i where out: "out = completion_object i now (ro_model r)
      (completion_message (concat (map item_texts (ro_output r))) calls (concat (map item_reasoning (ro_output r))))
      (responses_finish calls (ro_status r)) (responses_usage (ro_usage r))" by blast
  from unary_back [OF cs usage] show ?thesis unfolding out by blast
qed

section \<open>Token budgets of a Responses request\<close>

lemma budget_passthrough:
  assumes "\<not> mhas ''max_output_tokens'' raw" "mget ''max_completion_tokens'' raw = JNum c"
    "mget ''max_tokens'' raw = JNum t"
  shows "mget ''max_output_tokens'' (normalizeResponsesTokenBudget raw) = JNum t"
  using assms by (simp add: normalizeResponsesTokenBudget_def move_budget_def)

lemma budget_translated: "tokenBudget None (Some c) (Some t) = Some c"
  by (simp add: tokenBudget_def)

lemma budget_keys_gone:
  "\<not> mhas ''max_output_tokens'' raw \<Longrightarrow> k \<in> {''max_completion_tokens'', ''max_tokens''} \<Longrightarrow>
    \<not> mhas k (normalizeResponsesTokenBudget raw)"
  by (auto simp: normalizeResponsesTokenBudget_def move_budget_def split: json.split)

end
