(* ===== verification/Stream_Properties.thy ===== *)
theory Stream_Properties
  imports Stream_Strict Stream_Responses Translate_Laws
begin

text \<open>
  The properties of the event scanner and of the stream translators, with a sample codec on which
  their hypotheses are shown to hold.
\<close>

section \<open>A sample codec\<close>

definition sample_tool_chunk :: "int \<Rightarrow> string \<Rightarrow> string \<Rightarrow> string \<Rightarrow> body" where
  "sample_tool_chunk idx i name args = Some (JObj [(''model'', JStr ''m''), (''choices'', JArr [JObj
     [(''delta'', JObj [(''tool_calls'', JArr [JObj [(''index'', JInt idx), (''id'', JStr i),
        (''function'', JObj [(''name'', JStr name), (''arguments'', JStr args)])]])])]])])"

definition sample_text_chunk :: "string \<Rightarrow> body" where
  "sample_text_chunk txt = Some (JObj [(''model'', JStr ''m''), (''choices'', JArr [JObj
     [(''delta'', JObj [(''content'', JStr txt)])]])])"

text \<open>Four payloads: a text, the starts of two tool calls, and more arguments of the first.\<close>

definition sample_codec :: codec where
  "sample_codec = \<lparr>enc = (\<lambda>v. case v of JStr s \<Rightarrow> quoted s | _ \<Rightarrow> ''{}''),
     dec = (\<lambda>s. if s = ''x'' then sample_text_chunk ''hello''
       else if s = ''a'' then sample_tool_chunk 0 ''c0'' ''f'' ''1''
       else if s = ''b'' then sample_tool_chunk 1 ''c1'' ''g'' ''2''
       else if s = ''c'' then sample_tool_chunk 0 '''' '''' ''3''
       else if s = ''{}'' then Some (JObj []) else None)\<rparr>"

lemma sample_dec [simp]:
  "dec sample_codec ''x'' = sample_text_chunk ''hello''"
  "dec sample_codec ''a'' = sample_tool_chunk 0 ''c0'' ''f'' ''1''"
  "dec sample_codec ''b'' = sample_tool_chunk 1 ''c1'' ''g'' ''2''"
  "dec sample_codec ''c'' = sample_tool_chunk 0 '''' '''' ''3''"
  "dec sample_codec ''{}'' = Some (JObj [])"
  by (simp_all add: sample_codec_def)

lemmas chunk_fields = field_plain mget_Cons objs_field_def str_field_def strp_field_def intp_field_def
  obj_field_def objp_field_def ptr_field_def

lemma index_key [simp]: "to_lower ''delta'' = ''delta''"
  by (simp add: text_eval)

lemma sample_chunks [simp]:
  "decode_chatChunk (sample_text_chunk txt) = Some \<lparr>cc_model = ''m'', cc_choices = [\<lparr>ch_content = Some txt,
     ch_reasoning = None, ch_tools = [], ch_finish = None\<rparr>], cc_completion = None\<rparr>"
  "in_int64 idx \<Longrightarrow> decode_chatChunk (sample_tool_chunk idx i name args) = Some \<lparr>cc_model = ''m'',
     cc_choices = [\<lparr>ch_content = None, ch_reasoning = None, ch_tools = [\<lparr>td_index = Some idx, td_id = i,
       td_name = name, td_args = args\<rparr>], ch_finish = None\<rparr>], cc_completion = None\<rparr>"
  by (simp_all add: sample_text_chunk_def sample_tool_chunk_def decode_chatChunk_def decode_choice_def
      decode_tool_delta_def chunk_fields JInt_def json_int_def)

section \<open>The scanner\<close>

text \<open>C27: Where the network cuts a stream of events is invisible: two divisions of the same bytes give
  the same calls of the handler, the same error and the same final state, whatever way reading ends
  and whenever the handler stops the scan.\<close>

theorem scan_chunk_independent:
  assumes "concat cs = concat ds"
  shows "scanSSE h cs e st = scanSSE h ds e st"
  using assms by (rule scanSSE_chunks)

lemma scan_chunk_independent_witness:
  "concat [''data: h'', ''i'' @ [nl], [nl]] = concat [''da'', ''ta: hi'' @ [nl, nl]] \<and>
   scanSSE (\<lambda>e d st. (st @ [d], True)) [''data: h'', ''i'' @ [nl], [nl]] EndOfStream [] =
   scanSSE (\<lambda>e d st. (st @ [d], True)) [''da'', ''ta: hi'' @ [nl, nl]] EndOfStream []"
proof -
  have eq: "concat [''data: h'', ''i'' @ [nl], [nl]] = concat [''da'', ''ta: hi'' @ [nl, nl]]" by simp
  from eq scan_chunk_independent [OF eq] show ?thesis by (rule conjI)
qed

text \<open>What the translators write the scanner reads: from the bytes of a list of frames, cut anywhere,
  it calls the handler with the event and data of each frame in order, until the handler stops it.\<close>

theorem frames_roundtrip:
  assumes "\<forall>f \<in> set fs. frame_ok cd f" "concat cs = concat (map (frame_text cd) fs)"
  shows "scanSSE h cs EndOfStream st =
    run_handler h (map (\<lambda>f. (frame_event f, frame_data cd f)) fs) st"
  using assms by (rule scanSSE_frames)

lemma frames_roundtrip_witness:
  "scanSSE (\<lambda>e d st. (st @ [(e, d)], d \<noteq> ''[DONE]''))
     [concat (map (frame_text sample_codec) [EventFrame ''ping'' (JObj []), DataFrame (JStr ''a''), DoneFrame])]
     EndOfStream [] = (Some Canceled, [(''ping'', ''{}''), ([], quoted ''a''), ([], ''[DONE]'')])"
proof -
  let ?fs = "[EventFrame ''ping'' (JObj []), DataFrame (JStr ''a''), DoneFrame]"
  have "\<forall>f \<in> set ?fs. frame_ok sample_codec f"
    by (simp add: frame_ok_def line_text_def sample_codec_def nl_def cr_def quoted_def)
  from frames_roundtrip [OF this, of "[concat (map (frame_text sample_codec) ?fs)]"
      "\<lambda>e d st. (st @ [(e, d)], d \<noteq> ''[DONE]'')" "[]"]
  show ?thesis by (simp add: sample_codec_def quoted_def)
qed

section \<open>Streams to chat clients\<close>

lemma ac_stream_complete:
  "accept_all chat_acc (run_stream (ac_FeedEvent cd rid) ac_Finish es
      (NewAnthropicToChatTranslator rid now model)) Streaming = Some Ended \<and>
   stream_content (run_stream (ac_FeedEvent cd rid) ac_Finish es
      (NewAnthropicToChatTranslator rid now model)) = anthropic_text cd es"
proof
  let ?t = "NewAnthropicToChatTranslator rid now model"
  show "accept_all chat_acc (run_stream (ac_FeedEvent cd rid) ac_Finish es ?t) Streaming = Some Ended"
    using ac.stream_accepted [of ?t Streaming cd rid es] by (auto simp: always_def)
  show "stream_content (run_stream (ac_FeedEvent cd rid) ac_Finish es ?t) = anthropic_text cd es"
    by (rule ac_text_preserved) (simp add: NewAnthropicToChatTranslator_def)
qed

text \<open>C28: For every sequence of Anthropic events, well-formed or not, the chat client gets a complete
  stream: chunks without a finish reason, one with it, [DONE], and nothing after; and the text it
  assembles is that of the events up to the first terminal one.\<close>

theorem anthropic_to_chat_stream:
  "accept_all chat_acc (run_stream (ac_FeedEvent cd rid) ac_Finish es
      (NewAnthropicToChatTranslator rid now model)) Streaming = Some Ended \<and>
   stream_content (run_stream (ac_FeedEvent cd rid) ac_Finish es
      (NewAnthropicToChatTranslator rid now model)) = anthropic_text cd es"
  by (rule ac_stream_complete)


section \<open>Streams to Anthropic clients\<close>

text \<open>C30: When at least one chunk of a chat stream decodes and no tool call is taken up again after it was
  left, the Anthropic client gets a well-formed stream: one message_start, blocks with consecutive
  indices that are opened, addressed by their deltas only while open, and closed, then message_delta
  and message_stop.\<close>

theorem chat_to_anthropic_stream:
  assumes "contiguous None {} (concat (map (data_parts cd) ds))"
    and "\<exists>d \<in> set ds. decode_chatChunk (dec cd d) \<noteq> None"
  shows "\<exists>q. accept_all (ant_acc True) (run_stream (ca_FeedChunk cd rid) ca_Finish ds
      (NewChatToAnthropicTranslator rid model)) ant_init = Some q \<and> as_done q"
proof (rule ca_stream_strict [where cs = "(None, {})"])
  show "ca_started (NewChatToAnthropicTranslator rid model) \<or> (\<not> ca_finished (NewChatToAnthropicTranslator rid model) \<and>
      (\<exists>d \<in> set ds. decode_chatChunk (dec cd d) \<noteq> None))"
    using assms(2) by (simp add: NewChatToAnthropicTranslator_def)
qed (use assms(1) in simp_all)

lemma chat_to_anthropic_stream_witness:
  "\<exists>q. accept_all (ant_acc True) (run_stream (ca_FeedChunk sample_codec (\<lambda>n. ''r'')) ca_Finish
      [''x'', ''a'', ''c'', ''b''] (NewChatToAnthropicTranslator (\<lambda>n. ''r'') ''m'')) ant_init = Some q \<and> as_done q"
  by (rule chat_to_anthropic_stream)
    (simp_all add: data_parts_def choice_parts_def given_def tool_index_def in_int64_def)

text \<open>A chunk with one tool delta opens a block for a new call.\<close>

abbreviation tool_chunk :: "string \<Rightarrow> chatToolCallDelta \<Rightarrow> chatChunk" where
  "tool_chunk m tc \<equiv> \<lparr>cc_model = m, cc_choices = [\<lparr>ch_content = None, ch_reasoning = None,
     ch_tools = [tc], ch_finish = None\<rparr>], cc_completion = None\<rparr>"

lemma feed_tool:
  assumes "decode_chatChunk (dec cd d) = Some (tool_chunk m tc)" "\<not> ca_finished t"
  shows "\<exists>t0. ca_FeedChunk cd rid d t = emit_seq ca_start (toolFrames rid tc) t0 \<and>
    ca_toolBlocks t0 = ca_toolBlocks t \<and> ca_blockIndex t0 = ca_blockIndex t \<and>
    ca_started t0 = ca_started t \<and> ca_finished t0 = ca_finished t"
  using assms
  by (intro exI [of _ "if ca_model t = [] \<and> m \<noteq> [] then t\<lparr>ca_model := m\<rparr> else t"])
    (simp add: ca_FeedChunk_def ca_chunk_def ca_choice_def nonempty_def emit_seq_def
      emit_none_def split: prod.split)

lemma start_state [simp]:
  "ca_toolBlocks (snd (ca_start t)) = ca_toolBlocks t" "ca_blockIndex (snd (ca_start t)) = ca_blockIndex t"
  "ca_started (snd (ca_start t))" "ca_finished (snd (ca_start t)) = ca_finished t"
  "ca_started t \<Longrightarrow> ca_start t = ([], t)"
  by (simp_all add: ca_start_def)

lemma toolFrames_state:
  "ca_toolBlocks t (tool_index tc) = None \<Longrightarrow>
    ca_toolBlocks (snd (toolFrames rid tc t)) = (ca_toolBlocks t)(tool_index tc \<mapsto> ca_blockIndex t) \<and>
    ca_blockIndex (snd (toolFrames rid tc t)) = ca_blockIndex t + 1 \<and>
    ca_started (snd (toolFrames rid tc t)) = ca_started t \<and> ca_finished (snd (toolFrames rid tc t)) = ca_finished t"
  by (simp add: toolFrames_def startTool_def closeBlock_def toolArgs_def Let_def tool_index_def [symmetric])

lemma feed_tool_state:
  assumes "decode_chatChunk (dec cd d) = Some (tool_chunk m tc)" "\<not> ca_finished t"
    and "ca_toolBlocks t (tool_index tc) = None"
  shows "ca_toolBlocks (snd (ca_FeedChunk cd rid d t)) = (ca_toolBlocks t)(tool_index tc \<mapsto> ca_blockIndex t) \<and>
    ca_blockIndex (snd (ca_FeedChunk cd rid d t)) = ca_blockIndex t + 1 \<and>
    ca_started (snd (ca_FeedChunk cd rid d t)) \<and> \<not> ca_finished (snd (ca_FeedChunk cd rid d t))"
  using feed_tool [OF assms(1,2), of rid] assms(2,3) toolFrames_state by auto

lemma late_arguments_rejected:
  assumes "ca_toolBlocks t (tool_index tc) = Some b" "as_open q \<noteq> Some b" "td_args tc \<noteq> []"
  shows "accept_all (ant_acc True) (fst (toolFrames rid tc t) @ fs) q = None"
proof -
  have "fst (toolFrames rid tc t) = [block_delta b [(''type'', JStr ''input_json_delta''), (''partial_json'', JStr (td_args tc))]]"
    using assms by (simp add: toolFrames_def toolArgs_def tool_index_def [symmetric] emit_none_def Let_def)
  with assms(2) show ?thesis
    by (simp add: block_delta_def ant_event_def delta_addressed_def)
qed

text \<open>Tool calls whose deltas alternate break the protocol: after a second call opened its block, more
  arguments of the first are sent to a block that was already closed; and a stream without any chunk
  ends with a message_delta that no message_start precedes.\<close>

theorem interleaved_calls_misaddressed:
  "accept_all (ant_acc True) (run_stream (ca_FeedChunk sample_codec rid) ca_Finish [''a'', ''b'', ''c'']
      (NewChatToAnthropicTranslator rid model)) ant_init = None \<and>
   accept_all (ant_acc False) (run_stream (ca_FeedChunk cd rid) ca_Finish []
      (NewChatToAnthropicTranslator rid model)) ant_init = None"
proof
  let ?t = "NewChatToAnthropicTranslator rid model" and ?cd = sample_codec
  let ?f = "ca_FeedChunk ?cd rid"
  let ?t1 = "snd (?f ''a'' ?t)" let ?t2 = "snd (?f ''b'' ?t1)"
  have new: "\<not> ca_finished ?t" "ca_toolBlocks ?t = Map.empty" "ca_blockIndex ?t = 0"
    by (simp_all add: NewChatToAnthropicTranslator_def)
  have decs: "decode_chatChunk (dec ?cd ''a'') = Some (tool_chunk ''m'' \<lparr>td_index = Some 0, td_id = ''c0'', td_name = ''f'', td_args = ''1''\<rparr>)"
      "decode_chatChunk (dec ?cd ''b'') = Some (tool_chunk ''m'' \<lparr>td_index = Some 1, td_id = ''c1'', td_name = ''g'', td_args = ''2''\<rparr>)"
      "decode_chatChunk (dec ?cd ''c'') = Some (tool_chunk ''m'' \<lparr>td_index = Some 0, td_id = [], td_name = [], td_args = ''3''\<rparr>)"
    by (simp_all add: in_int64_def)
  have 1: "ca_toolBlocks ?t1 = [0 \<mapsto> 0] \<and> ca_blockIndex ?t1 = 1 \<and> \<not> ca_finished ?t1"
    using feed_tool_state [OF decs(1) new(1), of rid] new by (simp add: tool_index_def)
  have 2: "ca_toolBlocks ?t2 = [0 \<mapsto> 0, 1 \<mapsto> 1] \<and> ca_blockIndex ?t2 = 2 \<and> ca_started ?t2 \<and> \<not> ca_finished ?t2"
    using feed_tool_state [OF decs(2), of ?t1 rid] 1 by (simp add: tool_index_def)
  have parts: "data_parts ?cd ''a'' = [ToolPart 0]" "data_parts ?cd ''b'' = [ToolPart 1]"
    by (simp_all add: data_parts_def choice_parts_def given_def tool_index_def in_int64_def)
  obtain q1 where q1: "accept_all (ant_acc True) (fst (?f ''a'' ?t)) ant_init = Some q1" "strict_rel (Some 0, {0}) ?t1 q1"
    using ca_FeedChunk_strict [of "(None, {})" ?cd "''a''" ?t ant_init rid] by (auto simp: parts)
  obtain q2 where q2: "accept_all (ant_acc True) (fst (?f ''b'' ?t1)) q1 = Some q2" "strict_rel (Some 1, {1, 0}) ?t2 q2"
    using ca_FeedChunk_strict [OF _ q1(2), of ?cd "''b''" rid] by (auto simp: parts)
  have opened: "as_open q2 \<noteq> Some 0"
    using q2(2) 2 by (auto simp: strict_rel_def ca_rel_def tools_at_def)
  obtain t3 where t3: "?f ''c'' ?t2 = emit_seq ca_start (toolFrames rid \<lparr>td_index = Some 0, td_id = [], td_name = [], td_args = ''3''\<rparr>) t3"
      "ca_toolBlocks t3 = ca_toolBlocks ?t2" "ca_started t3"
    using feed_tool [OF decs(3), of ?t2 rid] 2 by auto
  show "accept_all (ant_acc True) (run_stream ?f ca_Finish [''a'', ''b'', ''c''] ?t) ant_init = None"
    using late_arguments_rejected [of t3 "\<lparr>td_index = Some 0, td_id = [], td_name = [], td_args = ''3''\<rparr>" 0 q2] 2 opened
    by (simp add: run_stream_Cons accept_all_append q1(1) q2(1) t3 tool_index_def)
  show "accept_all (ant_acc False) (run_stream (ca_FeedChunk cd rid) ca_Finish [] ?t) ant_init = None"
    by (simp add: run_stream_Nil ca_Finish_def closeFrames_def closeBlock_def NewChatToAnthropicTranslator_def
        ant_acc_def ant_event_def ant_init_def)
qed

end
