(* ===== verification/Prompts.thy ===== *)
theory Prompts
  imports Json
begin

text \<open>
  internal/provider/prompts.go: the injection of a router prompt into a chat body (a system message
  after the request's own) and into an Anthropic body (appended to the system field, keeping its
  shape). The results for a whole list of prompts, as the gateway injects them, follow.
\<close>

definition newline :: char where "newline = CHR 0x0A"

definition promptHeader :: string where "promptHeader = ''Pogu router preferences:''"

definition promptHeaderFor :: "string \<Rightarrow> string" where
  "promptHeaderFor label =
     (let label = trim_space label in
      if label = '''' then promptHeader else ''Pogu router preferences ('' @ label @ ''):'')"

definition wrapPrompt :: "string \<Rightarrow> string" where
  "wrapPrompt prompt = promptHeader @ [newline] @ trim_func (\<lambda>c. c = newline) prompt"

definition wrapPromptLabeled :: "string \<Rightarrow> string \<Rightarrow> string" where
  "wrapPromptLabeled prompt label =
     promptHeaderFor label @ [newline] @ trim_func (\<lambda>c. c = newline) prompt"

section \<open>Chat bodies\<close>

definition is_system :: "json \<Rightarrow> bool" where
  "is_system item = (case as_obj item of None \<Rightarrow> False | Some msg \<Rightarrow> stringOf (mget ''role'' msg) = ''system'')"

text \<open>The loop that leaves at one past the last system message.\<close>

fun system_end :: "nat \<Rightarrow> nat \<Rightarrow> json list \<Rightarrow> nat" where
  "system_end i pos [] = pos"
| "system_end i pos (item # items) = system_end (i + 1) (if is_system item then i + 1 else pos) items"

definition system_entry :: "string \<Rightarrow> string \<Rightarrow> json" where
  "system_entry prompt label =
     JObj [(''role'', JStr ''system''), (''content'', JStr (wrapPromptLabeled prompt label))]"

definition insert_system :: "json \<Rightarrow> json list \<Rightarrow> json list" where
  "insert_system entry raw = (let pos = system_end 0 0 raw in take pos raw @ [entry] @ drop pos raw)"

definition InjectChatPromptLabeled :: "body \<Rightarrow> string \<Rightarrow> string \<Rightarrow> body" where
  "InjectChatPromptLabeled body prompt label =
     (if trim_space prompt = [] then body
      else with_map (\<lambda>kvs. case as_arr (mget ''messages'' kvs) of
          None \<Rightarrow> kvs
        | Some raw \<Rightarrow> mset_field ''messages'' (JArr (insert_system (system_entry prompt label) raw)) kvs) body)"

definition InjectChatPrompt :: "body \<Rightarrow> string \<Rightarrow> body" where
  "InjectChatPrompt body prompt = InjectChatPromptLabeled body prompt ''''"

section \<open>Anthropic bodies\<close>

definition system_separator :: string where
  "system_separator = [newline, newline] @ ''---'' @ [newline]"

text \<open>The new value of the system field; None for a shape that is left alone.\<close>

definition append_system :: "string \<Rightarrow> string \<Rightarrow> json \<Rightarrow> json option" where
  "append_system prompt label system =
     (let txt = wrapPromptLabeled prompt label in
      case system of
        JNull \<Rightarrow> Some (JStr txt)
      | JStr s \<Rightarrow> Some (JStr (if s = '''' then txt else s @ system_separator @ txt))
      | JArr xs \<Rightarrow> Some (JArr (xs @ [JObj [(''type'', JStr ''text''), (''text'', JStr txt)]]))
      | _ \<Rightarrow> None)"

definition InjectAnthropicPromptLabeled :: "body \<Rightarrow> string \<Rightarrow> string \<Rightarrow> body" where
  "InjectAnthropicPromptLabeled body prompt label =
     (if trim_space prompt = [] then body
      else with_map (\<lambda>kvs. case append_system prompt label (mget ''system'' kvs) of
          None \<Rightarrow> kvs
        | Some v \<Rightarrow> mset_field ''system'' v kvs) body)"

definition InjectAnthropicPrompt :: "body \<Rightarrow> string \<Rightarrow> body" where
  "InjectAnthropicPrompt body prompt = InjectAnthropicPromptLabeled body prompt ''''"

section \<open>Where a prompt lands\<close>

lemma system_entry_is_system [simp]: "is_system (system_entry p l)"
  by (simp add: is_system_def system_entry_def mget_Cons)

lemma system_end_append:
  "system_end i pos (xs @ ys) = system_end (i + length xs) (system_end i pos xs) ys"
  by (induction xs arbitrary: i pos) (simp_all add: ac_simps)

lemma system_end_none: "\<forall>x \<in> set xs. \<not> is_system x \<Longrightarrow> system_end i pos xs = pos"
  by (induction xs arbitrary: i) simp_all

lemma system_end_split:
  "\<exists>ys zs. xs = ys @ zs \<and> (\<forall>z \<in> set zs. \<not> is_system z) \<and> (ys = [] \<or> is_system (last ys)) \<and>
     system_end 0 0 xs = length ys"
proof (induction xs rule: rev_induct)
  case (snoc x xs)
  then obtain ys zs where ih: "xs = ys @ zs" "\<forall>z \<in> set zs. \<not> is_system z"
      "ys = [] \<or> is_system (last ys)" "system_end 0 0 xs = length ys" by blast
  show ?case
  proof (cases "is_system x")
    case True
    then show ?thesis by (intro exI [of _ "xs @ [x]"] exI [of _ "[]"]) (simp add: system_end_append)
  next
    case False
    with ih show ?thesis
      by (intro exI [of _ ys] exI [of _ "zs @ [x]"]) (auto simp: system_end_append)
  qed
qed simp

text \<open>The head and tail of the messages around the place where prompts go.\<close>

definition system_head :: "json list \<Rightarrow> json list" where
  "system_head ms = take (system_end 0 0 ms) ms"

definition system_tail :: "json list \<Rightarrow> json list" where
  "system_tail ms = drop (system_end 0 0 ms) ms"

lemma system_tail_plain: "\<forall>m \<in> set (system_tail ms). \<not> is_system m"
  and system_head_last: "system_head ms = [] \<or> is_system (last (system_head ms))"
  using system_end_split [of ms] by (auto simp: system_tail_def system_head_def)

lemma system_head_tail: "system_head ms @ system_tail ms = ms"
  by (simp add: system_head_def system_tail_def)

lemma insert_system_eq: "insert_system e ms = system_head ms @ e # system_tail ms"
  by (simp add: insert_system_def system_head_def system_tail_def Let_def)

lemma system_end_extend:
  "\<forall>z \<in> set zs. \<not> is_system z \<Longrightarrow> ys = [] \<or> is_system (last ys) \<Longrightarrow> system_end 0 0 (ys @ zs) = length ys"
  by (cases ys rule: rev_cases) (simp_all add: system_end_append system_end_none)

lemma insert_system_again:
  assumes "ys = [] \<or> is_system (last ys)" "\<forall>z \<in> set zs. \<not> is_system z"
  shows "insert_system e (ys @ zs) = ys @ e # zs"
  using system_end_extend [OF assms(2,1)] by (simp add: insert_system_def)

definition inject_chat_all :: "(string \<times> string) list \<Rightarrow> body \<Rightarrow> body" where
  "inject_chat_all ps body = foldl (\<lambda>b (txt, label). InjectChatPromptLabeled b txt label) body ps"

lemma inject_chat_step:
  assumes "mget ''messages'' kvs = JArr (ys @ zs)" "ys = [] \<or> is_system (last ys)"
    "\<forall>z \<in> set zs. \<not> is_system z" "trim_space txt \<noteq> []"
  shows "InjectChatPromptLabeled (Some (JObj kvs)) txt label =
    Some (JObj (mset_field ''messages'' (JArr (ys @ system_entry txt label # zs)) kvs))"
  using assms by (simp add: InjectChatPromptLabeled_def insert_system_again)

lemma inject_chat_all_split:
  assumes "mget ''messages'' kvs = JArr (ys @ zs)" "ys = [] \<or> is_system (last ys)"
    "\<forall>z \<in> set zs. \<not> is_system z" "\<forall>p \<in> set ps. trim_space (fst p) \<noteq> []"
  shows "\<exists>kvs'. inject_chat_all ps (Some (JObj kvs)) = Some (JObj kvs') \<and>
    mget ''messages'' kvs' = JArr (ys @ map (\<lambda>(t, l). system_entry t l) ps @ zs) \<and>
    (\<forall>k. k \<noteq> ''messages'' \<longrightarrow> mget k kvs' = mget k kvs)"
  using assms
proof (induction ps arbitrary: kvs ys)
  case Nil
  then show ?case by (auto simp: inject_chat_all_def)
next
  case (Cons p ps)
  obtain t l where p: "p = (t, l)" by fastforce
  let ?kvs = "mset_field ''messages'' (JArr (ys @ system_entry t l # zs)) kvs"
  have "InjectChatPromptLabeled (Some (JObj kvs)) t l = Some (JObj ?kvs)"
    using Cons.prems by (intro inject_chat_step) (simp_all add: p)
  then have "inject_chat_all (p # ps) (Some (JObj kvs)) = inject_chat_all ps (Some (JObj ?kvs))"
    by (simp add: inject_chat_all_def p)
  moreover have "\<exists>kvs'. inject_chat_all ps (Some (JObj ?kvs)) = Some (JObj kvs') \<and>
    mget ''messages'' kvs' = JArr ((ys @ [system_entry t l]) @ map (\<lambda>(t, l). system_entry t l) ps @ zs) \<and>
    (\<forall>k. k \<noteq> ''messages'' \<longrightarrow> mget k kvs' = mget k ?kvs)"
    using Cons.prems by (intro Cons.IH) simp_all
  ultimately show ?case by (simp add: p)
qed

lemma inject_chat_all_messages:
  assumes "mget ''messages'' kvs = JArr ms" "\<forall>p \<in> set ps. trim_space (fst p) \<noteq> []"
  shows "\<exists>kvs'. inject_chat_all ps (Some (JObj kvs)) = Some (JObj kvs') \<and>
    mget ''messages'' kvs' =
      JArr (system_head ms @ map (\<lambda>(t, l). system_entry t l) ps @ system_tail ms) \<and>
    (\<forall>k. k \<noteq> ''messages'' \<longrightarrow> mget k kvs' = mget k kvs)"
  using assms by (intro inject_chat_all_split system_head_last system_tail_plain)
    (simp_all add: system_head_tail)

text \<open>Anthropic: the texts of a string system field in order, or the blocks.\<close>

definition inject_anthropic_all :: "(string \<times> string) list \<Rightarrow> body \<Rightarrow> body" where
  "inject_anthropic_all ps body = foldl (\<lambda>b (txt, label). InjectAnthropicPromptLabeled b txt label) body ps"

lemma inject_anthropic_blocks:
  assumes "mget ''system'' kvs = JArr xs" "\<forall>p \<in> set ps. trim_space (fst p) \<noteq> []"
  shows "\<exists>kvs'. inject_anthropic_all ps (Some (JObj kvs)) = Some (JObj kvs') \<and>
    mget ''system'' kvs' = JArr (xs @ map (\<lambda>(t, l).
      JObj [(''type'', JStr ''text''), (''text'', JStr (wrapPromptLabeled t l))]) ps) \<and>
    (\<forall>k. k \<noteq> ''system'' \<longrightarrow> mget k kvs' = mget k kvs)"
  using assms
proof (induction ps arbitrary: kvs xs)
  case (Cons p ps)
  obtain t l where p: "p = (t, l)" by fastforce
  let ?x = "JObj [(''type'', JStr ''text''), (''text'', JStr (wrapPromptLabeled t l))]"
  let ?kvs = "mset_field ''system'' (JArr (xs @ [?x])) kvs"
  have "inject_anthropic_all (p # ps) (Some (JObj kvs)) = inject_anthropic_all ps (Some (JObj ?kvs))"
    using Cons.prems
    by (simp add: inject_anthropic_all_def p InjectAnthropicPromptLabeled_def append_system_def Let_def)
  moreover note Cons.IH [of ?kvs "xs @ [?x]"]
  ultimately show ?case using Cons.prems by (simp add: p)
qed (auto simp: inject_anthropic_all_def)

lemma inject_anthropic_string:
  assumes "mget ''system'' kvs = JStr s" "s \<noteq> []" "\<forall>p \<in> set ps. trim_space (fst p) \<noteq> []"
  shows "\<exists>kvs'. inject_anthropic_all ps (Some (JObj kvs)) = Some (JObj kvs') \<and>
    mget ''system'' kvs' =
      JStr (s @ concat (map (\<lambda>(t, l). system_separator @ wrapPromptLabeled t l) ps)) \<and>
    (\<forall>k. k \<noteq> ''system'' \<longrightarrow> mget k kvs' = mget k kvs)"
  using assms
proof (induction ps arbitrary: kvs s)
  case (Cons p ps)
  obtain t l where p: "p = (t, l)" by fastforce
  let ?s = "s @ system_separator @ wrapPromptLabeled t l"
  let ?kvs = "mset_field ''system'' (JStr ?s) kvs"
  have "inject_anthropic_all (p # ps) (Some (JObj kvs)) = inject_anthropic_all ps (Some (JObj ?kvs))"
    using Cons.prems
    by (simp add: inject_anthropic_all_def p InjectAnthropicPromptLabeled_def append_system_def Let_def)
  moreover note Cons.IH [of ?kvs ?s]
  ultimately show ?case using Cons.prems by (simp add: p)
qed (auto simp: inject_anthropic_all_def)

lemma inject_anthropic_absent:
  assumes "mget ''system'' kvs \<in> {JNull, JStr ''''}" "trim_space t \<noteq> []"
  shows "InjectAnthropicPromptLabeled (Some (JObj kvs)) t l =
    Some (JObj (mset_field ''system'' (JStr (wrapPromptLabeled t l)) kvs))"
  using assms by (auto simp: InjectAnthropicPromptLabeled_def append_system_def Let_def)

lemma wrap_nonempty [simp]: "wrapPromptLabeled t l \<noteq> []"
  by (simp add: wrapPromptLabeled_def)

end
