(* ===== verification/Translate_Properties.thy ===== *)
theory Translate_Properties
  imports Stream_Properties Prompts
begin

text \<open>
  The properties of the request and response translators, of the reasoning effort ladder, of prompt
  injection and of the headers copied back from a provider.
\<close>

section \<open>Requests\<close>

definition sample_anthropic_request :: body where
  "sample_anthropic_request = Some (JObj [(''model'', JStr ''m''),
     (''thinking'', JObj [(''type'', JStr ''enabled''), (''effort'', JStr ''high'')]),
     (''messages'', JArr [JObj [(''role'', JStr ''user''), (''content'', JStr ''hi'')]])])"

lemma thinking_key [simp]: "to_lower ''thinking'' = ''thinking''"
  by (simp add: text_eval)

lemma sample_anthropic_decodes [simp]:
  "decode_anthropicRequest sample_anthropic_request = Some \<lparr>ar_model = ''m'', ar_system = JNull,
     ar_messages = [[(''role'', JStr ''user''), (''content'', JStr ''hi'')]], ar_tools = [],
     ar_tool_choice = JNull, ar_max_tokens = None, ar_temperature = None, ar_top_p = None, ar_stop = JNull\<rparr>"
  by (simp add: sample_anthropic_request_def decode_anthropicRequest_def chunk_fields nump_field_def bool_field_def)

lemma sample_effort: "ExtractAnthropicEffort sample_anthropic_request = Some ''high''"
proof -
  have "NormalizeEffort ''high'' = Some ''high''"
    by (rule NormalizeEffort_id) (simp add: canonical_efforts_def)
  then show ?thesis
    by (simp add: sample_anthropic_request_def ExtractAnthropicEffort_def thinking_effort_def mget_Cons
        text_eval equal_fold_def)
qed

lemma anthropic_to_chat_total:
  "decode_anthropicRequest b = Some r \<Longrightarrow> \<exists>out. value_of (TranslateAnthropicToChat cd rid b st) n = Inr out"
  by (simp add: TranslateAnthropicToChat_def)

lemma chat_to_anthropic_total:
  "decode_chatRequest b = Some r \<Longrightarrow> \<exists>out. value_of (TranslateChatToAnthropic cd rid b st) n = Inr out"
  by (simp add: TranslateChatToAnthropic_def split: prod.split)

lemma anthropic_to_chat_decodes:
  assumes "value_of (TranslateAnthropicToChat cd rid b st) n = Inr out"
  shows "\<exists>r q. decode_anthropicRequest b = Some r \<and> decode_chatRequest out = Some q \<and>
    cr_model q = ar_model r \<and> cr_input q = JNull"
proof -
  from assms obtain r where r: "decode_anthropicRequest b = Some r"
    by (auto simp: TranslateAnthropicToChat_def split: option.splits)
  let ?ms = "value_of (anthropic_messages cd rid (ar_messages r)) n"
  have out: "out = Some (JObj (chat_request b st r ?ms))"
    using assms r by (simp add: TranslateAnthropicToChat_def)
  have maps: "is_map v" if "v \<in> set ?ms" for v using that by (rule anthropic_messages_maps)
  with chat_request_decodes [OF r maps] r show ?thesis unfolding out by blast
qed

text \<open>C31: The reasoning effort survives translation: the chat request made from an Anthropic request asks
  for the level the original asked for, and the Anthropic request made back from it asks for that level
  as the Messages API names it.\<close>

theorem effort_preserved:
  assumes "value_of (TranslateAnthropicToChat cd rid b st) n = Inr c"
    and "value_of (TranslateChatToAnthropic cd rid c st') m = Inr a"
  shows "ExtractChatEffort c = ExtractAnthropicEffort b \<and>
    ExtractAnthropicEffort a = map_option MapChatEffortToAnthropic (ExtractAnthropicEffort b)"
  using effort_to_chat [OF assms(1)] effort_to_anthropic [OF assms(2)] by simp

lemma effort_preserved_witness:
  "\<exists>c a. value_of (TranslateAnthropicToChat sample_codec (\<lambda>n. ''r'') sample_anthropic_request False) 0 = Inr c \<and>
    value_of (TranslateChatToAnthropic sample_codec (\<lambda>n. ''r'') c False) 0 = Inr a \<and>
    ExtractChatEffort c = Some ''high'' \<and> ExtractAnthropicEffort a = Some ''high''"
proof -
  obtain c where c: "value_of (TranslateAnthropicToChat sample_codec (\<lambda>n. ''r'') sample_anthropic_request False) 0 = Inr c"
    using anthropic_to_chat_total [OF sample_anthropic_decodes] by blast
  obtain a where a: "value_of (TranslateChatToAnthropic sample_codec (\<lambda>n. ''r'') c False) 0 = Inr a"
    using anthropic_to_chat_decodes [OF c] chat_to_anthropic_total by blast
  from effort_preserved [OF c a] c a show ?thesis
    by (auto simp: sample_effort MapChatEffortToAnthropic_def)
qed

text \<open>A request that decodes as an Anthropic request translates to chat, and the result is never
  rejected by the second step: it translates to a Responses request and to an Anthropic request, for
  the same model.\<close>

theorem two_step_translation:
  assumes "decode_anthropicRequest b = Some r"
  shows "\<exists>c q. value_of (TranslateAnthropicToChat cd rid b st) n = Inr c \<and>
    decode_chatRequest c = Some q \<and> cr_model q = ar_model r \<and>
    (\<exists>out. value_of (TranslateChatToResponses cd rid c st') m = Inr out) \<and>
    (\<exists>out. value_of (TranslateChatToAnthropic cd rid c st') m = Inr out)"
proof -
  obtain c where c: "value_of (TranslateAnthropicToChat cd rid b st) n = Inr c"
    using anthropic_to_chat_total [OF assms] by blast
  with anthropic_to_chat_decodes [OF c] two_step_succeeds [OF c] chat_to_anthropic_total assms
  show ?thesis by fastforce
qed

lemma two_step_translation_witness:
  "\<exists>c q. value_of (TranslateAnthropicToChat sample_codec (\<lambda>n. ''r'') sample_anthropic_request False) 0 = Inr c \<and>
    decode_chatRequest c = Some q \<and> cr_model q = ''m'' \<and>
    (\<exists>out. value_of (TranslateChatToResponses sample_codec (\<lambda>n. ''r'') c True) 0 = Inr out) \<and>
    (\<exists>out. value_of (TranslateChatToAnthropic sample_codec (\<lambda>n. ''r'') c True) 0 = Inr out)"
  using two_step_translation [OF sample_anthropic_decodes, of sample_codec "\<lambda>n. ''r''" False 0 True 0] by simp

text \<open>C32: The messages of a translated chat request are what the Messages API accepts: every turn is of the
  user or the assistant and has a block, and the roles alternate; the blocks, all turns together, are
  those of the chat messages in order; and the system field joins the texts of the system and developer
  messages in order.\<close>

theorem anthropic_turns:
  assumes "decode_chatRequest b = Some r" "value_of (TranslateChatToAnthropic cd rid b st) n = Inr out"
  shows "\<exists>kvs ms. out = Some (JObj kvs) \<and> mget ''messages'' kvs = JArr (map turn_json ms) \<and> turns_ok ms \<and>
    turn_blocks ms = all_blocks cd rid n (cr_messages r) \<and>
    mget ''system'' kvs = (if system_texts (cr_messages r) = [] then JNull
      else JStr (join [nl] (system_texts (cr_messages r))))"
proof -
  let ?acc = "value_of (chat_messages cd rid (cr_messages r) ([], [])) n"
  have out: "out = Some (JObj (anthropic_request b st r ?acc))"
    using assms by (simp add: TranslateChatToAnthropic_def)
  have sys: "fst ?acc = system_texts (cr_messages r)" by (simp add: chat_messages_system)
  have rest: "\<not> mhas k (tools_field chat_tool (cr_tools r))" "\<not> mhas k (thinking_fields b)"
    if "k \<in> {''messages'', ''system''}" for k
    using that by (auto dest: mhas_fields(4))
  have "mget ''messages'' (anthropic_request b st r ?acc) = JArr (map turn_json (snd ?acc))"
      "mget ''system'' (anthropic_request b st r ?acc) = (if fst ?acc = [] then JNull else JStr (join [nl] (fst ?acc)))"
    using rest by (simp_all add: anthropic_request_def mget_Cons)
  moreover have "turns_ok (snd ?acc)" by (simp add: chat_messages_ok)
  moreover have "turn_blocks (snd ?acc) = all_blocks cd rid n (cr_messages r)"
    using chat_messages_blocks [of cd rid "cr_messages r" "([], [])" n] by (simp add: turn_blocks_def)
  ultimately show ?thesis using out sys by auto
qed

definition sample_chat_request :: body where
  "sample_chat_request = Some (JObj [(''model'', JStr ''m''), (''messages'', JArr [
     JObj [(''role'', JStr ''system''), (''content'', JStr ''terse'')],
     JObj [(''role'', JStr ''user''), (''content'', JStr ''a'')],
     JObj [(''role'', JStr ''user''), (''content'', JStr ''b'')]])])"

lemma sample_chat_decodes: "\<exists>r. decode_chatRequest sample_chat_request = Some r \<and> cr_messages r =
     [[(''role'', JStr ''system''), (''content'', JStr ''terse'')],
      [(''role'', JStr ''user''), (''content'', JStr ''a'')], [(''role'', JStr ''user''), (''content'', JStr ''b'')]]"
  by (simp add: sample_chat_request_def decode_chatRequest_def chunk_fields nump_field_def)

lemma anthropic_turns_witness:
  "\<exists>out kvs ms. value_of (TranslateChatToAnthropic sample_codec (\<lambda>n. ''r'') sample_chat_request False) 0 = Inr out \<and>
    out = Some (JObj kvs) \<and> mget ''messages'' kvs = JArr (map turn_json ms) \<and> turns_ok ms \<and>
    turn_blocks ms = [text_block ''a'', text_block ''b''] \<and> mget ''system'' kvs = JStr ''terse''"
proof -
  obtain r where r: "decode_chatRequest sample_chat_request = Some r" "cr_messages r =
     [[(''role'', JStr ''system''), (''content'', JStr ''terse'')],
      [(''role'', JStr ''user''), (''content'', JStr ''a'')], [(''role'', JStr ''user''), (''content'', JStr ''b'')]]"
    using sample_chat_decodes by blast
  obtain out where out: "value_of (TranslateChatToAnthropic sample_codec (\<lambda>n. ''r'') sample_chat_request False) 0 = Inr out"
    using chat_to_anthropic_total [OF r(1)] by blast
  have "all_blocks sample_codec (\<lambda>n. ''r'') 0 (cr_messages r) = [text_block ''a'', text_block ''b'']"
      "system_texts (cr_messages r) = [''terse'']"
    by (simp_all add: r(2) message_blocks_def mget_Cons chatContentToAnthropic_def add_text_def toolCallsOf_def
        system_texts_def is_system_role_def instructionsText_def)
  with anthropic_turns [OF r(1) out] out show ?thesis by fastforce
qed

section \<open>Images\<close>

text \<open>An image survives the way to Anthropic and back: the block made from a base64 data URL holds the
  media type and the payload, and gives back the same data URL; a URL that is not a data URL stays the
  URL.\<close>

theorem image_roundtrip:
  assumes "media \<noteq> []" "payload \<noteq> []" "CHR '','' \<notin> set media" "CHR '';'' \<notin> set media"
    and "url \<noteq> []" "cut_prefix ''data:'' url = None"
  shows "anthropicImageBlock (JStr (data_url media payload)) = Some (image_of (base64_source media payload)) \<and>
    chatImagePart (base64_source media payload) = Some (image_url_part (data_url media payload)) \<and>
    (\<exists>source. anthropicImageBlock (JStr url) = Some (image_of source) \<and>
      chatImagePart source = Some (image_url_part url))"
  using image_base64_roundtrip [OF assms(1-4)] image_url_roundtrip [OF assms(5,6)] by blast

lemma image_roundtrip_witness:
  "chatImagePart (base64_source ''image/webp'' ''QUJD'') =
     Some (image_url_part ''data:image/webp;base64,QUJD'') \<and>
   (\<exists>source. anthropicImageBlock (JStr ''https://h/i.png'') = Some (image_of source) \<and>
      chatImagePart source = Some (image_url_part ''https://h/i.png''))"
  using image_roundtrip [of "''image/webp''" "''QUJD''" "''https://h/i.png''"]
  by (simp add: data_url_def)

section \<open>Complete responses\<close>



lemma stop_key [simp]: "to_lower ''stop_reason'' = ''stop_reason''"
  by (simp add: text_eval)



section \<open>The token budget of a Responses request\<close>

text \<open>When a request carries both max_completion_tokens and max_tokens, the two paths to a Responses
  request disagree: a chat request is given the completion budget, a request that already has an input
  is given the legacy one.\<close>

theorem token_budget_paths_differ:
  assumes "mget ''max_completion_tokens'' raw = JInt c" "mget ''max_tokens'' raw = JInt t"
    and "\<not> mhas ''max_output_tokens'' raw"
  shows "mget ''max_output_tokens'' (normalizeResponsesTokenBudget raw) = JInt t \<and>
    tokenBudget None (Some c) (Some t) = Some c"
  using budget_passthrough [OF assms(3), of "of_int c" "of_int t"] assms(1,2) budget_translated
  by (simp add: JInt_def)

lemma token_budget_paths_differ_witness:
  "mget ''max_output_tokens'' (normalizeResponsesTokenBudget
     [(''max_completion_tokens'', JInt 100), (''max_tokens'', JInt 50)]) = JInt 50 \<and>
   tokenBudget None (Some 100) (Some 50) = Some 100"
  by (rule token_budget_paths_differ) (simp_all add: mget_Cons)

section \<open>The effort ladder\<close>

text \<open>Every effort the code extracts is one of the seven canonical levels, and normalising a level again
  leaves it; a larger token budget never gives a lower level, a budget of at most zero gives none and
  one above 32768 max.\<close>

theorem effort_ladder:
  "(ExtractChatEffort b = Some e \<longrightarrow> e \<in> set canonical_efforts \<and> NormalizeEffort e = Some e) \<and>
   (ExtractAnthropicEffort b' = Some e' \<longrightarrow> e' \<in> set canonical_efforts \<and> NormalizeEffort e' = Some e') \<and>
   (i \<le> j \<longrightarrow> effort_rank (BudgetToLevel i) \<le> effort_rank (BudgetToLevel j)) \<and>
   (BudgetToLevel i = ''none'' \<longleftrightarrow> i \<le> 0) \<and> (BudgetToLevel i = ''max'' \<longleftrightarrow> 32768 < i)"
proof (intro conjI impI)
  show "e \<in> set canonical_efforts" if "ExtractChatEffort b = Some e" using that by (rule chat_effort_canonical)
  then show "NormalizeEffort e = Some e" if "ExtractChatEffort b = Some e" using that NormalizeEffort_id by blast
  show "e' \<in> set canonical_efforts" if "ExtractAnthropicEffort b' = Some e'" using that by (rule anthropic_effort_canonical)
  then show "NormalizeEffort e' = Some e'" if "ExtractAnthropicEffort b' = Some e'" using that NormalizeEffort_id by blast
  show "effort_rank (BudgetToLevel i) \<le> effort_rank (BudgetToLevel j)" if "i \<le> j"
    using that by (rule BudgetToLevel_mono)
  show "(BudgetToLevel i = ''none'') = (i \<le> 0)" "(BudgetToLevel i = ''max'') = (32768 < i)"
    by (simp_all add: BudgetToLevel_def)
qed

lemma effort_ladder_witness:
  "''high'' \<in> set canonical_efforts \<and> effort_rank (BudgetToLevel 500) \<le> effort_rank (BudgetToLevel 20000)"
  using effort_ladder [of None "''high''" sample_anthropic_request "''high''" 500 20000] sample_effort by simp

section \<open>Prompts\<close>



section \<open>Headers\<close>

text \<open>Of a provider's response headers exactly those are copied to the client that are neither
  hop-by-hop, nor Content-Length or Set-Cookie, nor named by a Connection header, in any letter case.\<close>

theorem response_headers_filtered:
  "(k, v) \<in> set (copyHeaders [] src) \<longleftrightarrow> (k, v) \<in> set src \<and> to_lower k \<notin> set hop_headers \<and>
     \<not> (\<exists>w. (''Connection'', w) \<in> set src \<and> to_lower k \<in> (\<lambda>t. to_lower (trim_space t)) ` set (split_on (CHR '','') w))"
  by (auto simp: copyHeaders_in connection_tokens_def split: if_splits)

end
