(* ===== verification/Usage.thy ===== *)
theory Usage
  imports Translate_Chat
begin

text \<open>
  internal/provider/usage.go: the token usage of a complete response and of a stream. The argument
  \<open>first\<close> of decodeFirstJSON is the decoder that reads one JSON value and ignores what follows it.
\<close>

record TokenUsage =
  us_input :: "int option"
  us_output :: "int option"
  us_total :: "int option"

definition no_usage :: TokenUsage where
  "no_usage = \<lparr>us_input = None, us_output = None, us_total = None\<rparr>"

definition usageFromFields ::
  "string \<Rightarrow> int option \<Rightarrow> int option \<Rightarrow> int option \<Rightarrow> int option \<Rightarrow> int option \<Rightarrow> TokenUsage" where
  "usageFromFields protocol prompt completion tot input out =
     (if protocol = ''anthropic''
      then \<lparr>us_input = input, us_output = out, us_total = total_of input out\<rparr>
      else \<lparr>us_input = prompt, us_output = completion,
        us_total = (if tot = None then total_of prompt completion else tot)\<rparr>)"

text \<open>The usage struct of both payloads, and the usage it stands for.\<close>

definition usage_struct :: "string \<Rightarrow> obj \<Rightarrow> TokenUsage option" where
  "usage_struct protocol kvs =
     Option.bind (intp_field ''prompt_tokens'' kvs) (\<lambda>p.
     Option.bind (intp_field ''completion_tokens'' kvs) (\<lambda>c.
     Option.bind (intp_field ''total_tokens'' kvs) (\<lambda>t.
     Option.bind (intp_field ''input_tokens'' kvs) (\<lambda>i.
     Option.bind (intp_field ''output_tokens'' kvs) (\<lambda>out.
       Some (usageFromFields protocol p c t i out))))))"

type_synonym first_json = "string \<Rightarrow> json option"

definition decodeFirstJSON :: "first_json \<Rightarrow> string \<Rightarrow> obj option" where
  "decodeFirstJSON first body =
     (let rest = dropWhile (\<lambda>c. c \<noteq> CHR 0x7B) body in if rest = [] then None else body_obj (first rest))"

definition ExtractUnaryUsage :: "first_json \<Rightarrow> string \<Rightarrow> string \<Rightarrow> TokenUsage" where
  "ExtractUnaryUsage first protocol body =
     (case Option.bind (decodeFirstJSON first body) (ptr_field ''usage'' (usage_struct protocol)) of
        Some (Some u) \<Rightarrow> u | _ \<Rightarrow> no_usage)"

definition nonempty_text :: "string option \<Rightarrow> string option" where
  "nonempty_text v = (case v of Some s \<Rightarrow> if s = '''' then None else Some s | None \<Rightarrow> None)"

definition ExtractUpstreamModel :: "first_json \<Rightarrow> string \<Rightarrow> string option" where
  "ExtractUpstreamModel first body =
     (case Option.bind (decodeFirstJSON first body) (strp_field ''model'') of
        None \<Rightarrow> None | Some m \<Rightarrow> nonempty_text m)"

section \<open>Streams\<close>

text \<open>
  The collector; \<open>col_note\<close> is what OnFirst reads when it is called: the time of the first event and
  the model known by then.
\<close>

record SSEUsageCollector =
  col_protocol :: string
  col_obtained :: bool
  col_input :: "int option"
  col_output :: "int option"
  col_total :: "int option"
  col_first :: "int option"
  col_model :: "string option"
  col_note :: "(int \<times> string) option"

definition NewSSEUsageCollector :: "string \<Rightarrow> SSEUsageCollector" where
  "NewSSEUsageCollector protocol = \<lparr>col_protocol = protocol, col_obtained = False, col_input = None,
     col_output = None, col_total = None, col_first = None, col_model = None, col_note = None\<rparr>"

record sse_payload =
  sp_model :: "string option"
  sp_usage :: "TokenUsage option"
  sp_message :: "(string option \<times> (int option \<times> int option) option) option"
  sp_delta_output :: "int option"

definition decode_message_part :: "obj \<Rightarrow> (string option \<times> (int option \<times> int option) option) option" where
  "decode_message_part kvs =
     Option.bind (strp_field ''model'' kvs) (\<lambda>m.
     Option.bind (ptr_field ''usage'' (int64_pair ''input_tokens'' ''output_tokens'') kvs) (\<lambda>u. Some (m, u)))"

definition decode_delta_part :: "obj \<Rightarrow> int option option" where
  "decode_delta_part kvs = map_option (\<lambda>v. Option.bind v id) (ptr_field ''usage'' (intp_field ''output_tokens'') kvs)"

definition decode_payload :: "string \<Rightarrow> body \<Rightarrow> sse_payload option" where
  "decode_payload protocol b =
     Option.bind (body_obj b) (\<lambda>kvs.
     Option.bind (strp_field ''model'' kvs) (\<lambda>m.
     Option.bind (ptr_field ''usage'' (usage_struct protocol) kvs) (\<lambda>u.
     Option.bind (ptr_field ''message'' decode_message_part kvs) (\<lambda>ms.
     Option.bind (ptr_field ''delta'' decode_delta_part kvs) (\<lambda>d.
       Some \<lparr>sp_model = m, sp_usage = u, sp_message = ms, sp_delta_output = Option.bind d id\<rparr>)))))"

definition merge_usage :: "TokenUsage \<Rightarrow> SSEUsageCollector \<Rightarrow> SSEUsageCollector" where
  "merge_usage u c = c\<lparr>
     col_input := (if us_input u \<noteq> None then us_input u else col_input c),
     col_output := (if us_output u \<noteq> None then us_output u else col_output c),
     col_total := (if us_total u \<noteq> None then us_total u else col_total c),
     col_obtained := (col_obtained c \<or> us_input u \<noteq> None \<or> us_output u \<noteq> None \<or> us_total u \<noteq> None)\<rparr>"

definition payload_model :: "sse_payload \<Rightarrow> string option" where
  "payload_model p = (case nonempty_text (sp_model p) of
     Some m \<Rightarrow> Some m | None \<Rightarrow> Option.bind (sp_message p) (\<lambda>(m, _). nonempty_text m))"

definition learn_model :: "sse_payload \<Rightarrow> SSEUsageCollector \<Rightarrow> SSEUsageCollector" where
  "learn_model p c = (if col_model c = None then c\<lparr>col_model := payload_model p\<rparr> else c)"

definition message_usage :: "sse_payload \<Rightarrow> TokenUsage option" where
  "message_usage p = Option.bind (sp_message p) (\<lambda>(_, u). map_option (\<lambda>(i, out).
     \<lparr>us_input = i, us_output = out, us_total = None\<rparr>) u)"

definition merge_opt :: "TokenUsage option \<Rightarrow> SSEUsageCollector \<Rightarrow> SSEUsageCollector" where
  "merge_opt u c = (case u of None \<Rightarrow> c | Some u \<Rightarrow> merge_usage u c)"

definition delta_output :: "sse_payload \<Rightarrow> SSEUsageCollector \<Rightarrow> SSEUsageCollector" where
  "delta_output p c = (if sp_delta_output p = None then c
     else c\<lparr>col_output := sp_delta_output p, col_obtained := True\<rparr>)"

definition note_first :: "SSEUsageCollector \<Rightarrow> SSEUsageCollector" where
  "note_first c = (if col_note c = None
     then c\<lparr>col_note := Some (case col_first c of None \<Rightarrow> 0 | Some t \<Rightarrow> t, case col_model c of None \<Rightarrow> '''' | Some m \<Rightarrow> m)\<rparr>
     else c)"

definition Observe :: "codec \<Rightarrow> int \<Rightarrow> string \<Rightarrow> SSEUsageCollector \<Rightarrow> SSEUsageCollector" where
  "Observe cd now data c =
     (let c1 = (if col_first c = None then c\<lparr>col_first := Some now\<rparr> else c) in
      case decode_payload (col_protocol c) (dec cd data) of
        None \<Rightarrow> c1
      | Some p \<Rightarrow> note_first (delta_output p (merge_opt (message_usage p) (merge_opt (sp_usage p) (learn_model p c1)))))"

definition collected_usage :: "SSEUsageCollector \<Rightarrow> TokenUsage" where
  "collected_usage c =
     (if \<not> col_obtained c then no_usage
      else \<lparr>us_input = col_input c, us_output = col_output c,
        us_total = (if col_total c = None then total_of (col_input c) (col_output c) else col_total c)\<rparr>)"

section \<open>Laws\<close>

text \<open>The state that the usage of a stream is read from.\<close>

definition usage_seen :: "SSEUsageCollector \<Rightarrow> bool" where
  "usage_seen c \<longleftrightarrow> col_obtained c = (col_input c \<noteq> None \<or> col_output c \<noteq> None \<or> col_total c \<noteq> None)"

lemma usage_stages:
  "usage_seen c \<Longrightarrow> usage_seen (merge_usage u c)" "usage_seen (learn_model p c) = usage_seen c"
  "usage_seen c \<Longrightarrow> usage_seen (delta_output p c)" "usage_seen (note_first c) = usage_seen c"
  "usage_seen (c\<lparr>col_first := x\<rparr>) = usage_seen c"
  by (auto simp: usage_seen_def merge_usage_def learn_model_def delta_output_def note_first_def)

lemma merge_opt_seen: "usage_seen c \<Longrightarrow> usage_seen (merge_opt u c)"
  by (simp add: merge_opt_def usage_stages split: option.split)

lemma Observe_seen: "usage_seen c \<Longrightarrow> usage_seen (Observe cd now data c)"
  by (simp add: Observe_def Let_def usage_stages merge_opt_seen split: option.split)

text \<open>What was learned first stays.\<close>

lemma first_stages [simp]:
  "col_first (merge_usage u c) = col_first c" "col_first (learn_model p c) = col_first c"
  "col_first (delta_output p c) = col_first c" "col_first (note_first c) = col_first c"
  "col_protocol (merge_usage u c) = col_protocol c" "col_protocol (learn_model p c) = col_protocol c"
  "col_protocol (delta_output p c) = col_protocol c" "col_protocol (note_first c) = col_protocol c"
  "col_model (merge_usage u c) = col_model c" "col_model (delta_output p c) = col_model c"
  "col_model (note_first c) = col_model c"
  by (simp_all add: merge_usage_def learn_model_def delta_output_def note_first_def)

lemma merge_opt_stages [simp]:
  "col_first (merge_opt u c) = col_first c" "col_protocol (merge_opt u c) = col_protocol c"
  "col_model (merge_opt u c) = col_model c"
  by (simp_all add: merge_opt_def split: option.split)

lemma Observe_model: "col_model c = Some m \<Longrightarrow> col_model (Observe cd now data c) = Some m"
  by (simp add: Observe_def Let_def learn_model_def split: option.split)

lemma Observe_first: "col_first (Observe cd now data c) = (case col_first c of None \<Rightarrow> Some now | Some t \<Rightarrow> Some t)"
  by (simp add: Observe_def Let_def split: option.split)

lemma Observe_protocol [simp]: "col_protocol (Observe cd now data c) = col_protocol c"
  by (simp add: Observe_def Let_def split: option.split)

end
