(* ===== verification/Telemetry.thy ===== *)
theory Telemetry
  imports Usage Timestamps
begin

text \<open>
  internal/telemetry/telemetry.go: the record of the requests the gateway served. A request has a row
  with its outcome, one row for each attempt at a provider and one for each prompt rule that fired.
  A write fails when it breaks a constraint of the schema: a second request with the same identifier,
  an attempt or a prompt rule of a request that is not there.
\<close>

datatype ErrorCategory = ErrNone | ErrAuth | ErrRateLimit | ErrUpstream | ErrServer | ErrConnection
  | ErrTimeout | ErrCanceled | ErrRouting | ErrBadRequest | ErrInternal

definition StatusInProgress :: string where "StatusInProgress = ''in_progress''"
definition StatusSuccess :: string where "StatusSuccess = ''success''"
definition StatusError :: string where "StatusError = ''error''"

lemmas status_defs = StatusInProgress_def StatusSuccess_def StatusError_def

record tel_request =
  tr_id :: string
  tr_protocol :: string
  tr_public :: string
  tr_resolved :: "string option"
  tr_served :: "string option"
  tr_group :: "int option"
  tr_group_name :: "string option"
  tr_streaming :: bool
  tr_key :: "int option"
  tr_key_name :: "string option"
  tr_status :: string
  tr_http :: "int option"
  tr_category :: ErrorCategory
  tr_started :: time
  tr_completed :: "time option"
  tr_duration :: "int option"
  tr_ttft :: "int option"
  tr_upstream :: "int option"
  tr_usage :: TokenUsage

record tel_attempt =
  ta_request :: string
  ta_number :: nat
  ta_provider :: int
  ta_provider_name :: string
  ta_provider_prefix :: string
  ta_provider_type :: string
  ta_model :: int
  ta_upstream_model :: string
  ta_credential :: int
  ta_started :: time
  ta_completed :: "time option"
  ta_duration :: "int option"
  ta_http :: "int option"
  ta_success :: bool
  ta_category :: ErrorCategory
  ta_usage :: TokenUsage

text \<open>A rule's identifier is stored as NULL when it is zero, and read back as zero.\<close>

record PromptRuleRef =
  ref_rule :: int
  ref_name :: string

record tel_store =
  tel_requests :: "tel_request list"
  tel_attempts :: "tel_attempt list"
  tel_prompts :: "(string \<times> PromptRuleRef) list"

definition tel_empty :: tel_store where
  "tel_empty = \<lparr>tel_requests = [], tel_attempts = [], tel_prompts = []\<rparr>"

definition has_request :: "string \<Rightarrow> tel_store \<Rightarrow> bool" where
  "has_request i st \<longleftrightarrow> list_ex (\<lambda>r. tr_id r = i) (tel_requests st)"

definition durationMS :: "time \<Rightarrow> time \<Rightarrow> int" where
  "durationMS start fin = (if fin < start then 0 else (fin - start) div 1000000)"

section \<open>Writes\<close>

text \<open>Each returns whether it succeeded.\<close>

definition insertAttempt :: "tel_attempt \<Rightarrow> tel_store \<Rightarrow> bool \<times> tel_store" where
  "insertAttempt a st =
     (if has_request (ta_request a) st
      then (True, st\<lparr>tel_attempts := tel_attempts st @ [a\<lparr>ta_completed := None, ta_duration := None,
             ta_http := None, ta_success := False, ta_category := ErrNone, ta_usage := no_usage\<rparr>]\<rparr>)
      else (False, st))"

definition StartRequest :: "tel_request \<Rightarrow> tel_attempt \<Rightarrow> tel_store \<Rightarrow> bool \<times> tel_store" where
  "StartRequest r a st =
     (if has_request (tr_id r) st \<or> tr_protocol r \<notin> {''openai'', ''anthropic''} then (False, st)
      else (case insertAttempt a (st\<lparr>tel_requests := tel_requests st @ [r\<lparr>tr_served := None,
              tr_status := StatusInProgress, tr_http := None, tr_category := ErrNone, tr_completed := None,
              tr_duration := None, tr_ttft := None, tr_upstream := None, tr_usage := no_usage\<rparr>]\<rparr>) of
          (True, st') \<Rightarrow> (True, st')
        | (False, _) \<Rightarrow> (False, st)))"

definition update_request :: "string \<Rightarrow> (tel_request \<Rightarrow> tel_request) \<Rightarrow> tel_store \<Rightarrow> tel_store" where
  "update_request i f st =
     st\<lparr>tel_requests := map (\<lambda>r. if tr_id r = i then f r else r) (tel_requests st)\<rparr>"

definition RecordResolution ::
  "string \<Rightarrow> int option \<Rightarrow> string option \<Rightarrow> string \<Rightarrow> tel_store \<Rightarrow> tel_store" where
  "RecordResolution i gid gname resolved = update_request i
     (\<lambda>r. r\<lparr>tr_resolved := Some resolved, tr_group := gid, tr_group_name := gname\<rparr>)"

definition RecordPromptRules :: "string \<Rightarrow> PromptRuleRef list \<Rightarrow> tel_store \<Rightarrow> bool \<times> tel_store" where
  "RecordPromptRules i refs st =
     (if refs \<noteq> [] \<and> \<not> has_request i st then (False, st)
      else (True, st\<lparr>tel_prompts := filter (\<lambda>p. fst p \<noteq> i) (tel_prompts st) @ map (Pair i) refs\<rparr>))"

definition StartAttempt :: "tel_attempt \<Rightarrow> tel_store \<Rightarrow> bool \<times> tel_store" where
  "StartAttempt a st = insertAttempt a st"

definition FinishAttemptWithTiming ::
  "string \<Rightarrow> nat \<Rightarrow> int option \<Rightarrow> bool \<Rightarrow> ErrorCategory \<Rightarrow> TokenUsage \<Rightarrow> time \<Rightarrow> time \<Rightarrow>
    tel_store \<Rightarrow> tel_store" where
  "FinishAttemptWithTiming i n http success category usage started completed st =
     st\<lparr>tel_attempts := map (\<lambda>a. if ta_request a = i \<and> ta_number a = n
       then a\<lparr>ta_http := http, ta_success := success, ta_category := category, ta_usage := usage,
         ta_completed := Some completed, ta_duration := Some (durationMS started completed)\<rparr>
       else a) (tel_attempts st)\<rparr>"

definition FinishRequestWithTiming ::
  "string \<Rightarrow> string \<Rightarrow> int option \<Rightarrow> ErrorCategory \<Rightarrow> TokenUsage \<Rightarrow> int option \<Rightarrow> int option \<Rightarrow>
    string option \<Rightarrow> time \<Rightarrow> time \<Rightarrow> tel_store \<Rightarrow> tel_store" where
  "FinishRequestWithTiming i status http category usage ttft upstream served_model started completed =
     update_request i (\<lambda>r. r\<lparr>tr_status := status, tr_http := http, tr_category := category,
       tr_usage := usage, tr_ttft := ttft, tr_upstream := upstream, tr_served := served_model,
       tr_completed := Some completed, tr_duration := Some (durationMS started completed)\<rparr>)"

section \<open>Reads\<close>

definition listAttempts :: "string \<Rightarrow> tel_store \<Rightarrow> tel_attempt list" where
  "listAttempts i st = sort_key ta_number (filter (\<lambda>a. ta_request a = i) (tel_attempts st))"

definition listPromptRules_of :: "string \<Rightarrow> tel_store \<Rightarrow> PromptRuleRef list" where
  "listPromptRules_of i st = map snd (filter (\<lambda>p. fst p = i) (tel_prompts st))"

text \<open>The newest requests first, by the text of their start time and then by their identifier.\<close>

definition newest_first :: "tel_request list \<Rightarrow> tel_request list" where
  "newest_first rs = rev (sort_key (\<lambda>r. (text_key (tr_started r), tr_id r)) rs)"

definition List_requests ::
  "nat \<Rightarrow> tel_store \<Rightarrow> (tel_request \<times> tel_attempt list \<times> PromptRuleRef list) list" where
  "List_requests limit st = map (\<lambda>r. (r, listAttempts (tr_id r) st, listPromptRules_of (tr_id r) st))
     (take limit (newest_first (tel_requests st)))"

section \<open>Startup\<close>

text \<open>ReapStale of internal/telemetry/monitoring.go: requests a previous process left open.\<close>

definition reap_requests :: "time \<Rightarrow> tel_store \<Rightarrow> tel_store" where
  "reap_requests now st = st\<lparr>tel_requests := map (\<lambda>r. if tr_status r = StatusInProgress
     then r\<lparr>tr_status := StatusError, tr_category := ErrInternal, tr_completed := Some now, tr_duration := None\<rparr>
     else r) (tel_requests st)\<rparr>"

definition reaped :: "time \<Rightarrow> tel_request \<Rightarrow> bool" where
  "reaped now r \<longleftrightarrow> tr_status r = StatusError \<and> tr_category r = ErrInternal \<and> tr_completed r = Some now"

definition reap_attempts :: "time \<Rightarrow> tel_store \<Rightarrow> tel_store" where
  "reap_attempts now st = st\<lparr>tel_attempts := map (\<lambda>a.
     if ta_completed a = None \<and> list_ex (\<lambda>r. tr_id r = ta_request a \<and> reaped now r) (tel_requests st)
     then a\<lparr>ta_success := False, ta_category := ErrInternal, ta_completed := Some now, ta_duration := None\<rparr>
     else a) (tel_attempts st)\<rparr>"

definition ReapStale :: "time \<Rightarrow> tel_store \<Rightarrow> tel_store" where
  "ReapStale now st = reap_attempts now (reap_requests now st)"

section \<open>Laws\<close>

text \<open>Identifiers are unique and attempts and prompt rules belong to a request.\<close>

definition tel_ok :: "tel_store \<Rightarrow> bool" where
  "tel_ok st \<longleftrightarrow> distinct (map tr_id (tel_requests st)) \<and>
     (\<forall>a \<in> set (tel_attempts st). has_request (ta_request a) st) \<and>
     (\<forall>p \<in> set (tel_prompts st). has_request (fst p) st)"

lemma has_request_iff: "has_request i st \<longleftrightarrow> i \<in> tr_id ` set (tel_requests st)"
  by (auto simp: has_request_def list_ex_iff)

lemma update_request_ids:
  "(\<And>r. tr_id (f r) = tr_id r) \<Longrightarrow> map tr_id (tel_requests (update_request i f st)) = map tr_id (tel_requests st)"
  by (simp add: update_request_def)

lemma same_ids_has:
  "map tr_id (tel_requests st') = map tr_id (tel_requests st) \<Longrightarrow> has_request i st' = has_request i st"
  unfolding has_request_iff by (metis list.set_map)

lemma tel_ok_update:
  assumes "tel_ok st" "map tr_id (tel_requests st') = map tr_id (tel_requests st)"
    and "\<And>a. a \<in> set (tel_attempts st') \<Longrightarrow> \<exists>b \<in> set (tel_attempts st). ta_request b = ta_request a"
    and "\<And>p. p \<in> set (tel_prompts st') \<Longrightarrow> has_request (fst p) st"
  shows "tel_ok st'"
  unfolding tel_ok_def
proof (intro conjI ballI)
  show "distinct (map tr_id (tel_requests st'))" using assms(1,2) by (simp add: tel_ok_def)
  show "has_request (ta_request a) st'" if "a \<in> set (tel_attempts st')" for a
    using assms(3) [OF that] assms(1) same_ids_has [OF assms(2)] by (auto simp: tel_ok_def)
  show "has_request (fst p) st'" if "p \<in> set (tel_prompts st')" for p
    using assms(4) [OF that] same_ids_has [OF assms(2)] by simp
qed

lemma writes_ok:
  assumes "tel_ok st"
  shows "tel_ok (snd (StartAttempt a st))" "tel_ok (RecordResolution i g n m st)"
    "tel_ok (snd (RecordPromptRules i refs st))"
    "tel_ok (FinishAttemptWithTiming i k h s c u t t' st)"
    "tel_ok (FinishRequestWithTiming i status h c u tt up sv t t' st)" "tel_ok (ReapStale now st)"
proof -
  note ok = assms [unfolded tel_ok_def]
  show "tel_ok (snd (StartAttempt a st))"
    using ok by (auto simp: StartAttempt_def insertAttempt_def tel_ok_def has_request_def)
  show "tel_ok (RecordResolution i g n m st)"
    by (rule tel_ok_update [OF assms]) (use ok in \<open>auto simp: RecordResolution_def update_request_def comp_def\<close>)
  show "tel_ok (snd (RecordPromptRules i refs st))"
    by (rule tel_ok_update [OF assms]) (use ok in \<open>auto simp: RecordPromptRules_def split: if_splits\<close>)
  show "tel_ok (FinishAttemptWithTiming i k h s c u t t' st)"
    by (rule tel_ok_update [OF assms]) (use ok in \<open>auto simp: FinishAttemptWithTiming_def\<close>)
  show "tel_ok (FinishRequestWithTiming i status h c u tt up sv t t' st)"
    by (rule tel_ok_update [OF assms]) (use ok in \<open>auto simp: FinishRequestWithTiming_def update_request_def comp_def\<close>)
  show "tel_ok (ReapStale now st)"
    by (rule tel_ok_update [OF assms])
      (use ok in \<open>auto simp: ReapStale_def reap_attempts_def reap_requests_def comp_def\<close>)
qed

lemma StartRequest_ok: "tel_ok st \<Longrightarrow> tel_ok (snd (StartRequest r a st))"
  by (auto simp: StartRequest_def insertAttempt_def tel_ok_def has_request_def list_ex_iff
      split: if_splits)

text \<open>After ReapStale nothing is open: no request is in progress and no attempt of one reaped is incomplete.\<close>

lemma ReapStale_closed:
  assumes "r \<in> set (tel_requests (ReapStale now st))"
  shows "tr_status r \<noteq> StatusInProgress"
  using assms by (auto simp: ReapStale_def reap_attempts_def reap_requests_def status_defs)

lemma ReapStale_attempts:
  assumes "r \<in> set (tel_requests st)" "tr_status r = StatusInProgress"
    and "a \<in> set (tel_attempts (ReapStale now st))" "ta_request a = tr_id r"
  shows "ta_completed a \<noteq> None"
proof -
  let ?f = "\<lambda>r. if tr_status r = StatusInProgress then r\<lparr>tr_status := StatusError,
     tr_category := ErrInternal, tr_completed := Some now, tr_duration := None\<rparr> else r"
  have "?f r \<in> set (tel_requests (reap_requests now st))" using assms(1) by (auto simp: reap_requests_def)
  moreover have "tr_id (?f r) = tr_id r \<and> reaped now (?f r)" using assms(2) by (simp add: reaped_def)
  ultimately have ex: "list_ex (\<lambda>q. tr_id q = ta_request a' \<and> reaped now q) (tel_requests (reap_requests now st))"
    if "ta_request a' = tr_id r" for a' using that by (auto simp: list_ex_iff)
  let ?g = "\<lambda>a. if ta_completed a = None \<and>
        list_ex (\<lambda>q. tr_id q = ta_request a \<and> reaped now q) (tel_requests (reap_requests now st))
      then a\<lparr>ta_success := False, ta_category := ErrInternal, ta_completed := Some now, ta_duration := None\<rparr> else a"
  have "a \<in> ?g ` set (tel_attempts (reap_requests now st))"
    using assms(3) by (simp add: ReapStale_def reap_attempts_def)
  then obtain a' where a': "a = ?g a'" by blast
  then have "ta_request a' = tr_id r" using assms(4) by (auto split: if_splits)
  from ex [OF this] a' show ?thesis by auto
qed

end
