(* ===== verification/Calendar.thy ===== *)
theory Calendar
  imports Timestamps
begin

text \<open>
  The calendar the monitoring ranges are cut by: the proleptic Gregorian calendar of Go's package
  time, in a zone with a fixed offset. A day is the number of days since the first of January 1970,
  a month is the number \<open>12 * year + month - 1\<close>.

  Lemmas: a day lies in its month and months follow each other, so the hours, days and months of a
  zone each satisfy the contract \<open>bucketing\<close>: an instant lies in exactly one bucket and consecutive
  buckets meet.
\<close>

section \<open>Days, months and years\<close>

definition year_start :: "int \<Rightarrow> int" where
  "year_start y = 365 * (y - 1) + (y - 1) div 4 - (y - 1) div 100 + (y - 1) div 400 - 719162"

definition is_leap :: "int \<Rightarrow> bool" where
  "is_leap y \<longleftrightarrow> y mod 4 = 0 \<and> (y mod 100 \<noteq> 0 \<or> y mod 400 = 0)"

definition days_before :: "bool \<Rightarrow> int \<Rightarrow> int" where
  "days_before leap m = (if m \<le> 0 then 0 else if m = 1 then 31 else (if leap then 1 else 0) +
     (if m = 2 then 59 else if m = 3 then 90 else if m = 4 then 120 else if m = 5 then 151
      else if m = 6 then 181 else if m = 7 then 212 else if m = 8 then 243 else if m = 9 then 273
      else if m = 10 then 304 else if m = 11 then 334 else 365))"

definition month_start :: "int \<Rightarrow> int" where
  "month_start k = year_start (k div 12) + days_before (is_leap (k div 12)) (k mod 12)"

text \<open>The year of a day: an estimate that is at most one off, corrected.\<close>

definition year_of :: "int \<Rightarrow> int" where
  "year_of d = (let y = (d + 719162) * 400 div 146097 + 1 in
     if d < year_start y then y - 1 else if year_start (y + 1) \<le> d then y + 1 else y)"

definition month_of :: "int \<Rightarrow> int" where
  "month_of d = (let y = year_of d in
     12 * y + int (length (filter (\<lambda>m. year_start y + days_before (is_leap y) m \<le> d) [1..11])))"

section \<open>Laws of the calendar\<close>

lemma div_pinned: "0 < n \<Longrightarrow> n * (x div n) \<le> x \<and> x < n * (x div n) + n" for n x :: int
  using pos_mod_sign [of n x] pos_mod_bound [of n x] mult_div_mod_eq [of n x] by linarith

lemma century_divisions:
  fixes x :: int
  shows "4 * (x div 4) \<le> x" "x < 4 * (x div 4) + 4" "100 * (x div 100) \<le> x" "x < 100 * (x div 100) + 100"
    "400 * (x div 400) \<le> x" "x < 400 * (x div 400) + 400" "146097 * (x div 146097) \<le> x"
    "x < 146097 * (x div 146097) + 146097"
  by (rule div_pinned [THEN conjunct1] div_pinned [THEN conjunct2], simp)+

lemma year_start_Suc: "year_start (y + 1) = year_start y + 365 + (if is_leap y then 1 else 0)"
proof -
  have step: "y div n = (y - 1) div n + (if y mod n = 0 then 1 else 0)" if "0 < n" for n :: int
  proof (cases "y mod n = 0")
    case True
    then obtain k where k: "y = n * k" by (auto elim: dvdE simp: mod_eq_0_iff_dvd)
    have "(n * k - 1) div n = k - 1"
      by (rule int_div_pos_eq [where r = "n - 1"]) (use that in \<open>simp_all add: algebra_simps\<close>)
    with k that show ?thesis by simp
  next
    case False
    have "y - 1 = n * (y div n) + (y mod n - 1)" by simp
    moreover have "0 \<le> y mod n - 1" "y mod n - 1 < n"
      using False that pos_mod_sign [of n y] pos_mod_bound [of n y] by linarith+
    ultimately have "(y - 1) div n = y div n" by (intro int_div_pos_eq) auto
    with False show ?thesis by simp
  qed
  have c: "y mod 400 = 0 \<Longrightarrow> y mod 100 = 0" "y mod 100 = 0 \<Longrightarrow> y mod 4 = 0"
    using dvd_trans [of "100 :: int" 400 y] dvd_trans [of "4 :: int" 100 y] by (simp_all add: mod_eq_0_iff_dvd)
  have e: "y div 4 = (y - 1) div 4 + (if y mod 4 = 0 then 1 else 0)"
    "y div 100 = (y - 1) div 100 + (if y mod 100 = 0 then 1 else 0)"
    "y div 400 = (y - 1) div 400 + (if y mod 400 = 0 then 1 else 0)"
    by (rule step, simp)+
  have "year_start (y + 1) = 365 * y + y div 4 - y div 100 + y div 400 - 719162"
    by (simp add: year_start_def)
  also have "\<dots> = year_start y + 365 + (if is_leap y then 1 else 0)"
    unfolding e year_start_def is_leap_def using c by (cases "y mod 4 = 0"; cases "y mod 100 = 0"; cases "y mod 400 = 0"; simp)
  finally show ?thesis .
qed

lemma year_bounds:
  "146097 * (y - 1) \<le> 400 * (year_start y + 719162) + 699"
  "400 * (year_start y + 719162) \<le> 146097 * (y - 1) + 396"
proof -
  define x a b c where "x = y - 1" and "a = x div 4" and "b = x div 100" and "c = x div 400"
  have d: "4 * a \<le> x" "x < 4 * a + 4" "100 * b \<le> x" "x < 100 * b + 100" "400 * c \<le> x" "x < 400 * c + 400"
    unfolding a_def b_def c_def by (rule century_divisions)+
  then have d': "x \<le> 4 * a + 3" "x \<le> 100 * b + 99" "x \<le> 400 * c + 399" by simp_all
  have e: "year_start y + 719162 = 365 * x + a - b + c"
    by (simp add: year_start_def x_def a_def b_def c_def)
  show "146097 * (y - 1) \<le> 400 * (year_start y + 719162) + 699"
    unfolding e x_def [symmetric] using d d' by (simp add: algebra_simps)
  show "400 * (year_start y + 719162) \<le> 146097 * (y - 1) + 396"
    unfolding e x_def [symmetric] using d d' by (simp add: algebra_simps)
qed

lemma year_of_spec: "year_start (year_of d) \<le> d \<and> d < year_start (year_of d + 1)"
proof -
  define q where "q = (d + 719162) * 400 div 146097"
  define y where "y = q + 1"
  have y: "146097 * (y - 1) \<le> (d + 719162) * 400" and y': "(d + 719162) * 400 < 146097 * y"
    using century_divisions(7,8) [of "(d + 719162) * 400"] unfolding y_def q_def [symmetric] by simp_all
  have a: "year_start (y - 1) \<le> d" if "d < year_start y"
    using year_bounds(2) [of "y - 1"] y by (simp add: algebra_simps)
  have b: "d < year_start (y + 2)"
    using year_bounds(1) [of "y + 2"] y' by (simp add: algebra_simps)
  show ?thesis using a b unfolding year_of_def q_def [symmetric] y_def [symmetric] Let_def by (auto simp: add.commute)
qed

lemma twelve: "0 \<le> m \<Longrightarrow> m < (12::int) \<Longrightarrow> m \<in> {0, 1, 2, 3, 4, 5, 6, 7, 8, 9, 10, 11}"
proof -
  assume "0 \<le> m" "m < 12"
  then have "m \<in> set [0..11]" by simp
  then show ?thesis by (simp add: upto_rec1)
qed

lemma days_before_bounds: "0 \<le> m \<Longrightarrow> m < 12 \<Longrightarrow> days_before l m < days_before l (m + 1) \<and>
    days_before l (m + 1) \<le> 365 + (if l then 1 else 0)"
  using twelve [of m] by (auto simp: days_before_def)

lemma month_parts: "0 \<le> m \<Longrightarrow> m < 12 \<Longrightarrow> (12 * y + m) div 12 = y \<and> (12 * y + m) mod 12 = m" for m y :: int
  by simp

lemma month_start_at: "0 \<le> m \<Longrightarrow> m < 12 \<Longrightarrow> month_start (12 * y + m) = year_start y + days_before (is_leap y) m"
  using month_parts [of m y] by (simp add: month_start_def)

lemma month_start_next:
  "0 \<le> m \<Longrightarrow> m < 12 \<Longrightarrow> month_start (12 * y + m + 1) = year_start y + (if m = 11
     then 365 + (if is_leap y then 1 else 0) else days_before (is_leap y) (m + 1))"
  using month_start_at [of "m + 1" y] month_start_at [of 0 "y + 1"]
  using year_start_Suc [of y] by (auto simp: days_before_def algebra_simps)

lemma month_start_Suc: "month_start k < month_start (k + 1)"
proof -
  define y m where "y = k div 12" and "m = k mod 12"
  have k: "k = 12 * y + m" and m: "0 \<le> m" "m < 12" by (simp_all add: y_def m_def)
  show ?thesis
    unfolding k month_start_at [OF m] month_start_next [OF m]
    using days_before_bounds [OF m, of "is_leap y"] by (auto simp: days_before_def)
qed

lemma days_before_mono: "a \<le> b \<Longrightarrow> b \<le> 11 \<Longrightarrow> days_before l a \<le> days_before l b"
proof (induction b rule: int_ge_induct)
  case (step b)
  then have "days_before l b \<le> days_before l (b + 1)"
    using days_before_bounds [of b l] by (cases "0 \<le> b") (auto simp: days_before_def)
  with step show ?case by simp
qed simp

text \<open>The months of a year, counted: the ones that start by the day are the first ones.\<close>

lemma count_prefix:
  fixes f :: "int \<Rightarrow> int"
  assumes "\<And>a b. a \<le> b \<Longrightarrow> b \<le> n \<Longrightarrow> f a \<le> f b" "0 \<le> n" "f 0 \<le> d"
  shows "\<exists>m. int (length (filter (\<lambda>m. f m \<le> d) [1..n])) = m \<and> 0 \<le> m \<and> m \<le> n \<and> f m \<le> d \<and> (m < n \<longrightarrow> d < f (m + 1))"
  using assms(2,1)
proof (induction n rule: int_ge_induct)
  case (step n)
  have up: "[1..n + 1] = [1..n] @ [n + 1]" using step(1) by (simp add: upto_rec2)
  obtain m where m: "int (length (filter (\<lambda>m. f m \<le> d) [1..n])) = m" "0 \<le> m" "m \<le> n" "f m \<le> d" "m < n \<longrightarrow> d < f (m + 1)"
    using step(2) step(3) by force
  show ?case
  proof (cases "f (n + 1) \<le> d")
    case True
    have "m = n"
    proof (rule ccontr)
      assume "m \<noteq> n" with m have "d < f (m + 1)" by simp
      also have "\<dots> \<le> f (n + 1)" using step(3) [of "m + 1" "n + 1"] m by simp
      finally show False using True by simp
    qed
    with True m up show ?thesis by (auto simp: add.commute)
  next
    case False
    with m up show ?thesis by (cases "m = n") auto
  qed
qed (use assms(3) in simp)

lemma month_of_spec: "month_start (month_of d) \<le> d \<and> d < month_start (month_of d + 1)"
proof -
  define y where "y = year_of d"
  have y: "year_start y \<le> d" "d < year_start (y + 1)" using year_of_spec unfolding y_def by auto
  obtain m where m: "int (length (filter (\<lambda>m. year_start y + days_before (is_leap y) m \<le> d) [1..11])) = m"
      "0 \<le> m" "m \<le> 11" "year_start y + days_before (is_leap y) m \<le> d"
      "m < 11 \<longrightarrow> d < year_start y + days_before (is_leap y) (m + 1)"
    using count_prefix [of 11 "\<lambda>m. year_start y + days_before (is_leap y) m" d] days_before_mono [of _ _ "is_leap y"] y(1)
    by (auto simp: days_before_def [of _ 0])
  have k: "month_of d = 12 * y + m" using m(1) by (simp add: month_of_def y_def Let_def)
  have lo: "month_start (month_of d) \<le> d" using m by (simp add: k month_start_at)
  have hi: "d < month_start (month_of d + 1)"
    using m y by (auto simp: k month_start_next year_start_Suc)
  show ?thesis using lo hi by simp
qed

section \<open>Buckets\<close>

locale bucketing =
  fixes index_of_time :: "int \<Rightarrow> int" and start_of :: "int \<Rightarrow> int"
  assumes holds: "start_of (index_of_time t) \<le> t" "t < start_of (index_of_time t + 1)"
    and apart: "start_of k < start_of (k + 1)"
begin

lemma start_mono: "j < k \<Longrightarrow> start_of j < start_of k"
proof (induction k rule: int_gr_induct)
  case (step k) then show ?case using apart [of k] by simp
qed (rule apart)

lemma start_iff: "start_of j < start_of k \<longleftrightarrow> j < k"
  using start_mono [of j k] start_mono [of k j] by (metis less_irrefl linorder_neqE order_less_asym)

lemma index_start [simp]: "index_of_time (start_of k) = k"
proof -
  have "start_of (index_of_time (start_of k)) < start_of (k + 1)" using holds(1) apart by (metis order_le_less_trans)
  moreover have "start_of k < start_of (index_of_time (start_of k) + 1)" by (rule holds(2))
  ultimately show ?thesis by (simp add: start_iff)
qed

lemma index_le: "start_of k \<le> t \<longleftrightarrow> k \<le> index_of_time t"
proof
  assume "start_of k \<le> t"
  then have "start_of k < start_of (index_of_time t + 1)" using holds(2) [of t] by simp
  then show "k \<le> index_of_time t" by (simp add: start_iff)
next
  assume "k \<le> index_of_time t"
  then have "start_of k \<le> start_of (index_of_time t)" using start_iff [of "index_of_time t" k] by simp
  then show "start_of k \<le> t" using holds(1) [of t] by simp
qed

end

end
