(* ===== verification/Monitoring.thy ===== *)
theory Monitoring
  imports Telemetry Calendar
begin

text \<open>
  internal/telemetry/monitoring.go: the records the dashboard shows, their selection by time window
  and scope, and the totals and time series over them. A zone is its offset in nanoseconds; averages
  and rates are exact rationals. The names of the client keys come from the join with client_keys.
\<close>

datatype Range = RangeDaily | RangeMonthly | RangeYearly

definition parse_range :: "string \<Rightarrow> Range option" where
  "parse_range s = (if s = ''daily'' then Some RangeDaily else if s = ''monthly'' then Some RangeMonthly
     else if s = ''yearly'' then Some RangeYearly else None)"

definition hour_ns :: int where "hour_ns = 3600 * nanos_per_second"
definition day_ns :: int where "day_ns = 24 * hour_ns"

section \<open>Windows and buckets\<close>

text \<open>The start of the local day, month and year of an instant.\<close>

definition local_day :: "int \<Rightarrow> time \<Rightarrow> int" where
  "local_day z t = (t + z) div day_ns"

definition at_day :: "int \<Rightarrow> int \<Rightarrow> time" where
  "at_day z d = d * day_ns - z"

definition window_start :: "Range \<Rightarrow> int \<Rightarrow> time \<Rightarrow> time" where
  "window_start rng z now = at_day z (case rng of
     RangeDaily \<Rightarrow> local_day z now
   | RangeMonthly \<Rightarrow> month_start (month_of (local_day z now))
   | RangeYearly \<Rightarrow> year_start (year_of (local_day z now)))"

definition prev_start :: "Range \<Rightarrow> int \<Rightarrow> time \<Rightarrow> time" where
  "prev_start rng z now = at_day z (case rng of
     RangeDaily \<Rightarrow> local_day z now - 1
   | RangeMonthly \<Rightarrow> month_start (month_of (local_day z now) - 1)
   | RangeYearly \<Rightarrow> year_start (year_of (local_day z now) - 1))"

definition interval_of :: "Range \<Rightarrow> string" where
  "interval_of rng = (case rng of RangeDaily \<Rightarrow> ''hour'' | RangeMonthly \<Rightarrow> ''day'' | RangeYearly \<Rightarrow> ''month'')"

text \<open>The hour, day or month of an instant, counted, and where each begins.\<close>

definition bucket_index :: "Range \<Rightarrow> int \<Rightarrow> time \<Rightarrow> int" where
  "bucket_index rng z t = (case rng of
     RangeDaily \<Rightarrow> (t + z) div hour_ns | RangeMonthly \<Rightarrow> local_day z t
   | RangeYearly \<Rightarrow> month_of (local_day z t))"

definition bucket_start :: "Range \<Rightarrow> int \<Rightarrow> int \<Rightarrow> time" where
  "bucket_start rng z k = (case rng of
     RangeDaily \<Rightarrow> k * hour_ns - z | RangeMonthly \<Rightarrow> at_day z k | RangeYearly \<Rightarrow> at_day z (month_start k))"

definition bucketize :: "Range \<Rightarrow> int \<Rightarrow> time \<Rightarrow> time" where
  "bucketize rng z t = bucket_start rng z (bucket_index rng z t)"

text \<open>nextBucket; its argument begins a bucket, so AddDate moves a first of the month to the next one.\<close>

definition nextBucket :: "Range \<Rightarrow> int \<Rightarrow> time \<Rightarrow> time" where
  "nextBucket rng z t = (case rng of
     RangeDaily \<Rightarrow> t + hour_ns | RangeMonthly \<Rightarrow> t + day_ns
   | RangeYearly \<Rightarrow> at_day z (month_start (month_of (local_day z t) + 1)))"

lemma units_pos: "0 < hour_ns" "0 < day_ns"
  by (simp_all add: day_ns_def hour_ns_def nanos_per_second_def)

lemma at_day_local: "at_day z (local_day z t) \<le> t \<and> t < at_day z (local_day z t + 1)"
  using div_pinned [OF units_pos(2), of "t + z"]
  by (simp_all add: at_day_def local_day_def algebra_simps)

lemma at_day_less: "at_day z d < at_day z e \<longleftrightarrow> d < e"
  using units_pos by (simp add: at_day_def)

lemma local_day_at: "local_day z (at_day z d) = d"
  using units_pos by (simp add: local_day_def at_day_def)

lemma at_day_le: "at_day z d \<le> t \<longleftrightarrow> d \<le> local_day z t"
  using at_day_local [of z t] at_day_less [of z d "local_day z t + 1"] at_day_less [of z "local_day z t" d] by linarith

interpretation buckets: bucketing "bucket_index rng z" "bucket_start rng z" for rng z
proof unfold_locales
  fix t k
  note m = month_of_spec [of "local_day z t"]
  show "bucket_start rng z (bucket_index rng z t) \<le> t"
    using m div_pinned [OF units_pos(1), of "t + z"] at_day_local [of z t]
    by (cases rng) (simp_all add: bucket_start_def bucket_index_def at_day_le algebra_simps)
  show "t < bucket_start rng z (bucket_index rng z t + 1)"
    using m div_pinned [OF units_pos(1), of "t + z"] at_day_local [of z t]
      at_day_le [of z "month_start (month_of (local_day z t) + 1)" t]
    by (cases rng) (simp_all add: bucket_start_def bucket_index_def algebra_simps)
  show "bucket_start rng z k < bucket_start rng z (k + 1)"
    using units_pos month_start_Suc [of k]
    by (cases rng) (simp_all add: bucket_start_def at_day_less algebra_simps)
qed

lemma nextBucket_start: "nextBucket rng z (bucket_start rng z k) = bucket_start rng z (k + 1)"
proof (cases rng)
  case RangeYearly
  have "month_of (month_start k) = k"
    using buckets.index_start [of RangeYearly z k] by (simp add: bucket_index_def bucket_start_def local_day_at)
  with RangeYearly show ?thesis by (simp add: nextBucket_def bucket_start_def local_day_at)
qed (simp_all add: nextBucket_def bucket_start_def at_day_def algebra_simps)

lemma nextBucket_later: "t < nextBucket rng z t"
  using units_pos month_of_spec [of "local_day z t"] at_day_le [of z "month_start (month_of (local_day z t) + 1)" t]
  by (cases rng) (simp_all add: nextBucket_def)

section \<open>Records\<close>

record AttemptView =
  av_number :: nat
  av_provider_name :: string
  av_provider_prefix :: string
  av_provider_type :: string
  av_upstream_model :: string
  av_credential :: int
  av_http :: "int option"
  av_success :: bool
  av_category :: ErrorCategory
  av_duration :: "int option"
  av_usage :: TokenUsage

definition attempt_view :: "tel_attempt \<Rightarrow> AttemptView" where
  "attempt_view a = \<lparr>av_number = ta_number a, av_provider_name = ta_provider_name a,
     av_provider_prefix = ta_provider_prefix a, av_provider_type = ta_provider_type a,
     av_upstream_model = ta_upstream_model a, av_credential = ta_credential a, av_http = ta_http a,
     av_success = ta_success a, av_category = ta_category a, av_duration = ta_duration a, av_usage = ta_usage a\<rparr>"

record MonitoringRecord =
  mr_id :: string
  mr_protocol :: string
  mr_ts :: time
  mr_key :: "int option"
  mr_key_name :: "string option"
  mr_model :: string
  mr_resolved :: "string option"
  mr_served :: "string option"
  mr_group :: "int option"
  mr_group_name :: "string option"
  mr_provider :: string
  mr_status :: "int option"
  mr_error :: ErrorCategory
  mr_cancelled :: bool
  mr_stream :: bool
  mr_usage :: TokenUsage
  mr_latency :: "int option"
  mr_ttft :: "int option"
  mr_upstream :: "int option"
  mr_attempts :: "AttemptView list"
  mr_prompts :: "PromptRuleRef list"

text \<open>The LEFT JOIN with the attempt of the greatest number.\<close>

definition last_attempt :: "tel_store \<Rightarrow> tel_request \<Rightarrow> tel_attempt option" where
  "last_attempt st r = (let as = filter (\<lambda>a. ta_request a = tr_id r) (tel_attempts st) in
     find (\<lambda>a. ta_number a = Max (set (map ta_number as))) as)"

definition record_key_name :: "(int \<Rightarrow> string option) \<Rightarrow> tel_request \<Rightarrow> string option" where
  "record_key_name names r = (case tr_key_name r of
     Some n \<Rightarrow> Some n | None \<Rightarrow> Option.bind (tr_key r) names)"

definition scanMonitoringRow :: "(int \<Rightarrow> string option) \<Rightarrow> tel_store \<Rightarrow> tel_request \<Rightarrow> MonitoringRecord" where
  "scanMonitoringRow names st r = \<lparr>mr_id = tr_id r, mr_protocol = tr_protocol r, mr_ts = tr_started r,
     mr_key = tr_key r, mr_key_name = record_key_name names r, mr_model = tr_public r, mr_resolved = tr_resolved r,
     mr_served = tr_served r, mr_group = tr_group r, mr_group_name = tr_group_name r,
     mr_provider = (case last_attempt st r of None \<Rightarrow> '''' | Some a \<Rightarrow> ta_provider_name a),
     mr_status = tr_http r, mr_error = tr_category r, mr_cancelled = (tr_category r = ErrCanceled),
     mr_stream = tr_streaming r, mr_usage = tr_usage r, mr_latency = tr_duration r, mr_ttft = tr_ttft r,
     mr_upstream = tr_upstream r, mr_attempts = [], mr_prompts = []\<rparr>"

definition collect_record :: "(int \<Rightarrow> string option) \<Rightarrow> tel_store \<Rightarrow> tel_request \<Rightarrow> MonitoringRecord" where
  "collect_record names st r = (scanMonitoringRow names st r)\<lparr>
     mr_attempts := map attempt_view (listAttempts (tr_id r) st), mr_prompts := listPromptRules_of (tr_id r) st\<rparr>"

section \<open>Queries\<close>

record Scope =
  sc_key :: "int option"
  sc_provider :: string
  sc_model :: string
  sc_protocol :: string
  sc_group :: string
  sc_stream :: "bool option"
  sc_outcome :: string

definition has_outcome :: "string \<Rightarrow> tel_request \<Rightarrow> bool" where
  "has_outcome out r \<longleftrightarrow>
     (if out = ''success'' then tr_status r = StatusSuccess
      else if out = ''failed'' then tr_status r = StatusError \<and> tr_category r \<noteq> ErrCanceled
      else if out = ''cancelled'' then tr_status r = StatusError \<and> tr_category r = ErrCanceled
      else True)"

definition involves_model :: "tel_store \<Rightarrow> string \<Rightarrow> tel_request \<Rightarrow> bool" where
  "involves_model st m r \<longleftrightarrow> tr_public r = m \<or> tr_resolved r = Some m \<or> tr_served r = Some m \<or>
     list_ex (\<lambda>a. ta_request a = tr_id r \<and> ta_upstream_model a = m) (tel_attempts st)"

definition in_scope :: "tel_store \<Rightarrow> Scope \<Rightarrow> tel_request \<Rightarrow> bool" where
  "in_scope st sc r \<longleftrightarrow>
     (sc_key sc = None \<or> tr_key r = sc_key sc) \<and>
     (sc_provider sc = '''' \<or> map_option ta_provider_name (last_attempt st r) = Some (sc_provider sc)) \<and>
     (sc_model sc = '''' \<or> involves_model st (sc_model sc) r) \<and>
     (sc_protocol sc = '''' \<or> tr_protocol r = sc_protocol sc) \<and>
     (sc_group sc = '''' \<or> map_option to_lower (tr_group_name r) = Some (to_lower (sc_group sc))) \<and>
     (sc_stream sc = None \<or> sc_stream sc = Some (tr_streaming r)) \<and>
     has_outcome (sc_outcome sc) r"

text \<open>The WHERE of windowQuery; the bounds are compared as texts.\<close>

definition in_window :: "tel_store \<Rightarrow> time \<Rightarrow> time \<Rightarrow> Scope \<Rightarrow> tel_request \<Rightarrow> bool" where
  "in_window st start fin sc r \<longleftrightarrow> text_le start (tr_started r) \<and> text_less (tr_started r) fin \<and>
     tr_status r \<noteq> StatusInProgress \<and> in_scope st sc r"

definition oldest_first :: "tel_request list \<Rightarrow> tel_request list" where
  "oldest_first rs = sort_key (\<lambda>r. (text_key (tr_started r), tr_id r)) rs"

definition windowQuery ::
  "(int \<Rightarrow> string option) \<Rightarrow> tel_store \<Rightarrow> time \<Rightarrow> time \<Rightarrow> Scope \<Rightarrow> MonitoringRecord list" where
  "windowQuery names st start fin sc =
     map (collect_record names st) (oldest_first (filter (in_window st start fin sc) (tel_requests st)))"

definition GetRecord :: "(int \<Rightarrow> string option) \<Rightarrow> tel_store \<Rightarrow> string \<Rightarrow> MonitoringRecord option" where
  "GetRecord names st i = map_option (collect_record names st) (find (\<lambda>r. tr_id r = i) (tel_requests st))"

definition RecentRecords :: "(int \<Rightarrow> string option) \<Rightarrow> tel_store \<Rightarrow> nat \<Rightarrow> MonitoringRecord list" where
  "RecentRecords names st n = map (collect_record names st)
     (take n (newest_first (filter (\<lambda>r. tr_status r \<noteq> StatusInProgress) (tel_requests st))))"

record RequestPage =
  pg_items :: "MonitoringRecord list"
  pg_total :: nat
  pg_page :: nat
  pg_size :: nat

text \<open>
  Pages count from 1; the LIMIT and OFFSET of the query. The offset is computed in 64 bits, and SQLite
  reads a negative one as none.
\<close>

definition Requests :: "(int \<Rightarrow> string option) \<Rightarrow> tel_store \<Rightarrow> Range \<Rightarrow> int \<Rightarrow> time \<Rightarrow> Scope \<Rightarrow> nat \<Rightarrow> nat \<Rightarrow> RequestPage" where
  "Requests names st rng z now sc page sz =
     (let rs = filter (in_window st (window_start rng z now) now sc) (tel_requests st) in
      \<lparr>pg_items = map (collect_record names st) (take sz (drop (nat (wrap64 (int (page - 1) * int sz))) (newest_first rs))),
       pg_total = length rs, pg_page = page, pg_size = sz\<rparr>)"

section \<open>Totals\<close>

record tokenTotals =
  tt_sum :: int
  tt_known :: bool

definition no_totals :: tokenTotals where "no_totals = \<lparr>tt_sum = 0, tt_known = False\<rparr>"

definition tokenTotals_add :: "int option \<Rightarrow> tokenTotals \<Rightarrow> tokenTotals" where
  "tokenTotals_add v t = (case v of None \<Rightarrow> t | Some n \<Rightarrow> \<lparr>tt_sum = tt_sum t + n, tt_known = True\<rparr>)"

definition tokenTotals_value :: "tokenTotals \<Rightarrow> int option" where
  "tokenTotals_value t = (if tt_known t then Some (tt_sum t) else None)"

text \<open>The counters Totals and Bucket share.\<close>

record tally =
  ty_requests :: int
  ty_succeeded :: int
  ty_failed :: int
  ty_cancelled :: int
  ty_inputs :: tokenTotals
  ty_outputs :: tokenTotals
  ty_latency_sum :: int
  ty_latency_count :: int

definition record_failed :: "MonitoringRecord \<Rightarrow> bool" where
  "record_failed rec \<longleftrightarrow> (case mr_status rec of None \<Rightarrow> False | Some s \<Rightarrow> 400 \<le> s) \<or> mr_error rec \<noteq> ErrNone"

definition observe :: "MonitoringRecord \<Rightarrow> 'a tally_scheme \<Rightarrow> 'a tally_scheme" where
  "observe rec t =
     (let t1 = t\<lparr>ty_requests := ty_requests t + 1\<rparr>;
          t2 = (if mr_cancelled rec then t1\<lparr>ty_cancelled := ty_cancelled t1 + 1\<rparr>
                else if record_failed rec then t1\<lparr>ty_failed := ty_failed t1 + 1\<rparr>
                else t1\<lparr>ty_succeeded := ty_succeeded t1 + 1\<rparr>);
          t3 = t2\<lparr>ty_inputs := tokenTotals_add (us_input (mr_usage rec)) (ty_inputs t2),
                  ty_outputs := tokenTotals_add (us_output (mr_usage rec)) (ty_outputs t2)\<rparr>
      in case mr_latency rec of None \<Rightarrow> t3
         | Some l \<Rightarrow> t3\<lparr>ty_latency_sum := ty_latency_sum t3 + l, ty_latency_count := ty_latency_count t3 + 1\<rparr>)"

definition average :: "'a tally_scheme \<Rightarrow> rat option" where
  "average t = (if 0 < ty_latency_count t then Some (of_int (ty_latency_sum t) / of_int (ty_latency_count t)) else None)"

record Totals = tally +
  to_input :: "int option"
  to_output :: "int option"
  to_latency :: "rat option"
  to_rate :: "rat option"

definition empty_totals :: Totals where
  "empty_totals = \<lparr>ty_requests = 0, ty_succeeded = 0, ty_failed = 0, ty_cancelled = 0, ty_inputs = no_totals,
     ty_outputs = no_totals, ty_latency_sum = 0, ty_latency_count = 0, to_input = None, to_output = None,
     to_latency = None, to_rate = None\<rparr>"

definition Totals_finish :: "Totals \<Rightarrow> Totals" where
  "Totals_finish t = t\<lparr>to_input := tokenTotals_value (ty_inputs t), to_output := tokenTotals_value (ty_outputs t),
     to_latency := average t, to_rate := (let eligible = ty_requests t - ty_cancelled t in
       if 0 < eligible then Some (of_int (ty_succeeded t) / of_int eligible) else None)\<rparr>"

definition observeWindow ::
  "(int \<Rightarrow> string option) \<Rightarrow> tel_store \<Rightarrow> time \<Rightarrow> time \<Rightarrow> Scope \<Rightarrow> Totals" where
  "observeWindow names st start fin sc = Totals_finish (fold observe (windowQuery names st start fin sc) empty_totals)"

record SummaryResult =
  sm_range :: Range
  sm_start :: time
  sm_end :: time
  sm_interval :: string
  sm_current :: Totals
  sm_previous :: Totals

definition Summary :: "(int \<Rightarrow> string option) \<Rightarrow> tel_store \<Rightarrow> Range \<Rightarrow> int \<Rightarrow> time \<Rightarrow> Scope \<Rightarrow> SummaryResult" where
  "Summary names st rng z now sc =
     (let start = window_start rng z now in
      \<lparr>sm_range = rng, sm_start = start, sm_end = now, sm_interval = interval_of rng,
       sm_current = observeWindow names st start now sc,
       sm_previous = observeWindow names st (prev_start rng z now) start sc\<rparr>)"

section \<open>Time series\<close>

record Bucket = tally +
  bk_time :: time
  bk_input :: "int option"
  bk_output :: "int option"
  bk_latency :: "rat option"

definition new_bucket :: "time \<Rightarrow> Bucket" where
  "new_bucket t = \<lparr>ty_requests = 0, ty_succeeded = 0, ty_failed = 0, ty_cancelled = 0, ty_inputs = no_totals,
     ty_outputs = no_totals, ty_latency_sum = 0, ty_latency_count = 0, bk_time = t, bk_input = None,
     bk_output = None, bk_latency = None\<rparr>"

definition Bucket_finish :: "Bucket \<Rightarrow> Bucket" where
  "Bucket_finish b = b\<lparr>bk_input := tokenTotals_value (ty_inputs b), bk_output := tokenTotals_value (ty_outputs b),
     bk_latency := average b\<rparr>"

definition add_to_span :: "Range \<Rightarrow> int \<Rightarrow> MonitoringRecord \<Rightarrow> (time \<rightharpoonup> Bucket) \<Rightarrow> (time \<rightharpoonup> Bucket)" where
  "add_to_span rng z rec spans =
     (let bt = bucketize rng z (mr_ts rec); b = (case spans bt of Some b \<Rightarrow> b | None \<Rightarrow> new_bucket bt)
      in spans(bt \<mapsto> observe rec b))"

function emit_buckets :: "Range \<Rightarrow> int \<Rightarrow> (time \<rightharpoonup> Bucket) \<Rightarrow> time \<Rightarrow> time \<Rightarrow> Bucket list" where
  "emit_buckets rng z spans fin bt =
     (if fin < bt then []
      else (case spans bt of Some b \<Rightarrow> Bucket_finish b | None \<Rightarrow> new_bucket bt)
        # emit_buckets rng z spans fin (nextBucket rng z bt))"
  by pat_completeness auto
termination
proof (relation "measure (\<lambda>(rng, z, spans, fin, bt). nat (fin + 1 - bt))")
  fix rng z and spans :: "time \<rightharpoonup> Bucket" and fin bt :: time
  assume "\<not> fin < bt"
  with nextBucket_later [of bt rng z]
  show "((rng, z, spans, fin, nextBucket rng z bt), (rng, z, spans, fin, bt)) \<in>
      measure (\<lambda>(rng, z, spans, fin, bt). nat (fin + 1 - bt))" by simp
qed simp

declare emit_buckets.simps [simp del]

definition TimeSeries ::
  "(int \<Rightarrow> string option) \<Rightarrow> tel_store \<Rightarrow> Range \<Rightarrow> int \<Rightarrow> time \<Rightarrow> Scope \<Rightarrow> Bucket list" where
  "TimeSeries names st rng z now sc =
     (let start = window_start rng z now; recs = windowQuery names st start now sc
      in emit_buckets rng z (fold (add_to_span rng z) recs Map.empty) now (bucketize rng z start))"

end
