(* ===== verification/Monitor_Hub.thy ===== *)
theory Monitor_Hub
  imports Monitoring
begin

text \<open>
  internal/httpapi/monitor_hub.go: the events the dashboard follows. A subscriber is a number with
  the queue of its channel; a subscriber whose queue is full is dropped rather than waited for: its
  channel is closed, and what it still holds can be read. The hub also keeps the requests that are under way, for a subscriber that joins. Every operation runs
  under the hub's mutex, so it is one step.
\<close>

record monitorStarted =
  ms_id :: string
  ms_ts :: time
  ms_key :: int
  ms_key_name :: string
  ms_model :: string
  ms_protocol :: string
  ms_stream :: bool
  ms_provider :: string
  ms_upstream :: string
  ms_resolved :: string
  ms_group :: string

record monitorRouted =
  mo_id :: string
  mo_provider :: string
  mo_upstream :: string
  mo_resolved :: string
  mo_group :: string

record monitorStreaming =
  mt_id :: string
  mt_ttft :: int
  mt_served :: string

datatype monitorEvent =
    Request_started monitorStarted
  | Request_routed monitorRouted
  | Request_streaming monitorStreaming
  | Request_finished MonitoringRecord

record monitorHub =
  hub_subs :: "(nat \<times> monitorEvent list) list"
  hub_closed :: "(nat \<times> monitorEvent list) list"
  hub_next :: nat
  hub_active :: "(string \<times> monitorStarted) list"

definition subBuffer :: nat where "subBuffer = 256"

definition newMonitorHub :: monitorHub where
  "newMonitorHub = \<lparr>hub_subs = [], hub_closed = [], hub_next = 0, hub_active = []\<rparr>"

definition subscribe :: "monitorHub \<Rightarrow> nat \<times> monitorStarted list \<times> monitorHub" where
  "subscribe h = (hub_next h, map snd (hub_active h),
     h\<lparr>hub_subs := hub_subs h @ [(hub_next h, [])], hub_next := hub_next h + 1\<rparr>)"

definition unsubscribe :: "nat \<Rightarrow> monitorHub \<Rightarrow> monitorHub" where
  "unsubscribe ch h = h\<lparr>hub_subs := filter (\<lambda>s. fst s \<noteq> ch) (hub_subs h),
     hub_closed := filter (\<lambda>s. fst s \<noteq> ch) (hub_closed h)\<rparr>"

definition publish :: "monitorEvent \<Rightarrow> monitorHub \<Rightarrow> monitorHub" where
  "publish ev h = h\<lparr>hub_subs := map (\<lambda>(ch, q). (ch, q @ [ev]))
       (filter (\<lambda>(ch, q). length q < subBuffer) (hub_subs h)),
     hub_closed := hub_closed h @ filter (\<lambda>(ch, q). \<not> length q < subBuffer) (hub_subs h)\<rparr>"

text \<open>
  The reader's side of the channel: the next event; None when there is none, and then the channel is
  closed when the subscriber is no longer in the table.
\<close>

definition set_queue :: "nat \<Rightarrow> 'q \<Rightarrow> (nat \<times> 'q) list \<Rightarrow> (nat \<times> 'q) list" where
  "set_queue ch q = map (\<lambda>(c, q'). (c, if c = ch then q else q'))"

definition receive :: "nat \<Rightarrow> monitorHub \<Rightarrow> monitorEvent option \<times> monitorHub" where
  "receive ch h = (case map_of (hub_subs h) ch of
     Some [] \<Rightarrow> (None, h)
   | Some (ev # q) \<Rightarrow> (Some ev, h\<lparr>hub_subs := set_queue ch q (hub_subs h)\<rparr>)
   | None \<Rightarrow> (case map_of (hub_closed h) ch of
       Some (ev # q) \<Rightarrow> (Some ev, h\<lparr>hub_closed := set_queue ch q (hub_closed h)\<rparr>)
     | _ \<Rightarrow> (None, h)))"

definition channel_closed :: "nat \<Rightarrow> monitorHub \<Rightarrow> bool" where
  "channel_closed ch h \<longleftrightarrow> map_of (hub_subs h) ch = None"

definition put_active :: "monitorStarted \<Rightarrow> (string \<times> monitorStarted) list \<Rightarrow> (string \<times> monitorStarted) list" where
  "put_active ev m = filter (\<lambda>kv. fst kv \<noteq> ms_id ev) m @ [(ms_id ev, ev)]"

definition publishStarted :: "monitorStarted \<Rightarrow> monitorHub \<Rightarrow> monitorHub" where
  "publishStarted ev h = publish (Request_started ev) (h\<lparr>hub_active := put_active ev (hub_active h)\<rparr>)"

definition or_else :: "string \<Rightarrow> string \<Rightarrow> string" where
  "or_else new old = (if new \<noteq> '''' then new else old)"

definition route_active :: "monitorRouted \<Rightarrow> monitorStarted \<Rightarrow> monitorStarted" where
  "route_active ev a = a\<lparr>ms_provider := or_else (mo_provider ev) (ms_provider a),
     ms_upstream := or_else (mo_upstream ev) (ms_upstream a),
     ms_resolved := or_else (mo_resolved ev) (ms_resolved a), ms_group := or_else (mo_group ev) (ms_group a)\<rparr>"

definition publishRouted :: "monitorRouted \<Rightarrow> monitorHub \<Rightarrow> monitorHub" where
  "publishRouted ev h = publish (Request_routed ev) (h\<lparr>hub_active :=
     map (\<lambda>(i, a). (i, if i = mo_id ev then route_active ev a else a)) (hub_active h)\<rparr>)"

definition publishStreaming :: "monitorStreaming \<Rightarrow> monitorHub \<Rightarrow> monitorHub" where
  "publishStreaming ev = publish (Request_streaming ev)"

definition publishFinished :: "MonitoringRecord \<Rightarrow> monitorHub \<Rightarrow> monitorHub" where
  "publishFinished rec h = publish (Request_finished rec)
     (h\<lparr>hub_active := filter (\<lambda>kv. fst kv \<noteq> mr_id rec) (hub_active h)\<rparr>)"

section \<open>Laws\<close>

text \<open>Queues stay within their buffer and subscribers are distinct.\<close>

definition channels_ok :: "nat \<Rightarrow> (nat \<times> monitorEvent list) list \<Rightarrow> bool" where
  "channels_ok n xs \<longleftrightarrow> distinct (map fst xs) \<and> (\<forall>ch q. (ch, q) \<in> set xs \<longrightarrow> ch < n \<and> length q \<le> subBuffer)"

definition hub_ok :: "monitorHub \<Rightarrow> bool" where
  "hub_ok h \<longleftrightarrow> channels_ok (hub_next h) (hub_subs h @ hub_closed h) \<and> distinct (map fst (hub_active h))"

lemma publish_active [simp]: "hub_active (publish ev h) = hub_active h" "hub_next (publish ev h) = hub_next h"
  by (simp_all add: publish_def)

lemma map_fst_on: "fst \<circ> (\<lambda>(a, b). (a, f a b)) = fst"
  by auto

lemma distinct_fst_filter: "distinct (map fst xs) \<Longrightarrow> distinct (map fst (filter p xs))"
  by (induction xs) auto

lemma publish_channels:
  "distinct (map fst (hub_subs (publish ev h) @ hub_closed (publish ev h))) =
     distinct (map fst (hub_subs h @ hub_closed h))"
proof (rule mset_eq_imp_distinct_iff)
  let ?p = "\<lambda>s :: nat \<times> monitorEvent list. length (snd s) < subBuffer"
  have "mset (map fst (filter ?p xs)) + mset (map fst (filter (\<lambda>s. \<not> ?p s) xs)) = mset (map fst xs)" for xs
    by (induction xs) auto
  then show "mset (map fst (hub_subs (publish ev h) @ hub_closed (publish ev h))) =
      mset (map fst (hub_subs h @ hub_closed h))"
    by (simp add: publish_def map_fst_on case_prod_unfold comp_def)
qed

lemma publish_ok: "hub_ok h \<Longrightarrow> hub_ok (publish ev h)"
  unfolding hub_ok_def channels_ok_def publish_channels publish_active
  by (auto simp: publish_def)

lemma set_queue_fst [simp]: "map fst (set_queue ch q xs) = map fst xs"
  by (simp add: set_queue_def map_fst_on)

lemma set_queue_in: "(c, q') \<in> set (set_queue ch q xs) \<Longrightarrow> \<exists>q0. (c, q0) \<in> set xs \<and> (q' = q \<or> q' = q0)"
  by (auto simp: set_queue_def)

lemma channels_set_queue:
  assumes ok: "channels_ok n (xs @ ys)" and short: "length q \<le> subBuffer"
  shows "channels_ok n (set_queue ch q xs @ ys)" "channels_ok n (xs @ set_queue ch q ys)"
proof -
  have member: "c < n \<and> length q' \<le> subBuffer" if "(c, q') \<in> set (set_queue ch q zs)" "set zs \<subseteq> set (xs @ ys)" for c q' zs
    using set_queue_in [OF that(1)] that(2) ok short by (auto simp: channels_ok_def)
  have keys: "fst ` set (set_queue ch q zs) = fst ` set zs" for zs :: "(nat \<times> monitorEvent list) list"
    by (metis list.set_map set_queue_fst)
  show "channels_ok n (set_queue ch q xs @ ys)"
    using ok member [of _ _ xs] by (auto simp: channels_ok_def keys)
  show "channels_ok n (xs @ set_queue ch q ys)"
    using ok member [of _ _ ys] by (auto simp: channels_ok_def keys)
qed

lemma receive_ok: "hub_ok h \<Longrightarrow> hub_ok (snd (receive ch h))"
proof -
  assume h: "hub_ok h"
  then have c: "channels_ok (hub_next h) (hub_subs h @ hub_closed h)" by (simp add: hub_ok_def)
  have short: "length q \<le> subBuffer" if "(ch, ev # q) \<in> set (hub_subs h @ hub_closed h)" for ev q
    using c that by (force simp: channels_ok_def)
  show ?thesis
  proof (cases "receive ch h")
    case (Pair r h')
    have "hub_ok h'"
    proof (cases "r = None")
      case True
      with h Pair show ?thesis by (auto simp: receive_def split: option.splits list.splits)
    next
      case False
      then consider ev q where "map_of (hub_subs h) ch = Some (ev # q)" "h' = h\<lparr>hub_subs := set_queue ch q (hub_subs h)\<rparr>"
        | ev q where "map_of (hub_closed h) ch = Some (ev # q)" "h' = h\<lparr>hub_closed := set_queue ch q (hub_closed h)\<rparr>"
        using Pair by (auto simp: receive_def split: option.splits list.splits)
      then show ?thesis
      proof cases
        case 1
        then have "length q \<le> subBuffer" using short [of ev q] by (simp add: map_of_SomeD)
        with h 1 show ?thesis by (simp add: hub_ok_def channels_set_queue [OF c])
      next
        case 2
        then have "length q \<le> subBuffer" using short [of ev q] by (simp add: map_of_SomeD)
        with h 2 show ?thesis by (simp add: hub_ok_def channels_set_queue [OF c])
      qed
    qed
    with Pair show ?thesis by simp
  qed
qed

lemma active_ok: "hub_ok h \<Longrightarrow> distinct (map fst m) \<Longrightarrow> hub_ok (h\<lparr>hub_active := m\<rparr>)"
  by (simp add: hub_ok_def)

lemma hub_ops_ok:
  "hub_ok newMonitorHub" "hub_ok h \<Longrightarrow> hub_ok (snd (snd (subscribe h)))" "hub_ok h \<Longrightarrow> hub_ok (unsubscribe ch h)"
  "hub_ok h \<Longrightarrow> hub_ok (publishStarted ev h)" "hub_ok h \<Longrightarrow> hub_ok (publishRouted ro h)"
  "hub_ok h \<Longrightarrow> hub_ok (publishStreaming sr h)" "hub_ok h \<Longrightarrow> hub_ok (publishFinished rec h)"
proof -
  show "hub_ok newMonitorHub" by (simp add: hub_ok_def channels_ok_def newMonitorHub_def)
  assume h: "hub_ok h"
  then have d: "distinct (map fst (hub_active h))" by (simp add: hub_ok_def)
  have fresh: "(hub_next h, q) \<notin> set (hub_subs h @ hub_closed h)" for q
    using h unfolding hub_ok_def channels_ok_def by blast
  then have "hub_next h \<notin> fst ` set (hub_subs h @ hub_closed h)" by fastforce
  with h show "hub_ok (snd (snd (subscribe h)))"
    by (auto simp: hub_ok_def channels_ok_def subscribe_def less_Suc_eq)
  show "hub_ok (unsubscribe ch h)" using h
    by (auto simp: hub_ok_def channels_ok_def unsubscribe_def distinct_fst_filter)
  show "hub_ok (publishStarted ev h)"
    unfolding publishStarted_def by (intro publish_ok active_ok h) (auto simp: put_active_def d distinct_fst_filter)
  show "hub_ok (publishRouted ro h)"
    unfolding publishRouted_def by (intro publish_ok active_ok h) (simp add: d map_fst_on)
  show "hub_ok (publishStreaming sr h)" unfolding publishStreaming_def by (intro publish_ok h)
  show "hub_ok (publishFinished rec h)"
    unfolding publishFinished_def by (intro publish_ok active_ok h) (simp add: d distinct_fst_filter)
qed

text \<open>A subscriber that was not closed gets every event, in order.\<close>

lemma publish_delivers:
  "hub_ok h \<Longrightarrow> map_of (hub_subs h) ch = Some q \<Longrightarrow> length q < subBuffer \<Longrightarrow>
     map_of (hub_subs (publish ev h)) ch = Some (q @ [ev])"
proof -
  assume h: "hub_ok h" and q: "map_of (hub_subs h) ch = Some q" "length q < subBuffer"
  have "map_of (map (\<lambda>(ch, q). (ch, q @ [ev])) (filter (\<lambda>(ch, q). length q < subBuffer) xs)) ch = Some (q @ [ev])"
    if "distinct (map fst xs)" "map_of xs ch = Some q" for xs :: "(nat \<times> monitorEvent list) list"
    using that q(2) by (induction xs) (auto split: if_splits dest: map_of_SomeD)
  with h q show ?thesis by (simp add: hub_ok_def channels_ok_def publish_def)
qed

lemma fold_publish_delivers:
  "hub_ok h \<Longrightarrow> map_of (hub_subs h) ch = Some q \<Longrightarrow> length q + length evs \<le> subBuffer \<Longrightarrow>
     map_of (hub_subs (fold publish evs h)) ch = Some (q @ evs)"
proof (induction evs arbitrary: h q)
  case (Cons ev evs)
  then show ?case using publish_ok publish_delivers [of h ch q ev] by simp
qed simp

end
