(* ===== verification/Proxy.thy ===== *)
theory Proxy
  imports Usage Translate_Responses
begin

text \<open>
  internal/provider/proxy.go, proxy_responses.go and the proxying of client.go: one exchange with a
  provider, forwarded or translated to the client. The client's connection is a function that says
  which write succeeds; statusWriter of gateway.go remembers whether a status was committed. Fresh
  identifiers come from the sequence \<open>rid\<close>, of which each stage of a request draws its own part.
\<close>

section \<open>The response writer\<close>

record resp_writer =
  rw_header :: header
  rw_sent :: "(int \<times> header) option"
  rw_out :: "string list"
  rw_writes :: nat
  rw_conn :: "nat \<Rightarrow> bool"

text \<open>statusWriter.\<close>

record statusWriter =
  tw_w :: resp_writer
  tw_committed :: bool
  tw_status :: int

definition new_tracked :: "resp_writer \<Rightarrow> statusWriter" where
  "new_tracked w = \<lparr>tw_w = w, tw_committed = False, tw_status = 0\<rparr>"

definition raw_write_header :: "int \<Rightarrow> resp_writer \<Rightarrow> resp_writer" where
  "raw_write_header status w =
     (if rw_sent w = None then w\<lparr>rw_sent := Some (status, rw_header w)\<rparr> else w)"

definition WriteHeader :: "int \<Rightarrow> statusWriter \<Rightarrow> statusWriter" where
  "WriteHeader status t =
     (let t1 = (if tw_committed t then t else t\<lparr>tw_committed := True, tw_status := status\<rparr>)
      in t1\<lparr>tw_w := raw_write_header status (tw_w t1)\<rparr>)"

definition raw_write :: "string \<Rightarrow> resp_writer \<Rightarrow> bool \<times> resp_writer" where
  "raw_write data w =
     (if rw_conn w (rw_writes w)
      then (True, w\<lparr>rw_out := rw_out w @ [data], rw_writes := rw_writes w + 1\<rparr>)
      else (False, w\<lparr>rw_writes := rw_writes w + 1\<rparr>))"

definition Write :: "string \<Rightarrow> statusWriter \<Rightarrow> bool \<times> statusWriter" where
  "Write data t =
     (let t1 = (if tw_committed t then t else WriteHeader 200 t); (ok, w) = raw_write data (tw_w t1)
      in (ok, t1\<lparr>tw_w := w\<rparr>))"

definition map_header :: "(header \<Rightarrow> header) \<Rightarrow> statusWriter \<Rightarrow> statusWriter" where
  "map_header f t = t\<lparr>tw_w := (tw_w t)\<lparr>rw_header := f (rw_header (tw_w t))\<rparr>\<rparr>"

definition write_error :: go_error where "write_error = OtherError ''write failed''"

section \<open>Event streams\<close>

definition stream_headers :: "header \<Rightarrow> header" where
  "stream_headers h = header_set ''X-Accel-Buffering'' ''no'' (header_set ''Cache-Control'' ''no-cache'' h)"

definition openEventStream :: "int \<Rightarrow> statusWriter \<Rightarrow> statusWriter" where
  "openEventStream status t =
     WriteHeader status (map_header (\<lambda>h. stream_headers (header_set ''Content-Type'' ''text/event-stream'' h)) t)"

text \<open>observeFrames: the data lines of a frame's text.\<close>

definition observable :: "string \<Rightarrow> string option" where
  "observable payload = (let v = trim_space payload in if v = '''' \<or> v = ''[DONE]'' then None else Some v)"

definition observe_value :: "codec \<Rightarrow> int \<Rightarrow> string \<Rightarrow> SSEUsageCollector \<Rightarrow> SSEUsageCollector" where
  "observe_value cd now payload c = (case observable payload of None \<Rightarrow> c | Some v \<Rightarrow> Observe cd now v c)"

definition observe_frame_line :: "codec \<Rightarrow> int \<Rightarrow> SSEUsageCollector \<Rightarrow> string \<Rightarrow> SSEUsageCollector" where
  "observe_frame_line cd now c line = (case cut_prefix ''data:'' (trim_space line) of
     None \<Rightarrow> c | Some payload \<Rightarrow> observe_value cd now payload c)"

definition observeFrames :: "codec \<Rightarrow> int \<Rightarrow> frame list \<Rightarrow> SSEUsageCollector \<Rightarrow> SSEUsageCollector" where
  "observeFrames cd now fs c =
     foldl (observe_frame_line cd now) c (concat (map (\<lambda>f. split_on nl (frame_text cd f)) fs))"

fun write_frame_texts :: "string list \<Rightarrow> statusWriter \<Rightarrow> bool \<times> statusWriter" where
  "write_frame_texts [] t = (True, t)"
| "write_frame_texts (s # ss) t = (case Write s t of
     (True, t') \<Rightarrow> write_frame_texts ss t' | (False, t') \<Rightarrow> (False, t'))"

type_synonym client = "statusWriter \<times> SSEUsageCollector"

definition writeFrames :: "codec \<Rightarrow> int \<Rightarrow> frame list \<Rightarrow> client \<Rightarrow> client \<times> bool" where
  "writeFrames cd now fs tc = (case write_frame_texts (map (frame_text cd) fs) (fst tc) of
     (True, t) \<Rightarrow> ((t, observeFrames cd now fs (snd tc)), True)
   | (False, t) \<Rightarrow> ((t, snd tc), False))"

definition UpstreamPathForScheme :: "string \<Rightarrow> string" where
  "UpstreamPathForScheme s =
     (if s = SchemeOpenAIResponses then ''v1/responses''
      else if s = SchemeAnthropic then ''v1/messages'' else ''v1/chat/completions'')"

text \<open>
  The inputs of one attempt that stay fixed; \<open>up_now\<close> is the Unix time of its chunks, \<open>up_seen\<close> the
  instant at which its first event is observed.
\<close>

record upstream =
  up_codec :: codec
  up_url :: url_prims
  up_http :: exchange
  up_provider :: Provider
  up_secret :: string
  up_path :: string
  up_ids :: "nat \<Rightarrow> string"
  up_now :: int
  up_seen :: int

definition proxyStreamHead ::
  "upstream \<Rightarrow> body \<Rightarrow> bool \<Rightarrow> statusWriter \<Rightarrow> (go_error + http_response) \<times> statusWriter" where
  "proxyStreamHead u body stream t =
     (case NewRequest (up_url u) (up_provider u) (up_secret u) (up_path u) body stream of
        Inl e \<Rightarrow> (Inl e, t)
      | Inr req \<Rightarrow> (case send (up_http u) req of
          Inl e \<Rightarrow> (Inl e, t)
        | Inr resp \<Rightarrow> (Inr resp, openEventStream (rs_status resp) t)))"

text \<open>
  The part the translating streams share: scan the body with a handler that writes the frames of
  each event, then write the frames of the translator's Finish.
\<close>

definition frames_handler ::
  "codec \<Rightarrow> int \<Rightarrow> (string \<Rightarrow> string \<Rightarrow> 't emit) \<Rightarrow> ('t \<times> client) event_handler" where
  "frames_handler cd now feed e d st =
     (let (fs, t') = feed e d (fst st); (tc, ok) = writeFrames cd now fs (snd st) in ((t', tc), ok))"

definition finish_stream ::
  "codec \<Rightarrow> int \<Rightarrow> 't emit \<Rightarrow> go_error option \<times> ('t \<times> client) \<Rightarrow> go_error option \<times> client" where
  "finish_stream cd now finish r = (case r of
     (Some e, (_, tc)) \<Rightarrow> (Some e, tc)
   | (None, (t, tc)) \<Rightarrow> (case writeFrames cd now (fst (finish t)) tc of
       (tc', True) \<Rightarrow> (None, tc') | (tc', False) \<Rightarrow> (Some Canceled, tc')))"

definition translated_stream ::
  "codec \<Rightarrow> int \<Rightarrow> (string \<Rightarrow> string \<Rightarrow> 't emit) \<Rightarrow> 't emit \<Rightarrow> http_response \<Rightarrow> 't \<Rightarrow> client \<Rightarrow>
    go_error option \<times> client" where
  "translated_stream cd now feed finish resp t tc =
     finish_stream cd now finish
       (scanSSE (frames_handler cd now feed) (rs_chunks resp) (rs_end resp) (t, tc))"

text \<open>Feeding of chat chunks with the [DONE] marker, and of Responses events.\<close>

definition chunk_feed ::
  "codec \<Rightarrow> (nat \<Rightarrow> string) \<Rightarrow> string \<Rightarrow> string \<Rightarrow> ChatToAnthropicTranslator emit" where
  "chunk_feed cd rid e d t = (if d = ''[DONE]'' then ca_Finish t else ca_FeedChunk cd rid d t)"

definition responses_feed ::
  "codec \<Rightarrow> (nat \<Rightarrow> string) \<Rightarrow> string \<Rightarrow> string \<Rightarrow> ResponsesToChatTranslator emit" where
  "responses_feed cd rid e d t = (if trim_space d = ''[DONE]'' then rc_Finish t else rc_FeedEvent cd rid (e, d) t)"

definition ids_from :: "nat \<Rightarrow> (nat \<Rightarrow> string) \<Rightarrow> nat \<Rightarrow> string" where
  "ids_from n rid i = rid (n + i)"

definition ProxyAnthropicStream :: "upstream \<Rightarrow> body \<Rightarrow> client \<Rightarrow> go_error option \<times> client" where
  "ProxyAnthropicStream u body tc =
     (let cd = up_codec u; m = TranslateChatToAnthropic cd (up_ids u) body True in
      case value_of m 0 of
        Inl e \<Rightarrow> (Some (UpstreamError 0 '''' (Some e)), tc)
      | Inr translated \<Rightarrow> (case proxyStreamHead u translated True (fst tc) of
          (Inl e, t) \<Rightarrow> (Some e, (t, snd tc))
        | (Inr resp, t) \<Rightarrow>
            let rid = ids_from (next_of m 0) (up_ids u) in
            translated_stream cd (up_seen u) (\<lambda>e d. ac_FeedEvent cd rid (e, d)) ac_Finish resp
              (NewAnthropicToChatTranslator rid (up_now u) (upstreamModelName translated)) (t, snd tc)))"

definition ProxyChatInletStream :: "upstream \<Rightarrow> body \<Rightarrow> client \<Rightarrow> go_error option \<times> client" where
  "ProxyChatInletStream u body tc =
     (let cd = up_codec u; m = TranslateAnthropicToChat cd (up_ids u) body True in
      case value_of m 0 of
        Inl e \<Rightarrow> (Some (UpstreamError 0 '''' (Some e)), tc)
      | Inr translated \<Rightarrow> (case proxyStreamHead u translated True (fst tc) of
          (Inl e, t) \<Rightarrow> (Some e, (t, snd tc))
        | (Inr resp, t) \<Rightarrow>
            let rid = ids_from (next_of m 0) (up_ids u) in
            translated_stream cd (up_seen u) (chunk_feed cd rid) ca_Finish resp
              (NewChatToAnthropicTranslator rid (upstreamModelName translated)) (t, snd tc)))"

definition ProxyResponsesStream :: "upstream \<Rightarrow> body \<Rightarrow> client \<Rightarrow> go_error option \<times> client" where
  "ProxyResponsesStream u body tc =
     (let cd = up_codec u; m = TranslateChatToResponses cd (up_ids u) body True in
      case value_of m 0 of
        Inl e \<Rightarrow> (Some (UpstreamError 0 '''' (Some e)), tc)
      | Inr translated \<Rightarrow> (case proxyStreamHead u translated True (fst tc) of
          (Inl e, t) \<Rightarrow> (Some e, (t, snd tc))
        | (Inr resp, t) \<Rightarrow>
            let rid = ids_from (next_of m 0) (up_ids u) in
            translated_stream cd (up_seen u) (responses_feed cd rid) rc_Finish resp
              (NewResponsesToChatTranslator rid (up_now u) (upstreamModelName translated)) (t, snd tc)))"

text \<open>
  The two translators in a row: the chunks of the first, read back from the text of its frames, are
  fed to the second; its [DONE] marker is dropped.
\<close>

definition chat_payload :: "codec \<Rightarrow> frame \<Rightarrow> string option" where
  "chat_payload cd f = Option.bind (cut_prefix ''data:'' (trim_space (frame_text cd f))) observable"

fun feed_chat :: "codec \<Rightarrow> (nat \<Rightarrow> string) \<Rightarrow> int \<Rightarrow> string list \<Rightarrow> ChatToAnthropicTranslator \<times> client \<Rightarrow>
    (ChatToAnthropicTranslator \<times> client) \<times> bool" where
  "feed_chat cd rid now [] st = (st, True)"
| "feed_chat cd rid now (v # vs) st = (case frames_handler cd now (chunk_feed cd rid) '''' v st of
     (st', True) \<Rightarrow> feed_chat cd rid now vs st' | (st', False) \<Rightarrow> (st', False))"

type_synonym inlet_state = "ResponsesToChatTranslator \<times> ChatToAnthropicTranslator \<times> client"

definition inlet_handler ::
  "codec \<Rightarrow> (nat \<Rightarrow> string) \<Rightarrow> (nat \<Rightarrow> string) \<Rightarrow> int \<Rightarrow> inlet_state event_handler" where
  "inlet_handler cd rid rid' now e d st =
     (let (rc, ca, tc) = st in
      if d = ''[DONE]'' then
        (let (fs, ca') = ca_Finish ca; (tc', ok) = writeFrames cd now fs tc in ((rc, ca', tc'), ok))
      else
        (let (fs, rc') = rc_FeedEvent cd rid (e, d) rc;
             ((ca', tc'), ok) = feed_chat cd rid' now (List.map_filter (chat_payload cd) fs) (ca, tc)
         in ((rc', ca', tc'), ok)))"

definition ProxyResponsesInletStream :: "upstream \<Rightarrow> body \<Rightarrow> client \<Rightarrow> go_error option \<times> client" where
  "ProxyResponsesInletStream u body tc =
     (let cd = up_codec u; m = TranslateAnthropicToChat cd (up_ids u) body True in
      case value_of m 0 of
        Inl e \<Rightarrow> (Some (UpstreamError 0 '''' (Some e)), tc)
      | Inr chatBody \<Rightarrow>
          let n = next_of m 0; m2 = TranslateChatToResponses cd (up_ids u) chatBody True in
          (case value_of m2 n of
             Inl e \<Rightarrow> (Some (UpstreamError 0 '''' (Some e)), tc)
           | Inr responsesBody \<Rightarrow> (case proxyStreamHead u responsesBody True (fst tc) of
               (Inl e, t) \<Rightarrow> (Some e, (t, snd tc))
             | (Inr resp, t) \<Rightarrow>
                 let rid = (\<lambda>i. up_ids u (next_of m2 n + 2 * i)); rid' = (\<lambda>i. up_ids u (next_of m2 n + 2 * i + 1));
                     model = upstreamModelName responsesBody;
                     r = scanSSE (inlet_handler cd rid rid' (up_seen u)) (rs_chunks resp) (rs_end resp)
                       (NewResponsesToChatTranslator rid (up_now u) model,
                        NewChatToAnthropicTranslator rid' model, (t, snd tc))
                 in finish_stream cd (up_seen u) ca_Finish (fst r, snd (snd r)))))"

section \<open>Forwarding a stream\<close>

text \<open>ProxyStream's tee: the pending bytes of a line and the collector; every chunk is observed, then written.\<close>

definition observe_line :: "codec \<Rightarrow> int \<Rightarrow> SSEUsageCollector \<Rightarrow> string \<Rightarrow> SSEUsageCollector" where
  "observe_line cd now c line = (case cut_prefix ''data:'' (trim_suffix [cr] line) of
     None \<Rightarrow> c | Some payload \<Rightarrow> observe_value cd now payload c)"

function tee_drain :: "codec \<Rightarrow> int \<Rightarrow> string \<Rightarrow> SSEUsageCollector \<Rightarrow> string \<times> SSEUsageCollector" where
  "tee_drain cd now data c = (case cut_at nl data of
     None \<Rightarrow> (data, c) | Some (line, rest) \<Rightarrow> tee_drain cd now rest (observe_line cd now c line))"
  by pat_completeness auto
termination
  by (relation "measure (\<lambda>(cd, now, data, c). length data)") (auto simp: cut_at_Some)

definition tee_feed :: "codec \<Rightarrow> int \<Rightarrow> string \<Rightarrow> string \<times> SSEUsageCollector \<Rightarrow> string \<times> SSEUsageCollector" where
  "tee_feed cd now chunk pc = tee_drain cd now (fst pc @ chunk) (snd pc)"

fun forward_chunks :: "codec \<Rightarrow> int \<Rightarrow> string list \<Rightarrow> read_end \<Rightarrow> statusWriter \<times> string \<times> SSEUsageCollector \<Rightarrow>
    go_error option \<times> client" where
  "forward_chunks cd now [] e (t, pc) = (case e of
     EndOfStream \<Rightarrow> (None, (t, snd pc))
   | ReadFailed err \<Rightarrow> (Some (UpstreamError 0 '''' (Some err)), (t, snd pc))
   | ContextDone err \<Rightarrow> (Some err, (t, snd pc)))"
| "forward_chunks cd now (chunk # chunks) e (t, pc) =
     (let pc' = tee_feed cd now chunk pc in
      case Write chunk t of
        (True, t') \<Rightarrow> forward_chunks cd now chunks e (t', pc')
      | (False, t') \<Rightarrow> (Some Canceled, (t', snd pc')))"

definition ProxyStream :: "upstream \<Rightarrow> body \<Rightarrow> client \<Rightarrow> go_error option \<times> client" where
  "ProxyStream u body tc =
     (case NewRequest (up_url u) (up_provider u) (up_secret u) (up_path u) body True of
        Inl e \<Rightarrow> (Some e, tc)
      | Inr req \<Rightarrow> (case send (up_http u) req of
          Inl e \<Rightarrow> (Some e, tc)
        | Inr resp \<Rightarrow>
            let t1 = map_header (\<lambda>h. copyHeaders h (rs_headers resp)) (fst tc);
                t2 = map_header (\<lambda>h. stream_headers (if header_get ''Content-Type'' h = ''''
                       then header_set ''Content-Type'' ''text/event-stream'' h else h)) t1
            in forward_chunks (up_codec u) (up_seen u) (rs_chunks resp) (rs_end resp)
                 (WriteHeader (rs_status resp) t2, '''', snd tc)))"

section \<open>Complete responses\<close>

text \<open>io.Copy of chunks through a tee, which gets a chunk before the writer does.\<close>

type_synonym copy_state = "statusWriter \<times> string"

fun copy_chunks :: "string list \<Rightarrow> read_end \<Rightarrow> copy_state \<Rightarrow> go_error option \<times> copy_state" where
  "copy_chunks [] e st = (case e of
     EndOfStream \<Rightarrow> (None, st) | ReadFailed err \<Rightarrow> (Some err, st) | ContextDone err \<Rightarrow> (Some err, st))"
| "copy_chunks (chunk # chunks) e (t, tee) = (case Write chunk t of
     (True, t') \<Rightarrow> copy_chunks chunks e (t', tee @ chunk)
   | (False, t') \<Rightarrow> (Some write_error, (t', tee @ chunk)))"

text \<open>The 32 KB buffer of io.Copy.\<close>

function chop :: "nat \<Rightarrow> string \<Rightarrow> string list" where
  "chop n s = (if s = [] then [] else take (Suc n) s # chop n (drop (Suc n) s))"
  by pat_completeness auto
termination by (relation "measure (\<lambda>(n, s). length s)") auto

definition copy_buffer :: nat where "copy_buffer = 32768"

definition read_limit :: nat where "read_limit = 10485760"

text \<open>io.ReadAll of a limited reader: at the limit the reader ends without looking further.\<close>

definition read_all :: "http_response \<Rightarrow> go_error + string" where
  "read_all resp =
     (let s = concat (rs_chunks resp) in
      if read_limit \<le> length s then Inr (take read_limit s)
      else (case rs_end resp of EndOfStream \<Rightarrow> Inr s | ReadFailed e \<Rightarrow> Inl e | ContextDone e \<Rightarrow> Inl e))"

definition ProxyUnary :: "upstream \<Rightarrow> body \<Rightarrow> copy_state \<Rightarrow> go_error option \<times> copy_state" where
  "ProxyUnary u body st =
     (case NewRequest (up_url u) (up_provider u) (up_secret u) (up_path u) body False of
        Inl e \<Rightarrow> (Some e, st)
      | Inr req \<Rightarrow> (case send (up_http u) req of
          Inl e \<Rightarrow> (Some e, st)
        | Inr resp \<Rightarrow>
            copy_chunks (rs_chunks resp) (rs_end resp)
              (WriteHeader (rs_status resp) (map_header (\<lambda>h. copyHeaders h (rs_headers resp)) (fst st)), snd st)))"

definition body_text :: "codec \<Rightarrow> body \<Rightarrow> string" where
  "body_text cd b = (case b of None \<Rightarrow> '''' | Some v \<Rightarrow> enc cd v)"

text \<open>The part the translating calls share: send, read, translate, answer.\<close>

definition translated_unary ::
  "upstream \<Rightarrow> body \<Rightarrow> (body \<Rightarrow> go_error + body) \<Rightarrow> copy_state \<Rightarrow> go_error option \<times> copy_state" where
  "translated_unary u request translate st =
     (case NewRequest (up_url u) (up_provider u) (up_secret u) (up_path u) request False of
        Inl e \<Rightarrow> (Some e, st)
      | Inr req \<Rightarrow> (case send (up_http u) req of
          Inl e \<Rightarrow> (Some e, st)
        | Inr resp \<Rightarrow> (case read_all resp of
            Inl e \<Rightarrow> (Some (UpstreamError 0 '''' (Some e)), st)
          | Inr raw \<Rightarrow> (case translate (dec (up_codec u) raw) of
              Inl e \<Rightarrow> (Some (UpstreamError (rs_status resp) raw (Some e)), st)
            | Inr out \<Rightarrow>
                let t = map_header (\<lambda>h. header_set ''Content-Type'' ''application/json''
                      (copyHeaders h (rs_headers resp))) (fst st)
                in copy_chunks (chop (copy_buffer - 1) (body_text (up_codec u) out)) EndOfStream
                     (WriteHeader (rs_status resp) t, snd st)))))"

definition ProxyAnthropicUnary :: "upstream \<Rightarrow> body \<Rightarrow> copy_state \<Rightarrow> go_error option \<times> copy_state" where
  "ProxyAnthropicUnary u body st =
     (let cd = up_codec u; m = TranslateChatToAnthropic cd (up_ids u) body False in
      case value_of m 0 of
        Inl e \<Rightarrow> (Some (UpstreamError 0 '''' (Some e)), st)
      | Inr translated \<Rightarrow> translated_unary u translated
          (\<lambda>raw. value_of (TranslateAnthropicToChatObject cd (up_ids u) (up_now u) raw) (next_of m 0)) st)"

definition ProxyChatInletUnary :: "upstream \<Rightarrow> body \<Rightarrow> copy_state \<Rightarrow> go_error option \<times> copy_state" where
  "ProxyChatInletUnary u body st =
     (let cd = up_codec u; m = TranslateAnthropicToChat cd (up_ids u) body False in
      case value_of m 0 of
        Inl e \<Rightarrow> (Some (UpstreamError 0 '''' (Some e)), st)
      | Inr translated \<Rightarrow> translated_unary u translated
          (\<lambda>raw. value_of (TranslateChatToAnthropicObject cd (up_ids u) raw (upstreamModelName translated))
            (next_of m 0)) st)"

definition ProxyResponsesUnary :: "upstream \<Rightarrow> body \<Rightarrow> copy_state \<Rightarrow> go_error option \<times> copy_state" where
  "ProxyResponsesUnary u body st =
     (let cd = up_codec u; m = TranslateChatToResponses cd (up_ids u) body False in
      case value_of m 0 of
        Inl e \<Rightarrow> (Some (UpstreamError 0 '''' (Some e)), st)
      | Inr translated \<Rightarrow> translated_unary u translated
          (\<lambda>raw. value_of (TranslateResponsesToChat cd (up_ids u) (up_now u) raw) (next_of m 0)) st)"

definition responses_to_message ::
  "codec \<Rightarrow> (nat \<Rightarrow> string) \<Rightarrow> int \<Rightarrow> string \<Rightarrow> nat \<Rightarrow> body \<Rightarrow> go_error + body" where
  "responses_to_message cd rid now model n raw =
     (let m = TranslateResponsesToChat cd rid now raw in
      case value_of m n of
        Inl e \<Rightarrow> Inl e
      | Inr chatOut \<Rightarrow> value_of (TranslateChatToAnthropicObject cd rid chatOut model) (next_of m n))"

definition ProxyResponsesInletUnary :: "upstream \<Rightarrow> body \<Rightarrow> copy_state \<Rightarrow> go_error option \<times> copy_state" where
  "ProxyResponsesInletUnary u body st =
     (let cd = up_codec u; m = TranslateAnthropicToChat cd (up_ids u) body False in
      case value_of m 0 of
        Inl e \<Rightarrow> (Some (UpstreamError 0 '''' (Some e)), st)
      | Inr chatBody \<Rightarrow>
          let n = next_of m 0; m2 = TranslateChatToResponses cd (up_ids u) chatBody False in
          (case value_of m2 n of
             Inl e \<Rightarrow> (Some (UpstreamError 0 '''' (Some e)), st)
           | Inr responsesBody \<Rightarrow> translated_unary u responsesBody
               (responses_to_message cd (up_ids u) (up_now u) (upstreamModelName responsesBody) (next_of m2 n)) st))"

section \<open>Dispatch\<close>

text \<open>proxyStream and proxyUnary of gateway.go: by the scheme of the upstream and the client's protocol.\<close>

definition proxyStream ::
  "string \<Rightarrow> string \<Rightarrow> upstream \<Rightarrow> body \<Rightarrow> body \<Rightarrow> client \<Rightarrow> go_error option \<times> client" where
  "proxyStream inlet s u body rawBody tc =
     (if s = SchemeOpenAIResponses \<and> inlet = ''anthropic'' then ProxyResponsesInletStream u rawBody tc
      else if s = SchemeOpenAIResponses then ProxyResponsesStream u body tc
      else if s = SchemeAnthropic \<and> inlet = ''anthropic'' then ProxyStream u rawBody tc
      else if s = SchemeAnthropic then ProxyAnthropicStream u body tc
      else if inlet = ''anthropic'' then ProxyChatInletStream u rawBody tc
      else ProxyStream u body tc)"

definition proxyUnary ::
  "string \<Rightarrow> string \<Rightarrow> upstream \<Rightarrow> body \<Rightarrow> body \<Rightarrow> copy_state \<Rightarrow> go_error option \<times> copy_state" where
  "proxyUnary inlet s u body rawBody st =
     (if s = SchemeOpenAIResponses \<and> inlet = ''anthropic'' then ProxyResponsesInletUnary u rawBody st
      else if s = SchemeOpenAIResponses then ProxyResponsesUnary u body st
      else if s = SchemeAnthropic \<and> inlet = ''anthropic'' then ProxyUnary u rawBody st
      else if s = SchemeAnthropic then ProxyAnthropicUnary u body st
      else if inlet = ''anthropic'' then ProxyChatInletUnary u rawBody st
      else ProxyUnary u body st)"

end
