(* ===== verification/Gateway_Telemetry.thy ===== *)
theory Gateway_Telemetry
  imports Monitor_Hub Proxy Access Model_Groups Prompt_Rules
begin

text \<open>
  internal/httpapi/gateway_telemetry.go: what the gateway records of one request, in the tables of
  the telemetry and at the hub of the dashboard. A request whose identifier could not be generated
  is not recorded. Failing writes are logged and ignored, as in the code.
\<close>

record gatewayTelemetry =
  gt_id :: string
  gt_protocol :: string
  gt_started :: time
  gt_streaming :: bool
  gt_route :: Route
  gt_public :: string
  gt_key_name :: string
  gt_upstream_ms :: int
  gt_ttft :: "int option"
  gt_served :: "string option"
  gt_sig :: string

record recording =
  re_g :: gatewayTelemetry
  re_store :: tel_store
  re_hub :: monitorHub

definition if_recorded :: "(recording \<Rightarrow> recording) \<Rightarrow> recording \<Rightarrow> recording" where
  "if_recorded f re = (if gt_id (re_g re) = '''' then re else f re)"

definition in_store :: "(tel_store \<Rightarrow> tel_store) \<Rightarrow> recording \<Rightarrow> recording" where
  "in_store f re = re\<lparr>re_store := f (re_store re)\<rparr>"

definition at_hub :: "(monitorHub \<Rightarrow> monitorHub) \<Rightarrow> recording \<Rightarrow> recording" where
  "at_hub f re = re\<lparr>re_hub := f (re_hub re)\<rparr>"

section \<open>Errors\<close>

text \<open>The switch classify and classifyErrorCategory share; nil is None.\<close>

definition upstream_category :: "int \<Rightarrow> ErrorCategory" where
  "upstream_category status =
     (if status = 401 \<or> status = 403 then ErrAuth
      else if status = 429 then ErrRateLimit
      else if 500 \<le> status \<and> status \<le> 599 then ErrServer
      else if 400 \<le> status \<and> status \<le> 499 then ErrUpstream
      else ErrConnection)"

definition classify :: "go_error option \<Rightarrow> ErrorCategory \<times> string \<times> bool" where
  "classify err = (case err of
     None \<Rightarrow> (ErrNone, StatusSuccess, True)
   | Some e \<Rightarrow>
       if is_canceled e \<or> is_deadline e then (ErrCanceled, StatusError, False)
       else (case as_upstream e of
           Some (status, _) \<Rightarrow> (upstream_category status, StatusError, False)
         | None \<Rightarrow> if is_deadline e then (ErrTimeout, StatusError, False) else (ErrConnection, StatusError, False)))"

definition classifyErrorCategory :: "go_error option \<Rightarrow> ErrorCategory" where
  "classifyErrorCategory err = (case err of
     None \<Rightarrow> ErrNone
   | Some e \<Rightarrow>
       if is_canceled e \<or> is_deadline e then ErrCanceled
       else (case as_upstream e of Some (status, _) \<Rightarrow> upstream_category status | None \<Rightarrow> ErrConnection))"

definition clientStatusForUpstream :: "go_error option \<Rightarrow> int \<Rightarrow> int" where
  "clientStatusForUpstream err fallback = (case Option.bind err as_upstream of
     Some (status, _) \<Rightarrow> if 400 \<le> status \<and> status \<le> 599 then status
       else if fallback = 500 then 502 else fallback
   | None \<Rightarrow> if fallback = 500 then 502 else fallback)"

section \<open>The start of a request\<close>

text \<open>The texts of PromptRuleRef, and the signature that keeps a repeated set from being written again.\<close>

definition segment_sig :: "PromptSegment \<Rightarrow> string" where
  "segment_sig s = int_to_dec (sg_rule s) @ '':'' @ sg_name s @ '';''"

definition ref_of :: "PromptSegment \<Rightarrow> PromptRuleRef" where
  "ref_of s = \<lparr>ref_rule = sg_rule s, ref_name = sg_name s\<rparr>"

definition recordPromptRules :: "PromptSegment list \<Rightarrow> recording \<Rightarrow> recording" where
  "recordPromptRules segments = if_recorded (\<lambda>re.
     let sig = concat (map segment_sig segments) in
     if sig = gt_sig (re_g re) then re
     else in_store (\<lambda>st. snd (RecordPromptRules (gt_id (re_g re)) (map ref_of segments) st))
       (re\<lparr>re_g := (re_g re)\<lparr>gt_sig := sig\<rparr>\<rparr>))"

definition routed :: "gatewayTelemetry \<Rightarrow> Route \<Rightarrow> string \<Rightarrow> string \<Rightarrow> monitorRouted" where
  "routed g r resolved gname = \<lparr>mo_id = gt_id g, mo_provider = pv_name (rt_provider r),
     mo_upstream = mv_name (rt_model r), mo_resolved = resolved, mo_group = gname\<rparr>"

definition recordGroupResolution :: "Group \<Rightarrow> string \<Rightarrow> recording \<Rightarrow> recording" where
  "recordGroupResolution g resolved = if_recorded (\<lambda>re.
     at_hub (publishRouted (routed (re_g re) (gt_route (re_g re)) resolved (gv_name g)))
       (in_store (RecordResolution (gt_id (re_g re)) (Some (gv_id g)) (Some (gv_name g)) resolved) re))"

definition recordDirectRoute :: "recording \<Rightarrow> recording" where
  "recordDirectRoute = if_recorded (\<lambda>re.
     at_hub (publishRouted (routed (re_g re) (gt_route (re_g re)) '''' '''')) re)"

definition new_attempt :: "string \<Rightarrow> nat \<Rightarrow> Route \<Rightarrow> int \<Rightarrow> time \<Rightarrow> tel_attempt" where
  "new_attempt i n r key started = \<lparr>ta_request = i, ta_number = n, ta_provider = pv_id (rt_provider r),
     ta_provider_name = pv_name (rt_provider r), ta_provider_prefix = pv_prefix (rt_provider r),
     ta_provider_type = pv_type (rt_provider r), ta_model = mv_id (rt_model r),
     ta_upstream_model = mv_name (rt_model r), ta_credential = key, ta_started = started,
     ta_completed = None, ta_duration = None, ta_http = None, ta_success = False, ta_category = ErrNone,
     ta_usage = no_usage\<rparr>"

definition new_request :: "string \<Rightarrow> string \<Rightarrow> APIKey \<Rightarrow> string \<Rightarrow> bool \<Rightarrow> time \<Rightarrow> tel_request" where
  "new_request i protocol key publicModel streaming started = \<lparr>tr_id = i, tr_protocol = protocol,
     tr_public = publicModel, tr_resolved = None, tr_served = None, tr_group = None, tr_group_name = None,
     tr_streaming = streaming, tr_key = Some (ak_id key), tr_key_name = Some (ak_name key),
     tr_status = StatusInProgress, tr_http = None, tr_category = ErrNone, tr_started = started,
     tr_completed = None, tr_duration = None, tr_ttft = None, tr_upstream = None, tr_usage = no_usage\<rparr>"

definition started_event :: "gatewayTelemetry \<Rightarrow> APIKey \<Rightarrow> monitorStarted" where
  "started_event g key = \<lparr>ms_id = gt_id g, ms_ts = gt_started g, ms_key = ak_id key, ms_key_name = ak_name key,
     ms_model = gt_public g, ms_protocol = gt_protocol g, ms_stream = gt_streaming g, ms_provider = '''',
     ms_upstream = '''', ms_resolved = '''', ms_group = ''''\<rparr>"

text \<open>\<open>nid\<close> is the outcome of NewID; the response's header is set before the first write.\<close>

definition newGatewayTelemetry ::
  "string option \<Rightarrow> time \<Rightarrow> time \<Rightarrow> string \<Rightarrow> APIKey \<Rightarrow> string \<Rightarrow> Route \<Rightarrow> bool \<Rightarrow> int \<Rightarrow>
    tel_store \<Rightarrow> monitorHub \<Rightarrow> resp_writer \<Rightarrow> recording \<times> resp_writer" where
  "newGatewayTelemetry nid started attemptStart protocol key publicModel route streaming keyID st hub w =
     (let g = \<lparr>gt_id = '''', gt_protocol = protocol, gt_started = started, gt_streaming = streaming,
            gt_route = route, gt_public = publicModel, gt_key_name = ak_name key, gt_upstream_ms = 0,
            gt_ttft = None, gt_served = None, gt_sig = ''''\<rparr> in
      case nid of
        None \<Rightarrow> (\<lparr>re_g = g, re_store = st, re_hub = hub\<rparr>, w)
      | Some i \<Rightarrow>
          let g = g\<lparr>gt_id := i\<rparr> in
          (\<lparr>re_g = g,
            re_store = snd (StartRequest (new_request i protocol key publicModel streaming started)
              (new_attempt i 1 route keyID attemptStart) st),
            re_hub = publishStarted (started_event g key) hub\<rparr>,
           w\<lparr>rw_header := header_set ''X-Request-Id'' i (rw_header w)\<rparr>))"

section \<open>Attempts\<close>

definition recordAttemptStart :: "nat \<Rightarrow> Route \<Rightarrow> int \<Rightarrow> time \<Rightarrow> recording \<Rightarrow> recording" where
  "recordAttemptStart n route keyID started = if_recorded (\<lambda>re.
     at_hub (publishRouted (routed (re_g re) route '''' ''''))
       (in_store (\<lambda>st. snd (StartAttempt (new_attempt (gt_id (re_g re)) n route keyID started) st)) re))"

definition milliseconds :: "int \<Rightarrow> int" where
  "milliseconds d = d div 1000000"

definition recordAttemptFinish ::
  "nat \<Rightarrow> int option \<Rightarrow> bool \<Rightarrow> ErrorCategory \<Rightarrow> TokenUsage \<Rightarrow> time \<Rightarrow> time \<Rightarrow> recording \<Rightarrow> recording" where
  "recordAttemptFinish n http success category usage started completed = if_recorded (\<lambda>re.
     let ms = milliseconds (completed - started); g = re_g re in
     in_store (FinishAttemptWithTiming (gt_id g) n http success category usage started completed)
       (re\<lparr>re_g := (if 0 < ms then g\<lparr>gt_upstream_ms := gt_upstream_ms g + ms\<rparr> else g)\<rparr>))"

definition noteFirstByte :: "time \<Rightarrow> string \<Rightarrow> recording \<Rightarrow> recording" where
  "noteFirstByte first served = if_recorded (\<lambda>re.
     if gt_ttft (re_g re) \<noteq> None then re
     else let ms = max 0 (milliseconds (first - gt_started (re_g re))); g = (re_g re)\<lparr>gt_ttft := Some ms\<rparr>
       in at_hub (publishStreaming \<lparr>mt_id = gt_id g, mt_ttft = ms, mt_served = served\<rparr>)
            (re\<lparr>re_g := (if served \<noteq> '''' then g\<lparr>gt_served := Some served\<rparr> else g)\<rparr>))"

section \<open>The end of a request\<close>

text \<open>What an attempt left behind: the collector of a stream or the bytes of a complete response.\<close>

datatype observed = Streamed SSEUsageCollector | Buffered string

definition observed_usage :: "first_json \<Rightarrow> string \<Rightarrow> observed \<Rightarrow> TokenUsage" where
  "observed_usage first protocol ob = (case ob of
     Streamed c \<Rightarrow> collected_usage c | Buffered b \<Rightarrow> ExtractUnaryUsage first protocol b)"

definition servedFrom :: "first_json \<Rightarrow> observed \<Rightarrow> gatewayTelemetry \<Rightarrow> gatewayTelemetry" where
  "servedFrom first ob g = (if gt_served g \<noteq> None then g
     else g\<lparr>gt_served := (case ob of Streamed c \<Rightarrow> col_model c | Buffered b \<Rightarrow> ExtractUpstreamModel first b)\<rparr>)"

definition client_names :: "store \<Rightarrow> int \<Rightarrow> string option" where
  "client_names st i = map_option ck_name (tbl_find (\<lambda>k. ck_id k = i) (client_keys st))"

definition publish_finished :: "store \<Rightarrow> recording \<Rightarrow> recording" where
  "publish_finished st re = (case GetRecord (client_names st) (re_store re) (gt_id (re_g re)) of
     None \<Rightarrow> re | Some rec \<Rightarrow> at_hub (publishFinished rec) re)"

text \<open>The tail the three endings share: FinishRequestWithTiming and the event.\<close>

definition end_request ::
  "store \<Rightarrow> string \<Rightarrow> int option \<Rightarrow> ErrorCategory \<Rightarrow> TokenUsage \<Rightarrow> time \<Rightarrow> recording \<Rightarrow> recording" where
  "end_request st status http category usage completed re =
     (let g = re_g re in
      publish_finished st (in_store (FinishRequestWithTiming (gt_id g) status http category usage
        (gt_ttft g) (Some (gt_upstream_ms g)) (gt_served g) (gt_started g) completed) re))"

definition in_2xx :: "int \<Rightarrow> bool" where
  "in_2xx s \<longleftrightarrow> 200 \<le> s \<and> s \<le> 299"

definition finishSuccess ::
  "first_json \<Rightarrow> store \<Rightarrow> nat \<Rightarrow> statusWriter \<Rightarrow> observed \<Rightarrow> time \<Rightarrow> time \<Rightarrow> recording \<Rightarrow> recording" where
  "finishSuccess first db_st n tracked ob started completed = if_recorded (\<lambda>re.
     let usage = observed_usage first (gt_protocol (re_g re)) ob;
         status200 = (if tw_committed tracked \<and> in_2xx (tw_status tracked) then tw_status tracked else 200);
         re1 = recordAttemptFinish n (Some status200) True ErrNone usage started completed re;
         re2 = re1\<lparr>re_g := servedFrom first ob (re_g re1)\<rparr>
     in end_request db_st StatusSuccess (Some status200) ErrNone usage completed re2)"

text \<open>The status and outcome finishCommittedOrCanceled records.\<close>

definition committed_outcome ::
  "go_error \<Rightarrow> statusWriter \<Rightarrow> ErrorCategory \<times> string \<times> bool \<times> int option" where
  "committed_outcome e tracked =
     (let (category, status, success) = classify (Some e);
          clientStatus = (if tw_committed tracked then tw_status tracked else 500);
          http = (if tw_committed tracked then Some clientStatus else None);
          (category, status, success) =
            (if success \<and> (case http of Some h \<Rightarrow> \<not> in_2xx h | None \<Rightarrow> False)
             then (ErrUpstream, StatusError, False) else (category, status, success));
          http = (if \<not> success \<and> (http = None \<or> category \<in> {ErrAuth, ErrRateLimit, ErrUpstream, ErrServer})
                  then Some (clientStatusForUpstream (Some e) clientStatus) else http)
      in (category, status, success, http))"

definition finishCommittedOrCanceled ::
  "first_json \<Rightarrow> store \<Rightarrow> nat \<Rightarrow> go_error \<Rightarrow> statusWriter \<Rightarrow> observed \<Rightarrow> time \<Rightarrow> time \<Rightarrow> recording \<Rightarrow> recording" where
  "finishCommittedOrCanceled first db_st n e tracked ob started completed = if_recorded (\<lambda>re.
     let (category, status, success, http) = committed_outcome e tracked;
         usage = observed_usage first (gt_protocol (re_g re)) ob;
         re1 = recordAttemptFinish n http success category usage started completed re;
         re2 = re1\<lparr>re_g := servedFrom first ob (re_g re1)\<rparr>
     in end_request db_st status http category usage completed re2)"

definition finishRequest :: "store \<Rightarrow> int \<Rightarrow> ErrorCategory \<Rightarrow> TokenUsage \<Rightarrow> time \<Rightarrow> recording \<Rightarrow> recording" where
  "finishRequest db_st status category usage completed =
     if_recorded (end_request db_st StatusError (Some status) category usage completed)"

section \<open>Laws\<close>

text \<open>The last branch of classify that names a timeout is not reached.\<close>

lemma classify_category: "fst (classify err) = classifyErrorCategory err"
  by (auto simp: classify_def classifyErrorCategory_def split: option.split)

lemma classify_never_timeout: "fst (classify err) \<noteq> ErrTimeout"
  by (auto simp: classify_def upstream_category_def split: option.split)

lemma clientStatusForUpstream_error:
  "400 \<le> fallback \<Longrightarrow> 400 \<le> clientStatusForUpstream err fallback"
  by (auto simp: clientStatusForUpstream_def split: option.split)

end
