(* ===== verification/Gateway.thy ===== *)
theory Gateway
  imports Gateway_Telemetry Prompts Caveman
begin

text \<open>
  internal/httpapi/gateway.go: a client's request from its authentication to the answer. The body is
  prepared for the client's protocol, the model is resolved to targets, and the targets' keys are
  tried in order until an attempt succeeds, commits a response or ends in an error that another key
  cannot help with.

  What the outside does is the environment \<open>gateway_env\<close>: the exchange each attempt gets, the clock at
  each of its points, the state of the request's context after it, and fresh identifiers.
\<close>

section \<open>Answers\<close>

text \<open>errors.go. The encoder ends its line.\<close>

definition jsonWrite :: "codec \<Rightarrow> int \<Rightarrow> json \<Rightarrow> resp_writer \<Rightarrow> resp_writer" where
  "jsonWrite cd status v w =
     snd (raw_write (enc cd v @ [nl]) (raw_write_header status
       (w\<lparr>rw_header := header_set ''Content-Type'' ''application/json'' (rw_header w)\<rparr>)))"

definition protocol_error_json :: "string \<Rightarrow> string \<Rightarrow> string \<Rightarrow> json" where
  "protocol_error_json protocol message typ =
     (if protocol = ''anthropic''
      then JObj [(''type'', JStr ''error''), (''error'', JObj [(''type'', JStr typ), (''message'', JStr message)])]
      else JObj [(''error'', JObj [(''message'', JStr message), (''type'', JStr typ)])])"

definition writeProtocolError ::
  "codec \<Rightarrow> string \<Rightarrow> int \<Rightarrow> string \<Rightarrow> string \<Rightarrow> resp_writer \<Rightarrow> resp_writer" where
  "writeProtocolError cd protocol status message typ = jsonWrite cd status (protocol_error_json protocol message typ)"

definition upstreamErrorType :: "string \<Rightarrow> string" where
  "upstreamErrorType protocol = (if protocol = ''anthropic'' then ''api_error'' else ''upstream_error'')"

definition internalErrorType :: "string \<Rightarrow> string" where
  "internalErrorType protocol = (if protocol = ''anthropic'' then ''api_error'' else ''internal_error'')"

section \<open>Resolution\<close>

record routeTarget =
  tg_route :: Route
  tg_keys :: "ProviderKey list"

definition isFailoverStatus :: "int \<Rightarrow> bool" where
  "isFailoverStatus status \<longleftrightarrow> status = 401 \<or> status = 403 \<or> status = 429 \<or> status = 402"

definition malformed_model :: string where
  "malformed_model = ''model must be a group name or a provider-prefix/model reference''"

text \<open>The targets, and the group when the model names one.\<close>

definition resolveTargets ::
  "crypto \<Rightarrow> string \<Rightarrow> svc \<Rightarrow> (routeTarget list \<times> Group option) result \<times> svc" where
  "resolveTargets c model s =
     (case cut_at CHR ''/'' model of
        Some (prefix, rest) \<Rightarrow>
          if prefix = '''' \<or> rest = '''' \<or> \<not> ValidProviderPrefix prefix then (Inl (OtherErr malformed_model), s)
          else (case ResolveRoute model s of
              Inl e \<Rightarrow> (Inl e, s)
            | Inr route \<Rightarrow> (case EligibleKeys c (pv_id (rt_provider route)) s of
                (Inl e, s') \<Rightarrow> (Inl e, s')
              | (Inr keys, s') \<Rightarrow>
                  if keys = [] then (Inl ErrNoCredentials, s')
                  else (Inr ([\<lparr>tg_route = route, tg_keys = keys\<rparr>], None), s')))
      | None \<Rightarrow> (case ResolveGroupTargets c model s of
          (Inl e, s') \<Rightarrow> (Inl e, s')
        | (Inr (g, candidates), s') \<Rightarrow>
            (Inr (map (\<lambda>cand. \<lparr>tg_route = gc_route cand, tg_keys = gc_keys cand\<rparr>) candidates, Some g), s')))"

definition model_must_be :: "svc_error \<Rightarrow> bool" where
  "model_must_be e = (case e of OtherErr m \<Rightarrow> has_prefix ''model must be'' m | _ \<Rightarrow> False)"

definition route_error_text :: "svc_error \<Rightarrow> string" where
  "route_error_text e = (case e of OtherErr m \<Rightarrow> m | _ \<Rightarrow> '''')"

definition writeRouteError :: "codec \<Rightarrow> string \<Rightarrow> svc_error \<Rightarrow> resp_writer \<Rightarrow> resp_writer" where
  "writeRouteError cd protocol e =
     (if e = ErrNoGroupTargets
      then writeProtocolError cd protocol 503 ''group has no available targets'' (upstreamErrorType protocol)
      else if e = ErrNoCredentials
      then writeProtocolError cd protocol 502 ''no enabled provider credentials'' (upstreamErrorType protocol)
      else if model_must_be e
      then writeProtocolError cd protocol 400 (route_error_text e) ''invalid_request_error''
      else writeProtocolError cd protocol 404 ''unknown model or group'' ''not_found_error'')"

section \<open>The client's request\<close>

text \<open>The body is None when reading it failed.\<close>

record client_request =
  cq_header :: header
  cq_body :: "string option"

definition extractBearer :: "header \<Rightarrow> string" where
  "extractBearer h = (let v = header_get ''Authorization'' h in
     if length v < 7 \<or> \<not> equal_fold (take 7 v) ''Bearer '' then '''' else trim_space (drop 7 v))"

definition client_secret :: "string \<Rightarrow> header \<Rightarrow> string" where
  "client_secret protocol h =
     (let key = trim_space (header_get ''X-Api-Key'' h); bearer = extractBearer h in
      if protocol = ''anthropic'' then (if key = '''' then bearer else key)
      else (if bearer = '''' then key else bearer))"

definition authenticateAI ::
  "codec \<Rightarrow> password_prims \<Rightarrow> time \<Rightarrow> time \<Rightarrow> string \<Rightarrow> header \<Rightarrow> svc \<Rightarrow> resp_writer \<Rightarrow>
    APIKey option \<times> svc \<times> resp_writer" where
  "authenticateAI cd pw now now' protocol h s w =
     (let secret = client_secret protocol h in
      if secret = ''''
      then (None, s, writeProtocolError cd protocol 401 ''missing API key'' ''authentication_error'' w)
      else (case AuthenticateAPIKey pw now now' secret s of
          (Inl _, s') \<Rightarrow> (None, s', writeProtocolError cd protocol 401 ''invalid API key'' ''authentication_error'' w)
        | (Inr key, s') \<Rightarrow> (Some key, s', w)))"

definition body_limit :: nat where "body_limit = 10485760"

definition readBoundedBody :: "client_request \<Rightarrow> string option" where
  "readBoundedBody q = (case cq_body q of
     None \<Rightarrow> None | Some b \<Rightarrow> if body_limit < length b then None else Some b)"

definition replaceModel :: "string \<Rightarrow> body \<Rightarrow> body" where
  "replaceModel model = with_map (mset_field ''model'' (JStr model))"

definition modelOf :: "body \<Rightarrow> string" where
  "modelOf b = (case Option.bind (body_obj b) (str_field ''model'') of None \<Rightarrow> '''' | Some m \<Rightarrow> m)"

text \<open>The thinking suffix of the model: the clean name when the body changes, and the effort it asks for.\<close>

definition model_suffix :: "body \<Rightarrow> string option \<times> string option" where
  "model_suffix b =
     (let m = modelOf b; (clean, effort, has) = ParseThinkingSuffix m in
      if m \<noteq> '''' \<and> (has \<or> clean \<noteq> m) then (Some clean, if has then Some effort else None) else (None, None))"

definition opt_apply :: "('x \<Rightarrow> body \<Rightarrow> body) \<Rightarrow> 'x option \<Rightarrow> body \<Rightarrow> body" where
  "opt_apply f x b = (case x of None \<Rightarrow> b | Some v \<Rightarrow> f v b)"

definition prepare_anthropic :: "codec \<Rightarrow> (nat \<Rightarrow> string) \<Rightarrow> body \<Rightarrow> string + (body \<times> body)" where
  "prepare_anthropic cd rid b =
     (let raw = StripAnthropicForeign b; (clean, effort) = model_suffix raw;
          raw = opt_apply replaceModel clean raw in
      case Option.bind (body_obj raw) (bool_field ''stream'') of
        None \<Rightarrow> Inl ''request must contain a valid model''
      | Some stream \<Rightarrow> (case value_of (TranslateAnthropicToChat cd rid raw stream) 0 of
          Inl _ \<Rightarrow> Inl ''request must contain valid messages''
        | Inr translated \<Rightarrow>
            Inr (opt_apply SetChatEffort effort (StripChatForeign translated),
                 opt_apply SetAnthropicThinking effort raw)))"

definition prepare_openai :: "body \<Rightarrow> body \<times> body" where
  "prepare_openai b =
     (let b = StripChatForeign b; (clean, effort) = model_suffix b;
          b = opt_apply SetChatEffort effort (opt_apply replaceModel clean b)
      in (b, b))"

definition prepare_body :: "codec \<Rightarrow> (nat \<Rightarrow> string) \<Rightarrow> string \<Rightarrow> body \<Rightarrow> string + (body \<times> body)" where
  "prepare_body cd rid protocol b =
     (if protocol = ''anthropic'' then prepare_anthropic cd rid b else Inr (prepare_openai b))"

definition envelope :: "body \<Rightarrow> (string \<times> bool) option" where
  "envelope b = Option.bind (body_obj b) (\<lambda>kvs. Option.bind (str_field ''model'' kvs) (\<lambda>m.
     Option.bind (bool_field ''stream'' kvs) (\<lambda>stream. if m = '''' then None else Some (m, stream))))"

section \<open>Prompts\<close>

definition caveman_header :: "string \<Rightarrow> header \<Rightarrow> cave \<Rightarrow> string \<times> cave" where
  "caveman_header dflt h cs =
     (let v = to_lower (trim_space (header_get ''X-Caveman'' h));
          prompt = (\<lambda>r. case r of (Inl _, cs') \<Rightarrow> ('''', cs') | (Inr p, cs') \<Rightarrow> (p, cs')) in
      if v \<noteq> '''' then (if v \<in> {''off'', ''false'', ''0''} then ('''', cs) else prompt (GetCavemanPrompt dflt v cs))
      else prompt (ActiveCavemanPrompt dflt cs))"

definition global_prompt :: "svc \<Rightarrow> string" where
  "global_prompt s = (case GetGlobalPrompt s of (txt, enabled) \<Rightarrow> ActivePrompt txt enabled)"

definition resolvePromptSegments ::
  "int option \<Rightarrow> int \<Rightarrow> string \<Rightarrow> svc \<Rightarrow> (PromptSegment list \<times> bool) \<times> svc" where
  "resolvePromptSegments groupID modelID override s =
     (if to_lower override \<in> {''off'', ''false'', ''0''} then (([], True), s)
      else (case (if override \<noteq> '''' then PromptRuleByName override s else (None, s)) of
          (Some (seg, inherit), s') \<Rightarrow> (([seg], \<not> inherit), s')
        | (None, s') \<Rightarrow> ResolvePromptRules groupID modelID s'))"

definition inject :: "string \<Rightarrow> string \<times> string \<Rightarrow> body \<Rightarrow> body" where
  "inject protocol p b =
     (if fst p = '''' then b
      else if protocol = ''anthropic'' then InjectAnthropicPromptLabeled b (fst p) (snd p)
      else InjectChatPromptLabeled b (fst p) (snd p))"

text \<open>The prompts in the order they are appended, with their labels.\<close>

definition prompt_order :: "string \<Rightarrow> bool \<Rightarrow> PromptSegment list \<Rightarrow> string \<Rightarrow> (string \<times> string) list" where
  "prompt_order globalPrompt suppressed segments cavemanPrompt =
     (if suppressed then [] else [(globalPrompt, '''')]) @ map (\<lambda>s. (sg_text s, sg_name s)) segments @
     [(cavemanPrompt, '''')]"

definition injectPromptSegments ::
  "string \<Rightarrow> (string \<times> string) list \<Rightarrow> body \<times> body \<Rightarrow> body \<times> body" where
  "injectPromptSegments protocol ps br =
     (fold (inject protocol) ps (fst br),
      if protocol = ''anthropic'' then fold (inject protocol) ps (snd br) else snd br)"

section \<open>Attempts\<close>

record gateway_env =
  ge_crypto :: crypto
  ge_pw :: password_prims
  ge_codec :: codec
  ge_first :: first_json
  ge_url :: url_prims
  ge_caveman :: string
  ge_id :: "string option"
  ge_http :: "nat \<Rightarrow> exchange"
  ge_rid :: "nat \<Rightarrow> nat \<Rightarrow> string"
  ge_clock :: "nat \<Rightarrow> nat \<Rightarrow> time"
  ge_ctx :: "nat \<Rightarrow> go_error option"

text \<open>What the handler knows once the request is resolved.\<close>

record gateway_job =
  jb_protocol :: string
  jb_stream :: bool
  jb_body :: body
  jb_raw :: body
  jb_group :: "int option"
  jb_global :: string
  jb_caveman :: string
  jb_override :: string

record gateway_state =
  gs_cave :: cave
  gs_rec :: recording
  gs_w :: resp_writer

abbreviation gs_svc :: "gateway_state \<Rightarrow> svc" where
  "gs_svc st \<equiv> fst (gs_cave st)"

definition on_svc :: "(svc \<Rightarrow> svc) \<Rightarrow> gateway_state \<Rightarrow> gateway_state" where
  "on_svc f st = st\<lparr>gs_cave := (f (gs_svc st), snd (gs_cave st))\<rparr>"

definition on_rec :: "(recording \<Rightarrow> recording) \<Rightarrow> gateway_state \<Rightarrow> gateway_state" where
  "on_rec f st = st\<lparr>gs_rec := f (gs_rec st)\<rparr>"

definition on_w :: "(resp_writer \<Rightarrow> resp_writer) \<Rightarrow> gateway_state \<Rightarrow> gateway_state" where
  "on_w f st = st\<lparr>gs_w := f (gs_w st)\<rparr>"

definition attempt_upstream :: "gateway_env \<Rightarrow> nat \<Rightarrow> Provider \<Rightarrow> string \<Rightarrow> string \<Rightarrow> upstream" where
  "attempt_upstream env n p secret path = \<lparr>up_codec = ge_codec env, up_url = ge_url env,
     up_http = ge_http env n, up_provider = p, up_secret = secret, up_path = path, up_ids = ge_rid env n,
     up_now = ge_clock env n 2 div nanos_per_second, up_seen = ge_clock env n 3\<rparr>"

text \<open>One exchange: its error, the tracked writer and what was observed.\<close>

definition run_exchange ::
  "gateway_job \<Rightarrow> string \<Rightarrow> upstream \<Rightarrow> body \<times> body \<Rightarrow> resp_writer \<Rightarrow> go_error option \<times> statusWriter \<times> observed" where
  "run_exchange job sch u br w =
     (if jb_stream job
      then (case proxyStream (jb_protocol job) sch u (fst br) (snd br)
              (new_tracked w, NewSSEUsageCollector (jb_protocol job)) of (e, t, c) \<Rightarrow> (e, t, Streamed c))
      else (case proxyUnary (jb_protocol job) sch u (fst br) (snd br) (new_tracked w, '''') of
              (e, t, tee) \<Rightarrow> (e, t, Buffered tee)))"

text \<open>OnFirst during the stream, and the second look at the collector after it.\<close>

definition note_stream :: "observed \<Rightarrow> recording \<Rightarrow> recording" where
  "note_stream ob re = (case ob of
     Buffered _ \<Rightarrow> re
   | Streamed c \<Rightarrow>
       (let re1 = (case col_note c of None \<Rightarrow> re | Some (first, served) \<Rightarrow> noteFirstByte first served re) in
        case col_first c of None \<Rightarrow> re1
        | Some first \<Rightarrow> noteFirstByte first (case col_model c of None \<Rightarrow> '''' | Some m \<Rightarrow> m) re1))"

definition request_done :: "gateway_env \<Rightarrow> nat \<Rightarrow> go_error \<Rightarrow> bool" where
  "request_done env n e \<longleftrightarrow> is_canceled e \<or> (case ge_ctx env n of
     Some Canceled \<Rightarrow> is_canceled e | Some DeadlineExceeded \<Rightarrow> is_deadline e | _ \<Rightarrow> False)"

text \<open>The outcome of an attempt: the request is over, or the next key is tried with this error and status.\<close>

datatype verdict = Over | Next go_error "int option"

definition failover_status :: "go_error \<Rightarrow> int option" where
  "failover_status e = (case as_upstream e of
     Some (status, _) \<Rightarrow> if isFailoverStatus status then Some status else None | None \<Rightarrow> None)"

definition settle ::
  "gateway_env \<Rightarrow> gateway_job \<Rightarrow> nat \<Rightarrow> go_error option \<times> statusWriter \<times> observed \<Rightarrow>
    gateway_state \<Rightarrow> verdict \<times> gateway_state" where
  "settle env job n r st =
     (let (err, tracked, ob) = r; started = ge_clock env n 0; completed = ge_clock env n 4;
          d = db (gs_svc st); st = on_rec (note_stream ob) (st\<lparr>gs_w := tw_w tracked\<rparr>) in
      case err of
        None \<Rightarrow> (Over, on_rec (finishSuccess (ge_first env) d n tracked ob started completed) st)
      | Some e \<Rightarrow>
          if tw_committed tracked \<or> request_done env n e
          then (Over, on_rec (finishCommittedOrCanceled (ge_first env) d n e tracked ob started completed) st)
          else (case failover_status e of
              Some status \<Rightarrow> (Next e (Some status), on_rec (recordAttemptFinish n (Some status) False
                 (classifyErrorCategory err) no_usage started completed) st)
            | None \<Rightarrow>
                let category = classifyErrorCategory err; status = clientStatusForUpstream err 502 in
                (Over, on_w (writeProtocolError (ge_codec env) (jb_protocol job) status
                    (StatusMessage (ge_codec env) e) (upstreamErrorType (jb_protocol job)))
                  (on_rec (finishRequest d status category no_usage completed)
                    (on_rec (recordAttemptFinish n (Some status) False category no_usage started completed) st)))))"

definition try_key ::
  "gateway_env \<Rightarrow> gateway_job \<Rightarrow> Route \<Rightarrow> body \<times> body \<Rightarrow> nat \<Rightarrow> ProviderKey \<Rightarrow> gateway_state \<Rightarrow>
    verdict \<times> gateway_state" where
  "try_key env job route br n key st =
     (let started = ge_clock env n 0; sch = EffectiveScheme (pv_type (rt_provider route)) (mv_scheme (rt_model route));
          st = (if 1 < n then on_rec (recordAttemptStart n route (kv_id key) started) st else st) in
      case ProviderKeySecret (ge_crypto env) (kv_id key) (gs_svc st) of
        Inl e \<Rightarrow> (Next (ServiceError e) None,
          on_rec (recordAttemptFinish n None False ErrInternal no_usage started (ge_clock env n 1)) st)
      | Inr secret \<Rightarrow>
          let st = on_svc (TouchProviderKeyUsed (ge_clock env n 1) (kv_id key)) st;
              u = attempt_upstream env n (rt_provider route) secret (UpstreamPathForScheme sch)
          in settle env job n (run_exchange job sch u br (gs_w st)) st)"

text \<open>The variables of the failover loop: the attempts made, the last error and the last status.\<close>

record failover =
  fo_num :: nat
  fo_err :: "go_error option"
  fo_status :: int

definition after :: "go_error \<Rightarrow> int option \<Rightarrow> failover \<Rightarrow> failover" where
  "after e status fo = fo\<lparr>fo_err := Some e, fo_status := (case status of None \<Rightarrow> fo_status fo | Some s \<Rightarrow> s)\<rparr>"

fun try_keys ::
  "gateway_env \<Rightarrow> gateway_job \<Rightarrow> Route \<Rightarrow> body \<times> body \<Rightarrow> ProviderKey list \<Rightarrow> failover \<Rightarrow> gateway_state \<Rightarrow>
    (bool \<times> failover) \<times> gateway_state" where
  "try_keys env job route br [] fo st = ((False, fo), st)"
| "try_keys env job route br (key # keys) fo st =
     (let fo = fo\<lparr>fo_num := fo_num fo + 1\<rparr> in
      case try_key env job route br (fo_num fo) key st of
        (Over, st') \<Rightarrow> ((True, fo), st')
      | (Next e status, st') \<Rightarrow> try_keys env job route br keys (after e status fo) st')"

text \<open>The bodies of a target: its model and its prompts, from the pristine bodies.\<close>

definition target_bodies ::
  "gateway_job \<Rightarrow> Route \<Rightarrow> gateway_state \<Rightarrow> (body \<times> body) \<times> gateway_state" where
  "target_bodies job route st =
     (let ((segments, suppressed), s') =
            resolvePromptSegments (jb_group job) (mv_id (rt_model route)) (jb_override job) (gs_svc st);
          name = mv_name (rt_model route);
          br = injectPromptSegments (jb_protocol job)
            (prompt_order (jb_global job) suppressed segments (jb_caveman job))
            (replaceModel name (jb_body job), replaceModel name (jb_raw job));
          st = on_svc (\<lambda>_. s') st
      in (br, if segments \<noteq> [] then on_rec (recordPromptRules segments) st else st))"

fun try_targets ::
  "gateway_env \<Rightarrow> gateway_job \<Rightarrow> routeTarget list \<Rightarrow> failover \<Rightarrow> gateway_state \<Rightarrow>
    (bool \<times> failover) \<times> gateway_state" where
  "try_targets env job [] fo st = ((False, fo), st)"
| "try_targets env job (t # ts) fo st =
     (let (br, st) = target_bodies job (tg_route t) st in
      case try_keys env job (tg_route t) br (tg_keys t) fo st of
        ((True, fo'), st') \<Rightarrow> ((True, fo'), st')
      | ((False, fo'), st') \<Rightarrow> try_targets env job ts fo' st')"

definition exhausted ::
  "gateway_env \<Rightarrow> string \<Rightarrow> nat \<Rightarrow> failover \<Rightarrow> gateway_state \<Rightarrow> gateway_state" where
  "exhausted env protocol targets fo st =
     (let category = classifyErrorCategory (fo_err fo);
          status = (if 1 < targets \<and> fo_status fo = 502 then 503 else fo_status fo);
          message = (case fo_err fo of None \<Rightarrow> ''upstream unavailable'' | Some e \<Rightarrow> StatusMessage (ge_codec env) e)
      in on_w (writeProtocolError (ge_codec env) protocol status message (upstreamErrorType protocol))
           (on_rec (finishRequest (db (gs_svc st)) (fo_status fo) category no_usage
              (ge_clock env (fo_num fo) 5)) st))"

definition run_targets ::
  "gateway_env \<Rightarrow> gateway_job \<Rightarrow> routeTarget list \<Rightarrow> gateway_state \<Rightarrow> failover \<times> gateway_state" where
  "run_targets env job targets st =
     (case try_targets env job targets \<lparr>fo_num = 0, fo_err = None, fo_status = 502\<rparr> st of
        ((True, fo), st') \<Rightarrow> (fo, st')
      | ((False, fo), st') \<Rightarrow> (fo, exhausted env (jb_protocol job) (length targets) fo st'))"

section \<open>The handler\<close>

text \<open>The part of the handler's state that outlives a request.\<close>

record api_state =
  as_cave :: cave
  as_tel :: tel_store
  as_hub :: monitorHub

text \<open>From the resolved targets on.\<close>

definition serve ::
  "gateway_env \<Rightarrow> string \<Rightarrow> header \<Rightarrow> APIKey \<Rightarrow> string \<times> bool \<Rightarrow> body \<times> body \<Rightarrow>
    routeTarget list \<times> Group option \<Rightarrow> api_state \<Rightarrow> resp_writer \<Rightarrow> api_state \<times> resp_writer" where
  "serve env protocol h key ms br tg st w =
     (let (targets, g) = tg; first = hd targets;
          (re, w) = newGatewayTelemetry (ge_id env) (ge_clock env 0 2) (ge_clock env 0 3) protocol key (fst ms)
            (tg_route first) (snd ms) (kv_id (hd (tg_keys first))) (as_tel st) (as_hub st) w;
          re = (case g of Some g \<Rightarrow> recordGroupResolution g (mv_public_id (rt_model (tg_route first))) re
                | None \<Rightarrow> recordDirectRoute re);
          (caveman, cs) = caveman_header (ge_caveman env) h (as_cave st);
          job = \<lparr>jb_protocol = protocol, jb_stream = snd ms, jb_body = fst br, jb_raw = snd br,
            jb_group = map_option gv_id g, jb_global = global_prompt (fst cs), jb_caveman = caveman,
            jb_override = trim_space (header_get ''X-Pogu-Prompt'' h)\<rparr>;
          (fo, end_st) = run_targets env job targets \<lparr>gs_cave = cs, gs_rec = re, gs_w = w\<rparr>
      in (\<lparr>as_cave = gs_cave end_st, as_tel = re_store (gs_rec end_st), as_hub = re_hub (gs_rec end_st)\<rparr>,
          gs_w end_st))"

definition gateway ::
  "gateway_env \<Rightarrow> string \<Rightarrow> client_request \<Rightarrow> api_state \<Rightarrow> resp_writer \<Rightarrow> api_state \<times> resp_writer" where
  "gateway env protocol q st w =
     (let cd = ge_codec env; (s, skill) = as_cave st;
          fail = (\<lambda>s status message. (st\<lparr>as_cave := (s, skill)\<rparr>,
            writeProtocolError cd protocol status message ''invalid_request_error'' w)) in
      case authenticateAI cd (ge_pw env) (ge_clock env 0 0) (ge_clock env 0 1) protocol (cq_header q) s w of
        (None, s', w') \<Rightarrow> (st\<lparr>as_cave := (s', skill)\<rparr>, w')
      | (Some key, s', _) \<Rightarrow> (case readBoundedBody q of
          None \<Rightarrow> fail s' 413 ''request body exceeds size limit''
        | Some txt \<Rightarrow> (case prepare_body cd (ge_rid env 0) protocol (dec cd txt) of
            Inl message \<Rightarrow> fail s' 400 message
          | Inr br \<Rightarrow> (case envelope (fst br) of
              None \<Rightarrow> fail s' 400 ''request must contain a valid model''
            | Some ms \<Rightarrow> (case resolveTargets (ge_crypto env) (fst ms) s' of
                (Inl e, s2) \<Rightarrow> (st\<lparr>as_cave := (s2, skill)\<rparr>, writeRouteError cd protocol e w)
              | (Inr tg, s2) \<Rightarrow>
                  serve env protocol (cq_header q) key ms br tg (st\<lparr>as_cave := (s2, skill)\<rparr>) w)))))"

definition openAIChat :: "gateway_env \<Rightarrow> client_request \<Rightarrow> api_state \<Rightarrow> resp_writer \<Rightarrow> api_state \<times> resp_writer" where
  "openAIChat env = gateway env ''openai''"

definition anthropicMessages ::
  "gateway_env \<Rightarrow> client_request \<Rightarrow> api_state \<Rightarrow> resp_writer \<Rightarrow> api_state \<times> resp_writer" where
  "anthropicMessages env = gateway env ''anthropic''"

end
