(* ===== verification/Proxy_Laws.thy ===== *)
theory Proxy_Laws
  imports Proxy
begin

text \<open>
  What every attempt promises: a client response is only begun once the provider has answered with
  success, and once begun it stays begun; an attempt that did not begin one left the writer as it
  was. A forwarded stream is byte for byte the provider's, a translated one the frames of the whole
  translation; what is observed for the usage does not depend on how the network cuts the bytes.
\<close>

section \<open>The events of a stream\<close>

text \<open>
  The events in the bytes of a stream, without a handler: what a line does to the fields collected so
  far and the event it completes, then all lines.
\<close>

type_synonym fields = "string \<times> string list"

definition pending_event :: "fields \<Rightarrow> (string \<times> string) list" where
  "pending_event els = (if snd els = [] then [] else [(fst els, join [nl] (snd els))])"

definition line_fields :: "string \<Rightarrow> fields \<Rightarrow> fields" where
  "line_fields l els =
     (if l = '''' then ('''', [])
      else if has_prefix '':'' l then els
      else (case cut_at CHR '':'' l of
          None \<Rightarrow> els
        | Some (n, v) \<Rightarrow>
            if n = ''event'' then (trim_prefix '' '' v, snd els)
            else if n = ''data'' then (fst els, snd els @ [trim_prefix '' '' v]) else els))"

fun lines_events :: "string list \<Rightarrow> fields \<Rightarrow> (string \<times> string) list \<times> fields" where
  "lines_events [] els = ([], els)"
| "lines_events (l # ls) els =
     (let (evs, els') = lines_events ls (line_fields l els)
      in ((if l = '''' then pending_event els else []) @ evs, els'))"

definition sse_events :: "string list \<Rightarrow> (string \<times> string) list" where
  "sse_events cs =
     (let (evs, els) = lines_events (map (trim_suffix [cr]) (butlast (split_on nl (concat cs)))) ('''', [])
      in evs @ pending_event els)"

abbreviation sse_at :: "fields \<Rightarrow> 's \<Rightarrow> 's sse" where
  "sse_at els st \<equiv> \<lparr>sse_event = fst els, sse_lines = snd els, sse_st = st\<rparr>"

lemma run_handler_append:
  "run_handler h (xs @ ys) st = (case run_handler h xs st of
     (None, st') \<Rightarrow> run_handler h ys st' | (Some e, st') \<Rightarrow> (Some e, st'))"
  by (induction h xs st rule: run_handler.induct) (auto split: prod.splits bool.splits)

lemma line_events:
  "sse_line h l (sse_at els st) =
    (case run_handler h (if l = '''' then pending_event els else []) st of
       (None, st') \<Rightarrow> Inr (sse_at (line_fields l els) st') | (Some _, st') \<Rightarrow> Inl st')"
  by (auto simp: sse_line_def sse_flush_def line_fields_def pending_event_def sse_init_def Let_def
      split: prod.splits bool.splits option.splits)

lemma drain_events:
  assumes "nl \<notin> set p" "\<forall>l \<in> set ls. nl \<notin> set l"
  shows "sse_drain h (concat (map (\<lambda>l. l @ [nl]) ls) @ p) (sse_at els st) =
    (case run_handler h (fst (lines_events (map (trim_suffix [cr]) ls) els)) st of
       (None, st') \<Rightarrow> Inr (p, sse_at (snd (lines_events (map (trim_suffix [cr]) ls) els)) st')
     | (Some _, st') \<Rightarrow> Inl st')"
  using assms(2)
proof (induction ls arbitrary: els st)
  case Nil
  with assms(1) show ?case by (simp add: sse_drain_none)
next
  case (Cons l ls)
  then have "nl \<notin> set l" by simp
  from sse_drain_line [OF this, of h "concat (map (\<lambda>l. l @ [nl]) ls) @ p" "sse_at els st"]
  show ?case using Cons
    by (simp add: line_events run_handler_append split: prod.split option.split)
qed

lemma split_lines: "concat (map (\<lambda>l. l @ [nl]) (butlast (split_on nl s))) @ last (split_on nl s) = s"
proof (induction s)
  case (Cons c s)
  then show ?case by (cases "split_on nl s") (auto split: if_splits)
qed simp

lemma feed_events:
  defines "r \<equiv> \<lambda>cs. lines_events (map (trim_suffix [cr]) (butlast (split_on nl (concat cs)))) ('''', [])"
  shows "feed_chunks (sse_feed h) cs ('''', sse_at ('''', []) st) = (case run_handler h (fst (r cs)) st of
     (None, st') \<Rightarrow> Inr (last (split_on nl (concat cs)), sse_at (snd (r cs)) st') | (Some _, st') \<Rightarrow> Inl st')"
proof -
  let ?ls = "butlast (split_on nl (concat cs))" let ?p = "last (split_on nl (concat cs))"
  have "\<forall>l \<in> set (split_on nl (concat cs)). nl \<notin> set l" using split_on_no_sep by blast
  then have no: "nl \<notin> set ?p" "\<forall>l \<in> set ?ls. nl \<notin> set l" by (auto dest: in_set_butlastD)
  have "feed_chunks (sse_feed h) cs ('''', sse_at ('''', []) st) = sse_drain h (concat cs) (sse_at ('''', []) st)"
    using scanner.feed_chunks_concat [of "('''', sse_at ('''', []) st)" h cs] by (simp add: sse_feed_def)
  with drain_events [OF no, of h "('''', [])" st] show ?thesis unfolding r_def by (simp add: split_lines)
qed

text \<open>A scan to the end of a stream runs the handler on its events.\<close>

lemma scanSSE_events: "scanSSE h cs EndOfStream st = run_handler h (sse_events cs) st"
proof -
  let ?r = "lines_events (map (trim_suffix [cr]) (butlast (split_on nl (concat cs)))) ('''', [])"
  have evs: "sse_events cs = fst ?r @ pending_event (snd ?r)"
    by (simp add: sse_events_def split: prod.split)
  obtain err st' where run: "run_handler h (fst ?r) st = (err, st')" by fastforce
  have "err = None \<or> err = Some Canceled" using run_handler_error [of h "fst ?r" st] run by simp
  then show ?thesis
    using feed_events [of h cs st] by (auto simp: scanSSE_def sse_init_def evs run_handler_append run
        pending_event_def split: prod.splits bool.splits)
qed

text \<open>However a scan ends, the state is that of a run on some events.\<close>

lemma scanSSE_some_events: "\<exists>evs. snd (scanSSE h cs e st) = snd (run_handler h evs st)"
proof (cases "e = EndOfStream")
  case True
  then show ?thesis using scanSSE_events by metis
next
  case False
  let ?evs = "fst (lines_events (map (trim_suffix [cr]) (butlast (split_on nl (concat cs)))) ('''', []))"
  have "snd (scanSSE h cs e st) = snd (run_handler h ?evs st)"
    using feed_events [of h cs st] False
    by (auto simp: scanSSE_def sse_init_def split: prod.splits option.splits read_end.split)
  then show ?thesis by blast
qed

section \<open>Begun responses\<close>

text \<open>
  The relation of a writer to a later one: nothing happened, or a response was begun; and one that
  was begun keeps its status.
\<close>

definition begun :: "statusWriter \<Rightarrow> statusWriter \<Rightarrow> bool" where
  "begun t t' \<longleftrightarrow> (t' = t \<or> tw_committed t') \<and>
     (tw_committed t \<longrightarrow> tw_committed t' \<and> tw_status t' = tw_status t) \<and>
     (rw_sent (tw_w t) \<noteq> None \<longrightarrow> rw_sent (tw_w t') = rw_sent (tw_w t)) \<and>
     (\<not> tw_committed t \<and> tw_committed t' \<and> rw_sent (tw_w t) = None \<longrightarrow>
       (\<exists>h. rw_sent (tw_w t') = Some (tw_status t', h)))"

lemma begun_refl [simp]: "begun t t"
  by (simp add: begun_def)

lemma begun_trans: "begun t1 t2 \<Longrightarrow> begun t2 t3 \<Longrightarrow> begun t1 t3"
  by (auto simp: begun_def)

lemma committed_simps [simp]:
  "tw_committed (WriteHeader status t)" "tw_committed (map_header f t) = tw_committed t"
  "tw_status (map_header f t) = tw_status t" "tw_committed (snd (Write data t))"
  "tw_committed (openEventStream status t)"
  by (auto simp: WriteHeader_def map_header_def Write_def openEventStream_def Let_def split: prod.split)

lemma WriteHeader_begun: "begun t (WriteHeader status (map_header f t))"
  by (auto simp: begun_def WriteHeader_def map_header_def raw_write_header_def Let_def)

lemma raw_write_sent [simp]: "rw_sent (snd (raw_write data w)) = rw_sent w"
  by (simp add: raw_write_def)

lemma openEventStream_begun: "begun t (openEventStream status t)"
  unfolding openEventStream_def by (rule WriteHeader_begun)

lemma Write_begun: "begun t (snd (Write data t))"
  by (auto simp: begun_def Write_def WriteHeader_def Let_def case_prod_beta raw_write_header_def)

lemma write_frame_texts_begun: "begun t (snd (write_frame_texts ss t))"
proof (induction ss t rule: write_frame_texts.induct)
  case (2 s ss t)
  obtain ok t' where r: "Write s t = (ok, t')" by fastforce
  have 1: "begun t t'" using Write_begun [of t s] r by simp
  show ?case
  proof (cases ok)
    case True
    with 2 r begun_trans [OF 1] show ?thesis by simp
  qed (use 1 r in simp)
qed simp

lemma writeFrames_begun: "begun (fst tc) (fst (fst (writeFrames cd now fs tc)))"
  using write_frame_texts_begun [of "fst tc" "map (frame_text cd) fs"]
  by (auto simp: writeFrames_def split: prod.split bool.split)

lemma run_handler_begun:
  assumes "\<And>e d st. begun (w st) (w (fst (h e d st)))"
  shows "begun (w st) (w (snd (run_handler h evs st)))"
proof (induction evs arbitrary: st)
  case (Cons ev evs)
  obtain e d where ev: "ev = (e, d)" by fastforce
  obtain st' ok where r: "h e d st = (st', ok)" by fastforce
  have "begun (w st) (w st')" using assms [of st e d] r by simp
  with begun_trans [OF this Cons.IH [of st']] show ?case
    by (cases ok) (simp_all add: ev r)
qed simp

lemma scan_begun:
  assumes "\<And>e d st. begun (w st) (w (fst (h e d st)))"
  shows "begun (w st) (w (snd (scanSSE h cs e st)))"
  using scanSSE_some_events [of h cs e st] run_handler_begun [of w h, OF assms] by metis

lemma frames_handler_begun:
  "begun (fst (snd st)) (fst (snd (fst (frames_handler cd now feed e d st))))"
  using writeFrames_begun [of "snd st" cd now "fst (feed e d (fst st))"]
  by (simp add: frames_handler_def case_prod_beta)

lemma finish_stream_begun: "begun (fst (snd (snd r))) (fst (snd (finish_stream cd now finish r)))"
  using writeFrames_begun [of "snd (snd r)" cd now "fst (finish (fst (snd r)))"]
  by (auto simp: finish_stream_def split: prod.split option.split bool.split)

lemma translated_stream_begun: "begun (fst tc) (fst (snd (translated_stream cd now feed finish resp t tc)))"
proof -
  let ?h = "frames_handler cd now feed"
  have "begun (fst tc) (fst (snd (snd (scanSSE ?h (rs_chunks resp) (rs_end resp) (t, tc)))))"
    using scan_begun [of "\<lambda>st. fst (snd st)" ?h "(t, tc)", OF frames_handler_begun] by simp
  then show ?thesis
    unfolding translated_stream_def using finish_stream_begun begun_trans by blast
qed

lemma feed_chat_begun: "begun (fst (snd st)) (fst (snd (fst (feed_chat cd rid now vs st))))"
proof (induction cd rid now vs st rule: feed_chat.induct)
  case (2 cd rid now v vs st)
  obtain st' ok where r: "frames_handler cd now (chunk_feed cd rid) '''' v st = (st', ok)" by fastforce
  have 1: "begun (fst (snd st)) (fst (snd st'))"
    using frames_handler_begun [of st cd now "chunk_feed cd rid" "''''" v] r by simp
  show ?case
  proof (cases ok)
    case True
    with 2 r begun_trans [OF 1] show ?thesis by simp
  qed (use 1 r in simp)
qed simp

lemma inlet_handler_begun:
  "begun (fst (snd (snd st))) (fst (snd (snd (fst (inlet_handler cd rid rid' now e d st)))))"
proof -
  obtain rc ca tc where st: "st = (rc, ca, tc)" by (cases st) auto
  show ?thesis
  proof (cases "d = ''[DONE]''")
    case True
    then show ?thesis using writeFrames_begun [of tc cd now "fst (ca_Finish ca)"]
      by (simp add: st inlet_handler_def case_prod_beta)
  next
    case False
    then show ?thesis
      using feed_chat_begun [of "(ca, tc)" cd rid' now "List.map_filter (chat_payload cd) (fst (rc_FeedEvent cd rid (e, d) rc))"]
      by (simp add: st inlet_handler_def case_prod_beta)
  qed
qed

lemma head_begun: "begun t (snd (proxyStreamHead u body b t))"
  by (simp add: proxyStreamHead_def openEventStream_begun split: sum.split)

lemma forward_begun: "begun t (fst (snd (forward_chunks cd now cs e (t, pc))))"
proof (induction cs arbitrary: t pc)
  case (Cons c cs)
  obtain ok t' where r: "Write c t = (ok, t')" by fastforce
  have 1: "begun t t'" using Write_begun [of t c] r by simp
  show ?case using begun_trans [OF 1 Cons.IH] 1
    by (cases ok) (simp_all add: r)
qed (simp split: read_end.split)

lemma copy_begun: "begun (fst st) (fst (snd (copy_chunks cs e st)))"
proof (induction cs e st rule: copy_chunks.induct)
  case (2 c cs e t tee)
  obtain ok t' where r: "Write c t = (ok, t')" by fastforce
  have 1: "begun t t'" using Write_begun [of t c] r by simp
  show ?case
  proof (cases ok)
    case True
    with 2 r begun_trans [OF 1] show ?thesis by simp
  qed (use 1 r in simp)
qed (simp split: read_end.split)

lemma uncommitted_stream:
  "begun (fst tc) (fst (snd (ProxyStream u body tc)))"
proof -
  have "begun (fst tc) (fst (snd (forward_chunks cd now cs e (WriteHeader st (map_header f (map_header g (fst tc))), p, c))))"
    for cd now cs e st f g p c
  proof -
    have "begun (fst tc) (WriteHeader st (map_header f (map_header g (fst tc))))"
      using WriteHeader_begun [of "fst tc" st "\<lambda>h. f (g h)"] by (simp add: map_header_def)
    from begun_trans [OF this forward_begun] show ?thesis .
  qed
  then show ?thesis by (simp add: ProxyStream_def Let_def split: sum.split)
qed

lemma head_stream_begun:
  "begun (fst tc) (fst (snd (case proxyStreamHead u b True (fst tc) of
     (Inl e, t) \<Rightarrow> (Some e, (t, snd tc))
   | (Inr resp, t) \<Rightarrow> translated_stream cd now feed finish resp (tr resp) (t, snd tc))))"
proof -
  obtain r t where r: "proxyStreamHead u b True (fst tc) = (r, t)" by fastforce
  have 1: "begun (fst tc) t" using head_begun [of "fst tc" u b True] r by simp
  show ?thesis
  proof (cases r)
    case (Inr resp)
    have "begun t (fst (snd (translated_stream cd now feed finish resp (tr resp) (t, snd tc))))"
      using translated_stream_begun [of "(t, snd tc)"] by simp
    with begun_trans [OF 1] Inr r show ?thesis by simp
  qed (use 1 r in simp)
qed

lemma translated_streams_begun:
  "begun (fst tc) (fst (snd (ProxyAnthropicStream u body tc)))"
  "begun (fst tc) (fst (snd (ProxyChatInletStream u body tc)))"
  "begun (fst tc) (fst (snd (ProxyResponsesStream u body tc)))"
  unfolding ProxyAnthropicStream_def ProxyChatInletStream_def ProxyResponsesStream_def Let_def
  by (simp_all add: head_stream_begun split: sum.split)

lemma inlet_scan_begun:
  "begun t (fst (snd (let r = scanSSE (inlet_handler cd rid rid' now) cs e (t1, t2, (t, c))
     in finish_stream cd now ca_Finish (fst r, snd (snd r)))))"
proof -
  let ?r = "scanSSE (inlet_handler cd rid rid' now) cs e (t1, t2, (t, c))"
  have "begun t (fst (snd (snd (snd ?r))))"
    using scan_begun [of "\<lambda>st. fst (snd (snd st))" "inlet_handler cd rid rid' now" "(t1, t2, (t, c))",
        OF inlet_handler_begun] by simp
  moreover have "begun (fst (snd (snd (snd ?r)))) (fst (snd (finish_stream cd now ca_Finish (fst ?r, snd (snd ?r)))))"
    using finish_stream_begun [of "(fst ?r, snd (snd ?r))"] by simp
  ultimately show ?thesis by (simp add: Let_def begun_trans)
qed

lemma inlet_stream_begun: "begun (fst tc) (fst (snd (ProxyResponsesInletStream u body tc)))"
proof -
  have "begun (fst tc) (fst (snd (case proxyStreamHead u b True (fst tc) of
     (Inl e, t) \<Rightarrow> (Some e, (t, snd tc))
   | (Inr resp, t) \<Rightarrow> (let r = scanSSE (inlet_handler cd rid rid' now) (rs_chunks resp) (rs_end resp) (t1, t2, (t, snd tc))
       in finish_stream cd now ca_Finish (fst r, snd (snd r))))))" for b cd rid rid' now t1 t2
  proof -
    obtain r t where r: "proxyStreamHead u b True (fst tc) = (r, t)" by fastforce
    have 1: "begun (fst tc) t" using head_begun [of "fst tc" u b True] r by simp
    show ?thesis
    proof (cases r)
      case (Inr resp)
      show ?thesis using Inr r begun_trans [OF 1 inlet_scan_begun] by simp
    qed (use 1 r in simp)
  qed
  then show ?thesis unfolding ProxyResponsesInletStream_def Let_def by (simp split: sum.split)
qed

lemma proxyStream_begun: "begun (fst tc) (fst (snd (proxyStream inlet sch u body rawBody tc)))"
  by (simp add: proxyStream_def uncommitted_stream translated_streams_begun inlet_stream_begun)

lemma copy_after_header:
  "begun (fst st) (fst (snd (copy_chunks cs e (WriteHeader k (map_header g (fst st)), x))))"
  by (rule begun_trans [OF WriteHeader_begun])
    (use copy_begun [of "(WriteHeader k (map_header g (fst st)), x)"] in simp)

lemma translated_unary_begun: "begun (fst st) (fst (snd (translated_unary u req f st)))"
  unfolding translated_unary_def Let_def by (simp add: copy_after_header split: sum.split)

lemma ProxyUnary_begun: "begun (fst st) (fst (snd (ProxyUnary u body st)))"
  unfolding ProxyUnary_def by (simp add: copy_after_header split: sum.split)

lemma proxyUnary_begun: "begun (fst st) (fst (snd (proxyUnary inlet sch u body rawBody st)))"
  by (simp add: proxyUnary_def ProxyUnary_begun ProxyAnthropicUnary_def ProxyChatInletUnary_def
      ProxyResponsesUnary_def ProxyResponsesInletUnary_def Let_def translated_unary_begun split: sum.split)

text \<open>An attempt without an error has begun its response.\<close>

lemma begun_committed: "begun t t' \<Longrightarrow> tw_committed t \<Longrightarrow> tw_committed t'"
  by (simp add: begun_def)

lemma head_committed: "proxyStreamHead u b s t = (Inr resp, t') \<Longrightarrow> tw_committed t'"
  by (auto simp: proxyStreamHead_def split: sum.splits)

lemma head_stream_committed:
  "fst (case proxyStreamHead u b True (fst tc) of (Inl e, t) \<Rightarrow> (Some e, (t, snd tc))
     | (Inr resp, t) \<Rightarrow> translated_stream cd now feed finish resp (tr resp) (t, snd tc)) = None \<Longrightarrow>
   tw_committed (fst (snd (case proxyStreamHead u b True (fst tc) of (Inl e, t) \<Rightarrow> (Some e, (t, snd tc))
     | (Inr resp, t) \<Rightarrow> translated_stream cd now feed finish resp (tr resp) (t, snd tc))))"
  using begun_committed [OF translated_stream_begun [of "(t, snd tc)" cd now feed finish resp "tr resp" for t resp]]
  by (auto dest: head_committed split: prod.splits sum.splits)

lemma inlet_head_committed:
  assumes "fst (case proxyStreamHead u b True (fst tc) of (Inl e, t) \<Rightarrow> (Some e, (t, snd tc))
     | (Inr resp, t) \<Rightarrow> (let r = scanSSE (inlet_handler cd rid rid' now) (rs_chunks resp) (rs_end resp) (t1, t2, (t, snd tc))
         in finish_stream cd now ca_Finish (fst r, snd (snd r)))) = None"
  shows "tw_committed (fst (snd (case proxyStreamHead u b True (fst tc) of (Inl e, t) \<Rightarrow> (Some e, (t, snd tc))
     | (Inr resp, t) \<Rightarrow> (let r = scanSSE (inlet_handler cd rid rid' now) (rs_chunks resp) (rs_end resp) (t1, t2, (t, snd tc))
         in finish_stream cd now ca_Finish (fst r, snd (snd r))))))"
proof -
  obtain r t where r: "proxyStreamHead u b True (fst tc) = (r, t)" by fastforce
  show ?thesis
    using assms begun_committed [OF inlet_scan_begun [of t]] r by (cases r) (auto dest: head_committed)
qed

lemma inlet_stream_committed:
  assumes "fst (ProxyResponsesInletStream u body tc) = None"
  shows "tw_committed (fst (snd (ProxyResponsesInletStream u body tc)))"
proof -
  let ?m = "TranslateAnthropicToChat (up_codec u) (up_ids u) body True"
  obtain b where b: "value_of ?m 0 = Inr b"
    using assms by (cases "value_of ?m 0") (auto simp: ProxyResponsesInletStream_def Let_def)
  let ?m2 = "TranslateChatToResponses (up_codec u) (up_ids u) b True"
  obtain b2 where b2: "value_of ?m2 (next_of ?m 0) = Inr b2"
    using assms b by (cases "value_of ?m2 (next_of ?m 0)") (auto simp: ProxyResponsesInletStream_def Let_def)
  note eq = ProxyResponsesInletStream_def [of u body tc, unfolded Let_def b b2 sum.case]
  show ?thesis
    unfolding eq by (rule inlet_head_committed [unfolded Let_def]) (rule assms [unfolded eq])
qed

lemma forwarded_committed:
  "fst (ProxyStream u body tc) = None \<Longrightarrow> tw_committed (fst (snd (ProxyStream u body tc)))"
  by (auto simp: ProxyStream_def Let_def intro: begun_committed [OF forward_begun] split: sum.splits)

lemma translated_streams_committed:
  "fst (ProxyAnthropicStream u body tc) = None \<Longrightarrow> tw_committed (fst (snd (ProxyAnthropicStream u body tc)))"
  "fst (ProxyChatInletStream u body tc) = None \<Longrightarrow> tw_committed (fst (snd (ProxyChatInletStream u body tc)))"
  "fst (ProxyResponsesStream u body tc) = None \<Longrightarrow> tw_committed (fst (snd (ProxyResponsesStream u body tc)))"
  unfolding ProxyAnthropicStream_def ProxyChatInletStream_def ProxyResponsesStream_def Let_def
  by (auto simp: head_stream_committed split: sum.splits)

lemma proxyStream_committed:
  "fst (proxyStream inlet sch u body rawBody tc) = None \<Longrightarrow>
     tw_committed (fst (snd (proxyStream inlet sch u body rawBody tc)))"
  unfolding proxyStream_def
  by (simp add: forwarded_committed inlet_stream_committed translated_streams_committed split: if_splits)

lemma copy_committed: "tw_committed (fst st) \<Longrightarrow> tw_committed (fst (snd (copy_chunks cs e st)))"
  by (rule begun_committed [OF copy_begun])

lemma translated_unary_committed:
  "fst (translated_unary u req f st) = None \<Longrightarrow> tw_committed (fst (snd (translated_unary u req f st)))"
  unfolding translated_unary_def Let_def by (auto simp: copy_committed split: sum.splits)

lemma ProxyUnary_committed: "fst (ProxyUnary u body st) = None \<Longrightarrow> tw_committed (fst (snd (ProxyUnary u body st)))"
  unfolding ProxyUnary_def by (simp add: copy_committed split: sum.splits)

lemma translating_unary_committed:
  "fst (ProxyAnthropicUnary u body st) = None \<Longrightarrow> tw_committed (fst (snd (ProxyAnthropicUnary u body st)))"
  "fst (ProxyChatInletUnary u body st) = None \<Longrightarrow> tw_committed (fst (snd (ProxyChatInletUnary u body st)))"
  "fst (ProxyResponsesUnary u body st) = None \<Longrightarrow> tw_committed (fst (snd (ProxyResponsesUnary u body st)))"
  unfolding ProxyAnthropicUnary_def ProxyChatInletUnary_def ProxyResponsesUnary_def Let_def
  by (simp_all add: translated_unary_committed split: sum.splits)

lemma inlet_unary_committed:
  assumes "fst (ProxyResponsesInletUnary u body st) = None"
  shows "tw_committed (fst (snd (ProxyResponsesInletUnary u body st)))"
proof -
  let ?m = "TranslateAnthropicToChat (up_codec u) (up_ids u) body False"
  obtain b where b: "value_of ?m 0 = Inr b"
    using assms by (cases "value_of ?m 0") (auto simp: ProxyResponsesInletUnary_def Let_def)
  let ?m2 = "TranslateChatToResponses (up_codec u) (up_ids u) b False"
  obtain b2 where b2: "value_of ?m2 (next_of ?m 0) = Inr b2"
    using assms b by (cases "value_of ?m2 (next_of ?m 0)") (auto simp: ProxyResponsesInletUnary_def Let_def)
  show ?thesis
    using assms by (simp add: ProxyResponsesInletUnary_def Let_def b b2 translated_unary_committed)
qed

lemma proxyUnary_committed:
  "fst (proxyUnary inlet sch u body rawBody st) = None \<Longrightarrow>
     tw_committed (fst (snd (proxyUnary inlet sch u body rawBody st)))"
  unfolding proxyUnary_def by (simp add: ProxyUnary_committed translating_unary_committed inlet_unary_committed split: if_splits)

section \<open>A connected client\<close>

definition live :: "statusWriter \<Rightarrow> bool" where
  "live t \<longleftrightarrow> tw_committed t \<and> rw_conn (tw_w t) = (\<lambda>_. True)"

definition client_text :: "statusWriter \<Rightarrow> string" where
  "client_text t = concat (rw_out (tw_w t))"

lemma Write_live:
  "live t \<Longrightarrow> \<exists>t'. Write s t = (True, t') \<and> live t' \<and> client_text t' = client_text t @ s \<and>
    tw_status t' = tw_status t \<and> rw_sent (tw_w t') = rw_sent (tw_w t)"
  by (simp add: Write_def raw_write_def live_def client_text_def)

lemma write_frame_texts_live:
  "live t \<Longrightarrow> \<exists>t'. write_frame_texts ss t = (True, t') \<and> live t' \<and> client_text t' = client_text t @ concat ss \<and>
    tw_status t' = tw_status t \<and> rw_sent (tw_w t') = rw_sent (tw_w t)"
proof (induction ss arbitrary: t)
  case (Cons s ss)
  obtain t1 where t1: "Write s t = (True, t1)" "live t1" "client_text t1 = client_text t @ s"
      "tw_status t1 = tw_status t" "rw_sent (tw_w t1) = rw_sent (tw_w t)"
    using Write_live [OF Cons.prems] by blast
  from Cons.IH [OF t1(2)] t1 show ?case by auto
qed simp

definition served_frames :: "codec \<Rightarrow> frame list \<Rightarrow> statusWriter \<Rightarrow> statusWriter \<Rightarrow> bool" where
  "served_frames cd fs t t' \<longleftrightarrow> live t' \<and> client_text t' = client_text t @ concat (map (frame_text cd) fs) \<and>
     tw_status t' = tw_status t \<and> rw_sent (tw_w t') = rw_sent (tw_w t)"

lemma served_frames_trans: "served_frames cd fs t1 t2 \<Longrightarrow> served_frames cd gs t2 t3 \<Longrightarrow> served_frames cd (fs @ gs) t1 t3"
  by (simp add: served_frames_def)

lemma writeFrames_live:
  "live (fst tc) \<Longrightarrow> \<exists>tc'. writeFrames cd now fs tc = (tc', True) \<and> served_frames cd fs (fst tc) (fst tc')"
  using write_frame_texts_live [of "fst tc" "map (frame_text cd) fs"]
  by (auto simp: writeFrames_def served_frames_def)

abbreviation feed_events_of :: "(string \<Rightarrow> string \<Rightarrow> 't emit) \<Rightarrow> string \<times> string \<Rightarrow> 't emit" where
  "feed_events_of feed ed \<equiv> feed (fst ed) (snd ed)"

lemma run_frames_live:
  "live (fst tc) \<Longrightarrow> \<exists>tc'. run_handler (frames_handler cd now feed) evs (t, tc) =
      (None, (snd (emit_all (map (feed_events_of feed) evs) t), tc')) \<and>
    served_frames cd (fst (emit_all (map (feed_events_of feed) evs) t)) (fst tc) (fst tc')"
proof (induction evs arbitrary: t tc)
  case Nil
  then show ?case by (simp add: emit_none_def served_frames_def)
next
  case (Cons ev evs)
  obtain e d where ev: "ev = (e, d)" by fastforce
  obtain fs t' where f: "feed e d t = (fs, t')" by fastforce
  obtain tc1 where 1: "writeFrames cd now fs tc = (tc1, True)" "served_frames cd fs (fst tc) (fst tc1)"
    using writeFrames_live [OF Cons.prems] by blast
  from 1(2) have "live (fst tc1)" by (simp add: served_frames_def)
  from Cons.IH [OF this, of t'] obtain tc' where 2:
      "run_handler (frames_handler cd now feed) evs (t', tc1) = (None, (snd (emit_all (map (feed_events_of feed) evs) t'), tc'))"
      "served_frames cd (fst (emit_all (map (feed_events_of feed) evs) t')) (fst tc1) (fst tc')" by blast
  have h: "frames_handler cd now feed e d (t, tc) = ((t', tc1), True)"
    by (simp add: frames_handler_def f 1(1))
  from served_frames_trans [OF 1(2) 2(2)] 2(1) show ?case
    by (simp add: ev f h)
qed

lemma translated_stream_live:
  assumes "live (fst tc)" "rs_end resp = EndOfStream"
  shows "\<exists>tc'. translated_stream cd now feed finish resp t tc = (None, tc') \<and>
    served_frames cd (run_stream (feed_events_of feed) finish (sse_events (rs_chunks resp)) t) (fst tc) (fst tc')"
proof -
  obtain tc1 where 1: "run_handler (frames_handler cd now feed) (sse_events (rs_chunks resp)) (t, tc) =
      (None, (snd (emit_all (map (feed_events_of feed) (sse_events (rs_chunks resp))) t), tc1))"
      "served_frames cd (fst (emit_all (map (feed_events_of feed) (sse_events (rs_chunks resp))) t)) (fst tc) (fst tc1)"
    using run_frames_live [OF assms(1), of cd now feed "sse_events (rs_chunks resp)" t] by auto
  from 1(2) have "live (fst tc1)" by (simp add: served_frames_def)
  from writeFrames_live [OF this] obtain tc2 where 2:
      "writeFrames cd now (fst (finish (snd (emit_all (map (feed_events_of feed) (sse_events (rs_chunks resp))) t)))) tc1 = (tc2, True)"
      "served_frames cd (fst (finish (snd (emit_all (map (feed_events_of feed) (sse_events (rs_chunks resp))) t)))) (fst tc1) (fst tc2)"
    by blast
  from served_frames_trans [OF 1(2) 2(2)] 2(1) show ?thesis
    by (simp add: translated_stream_def finish_stream_def assms(2) scanSSE_events 1(1) run_stream_def)
qed

text \<open>The writer of a translated stream that was opened on a fresh connection.\<close>

definition fresh_writer :: "resp_writer \<Rightarrow> bool" where
  "fresh_writer w \<longleftrightarrow> rw_sent w = None \<and> rw_out w = [] \<and> rw_conn w = (\<lambda>_. True)"

lemma header_get_set [simp]: "header_get j (header_set k v h) = (if j = k then v else header_get j h)"
proof -
  have "map_of (filter (\<lambda>kv. fst kv \<noteq> k) h) j = (if j = k then None else map_of h j)"
    by (induction h) auto
  then show ?thesis by (simp add: header_get_def header_set_def map_add_def split: option.split)
qed

lemma openEventStream_fresh:
  "fresh_writer w \<Longrightarrow> live (openEventStream status (new_tracked w)) \<and>
    client_text (openEventStream status (new_tracked w)) = '''' \<and>
    tw_status (openEventStream status (new_tracked w)) = status \<and>
    (\<exists>h. rw_sent (tw_w (openEventStream status (new_tracked w))) = Some (status, h) \<and>
      header_get ''Content-Type'' h = ''text/event-stream'')"
  by (simp add: fresh_writer_def openEventStream_def WriteHeader_def map_header_def new_tracked_def
      raw_write_header_def live_def client_text_def stream_headers_def)

section \<open>A forwarded stream\<close>

declare tee_drain.simps [simp del]

lemma tee_drain_none: "nl \<notin> set p \<Longrightarrow> tee_drain cd now p c = (p, c)"
  by (simp add: tee_drain.simps cut_at_None [THEN iffD2])

lemma tee_drain_line:
  "nl \<notin> set l \<Longrightarrow> tee_drain cd now (l @ nl # rest) c = tee_drain cd now rest (observe_line cd now c l)"
  by (simp add: tee_drain.simps [of cd now "l @ nl # rest"])

lemma tee_drain_append:
  "tee_drain cd now (a @ b) c = (let (p, c') = tee_drain cd now a c in tee_drain cd now (p @ b) c')"
proof (induction a arbitrary: c rule: length_induct)
  case (1 a)
  show ?case
  proof (cases "cut_at nl a")
    case None
    then show ?thesis by (simp add: tee_drain_none cut_at_None)
  next
    case (Some lr)
    then obtain l rest where a: "a = l @ nl # rest" "nl \<notin> set l" by (cases lr) (auto simp: cut_at_Some)
    then have "length rest < length a" by simp
    with 1 have "tee_drain cd now (rest @ b) c' = (let (p, c'') = tee_drain cd now rest c' in tee_drain cd now (p @ b) c'')" for c'
      by blast
    with a(2) show ?thesis by (simp add: a(1) tee_drain_line)
  qed
qed

lemma tee_drain_rest: "nl \<notin> set (fst (tee_drain cd now p c))"
proof (induction p arbitrary: c rule: length_induct)
  case (1 p)
  show ?case
  proof (cases "cut_at nl p")
    case None
    then show ?thesis by (simp add: tee_drain_none cut_at_None)
  next
    case (Some lr)
    then obtain l rest where p: "p = l @ nl # rest" "nl \<notin> set l" by (cases lr) (auto simp: cut_at_Some)
    then have "length rest < length p" by simp
    with 1 p(2) show ?thesis by (simp add: p(1) tee_drain_line)
  qed
qed

interpretation tee: chunked "\<lambda>chunk pc. Inr (tee_feed cd now chunk pc) :: unit + string \<times> SSEUsageCollector"
    "\<lambda>pc. nl \<notin> set (fst pc)" for cd now
proof unfold_locales
  fix pc :: "string \<times> SSEUsageCollector" and a b
  assume "nl \<notin> set (fst pc)"
  then show "Inr (tee_feed cd now [] pc) = Inr pc" by (simp add: tee_feed_def tee_drain_none)
  show "Inr (tee_feed cd now (a @ b) pc) = (case Inr (tee_feed cd now a pc) of Inl r \<Rightarrow> Inl r
      | Inr s' \<Rightarrow> Inr (tee_feed cd now b s'))"
    using tee_drain_append [of cd now "fst pc @ a" b "snd pc"] by (simp add: tee_feed_def case_prod_beta)
next
  fix pc pc' :: "string \<times> SSEUsageCollector" and a
  assume "Inr (tee_feed cd now a pc) = Inr pc'"
  then show "nl \<notin> set (fst pc')" using tee_drain_rest by (auto simp: tee_feed_def)
qed

lemma tee_chunks:
  "concat cs = concat ds \<Longrightarrow> foldl (\<lambda>pc c. tee_feed cd now c pc) ('''', col) cs = foldl (\<lambda>pc c. tee_feed cd now c pc) ('''', col) ds"
proof -
  have "(feed_chunks (\<lambda>chunk pc. Inr (tee_feed cd now chunk pc)) xs pc :: unit + string \<times> SSEUsageCollector) =
      Inr (foldl (\<lambda>pc c. tee_feed cd now c pc) pc xs)" for xs pc
    by (induction xs arbitrary: pc) simp_all
  then show "concat cs = concat ds \<Longrightarrow> ?thesis"
    using tee.chunk_independent [of "('''', col)" cs ds cd now] by simp
qed

lemma forward_live:
  "live t \<Longrightarrow> \<exists>t'. forward_chunks cd now cs EndOfStream (t, pc) =
     (None, (t', snd (foldl (\<lambda>pc c. tee_feed cd now c pc) pc cs))) \<and> live t' \<and>
     client_text t' = client_text t @ concat cs \<and> tw_status t' = tw_status t"
proof (induction cs arbitrary: t pc)
  case (Cons c cs)
  obtain t1 where t1: "Write c t = (True, t1)" "live t1" "client_text t1 = client_text t @ c" "tw_status t1 = tw_status t"
    using Write_live [OF Cons.prems] by blast
  from Cons.IH [OF t1(2), of "tee_feed cd now c pc"] t1 show ?case by (auto simp: Let_def)
qed simp

end
