(* ===== verification/Gateway_Laws.thy ===== *)
theory Gateway_Laws
  imports Gateway Proxy_Laws
begin

text \<open>
  The failover of gateway.go. An attempt that hands over to the next key has left the client's
  response untouched; the attempts are recorded as a prefix of the candidates, each closed, and the
  request is closed with the last of them; and the client is answered unless it gave up.
\<close>

section \<open>One exchange\<close>

lemma run_exchange_begun:
  assumes "run_exchange job sch u br w = (err, t, ob)"
  shows "begun (new_tracked w) t" and "err = None \<Longrightarrow> tw_committed t"
proof -
  show "begun (new_tracked w) t"
    using assms proxyStream_begun [of "(new_tracked w, c)" "jb_protocol job" sch u "fst br" "snd br" for c]
      proxyUnary_begun [of "(new_tracked w, '''')" "jb_protocol job" sch u "fst br" "snd br"]
    by (auto simp: run_exchange_def split: if_splits prod.splits) (metis fst_conv snd_conv)+
  show "tw_committed t" if "err = None"
    using assms that proxyStream_committed [of "jb_protocol job" sch u "fst br" "snd br" "(new_tracked w, c)" for c]
      proxyUnary_committed [of "jb_protocol job" sch u "fst br" "snd br" "(new_tracked w, '''')"]
    by (auto simp: run_exchange_def split: if_splits prod.splits) (metis fst_conv snd_conv)+
qed

lemma new_tracked_begun:
  assumes "begun (new_tracked w) t"
  shows "\<not> tw_committed t \<Longrightarrow> tw_w t = w"
    and "tw_committed t \<Longrightarrow> rw_sent (tw_w t) \<noteq> None"
proof -
  show "tw_w t = w" if "\<not> tw_committed t" using assms that by (auto simp: begun_def new_tracked_def)
  show "rw_sent (tw_w t) \<noteq> None" if "tw_committed t"
    using assms that by (cases "rw_sent w") (auto simp: begun_def new_tracked_def)
qed

lemma jsonWrite_sent: "rw_sent (jsonWrite cd status v w) \<noteq> None"
  by (auto simp: jsonWrite_def raw_write_header_def)

lemma writeProtocolError_sent: "rw_sent (writeProtocolError cd protocol status message typ w) \<noteq> None"
  unfolding writeProtocolError_def by (rule jsonWrite_sent)

lemma writeProtocolError_Some: "\<exists>s h. rw_sent (writeProtocolError cd protocol status message typ w) = Some (s, h)"
  by (auto simp: writeProtocolError_def jsonWrite_def raw_write_header_def)

section \<open>What is recorded\<close>

definition attempt_rows :: "string \<Rightarrow> tel_store \<Rightarrow> tel_attempt list" where
  "attempt_rows i st = filter (\<lambda>a. ta_request a = i) (tel_attempts st)"

definition trail :: "string \<Rightarrow> tel_store \<Rightarrow> (nat \<times> int) list" where
  "trail i st = map (\<lambda>a. (ta_number a, ta_credential a)) (attempt_rows i st)"

definition progress :: "string \<Rightarrow> (nat \<times> int) list \<Rightarrow> nat \<Rightarrow> recording \<Rightarrow> bool" where
  "progress i T n re \<longleftrightarrow> gt_id (re_g re) = i \<and> has_request i (re_store re) \<and> trail i (re_store re) = T \<and>
     (\<forall>a \<in> set (attempt_rows i (re_store re)). ta_number a \<le> n \<longrightarrow> ta_completed a \<noteq> None)"

definition ended :: "string \<Rightarrow> tel_store \<Rightarrow> bool" where
  "ended i st \<longleftrightarrow> (\<forall>r \<in> set (tel_requests st). tr_id r = i \<longrightarrow> tr_status r \<noteq> StatusInProgress \<and> tr_completed r \<noteq> None)"

definition gave_up :: "string \<Rightarrow> tel_store \<Rightarrow> bool" where
  "gave_up i st \<longleftrightarrow> (\<forall>r \<in> set (tel_requests st). tr_id r = i \<longrightarrow> tr_category r = ErrCanceled)"

lemma progress_frame:
  assumes "progress i T n re" "gt_id (re_g re') = gt_id (re_g re)"
    and "map tr_id (tel_requests (re_store re')) = map tr_id (tel_requests (re_store re))"
    and "tel_attempts (re_store re') = tel_attempts (re_store re)"
  shows "progress i T n re'"
  using assms same_ids_has [OF assms(3)] by (simp add: progress_def trail_def attempt_rows_def)

lemma progress_frames:
  assumes "progress i T n re"
  shows "progress i T n (noteFirstByte first sm re)" "progress i T n (recordPromptRules segs re)"
    "progress i T n (recordGroupResolution g resolved re)" "progress i T n (recordDirectRoute re)"
  by (rule progress_frame [OF assms]; simp add: noteFirstByte_def recordPromptRules_def
      recordGroupResolution_def recordDirectRoute_def if_recorded_def in_store_def at_hub_def Let_def
      RecordPromptRules_def RecordResolution_def update_request_def comp_def)+

lemma progress_note_stream: "progress i T n re \<Longrightarrow> progress i T n (note_stream ob re)"
  by (auto simp: note_stream_def Let_def progress_frames split: observed.split option.split prod.split)

lemma progress_start:
  "i \<noteq> '''' \<Longrightarrow> progress i T n re \<Longrightarrow> n < k \<Longrightarrow> progress i (T @ [(k, key)]) n (recordAttemptStart k route key started re)"
  by (auto simp: progress_def recordAttemptStart_def if_recorded_def in_store_def at_hub_def StartAttempt_def
      insertAttempt_def trail_def attempt_rows_def new_attempt_def has_request_def)

lemma finish_rows:
  "attempt_rows i (FinishAttemptWithTiming i k http success category usage started completed st) =
     map (\<lambda>a. if ta_number a = k then a\<lparr>ta_http := http, ta_success := success, ta_category := category,
       ta_usage := usage, ta_completed := Some completed, ta_duration := Some (durationMS started completed)\<rparr> else a)
       (attempt_rows i st)"
proof -
  have "filter (\<lambda>a. ta_request a = i) (map (\<lambda>a. if ta_request a = i \<and> ta_number a = k then f a else a) as) =
      map (\<lambda>a. if ta_number a = k then f a else a) (filter (\<lambda>a. ta_request a = i) as)"
    if "\<And>a. ta_request (f a) = ta_request a" for f and as :: "tel_attempt list"
    using that by (induction as) auto
  then show ?thesis by (simp add: attempt_rows_def FinishAttemptWithTiming_def)
qed

lemma finish_requests [simp]:
  "tel_requests (FinishAttemptWithTiming i k http success category usage started completed st) = tel_requests st"
  by (simp add: FinishAttemptWithTiming_def)

lemma progress_finish:
  assumes "i \<noteq> ''''" "progress i T n re"
  shows "progress i T (Suc n) (recordAttemptFinish (Suc n) http success category usage started completed re)"
  using assms
  by (auto simp: progress_def recordAttemptFinish_def if_recorded_def in_store_def Let_def trail_def finish_rows
      has_request_def le_Suc_eq comp_def intro!: map_cong)

lemma finish_id [simp]:
  "gt_id (re_g (recordAttemptFinish k http success category usage started completed re)) = gt_id (re_g re)"
  by (simp add: recordAttemptFinish_def if_recorded_def in_store_def Let_def)

lemma servedFrom_id [simp]: "gt_id (servedFrom first ob g) = gt_id g"
  by (simp add: servedFrom_def)

lemma end_request_facts:
  "gt_id (re_g (end_request d status http category usage completed re)) = gt_id (re_g re)"
  "re_store (end_request d status http category usage completed re) =
     FinishRequestWithTiming (gt_id (re_g re)) status http category usage (gt_ttft (re_g re))
       (Some (gt_upstream_ms (re_g re))) (gt_served (re_g re)) (gt_started (re_g re)) completed (re_store re)"
  by (auto simp: end_request_def publish_finished_def in_store_def at_hub_def Let_def split: option.split)

lemma progress_end:
  assumes "progress i T n re"
  shows "progress i T n (end_request d status http category usage completed re)"
  by (rule progress_frame [OF assms])
    (simp_all add: end_request_facts FinishRequestWithTiming_def update_request_def comp_def)

lemma end_request_ended:
  assumes "gt_id (re_g re) = i" "status \<noteq> StatusInProgress"
  shows "ended i (re_store (end_request d status http category usage completed re))"
    and "category = ErrCanceled \<Longrightarrow> gave_up i (re_store (end_request d status http category usage completed re))"
  using assms by (auto simp: ended_def gave_up_def end_request_facts FinishRequestWithTiming_def update_request_def)

lemma progress_g: "progress i T n re \<Longrightarrow> gt_id g = gt_id (re_g re) \<Longrightarrow> progress i T n (re\<lparr>re_g := g\<rparr>)"
  by (rule progress_frame) simp_all

section \<open>One attempt\<close>

text \<open>The three ways a request ends close the attempt and the request.\<close>

lemma endings:
  assumes "i \<noteq> ''''" "progress i T n re"
  shows "progress i T (Suc n) (finishSuccess first d (Suc n) tracked ob started completed re)"
    and "ended i (re_store (finishSuccess first d (Suc n) tracked ob started completed re))"
    and "progress i T (Suc n) (finishCommittedOrCanceled first d (Suc n) e tracked ob started completed re)"
    and "ended i (re_store (finishCommittedOrCanceled first d (Suc n) e tracked ob started completed re))"
    and "is_canceled e \<or> is_deadline e \<Longrightarrow>
      gave_up i (re_store (finishCommittedOrCanceled first d (Suc n) e tracked ob started completed re))"
proof -
  have id: "gt_id (re_g re) = i" "gt_id (re_g re) \<noteq> ''''" using assms by (auto simp: progress_def)
  note fin = progress_finish [OF assms]
  let ?s = "\<lambda>re1. re1\<lparr>re_g := servedFrom first ob (re_g re1)\<rparr>"
  have with_model: "progress i T (Suc n) (?s (recordAttemptFinish (Suc n) h s c u started completed re))" for h s c u
    by (rule progress_g [OF fin]) simp
  have st: "StatusSuccess \<noteq> StatusInProgress" "StatusError \<noteq> StatusInProgress" by (simp_all add: status_defs)
  show "progress i T (Suc n) (finishSuccess first d (Suc n) tracked ob started completed re)"
    using id progress_end [OF with_model] by (simp add: finishSuccess_def if_recorded_def Let_def)
  show "ended i (re_store (finishSuccess first d (Suc n) tracked ob started completed re))"
    using id st by (simp add: finishSuccess_def if_recorded_def Let_def end_request_ended)
  obtain category status success http where o: "committed_outcome e tracked = (category, status, success, http)"
    by (cases "committed_outcome e tracked") auto
  have status: "status \<noteq> StatusInProgress"
    using o st by (auto simp: committed_outcome_def classify_def Let_def split: if_splits option.splits prod.splits)
  have cat: "category = ErrCanceled" if "is_canceled e \<or> is_deadline e"
    using o that by (auto simp: committed_outcome_def classify_def Let_def split: if_splits)
  show "progress i T (Suc n) (finishCommittedOrCanceled first d (Suc n) e tracked ob started completed re)"
    using id progress_end [OF with_model] by (simp add: finishCommittedOrCanceled_def if_recorded_def Let_def o)
  show "ended i (re_store (finishCommittedOrCanceled first d (Suc n) e tracked ob started completed re))"
    using id status by (simp add: finishCommittedOrCanceled_def if_recorded_def Let_def o end_request_ended)
  show "gave_up i (re_store (finishCommittedOrCanceled first d (Suc n) e tracked ob started completed re))"
    if "is_canceled e \<or> is_deadline e"
    using id status cat [OF that] by (simp add: finishCommittedOrCanceled_def if_recorded_def Let_def o end_request_ended)
qed

lemma finishRequest_facts:
  assumes "i \<noteq> ''''" "progress i T n re"
  shows "progress i T n (finishRequest d status category usage completed re)"
    and "ended i (re_store (finishRequest d status category usage completed re))"
proof -
  have id: "gt_id (re_g re) = i" "gt_id (re_g re) \<noteq> ''''" using assms by (auto simp: progress_def)
  show "progress i T n (finishRequest d status category usage completed re)"
    using id progress_end [OF assms(2)] by (simp add: finishRequest_def if_recorded_def)
  show "ended i (re_store (finishRequest d status category usage completed re))"
    using id by (simp add: finishRequest_def if_recorded_def end_request_ended status_defs)
qed

text \<open>What a request that is over leaves behind.\<close>

definition over :: "string \<Rightarrow> gateway_state \<Rightarrow> bool" where
  "over i st \<longleftrightarrow> ended i (re_store (gs_rec st)) \<and> (rw_sent (gs_w st) \<noteq> None \<or> gave_up i (re_store (gs_rec st)))"

lemma settle_facts:
  assumes "i \<noteq> ''''" "progress i T n (gs_rec st)" "run_exchange job sch u br (gs_w st) = r"
    and "settle env job (Suc n) r st = (v, st')"
  shows "progress i T (Suc n) (gs_rec st')"
    and "v = Next e status \<Longrightarrow> gs_w st' = gs_w st"
    and "v = Over \<Longrightarrow> over i st'"
proof -
  obtain err t ob where r: "r = (err, t, ob)" by (cases r) auto
  note ex = assms(3) [unfolded r]
  note sent = new_tracked_begun [OF run_exchange_begun(1) [OF ex]]
  note p = progress_note_stream [OF assms(2), of ob]
  note defs = settle_def on_rec_def on_w_def Let_def r
  have all: "progress i T (Suc n) (gs_rec st') \<and> (\<forall>e status. v = Next e status \<longrightarrow> gs_w st' = gs_w st) \<and>
      (v = Over \<longrightarrow> over i st')"
  proof (cases err)
    case None
    then have "rw_sent (tw_w t) \<noteq> None" using sent(2) run_exchange_begun(2) [OF ex] by simp
    with None assms(4) endings [OF assms(1) p] show ?thesis by (auto simp: defs over_def)
  next
    case (Some e)
    show ?thesis
    proof (cases "tw_committed t \<or> request_done env (Suc n) e")
      case True
      then have "rw_sent (tw_w t) \<noteq> None \<or> is_canceled e \<or> is_deadline e"
        using sent(2) by (auto simp: request_done_def split: option.splits go_error.splits)
      with True Some assms(4) endings [OF assms(1) p] show ?thesis by (auto simp: defs over_def)
    next
      case False
      then have w: "tw_w t = gs_w st" using sent(1) by simp
      note fin = progress_finish [OF assms(1) p]
      show ?thesis
      proof (cases "failover_status e")
        case None
        with False Some assms(4) finishRequest_facts [OF assms(1) fin] show ?thesis
          by (auto simp: defs over_def writeProtocolError_Some)
      next
        case (Some status)
        with False \<open>err = Some e\<close> assms(4) w fin show ?thesis by (auto simp: defs)
      qed
    qed
  qed
  then show "progress i T (Suc n) (gs_rec st')" "v = Next e status \<Longrightarrow> gs_w st' = gs_w st" "v = Over \<Longrightarrow> over i st'"
    by blast+
qed

section \<open>The loops\<close>

text \<open>The attempts recorded after the first \<open>n\<close> of the candidates \<open>C\<close>; the first is there from the start.\<close>

definition attempts_made :: "int list \<Rightarrow> nat \<Rightarrow> (nat \<times> int) list" where
  "attempts_made C n = zip [1..<Suc (max 1 n)] (take (max 1 n) C)"

lemma attempts_made_Suc:
  assumes "0 < n" "n < length C"
  shows "attempts_made C (Suc n) = attempts_made C n @ [(Suc n, C ! n)]"
proof -
  have "max 1 (Suc n) = Suc n" "max 1 n = n" using assms by simp_all
  moreover have "take (Suc n) C = take n C @ [C ! n]" using assms by (simp add: take_Suc_conv_app_nth)
  moreover have "zip ([1..<Suc n] @ [Suc n]) (take n C @ [C ! n]) = zip [1..<Suc n] (take n C) @ [(Suc n, C ! n)]"
    using assms by (subst zip_append) simp_all
  moreover have "[1..<Suc (Suc n)] = [1..<Suc n] @ [Suc n]" by simp
  ultimately show ?thesis unfolding attempts_made_def by metis
qed

lemma attempts_made_first: "attempts_made C (Suc 0) = attempts_made C 0"
  by (simp add: attempts_made_def)

lemma try_key_facts:
  assumes "i \<noteq> ''''" "progress i (attempts_made C n) n (gs_rec st)" "n < length C" "C ! n = kv_id key"
    and "try_key env job route br (Suc n) key st = (v, st')"
  shows "progress i (attempts_made C (Suc n)) (Suc n) (gs_rec st')"
    and "v = Next e status \<Longrightarrow> gs_w st' = gs_w st"
    and "v = Over \<Longrightarrow> over i st'"
proof -
  let ?st = "if 1 < Suc n then on_rec (recordAttemptStart (Suc n) route (kv_id key) (ge_clock env (Suc n) 0)) st else st"
  have p: "progress i (attempts_made C (Suc n)) n (gs_rec ?st)" and w: "gs_w ?st = gs_w st"
    using progress_start [OF assms(1,2) lessI] attempts_made_Suc [OF _ assms(3)] attempts_made_first assms(2,4)
    by (cases n; simp add: on_rec_def)+
  have all: "progress i (attempts_made C (Suc n)) (Suc n) (gs_rec st') \<and>
      (\<forall>e status. v = Next e status \<longrightarrow> gs_w st' = gs_w st) \<and> (v = Over \<longrightarrow> over i st')"
  proof (cases "ProviderKeySecret (ge_crypto env) (kv_id key) (gs_svc ?st)")
    case (Inl e)
    from progress_finish [OF assms(1) p] Inl w assms(5) show ?thesis
      unfolding try_key_def Let_def by (auto simp: on_rec_def split: if_splits)
  next
    case (Inr secret)
    let ?st1 = "on_svc (TouchProviderKeyUsed (ge_clock env (Suc n) 1) (kv_id key)) ?st"
    have p1: "progress i (attempts_made C (Suc n)) n (gs_rec ?st1)" and w1: "gs_w ?st1 = gs_w st"
      using p w by (simp_all add: on_svc_def)
    let ?sch = "EffectiveScheme (pv_type (rt_provider route)) (mv_scheme (rt_model route))"
    let ?u = "attempt_upstream env (Suc n) (rt_provider route) secret (UpstreamPathForScheme ?sch)"
    have "settle env job (Suc n) (run_exchange job ?sch ?u br (gs_w ?st1)) ?st1 = (v, st')"
      using assms(5) Inr unfolding try_key_def Let_def by simp
    from settle_facts [OF assms(1) p1 refl this] w1 show ?thesis by auto
  qed
  then show "progress i (attempts_made C (Suc n)) (Suc n) (gs_rec st')"
    "v = Next e status \<Longrightarrow> gs_w st' = gs_w st" "v = Over \<Longrightarrow> over i st'" by blast+
qed

text \<open>The state after a loop that started at \<open>n\<close> candidates with \<open>k\<close> more to try.\<close>

definition tried :: "string \<Rightarrow> int list \<Rightarrow> nat \<Rightarrow> nat \<Rightarrow> gateway_state \<Rightarrow> (bool \<times> failover) \<times> gateway_state \<Rightarrow> bool" where
  "tried i C n k st r \<longleftrightarrow> (case r of ((isover, fo), st') \<Rightarrow>
     n \<le> fo_num fo \<and> fo_num fo \<le> n + k \<and> progress i (attempts_made C (fo_num fo)) (fo_num fo) (gs_rec st') \<and>
     (if isover then n < fo_num fo \<and> over i st' else fo_num fo = n + k \<and> gs_w st' = gs_w st))"

lemma try_keys_tried:
  assumes "i \<noteq> ''''" "progress i (attempts_made C (fo_num fo)) (fo_num fo) (gs_rec st)"
    and "drop (fo_num fo) C = map kv_id keys @ rest"
  shows "tried i C (fo_num fo) (length keys) st (try_keys env job route br keys fo st)"
  using assms(2,3)
proof (induction keys arbitrary: fo st)
  case (Cons key keys)
  let ?n = "fo_num fo"
  have n: "?n < length C"
  proof (rule ccontr)
    assume "\<not> ?n < length C" with Cons.prems(2) show False by simp
  qed
  then have d: "drop ?n C = C ! ?n # drop (Suc ?n) C" by (simp add: Cons_nth_drop_Suc)
  then have key: "C ! ?n = kv_id key" "drop (Suc ?n) C = map kv_id keys @ rest" using Cons.prems(2) by simp_all
  obtain v st1 where t: "try_key env job route br (Suc ?n) key st = (v, st1)" by fastforce
  note facts = try_key_facts [OF assms(1) Cons.prems(1) n key(1) t]
  show ?case
  proof (cases v)
    case Over
    with t facts show ?thesis by (simp add: tried_def)
  next
    case (Next e status)
    let ?fo = "after e status (fo\<lparr>fo_num := Suc ?n\<rparr>)"
    have "fo_num ?fo = Suc ?n" by (simp add: after_def)
    with Cons.IH [of ?fo st1] facts(1) key(2)
    have "tried i C (Suc ?n) (length keys) st1 (try_keys env job route br keys ?fo st1)" by simp
    with Next t facts(2) [OF Next] show ?thesis by (auto simp: tried_def split: prod.splits if_splits)
  qed
qed (simp add: tried_def)

lemma target_bodies_frame:
  assumes "progress i T n (gs_rec st)" "target_bodies job route st = (br, st')"
  shows "progress i T n (gs_rec st')" "gs_w st' = gs_w st"
  using assms by (auto simp: target_bodies_def Let_def on_svc_def on_rec_def progress_frames split: prod.splits if_splits)

definition candidates :: "routeTarget list \<Rightarrow> int list" where
  "candidates targets = concat (map (\<lambda>t. map kv_id (tg_keys t)) targets)"

lemma try_targets_tried:
  assumes "i \<noteq> ''''" "progress i (attempts_made C (fo_num fo)) (fo_num fo) (gs_rec st)"
    and "drop (fo_num fo) C = candidates targets"
  shows "tried i C (fo_num fo) (length (candidates targets)) st (try_targets env job targets fo st)"
  using assms(2,3)
proof (induction targets arbitrary: fo st)
  case (Cons t ts)
  obtain br st1 where b: "target_bodies job (tg_route t) st = (br, st1)" by fastforce
  note frame = target_bodies_frame [OF Cons.prems(1) b]
  let ?r = "try_keys env job (tg_route t) br (tg_keys t) fo st1"
  obtain isover fo' st' where r: "?r = ((isover, fo'), st')" by (cases ?r) auto
  have d: "drop (fo_num fo) C = map kv_id (tg_keys t) @ candidates ts"
    using Cons.prems(2) by (simp add: candidates_def)
  have one: "tried i C (fo_num fo) (length (tg_keys t)) st1 ((isover, fo'), st')"
    using try_keys_tried [OF assms(1) frame(1) d] r by metis
  show ?case
  proof (cases isover)
    case True
    with one r b show ?thesis by (auto simp: tried_def candidates_def)
  next
    case False
    then have n: "fo_num fo' = fo_num fo + length (tg_keys t)" and w: "gs_w st' = gs_w st1"
      and p: "progress i (attempts_made C (fo_num fo')) (fo_num fo') (gs_rec st')"
      using one by (auto simp: tried_def)
    have "drop (fo_num fo') C = candidates ts"
      using arg_cong [OF d, of "drop (length (tg_keys t))"] by (simp add: n add.commute)
    from Cons.IH [OF p this]
    have "tried i C (fo_num fo') (length (candidates ts)) st' (try_targets env job ts fo' st')" .
    with False r b n w frame(2) show ?thesis
      by (auto simp: tried_def candidates_def split: prod.splits if_splits)
  qed
qed (simp add: tried_def candidates_def)

lemma run_targets_facts:
  assumes "i \<noteq> ''''" "progress i (attempts_made (candidates targets) 0) 0 (gs_rec st)" "candidates targets \<noteq> []"
    and "run_targets env job targets st = (fo, st')"
  shows "0 < fo_num fo \<and> fo_num fo \<le> length (candidates targets) \<and> over i st' \<and>
    progress i (attempts_made (candidates targets) (fo_num fo)) (fo_num fo) (gs_rec st')"
proof -
  let ?fo = "\<lparr>fo_num = 0, fo_err = None, fo_status = 502\<rparr>"
  obtain isover fo1 st1 where r: "try_targets env job targets ?fo st = ((isover, fo1), st1)"
    by (cases "try_targets env job targets ?fo st") auto
  have t: "tried i (candidates targets) 0 (length (candidates targets)) st ((isover, fo1), st1)"
    using try_targets_tried [OF assms(1), of "candidates targets" ?fo st targets env job] assms(2) r by simp
  show ?thesis
  proof (cases isover)
    case True
    with t r assms(4) show ?thesis by (auto simp: tried_def run_targets_def)
  next
    case False
    with t have p: "progress i (attempts_made (candidates targets) (fo_num fo1)) (fo_num fo1) (gs_rec st1)"
      and n: "fo_num fo1 = length (candidates targets)" by (auto simp: tried_def)
    with False r assms(3,4) finishRequest_facts [OF assms(1) p] show ?thesis
      by (auto simp: run_targets_def exhausted_def on_w_def on_rec_def over_def writeProtocolError_Some)
  qed
qed

section \<open>A request\<close>

text \<open>A recorded request that was served: its attempts are the first \<open>n\<close> candidates, all of them closed.\<close>

definition recorded_attempts :: "string \<Rightarrow> int list \<Rightarrow> nat \<Rightarrow> tel_store \<Rightarrow> bool" where
  "recorded_attempts i C n st \<longleftrightarrow> has_request i st \<and> ended i st \<and>
     trail i st = zip [1..<Suc n] (take n C) \<and> (\<forall>a \<in> set (attempt_rows i st). ta_completed a \<noteq> None)"

lemma progress_recorded:
  assumes "progress i (attempts_made C n) n re" "ended i (re_store re)" "0 < n"
  shows "recorded_attempts i C n (re_store re)"
proof -
  have t: "trail i (re_store re) = zip [1..<Suc n] (take n C)"
    using assms(1,3) by (simp add: progress_def attempts_made_def max_def)
  have "ta_number a \<le> n" if "a \<in> set (attempt_rows i (re_store re))" for a
  proof -
    have "(ta_number a, ta_credential a) \<in> set (trail i (re_store re))" using that by (auto simp: trail_def)
    then have "ta_number a \<in> set [1..<Suc n]" unfolding t by (rule set_zip_leftD)
    then show ?thesis by auto
  qed
  with assms t show ?thesis by (auto simp: recorded_attempts_def progress_def)
qed

lemma new_telemetry_progress:
  assumes "tel_ok st" "\<not> has_request i st" "protocol \<in> {''openai'', ''anthropic''}"
    and "newGatewayTelemetry (Some i) t1 t2 protocol key m route streaming k st hub w = (re, w')"
  shows "progress i [(1, k)] 0 re" "rw_sent w' = rw_sent w"
proof -
  have none: "filter (\<lambda>a. ta_request a = i) (tel_attempts st) = []"
    using assms(1,2) by (auto simp: tel_ok_def filter_empty_conv)
  have re: "re_store re = snd (StartRequest (new_request i protocol key m streaming t1) (new_attempt i 1 route k t2) st)"
      "gt_id (re_g re) = i" and w: "rw_sent w' = rw_sent w"
    using assms(4) by (auto simp: newGatewayTelemetry_def Let_def)
  have p: "\<not> (protocol \<noteq> ''openai'' \<and> protocol \<noteq> ''anthropic'')" using assms(3) by auto
  have rows: "attempt_rows i (re_store re) = [(new_attempt i 1 route k t2)]" "has_request i (re_store re)"
    using assms(2) p none unfolding re(1)
    by (simp_all add: StartRequest_def insertAttempt_def new_request_def new_attempt_def has_request_def attempt_rows_def)
  then show "progress i [(1, k)] 0 re" using re(2) by (simp add: progress_def trail_def new_attempt_def)
  show "rw_sent w' = rw_sent w" by (rule w)
qed

lemma serve_facts:
  assumes "tel_ok (as_tel st)" "\<not> has_request i (as_tel st)" "protocol \<in> {''openai'', ''anthropic''}"
    and "ge_id env = Some i" "i \<noteq> ''''" "fst tg \<noteq> []" "\<forall>t \<in> set (fst tg). tg_keys t \<noteq> []"
    and "serve env protocol h key ms br tg st w = (st', w')"
  shows "\<exists>n. 0 < n \<and> n \<le> length (candidates (fst tg)) \<and> recorded_attempts i (candidates (fst tg)) n (as_tel st') \<and>
    (rw_sent w' \<noteq> None \<or> gave_up i (as_tel st'))"
proof -
  obtain targets g where tg: "tg = (targets, g)" by fastforce
  with assms(6) obtain t ts where ts: "targets = t # ts" by (cases targets) auto
  with tg assms(7) obtain k ks where k: "tg_keys t = k # ks" by (cases "tg_keys t") auto
  let ?new = "newGatewayTelemetry (ge_id env) (ge_clock env 0 2) (ge_clock env 0 3) protocol key (fst ms)
    (tg_route t) (snd ms) (kv_id k) (as_tel st) (as_hub st) w"
  obtain re0 w0 where new: "?new = (re0, w0)" by fastforce
  define re where "re = (case g of Some g \<Rightarrow> recordGroupResolution g (mv_public_id (rt_model (tg_route t))) re0
    | None \<Rightarrow> recordDirectRoute re0)"
  have C: "candidates targets \<noteq> []" "attempts_made (candidates targets) 0 = [(1, kv_id k)]"
    using ts k by (simp_all add: candidates_def attempts_made_def)
  have p: "progress i (attempts_made (candidates targets) 0) 0 re"
    using new_telemetry_progress(1) [OF assms(1,2,3) new [unfolded assms(4)]] C(2) progress_frames
    by (auto simp: re_def split: option.split)
  obtain job cs fo st1 where run: "run_targets env job targets \<lparr>gs_cave = cs, gs_rec = re, gs_w = w0\<rparr> = (fo, st1)"
    and st': "as_tel st' = re_store (gs_rec st1)" "w' = gs_w st1"
    using assms(8) new unfolding serve_def tg ts Let_def prod.case list.sel(1)
    by (auto simp: k re_def split: prod.splits)
  have facts: "0 < fo_num fo \<and> fo_num fo \<le> length (candidates targets) \<and> over i st1 \<and>
      progress i (attempts_made (candidates targets) (fo_num fo)) (fo_num fo) (gs_rec st1)"
    by (rule run_targets_facts [OF assms(5) _ C(1) run]) (simp add: p)
  then have "recorded_attempts i (candidates targets) (fo_num fo) (re_store (gs_rec st1))"
    using progress_recorded [of i "candidates targets" "fo_num fo" "gs_rec st1"] by (auto simp: over_def)
  with facts st' tg show ?thesis by (auto simp: over_def)
qed

section \<open>The handler\<close>

lemma collect_candidates_keys: "\<forall>cand \<in> set (fst (collect_candidates c gms s)). gc_keys cand \<noteq> []"
  by (induction c gms s rule: collect_candidates.induct) (auto split: sum.splits prod.splits if_splits)

lemma resolveTargets_some:
  assumes "resolveTargets c m s = (Inr tg, s')"
  shows "fst tg \<noteq> [] \<and> (\<forall>t \<in> set (fst tg). tg_keys t \<noteq> [])"
proof (cases "cut_at CHR ''/'' m")
  case (Some pr)
  then show ?thesis
    using assms by (auto simp: resolveTargets_def split: sum.splits prod.splits if_splits)
next
  case None
  then obtain g cands where r: "fst (ResolveGroupTargets c m s) = Inr (g, cands)"
    and tg: "fst tg = map (\<lambda>cand. \<lparr>tg_route = gc_route cand, tg_keys = gc_keys cand\<rparr>) cands"
    using assms by (auto simp: resolveTargets_def split: sum.splits prod.splits)
  then obtain gid sel out s1 where out: "out \<noteq> []" "\<forall>cand \<in> set out. gc_keys cand \<noteq> []"
    and cands: "cands = fst (order_candidates ''group'' gid sel out s1)"
    using collect_candidates_keys
    by (auto simp: ResolveGroupTargets_def Let_def split: option.splits if_splits prod.splits)
      (metis fst_conv collect_candidates_keys)
  have "mset cands = mset out" unfolding cands by (rule strategy.order_perm)
  then have "set cands = set out" by (rule mset_eq_setD)
  with out tg show ?thesis by auto
qed

text \<open>A request is turned away before any attempt, with an answer and nothing recorded, or served.\<close>

lemma gateway_cases:
  assumes "gateway env protocol q st w = (st', w')"
  shows "(rw_sent w' \<noteq> None \<and> as_tel st' = as_tel st \<and> as_hub st' = as_hub st) \<or>
    (\<exists>key ms br tg s1 s2. resolveTargets (ge_crypto env) (fst ms) s1 = (Inr tg, s2) \<and>
       serve env protocol (cq_header q) key ms br tg (st\<lparr>as_cave := (s2, snd (as_cave st))\<rparr>) w = (st', w'))"
proof -
  obtain s skill where cave: "as_cave st = (s, skill)" by fastforce
  obtain ak s' w1 where auth: "authenticateAI (ge_codec env) (ge_pw env) (ge_clock env 0 0) (ge_clock env 0 1)
      protocol (cq_header q) s w = (ak, s', w1)" by (cases "authenticateAI (ge_codec env) (ge_pw env)
      (ge_clock env 0 0) (ge_clock env 0 1) protocol (cq_header q) s w") auto
  show ?thesis
  proof (cases ak)
    case None
    then have "rw_sent w1 \<noteq> None"
      using auth by (auto simp: authenticateAI_def Let_def writeProtocolError_Some split: if_splits prod.splits sum.splits)
    with None auth cave assms show ?thesis by (auto simp: gateway_def Let_def)
  next
    case (Some key)
    note g = assms [unfolded gateway_def Let_def cave prod.case auth Some option.case]
    show ?thesis
    proof (cases "readBoundedBody q")
      case None
      with g show ?thesis by (auto simp: writeProtocolError_Some)
    next
      case (Some raw)
      note g = g [unfolded Some option.case]
      show ?thesis
      proof (cases "prepare_body (ge_codec env) (ge_rid env 0) protocol (dec (ge_codec env) raw)")
        case (Inl message)
        with g show ?thesis by (auto simp: writeProtocolError_Some)
      next
        case (Inr br)
        note g = g [unfolded Inr sum.case]
        show ?thesis
        proof (cases "envelope (fst br)")
          case None
          with g show ?thesis by (auto simp: writeProtocolError_Some)
        next
          case (Some ms)
          note g = g [unfolded Some option.case]
          obtain rt s2 where rt: "resolveTargets (ge_crypto env) (fst ms) s' = (rt, s2)" by fastforce
          note g = g [unfolded rt prod.case]
          show ?thesis
          proof (cases rt)
            case (Inl e)
            with g show ?thesis by (auto simp: writeRouteError_def writeProtocolError_Some)
          next
            case (Inr tg)
            have "serve env protocol (cq_header q) key ms br tg (st\<lparr>as_cave := (s2, snd (as_cave st))\<rparr>) w = (st', w')"
              using g Inr cave by simp
            with rt Inr show ?thesis by blast
          qed
        qed
      qed
    qed
  qed
qed

lemma gateway_served:
  assumes "tel_ok (as_tel st)" "ge_id env = Some i" "i \<noteq> ''''" "\<not> has_request i (as_tel st)"
    and "protocol \<in> {''openai'', ''anthropic''}" "resolveTargets c m s1 = (Inr tg, s2)"
    and "serve env protocol h key ms br tg (st\<lparr>as_cave := cs\<rparr>) w = (st', w')"
  shows "\<exists>n. 0 < n \<and> n \<le> length (candidates (fst tg)) \<and> recorded_attempts i (candidates (fst tg)) n (as_tel st') \<and>
    (rw_sent w' \<noteq> None \<or> gave_up i (as_tel st'))"
  using serve_facts [of "st\<lparr>as_cave := cs\<rparr>" i protocol env tg h key ms br w st' w'] resolveTargets_some [OF assms(6)] assms
  by simp

lemma gateway_outcome:
  assumes "tel_ok (as_tel st)" "ge_id env = Some i" "i \<noteq> ''''" "\<not> has_request i (as_tel st)"
    and "protocol \<in> {''openai'', ''anthropic''}" "gateway env protocol q st w = (st', w')"
  shows "(rw_sent w' \<noteq> None \<and> as_tel st' = as_tel st) \<or>
    (\<exists>m s1 tg s2 n. resolveTargets (ge_crypto env) m s1 = (Inr tg, s2) \<and> 0 < n \<and>
       n \<le> length (candidates (fst tg)) \<and> recorded_attempts i (candidates (fst tg)) n (as_tel st') \<and>
       (rw_sent w' \<noteq> None \<or> gave_up i (as_tel st')))"
  using gateway_cases [OF assms(6)]
proof (elim disjE exE conjE)
  fix key ms br tg s1 s2
  assume "resolveTargets (ge_crypto env) (fst ms) s1 = (Inr tg, s2)"
    and "serve env protocol (cq_header q) key ms br tg (st\<lparr>as_cave := (s2, snd (as_cave st))\<rparr>) w = (st', w')"
  from this(1) gateway_served [OF assms(1-5) this] show ?thesis by blast
qed blast

text \<open>What an attempt that hands over ended in.\<close>

lemma settle_next:
  assumes "settle env job n (run_exchange job sch u br (gs_w st)) st = (Next e status, st')"
  shows "gs_w st' = gs_w st \<and> (\<exists>s body inner. status = Some s \<and> s \<in> {401, 402, 403, 429} \<and> e = UpstreamError s body inner)"
proof -
  obtain err t ob where r: "run_exchange job sch u br (gs_w st) = (err, t, ob)"
    by (cases "run_exchange job sch u br (gs_w st)") auto
  have "err = Some e \<and> \<not> tw_committed t \<and> failover_status e = status \<and> status \<noteq> None \<and> gs_w st' = tw_w t"
    using assms unfolding settle_def r Let_def
    by (auto simp: on_rec_def on_w_def split: option.splits if_splits dest: sym)
  then obtain s where e: "\<not> tw_committed t" "failover_status e = Some s" "status = Some s" "gs_w st' = tw_w t"
    by auto
  then have "gs_w st' = gs_w st" using new_tracked_begun(1) [OF run_exchange_begun(1) [OF r]] by simp
  moreover have "s \<in> {401, 402, 403, 429}" "\<exists>body inner. e = UpstreamError s body inner"
    using e(2) by (auto simp: failover_status_def isFailoverStatus_def as_upstream_Some split: option.splits if_splits)
  ultimately show ?thesis using e by blast
qed

end
