(* ===== verification/Monitoring_Laws.thy ===== *)
theory Monitoring_Laws
  imports Monitoring
begin

text \<open>
  The aggregates of monitoring.go: the counters of a time series add up to those of the summary,
  because a record of the window falls into exactly one of the emitted buckets.
\<close>

section \<open>Counters\<close>

abbreviation no_tally :: tally where
  "no_tally \<equiv> \<lparr>ty_requests = 0, ty_succeeded = 0, ty_failed = 0, ty_cancelled = 0, ty_inputs = no_totals,
     ty_outputs = no_totals, ty_latency_sum = 0, ty_latency_count = 0\<rparr>"

lemma truncate_observe: "tally.truncate (observe rec t) = observe rec (tally.truncate t)"
  by (auto simp: observe_def tally.truncate_def Let_def split: option.split)

lemma truncate_simps [simp]:
  "tally.truncate empty_totals = no_tally" "tally.truncate (new_bucket bt) = no_tally"
  "tally.truncate (Totals_finish t) = tally.truncate t" "tally.truncate (Bucket_finish b) = tally.truncate b"
  "bk_time (Bucket_finish b) = bk_time b" "bk_time (new_bucket bt) = bt"
  by (simp_all add: tally.truncate_def empty_totals_def new_bucket_def Totals_finish_def Bucket_finish_def)

lemma bk_time_observe [simp]: "bk_time (observe rec b) = bk_time b"
  by (simp add: observe_def Let_def split: option.split)

text \<open>A counter that a record changes by an amount of its own.\<close>

locale counter =
  fixes count_of :: "tally \<Rightarrow> int" and amount :: "MonitoringRecord \<Rightarrow> int"
  assumes observed: "count_of (observe rec t) = count_of t + amount rec"
    and empty: "count_of no_tally = 0"
begin

abbreviation counted :: "'a tally_scheme \<Rightarrow> int" where
  "counted t \<equiv> count_of (tally.truncate t)"

lemma fold_totals:
  "count_of (tally.truncate (fold observe recs (t :: Totals))) = count_of (tally.truncate t) + sum_list (map amount recs)"
  by (induction recs arbitrary: t) (simp_all add: observed truncate_observe)

definition span_count :: "(time \<rightharpoonup> Bucket) \<Rightarrow> time \<Rightarrow> int" where
  "span_count spans bt = (case spans bt of None \<Rightarrow> 0 | Some b \<Rightarrow> count_of (tally.truncate b))"

lemma add_to_span_count:
  "span_count (add_to_span rng z rec spans) bt =
     span_count spans bt + (if bt = bucketize rng z (mr_ts rec) then amount rec else 0)"
  by (auto simp: span_count_def add_to_span_def Let_def truncate_observe observed empty split: option.split)

lemma fold_span_sum:
  assumes "finite J" "\<forall>rec \<in> set recs. bucket_index rng z (mr_ts rec) \<in> J"
  shows "(\<Sum>k \<in> J. span_count (fold (add_to_span rng z) recs spans) (bucket_start rng z k)) =
     (\<Sum>k \<in> J. span_count spans (bucket_start rng z k)) + sum_list (map amount recs)"
  using assms(2)
proof (induction recs arbitrary: spans)
  case (Cons rec recs)
  let ?i = "bucket_index rng z (mr_ts rec)"
  have same: "bucket_start rng z k = bucketize rng z (mr_ts rec) \<longleftrightarrow> k = ?i" for k
    unfolding bucketize_def using buckets.index_start [of rng z] by metis
  have "(\<Sum>k \<in> J. span_count (add_to_span rng z rec spans) (bucket_start rng z k)) =
      (\<Sum>k \<in> J. span_count spans (bucket_start rng z k)) + (\<Sum>k \<in> J. if k = ?i then amount rec else 0)"
    by (simp add: add_to_span_count same sum.distrib)
  also have "(\<Sum>k \<in> J. if k = ?i then amount rec else 0) = amount rec"
    using Cons.prems assms(1) by simp
  finally show ?case using Cons by simp
qed simp

lemma emit_sum:
  "sum_list (map (\<lambda>b. count_of (tally.truncate b)) (emit_buckets rng z spans fin (bucket_start rng z k))) =
     (\<Sum>j \<in> {k..bucket_index rng z fin}. span_count spans (bucket_start rng z j))"
proof (induction "nat (bucket_index rng z fin + 1 - k)" arbitrary: k)
  case 0
  then have lt: "bucket_index rng z fin < k" by simp
  then have "fin < bucket_start rng z k" using buckets.index_le [of rng z k fin] by linarith
  with lt show ?case by (simp add: emit_buckets.simps [of rng z spans fin "bucket_start rng z k"])
next
  case (Suc n)
  let ?i = "bucket_index rng z fin"
  have le: "k \<le> ?i" and n: "n = nat (?i + 1 - (k + 1))" using Suc(2) by simp_all
  have ne: "\<not> fin < bucket_start rng z k" using le buckets.index_le by (simp add: not_less)
  have range: "{k..?i} = insert k {k + 1..?i}" using le by auto
  show ?case
    unfolding emit_buckets.simps [of rng z spans fin "bucket_start rng z k"] nextBucket_start range
    using Suc(1) [OF n] ne by (simp add: span_count_def empty split: option.split)
qed

lemma series_sum:
  assumes "\<forall>rec \<in> set recs. bucket_index rng z start \<le> bucket_index rng z (mr_ts rec) \<and>
      bucket_index rng z (mr_ts rec) \<le> bucket_index rng z now"
  shows "sum_list (map (\<lambda>b. count_of (tally.truncate b))
      (emit_buckets rng z (fold (add_to_span rng z) recs Map.empty) now (bucketize rng z start))) =
    count_of (tally.truncate (Totals_finish (fold observe recs empty_totals)))"
proof -
  let ?J = "{bucket_index rng z start..bucket_index rng z now}"
  have "\<forall>rec \<in> set recs. bucket_index rng z (mr_ts rec) \<in> ?J" using assms by simp
  from fold_span_sum [OF _ this, of Map.empty] show ?thesis
    by (simp add: bucketize_def emit_sum fold_totals empty span_count_def)
qed

end

interpretation requests: counter ty_requests "\<lambda>rec. 1"
  by unfold_locales (auto simp: observe_def Let_def split: option.split)

interpretation succeeded: counter ty_succeeded "\<lambda>rec. if mr_cancelled rec \<or> record_failed rec then 0 else 1"
  by unfold_locales (auto simp: observe_def Let_def split: option.split)

interpretation failed: counter ty_failed "\<lambda>rec. if \<not> mr_cancelled rec \<and> record_failed rec then 1 else 0"
  by unfold_locales (auto simp: observe_def Let_def split: option.split)

interpretation cancelled: counter ty_cancelled "\<lambda>rec. if mr_cancelled rec then 1 else 0"
  by unfold_locales (auto simp: observe_def Let_def split: option.split)

lemma truncate_counts [simp]:
  "ty_requests (tally.truncate t) = ty_requests t" "ty_succeeded (tally.truncate t) = ty_succeeded t"
  "ty_failed (tally.truncate t) = ty_failed t" "ty_cancelled (tally.truncate t) = ty_cancelled t"
  by (simp_all add: tally.truncate_def)

section \<open>The records of a window\<close>

lemma whole_seconds:
  assumes "z mod nanos_per_second = 0"
  shows "bucket_start rng z k mod nanos_per_second = 0" "window_start rng z now mod nanos_per_second = 0"
proof -
  have u: "nanos_per_second dvd hour_ns" "nanos_per_second dvd day_ns"
    by (simp_all add: day_ns_def hour_ns_def)
  have "nanos_per_second dvd at_day z d" for d
    unfolding at_day_def using assms u by (intro dvd_diff dvd_mult) (simp_all add: mod_eq_0_iff_dvd)
  then show "window_start rng z now mod nanos_per_second = 0" by (simp add: window_start_def mod_eq_0_iff_dvd)
  with \<open>\<And>d. nanos_per_second dvd at_day z d\<close> show "bucket_start rng z k mod nanos_per_second = 0"
    using assms u by (cases rng) (auto simp: bucket_start_def mod_eq_0_iff_dvd intro!: dvd_diff dvd_mult)
qed

lemma second_le: "a mod nanos_per_second = 0 \<Longrightarrow> a div nanos_per_second \<le> b div nanos_per_second \<Longrightarrow> a \<le> b"
proof -
  assume a: "a mod nanos_per_second = 0" "a div nanos_per_second \<le> b div nanos_per_second"
  have p: "0 < nanos_per_second" by (simp add: nanos_per_second_def)
  have "a = nanos_per_second * (a div nanos_per_second)" using a(1) by auto
  also have "\<dots> \<le> nanos_per_second * (b div nanos_per_second)" using a(2) p by simp
  also have "\<dots> \<le> b" using div_pinned [OF p] by simp
  finally show ?thesis .
qed

lemma window_indices:
  assumes "z mod nanos_per_second = 0" "in_window st (window_start rng z now) now sc r"
  shows "bucket_index rng z (window_start rng z now) \<le> bucket_index rng z (tr_started r) \<and>
    bucket_index rng z (tr_started r) \<le> bucket_index rng z now"
proof
  have sec: "window_start rng z now div nanos_per_second \<le> tr_started r div nanos_per_second"
      "tr_started r div nanos_per_second \<le> now div nanos_per_second"
    using assms(2) text_le_seconds by (auto simp: in_window_def text_less_def text_le_def less_imp_le)
  have "window_start rng z now \<le> tr_started r" by (rule second_le [OF whole_seconds(2) [OF assms(1)] sec(1)])
  with buckets.holds(1) [of rng z "window_start rng z now"]
  show "bucket_index rng z (window_start rng z now) \<le> bucket_index rng z (tr_started r)"
    by (simp flip: buckets.index_le)
  have "bucket_start rng z (bucket_index rng z (tr_started r)) div nanos_per_second \<le> tr_started r div nanos_per_second"
    by (rule zdiv_mono1 [OF buckets.holds(1)]) (simp add: nanos_per_second_def)
  then have "bucket_start rng z (bucket_index rng z (tr_started r)) \<le> now"
    using second_le [OF whole_seconds(1) [OF assms(1)]] sec(2) order_trans by blast
  then show "bucket_index rng z (tr_started r) \<le> bucket_index rng z now" by (simp add: buckets.index_le)
qed

lemma query_records:
  "rec \<in> set (windowQuery names st start fin sc) \<Longrightarrow> \<exists>r. in_window st start fin sc r \<and> mr_ts rec = tr_started r"
  by (auto simp: windowQuery_def oldest_first_def collect_record_def scanMonitoringRow_def)

lemma query_indices:
  "z mod nanos_per_second = 0 \<Longrightarrow> \<forall>rec \<in> set (windowQuery names st (window_start rng z now) now sc).
     bucket_index rng z (window_start rng z now) \<le> bucket_index rng z (mr_ts rec) \<and>
     bucket_index rng z (mr_ts rec) \<le> bucket_index rng z now"
  using window_indices by (metis query_records)

text \<open>A window of whole local hours starts a bucket, and the summary's own counters are consistent.\<close>

lemma observe_counts:
  "ty_requests (observe rec t) = ty_requests t + 1"
  "ty_succeeded (observe rec t) = ty_succeeded t + (if mr_cancelled rec \<or> record_failed rec then 0 else 1)"
  "ty_failed (observe rec t) = ty_failed t + (if \<not> mr_cancelled rec \<and> record_failed rec then 1 else 0)"
  "ty_cancelled (observe rec t) = ty_cancelled t + (if mr_cancelled rec then 1 else 0)"
  by (auto simp: observe_def Let_def split: option.split)

lemma outcomes_partition:
  "ty_requests (fold observe recs t) - ty_requests t =
     (ty_succeeded (fold observe recs t) - ty_succeeded t) + (ty_failed (fold observe recs t) - ty_failed t) +
     (ty_cancelled (fold observe recs t) - ty_cancelled t)" for t :: Totals
proof (induction recs arbitrary: t)
  case (Cons rec recs)
  then show ?case
    using Cons [of "observe rec t"] observe_counts [of rec t] by (auto split: if_splits)
qed simp

end
