(* ===== verification/Wire.thy ===== *)
theory Wire
  imports Monitor_Hub Caveman Key_Import Prompt_Rules Access
begin

text \<open>
  The JSON forms of what the administration API returns: the struct tags of internal/service/types.go,
  promptrules.go, caveman.go, internal/telemetry and internal/httpapi/monitor_hub.go. A time is
  written by time.Time's MarshalJSON, as RFC 3339 text in its own zone, a fixed offset in nanoseconds;
  what comes out of the database is in UTC.
\<close>

section \<open>Times\<close>

definition two_digits :: "int \<Rightarrow> string" where
  "two_digits i = pad_digits 2 (nat i)"

definition date_text :: "int \<Rightarrow> string" where
  "date_text d = (let k = month_of d in
     pad_digits 4 (nat (k div 12)) @ ''-'' @ two_digits (k mod 12 + 1) @ ''-'' @ two_digits (d - month_start k + 1))"

definition clock_text :: "int \<Rightarrow> string" where
  "clock_text sec = two_digits (sec div 3600) @ '':'' @ two_digits (sec div 60 mod 60) @ '':'' @ two_digits (sec mod 60)"

definition zone_text :: "int \<Rightarrow> string" where
  "zone_text z = (let m = \<bar>z\<bar> div (60 * nanos_per_second) in
     if z = 0 then ''Z''
     else (if z < 0 then ''-'' else ''+'') @ two_digits (m div 60) @ '':'' @ two_digits (m mod 60))"

definition fraction_text :: "nat \<Rightarrow> string" where
  "fraction_text n = (if n = 0 then '''' else ''.'' @ trim_right (\<lambda>c. c = CHR ''0'') (pad_digits 9 n))"

definition seconds_text :: "int \<Rightarrow> time \<Rightarrow> string" where
  "seconds_text z t = date_text (local_day z t) @ ''T'' @ clock_text ((t + z) mod day_ns div nanos_per_second)"

text \<open>time.RFC3339 and time.RFC3339Nano.\<close>

definition rfc3339 :: "int \<Rightarrow> time \<Rightarrow> string" where
  "rfc3339 z t = seconds_text z t @ zone_text z"

definition rfc3339nano :: "int \<Rightarrow> time \<Rightarrow> string" where
  "rfc3339nano z t = seconds_text z t @ fraction_text (nat (t mod nanos_per_second)) @ zone_text z"

definition JTime :: "time \<Rightarrow> json" where
  "JTime t = JStr (rfc3339nano 0 t)"

section \<open>Pointers\<close>

text \<open>A nil pointer is null; with omitempty the key is left out, and so is an empty string.\<close>

definition nullable :: "('x \<Rightarrow> json) \<Rightarrow> 'x option \<Rightarrow> json" where
  "nullable f v = (case v of None \<Rightarrow> JNull | Some x \<Rightarrow> f x)"

definition omit_nil :: "string \<Rightarrow> ('x \<Rightarrow> json) \<Rightarrow> 'x option \<Rightarrow> obj" where
  "omit_nil k f v = opt_key k (map_option f v)"

text \<open>A slice that is nil when nothing was appended to it.\<close>

definition nil_list :: "('x \<Rightarrow> json) \<Rightarrow> 'x list \<Rightarrow> json" where
  "nil_list f xs = (if xs = [] then JNull else JArr (map f xs))"

definition omit_empty :: "string \<Rightarrow> string \<Rightarrow> obj" where
  "omit_empty k s = (if s = '''' then [] else [(k, JStr s)])"

section \<open>internal/service\<close>

definition provider_json :: "Provider \<Rightarrow> json" where
  "provider_json p = JObj [(''id'', JInt (pv_id p)), (''name'', JStr (pv_name p)), (''type'', JStr (pv_type p)),
     (''prefix'', JStr (pv_prefix p)), (''base_url'', JStr (pv_base_url p)), (''has_api_key'', JBool (pv_has_key p)),
     (''key_count'', JInt (int (pv_key_count p))), (''key_selection'', JStr (pv_key_selection p)),
     (''enabled'', JBool (pv_enabled p)), (''created_at'', JTime (pv_created p)), (''updated_at'', JTime (pv_updated p))]"

definition provider_key_json :: "ProviderKey \<Rightarrow> json" where
  "provider_key_json k = JObj ([(''id'', JInt (kv_id k)), (''provider_id'', JInt (kv_provider k)),
     (''name'', JStr (kv_name k)), (''masked_key'', JStr (kv_masked k)), (''enabled'', JBool (kv_enabled k)),
     (''sort_order'', JInt (kv_sort k))] @ omit_nil ''last_used_at'' JTime (kv_last_used k) @
     [(''created_at'', JTime (kv_created k)), (''updated_at'', JTime (kv_updated k))])"

definition model_json :: "Model \<Rightarrow> json" where
  "model_json m = JObj [(''id'', JInt (mv_id m)), (''provider_id'', JInt (mv_provider_id m)),
     (''provider'', JStr (mv_provider m)), (''prefix'', JStr (mv_prefix m)), (''name'', JStr (mv_name m)),
     (''public_id'', JStr (mv_public_id m)), (''enabled'', JBool (mv_enabled m)), (''scheme'', JStr (mv_scheme m)),
     (''created_at'', JTime (mv_created m)), (''updated_at'', JTime (mv_updated m))]"

definition api_key_json :: "APIKey \<Rightarrow> json" where
  "api_key_json k = JObj ([(''id'', JInt (ak_id k)), (''name'', JStr (ak_name k))] @
     omit_nil ''last_used_at'' JTime (ak_last_used k) @ omit_nil ''expires_at'' JTime (ak_expires k) @
     omit_nil ''revoked_at'' JTime (ak_revoked k) @ [(''created_at'', JTime (ak_created k))])"

definition group_json :: "Group \<Rightarrow> json" where
  "group_json g = JObj [(''id'', JInt (gv_id g)), (''name'', JStr (gv_name g)), (''selection'', JStr (gv_selection g)),
     (''enabled'', JBool (gv_enabled g)), (''member_count'', JInt (int (gv_member_count g))),
     (''created_at'', JTime (gv_created g)), (''updated_at'', JTime (gv_updated g))]"

definition group_member_json :: "GroupMember \<Rightarrow> json" where
  "group_member_json m = JObj [(''id'', JInt (gmv_id m)), (''group_id'', JInt (gmv_group m)),
     (''model_id'', JInt (gmv_model m)), (''position'', JInt (gmv_position m)), (''enabled'', JBool (gmv_enabled m)),
     (''public_id'', JStr (gmv_public_id m)), (''provider'', JStr (gmv_provider m)), (''prefix'', JStr (gmv_prefix m)),
     (''model_name'', JStr (gmv_model_name m)), (''created_at'', JTime (gmv_created m)),
     (''updated_at'', JTime (gmv_updated m))]"

definition import_entry_json :: "ImportEntry \<Rightarrow> json" where
  "import_entry_json e = JObj ([(''line_number'', JInt (int (ie_line e))), (''name'', JStr (ie_name e)),
     (''masked_key'', JStr (ie_masked e)), (''valid'', JBool (ie_valid e))] @ omit_empty ''error'' (ie_error e))"

definition import_result_json :: "ImportResult \<Rightarrow> json" where
  "import_result_json r = JObj [(''total'', JInt (int (ir_total r))), (''valid'', JInt (int (ir_valid r))),
     (''invalid'', JInt (ir_invalid r)), (''entries'', nil_list import_entry_json (ir_entries r))]"

definition rule_target_json :: "PromptRuleTarget \<Rightarrow> json" where
  "rule_target_json t = JObj [(''target_type'', JStr (tg_type t)), (''target_id'', JInt (tg_id t)),
     (''label'', JStr (tg_label t))]"

definition prompt_rule_json :: "PromptRule \<Rightarrow> json" where
  "prompt_rule_json r = JObj [(''id'', JInt (pr_id r)), (''name'', JStr (pr_name r)), (''prompt'', JStr (pr_prompt r)),
     (''inherit'', JBool (pr_inherit r)), (''enabled'', JBool (pr_enabled r)), (''position'', JInt (pr_position r)),
     (''targets'', JArr (map rule_target_json (pr_targets r))), (''created_at'', JTime (pr_created r)),
     (''updated_at'', JTime (pr_updated r))]"

definition level_meta_json :: "CavemanLevelMeta \<Rightarrow> json" where
  "level_meta_json m = JObj [(''id'', JStr (lm_id m)), (''label'', JStr (lm_label m)),
     (''description'', JStr (lm_description m))]"

definition caveman_settings_json :: "CavemanSettings \<Rightarrow> json" where
  "caveman_settings_json c = JObj [(''enabled'', JBool (cv_enabled c)), (''level'', JStr (cv_level c)),
     (''last_synced_at'', JStr (cv_synced c)), (''levels'', nil_list level_meta_json (cv_levels c))]"

section \<open>internal/telemetry\<close>

definition category_text :: "ErrorCategory \<Rightarrow> string" where
  "category_text c = (case c of ErrNone \<Rightarrow> '''' | ErrAuth \<Rightarrow> ''auth_failure'' | ErrRateLimit \<Rightarrow> ''rate_limit''
     | ErrUpstream \<Rightarrow> ''upstream_error'' | ErrServer \<Rightarrow> ''upstream_failure'' | ErrConnection \<Rightarrow> ''connection_failure''
     | ErrTimeout \<Rightarrow> ''timeout'' | ErrCanceled \<Rightarrow> ''canceled'' | ErrRouting \<Rightarrow> ''routing_failure''
     | ErrBadRequest \<Rightarrow> ''bad_request'' | ErrInternal \<Rightarrow> ''internal_error'')"

definition usage_json :: "TokenUsage \<Rightarrow> obj" where
  "usage_json u = [(''input_tokens'', nullable JInt (us_input u)), (''output_tokens'', nullable JInt (us_output u)),
     (''total_tokens'', nullable JInt (us_total u))]"

definition attempt_json :: "AttemptView \<Rightarrow> json" where
  "attempt_json a = JObj ([(''number'', JInt (int (av_number a))), (''provider_name'', JStr (av_provider_name a)),
     (''provider_prefix'', JStr (av_provider_prefix a)), (''provider_type'', JStr (av_provider_type a)),
     (''upstream_model'', JStr (av_upstream_model a)), (''credential_id'', JInt (av_credential a)),
     (''http_status'', nullable JInt (av_http a)), (''success'', JBool (av_success a)),
     (''error_category'', JStr (category_text (av_category a))), (''duration_ms'', nullable JInt (av_duration a))] @
     usage_json (av_usage a))"

definition prompt_ref_json :: "PromptRuleRef \<Rightarrow> json" where
  "prompt_ref_json r = JObj [(''rule_id'', JInt (ref_rule r)), (''rule_name'', JStr (ref_name r))]"

definition record_json :: "MonitoringRecord \<Rightarrow> json" where
  "record_json r = JObj ([(''request_id'', JStr (mr_id r)), (''protocol'', JStr (mr_protocol r)),
     (''ts'', JTime (mr_ts r)), (''key_id'', nullable JInt (mr_key r)), (''key_name'', nullable JStr (mr_key_name r)),
     (''model'', JStr (mr_model r)), (''resolved_model'', nullable JStr (mr_resolved r)),
     (''served_model'', nullable JStr (mr_served r)), (''group_id'', nullable JInt (mr_group r)),
     (''group_name'', nullable JStr (mr_group_name r)), (''provider'', JStr (mr_provider r)),
     (''http_status'', nullable JInt (mr_status r)), (''error'', JStr (category_text (mr_error r))),
     (''cancelled'', JBool (mr_cancelled r)), (''stream'', JBool (mr_stream r))] @ usage_json (mr_usage r) @
     [(''latency_ms'', nullable JInt (mr_latency r)), (''ttft_ms'', nullable JInt (mr_ttft r)),
      (''upstream_ms'', nullable JInt (mr_upstream r)), (''attempts'', JArr (map attempt_json (mr_attempts r))),
      (''prompt_rules'', nil_list prompt_ref_json (mr_prompts r))])"

definition tally_json :: "'a tally_scheme \<Rightarrow> obj" where
  "tally_json t = [(''requests'', JInt (ty_requests t)), (''succeeded'', JInt (ty_succeeded t)),
     (''failed'', JInt (ty_failed t)), (''cancelled'', JInt (ty_cancelled t))]"

definition totals_json :: "Totals \<Rightarrow> json" where
  "totals_json t = JObj (tally_json t @ [(''input_tokens'', nullable JInt (to_input t)),
     (''output_tokens'', nullable JInt (to_output t)), (''avg_latency_ms'', nullable JNum (to_latency t)),
     (''success_rate'', nullable JNum (to_rate t))])"

definition range_text :: "Range \<Rightarrow> string" where
  "range_text rng = (case rng of RangeDaily \<Rightarrow> ''daily'' | RangeMonthly \<Rightarrow> ''monthly'' | RangeYearly \<Rightarrow> ''yearly'')"

definition summary_json :: "int \<Rightarrow> SummaryResult \<Rightarrow> json" where
  "summary_json z s = JObj [(''range'', JStr (range_text (sm_range s))), (''start'', JStr (rfc3339nano z (sm_start s))),
     (''end'', JStr (rfc3339nano z (sm_end s))), (''interval'', JStr (sm_interval s)),
     (''current'', totals_json (sm_current s)), (''previous'', totals_json (sm_previous s))]"

definition bucket_json :: "int \<Rightarrow> Bucket \<Rightarrow> json" where
  "bucket_json z b = JObj ((''t'', JStr (rfc3339nano z (bk_time b))) # tally_json b @
     [(''input_tokens'', nullable JInt (bk_input b)), (''output_tokens'', nullable JInt (bk_output b)),
      (''avg_latency_ms'', nullable JNum (bk_latency b))])"

definition page_json :: "RequestPage \<Rightarrow> json" where
  "page_json p = JObj [(''items'', JArr (map record_json (pg_items p))), (''total'', JInt (int (pg_total p))),
     (''page'', JInt (int (pg_page p))), (''page_size'', JInt (int (pg_size p)))]"

section \<open>monitor_hub.go\<close>

definition started_json :: "monitorStarted \<Rightarrow> json" where
  "started_json m = JObj ([(''request_id'', JStr (ms_id m)), (''ts'', JTime (ms_ts m)), (''key_id'', JInt (ms_key m))] @
     omit_empty ''key_name'' (ms_key_name m) @ [(''model'', JStr (ms_model m)), (''protocol'', JStr (ms_protocol m)),
     (''stream'', JBool (ms_stream m))] @ omit_empty ''provider'' (ms_provider m) @
     omit_empty ''upstream_model'' (ms_upstream m) @ omit_empty ''resolved_model'' (ms_resolved m) @
     omit_empty ''group_name'' (ms_group m))"

definition routed_json :: "monitorRouted \<Rightarrow> json" where
  "routed_json m = JObj ((''request_id'', JStr (mo_id m)) # omit_empty ''provider'' (mo_provider m) @
     omit_empty ''upstream_model'' (mo_upstream m) @ omit_empty ''resolved_model'' (mo_resolved m) @
     omit_empty ''group_name'' (mo_group m))"

definition streaming_json :: "monitorStreaming \<Rightarrow> json" where
  "streaming_json m = JObj ([(''request_id'', JStr (mt_id m)), (''ttft_ms'', JInt (mt_ttft m))] @
     omit_empty ''served_model'' (mt_served m))"

text \<open>The event's name and its payload.\<close>

definition event_message :: "monitorEvent \<Rightarrow> string \<times> json" where
  "event_message ev = (case ev of
     Request_started m \<Rightarrow> (''request_started'', started_json m)
   | Request_routed m \<Rightarrow> (''request_routed'', routed_json m)
   | Request_streaming m \<Rightarrow> (''request_streaming'', streaming_json m)
   | Request_finished r \<Rightarrow> (''request_finished'', record_json r))"

section \<open>Laws\<close>

text \<open>In UTC the text of a time ends like the text the database compares.\<close>

lemma fraction_text_zone: "fraction_text n @ zone_text 0 = frac_text n"
  by (simp add: fraction_text_def zone_text_def frac_text_def)

end
