(* ===== verification/Http.thy ===== *)
theory Http
  imports Gateway Wire
begin

text \<open>
  The ground of the administration API: requests and the state of the API value of
  internal/httpapi/api.go, the decoding of request bodies and the error answers of errors.go, and the
  shape every handler has. A handler takes the environment, the request, the state and the response
  writer, and returns the new state and writer.

  net/http hands a handler the request with its path split into decoded segments, the cookie and the
  query it has parsed, and the values of the pattern's wildcards.
\<close>

section \<open>Requests\<close>

text \<open>A body, and whether reading it ends in an error; a request without a body is \<open>NoBody\<close>.\<close>

datatype sent_body = NoBody | Bytes string | Torn string

record http_req =
  hq_method :: string
  hq_segments :: "string list"
  hq_header :: header
  hq_query :: "string \<Rightarrow> string"
  hq_cookie :: "string option"
  hq_remote :: string
  hq_tls :: bool
  hq_body :: sent_body
  hq_values :: "string \<Rightarrow> string"
  hq_moved :: bool

text \<open>r.URL.Path. A segment may contain a slash when the request escaped it.\<close>

definition url_path :: "http_req \<Rightarrow> string" where
  "url_path q = concat (map (\<lambda>s. CHR ''/'' # s) (hq_segments q))"

section \<open>The environment and the state\<close>

record loginAttempt =
  la_count :: nat
  la_blocked :: "time option"

text \<open>The API value: what the gateway uses, the failed logins, and the setup token.\<close>

record api =
  ap_state :: api_state
  ap_attempts :: "(string \<times> loginAttempt) list"
  ap_token :: string
  ap_active :: bool

text \<open>
  What the outside does during one request: the environment of the gateway, the decoder of encoding/json
  (the first value of a text and the bytes after it; the flag says that reading ends with the end of the
  body), url.ParseRequestURI, base64, random bytes, the clock at the points of the request, the exchange
  of a connection test, the fetch of the caveman skill, net.SplitHostPort, the local zone, and whether the
  client leaves while the request waits for a login slot.
\<close>

text \<open>
  What wakes the event stream of the dashboard: the client leaves, the keep-alive ticks, an event is taken
  from the channel; and what other requests do to the hub in between.
\<close>

datatype wake = Leave | Ping | Deliver | Published monitorEvent | Joined | Parted nat

record http_env =
  he_gateway :: gateway_env
  he_decode :: "bool \<Rightarrow> string \<Rightarrow> (json \<times> string) option"
  he_parse :: "string \<Rightarrow> url_parts option"
  he_b64 :: "string \<Rightarrow> string"
  he_random :: string
  he_salt :: string
  he_clock :: "nat \<Rightarrow> time"
  he_test :: exchange
  he_fetch :: "svc_error + (int \<times> string result)"
  he_host :: "string \<Rightarrow> string option"
  he_zone :: int
  he_gone :: bool
  he_wakes :: "wake list"

abbreviation he_codec :: "http_env \<Rightarrow> codec" where "he_codec env \<equiv> ge_codec (he_gateway env)"
abbreviation he_crypto :: "http_env \<Rightarrow> crypto" where "he_crypto env \<equiv> ge_crypto (he_gateway env)"
abbreviation he_pw :: "http_env \<Rightarrow> password_prims" where "he_pw env \<equiv> ge_pw (he_gateway env)"

abbreviation api_svc :: "api \<Rightarrow> svc" where "api_svc a \<equiv> fst (as_cave (ap_state a))"
abbreviation api_tel :: "api \<Rightarrow> tel_store" where "api_tel a \<equiv> as_tel (ap_state a)"
abbreviation api_hub :: "api \<Rightarrow> monitorHub" where "api_hub a \<equiv> as_hub (ap_state a)"

definition set_cave :: "cave \<Rightarrow> api \<Rightarrow> api" where
  "set_cave cs a = a\<lparr>ap_state := (ap_state a)\<lparr>as_cave := cs\<rparr>\<rparr>"

definition set_svc :: "svc \<Rightarrow> api \<Rightarrow> api" where
  "set_svc s a = set_cave (s, snd (as_cave (ap_state a))) a"

lemma set_svc_simps [simp]:
  "as_cave (ap_state (set_cave cs a)) = cs"
  "as_cave (ap_state (set_svc s a)) = (s, snd (as_cave (ap_state a)))"
  "api_tel (set_cave cs a) = api_tel a" "api_tel (set_svc s a) = api_tel a"
  "api_hub (set_cave cs a) = api_hub a" "api_hub (set_svc s a) = api_hub a"
  "ap_attempts (set_cave cs a) = ap_attempts a" "ap_attempts (set_svc s a) = ap_attempts a"
  "ap_token (set_cave cs a) = ap_token a" "ap_token (set_svc s a) = ap_token a"
  "ap_active (set_cave cs a) = ap_active a" "ap_active (set_svc s a) = ap_active a"
  by (simp_all add: set_cave_def set_svc_def)

lemma set_svc_same [simp]: "set_svc (api_svc a) a = a"
  by (simp add: set_cave_def set_svc_def)

type_synonym handler = "http_env \<Rightarrow> http_req \<Rightarrow> api \<Rightarrow> resp_writer \<Rightarrow> api \<times> resp_writer"

section \<open>errors.go\<close>

definition jsonError :: "codec \<Rightarrow> int \<Rightarrow> string \<Rightarrow> resp_writer \<Rightarrow> resp_writer" where
  "jsonError cd status message = jsonWrite cd status
     (JObj [(''error'', JObj [(''message'', JStr message), (''type'', JStr ''pogu_error'')])])"

text \<open>err.Error() of the service's errors, with the sentinel in front.\<close>

definition svc_error_text :: "svc_error \<Rightarrow> string" where
  "svc_error_text e = (let wrap = (\<lambda>s m. if m = '''' then s else s @ '': '' @ m) in case e of
     ErrValidation m \<Rightarrow> wrap ''validation error'' m
   | ErrUnauthorized \<Rightarrow> ''unauthorized''
   | ErrForbidden \<Rightarrow> ''forbidden''
   | ErrUnknownRoute m \<Rightarrow> wrap ''unknown route'' m
   | ErrAlreadyExists m \<Rightarrow> wrap ''already exists'' m
   | ErrNoCredentials \<Rightarrow> ''no enabled provider credentials''
   | ErrNoGroupTargets \<Rightarrow> ''group has no available targets''
   | ErrNotFound m \<Rightarrow> wrap ''resource not found'' m
   | OtherErr m \<Rightarrow> m)"

definition service_status :: "svc_error \<Rightarrow> int \<times> string" where
  "service_status e = (case e of
     ErrValidation m \<Rightarrow> (400, svc_error_text e) | ErrAlreadyExists m \<Rightarrow> (400, svc_error_text e)
   | ErrNotFound m \<Rightarrow> (404, ''not found'') | _ \<Rightarrow> (500, ''internal server error''))"

definition writeServiceError :: "codec \<Rightarrow> svc_error \<Rightarrow> resp_writer \<Rightarrow> resp_writer" where
  "writeServiceError cd e = (case service_status e of (status, message) \<Rightarrow> jsonError cd status message)"

definition json_space :: "char \<Rightarrow> bool" where
  "json_space c \<longleftrightarrow> c = CHR '' '' \<or> c = CHR 0x09 \<or> c = CHR 0x0A \<or> c = CHR 0x0D"

definition request_limit :: nat where "request_limit = 1048576"

text \<open>The decoding into the target is \<open>decode\<close>; None is a type error or an unknown field.\<close>

definition decode_stream :: "http_env \<Rightarrow> (json \<Rightarrow> 'x option) \<Rightarrow> bool \<Rightarrow> string \<Rightarrow> string + 'x" where
  "decode_stream env decode eof txt = (case he_decode env eof txt of
     None \<Rightarrow> Inl ''invalid JSON request''
   | Some (v, rest) \<Rightarrow> (case decode v of
       None \<Rightarrow> Inl ''invalid JSON request''
     | Some x \<Rightarrow> if eof \<and> list_all json_space rest then Inr x
                 else Inl ''request must contain exactly one JSON value''))"

definition decodeJSON :: "http_env \<Rightarrow> (json \<Rightarrow> 'x option) \<Rightarrow> sent_body \<Rightarrow> string + 'x" where
  "decodeJSON env decode b = (case b of
     NoBody \<Rightarrow> Inl ''request body required''
   | Bytes s \<Rightarrow> decode_stream env decode True (take request_limit s)
   | Torn s \<Rightarrow> decode_stream env decode (request_limit \<le> length s) (take request_limit s))"

text \<open>A struct with the given keys, under DisallowUnknownFields; null leaves it empty.\<close>

definition strict_obj :: "string list \<Rightarrow> (obj \<Rightarrow> 'x option) \<Rightarrow> json \<Rightarrow> 'x option" where
  "strict_obj keys f v = (case v of
     JNull \<Rightarrow> f []
   | JObj kvs \<Rightarrow> if list_all (\<lambda>kv. to_lower (fst kv) \<in> set keys) kvs then f kvs else None
   | _ \<Rightarrow> None)"

definition int_field :: "string \<Rightarrow> obj \<Rightarrow> int option" where
  "int_field k kvs = (case field k kvs of JNull \<Rightarrow> Some 0 | v \<Rightarrow> json_int v)"

definition boolp_field :: "string \<Rightarrow> obj \<Rightarrow> bool option option" where
  "boolp_field k kvs = (case field k kvs of JNull \<Rightarrow> Some None | JBool b \<Rightarrow> Some (Some b) | _ \<Rightarrow> None)"

text \<open>A slice; null elements are zero values, and null is a nil slice.\<close>

fun decode_each :: "(json \<Rightarrow> 'x option) \<Rightarrow> json list \<Rightarrow> 'x list option" where
  "decode_each f [] = Some []"
| "decode_each f (v # vs) = Option.bind (f v) (\<lambda>x. map_option (Cons x) (decode_each f vs))"

definition list_field :: "(json \<Rightarrow> 'x option) \<Rightarrow> string \<Rightarrow> obj \<Rightarrow> 'x list option" where
  "list_field f k kvs = (case field k kvs of JNull \<Rightarrow> Some [] | JArr vs \<Rightarrow> decode_each f vs | _ \<Rightarrow> None)"

definition id_value :: "json \<Rightarrow> int option" where
  "id_value v = (case v of JNull \<Rightarrow> Some 0 | _ \<Rightarrow> json_int v)"

section \<open>The parts of a handler\<close>

text \<open>strconv.ParseInt of a wildcard's value.\<close>

definition idParam :: "http_req \<Rightarrow> int option" where
  "idParam q = atoi (hq_values q ''id'')"

definition keyIDParam :: "http_req \<Rightarrow> int option" where
  "keyIDParam q = atoi (hq_values q ''keyId'')"

definition memberIDParam :: "http_req \<Rightarrow> int option" where
  "memberIDParam q = atoi (hq_values q ''memberId'')"

definition reply :: "http_env \<Rightarrow> int \<Rightarrow> json \<Rightarrow> api \<Rightarrow> resp_writer \<Rightarrow> api \<times> resp_writer" where
  "reply env status v a w = (a, jsonWrite (he_codec env) status v w)"

definition fail :: "http_env \<Rightarrow> int \<Rightarrow> string \<Rightarrow> api \<Rightarrow> resp_writer \<Rightarrow> api \<times> resp_writer" where
  "fail env status message a w = (a, jsonError (he_codec env) status message w)"

definition fail_with :: "http_env \<Rightarrow> svc_error \<Rightarrow> api \<Rightarrow> resp_writer \<Rightarrow> api \<times> resp_writer" where
  "fail_with env e a w = (a, writeServiceError (he_codec env) e w)"

definition no_content :: "api \<Rightarrow> resp_writer \<Rightarrow> api \<times> resp_writer" where
  "no_content a w = (a, raw_write_header 204 w)"

text \<open>The three early returns handlers begin with.\<close>

definition with_id ::
  "http_env \<Rightarrow> int option \<Rightarrow> string \<Rightarrow> (int \<Rightarrow> api \<Rightarrow> resp_writer \<Rightarrow> api \<times> resp_writer) \<Rightarrow>
    api \<Rightarrow> resp_writer \<Rightarrow> api \<times> resp_writer" where
  "with_id env i message k = (case i of None \<Rightarrow> fail env 400 message | Some n \<Rightarrow> k n)"

definition with_body ::
  "http_env \<Rightarrow> http_req \<Rightarrow> (json \<Rightarrow> 'x option) \<Rightarrow> ('x \<Rightarrow> api \<Rightarrow> resp_writer \<Rightarrow> api \<times> resp_writer) \<Rightarrow>
    api \<Rightarrow> resp_writer \<Rightarrow> api \<times> resp_writer" where
  "with_body env q decode k = (case decodeJSON env decode (hq_body q) of
     Inl message \<Rightarrow> fail env 400 message | Inr x \<Rightarrow> k x)"

text \<open>A read of the service whose error ends the handler.\<close>

definition with_result ::
  "http_env \<Rightarrow> (svc \<Rightarrow> 'x result) \<Rightarrow> ('x \<Rightarrow> api \<Rightarrow> resp_writer \<Rightarrow> api \<times> resp_writer) \<Rightarrow>
    api \<Rightarrow> resp_writer \<Rightarrow> api \<times> resp_writer" where
  "with_result env f k a w = (case f (api_svc a) of Inl e \<Rightarrow> fail_with env e a w | Inr x \<Rightarrow> k x a w)"

text \<open>A call of a service operation whose error ends the handler.\<close>

definition with_call ::
  "http_env \<Rightarrow> (svc \<Rightarrow> 'x result \<times> svc) \<Rightarrow> ('x \<Rightarrow> api \<Rightarrow> resp_writer \<Rightarrow> api \<times> resp_writer) \<Rightarrow>
    api \<Rightarrow> resp_writer \<Rightarrow> api \<times> resp_writer" where
  "with_call env f k a w = (case f (api_svc a) of
     (Inl e, s) \<Rightarrow> fail_with env e (set_svc s a) w | (Inr x, s) \<Rightarrow> k x (set_svc s a) w)"

text \<open>The value of a pointer to a boolean, or the current one of the resource.\<close>

definition enabled_or ::
  "http_env \<Rightarrow> bool option \<Rightarrow> (svc \<Rightarrow> bool result) \<Rightarrow> (bool \<Rightarrow> api \<Rightarrow> resp_writer \<Rightarrow> api \<times> resp_writer) \<Rightarrow>
    api \<Rightarrow> resp_writer \<Rightarrow> api \<times> resp_writer" where
  "enabled_or env b current k = (case b of Some e \<Rightarrow> k e | None \<Rightarrow> with_result env current k)"

definition true_or :: "bool option \<Rightarrow> bool" where
  "true_or b = (case b of None \<Rightarrow> True | Some e \<Rightarrow> e)"

end
