(* ===== verification/Auth_Http.thy ===== *)
theory Auth_Http
  imports Http
begin

text \<open>
  internal/httpapi/auth.go: the setup of a fresh installation, the middleware that guards the
  administration API, the login with its throttle, and the session cookie. Each operation on the tables of
  the API value runs under its mutex and is one step. GenerateSetupToken encodes the random bytes it is
  given in hexadecimal.
\<close>

section \<open>Setup\<close>

definition hex_digit :: "nat \<Rightarrow> char" where
  "hex_digit n = (if n < 10 then digit_char n else char_of (87 + n))"

definition hex_encode :: "string \<Rightarrow> string" where
  "hex_encode s = concat (map (\<lambda>c. [hex_digit (code_of c div 16), hex_digit (code_of c mod 16)]) s)"

definition GenerateSetupToken :: "string \<Rightarrow> string" where
  "GenerateSetupToken raw = hex_encode raw"

definition EnableSetup :: "string \<Rightarrow> api \<Rightarrow> api" where
  "EnableSetup token a = a\<lparr>ap_token := token, ap_active := True\<rparr>"

definition setupRequired :: "api \<Rightarrow> bool" where
  "setupRequired a = ap_active a"

definition end_setup :: "api \<Rightarrow> api" where
  "end_setup a = a\<lparr>ap_token := '''', ap_active := False\<rparr>"

section \<open>The session cookie\<close>

definition sessionCookie :: string where "sessionCookie = ''pogu_session''"

text \<open>http.SetCookie with the attributes the handlers give; a negative age is written as zero.\<close>

definition cookie_text :: "string \<Rightarrow> int \<Rightarrow> bool \<Rightarrow> string" where
  "cookie_text value maxAge secure = sessionCookie @ ''='' @ value @ ''; Path=/; Max-Age='' @
     int_to_dec (max 0 maxAge) @ ''; HttpOnly'' @ (if secure then ''; Secure'' else '''') @ ''; SameSite=Strict''"

definition set_cookie :: "string \<Rightarrow> int \<Rightarrow> bool \<Rightarrow> resp_writer \<Rightarrow> resp_writer" where
  "set_cookie value maxAge secure w =
     w\<lparr>rw_header := rw_header w @ [(''Set-Cookie'', cookie_text value maxAge secure)]\<rparr>"

definition validSession :: "http_env \<Rightarrow> http_req \<Rightarrow> time \<Rightarrow> api \<Rightarrow> bool \<times> api" where
  "validSession env q now a = (case hq_cookie q of
     None \<Rightarrow> (False, a)
   | Some value \<Rightarrow> (case ValidateSession (he_pw env) now value (api_svc a) of (ok, s) \<Rightarrow> (ok, set_svc s a)))"

section \<open>The middleware\<close>

text \<open>\<open>nxt\<close> is the handler it wraps.\<close>

definition authMiddleware :: "handler \<Rightarrow> handler" where
  "authMiddleware nxt env q a w =
     (let path = url_path q in
      if setupRequired a then
        (if path = ''/api/auth/setup'' then nxt env q a w
         else if has_prefix ''/api/'' path then fail env 409 ''initial setup required'' a w
         else if has_prefix ''/v1/'' path then fail env 503 ''initial setup required'' a w
         else nxt env q a w)
      else if has_prefix ''/api/'' path \<and> path \<noteq> ''/api/auth/login'' \<and> path \<noteq> ''/api/auth/setup''
      then (case validSession env q (he_clock env 0) a of
          (True, a') \<Rightarrow> nxt env q a' w
        | (False, a') \<Rightarrow> fail env 401 ''authentication required'' a' w)
      else nxt env q a w)"

section \<open>The throttle\<close>

definition loginIdentity :: "http_env \<Rightarrow> http_req \<Rightarrow> string" where
  "loginIdentity env q = (case he_host env (hq_remote q) of Some host \<Rightarrow> host | None \<Rightarrow> hq_remote q)"

definition attempt_of :: "string \<Rightarrow> api \<Rightarrow> loginAttempt" where
  "attempt_of i a = (case map_of (ap_attempts a) i of None \<Rightarrow> \<lparr>la_count = 0, la_blocked = None\<rparr> | Some x \<Rightarrow> x)"

definition allowLogin :: "string \<Rightarrow> time \<Rightarrow> api \<Rightarrow> bool" where
  "allowLogin i now a = (case la_blocked (attempt_of i a) of None \<Rightarrow> True | Some t \<Rightarrow> t < now)"

definition evict :: "time \<Rightarrow> (string \<times> loginAttempt) list \<Rightarrow> (string \<times> loginAttempt) list" where
  "evict now m = (if 256 \<le> length m
     then filter (\<lambda>(i, x). case la_blocked x of None \<Rightarrow> True | Some t \<Rightarrow> \<not> t < now) m else m)"

definition backoff :: "nat \<Rightarrow> int" where
  "backoff n = min (2 ^ (n - 5)) 60 * nanos_per_second"

definition next_attempt :: "time \<Rightarrow> loginAttempt \<Rightarrow> loginAttempt" where
  "next_attempt now x = (let n = la_count x + 1 in
     \<lparr>la_count = min n 12, la_blocked = (if 5 \<le> n then Some (now + backoff n) else la_blocked x)\<rparr>)"

definition recordLoginFailure :: "string \<Rightarrow> time \<Rightarrow> time \<Rightarrow> api \<Rightarrow> api" where
  "recordLoginFailure i now now' a =
     (let a = a\<lparr>ap_attempts := evict now (ap_attempts a)\<rparr>
      in a\<lparr>ap_attempts := put i (next_attempt now' (attempt_of i a)) (ap_attempts a)\<rparr>)"

definition clearLoginFailures :: "string \<Rightarrow> api \<Rightarrow> api" where
  "clearLoginFailures i a = a\<lparr>ap_attempts := filter (\<lambda>kv. fst kv \<noteq> i) (ap_attempts a)\<rparr>"

section \<open>The handlers\<close>

definition start_session :: "http_env \<Rightarrow> http_req \<Rightarrow> api \<Rightarrow> resp_writer \<Rightarrow> api \<times> resp_writer" where
  "start_session env q a w =
     (case CreateSession (he_pw env) (he_b64 env) (he_clock env 4) (he_clock env 5) (he_random env) day (api_svc a) of
        (Inl e, s) \<Rightarrow> fail env 500 ''session unavailable'' (set_svc s a) w
      | (Inr token, s) \<Rightarrow> reply env 200 (JObj [(''authenticated'', JBool True)]) (set_svc s a)
          (set_cookie token 86400 (hq_tls q) w))"

definition login :: handler where
  "login env q = with_body env q (strict_obj [''password''] (str_field ''password'')) (\<lambda>password a w.
     let i = loginIdentity env q in
     if setupRequired a then fail env 409 ''initial setup required'' a w
     else if \<not> allowLogin i (he_clock env 1) a then fail env 429 ''too many login attempts'' a w
     else if he_gone env then (a, w)
     else if \<not> CheckAdminPassword (he_pw env) password (api_svc a)
     then fail env 401 ''invalid credentials'' (recordLoginFailure i (he_clock env 2) (he_clock env 3) a) w
     else start_session env q (clearLoginFailures i a) w)"

definition logout :: handler where
  "logout env q a w =
     reply env 200 (JObj [(''authenticated'', JBool False)])
       (case hq_cookie q of None \<Rightarrow> a | Some value \<Rightarrow> set_svc (DeleteSession (he_pw env) value (api_svc a)) a)
       (set_cookie '''' (- 1) (hq_tls q) w)"

definition me :: handler where
  "me env q a w = (case validSession env q (he_clock env 1) a of
     (ok, a') \<Rightarrow> reply env 200 (JObj [(''authenticated'', JBool ok)]) a' w)"

definition setupStatus :: handler where
  "setupStatus env q a = reply env 200 (JObj [(''setup_required'', JBool (setupRequired a))]) a"

definition setup_input :: "json \<Rightarrow> (string \<times> string) option" where
  "setup_input = strict_obj [''token'', ''password''] (\<lambda>kvs.
     Option.bind (str_field ''token'' kvs) (\<lambda>token. map_option (Pair token) (str_field ''password'' kvs)))"

definition completeSetup :: handler where
  "completeSetup env q = with_body env q setup_input (\<lambda>(token, password) a w.
     let i = loginIdentity env q in
     if \<not> allowLogin i (he_clock env 1) a then fail env 429 ''too many setup attempts'' a w
     else if he_gone env then (a, w)
     else if \<not> ap_active a then fail env 409 ''already initialized'' a w
     else if token = '''' \<or> token \<noteq> ap_token a
     then fail env 403 ''invalid setup token'' (recordLoginFailure i (he_clock env 2) (he_clock env 3) a) w
     else (case InitializeAdmin (he_pw env) (he_salt env) (he_clock env 2) (he_clock env 3) password (api_svc a) of
         (Inl (ErrValidation m), s) \<Rightarrow> fail env 400 (svc_error_text (ErrValidation m)) (set_svc s a) w
       | (Inl (ErrAlreadyExists m), s) \<Rightarrow> fail env 409 ''already initialized'' (end_setup (set_svc s a)) w
       | (Inl _, s) \<Rightarrow> fail env 500 ''setup unavailable'' (set_svc s a) w
       | (Inr _, s) \<Rightarrow> start_session env q (clearLoginFailures i (end_setup (set_svc s a))) w))"

end
