(* ===== verification/Handlers.thy ===== *)
theory Handlers
  imports Auth_Http
begin

text \<open>
  The handlers of the administration API in internal/httpapi/providers.go, provider_keys.go, models.go,
  groups.go, keys.go, promptrules.go and settings.go. Each decodes its arguments, calls the service and
  writes the result. The branches for a list that cannot be read are I/O failures of the database and are
  not modelled.
\<close>

abbreviation obind :: "'x option \<Rightarrow> ('x \<Rightarrow> 'y option) \<Rightarrow> 'y option" where
  "obind \<equiv> Option.bind"

text \<open>
  A read of the service that cannot fail, written as a list. ListProviders, ListProviderKeys, ListModels
  and ListAPIKeys return a nil slice when there is nothing, which is written as null.
\<close>

definition reply_list :: "http_env \<Rightarrow> ('x list \<Rightarrow> json) \<Rightarrow> (svc \<Rightarrow> 'x list) \<Rightarrow> api \<Rightarrow> resp_writer \<Rightarrow> api \<times> resp_writer" where
  "reply_list env f xs a = reply env 200 (f (xs (api_svc a))) a"

section \<open>providers.go\<close>

record providerInput =
  pi_name :: string
  pi_type :: string
  pi_prefix :: string
  pi_base_url :: string
  pi_key_selection :: string
  pi_api_key :: "string option"
  pi_enabled :: "bool option"

definition decode_providerInput :: "json \<Rightarrow> providerInput option" where
  "decode_providerInput = strict_obj
     [''name'', ''type'', ''prefix'', ''base_url'', ''key_selection'', ''api_key'', ''enabled''] (\<lambda>kvs.
     obind (str_field ''name'' kvs) (\<lambda>n. obind (str_field ''type'' kvs) (\<lambda>t.
     obind (str_field ''prefix'' kvs) (\<lambda>p. obind (str_field ''base_url'' kvs) (\<lambda>u.
     obind (str_field ''key_selection'' kvs) (\<lambda>ks. obind (strp_field ''api_key'' kvs) (\<lambda>k.
     obind (boolp_field ''enabled'' kvs) (\<lambda>e. Some \<lparr>pi_name = n, pi_type = t, pi_prefix = p, pi_base_url = u,
       pi_key_selection = ks, pi_api_key = k, pi_enabled = e\<rparr>))))))))"

definition providers_list :: handler where
  "providers_list env q = reply_list env (nil_list provider_json) ListProviders"

definition createProvider :: handler where
  "createProvider env q = with_body env q decode_providerInput (\<lambda>inp.
     with_call env (CreateProvider (he_crypto env) (he_parse env) (he_clock env 1) (pi_name inp) (pi_type inp)
         (pi_prefix inp) (pi_base_url inp) (case pi_api_key inp of None \<Rightarrow> '''' | Some k \<Rightarrow> k)
         (true_or (pi_enabled inp)) [pi_key_selection inp])
       (\<lambda>p. reply env 201 (provider_json p)))"

definition getProvider :: handler where
  "getProvider env q = with_id env (idParam q) ''invalid id'' (\<lambda>i.
     with_result env (GetProvider i) (\<lambda>p. reply env 200 (provider_json p)))"

definition updateProvider :: handler where
  "updateProvider env q = with_id env (idParam q) ''invalid id'' (\<lambda>i.
     with_body env q decode_providerInput (\<lambda>inp.
     enabled_or env (pi_enabled inp) (\<lambda>s. map_sum id pv_enabled (GetProvider i s)) (\<lambda>en.
     with_call env (UpdateProvider (he_parse env) (he_clock env 1) i (pi_name inp) (pi_type inp) (pi_prefix inp)
         (pi_base_url inp) en [pi_key_selection inp])
       (\<lambda>p. reply env 200 (provider_json p)))))"

definition deleteProvider :: handler where
  "deleteProvider env q = with_id env (idParam q) ''invalid id'' (\<lambda>i.
     with_call env (DeleteProvider i) (\<lambda>_. no_content))"

text \<open>The connection test both test handlers end with.\<close>

definition test_result :: "bool \<Rightarrow> string \<Rightarrow> json" where
  "test_result ok message = JObj [(''ok'', JBool ok), (''message'', JStr message)]"

definition run_test :: "http_env \<Rightarrow> Provider \<Rightarrow> string \<Rightarrow> api \<Rightarrow> resp_writer \<Rightarrow> api \<times> resp_writer" where
  "run_test env p secret = (case Test (ge_url (he_gateway env)) (he_test env) p secret of
     Some e \<Rightarrow> reply env (if IsAuthFailure e then 401 else 502) (test_result False (StatusMessage (he_codec env) e))
   | None \<Rightarrow> reply env 200 (test_result True ''connection successful''))"

definition is_not_found :: "svc_error \<Rightarrow> bool" where
  "is_not_found e = (case e of ErrNotFound _ \<Rightarrow> True | _ \<Rightarrow> False)"

definition testProvider :: handler where
  "testProvider env q = with_id env (idParam q) ''invalid id'' (\<lambda>i.
     with_result env (GetProvider i) (\<lambda>p a.
       case ProviderPrimarySecret (he_crypto env) i (api_svc a) of
         Inl e \<Rightarrow> if is_not_found e
           then reply env 400 (test_result False ''no enabled API keys configured for this provider'') a
           else fail env 500 ''provider credential unavailable'' a
       | Inr secret \<Rightarrow> run_test env p secret a))"

section \<open>provider_keys.go\<close>

definition decode_keyCreate :: "json \<Rightarrow> (string \<times> string) option" where
  "decode_keyCreate = strict_obj [''name'', ''secret''] (\<lambda>kvs.
     obind (str_field ''name'' kvs) (\<lambda>n. map_option (Pair n) (str_field ''secret'' kvs)))"

definition decode_keyUpdate :: "json \<Rightarrow> (string \<times> bool option) option" where
  "decode_keyUpdate = strict_obj [''name'', ''enabled''] (\<lambda>kvs.
     obind (str_field ''name'' kvs) (\<lambda>n. map_option (Pair n) (boolp_field ''enabled'' kvs)))"

definition decode_importInput :: "json \<Rightarrow> (string \<times> bool) option" where
  "decode_importInput = strict_obj [''text'', ''preview''] (\<lambda>kvs.
     obind (str_field ''text'' kvs) (\<lambda>t. map_option (Pair t) (bool_field ''preview'' kvs)))"

definition listProviderKeys :: handler where
  "listProviderKeys env q = with_id env (idParam q) ''invalid id'' (\<lambda>pid.
     reply_list env (nil_list provider_key_json) (ListProviderKeys (he_crypto env) pid))"

definition createProviderKey :: handler where
  "createProviderKey env q = with_id env (idParam q) ''invalid id'' (\<lambda>pid.
     with_body env q decode_keyCreate (\<lambda>(name, secret).
     with_call env (CreateProviderKey (he_crypto env) (he_clock env 1) pid name secret) (\<lambda>k.
     reply env 201 (JObj [(''key'', provider_key_json k), (''secret'', JStr secret)]))))"

definition importProviderKeys :: handler where
  "importProviderKeys env q = with_id env (idParam q) ''invalid id'' (\<lambda>pid.
     with_body env q decode_importInput (\<lambda>(txt, preview).
     with_call env (ImportProviderKeys (he_crypto env) (he_clock env 1) pid txt (\<not> preview)) (\<lambda>r.
     reply env 200 (import_result_json r))))"

definition updateProviderKey :: handler where
  "updateProviderKey env q = with_id env (keyIDParam q) ''invalid key id'' (\<lambda>i.
     with_body env q decode_keyUpdate (\<lambda>(name, en).
     enabled_or env en (\<lambda>s. map_sum id kv_enabled (GetProviderKey (he_crypto env) i s)) (\<lambda>en.
     with_call env (UpdateProviderKey (he_crypto env) (he_clock env 1) i name en) (\<lambda>k.
     reply env 200 (provider_key_json k)))))"

definition deleteProviderKey :: handler where
  "deleteProviderKey env q = with_id env (keyIDParam q) ''invalid key id'' (\<lambda>i.
     with_call env (DeleteProviderKey i) (\<lambda>_. no_content))"

definition makeProviderKeyPrimary :: handler where
  "makeProviderKeyPrimary env q = with_id env (idParam q) ''invalid id'' (\<lambda>pid.
     with_id env (keyIDParam q) ''invalid key id'' (\<lambda>i.
     with_call env (SetProviderKeyPrimary (he_clock env 1) pid i) (\<lambda>_.
     reply_list env (nil_list provider_key_json) (ListProviderKeys (he_crypto env) pid))))"

definition testProviderKey :: handler where
  "testProviderKey env q = with_id env (idParam q) ''invalid id'' (\<lambda>pid.
     with_id env (keyIDParam q) ''invalid key id'' (\<lambda>i.
     with_result env (GetProvider pid) (\<lambda>p.
     with_result env (ProviderKeySecret (he_crypto env) i) (run_test env p))))"

section \<open>models.go\<close>

record modelInput =
  mi_provider :: int
  mi_name :: string
  mi_enabled :: "bool option"

definition decode_modelInput :: "json \<Rightarrow> modelInput option" where
  "decode_modelInput = strict_obj [''provider_id'', ''name'', ''enabled''] (\<lambda>kvs.
     obind (int_field ''provider_id'' kvs) (\<lambda>p. obind (str_field ''name'' kvs) (\<lambda>n.
     obind (boolp_field ''enabled'' kvs) (\<lambda>e. Some \<lparr>mi_provider = p, mi_name = n, mi_enabled = e\<rparr>))))"

definition listModels :: handler where
  "listModels env q = reply_list env (nil_list model_json) ListModels"

definition createModel :: handler where
  "createModel env q = with_body env q decode_modelInput (\<lambda>inp.
     with_call env (CreateModel (he_clock env 1) (mi_provider inp) (mi_name inp) (true_or (mi_enabled inp))) (\<lambda>m.
     reply env 201 (model_json m)))"

definition updateModel :: handler where
  "updateModel env q = with_id env (idParam q) ''invalid id'' (\<lambda>i.
     with_body env q decode_modelInput (\<lambda>inp.
     enabled_or env (mi_enabled inp) (\<lambda>s. map_sum id mv_enabled (GetModel i s)) (\<lambda>en.
     with_call env (UpdateModel (he_clock env 1) i (mi_name inp) en) (\<lambda>m. reply env 200 (model_json m)))))"

definition deleteModel :: handler where
  "deleteModel env q = with_id env (idParam q) ''invalid id'' (\<lambda>i.
     with_call env (DeleteModel i) (\<lambda>_. no_content))"

section \<open>groups.go\<close>

record groupInput =
  gi_name :: string
  gi_selection :: string
  gi_enabled :: "bool option"

definition decode_groupInput :: "json \<Rightarrow> groupInput option" where
  "decode_groupInput = strict_obj [''name'', ''selection'', ''enabled''] (\<lambda>kvs.
     obind (str_field ''name'' kvs) (\<lambda>n. obind (str_field ''selection'' kvs) (\<lambda>s.
     obind (boolp_field ''enabled'' kvs) (\<lambda>e. Some \<lparr>gi_name = n, gi_selection = s, gi_enabled = e\<rparr>))))"

definition enabledOr :: "groupInput \<Rightarrow> bool \<Rightarrow> bool" where
  "enabledOr inp dflt = (case gi_enabled inp of None \<Rightarrow> dflt | Some e \<Rightarrow> e)"

definition listGroups :: handler where
  "listGroups env q = reply_list env (\<lambda>gs. JArr (map group_json gs)) ListGroups"

definition createGroup :: handler where
  "createGroup env q = with_body env q decode_groupInput (\<lambda>inp.
     with_call env (CreateGroup (he_clock env 1) (gi_name inp) (enabledOr inp True) (gi_selection inp)) (\<lambda>g.
     reply env 201 (group_json g)))"

definition getGroup :: handler where
  "getGroup env q = with_id env (idParam q) ''invalid id'' (\<lambda>i.
     with_result env (GetGroup i) (\<lambda>g. reply env 200 (group_json g)))"

definition updateGroup :: handler where
  "updateGroup env q = with_id env (idParam q) ''invalid id'' (\<lambda>i.
     with_body env q decode_groupInput (\<lambda>inp.
     enabled_or env (gi_enabled inp) (\<lambda>s. map_sum id gv_enabled (GetGroup i s)) (\<lambda>en.
     with_call env (UpdateGroup (he_clock env 1) i (gi_name inp) en (gi_selection inp)) (\<lambda>g.
     reply env 200 (group_json g)))))"

definition deleteGroup :: handler where
  "deleteGroup env q = with_id env (idParam q) ''invalid id'' (\<lambda>i.
     with_call env (DeleteGroup i) (\<lambda>_. no_content))"

definition listGroupMembers :: handler where
  "listGroupMembers env q = with_id env (idParam q) ''invalid id'' (\<lambda>i.
     with_result env (ListGroupMembers i) (\<lambda>ms. reply env 200 (JArr (map group_member_json ms))))"

definition addGroupMember :: handler where
  "addGroupMember env q = with_id env (idParam q) ''invalid id'' (\<lambda>i.
     with_body env q (strict_obj [''model_id''] (int_field ''model_id'')) (\<lambda>mid.
     with_call env (AddGroupMember (he_clock env 1) i mid) (\<lambda>m. reply env 201 (group_member_json m))))"

definition groupMemberParams ::
  "http_env \<Rightarrow> http_req \<Rightarrow> (int \<Rightarrow> int \<Rightarrow> api \<Rightarrow> resp_writer \<Rightarrow> api \<times> resp_writer) \<Rightarrow>
    api \<Rightarrow> resp_writer \<Rightarrow> api \<times> resp_writer" where
  "groupMemberParams env q k = with_id env (idParam q) ''invalid id'' (\<lambda>i.
     with_id env (memberIDParam q) ''invalid member id'' (k i))"

text \<open>The enabled flag of a member, looked up in the list of its group.\<close>

definition member_enabled :: "int \<Rightarrow> int \<Rightarrow> svc \<Rightarrow> bool result" where
  "member_enabled i mid s = bind_result (ListGroupMembers i s) (\<lambda>ms. case find (\<lambda>m. gmv_id m = mid) ms of
     None \<Rightarrow> Inl (ErrNotFound '''') | Some m \<Rightarrow> Inr (gmv_enabled m))"

definition updateGroupMember :: handler where
  "updateGroupMember env q = groupMemberParams env q (\<lambda>i mid.
     with_body env q (strict_obj [''enabled''] (boolp_field ''enabled'')) (\<lambda>en.
     enabled_or env en (member_enabled i mid) (\<lambda>en.
     with_call env (UpdateGroupMember (he_clock env 1) i mid en) (\<lambda>m. reply env 200 (group_member_json m)))))"

definition deleteGroupMember :: handler where
  "deleteGroupMember env q = groupMemberParams env q (\<lambda>i mid.
     with_call env (DeleteGroupMember i mid) (\<lambda>_. no_content))"

definition reorderGroupMembers :: handler where
  "reorderGroupMembers env q = with_id env (idParam q) ''invalid id'' (\<lambda>i.
     with_body env q (strict_obj [''member_ids''] (list_field id_value ''member_ids'')) (\<lambda>ids.
     with_call env (ReorderGroupMembers (he_clock env 1) i ids) (\<lambda>_.
     with_result env (ListGroupMembers i) (\<lambda>ms. reply env 200 (JArr (map group_member_json ms))))))"

definition setGroupSelection :: handler where
  "setGroupSelection env q = with_id env (idParam q) ''invalid id'' (\<lambda>i.
     with_body env q (strict_obj [''selection''] (str_field ''selection'')) (\<lambda>sel.
     with_call env (SetGroupSelection (he_clock env 1) i sel) (\<lambda>g. reply env 200 (group_json g))))"

section \<open>keys.go\<close>

definition listKeys :: handler where
  "listKeys env q = reply_list env (nil_list api_key_json) ListAPIKeys"

definition createKey :: handler where
  "createKey env q = with_body env q (strict_obj [''name''] (str_field ''name'')) (\<lambda>name.
     with_call env (CreateAPIKey (he_pw env) (he_b64 env) (he_clock env 1) (he_random env) name) (\<lambda>(k, secret).
     reply env 201 (JObj [(''key'', api_key_json k), (''secret'', JStr secret)])))"

definition revokeKey :: handler where
  "revokeKey env q = with_id env (idParam q) ''invalid id'' (\<lambda>i.
     with_call env (RevokeAPIKey (he_clock env 1) i) (\<lambda>_. reply env 200 (JObj [(''revoked'', JBool True)])))"

section \<open>promptrules.go\<close>

definition decode_target :: "json \<Rightarrow> PromptRuleTarget option" where
  "decode_target = strict_obj [''target_type'', ''target_id'', ''label''] (\<lambda>kvs.
     obind (str_field ''target_type'' kvs) (\<lambda>t. obind (int_field ''target_id'' kvs) (\<lambda>i.
     obind (str_field ''label'' kvs) (\<lambda>l. Some \<lparr>tg_type = t, tg_id = i, tg_label = l\<rparr>))))"

definition decode_ruleInput :: "json \<Rightarrow> PromptRuleInput option" where
  "decode_ruleInput = strict_obj [''name'', ''prompt'', ''inherit'', ''enabled'', ''targets''] (\<lambda>kvs.
     obind (str_field ''name'' kvs) (\<lambda>n. obind (str_field ''prompt'' kvs) (\<lambda>p.
     obind (bool_field ''inherit'' kvs) (\<lambda>i. obind (bool_field ''enabled'' kvs) (\<lambda>e.
     obind (list_field decode_target ''targets'' kvs) (\<lambda>ts.
       Some \<lparr>in_name = n, in_prompt = p, in_inherit = i, in_enabled = e, in_targets = ts\<rparr>))))))"

definition rules_answer :: "http_env \<Rightarrow> api \<Rightarrow> resp_writer \<Rightarrow> api \<times> resp_writer" where
  "rules_answer env a = (case ListPromptRules (api_svc a) of
     Inl e \<Rightarrow> fail env 500 ''could not list prompt rules'' a
   | Inr rs \<Rightarrow> reply env 200 (JArr (map prompt_rule_json rs)) a)"

definition listPromptRules :: handler where
  "listPromptRules env q = rules_answer env"

definition createPromptRule :: handler where
  "createPromptRule env q = with_body env q decode_ruleInput (\<lambda>inp.
     with_call env (CreatePromptRule (he_clock env 1) inp) (\<lambda>r. reply env 201 (prompt_rule_json r)))"

definition updatePromptRule :: handler where
  "updatePromptRule env q = with_id env (idParam q) ''invalid id'' (\<lambda>i.
     with_body env q decode_ruleInput (\<lambda>inp.
     with_call env (UpdatePromptRule (he_clock env 1) i inp) (\<lambda>r. reply env 200 (prompt_rule_json r))))"

definition deletePromptRule :: handler where
  "deletePromptRule env q = with_id env (idParam q) ''invalid id'' (\<lambda>i.
     with_call env (DeletePromptRule i) (\<lambda>_. no_content))"

definition reorderPromptRules :: handler where
  "reorderPromptRules env q = with_body env q (strict_obj [''rule_ids''] (list_field id_value ''rule_ids'')) (\<lambda>ids.
     with_call env (ReorderPromptRules (he_clock env 1) ids) (\<lambda>_. rules_answer env))"

section \<open>settings.go\<close>

definition prompt_settings :: "http_env \<Rightarrow> api \<Rightarrow> resp_writer \<Rightarrow> api \<times> resp_writer" where
  "prompt_settings env a = (case GetGlobalPrompt (api_svc a) of (txt, enabled) \<Rightarrow>
     reply env 200 (JObj [(''system_prompt'', JStr txt), (''enabled'', JBool enabled)]) a)"

definition getGlobalPrompt :: handler where
  "getGlobalPrompt env q = prompt_settings env"

definition updateGlobalPrompt :: handler where
  "updateGlobalPrompt env q = with_body env q (strict_obj [''system_prompt'', ''enabled''] (\<lambda>kvs.
       obind (str_field ''system_prompt'' kvs) (\<lambda>t. map_option (Pair t) (bool_field ''enabled'' kvs)))) (\<lambda>(txt, en).
     with_call env (SetGlobalPrompt txt en) (\<lambda>_. prompt_settings env))"

definition caveman_settings :: "http_env \<Rightarrow> api \<Rightarrow> resp_writer \<Rightarrow> api \<times> resp_writer" where
  "caveman_settings env a w = (case GetCavemanSettings (ge_caveman (he_gateway env)) (as_cave (ap_state a)) of
     (Inl e, cs) \<Rightarrow> fail env 500 ''could not load caveman settings'' (set_cave cs a) w
   | (Inr c, cs) \<Rightarrow> reply env 200 (caveman_settings_json c) (set_cave cs a) w)"

definition getCavemanSettings :: handler where
  "getCavemanSettings env q = caveman_settings env"

text \<open>A call of an operation on the service with its cached skill.\<close>

definition with_cave ::
  "http_env \<Rightarrow> (cave \<Rightarrow> unit result \<times> cave) \<Rightarrow> api \<Rightarrow> resp_writer \<Rightarrow> api \<times> resp_writer" where
  "with_cave env f a w = (case f (as_cave (ap_state a)) of
     (Inl e, cs) \<Rightarrow> fail_with env e (set_cave cs a) w
   | (Inr _, cs) \<Rightarrow> caveman_settings env (set_cave cs a) w)"

definition updateCavemanSettings :: handler where
  "updateCavemanSettings env q = with_body env q (strict_obj [''enabled'', ''level''] (\<lambda>kvs.
       obind (bool_field ''enabled'' kvs) (\<lambda>e. map_option (Pair e) (str_field ''level'' kvs)))) (\<lambda>(en, level).
     with_cave env (SetCavemanSettings (ge_caveman (he_gateway env)) en level))"

definition syncCavemanSkill :: handler where
  "syncCavemanSkill env q = with_cave env (SyncCavemanSkill (rfc3339nano 0 (he_clock env 1)) (he_fetch env))"

definition changePassword :: handler where
  "changePassword env q = with_body env q (strict_obj [''current_password'', ''new_password''] (\<lambda>kvs.
       obind (str_field ''current_password'' kvs) (\<lambda>c. map_option (Pair c) (str_field ''new_password'' kvs))))
     (\<lambda>(current, new) a w.
       case ChangeAdminPassword (he_pw env) (he_salt env) (he_clock env 1) current new (api_svc a) of
         (Inl ErrUnauthorized, s) \<Rightarrow> fail env 401 ''invalid credentials'' (set_svc s a) w
       | (Inl e, s) \<Rightarrow> fail_with env e (set_svc s a) w
       | (Inr _, s) \<Rightarrow> reply env 200 (JObj [(''changed'', JBool True)]) (set_svc s a) w)"

end
