(* ===== verification/Monitoring_Http.thy ===== *)
theory Monitoring_Http
  imports Handlers
begin

text \<open>
  internal/httpapi/monitoring.go: the parameters of the dashboard's queries, the three queries, and the
  event stream with its loop. The response writer of net/http can always flush, so the branch for one that
  cannot is left out.
\<close>

section \<open>Parameters\<close>

text \<open>strconv.ParseBool, and strconv.Atoi with its error ignored: out of range gives the nearest value.\<close>

definition parse_bool :: "string \<Rightarrow> bool option" where
  "parse_bool s = (if s \<in> {''1'', ''t'', ''T'', ''TRUE'', ''true'', ''True''} then Some True
     else if s \<in> {''0'', ''f'', ''F'', ''FALSE'', ''false'', ''False''} then Some False else None)"

definition unsigned_part :: "string \<Rightarrow> bool \<times> string" where
  "unsigned_part s = (case s of [] \<Rightarrow> (False, s)
     | c # r \<Rightarrow> if c = CHR ''-'' then (True, r) else if c = CHR ''+'' then (False, r) else (False, s))"

definition atoi_value :: "string \<Rightarrow> int" where
  "atoi_value s = (case atoi s of
     Some i \<Rightarrow> i
   | None \<Rightarrow> (case unsigned_part s of (neg, ds) \<Rightarrow>
       if dec_to_nat ds = None then 0 else if neg then - (2 ^ 63) else 2 ^ 63 - 1))"

definition scope_key :: "string \<Rightarrow> string + int option" where
  "scope_key v = (if v = '''' then Inr None
     else (case atoi v of
         Some i \<Rightarrow> if i \<le> 0 then Inl ''key_id must be a positive integer'' else Inr (Some i)
       | None \<Rightarrow> Inl ''key_id must be a positive integer''))"

definition parseMonitoringScope :: "http_req \<Rightarrow> string + Scope" where
  "parseMonitoringScope q = (let get = hq_query q; protocol = get ''protocol''; stream = get ''stream'';
       status = get ''status'' in
     case scope_key (get ''key_id'') of
       Inl e \<Rightarrow> Inl e
     | Inr key \<Rightarrow>
         if protocol \<noteq> '''' \<and> protocol \<noteq> ''openai'' \<and> protocol \<noteq> ''anthropic''
         then Inl ''protocol must be openai or anthropic''
         else if stream \<noteq> '''' \<and> parse_bool stream = None then Inl ''stream must be true or false''
         else if status \<notin> {'''', ''success'', ''failed'', ''cancelled''}
         then Inl ''status must be success, failed, or cancelled''
         else Inr \<lparr>sc_key = key, sc_provider = get ''provider'', sc_model = get ''model'', sc_protocol = protocol,
           sc_group = get ''group'', sc_stream = (if stream = '''' then None else parse_bool stream),
           sc_outcome = status\<rparr>)"

definition parseMonitoringRange :: "http_req \<Rightarrow> string + Range" where
  "parseMonitoringRange q = (let rk = hq_query q ''range''; rk = (if rk = '''' then ''daily'' else rk) in
     case parse_range rk of None \<Rightarrow> Inl ''range must be daily, monthly, or yearly'' | Some rng \<Rightarrow> Inr rng)"

section \<open>Queries\<close>

definition with_window ::
  "http_env \<Rightarrow> http_req \<Rightarrow> (Range \<Rightarrow> Scope \<Rightarrow> api \<Rightarrow> resp_writer \<Rightarrow> api \<times> resp_writer) \<Rightarrow>
    api \<Rightarrow> resp_writer \<Rightarrow> api \<times> resp_writer" where
  "with_window env q k = (case parseMonitoringRange q of
     Inl message \<Rightarrow> fail env 400 message
   | Inr rng \<Rightarrow> (case parseMonitoringScope q of Inl message \<Rightarrow> fail env 400 message | Inr sc \<Rightarrow> k rng sc))"

abbreviation api_names :: "api \<Rightarrow> int \<Rightarrow> string option" where
  "api_names a \<equiv> client_names (db (api_svc a))"

definition monitoringSummary :: handler where
  "monitoringSummary env q = with_window env q (\<lambda>rng sc a.
     reply env 200 (summary_json (he_zone env)
       (Summary (api_names a) (api_tel a) rng (he_zone env) (he_clock env 1) sc)) a)"

definition monitoringTimeseries :: handler where
  "monitoringTimeseries env q = with_window env q (\<lambda>rng sc a.
     reply env 200 (JObj [(''buckets'', JArr (map (bucket_json (he_zone env))
       (TimeSeries (api_names a) (api_tel a) rng (he_zone env) (he_clock env 1) sc)))]) a)"

definition page_number :: "string \<Rightarrow> nat" where
  "page_number s = (let p = atoi_value s in if p < 1 then 1 else nat p)"

definition page_limit :: "string \<Rightarrow> nat" where
  "page_limit s = (let p = atoi_value s in if p < 1 \<or> 100 < p then 25 else nat p)"

definition monitoringRequests :: handler where
  "monitoringRequests env q = with_window env q (\<lambda>rng sc a.
     reply env 200 (page_json (Requests (api_names a) (api_tel a) rng (he_zone env) (he_clock env 1) sc
       (page_number (hq_query q ''page'')) (page_limit (hq_query q ''page_size'')))) a)"

section \<open>The event stream\<close>

text \<open>Writes until one fails; the first one commits the status.\<close>

fun write_parts :: "string list \<Rightarrow> resp_writer \<Rightarrow> bool \<times> resp_writer" where
  "write_parts [] w = (True, w)"
| "write_parts (s # ss) w = (case raw_write s (raw_write_header 200 w) of
     (True, w') \<Rightarrow> write_parts ss w' | (False, w') \<Rightarrow> (False, w'))"

definition event_parts :: "codec \<Rightarrow> string \<times> json \<Rightarrow> string list" where
  "event_parts cd m = [''event: '' @ fst m @ [nl] @ ''data: '', enc cd (snd m), [nl, nl]]"

definition ping_text :: string where
  "ping_text = '': ping'' @ [nl, nl]"

definition hello_json :: "monitorStarted list \<Rightarrow> MonitoringRecord list \<Rightarrow> json" where
  "hello_json active recent = JObj [(''active'', JArr (map started_json active)),
     (''recent'', JArr (map record_json recent))]"

definition publish_event :: "monitorEvent \<Rightarrow> monitorHub \<Rightarrow> monitorHub" where
  "publish_event ev = (case ev of
     Request_started m \<Rightarrow> publishStarted m | Request_routed m \<Rightarrow> publishRouted m
   | Request_streaming m \<Rightarrow> publishStreaming m | Request_finished r \<Rightarrow> publishFinished r)"

text \<open>
  The loop over what wakes it. A channel that the hub has dropped is closed, and ends the loop once its
  queue is drained.
\<close>

fun event_loop :: "codec \<Rightarrow> nat \<Rightarrow> wake list \<Rightarrow> monitorHub \<Rightarrow> resp_writer \<Rightarrow> monitorHub \<times> resp_writer" where
  "event_loop cd ch [] h w = (h, w)"
| "event_loop cd ch (Leave # ws) h w = (h, w)"
| "event_loop cd ch (Ping # ws) h w = (case write_parts [ping_text] w of
     (True, w') \<Rightarrow> event_loop cd ch ws h w' | (False, w') \<Rightarrow> (h, w'))"
| "event_loop cd ch (Deliver # ws) h w = (case receive ch h of
     (Some ev, h') \<Rightarrow> (case write_parts (event_parts cd (event_message ev)) w of
         (True, w') \<Rightarrow> event_loop cd ch ws h' w' | (False, w') \<Rightarrow> (h', w'))
   | (None, h') \<Rightarrow> if channel_closed ch h' then (h', w) else event_loop cd ch ws h' w)"
| "event_loop cd ch (Published ev # ws) h w = event_loop cd ch ws (publish_event ev h) w"
| "event_loop cd ch (Joined # ws) h w = event_loop cd ch ws (snd (snd (subscribe h))) w"
| "event_loop cd ch (Parted n # ws) h w = event_loop cd ch ws (unsubscribe n h) w"

definition event_headers :: "resp_writer \<Rightarrow> resp_writer" where
  "event_headers w = w\<lparr>rw_header := header_set ''X-Accel-Buffering'' ''no'' (header_set ''Cache-Control'' ''no-store''
     (header_set ''Content-Type'' ''text/event-stream'' (rw_header w)))\<rparr>"

definition monitoringEvents :: handler where
  "monitoringEvents env q a w =
     (let (ch, active, h) = subscribe (api_hub a); cd = he_codec env;
          recent = RecentRecords (api_names a) (api_tel a) 40;
          (h', w') = (case write_parts (event_parts cd (''hello'', hello_json active recent)) (event_headers w) of
              (True, w1) \<Rightarrow> event_loop cd ch (he_wakes env) h w1 | (False, w1) \<Rightarrow> (h, w1))
      in (a\<lparr>ap_state := (ap_state a)\<lparr>as_hub := unsubscribe ch h'\<rparr>\<rparr>, w'))"

end
