(* ===== verification/Api.thy ===== *)
theory Api
  imports Monitoring_Http
begin

text \<open>
  internal/httpapi/api.go and the model list of gateway.go: the routing table of the server, the patterns
  of net/http's ServeMux, and the handler the server runs, the middleware around the table. The line
  logged for each request is left out.

  ServeMux matches the decoded segments of the path, after it has redirected a path that is not in its
  canonical form (\<open>hq_moved\<close>). The patterns without a wildcard's rivals come first, so the first match is
  the most specific one.
\<close>

section \<open>GET /v1/models\<close>

definition list_protocol :: "header \<Rightarrow> string" where
  "list_protocol h = (if cut_text ''anthropic'' (to_lower (header_get ''Accept'' h)) \<noteq> None \<or>
     header_get ''Anthropic-Version'' h \<noteq> '''' then ''anthropic'' else ''openai'')"

definition list_entry :: "string \<Rightarrow> string \<Rightarrow> time \<Rightarrow> json" where
  "list_entry protocol name created = (if protocol = ''anthropic''
     then JObj [(''id'', JStr name), (''type'', JStr ''model''), (''display_name'', JStr name),
       (''created_at'', JStr (rfc3339 0 created))]
     else JObj [(''id'', JStr name), (''object'', JStr ''model''),
       (''created'', JInt (created div nanos_per_second)), (''owned_by'', JStr ''pogu'')])"

text \<open>The listed names with their times: models of enabled providers, then groups with members.\<close>

definition active_provider :: "svc \<Rightarrow> int \<Rightarrow> bool" where
  "active_provider s i \<longleftrightarrow> list_ex (\<lambda>p. pv_id p = i \<and> pv_enabled p) (ListProviders s)"

definition listed_models :: "svc \<Rightarrow> (string \<times> time) list" where
  "listed_models s = map (\<lambda>m. (mv_public_id m, mv_created m))
     (filter (\<lambda>m. mv_enabled m \<and> active_provider s (mv_provider_id m)) (ListModels s))"

definition listed_groups :: "svc \<Rightarrow> (string \<times> time) list" where
  "listed_groups s = map (\<lambda>g. (gv_name g, gv_created g))
     (filter (\<lambda>g. gv_enabled g \<and> gv_member_count g \<noteq> 0) (ListGroups s))"

definition model_list_json :: "string \<Rightarrow> svc \<Rightarrow> json" where
  "model_list_json protocol s =
     (let entries = JArr (map (\<lambda>(n, t). list_entry protocol n t) (listed_models s @ listed_groups s)) in
      if protocol = ''anthropic''
      then JObj [(''data'', entries), (''first_id'', JNull), (''last_id'', JNull), (''has_more'', JBool False)]
      else JObj [(''object'', JStr ''list''), (''data'', entries)])"

definition models_endpoint :: handler where
  "models_endpoint env q a w =
     (let protocol = list_protocol (hq_header q) in
      case authenticateAI (he_codec env) (he_pw env) (he_clock env 1) (he_clock env 2) protocol (hq_header q) (api_svc a) w of
        (None, s, w') \<Rightarrow> (set_svc s a, w')
      | (Some _, s, w') \<Rightarrow> reply env 200 (model_list_json protocol s) (set_svc s a) w')"

section \<open>The handlers of the table\<close>

definition health :: handler where
  "health env q = reply env 200 (JObj [(''status'', JStr ''ok'')])"

definition not_found :: handler where
  "not_found env q = fail env 404 ''not found''"

text \<open>The client's request as the gateway reads it.\<close>

definition client_query :: "http_req \<Rightarrow> client_request" where
  "client_query q = \<lparr>cq_header = hq_header q, cq_body = (case hq_body q of Bytes s \<Rightarrow> Some s | _ \<Rightarrow> None)\<rparr>"

definition on_gateway ::
  "(gateway_env \<Rightarrow> client_request \<Rightarrow> api_state \<Rightarrow> resp_writer \<Rightarrow> api_state \<times> resp_writer) \<Rightarrow> handler" where
  "on_gateway f env q a w = (case f (he_gateway env) (client_query q) (ap_state a) w of
     (st, w') \<Rightarrow> (a\<lparr>ap_state := st\<rparr>, w'))"

section \<open>Patterns\<close>

definition is_wildcard :: "string \<Rightarrow> bool" where
  "is_wildcard p \<longleftrightarrow> has_prefix ''{'' p \<and> has_suffix ''}'' p"

definition wildcard_name :: "string \<Rightarrow> string" where
  "wildcard_name p = butlast (tl p)"

text \<open>A pattern that ends in a slash matches every path below it; a wildcard matches one segment.\<close>

fun match_path :: "string list \<Rightarrow> string list \<Rightarrow> (string \<times> string) list option" where
  "match_path [] [] = Some []"
| "match_path [] (s # ss) = None"
| "match_path (p # ps) [] = None"
| "match_path (p # ps) (s # ss) =
     (if p = '''' \<and> ps = [] then Some []
      else if is_wildcard p
      then (if s = '''' then None else map_option (Cons (wildcard_name p, s)) (match_path ps ss))
      else if p = s then match_path ps ss else None)"

text \<open>A pattern is a method, when there is a blank, and a path. GET stands for HEAD as well.\<close>

definition parse_pattern :: "string \<Rightarrow> string \<times> string list" where
  "parse_pattern p = (case cut_at CHR '' '' p of
     None \<Rightarrow> ('''', tl (split_on CHR ''/'' p)) | Some (m, path) \<Rightarrow> (m, tl (split_on CHR ''/'' path)))"

definition method_matches :: "string \<Rightarrow> string \<Rightarrow> bool" where
  "method_matches m method \<longleftrightarrow> m = '''' \<or> m = method \<or> (m = ''GET'' \<and> method = ''HEAD'')"

definition match_pattern :: "string \<Rightarrow> string \<Rightarrow> string list \<Rightarrow> (string \<times> string) list option" where
  "match_pattern p method segments = (case parse_pattern p of
     (m, path) \<Rightarrow> if method_matches m method then match_path path segments else None)"

text \<open>The first pattern that matches, with the values of its wildcards.\<close>

fun find_route :: "(string \<times> 'h) list \<Rightarrow> string \<Rightarrow> string list \<Rightarrow> ('h \<times> (string \<times> string) list) option" where
  "find_route [] method segments = None"
| "find_route ((p, h) # rs) method segments = (case match_pattern p method segments of
     Some vs \<Rightarrow> Some (h, vs) | None \<Rightarrow> find_route rs method segments)"

definition path_values :: "(string \<times> string) list \<Rightarrow> string \<Rightarrow> string" where
  "path_values vs k = (case map_of vs k of None \<Rightarrow> '''' | Some v \<Rightarrow> v)"

section \<open>The table\<close>

definition open_routes :: "(string \<times> handler) list" where
  "open_routes = [
     (''GET /healthz'', health),
     (''POST /v1/chat/completions'', on_gateway openAIChat),
     (''POST /v1/messages'', on_gateway anthropicMessages),
     (''GET /v1/models'', models_endpoint),
     (''POST /api/auth/login'', login),
     (''POST /api/auth/logout'', logout),
     (''GET /api/auth/me'', me),
     (''GET /api/auth/setup'', setupStatus),
     (''POST /api/auth/setup'', completeSetup)]"

definition admin_routes :: "(string \<times> handler) list" where
  "admin_routes = [
     (''POST /api/auth/password'', changePassword),
     (''GET /api/providers'', providers_list),
     (''POST /api/providers'', createProvider),
     (''GET /api/providers/{id}'', getProvider),
     (''PUT /api/providers/{id}'', updateProvider),
     (''DELETE /api/providers/{id}'', deleteProvider),
     (''POST /api/providers/{id}/test'', testProvider),
     (''GET /api/providers/{id}/keys'', listProviderKeys),
     (''POST /api/providers/{id}/keys'', createProviderKey),
     (''POST /api/providers/{id}/keys/import'', importProviderKeys),
     (''PUT /api/providers/{id}/keys/{keyId}'', updateProviderKey),
     (''DELETE /api/providers/{id}/keys/{keyId}'', deleteProviderKey),
     (''POST /api/providers/{id}/keys/{keyId}/primary'', makeProviderKeyPrimary),
     (''POST /api/providers/{id}/keys/{keyId}/test'', testProviderKey),
     (''GET /api/models'', listModels),
     (''POST /api/models'', createModel),
     (''PUT /api/models/{id}'', updateModel),
     (''DELETE /api/models/{id}'', deleteModel),
     (''GET /api/groups'', listGroups),
     (''POST /api/groups'', createGroup),
     (''GET /api/groups/{id}'', getGroup),
     (''PUT /api/groups/{id}'', updateGroup),
     (''DELETE /api/groups/{id}'', deleteGroup),
     (''GET /api/groups/{id}/members'', listGroupMembers),
     (''POST /api/groups/{id}/members'', addGroupMember),
     (''PUT /api/groups/{id}/members/{memberId}'', updateGroupMember),
     (''DELETE /api/groups/{id}/members/{memberId}'', deleteGroupMember),
     (''POST /api/groups/{id}/members/order'', reorderGroupMembers),
     (''POST /api/groups/{id}/selection'', setGroupSelection),
     (''GET /api/keys'', listKeys),
     (''POST /api/keys'', createKey),
     (''POST /api/keys/{id}/revoke'', revokeKey),
     (''GET /api/settings/prompt'', getGlobalPrompt),
     (''PUT /api/settings/prompt'', updateGlobalPrompt),
     (''GET /api/settings/caveman'', getCavemanSettings),
     (''PUT /api/settings/caveman'', updateCavemanSettings),
     (''POST /api/settings/caveman/sync'', syncCavemanSkill),
     (''GET /api/prompt-rules'', listPromptRules),
     (''POST /api/prompt-rules'', createPromptRule),
     (''POST /api/prompt-rules/order'', reorderPromptRules),
     (''PUT /api/prompt-rules/{id}'', updatePromptRule),
     (''DELETE /api/prompt-rules/{id}'', deletePromptRule),
     (''GET /api/monitoring/summary'', monitoringSummary),
     (''GET /api/monitoring/timeseries'', monitoringTimeseries),
     (''GET /api/monitoring/requests'', monitoringRequests),
     (''GET /api/monitoring/events'', monitoringEvents)]"

text \<open>The handler of the embedded files sees the request and the writer only.\<close>

definition static_files :: "(http_req \<Rightarrow> resp_writer \<Rightarrow> resp_writer) \<Rightarrow> handler" where
  "static_files static env q a w = (a, static q w)"

definition routes :: "(http_req \<Rightarrow> resp_writer \<Rightarrow> resp_writer) \<Rightarrow> (string \<times> handler) list" where
  "routes static = open_routes @ admin_routes @
     [(''/api/'', not_found), (''/v1/'', not_found), (''/'', static_files static)]"

text \<open>ServeMux.ServeHTTP; the body of a redirect is left out. The last pattern matches every path.\<close>

definition serve_mux :: "(string \<times> handler) list \<Rightarrow> handler" where
  "serve_mux table env q a w =
     (if hq_moved q then (a, raw_write_header 301 w)
      else (case find_route table (hq_method q) (hq_segments q) of
          Some (h, vs) \<Rightarrow> h env (q\<lparr>hq_values := path_values vs\<rparr>) a w
        | None \<Rightarrow> (a, raw_write_header 404 w)))"

definition Handler :: "(http_req \<Rightarrow> resp_writer \<Rightarrow> resp_writer) \<Rightarrow> handler" where
  "Handler static = authMiddleware (serve_mux (routes static))"

section \<open>Startup\<close>

text \<open>httpapi.New over the opened service, and what serveCommand does before it listens.\<close>

definition new_api :: "time \<Rightarrow> svc \<Rightarrow> tel_store \<Rightarrow> api" where
  "new_api now s tel = \<lparr>ap_state = \<lparr>as_cave = (s, None), as_tel = ReapStale now tel, as_hub = newMonitorHub\<rparr>,
     ap_attempts = [], ap_token = '''', ap_active = False\<rparr>"

definition start_server :: "crypto \<Rightarrow> nat \<Rightarrow> time \<Rightarrow> string \<Rightarrow> store \<Rightarrow> tel_store \<Rightarrow> api" where
  "start_server c masterLen now raw st tel =
     (let s = New c masterLen st; a = new_api now s tel in
      if AdminInitialized s then a else EnableSetup (GenerateSetupToken raw) a)"

end
