(* ===== verification/Server_Laws.thy ===== *)
theory Server_Laws
  imports Api Gateway_Laws Service
begin

text \<open>
  What a request of a client may do to the server. The gateway changes the service by a few of its
  operations only, which make up \<open>client_step\<close>, and keeps the tables of the telemetry and the hub
  consistent.
\<close>

section \<open>The gateway\<close>

abbreviation svc_run ::
  "crypto \<Rightarrow> (string \<Rightarrow> url_parts option) \<Rightarrow> password_prims \<Rightarrow> (string \<Rightarrow> string) \<Rightarrow> svc \<Rightarrow> svc \<Rightarrow> bool" where
  "svc_run c parse pw b64 \<equiv> (service_step c parse pw b64)\<^sup>*\<^sup>*"

text \<open>The steps a request of a client makes.\<close>

inductive client_step :: "crypto \<Rightarrow> password_prims \<Rightarrow> svc \<Rightarrow> svc \<Rightarrow> bool" for c pw where
  cl_touch_key: "client_step c pw s (TouchProviderKeyUsed now i s)"
| cl_eligible_keys: "client_step c pw s (snd (EligibleKeys c pid s))"
| cl_resolve_group: "client_step c pw s (snd (ResolveGroupTargets c name s))"
| cl_resolve_rules: "client_step c pw s (snd (ResolvePromptRules gid mid s))"
| cl_rule_by_name: "client_step c pw s (snd (PromptRuleByName name s))"
| cl_authenticate: "client_step c pw s (snd (AuthenticateAPIKey pw now now' plain s))"

abbreviation client_run :: "crypto \<Rightarrow> password_prims \<Rightarrow> svc \<Rightarrow> svc \<Rightarrow> bool" where
  "client_run c pw \<equiv> (client_step c pw)\<^sup>*\<^sup>*"

lemma client_step_service: "client_step c pw s s' \<Longrightarrow> service_step c parse pw b64 s s'"
  by (induction rule: client_step.induct) (rule service_step.intros)+

lemma client_run_service: "client_run c pw s s' \<Longrightarrow> svc_run c parse pw b64 s s'"
  by (erule rtranclp_mono [THEN predicate2D, rotated]) (rule predicate2I, rule client_step_service)

definition rec_ok :: "recording \<Rightarrow> bool" where
  "rec_ok re \<longleftrightarrow> tel_ok (re_store re) \<and> hub_ok (re_hub re)"

lemma rec_ok_parts:
  "rec_ok re \<Longrightarrow> rec_ok (re\<lparr>re_g := g\<rparr>)"
  "rec_ok re \<Longrightarrow> tel_ok (f (re_store re)) \<Longrightarrow> rec_ok (in_store f re)"
  "rec_ok re \<Longrightarrow> hub_ok (k (re_hub re)) \<Longrightarrow> rec_ok (at_hub k re)"
  by (simp_all add: rec_ok_def in_store_def at_hub_def)

lemma rec_okD: "rec_ok re \<Longrightarrow> tel_ok (re_store re)" "rec_ok re \<Longrightarrow> hub_ok (re_hub re)"
  by (simp_all add: rec_ok_def)

lemma in_store_hub [simp]: "re_hub (in_store f re) = re_hub re" "re_store (at_hub k re) = re_store re"
  by (simp_all add: in_store_def at_hub_def)

lemma rec_ok_if: "rec_ok re \<Longrightarrow> (rec_ok re \<Longrightarrow> rec_ok (f re)) \<Longrightarrow> rec_ok (if_recorded f re)"
  by (simp add: if_recorded_def)

lemma recording_ok:
  assumes "rec_ok re"
  shows "rec_ok (recordPromptRules segs re)" "rec_ok (recordGroupResolution g m re)" "rec_ok (recordDirectRoute re)"
    "rec_ok (recordAttemptStart n route k t re)" "rec_ok (recordAttemptFinish n h s c u t t' re)"
    "rec_ok (noteFirstByte t m re)" "rec_ok (end_request d st h c u t re)"
proof -
  note ok = rec_okD [OF assms]
  show "rec_ok (recordPromptRules segs re)" "rec_ok (recordGroupResolution g m re)" "rec_ok (recordDirectRoute re)"
    "rec_ok (recordAttemptStart n route k t re)" "rec_ok (recordAttemptFinish n h s c u t t' re)"
    "rec_ok (noteFirstByte t m re)"
    unfolding recordPromptRules_def recordGroupResolution_def recordDirectRoute_def recordAttemptStart_def
      recordAttemptFinish_def noteFirstByte_def Let_def
    by (auto intro!: rec_ok_if rec_ok_parts hub_ops_ok writes_ok ok assms)
  have publish: "rec_ok (publish_finished d r)" if "rec_ok r" for r
    using that rec_okD [OF that] by (auto simp: publish_finished_def split: option.split intro!: rec_ok_parts(3) hub_ops_ok)
  show "rec_ok (end_request d st h c u t re)"
    unfolding end_request_def Let_def by (intro publish rec_ok_parts(2) assms writes_ok ok)
qed

lemma endings_ok:
  assumes "rec_ok re"
  shows "rec_ok (finishSuccess first d n tr ob t t' re)" "rec_ok (finishCommittedOrCanceled first d n e tr ob t t' re)"
    "rec_ok (finishRequest d s c u t re)" "rec_ok (note_stream ob re)"
  using assms
  by (auto simp: finishSuccess_def finishCommittedOrCanceled_def finishRequest_def note_stream_def Let_def
      case_prod_unfold intro!: rec_ok_if recording_ok rec_ok_parts split: observed.split option.split)

lemma newGatewayTelemetry_ok:
  "tel_ok st \<Longrightarrow> hub_ok hub \<Longrightarrow>
     rec_ok (fst (newGatewayTelemetry nid t t' protocol key m route str kid st hub w))"
  by (auto simp: newGatewayTelemetry_def Let_def rec_ok_def StartRequest_ok hub_ops_ok split: option.split)

text \<open>The state of a request in the gateway.\<close>

definition gw_keeps ::
  "gateway_env \<Rightarrow> gateway_state \<Rightarrow> gateway_state \<Rightarrow> bool" where
  "gw_keeps env st st' \<longleftrightarrow>
     client_run (ge_crypto env) (ge_pw env) (gs_svc st) (gs_svc st') \<and>
     (rec_ok (gs_rec st) \<longrightarrow> rec_ok (gs_rec st'))"

lemma gw_keeps_refl: "gw_keeps env st st"
  by (simp add: gw_keeps_def)

lemma gw_keeps_trans: "gw_keeps env st st1 \<Longrightarrow> gw_keeps env st1 st2 \<Longrightarrow> gw_keeps env st st2"
  by (auto simp: gw_keeps_def)

lemma gw_keeps_parts:
  "(rec_ok (gs_rec st) \<Longrightarrow> rec_ok (f (gs_rec st))) \<Longrightarrow> gw_keeps env st (on_rec f st)"
  "gw_keeps env st (on_w h st)" "gw_keeps env st (st\<lparr>gs_w := w\<rparr>)"
  "client_run (ge_crypto env) (ge_pw env) (gs_svc st) (k (gs_svc st)) \<Longrightarrow> gw_keeps env st (on_svc k st)"
  by (simp_all add: gw_keeps_def on_rec_def on_w_def on_svc_def)

lemma settle_keeps: "gw_keeps env st (snd (settle env job n r st))"
proof -
  obtain err tracked ob where r: "r = (err, tracked, ob)" by (cases r)
  let ?st = "on_rec (note_stream ob) (st\<lparr>gs_w := tw_w tracked\<rparr>)"
  have st: "gw_keeps env st ?st"
    by (rule gw_keeps_trans [OF gw_keeps_parts(3) gw_keeps_parts(1)]) (rule endings_ok)
  have one: "gw_keeps env st (on_rec f ?st)" if "\<And>re. rec_ok re \<Longrightarrow> rec_ok (f re)" for f
    by (rule gw_keeps_trans [OF st gw_keeps_parts(1)]) (rule that)
  have two: "gw_keeps env st (on_w h (on_rec f' (on_rec f ?st)))"
    if f: "\<And>re. rec_ok re \<Longrightarrow> rec_ok (f re)" and f': "\<And>re. rec_ok re \<Longrightarrow> rec_ok (f' re)" for f f' h
  proof -
    have "gw_keeps env (on_rec f ?st) (on_rec f' (on_rec f ?st))" by (rule gw_keeps_parts(1)) (rule f')
    from gw_keeps_trans [OF gw_keeps_trans [OF one [OF f] this] gw_keeps_parts(2)] show ?thesis .
  qed
  show ?thesis
    unfolding settle_def r Let_def prod.case
    by (auto intro!: one two endings_ok recording_ok split: option.split)
qed

lemma try_key_keeps: "gw_keeps env st (snd (try_key env job route br n key st))"
proof -
  let ?st = "if 1 < n then on_rec (recordAttemptStart n route (kv_id key) (ge_clock env n 0)) st else st"
  have st: "gw_keeps env st ?st"
    by (auto intro: gw_keeps_parts(1) recording_ok gw_keeps_refl)
  have touch: "gw_keeps env x (on_svc (TouchProviderKeyUsed t i) x)" for t i x
    by (rule gw_keeps_parts(4)) (rule r_into_rtranclp, rule cl_touch_key)
  show ?thesis
    unfolding try_key_def Let_def
    by (auto split: sum.split intro!: gw_keeps_trans [OF st] gw_keeps_trans [OF touch settle_keeps]
        gw_keeps_parts(1) recording_ok)
qed

lemma try_keys_keeps: "gw_keeps env st (snd (try_keys env job route br keys fo st))"
proof (induction keys arbitrary: fo st)
  case (Cons key keys)
  obtain v st' where t: "try_key env job route br (fo_num fo + 1) key st = (v, st')" by fastforce
  then have "gw_keeps env st st'" using try_key_keeps by (metis snd_conv)
  with Cons gw_keeps_trans t show ?case by (auto split: verdict.split simp: Let_def)
qed (simp add: gw_keeps_refl)

lemma resolvePromptSegments_run:
  "client_run c pw s (snd (resolvePromptSegments gid mid override s))"
proof -
  have one: "client_run c pw s (snd (PromptRuleByName name s))" for name s
    by (rule r_into_rtranclp) (rule cl_rule_by_name)
  have two: "client_run c pw s (snd (ResolvePromptRules gid mid s))" for s
    by (rule r_into_rtranclp) (rule cl_resolve_rules)
  obtain r s' where p: "(if override \<noteq> '''' then PromptRuleByName override s else (None, s)) = (r, s')" by fastforce
  then have "client_run c pw s s'" using one [of s override] by (auto split: if_splits)
  with two [of s'] show ?thesis
    unfolding resolvePromptSegments_def p by (auto split: option.split)
qed

lemma target_bodies_keeps: "gw_keeps env st (snd (target_bodies job route st))"
proof -
  obtain segs sup s' where r: "resolvePromptSegments (jb_group job) (mv_id (rt_model route)) (jb_override job) (gs_svc st) =
      ((segs, sup), s')" by (metis prod.exhaust)
  then have s: "client_run (ge_crypto env) (ge_pw env) (gs_svc st) s'"
    using resolvePromptSegments_run by (metis snd_conv)
  have "gw_keeps env st (on_svc (\<lambda>_. s') st)" by (rule gw_keeps_parts(4)) (rule s)
  from gw_keeps_trans [OF this] this show ?thesis
    unfolding target_bodies_def r Let_def prod.case
    by (auto intro!: gw_keeps_trans [OF _ gw_keeps_parts(1)] recording_ok)
qed

lemma try_targets_keeps: "gw_keeps env st (snd (try_targets env job ts fo st))"
proof (induction ts arbitrary: fo st)
  case (Cons t ts)
  obtain br st1 where b: "target_bodies job (tg_route t) st = (br, st1)" by fastforce
  obtain ov fo' st2 where k: "try_keys env job (tg_route t) br (tg_keys t) fo st1 = ((ov, fo'), st2)" by (metis prod.exhaust)
  have "gw_keeps env st st2"
    using gw_keeps_trans target_bodies_keeps try_keys_keeps b k by (metis snd_conv)
  with Cons gw_keeps_trans b k show ?case by (cases ov) (auto simp: Let_def)
qed (simp add: gw_keeps_refl)

lemma run_targets_keeps: "gw_keeps env st (snd (run_targets env job ts st))"
proof -
  obtain ov fo st' where t: "try_targets env job ts \<lparr>fo_num = 0, fo_err = None, fo_status = 502\<rparr> st = ((ov, fo), st')"
    by (metis prod.exhaust)
  then have st: "gw_keeps env st st'" using try_targets_keeps by (metis snd_conv)
  have "gw_keeps env st' (exhausted env p n fo st')" for p n
    unfolding exhausted_def Let_def
    by (rule gw_keeps_trans [OF gw_keeps_parts(1) gw_keeps_parts(2)]) (rule endings_ok)
  with st gw_keeps_trans t show ?thesis by (cases ov) (auto simp: run_targets_def)
qed

definition st_keeps ::
  "gateway_env \<Rightarrow> api_state \<Rightarrow> api_state \<Rightarrow> bool" where
  "st_keeps env st st' \<longleftrightarrow>
     client_run (ge_crypto env) (ge_pw env) (fst (as_cave st)) (fst (as_cave st')) \<and>
     (tel_ok (as_tel st) \<and> hub_ok (as_hub st) \<longrightarrow> tel_ok (as_tel st') \<and> hub_ok (as_hub st'))"

lemma caveman_header_svc: "fst (snd (caveman_header dflt h cs)) = fst cs"
proof -
  have "fst (snd (GetCavemanPrompt dflt level cs)) = fst cs" for level
    by (cases "ensureCavemanSkill dflt cs") (auto simp: GetCavemanPrompt_def split: sum.split dest: ensureCavemanSkill_svc)
  moreover from this have "fst (snd (ActiveCavemanPrompt dflt cs)) = fst cs"
    by (simp add: ActiveCavemanPrompt_def Let_def)
  ultimately show ?thesis
    by (auto simp: caveman_header_def Let_def case_prod_unfold split: sum.split)
qed

lemma serve_keeps:
  "st_keeps env st (fst (serve env protocol h key ms br tg st w))"
proof -
  obtain targets g where tg: "tg = (targets, g)" by (cases tg)
  obtain re w1 where t: "newGatewayTelemetry (ge_id env) (ge_clock env 0 2) (ge_clock env 0 3) protocol key (fst ms)
      (tg_route (hd targets)) (snd ms) (kv_id (hd (tg_keys (hd targets)))) (as_tel st) (as_hub st) w = (re, w1)" by fastforce
  let ?re = "case g of Some g \<Rightarrow> recordGroupResolution g (mv_public_id (rt_model (tg_route (hd targets)))) re
    | None \<Rightarrow> recordDirectRoute re"
  obtain cave cs where c: "caveman_header (ge_caveman env) h (as_cave st) = (cave, cs)" by (rule prod.exhaust)
  then have cs: "fst cs = fst (as_cave st)" using caveman_header_svc by (metis snd_conv)
  have re: "rec_ok ?re" if "tel_ok (as_tel st)" "hub_ok (as_hub st)"
    using newGatewayTelemetry_ok [OF that] t by (metis (no_types, lifting) fst_conv option.case_eq_if recording_ok(2,3))
  have run: "gw_keeps env st0 st1" if "run_targets env job targets st0 = (fo, st1)" for job st0 fo st1
    using run_targets_keeps that by (metis snd_conv)
  have "st_keeps env st \<lparr>as_cave = gs_cave st1, as_tel = re_store (gs_rec st1), as_hub = re_hub (gs_rec st1)\<rparr>"
    if "gw_keeps env \<lparr>gs_cave = cs, gs_rec = ?re, gs_w = w1\<rparr> st1" for st1
    using that re unfolding gw_keeps_def st_keeps_def rec_ok_def by (simp add: cs)
  with run show ?thesis
    unfolding serve_def tg Let_def prod.case t c by (auto split: prod.split)
qed

lemma resolveTargets_run: "client_run c pw s (snd (resolveTargets c model s))"
proof -
  have keys: "client_run c pw s s'" if "EligibleKeys c i s = (r, s')" for i r s'
    using that cl_eligible_keys [of c pw s i] by (metis r_into_rtranclp snd_conv)
  have group: "client_run c pw s s'" if "ResolveGroupTargets c n s = (r, s')" for n r s'
    using that cl_resolve_group [of c pw s n] by (metis r_into_rtranclp snd_conv)
  show ?thesis
    by (auto simp: resolveTargets_def keys group split: option.split sum.split prod.split)
qed

lemma authenticateAI_run:
  "authenticateAI cd pw t t' protocol h s w = (r, s', w') \<Longrightarrow> client_run c pw s s'"
  using cl_authenticate [of c pw s t t' "client_secret protocol h"]
  by (auto simp: authenticateAI_def Let_def split: if_splits prod.splits sum.splits)

lemma st_keeps_svc:
  "client_run (ge_crypto env) (ge_pw env) (fst (as_cave st)) s \<Longrightarrow> st_keeps env st (st\<lparr>as_cave := (s, sk)\<rparr>)"
  "client_run (ge_crypto env) (ge_pw env) (fst (as_cave st)) s \<Longrightarrow>
     st_keeps env (st\<lparr>as_cave := (s, sk)\<rparr>) st' \<Longrightarrow> st_keeps env st st'"
  by (auto simp: st_keeps_def intro: rtranclp_trans)

theorem gateway_keeps: "st_keeps env st (fst (gateway env protocol q st w))"
proof -
  obtain s skill where st: "as_cave st = (s, skill)" by (cases "as_cave st")
  obtain r s1 w1 where auth: "authenticateAI (ge_codec env) (ge_pw env) (ge_clock env 0 0) (ge_clock env 0 1) protocol
      (cq_header q) s w = (r, s1, w1)" by (metis prod.exhaust)
  have a: "client_run (ge_crypto env) (ge_pw env) (fst (as_cave st)) s1"
    using authenticateAI_run [OF auth] by (simp add: st)
  have resolved: "client_run (ge_crypto env) (ge_pw env) (fst (as_cave st)) s2"
    if "resolveTargets (ge_crypto env) model s1 = (x, s2)" for model x s2
    using rtranclp_trans [OF a] resolveTargets_run that by (metis snd_conv)
  show ?thesis
    unfolding gateway_def st prod.case auth Let_def
    by (auto split: option.split sum.split prod.split intro!: st_keeps_svc(1) a
        dest!: resolved intro: st_keeps_svc(2) [OF _ serve_keeps])
qed

end
