(* ===== verification/Handler_Laws.thy ===== *)
theory Handler_Laws
  imports Server_Laws
begin

text \<open>
  The effect of the handlers. \<open>handles R k\<close> says that the handler part \<open>k\<close> relates the states before and
  after by \<open>R\<close> and answers the request. The locale \<open>effect\<close> derives this for every way handlers are put
  together; it is interpreted twice: for the changes the service's own operations make, and for leaving
  the stored data as it is.
\<close>

section \<open>Rules for the parts of a handler\<close>

definition answered :: "resp_writer \<Rightarrow> bool" where
  "answered w \<longleftrightarrow> rw_sent w \<noteq> None"

definition handles :: "(api \<Rightarrow> api \<Rightarrow> bool) \<Rightarrow> (api \<Rightarrow> resp_writer \<Rightarrow> api \<times> resp_writer) \<Rightarrow> bool" where
  "handles R k \<longleftrightarrow> (\<forall>a w. R a (fst (k a w)) \<and> answered (snd (k a w)))"

lemma handlesI: "(\<And>a w. R a (fst (k a w)) \<and> answered (snd (k a w))) \<Longrightarrow> handles R k"
  by (simp add: handles_def)

lemma handlesD: "handles R k \<Longrightarrow> R a (fst (k a w))" "handles R k \<Longrightarrow> answered (snd (k a w))"
  by (simp_all add: handles_def)

lemma answered_by [simp]:
  "answered (jsonWrite cd status v w)" "answered (raw_write_header status w)"
  "answered (jsonError cd status m w)" "answered (writeServiceError cd e w)"
  by (simp_all add: answered_def jsonWrite_sent jsonError_def writeServiceError_def raw_write_header_def
      split: prod.split del: not_None_eq)

lemma answers [simp]:
  "fst (reply env status v a w) = a" "answered (snd (reply env status v a w))"
  "fst (fail env status m a w) = a" "answered (snd (fail env status m a w))"
  "fst (fail_with env e a w) = a" "answered (snd (fail_with env e a w))"
  "fst (no_content a w) = a" "answered (snd (no_content a w))"
  by (simp_all add: reply_def fail_def fail_with_def no_content_def)

locale effect =
  fixes R :: "api \<Rightarrow> api \<Rightarrow> bool"
  assumes R_refl: "R a a"
    and R_trans: "R a b \<Longrightarrow> R b c \<Longrightarrow> R a c"
begin

lemma handles_answers:
  "handles R (reply env status v)" "handles R (fail env status m)" "handles R (fail_with env e)" "handles R no_content"
  by (simp_all add: handles_def R_refl)

lemma handles_list: "handles R (reply_list env f xs)"
  by (simp add: handles_def reply_list_def R_refl)

lemma handles_id: "(\<And>i. handles R (k i)) \<Longrightarrow> handles R (with_id env i m k)"
  by (simp add: handles_answers with_id_def split: option.split)

lemma handles_body: "(\<And>x. handles R (k x)) \<Longrightarrow> handles R (with_body env q decode k)"
  by (simp add: handles_answers with_body_def split: sum.split)

lemma handles_result: "(\<And>x. handles R (k x)) \<Longrightarrow> handles R (with_result env f k)"
  by (simp add: handles_def with_result_def R_refl split: sum.split)

lemma handles_enabled: "(\<And>e. handles R (k e)) \<Longrightarrow> handles R (enabled_or env b cur k)"
  by (simp add: enabled_or_def handles_result split: option.split)

lemma handles_call:
  assumes "\<And>a. R a (set_svc (snd (f (api_svc a))) a)" "\<And>x. handles R (k x)"
  shows "handles R (with_call env f k)"
proof (rule handlesI)
  fix a :: api and w
  obtain r s where f: "f (api_svc a) = (r, s)" by (rule prod.exhaust)
  with assms(1) [of a] have s: "R a (set_svc s a)" by simp
  show "R a (fst (with_call env f k a w)) \<and> answered (snd (with_call env f k a w))"
    using s R_trans [OF s] handlesD [OF assms(2)] by (simp add: with_call_def f split: sum.split)
qed

lemma handles_params: "(\<And>i m. handles R (k i m)) \<Longrightarrow> handles R (groupMemberParams env q k)"
  by (simp add: groupMemberParams_def handles_id)

lemma handles_pair: "(\<And>x y. handles R (k x y)) \<Longrightarrow> handles R (case p of (x, y) \<Rightarrow> k x y)"
  by (simp split: prod.split)

lemma handles_test: "handles R (run_test env p secret)"
  by (simp add: run_test_def handles_answers split: option.split)

lemma handles_rules_answer: "handles R (rules_answer env)"
  by (simp add: handles_def rules_answer_def R_refl split: sum.split)

lemma handles_prompt_settings: "handles R (prompt_settings env)"
  by (simp add: handles_def prompt_settings_def R_refl split: prod.split)

lemma handles_window: "(\<And>rng sc. handles R (k rng sc)) \<Longrightarrow> handles R (with_window env q k)"
  by (simp add: with_window_def handles_answers split: sum.split)

lemmas handles_rules = handles_answers handles_list handles_id handles_body handles_result handles_enabled handles_params
  handles_pair handles_test handles_rules_answer handles_prompt_settings handles_window

lemma handles_testProvider: "handles R (testProvider env q)"
proof -
  have "handles R (\<lambda>a. case ProviderPrimarySecret (he_crypto env) i (api_svc a) of
      Inl e \<Rightarrow> if is_not_found e then reply env 400 v a else fail env 500 m a
    | Inr secret \<Rightarrow> run_test env p secret a)" for i v m p
    using handlesD [OF handles_test] by (simp add: handles_def R_refl split: sum.split)
  then show ?thesis unfolding testProvider_def by (intro handles_rules)
qed

lemma handles_monitoring:
  "handles R (monitoringSummary env q)" "handles R (monitoringTimeseries env q)" "handles R (monitoringRequests env q)"
  unfolding monitoringSummary_def monitoringTimeseries_def monitoringRequests_def
  by (rule handles_window, simp add: handles_def R_refl)+

end

section \<open>Changes through the service's operations\<close>

definition served :: "http_env \<Rightarrow> api \<Rightarrow> api \<Rightarrow> bool" where
  "served env a a' \<longleftrightarrow>
     svc_run (he_crypto env) (he_parse env) (he_pw env) (he_b64 env) (api_svc a) (api_svc a') \<and>
     (tel_ok (api_tel a) \<and> hub_ok (api_hub a) \<longrightarrow> tel_ok (api_tel a') \<and> hub_ok (api_hub a')) \<and>
     ap_attempts a' = ap_attempts a \<and> ap_token a' = ap_token a \<and> ap_active a' = ap_active a"

interpretation served: effect "served env" for env
proof
  show "served env a a" for a by (simp add: served_def)
  show "served env a c" if "served env a b" "served env b c" for a b c
    using that rtranclp_trans unfolding served_def by (metis (no_types, lifting))
qed

lemma served_refl: "served env a a"
  by (rule served.R_refl)

lemma served_svc:
  "service_step (he_crypto env) (he_parse env) (he_pw env) (he_b64 env) (api_svc a) s \<Longrightarrow> served env a (set_svc s a)"
  by (auto simp: served_def)

lemma served_cave_svc:
  "fst cs = api_svc a \<Longrightarrow> served env a (set_cave cs a)"
  "service_step (he_crypto env) (he_parse env) (he_pw env) (he_b64 env) (api_svc a) (fst cs) \<Longrightarrow> served env a (set_cave cs a)"
  by (auto simp: served_def)

lemma served_caveman_settings: "handles (served env) (caveman_settings env)"
proof (rule handlesI)
  fix a :: api and w
  obtain r cs where e: "GetCavemanSettings (ge_caveman (he_gateway env)) (as_cave (ap_state a)) = (r, cs)" by (rule prod.exhaust)
  then have "fst cs = api_svc a"
    by (auto simp: GetCavemanSettings_def Let_def split: prod.splits sum.splits dest: ensureCavemanSkill_svc)
  from served_cave_svc(1) [OF this]
  show "served env a (fst (caveman_settings env a w)) \<and> answered (snd (caveman_settings env a w))"
    by (simp add: caveman_settings_def e split: sum.split)
qed

lemma served_cave:
  assumes "\<And>s sk. service_step (he_crypto env) (he_parse env) (he_pw env) (he_b64 env) s (fst (snd (f (s, sk))))"
  shows "handles (served env) (with_cave env f)"
proof (rule handlesI)
  fix a :: api and w
  obtain s sk where a: "as_cave (ap_state a) = (s, sk)" by (rule prod.exhaust)
  obtain r cs where f: "f (s, sk) = (r, cs)" by (rule prod.exhaust)
  have step: "served env a (set_cave cs a)"
    using served_cave_svc(2) [of env a cs] assms [of s sk] by (simp add: f a)
  show "served env a (fst (with_cave env f a w)) \<and> answered (snd (with_cave env f a w))"
    using served.R_trans [OF step handlesD(1) [OF served_caveman_settings]] handlesD(2) [OF served_caveman_settings] step
    by (simp add: with_cave_def f a split: sum.split)
qed

lemma served_changePassword: "handles (served env) (changePassword env q)"
proof -
  have "handles (served env) (\<lambda>a w.
       case ChangeAdminPassword (he_pw env) (he_salt env) (he_clock env 1) current new (api_svc a) of
         (Inl ErrUnauthorized, s) \<Rightarrow> fail env 401 m (set_svc s a) w
       | (Inl e, s) \<Rightarrow> fail_with env e (set_svc s a) w
       | (Inr _, s) \<Rightarrow> reply env 200 v (set_svc s a) w)" for current new m v
  proof (rule handlesI)
    fix a :: api and w
    obtain r s where c: "ChangeAdminPassword (he_pw env) (he_salt env) (he_clock env 1) current new (api_svc a) = (r, s)"
      by (rule prod.exhaust)
    have "served env a (set_svc s a)"
      by (rule served_svc) (metis c snd_conv op_change_admin)
    then show "served env a (fst (case ChangeAdminPassword (he_pw env) (he_salt env) (he_clock env 1) current new (api_svc a) of
         (Inl ErrUnauthorized, s) \<Rightarrow> fail env 401 m (set_svc s a) w
       | (Inl e, s) \<Rightarrow> fail_with env e (set_svc s a) w
       | (Inr _, s) \<Rightarrow> reply env 200 v (set_svc s a) w)) \<and>
       answered (snd (case ChangeAdminPassword (he_pw env) (he_salt env) (he_clock env 1) current new (api_svc a) of
         (Inl ErrUnauthorized, s) \<Rightarrow> fail env 401 m (set_svc s a) w
       | (Inl e, s) \<Rightarrow> fail_with env e (set_svc s a) w
       | (Inr _, s) \<Rightarrow> reply env 200 v (set_svc s a) w))"
      unfolding c by (simp split: sum.split svc_error.split)
  qed
  then show ?thesis unfolding changePassword_def by (intro served.handles_rules)
qed

lemmas served_rules = served.handles_rules served.handles_call served_svc service_step.intros

lemma served_handlers:
  "handles (served env) (providers_list env q)" "handles (served env) (createProvider env q)"
  "handles (served env) (getProvider env q)" "handles (served env) (updateProvider env q)"
  "handles (served env) (deleteProvider env q)" "handles (served env) (listProviderKeys env q)"
  "handles (served env) (createProviderKey env q)" "handles (served env) (importProviderKeys env q)"
  "handles (served env) (updateProviderKey env q)" "handles (served env) (deleteProviderKey env q)"
  "handles (served env) (makeProviderKeyPrimary env q)" "handles (served env) (testProviderKey env q)"
  "handles (served env) (listModels env q)" "handles (served env) (createModel env q)"
  "handles (served env) (updateModel env q)" "handles (served env) (deleteModel env q)"
  "handles (served env) (listGroups env q)" "handles (served env) (createGroup env q)"
  "handles (served env) (getGroup env q)" "handles (served env) (updateGroup env q)"
  "handles (served env) (deleteGroup env q)" "handles (served env) (listGroupMembers env q)"
  "handles (served env) (addGroupMember env q)" "handles (served env) (updateGroupMember env q)"
  "handles (served env) (deleteGroupMember env q)" "handles (served env) (reorderGroupMembers env q)"
  "handles (served env) (setGroupSelection env q)" "handles (served env) (listKeys env q)"
  "handles (served env) (createKey env q)" "handles (served env) (revokeKey env q)"
  "handles (served env) (listPromptRules env q)" "handles (served env) (createPromptRule env q)"
  "handles (served env) (updatePromptRule env q)" "handles (served env) (deletePromptRule env q)"
  "handles (served env) (reorderPromptRules env q)" "handles (served env) (getGlobalPrompt env q)"
  "handles (served env) (updateGlobalPrompt env q)"
  unfolding providers_list_def createProvider_def getProvider_def updateProvider_def deleteProvider_def
    listProviderKeys_def createProviderKey_def importProviderKeys_def updateProviderKey_def deleteProviderKey_def
    makeProviderKeyPrimary_def testProviderKey_def listModels_def createModel_def updateModel_def deleteModel_def
    listGroups_def createGroup_def getGroup_def updateGroup_def deleteGroup_def listGroupMembers_def addGroupMember_def
    updateGroupMember_def deleteGroupMember_def reorderGroupMembers_def setGroupSelection_def listKeys_def createKey_def
    revokeKey_def listPromptRules_def createPromptRule_def updatePromptRule_def deletePromptRule_def
    reorderPromptRules_def getGlobalPrompt_def updateGlobalPrompt_def
  by (intro served_rules)+

lemma served_others:
  "handles (served env) (testProvider env q)" "handles (served env) (getCavemanSettings env q)"
  "handles (served env) (updateCavemanSettings env q)" "handles (served env) (syncCavemanSkill env q)"
  "handles (served env) (monitoringSummary env q)" "handles (served env) (monitoringTimeseries env q)"
  "handles (served env) (monitoringRequests env q)"
proof -
  show "handles (served env) (updateCavemanSettings env q)"
    unfolding updateCavemanSettings_def by (intro served.handles_rules served_cave op_set_caveman)
  show "handles (served env) (syncCavemanSkill env q)"
    unfolding syncCavemanSkill_def by (intro served_cave op_sync_caveman)
qed (simp_all add: served.handles_testProvider served.handles_monitoring getCavemanSettings_def served_caveman_settings)

section \<open>The event stream\<close>

lemma raw_write_answered: "answered (snd (raw_write s w)) \<longleftrightarrow> answered w"
  by (simp add: raw_write_def answered_def)

lemma write_parts_answered: "answered w \<Longrightarrow> answered (snd (write_parts ss w))"
proof (induction ss arbitrary: w)
  case (Cons s ss)
  obtain b w' where r: "raw_write s (raw_write_header 200 w) = (b, w')" by (rule prod.exhaust)
  then have "answered w'" using raw_write_answered [of s "raw_write_header 200 w"] by simp
  with Cons.IH show ?case by (simp add: r split: bool.split)
qed simp

lemma write_parts_eq: "write_parts ss w = (b, w') \<Longrightarrow> answered w \<Longrightarrow> answered w'"
  using write_parts_answered [of w ss] by simp

lemma raw_write_header_twice: "raw_write_header n (raw_write_header n w) = raw_write_header n w"
  by (simp add: raw_write_header_def)

lemma write_parts_first: "ss \<noteq> [] \<Longrightarrow> write_parts ss w = (b, w') \<Longrightarrow> answered w'"
  using write_parts_answered [of "raw_write_header 200 w" ss]
  by (cases ss) (simp_all add: raw_write_header_twice)

lemma publish_event_ok: "hub_ok h \<Longrightarrow> hub_ok (publish_event ev h)"
  by (cases ev) (simp_all add: publish_event_def hub_ops_ok)

lemma event_loop_ok:
  "hub_ok h \<Longrightarrow> hub_ok (fst (event_loop cd ch ws h w))"
  "answered w \<Longrightarrow> answered (snd (event_loop cd ch ws h w))"
proof (induction cd ch ws h w rule: event_loop.induct)
  case (3 cd ch ws h w)
  { case 1 then show ?case using 3 by (simp split: prod.split bool.split) }
  { case 2 then show ?case using 3(2) write_parts_answered [OF 2, of "[ping_text]"] by (auto split: prod.split bool.split) }
next
  case (4 cd ch ws h w)
  { case 1 then show ?case using 4 receive_ok [OF 1, of ch] by (auto split: prod.split bool.split option.split) }
  { case 2 then show ?case using 4 2 write_parts_eq [OF _ 2] by (auto split: prod.split bool.split option.split) }
qed (simp_all add: publish_event_ok hub_ops_ok)

lemma served_monitoringEvents: "handles (served env) (monitoringEvents env q)"
proof (rule handlesI)
  fix a :: api and w
  obtain ch active h where sub: "subscribe (api_hub a) = (ch, active, h)" by (rule prod_cases3)
  let ?hello = "event_parts (he_codec env) (''hello'', hello_json active (RecentRecords (api_names a) (api_tel a) 40))"
  obtain b w1 where hello: "write_parts ?hello (event_headers w) = (b, w1)" by (rule prod.exhaust)
  have sent: "answered w1" using write_parts_first [OF _ hello] by (simp add: event_parts_def)
  have h: "hub_ok h" if "hub_ok (api_hub a)" using hub_ops_ok(2) [OF that] by (simp add: sub)
  obtain h' w2 where l: "event_loop (he_codec env) ch (he_wakes env) h w1 = (h', w2)" by (rule prod.exhaust)
  have "answered w2" using event_loop_ok(2) [OF sent, of "he_codec env" ch "he_wakes env" h] by (simp add: l)
  moreover have "hub_ok (unsubscribe ch h')" if "hub_ok (api_hub a)"
    using event_loop_ok(1) [OF h [OF that], of "he_codec env" ch "he_wakes env" w1] by (simp add: l hub_ops_ok)
  ultimately show "served env a (fst (monitoringEvents env q a w)) \<and> answered (snd (monitoringEvents env q a w))"
    using sent h unfolding monitoringEvents_def Let_def sub prod.case hello
    by (cases b) (simp_all add: l served_def hub_ops_ok)
qed

section \<open>The table of the administration API\<close>

lemma admin_routes_served: "(p, h) \<in> set admin_routes \<Longrightarrow> handles (served env) (h env q)"
proof -
  have "list_all (\<lambda>(p, h). handles (served env) (h env q)) admin_routes"
    unfolding admin_routes_def
    by (simp add: served_handlers served_others served_changePassword served_monitoringEvents)
  then show "(p, h) \<in> set admin_routes \<Longrightarrow> handles (served env) (h env q)"
    by (auto simp: list_all_iff)
qed

end
