(* ===== verification/Admin_Laws.thy ===== *)
theory Admin_Laws
  imports Service
begin

text \<open>
  The administrator's row in the steps of the service: only the three operations on the administrator
  write it, and none of them removes it.
\<close>

definition same_admin :: "svc \<Rightarrow> svc \<Rightarrow> bool" where
  "same_admin s s' \<longleftrightarrow> admin (db s') = admin (db s)"

lemma same_admin_refl [simp]: "same_admin s s"
  by (simp add: same_admin_def)

lemma same_admin_trans: "same_admin s t \<Longrightarrow> same_admin t u \<Longrightarrow> same_admin s u"
  by (simp add: same_admin_def)

lemma same_admin_with_db: "admin (f (db s)) = admin (db s) \<Longrightarrow> same_admin s (with_db f s)"
  by (simp add: same_admin_def)

lemma admin_CreateProviderKey: "same_admin s (snd (CreateProviderKey c now pid name secret s))"
  by (auto simp: CreateProviderKey_def Let_def intro!: same_admin_with_db split: sum.split)

lemma admin_CreateProvider: "same_admin s (snd (CreateProvider c parse now name typ prefix url key en ks s))"
proof -
  have ins: "same_admin s (with_db (insert_provider n t p u k e now) s)" for n t p u k e
    by (rule same_admin_with_db) (simp add: insert_provider_def)
  have keys: "same_admin s s2"
    if "CreateProviderKey c now i nm sec (with_db (insert_provider n t p u k e now) s) = (r, s2)"
    for i nm sec n t p u k e r s2
    using same_admin_trans [OF ins admin_CreateProviderKey] that by (metis snd_conv)
  show ?thesis
    by (auto simp: CreateProvider_def Let_def ins keys split: sum.split prod.split)
qed

lemma admin_providers:
  "same_admin s (snd (UpdateProvider parse now i name typ prefix url en ks s))"
  "same_admin s (snd (DeleteProvider i s))"
  "same_admin s (snd (UpdateProviderKey c now i name en s))"
  "same_admin s (snd (DeleteProviderKey i s))"
  "same_admin s (snd (SetProviderKeyPrimary now pid i s))"
  "same_admin s (TouchProviderKeyUsed now i s)"
  by (auto simp: UpdateProvider_def update_provider_def DeleteProvider_def delete_provider_row_def
      delete_models_where_def UpdateProviderKey_def DeleteProviderKey_def SetProviderKeyPrimary_def
      TouchProviderKeyUsed_def Let_def intro!: same_admin_with_db split: sum.split option.split)

interpretation admins: svc_frame same_admin
  by unfold_locales (auto simp: same_admin_def)

lemma insert_valids_admin: "insert_valids c now pid q vs st = Inr st' \<Longrightarrow> admin st' = admin st"
  by (induction vs arbitrary: q st) (auto split: sum.splits if_splits)

lemma admin_ImportProviderKeys: "same_admin s (snd (ImportProviderKeys c now pid txt commit s))"
  by (auto simp: ImportProviderKeys_def Let_def intro!: same_admin_with_db split: sum.split
      dest: insert_valids_admin)

lemma admin_models:
  "same_admin s (snd (CreateModel now pid name en s))"
  "same_admin s (snd (UpdateModel now i name en s))"
  "same_admin s (snd (DeleteModel i s))"
  "same_admin s (snd (SetModelScheme now i sch s))"
  by (auto simp: CreateModel_def UpdateModel_def SetModelScheme_def DeleteModel_def delete_models_where_def Let_def
      deletePromptTargetsFor_def same_admin_def split: sum.split option.split)

lemma admin_group_change:
  "same_admin s (with_db (insert_group n sel en now) s)"
  "same_admin s (with_db (update_group i f) s)"
  "same_admin s (with_db (set_members h) s)"
  by (simp_all add: same_admin_def insert_group_def update_group_def set_members_def)

lemma admin_groups:
  "same_admin s (snd (CreateGroup now name en sel s))"
  "same_admin s (snd (UpdateGroup now i name en sel s))"
  "same_admin s (snd (SetGroupSelection now i sel s))"
  "same_admin s (snd (DeleteGroup i s))"
  "same_admin s (snd (AddGroupMember now gid mid s))"
  "same_admin s (snd (UpdateGroupMember now gid i en s))"
  "same_admin s (snd (DeleteGroupMember gid i s))"
  "same_admin s (snd (ReorderGroupMembers now gid ids s))"
  by (auto simp: CreateGroup_def UpdateGroup_def SetGroupSelection_def AddGroupMember_def
      UpdateGroupMember_def DeleteGroupMember_def ReorderGroupMembers_def DeleteGroup_def Let_def
      admin_group_change split: sum.split) (simp add: same_admin_def delete_group_row_def deletePromptTargetsFor_def)

lemma admin_access:
  "same_admin s (snd (CreateAPIKey pw b64 now raw name s))"
  "same_admin s (snd (RevokeAPIKey now i s))"
  "same_admin s (snd (AuthenticateAPIKey pw now now' plain s))"
  "same_admin s (snd (CreateSession pw b64 now now' raw ttl s))"
  "same_admin s (snd (ValidateSession pw now token s))"
  "same_admin s (DeleteSession pw token s)"
  "same_admin s (snd (SetGlobalPrompt txt en s))"
  by (auto simp: CreateAPIKey_def RevokeAPIKey_def AuthenticateAPIKey_def CreateSession_def
      ValidateSession_def DeleteSession_def SetGlobalPrompt_def update_client_def Let_def set_sessions_def
      same_admin_def split: sum.split option.split)

lemma insertPromptTargets_admin: "insertPromptTargets i ts st = Inr st' \<Longrightarrow> admin st' = admin st"
  by (induction ts arbitrary: st) (auto simp: insert_target_def split: if_splits)

lemma admin_snapshot: "same_admin s (snd (promptRuleSnapshot s))"
  by (simp add: same_admin_def)

lemma admin_rules:
  "same_admin s (snd (CreatePromptRule now inp s))"
  "same_admin s (snd (UpdatePromptRule now i inp s))"
  "same_admin s (snd (DeletePromptRule i s))"
  "same_admin s (snd (ReorderPromptRules now ids s))"
  "same_admin s (snd (ResolvePromptRules gid mid s))"
  "same_admin s (snd (PromptRuleByName name s))"
  using admin_snapshot [of s] PromptRuleByName_snd [of name s]
  by (auto simp: CreatePromptRule_def UpdatePromptRule_def DeletePromptRule_def ReorderPromptRules_def
      ResolvePromptRules_snd Let_def same_admin_def insert_rule_def replace_rule_def delete_rule_row_def set_rules_def
      split: sum.split dest: insertPromptTargets_admin)

lemma admin_caveman:
  "same_admin s (fst (snd (SetCavemanSettings dflt en level (s, sk))))"
  "same_admin s (fst (snd (SyncCavemanSkill now fetched (s, sk))))"
  using caveman_writes(1) [of dflt en level "(s, sk)"] caveman_writes(2) [of now fetched "(s, sk)"]
  by (auto simp: same_admin_def put_settings_def)

lemma admin_New: "same_admin s (New c n (db s))"
proof -
  have "admin (upgrade_one c it st) = admin st" for it st
    by (simp add: upgrade_one_def Let_def split: sum.split option.split)
  then show ?thesis
    unfolding same_admin_def New_def upgradeLegacyKeyFingerprints_def svc.select_convs
    by (auto intro!: fold_preserves [where P = "\<lambda>x. admin x = admin (db s)"])
qed

lemmas admin_frames = admin_CreateProvider admin_CreateProviderKey admin_providers admins.R_EligibleKeys
  admin_ImportProviderKeys admin_models admin_groups admins.R_ResolveGroupTargets admin_access admin_rules
  admin_caveman admin_New

lemma admin_stays: "service_step c parse pw b64 s s' \<Longrightarrow> AdminInitialized s \<Longrightarrow> AdminInitialized s'"
proof -
  have kept: "same_admin s s' \<Longrightarrow> AdminInitialized s \<Longrightarrow> AdminInitialized s'" for s'
    by (simp add: AdminInitialized_def same_admin_def)
  show "service_step c parse pw b64 s s' \<Longrightarrow> AdminInitialized s \<Longrightarrow> AdminInitialized s'"
    by (induction rule: service_step.induct)
      (simp_all add: kept [OF admin_frames(1)] AdminInitialized_def SetAdminPassword_def InitializeAdmin_def ChangeAdminPassword_def
        admin_frames [unfolded same_admin_def] split: sum.split)
qed

end
