(* ===== verification/Request_Laws.thy ===== *)
theory Request_Laws
  imports Handler_Laws Admin_Laws
begin

text \<open>
  The effect of a whole request. \<open>calm\<close> relates the states around a handler that leaves the setup mode
  alone: the service has made steps of its state machine, and the telemetry, the hub and the table of
  failed logins have stayed consistent. Every handler of the table is calm, the one that completes the
  setup excepted, and that one is calm or ends the setup with an administrator.
\<close>

section \<open>The table of failed logins\<close>

definition attempt_ok :: "loginAttempt \<Rightarrow> bool" where
  "attempt_ok x \<longleftrightarrow> 0 < la_count x \<and> la_count x \<le> 12 \<and> (la_blocked x \<noteq> None \<longleftrightarrow> 5 \<le> la_count x)"

definition attempts_ok :: "api \<Rightarrow> bool" where
  "attempts_ok a \<longleftrightarrow> distinct (map fst (ap_attempts a)) \<and> (\<forall>(i, x) \<in> set (ap_attempts a). attempt_ok x)"

lemma attempts_filter: "attempts_ok a \<Longrightarrow> attempts_ok (a\<lparr>ap_attempts := filter p (ap_attempts a)\<rparr>)"
  by (auto simp: attempts_ok_def distinct_fst_filter)

lemma attempts_clear: "attempts_ok a \<Longrightarrow> attempts_ok (clearLoginFailures i a)"
  unfolding clearLoginFailures_def by (rule attempts_filter)

lemma attempts_evict: "attempts_ok a \<Longrightarrow> attempts_ok (a\<lparr>ap_attempts := evict now (ap_attempts a)\<rparr>)"
  using attempts_filter by (simp add: evict_def)

lemma next_attempt_ok: "la_count x = 0 \<and> la_blocked x = None \<or> attempt_ok x \<Longrightarrow> attempt_ok (next_attempt now x)"
  by (auto simp: attempt_ok_def next_attempt_def Let_def min_def)

lemma attempt_of_ok: "attempts_ok a \<Longrightarrow> la_count (attempt_of i a) = 0 \<and> la_blocked (attempt_of i a) = None \<or> attempt_ok (attempt_of i a)"
  by (auto simp: attempt_of_def attempts_ok_def split: option.split dest: map_of_SomeD)

lemma attempts_record: "attempts_ok a \<Longrightarrow> attempts_ok (recordLoginFailure i t t' a)"
proof -
  assume "attempts_ok a"
  then have ok: "attempts_ok (a\<lparr>ap_attempts := evict t (ap_attempts a)\<rparr>)" (is "attempts_ok ?a") by (rule attempts_evict)
  have "attempt_ok (next_attempt t' (attempt_of i ?a))" by (rule next_attempt_ok [OF attempt_of_ok [OF ok]])
  with ok show ?thesis
    by (auto simp: recordLoginFailure_def Let_def attempts_ok_def distinct_put put_def distinct_map_filter)
qed

section \<open>Calm handlers\<close>

definition calm :: "http_env \<Rightarrow> api \<Rightarrow> api \<Rightarrow> bool" where
  "calm env a a' \<longleftrightarrow>
     svc_run (he_crypto env) (he_parse env) (he_pw env) (he_b64 env) (api_svc a) (api_svc a') \<and>
     (tel_ok (api_tel a) \<and> hub_ok (api_hub a) \<longrightarrow> tel_ok (api_tel a') \<and> hub_ok (api_hub a')) \<and>
     (attempts_ok a \<longrightarrow> attempts_ok a') \<and> ap_active a' = ap_active a \<and> ap_token a' = ap_token a"

lemma calmD:
  assumes "calm env a a'"
  shows "svc_run (he_crypto env) (he_parse env) (he_pw env) (he_b64 env) (api_svc a) (api_svc a')"
    "tel_ok (api_tel a) \<and> hub_ok (api_hub a) \<Longrightarrow> tel_ok (api_tel a') \<and> hub_ok (api_hub a')"
    "attempts_ok a \<Longrightarrow> attempts_ok a'" "ap_active a' = ap_active a" "ap_token a' = ap_token a"
  using assms unfolding calm_def by blast+

interpretation calm: effect "calm env" for env
proof
  show "calm env a a" for a by (simp add: calm_def)
  show "calm env a c" if ab: "calm env a b" and bc: "calm env b c" for a b c
    unfolding calm_def
    using rtranclp_trans [OF calmD(1) [OF ab] calmD(1) [OF bc]] calmD(2) [OF bc] calmD(2) [OF ab]
      calmD(3) [OF bc] calmD(3) [OF ab] calmD(4) [OF bc] calmD(4) [OF ab] calmD(5) [OF bc] calmD(5) [OF ab]
    by presburger
qed

lemma attempts_frame: "ap_attempts a' = ap_attempts a \<Longrightarrow> attempts_ok a' = attempts_ok a"
  by (simp add: attempts_ok_def)

lemma served_calm: "served env a a' \<Longrightarrow> calm env a a'"
  unfolding served_def calm_def using attempts_frame [of a' a] by blast

lemma calm_svc:
  "service_step (he_crypto env) (he_parse env) (he_pw env) (he_b64 env) (api_svc a) s \<Longrightarrow> calm env a (set_svc s a)"
  by (rule served_calm [OF served_svc])

lemma login_tables [simp]:
  "ap_state (recordLoginFailure i t t' a) = ap_state a" "ap_state (clearLoginFailures i a) = ap_state a"
  "ap_state (end_setup a) = ap_state a" "ap_active (recordLoginFailure i t t' a) = ap_active a"
  "ap_active (clearLoginFailures i a) = ap_active a" "ap_active (end_setup a) = False"
  "ap_token (recordLoginFailure i t t' a) = ap_token a" "ap_token (clearLoginFailures i a) = ap_token a"
  "ap_attempts (end_setup a) = ap_attempts a"
  by (simp_all add: recordLoginFailure_def clearLoginFailures_def end_setup_def Let_def)

lemma calm_tables: "calm env a (recordLoginFailure i t t' a)" "calm env a (clearLoginFailures i a)"
  by (simp_all add: calm_def attempts_record attempts_clear)

lemma calm_start_session: "start_session env q a w = (a', w') \<Longrightarrow> calm env a a'"
  "start_session env q a w = (a', w') \<Longrightarrow> same_admin (api_svc a) (api_svc a')"
proof -
  assume st: "start_session env q a w = (a', w')"
  obtain r s where c: "CreateSession (he_pw env) (he_b64 env) (he_clock env 4) (he_clock env 5) (he_random env) day (api_svc a)
      = (r, s)" by (rule prod.exhaust)
  have a': "a' = set_svc s a"
    using st by (auto simp: start_session_def c reply_def fail_def split: sum.splits)
  show "calm env a a'"
    unfolding a' by (rule calm_svc) (metis c snd_conv op_create_session)
  show "same_admin (api_svc a) (api_svc a')"
    unfolding a' using admin_access(4) c by (metis snd_conv set_svc_simps(2) fst_conv)
qed

lemma calm_validSession: "validSession env q now a = (ok, a') \<Longrightarrow> calm env a a'"
proof (cases "hq_cookie q")
  case (Some v)
  assume v: "validSession env q now a = (ok, a')"
  obtain b s where s: "ValidateSession (he_pw env) now v (api_svc a) = (b, s)" by (rule prod.exhaust)
  have "calm env a (set_svc s a)" by (rule calm_svc) (metis s snd_conv op_validate_session)
  with v s Some show ?thesis by (simp add: validSession_def)
qed (simp add: validSession_def calm.R_refl)

lemma calm_auth_handlers:
  "calm env a (fst (login env q a w))" "calm env a (fst (logout env q a w))" "calm env a (fst (me env q a w))"
  "calm env a (fst (setupStatus env q a w))"
proof -
  show "calm env a (fst (login env q a w))"
    using calm.R_trans [OF calm_tables(2) calm_start_session(1)]
    by (auto simp: login_def with_body_def Let_def calm.R_refl calm_tables split: sum.split)
      (metis prod.collapse)
  show "calm env a (fst (logout env q a w))"
    using calm_svc [OF op_delete_session] by (auto simp: logout_def calm.R_refl split: option.split)
  show "calm env a (fst (me env q a w))"
    using calm_validSession by (auto simp: me_def split: prod.split)
  show "calm env a (fst (setupStatus env q a w))" by (simp add: setupStatus_def calm.R_refl)
qed

lemma calm_models: "calm env a (fst (models_endpoint env q a w))"
proof -
  obtain r s w' where auth: "authenticateAI (he_codec env) (he_pw env) (he_clock env 1) (he_clock env 2)
      (list_protocol (hq_header q)) (hq_header q) (api_svc a) w = (r, s, w')" by (rule prod_cases3)
  have "calm env a (set_svc s a)"
    using client_run_service [OF authenticateAI_run [OF auth]] by (simp add: calm_def attempts_ok_def)
  then show ?thesis unfolding models_endpoint_def Let_def auth by (simp split: option.split)
qed

lemma calm_gateway: "calm env a (fst (on_gateway openAIChat env q a w))" "calm env a (fst (on_gateway anthropicMessages env q a w))"
proof -
  have "calm env a (a\<lparr>ap_state := st\<rparr>)" if "gateway (he_gateway env) protocol cq (ap_state a) w = (st, w')" for protocol cq st w'
    using gateway_keeps [of "he_gateway env" "ap_state a" protocol cq w] that client_run_service
    by (simp add: st_keeps_def calm_def attempts_ok_def)
  then show "calm env a (fst (on_gateway openAIChat env q a w))" "calm env a (fst (on_gateway anthropicMessages env q a w))"
    by (auto simp: on_gateway_def openAIChat_def anthropicMessages_def split: prod.split)
qed

section \<open>The end of the setup\<close>

definition setup_ended :: "http_env \<Rightarrow> api \<Rightarrow> api \<Rightarrow> bool" where
  "setup_ended env a a' \<longleftrightarrow>
     svc_run (he_crypto env) (he_parse env) (he_pw env) (he_b64 env) (api_svc a) (api_svc a') \<and>
     (tel_ok (api_tel a) \<and> hub_ok (api_hub a) \<longrightarrow> tel_ok (api_tel a') \<and> hub_ok (api_hub a')) \<and>
     (attempts_ok a \<longrightarrow> attempts_ok a') \<and> ap_active a \<and> \<not> ap_active a' \<and> AdminInitialized (api_svc a')"

lemma InitializeAdmin_cases:
  assumes "InitializeAdmin pw salt t t' password s = (r, s')"
  shows "(\<exists>m. r = Inl (ErrAlreadyExists m)) \<and> s' = s \<and> AdminInitialized s \<or>
     (\<exists>e. r = Inl e \<and> (\<forall>m. e \<noteq> ErrAlreadyExists m)) \<and> s' = s \<or> r = Inr () \<and> AdminInitialized s'"
  using assms by (auto simp: InitializeAdmin_def AdminInitialized_def HashPassword_def split: if_splits sum.splits)

lemma setup_ended_trans: "setup_ended env a b \<Longrightarrow> calm env b c \<Longrightarrow> setup_ended env a c"
proof -
  assume ab: "setup_ended env a b" and bc: "calm env b c"
  have keep: "AdminInitialized s \<Longrightarrow> svc_run c' p pw b64 s s' \<Longrightarrow> AdminInitialized s'" for c' p pw b64 s s'
    by (erule rtranclp_induct) (auto intro: admin_stays)
  from ab have "svc_run (he_crypto env) (he_parse env) (he_pw env) (he_b64 env) (api_svc a) (api_svc b)"
    and adm: "AdminInitialized (api_svc b)" by (simp_all add: setup_ended_def)
  then show ?thesis
    using rtranclp_trans [OF _ calmD(1) [OF bc]] keep [OF adm calmD(1) [OF bc]] calmD(2-5) [OF bc] ab
    unfolding setup_ended_def by presburger
qed

lemma completeSetup_effect:
  "calm env a (fst (completeSetup env q a w)) \<and> same_admin (api_svc a) (api_svc (fst (completeSetup env q a w))) \<or>
   setup_ended env a (fst (completeSetup env q a w))"
proof (cases "decodeJSON env setup_input (hq_body q)")
  case (Inl m)
  then show ?thesis by (simp add: completeSetup_def with_body_def calm.R_refl)
next
  case (Inr tp)
  obtain token password where tp: "tp = (token, password)" by (rule prod.exhaust)
  obtain r s where init: "InitializeAdmin (he_pw env) (he_salt env) (he_clock env 2) (he_clock env 3) password (api_svc a) = (r, s)"
    by (rule prod.exhaust)
  have step: "service_step (he_crypto env) (he_parse env) (he_pw env) (he_b64 env) (api_svc a) s"
    by (metis init snd_conv op_init_admin)
  have ended: "setup_ended env a (end_setup (set_svc s a))" if "AdminInitialized s" "ap_active a"
    using step that by (auto simp: setup_ended_def attempts_ok_def)
  have same: "setup_ended env a (end_setup a)" if "AdminInitialized (api_svc a)" "ap_active a" "s = api_svc a"
    using ended that by simp
  have started: "setup_ended env a (fst (start_session env q (clearLoginFailures i (end_setup (set_svc s a))) w))"
    if "AdminInitialized s" "ap_active a" for i
    using setup_ended_trans [OF setup_ended_trans [OF ended [OF that] calm_tables(2)] calm_start_session(1)]
    by (metis prod.collapse)
  from InitializeAdmin_cases [OF init] show ?thesis
    by (auto simp: completeSetup_def with_body_def Inr tp Let_def calm.R_refl calm_tables init ended same started
        split: svc_error.split)
qed

end
