(* ===== verification/Route_Laws.thy ===== *)
theory Route_Laws
  imports Api
begin

text \<open>
  Which path a pattern can match. The literal front of a pattern is a prefix of every path it matches, so
  the table of the administration API is reached through paths below /api/ only, and not through the two
  paths that the middleware lets through without a session.
\<close>

text \<open>The text of a pattern's path up to its first wildcard.\<close>

fun front :: "string list \<Rightarrow> string" where
  "front [] = ''''"
| "front (p # ps) = (if (p = '''' \<and> ps = []) \<or> is_wildcard p then ''/'' else CHR ''/'' # p @ front ps)"

definition front_of :: "string \<Rightarrow> string" where
  "front_of p = front (snd (parse_pattern p))"

abbreviation segments_path :: "string list \<Rightarrow> string" where
  "segments_path ss \<equiv> concat (map (\<lambda>s. CHR ''/'' # s) ss)"

lemma match_front: "match_path ps ss = Some vs \<Longrightarrow> has_prefix (front ps) (segments_path ss)"
  by (induction ps ss arbitrary: vs rule: match_path.induct)
    (auto simp: has_prefix_iff split: if_splits)

lemma pattern_front: "match_pattern p m ss = Some vs \<Longrightarrow> has_prefix (front_of p) (segments_path ss)"
  by (auto simp: match_pattern_def front_of_def split: prod.splits if_splits dest: match_front)

lemma find_route_in:
  "find_route table m ss = Some (h, vs) \<Longrightarrow> \<exists>p. (p, h) \<in> set table \<and> match_pattern p m ss = Some vs"
  by (induction table m ss rule: find_route.induct) (auto split: option.splits)

text \<open>The patterns of the administration API.\<close>

definition below_api :: "string \<Rightarrow> bool" where
  "below_api p \<longleftrightarrow> has_prefix ''/api/'' (front_of p) \<and>
     \<not> has_prefix (front_of p) ''/api/auth/login'' \<and> \<not> has_prefix (front_of p) ''/api/auth/setup''"

lemma admin_patterns: "map fst admin_routes = [
     ''POST /api/auth/password'', ''GET /api/providers'', ''POST /api/providers'', ''GET /api/providers/{id}'',
     ''PUT /api/providers/{id}'', ''DELETE /api/providers/{id}'', ''POST /api/providers/{id}/test'',
     ''GET /api/providers/{id}/keys'', ''POST /api/providers/{id}/keys'', ''POST /api/providers/{id}/keys/import'',
     ''PUT /api/providers/{id}/keys/{keyId}'', ''DELETE /api/providers/{id}/keys/{keyId}'',
     ''POST /api/providers/{id}/keys/{keyId}/primary'', ''POST /api/providers/{id}/keys/{keyId}/test'',
     ''GET /api/models'', ''POST /api/models'', ''PUT /api/models/{id}'', ''DELETE /api/models/{id}'',
     ''GET /api/groups'', ''POST /api/groups'', ''GET /api/groups/{id}'', ''PUT /api/groups/{id}'',
     ''DELETE /api/groups/{id}'', ''GET /api/groups/{id}/members'', ''POST /api/groups/{id}/members'',
     ''PUT /api/groups/{id}/members/{memberId}'', ''DELETE /api/groups/{id}/members/{memberId}'',
     ''POST /api/groups/{id}/members/order'', ''POST /api/groups/{id}/selection'', ''GET /api/keys'',
     ''POST /api/keys'', ''POST /api/keys/{id}/revoke'', ''GET /api/settings/prompt'', ''PUT /api/settings/prompt'',
     ''GET /api/settings/caveman'', ''PUT /api/settings/caveman'', ''POST /api/settings/caveman/sync'',
     ''GET /api/prompt-rules'', ''POST /api/prompt-rules'', ''POST /api/prompt-rules/order'',
     ''PUT /api/prompt-rules/{id}'', ''DELETE /api/prompt-rules/{id}'', ''GET /api/monitoring/summary'',
     ''GET /api/monitoring/timeseries'', ''GET /api/monitoring/requests'', ''GET /api/monitoring/events'']"
  by (simp add: admin_routes_def)

lemma admin_below_api: "list_all below_api (map fst admin_routes)"
  unfolding admin_patterns by code_simp

end
