(* ===== verification/Config_Laws.thy ===== *)
theory Config_Laws
  imports Request_Laws Route_Laws
begin

text \<open>
  What a request without a session may change. The configuration is the database without the sessions
  and without the marks of use; the steps of a client and of the session operations leave it as it is.
\<close>

section \<open>The configuration\<close>

definition config :: "store \<Rightarrow> store" where
  "config st = st\<lparr>sessions := [],
     provider_keys := tbl_update (\<lambda>_. True) (\<lambda>k. k\<lparr>pk_last_used := None\<rparr>) (provider_keys st),
     client_keys := tbl_update (\<lambda>_. True) (\<lambda>k. k\<lparr>ck_last_used := None\<rparr>) (client_keys st)\<rparr>"

definition same_config :: "svc \<Rightarrow> svc \<Rightarrow> bool" where
  "same_config s s' \<longleftrightarrow> config (db s') = config (db s)"

lemma same_config_refl [simp]: "same_config s s"
  by (simp add: same_config_def)

lemma same_config_trans: "same_config s t \<Longrightarrow> same_config t u \<Longrightarrow> same_config s u"
  by (simp add: same_config_def)

lemma same_config_db: "db s' = db s \<Longrightarrow> same_config s s'"
  by (simp add: same_config_def)

lemma config_sessions [simp]: "same_config s (with_db (set_sessions f) s)"
  by (simp add: same_config_def config_def set_sessions_def)

lemma config_marks:
  "same_config s (TouchProviderKeyUsed now i s)"
  "same_config s (snd (AuthenticateAPIKey pw now now' plain s))"
  by (auto simp: TouchProviderKeyUsed_def AuthenticateAPIKey_def same_config_def config_def tbl_update_def
      update_client_def set_client_used_def Let_def split: option.split)

interpretation config: svc_frame same_config
  by unfold_locales (auto simp: same_config_def)

lemma config_rules:
  "same_config s (snd (ResolvePromptRules gid mid s))" "same_config s (snd (PromptRuleByName name s))"
proof -
  have snap: "same_config s (snd (promptRuleSnapshot s))" by (simp add: same_config_def)
  then show "same_config s (snd (ResolvePromptRules gid mid s))" by (simp add: ResolvePromptRules_snd)
  show "same_config s (snd (PromptRuleByName name s))" using snap PromptRuleByName_snd [of name s] by auto
qed

lemma client_step_config: "client_step c pw s s' \<Longrightarrow> same_config s s'"
  by (induction rule: client_step.induct)
    (simp_all add: config_marks config.R_EligibleKeys config.R_ResolveGroupTargets config_rules)

lemma client_run_config: "client_run c pw s s' \<Longrightarrow> same_config s s'"
  by (induction rule: rtranclp_induct) (auto intro: same_config_trans client_step_config)

lemma config_access:
  "same_config s (snd (CreateSession pw b64 now now' raw ttl s))"
  "same_config s (snd (ValidateSession pw now token s))"
  "same_config s (DeleteSession pw token s)"
  using same_config_trans [OF config_sessions config_sessions]
  by (auto simp: CreateSession_def ValidateSession_def DeleteSession_def Let_def split: option.split)

lemma same_config_admin: "same_config s s' \<Longrightarrow> AdminInitialized s' = AdminInitialized s"
proof -
  assume "same_config s s'"
  then have "admin (config (db s')) = admin (config (db s))" by (simp add: same_config_def)
  then show ?thesis by (simp add: config_def AdminInitialized_def)
qed

section \<open>The handlers a request reaches without a session\<close>

definition harmless :: "http_env \<Rightarrow> api \<Rightarrow> api \<Rightarrow> bool" where
  "harmless env a a' \<longleftrightarrow> calm env a a' \<and> same_config (api_svc a) (api_svc a')"

lemma harmless_same: "harmless env a a"
  by (simp add: harmless_def calm.R_refl)

lemma config_start_session:
  "start_session env q a w = (a', w') \<Longrightarrow> same_config (api_svc a) (api_svc a')"
  using config_access(1) [of "api_svc a" "he_pw env" "he_b64 env" "he_clock env 4" "he_clock env 5" "he_random env" day]
  by (auto simp: start_session_def reply_def fail_def split: prod.splits sum.splits)

lemma config_ValidateSession: "ValidateSession pw now token s = (ok, s') \<Longrightarrow> same_config s s'"
  using config_access(2) [of s pw now token] by simp

lemma harmless_validSession: "validSession env q now a = (ok, a') \<Longrightarrow> harmless env a a'"
  using calm_validSession [of env q now a ok a']
  by (auto simp: harmless_def validSession_def split: option.splits prod.splits intro: config_ValidateSession)

lemma harmless_login: "harmless env a (fst (login env q a w))"
proof -
  have "same_config (api_svc a) (api_svc (fst (start_session env q (clearLoginFailures i a) w)))" for i
    using config_start_session [of env q "clearLoginFailures i a" w] by (metis login_tables(2) prod.collapse)
  then show ?thesis
    using calm_auth_handlers(1)
    by (auto simp: harmless_def) (auto simp: login_def with_body_def Let_def split: sum.split)
qed

lemma harmless_auth_handlers:
  "harmless env a (fst (logout env q a w))" "harmless env a (fst (me env q a w))" "harmless env a (fst (setupStatus env q a w))"
proof -
  show "harmless env a (fst (logout env q a w))"
    using calm_auth_handlers(2) [of env a q w]
    by (auto simp: harmless_def logout_def config_access split: option.split)
  show "harmless env a (fst (me env q a w))"
    using harmless_validSession by (auto simp: me_def split: prod.split)
  show "harmless env a (fst (setupStatus env q a w))" by (simp add: setupStatus_def harmless_same)
qed

lemma harmless_models: "harmless env a (fst (models_endpoint env q a w))"
proof -
  obtain r s w' where auth: "authenticateAI (he_codec env) (he_pw env) (he_clock env 1) (he_clock env 2)
      (list_protocol (hq_header q)) (hq_header q) (api_svc a) w = (r, s, w')" by (rule prod_cases3)
  have "same_config (api_svc a) s" by (rule client_run_config [OF authenticateAI_run [OF auth]])
  then show ?thesis using calm_models [of env a q w]
    unfolding models_endpoint_def Let_def auth by (simp add: harmless_def split: option.split)
qed

lemma harmless_gateway:
  "harmless env a (fst (on_gateway openAIChat env q a w))" "harmless env a (fst (on_gateway anthropicMessages env q a w))"
proof -
  have "same_config (api_svc a) (fst (as_cave st))"
    if "gateway (he_gateway env) protocol cq (ap_state a) w = (st, w')" for protocol cq st w'
    using gateway_keeps [of "he_gateway env" "ap_state a" protocol cq w] that
    by (auto simp: st_keeps_def intro: client_run_config)
  then have "same_config (api_svc a) (api_svc (fst (on_gateway openAIChat env q a w)))"
    "same_config (api_svc a) (api_svc (fst (on_gateway anthropicMessages env q a w)))"
    by (auto simp: on_gateway_def openAIChat_def anthropicMessages_def split: prod.split)
  then show "harmless env a (fst (on_gateway openAIChat env q a w))" "harmless env a (fst (on_gateway anthropicMessages env q a w))"
    by (simp_all add: harmless_def calm_gateway)
qed

section \<open>A whole request\<close>

lemma routes_cases:
  assumes "(p, h) \<in> set (routes static)"
  obtains "(p, h) \<in> set admin_routes" | "p = ''POST /api/auth/setup''" "h = completeSetup"
  | "\<And>env q a w. harmless env a (fst (h env q a w))"
proof -
  have opened: "(p, h) = (''POST /api/auth/setup'', completeSetup) \<or> (\<forall>env q a w. harmless env a (fst (h env q a w)))"
    if "(p, h) \<in> set open_routes"
    using that unfolding open_routes_def
    by (auto simp: harmless_login harmless_auth_handlers harmless_models harmless_gateway harmless_same health_def)
  then show thesis using assms that
    by (auto simp: routes_def not_found_def static_files_def harmless_same)
qed

lemma admin_path:
  assumes "(p, h) \<in> set admin_routes" "match_pattern p m (hq_segments q) = Some vs"
  shows "has_prefix ''/api/'' (url_path q)" "url_path q \<noteq> ''/api/auth/login''" "url_path q \<noteq> ''/api/auth/setup''"
proof -
  have "below_api p" using assms(1) admin_below_api by (force simp: list_all_iff)
  moreover have "has_prefix (front_of p) (url_path q)"
    using pattern_front [OF assms(2)] by (simp add: url_path_def)
  ultimately show "has_prefix ''/api/'' (url_path q)" "url_path q \<noteq> ''/api/auth/login''" "url_path q \<noteq> ''/api/auth/setup''"
    by (auto simp: below_api_def) (metis append.assoc has_prefix_iff)
qed

text \<open>A request either is harmless, or carries a session, or completes the setup with the token.\<close>

definition setup_input_ok :: "http_env \<Rightarrow> http_req \<Rightarrow> api \<Rightarrow> bool" where
  "setup_input_ok env q a \<longleftrightarrow> ap_active a \<and> ap_token a \<noteq> '''' \<and>
     (case decodeJSON env setup_input (hq_body q) of Inl _ \<Rightarrow> False | Inr (token, _) \<Rightarrow> token = ap_token a)"

lemma harmless_completeSetup: "\<not> setup_input_ok env q a \<Longrightarrow> harmless env a (fst (completeSetup env q a w))"
proof -
  have "harmless env a (recordLoginFailure i t t' a)" for i t t'
    by (simp add: harmless_def calm_tables)
  then show "\<not> setup_input_ok env q a \<Longrightarrow> harmless env a (fst (completeSetup env q a w))"
    by (auto simp: setup_input_ok_def completeSetup_def with_body_def Let_def harmless_same split: sum.split prod.split)
qed

lemma mux_effect:
  assumes "serve_mux (routes static) env q a w = (a', w')"
  shows "harmless env a a' \<or>
    (has_prefix ''/api/'' (url_path q) \<and> url_path q \<noteq> ''/api/auth/login'' \<and> url_path q \<noteq> ''/api/auth/setup'' \<and> calm env a a') \<or>
    (has_prefix ''/api/auth/setup'' (url_path q) \<and> setup_input_ok env q a \<and>
      ((calm env a a' \<and> same_admin (api_svc a) (api_svc a')) \<or> setup_ended env a a'))"
proof (cases "hq_moved q \<or> find_route (routes static) (hq_method q) (hq_segments q) = None")
  case True
  then have "a' = a" using assms by (auto simp: serve_mux_def split: if_splits)
  then show ?thesis by (simp add: harmless_same)
next
  case False
  then obtain h vs where f: "find_route (routes static) (hq_method q) (hq_segments q) = Some (h, vs)" by auto
  let ?q = "q\<lparr>hq_values := path_values vs\<rparr>"
  from f False assms have a': "a' = fst (h env ?q a w)" by (simp add: serve_mux_def)
  from find_route_in [OF f] obtain p where p: "(p, h) \<in> set (routes static)" "match_pattern p (hq_method q) (hq_segments q) = Some vs"
    by blast
  from p(1) show ?thesis
  proof (cases rule: routes_cases)
    case 1
    have "calm env a a'"
      unfolding a' by (rule served_calm [OF handlesD(1) [OF admin_routes_served [OF 1]]])
    with admin_path [OF 1 p(2)] show ?thesis by simp
  next
    case 2
    have "front_of p = ''/api/auth/setup''" unfolding 2 by code_simp
    then have "has_prefix ''/api/auth/setup'' (url_path q)"
      using pattern_front [OF p(2)] by (simp add: url_path_def)
    moreover have "setup_input_ok env ?q a = setup_input_ok env q a" by (simp add: setup_input_ok_def)
    ultimately show ?thesis
      using harmless_completeSetup [of env ?q a w] completeSetup_effect [of env a ?q w]
      unfolding a' 2 by blast
  next
    case 3
    then show ?thesis by (simp add: a')
  qed
qed

lemma not_api_setup:
  "has_prefix ''/api/auth/setup'' path \<Longrightarrow> has_prefix ''/api/'' path"
proof -
  assume "has_prefix ''/api/auth/setup'' path"
  then obtain r where "path = ''/api/'' @ ''auth/setup'' @ r" by (auto simp: has_prefix_iff)
  then show "has_prefix ''/api/'' path" by (simp only: has_prefix_append)
qed

text \<open>The three ways a request can go.\<close>

lemma Handler_effect:
  assumes h: "Handler static env q a w = (a', w')"
  shows "harmless env a a' \<or>
    (\<not> ap_active a \<and> fst (validSession env q (he_clock env 0) a) \<and> calm env a a') \<or>
    (url_path q = ''/api/auth/setup'' \<and> setup_input_ok env q a \<and>
      ((calm env a a' \<and> same_admin (api_svc a) (api_svc a')) \<or> setup_ended env a a'))"
proof -
  have inner: ?thesis if "serve_mux (routes static) env q a w = (a', w')"
    "ap_active a \<Longrightarrow> url_path q = ''/api/auth/setup'' \<or> \<not> has_prefix ''/api/'' (url_path q)"
    "\<not> ap_active a \<Longrightarrow> \<not> has_prefix ''/api/'' (url_path q) \<or> url_path q = ''/api/auth/login'' \<or> url_path q = ''/api/auth/setup''"
    using mux_effect [OF that(1)] that(2,3) not_api_setup [of "url_path q"] by (auto simp: setup_input_ok_def)
  show ?thesis
  proof (cases "ap_active a")
    case True
    with h inner harmless_same show ?thesis
      by (auto simp: Handler_def authMiddleware_def setupRequired_def Let_def fail_def split: if_splits)
  next
    case False
    obtain ok b where v: "validSession env q (he_clock env 0) a = (ok, b)" by (rule prod.exhaust)
    then have b: "harmless env a b" by (rule harmless_validSession)
    have inside: "calm env a a'" if "serve_mux (routes static) env q b w = (a', w')"
    proof -
      have "ap_active b = ap_active a" using b by (simp add: harmless_def calm_def)
      with False mux_effect [OF that] have "calm env b a'" by (auto simp: harmless_def setup_input_ok_def)
      with b show ?thesis unfolding harmless_def using calm.R_trans by blast
    qed
    show ?thesis
      using h False inner b inside v
      by (cases ok) (auto simp: Handler_def authMiddleware_def setupRequired_def Let_def fail_def split: if_splits)
  qed
qed

end
