(* ===== verification/Control.thy ===== *)
theory Control
  imports Http
begin

text \<open>
  internal/control: the protocol of the control socket, one JSON request and one JSON response per line;
  the operations behind it (ops.go); the server's side of a connection (server.go) and the client's
  (client.go). Opening, securing and removing the socket are left out. A connection that breaks is one
  whose input ends.
\<close>

section \<open>types.go\<close>

record ctl_request =
  ct_op :: string
  ct_id :: int
  ct_name :: string
  ct_type :: string
  ct_prefix :: string
  ct_base_url :: string
  ct_key_selection :: string
  ct_api_key :: "string option"
  ct_secret :: "string option"
  ct_text :: string
  ct_preview :: bool
  ct_enabled :: "bool option"
  ct_provider_id :: int

definition no_request :: ctl_request where
  "no_request = \<lparr>ct_op = '''', ct_id = 0, ct_name = '''', ct_type = '''', ct_prefix = '''', ct_base_url = '''',
     ct_key_selection = '''', ct_api_key = None, ct_secret = None, ct_text = '''', ct_preview = False,
     ct_enabled = None, ct_provider_id = 0\<rparr>"

text \<open>The struct's tags: everything but the operation is left out when it is zero.\<close>

definition omit_zero :: "string \<Rightarrow> int \<Rightarrow> obj" where
  "omit_zero k i = (if i = 0 then [] else [(k, JInt i)])"

definition omit_false :: "string \<Rightarrow> bool \<Rightarrow> obj" where
  "omit_false k b = (if b then [(k, JBool True)] else [])"

definition request_json :: "ctl_request \<Rightarrow> json" where
  "request_json r = JObj ([(''op'', JStr (ct_op r))] @ omit_zero ''id'' (ct_id r) @ omit_empty ''name'' (ct_name r) @
     omit_empty ''type'' (ct_type r) @ omit_empty ''prefix'' (ct_prefix r) @ omit_empty ''base_url'' (ct_base_url r) @
     omit_empty ''key_selection'' (ct_key_selection r) @ omit_nil ''api_key'' JStr (ct_api_key r) @
     omit_nil ''secret'' JStr (ct_secret r) @ omit_empty ''text'' (ct_text r) @
     omit_false ''preview'' (ct_preview r) @ omit_nil ''enabled'' JBool (ct_enabled r) @
     omit_zero ''provider_id'' (ct_provider_id r))"

definition request_fields :: "obj \<Rightarrow> ctl_request option" where
  "request_fields kvs =
     Option.bind (str_field ''op'' kvs) (\<lambda>op. Option.bind (int_field ''id'' kvs) (\<lambda>i.
     Option.bind (str_field ''name'' kvs) (\<lambda>name. Option.bind (str_field ''type'' kvs) (\<lambda>t.
     Option.bind (str_field ''prefix'' kvs) (\<lambda>p. Option.bind (str_field ''base_url'' kvs) (\<lambda>u.
     Option.bind (str_field ''key_selection'' kvs) (\<lambda>ks. Option.bind (strp_field ''api_key'' kvs) (\<lambda>ak.
     Option.bind (strp_field ''secret'' kvs) (\<lambda>sec. Option.bind (str_field ''text'' kvs) (\<lambda>txt.
     Option.bind (bool_field ''preview'' kvs) (\<lambda>pre. Option.bind (boolp_field ''enabled'' kvs) (\<lambda>en.
     Option.bind (int_field ''provider_id'' kvs) (\<lambda>pid.
       Some \<lparr>ct_op = op, ct_id = i, ct_name = name, ct_type = t, ct_prefix = p, ct_base_url = u,
         ct_key_selection = ks, ct_api_key = ak, ct_secret = sec, ct_text = txt, ct_preview = pre,
         ct_enabled = en, ct_provider_id = pid\<rparr>)))))))))))))"

text \<open>A struct without DisallowUnknownFields.\<close>

definition decode_request :: "json \<Rightarrow> ctl_request option" where
  "decode_request v = (case v of JNull \<Rightarrow> Some no_request | JObj kvs \<Rightarrow> request_fields kvs | _ \<Rightarrow> None)"

record ctl_response =
  cp_ok :: bool
  cp_result :: "json option"
  cp_error :: "(string \<times> string) option"

definition ctl_error_json :: "string \<times> string \<Rightarrow> json" where
  "ctl_error_json e = JObj [(''code'', JStr (fst e)), (''message'', JStr (snd e))]"

definition response_json :: "ctl_response \<Rightarrow> json" where
  "response_json r = JObj ([(''ok'', JBool (cp_ok r))] @ opt_key ''result'' (cp_result r) @
     omit_nil ''error'' ctl_error_json (cp_error r))"

definition TelemetryLimit :: nat where "TelemetryLimit = 50"

definition status_json :: "nat \<Rightarrow> nat \<Rightarrow> nat \<Rightarrow> json" where
  "status_json ps ms ks = JObj [(''providers'', JInt (int ps)), (''models'', JInt (int ms)), (''keys'', JInt (int ks))]"

definition test_json :: "bool \<Rightarrow> string \<Rightarrow> json" where
  "test_json ok message = JObj [(''ok'', JBool ok), (''message'', JStr message)]"

section \<open>The telemetry's structs, which have no tags\<close>

definition tel_usage_json :: "TokenUsage \<Rightarrow> json" where
  "tel_usage_json u = JObj [(''Input'', nullable JInt (us_input u)), (''Output'', nullable JInt (us_output u)),
     (''Total'', nullable JInt (us_total u))]"

definition tel_attempt_json :: "tel_attempt \<Rightarrow> json" where
  "tel_attempt_json a = JObj [(''RequestID'', JStr (ta_request a)), (''Number'', JInt (int (ta_number a))),
     (''ProviderID'', JInt (ta_provider a)), (''ProviderName'', JStr (ta_provider_name a)),
     (''ProviderPrefix'', JStr (ta_provider_prefix a)), (''ProviderType'', JStr (ta_provider_type a)),
     (''ModelID'', JInt (ta_model a)), (''UpstreamModel'', JStr (ta_upstream_model a)),
     (''CredentialID'', JInt (ta_credential a)), (''StartedAt'', JTime (ta_started a)),
     (''CompletedAt'', nullable JTime (ta_completed a)), (''DurationMS'', nullable JInt (ta_duration a)),
     (''HTTPStatus'', nullable JInt (ta_http a)), (''Success'', JBool (ta_success a)),
     (''ErrorCategory'', JStr (category_text (ta_category a))), (''Usage'', tel_usage_json (ta_usage a))]"

definition tel_request_fields :: "tel_request \<Rightarrow> obj" where
  "tel_request_fields r = [(''ID'', JStr (tr_id r)), (''Protocol'', JStr (tr_protocol r)),
     (''PublicModel'', JStr (tr_public r)), (''ResolvedModel'', nullable JStr (tr_resolved r)),
     (''ServedModel'', nullable JStr (tr_served r)), (''GroupID'', nullable JInt (tr_group r)),
     (''GroupName'', nullable JStr (tr_group_name r)), (''Streaming'', JBool (tr_streaming r)),
     (''ClientKeyID'', nullable JInt (tr_key r)), (''ClientKeyName'', nullable JStr (tr_key_name r)),
     (''Status'', JStr (tr_status r)), (''HTTPStatus'', nullable JInt (tr_http r)),
     (''ErrorCategory'', JStr (category_text (tr_category r))), (''StartedAt'', JTime (tr_started r)),
     (''CompletedAt'', nullable JTime (tr_completed r)), (''DurationMS'', nullable JInt (tr_duration r)),
     (''TTFTMS'', nullable JInt (tr_ttft r)), (''UpstreamMS'', nullable JInt (tr_upstream r)),
     (''Usage'', tel_usage_json (tr_usage r))]"

definition tel_entry_json :: "tel_request \<times> tel_attempt list \<times> PromptRuleRef list \<Rightarrow> json" where
  "tel_entry_json e = (case e of (r, as, ps) \<Rightarrow> JObj (tel_request_fields r @
     [(''Attempts'', nil_list tel_attempt_json as), (''Prompts'', nil_list prompt_ref_json ps)]))"

section \<open>ops.go\<close>

text \<open>
  The outside of the server: as for the administration API; the tester is absent in a server built
  without one, and so is the telemetry.
\<close>

record ctl_env =
  ce_crypto :: crypto
  ce_pw :: password_prims
  ce_codec :: codec
  ce_decode :: "string \<Rightarrow> (json \<times> string) option"
  ce_parse :: "string \<Rightarrow> url_parts option"
  ce_b64 :: "string \<Rightarrow> string"
  ce_random :: string
  ce_now :: time
  ce_tester :: "(Provider \<Rightarrow> string \<Rightarrow> go_error option) option"
  ce_tel :: "tel_store option"

type_synonym ctl_step = "svc \<Rightarrow> json result \<times> svc"

definition valueOrEmpty :: "string option \<Rightarrow> string" where
  "valueOrEmpty v = (case v of None \<Rightarrow> '''' | Some s \<Rightarrow> s)"

text \<open>A read, a call that returns a value, a call that returns an error only, and a sequence.\<close>

definition reads :: "(svc \<Rightarrow> json result) \<Rightarrow> ctl_step" where
  "reads f s = (f s, s)"

definition calls :: "('x \<Rightarrow> json) \<Rightarrow> (svc \<Rightarrow> 'x result \<times> svc) \<Rightarrow> ctl_step" where
  "calls j f s = (case f s of (r, s') \<Rightarrow> (map_sum id j r, s'))"

definition and_then :: "(svc \<Rightarrow> 'x result) \<Rightarrow> ('x \<Rightarrow> ctl_step) \<Rightarrow> ctl_step" where
  "and_then f k s = (case f s of Inl e \<Rightarrow> (Inl e, s) | Inr x \<Rightarrow> k x s)"

text \<open>The enabled flag of an update: the given one, or the current one.\<close>

definition inherit_enabled :: "ctl_request \<Rightarrow> (svc \<Rightarrow> bool result) \<Rightarrow> (bool \<Rightarrow> ctl_step) \<Rightarrow> ctl_step" where
  "inherit_enabled r current k = (case ct_enabled r of Some e \<Rightarrow> k e | None \<Rightarrow> and_then current k)"

definition default_enabled :: "ctl_request \<Rightarrow> bool" where
  "default_enabled r = (case ct_enabled r of None \<Rightarrow> True | Some e \<Rightarrow> e)"

definition run_tester :: "(Provider \<Rightarrow> string \<Rightarrow> go_error option) \<Rightarrow> Provider \<Rightarrow> string \<Rightarrow> json" where
  "run_tester test p secret = (case test p secret of
     Some e \<Rightarrow> test_json False ''provider connection failed'' | None \<Rightarrow> test_json True ''connection successful'')"

definition with_tester :: "ctl_env \<Rightarrow> ((Provider \<Rightarrow> string \<Rightarrow> go_error option) \<Rightarrow> ctl_step) \<Rightarrow> ctl_step" where
  "with_tester env k = (case ce_tester env of
     None \<Rightarrow> reads (\<lambda>_. Inl (OtherErr ''provider connectivity test unavailable'')) | Some test \<Rightarrow> k test)"

definition no_value :: "'x \<Rightarrow> json" where
  "no_value x = JNull"

definition provider_ops :: "ctl_env \<Rightarrow> ctl_request \<Rightarrow> (string \<times> ctl_step) list" where
  "provider_ops env r = [
     (''provider.list'', reads (\<lambda>s. Inr (nil_list provider_json (ListProviders s)))),
     (''provider.get'', reads (\<lambda>s. map_sum id provider_json (GetProvider (ct_id r) s))),
     (''provider.create'', calls provider_json (CreateProvider (ce_crypto env) (ce_parse env) (ce_now env)
        (ct_name r) (ct_type r) (ct_prefix r) (ct_base_url r) (valueOrEmpty (ct_api_key r)) (default_enabled r)
        [ct_key_selection r])),
     (''provider.update'', inherit_enabled r (\<lambda>s. map_sum id pv_enabled (GetProvider (ct_id r) s)) (\<lambda>en.
        calls provider_json (UpdateProvider (ce_parse env) (ce_now env) (ct_id r) (ct_name r) (ct_type r)
          (ct_prefix r) (ct_base_url r) en [ct_key_selection r]))),
     (''provider.delete'', calls no_value (DeleteProvider (ct_id r))),
     (''provider.test'', with_tester env (\<lambda>test. and_then (GetProvider (ct_id r)) (\<lambda>p.
        reads (\<lambda>s. Inr (case ProviderPrimarySecret (ce_crypto env) (pv_id p) s of
          Inl _ \<Rightarrow> test_json False ''no enabled provider credentials''
        | Inr secret \<Rightarrow> run_tester test p secret)))))]"

definition provider_key_ops :: "ctl_env \<Rightarrow> ctl_request \<Rightarrow> (string \<times> ctl_step) list" where
  "provider_key_ops env r = [
     (''provider_key.list'', reads (\<lambda>s. Inr (nil_list provider_key_json
        (ListProviderKeys (ce_crypto env) (ct_provider_id r) s)))),
     (''provider_key.get'', reads (\<lambda>s. map_sum id provider_key_json (GetProviderKey (ce_crypto env) (ct_id r) s))),
     (''provider_key.create'', calls provider_key_json (CreateProviderKey (ce_crypto env) (ce_now env)
        (ct_provider_id r) (ct_name r)
        (let sec = valueOrEmpty (ct_secret r) in if sec = '''' then valueOrEmpty (ct_api_key r) else sec))),
     (''provider_key.update'', inherit_enabled r
        (\<lambda>s. map_sum id kv_enabled (GetProviderKey (ce_crypto env) (ct_id r) s)) (\<lambda>en.
        calls provider_key_json (UpdateProviderKey (ce_crypto env) (ce_now env) (ct_id r) (ct_name r) en))),
     (''provider_key.delete'', calls no_value (DeleteProviderKey (ct_id r))),
     (''provider_key.primary'', calls no_value (SetProviderKeyPrimary (ce_now env) (ct_provider_id r) (ct_id r))),
     (''provider_key.test'', with_tester env (\<lambda>test.
        and_then (GetProviderKey (ce_crypto env) (ct_id r)) (\<lambda>key. and_then (GetProvider (kv_provider key)) (\<lambda>p.
        reads (\<lambda>s. case ProviderKeySecret (ce_crypto env) (ct_id r) s of
          Inl _ \<Rightarrow> Inl (OtherErr ''provider credential unavailable'')
        | Inr secret \<Rightarrow> Inr (run_tester test p secret)))))),
     (''provider_key.import'', calls import_result_json (ImportProviderKeys (ce_crypto env) (ce_now env)
        (ct_provider_id r) (ct_text r) (\<not> ct_preview r)))]"

definition model_ops :: "ctl_env \<Rightarrow> ctl_request \<Rightarrow> (string \<times> ctl_step) list" where
  "model_ops env r = [
     (''model.list'', reads (\<lambda>s. Inr (nil_list model_json (ListModels s)))),
     (''model.get'', reads (\<lambda>s. map_sum id model_json (GetModel (ct_id r) s))),
     (''model.create'', calls model_json (CreateModel (ce_now env) (ct_provider_id r) (ct_name r) (default_enabled r))),
     (''model.update'', inherit_enabled r (\<lambda>s. map_sum id mv_enabled (GetModel (ct_id r) s)) (\<lambda>en.
        calls model_json (UpdateModel (ce_now env) (ct_id r) (ct_name r) en))),
     (''model.delete'', calls no_value (DeleteModel (ct_id r)))]"

definition key_created_json :: "APIKey \<times> string \<Rightarrow> json" where
  "key_created_json ks = JObj [(''key'', api_key_json (fst ks)), (''secret'', JStr (snd ks))]"

definition other_ops :: "ctl_env \<Rightarrow> ctl_request \<Rightarrow> (string \<times> ctl_step) list" where
  "other_ops env r = [
     (''status'', reads (\<lambda>s. Inr (status_json (length (ListProviders s)) (length (ListModels s)) (length (ListAPIKeys s))))),
     (''key.list'', reads (\<lambda>s. Inr (nil_list api_key_json (ListAPIKeys s)))),
     (''key.create'', calls key_created_json (CreateAPIKey (ce_pw env) (ce_b64 env) (ce_now env) (ce_random env) (ct_name r))),
     (''key.revoke'', calls no_value (RevokeAPIKey (ce_now env) (ct_id r))),
     (''telemetry.list'', reads (\<lambda>s. case ce_tel env of
        None \<Rightarrow> Inl (OtherErr ''telemetry unavailable'')
      | Some tel \<Rightarrow> Inr (nil_list tel_entry_json (List_requests TelemetryLimit tel))))]"

definition operations :: "ctl_env \<Rightarrow> ctl_request \<Rightarrow> (string \<times> ctl_step) list" where
  "operations env r = provider_ops env r @ provider_key_ops env r @ model_ops env r @ other_ops env r"

definition execute :: "ctl_env \<Rightarrow> ctl_request \<Rightarrow> ctl_step" where
  "execute env r = (case map_of (operations env r) (ct_op r) of
     None \<Rightarrow> reads (\<lambda>_. Inl (OtherErr (''unknown operation: '' @ ct_op r))) | Some f \<Rightarrow> f)"

definition failure :: "string \<Rightarrow> string \<Rightarrow> ctl_response" where
  "failure code message = \<lparr>cp_ok = False, cp_result = None, cp_error = Some (code, message)\<rparr>"

definition failureFor :: "svc_error \<Rightarrow> ctl_response" where
  "failureFor e = (case e of
     ErrValidation m \<Rightarrow> failure ''validation'' (svc_error_text e)
   | ErrAlreadyExists m \<Rightarrow> failure ''already_exists'' (svc_error_text e)
   | ErrNotFound m \<Rightarrow> failure ''not_found'' ''resource not found''
   | ErrUnauthorized \<Rightarrow> failure ''unauthorized'' ''unauthorized''
   | ErrForbidden \<Rightarrow> failure ''forbidden'' ''forbidden''
   | _ \<Rightarrow> if has_prefix ''unknown operation:'' (svc_error_text e) then failure ''unknown_operation'' ''unknown operation''
        else if cut_text ''unavailable'' (svc_error_text e) \<noteq> None then failure ''unavailable'' (svc_error_text e)
        else failure ''internal'' ''internal control-plane error'')"

section \<open>server.go\<close>

definition MaxLineSize :: nat where "MaxLineSize = 1048576"

definition dispatch :: "ctl_env \<Rightarrow> string \<Rightarrow> svc \<Rightarrow> ctl_response \<times> svc" where
  "dispatch env line s =
     (if line = '''' then (failure ''invalid_request'' ''request must be a JSON object'', s)
      else (case Option.bind (ce_decode env line) (\<lambda>(v, rest). map_option (\<lambda>r. (r, rest)) (decode_request v)) of
          None \<Rightarrow> (failure ''invalid_request'' ''invalid JSON request'', s)
        | Some (r, rest) \<Rightarrow>
            if \<not> list_all json_space rest
            then (failure ''invalid_request'' ''request must contain one JSON value'', s)
            else if ct_op r = '''' then (failure ''invalid_request'' ''operation is required'', s)
            else (case execute env r s of
                (Inl e, s') \<Rightarrow> (failureFor e, s')
              | (Inr v, s') \<Rightarrow> (\<lparr>cp_ok = True, cp_result = Some v, cp_error = None\<rparr>, s'))))"

text \<open>
  The next line of the input without its end, and what follows; a line that is too long, its end counted,
  and an input that ends before the line does. The slices of the reader's buffer do not show.
\<close>

datatype read_line = Line string string | TooLarge | Closed

definition readLine :: "nat \<Rightarrow> string \<Rightarrow> read_line" where
  "readLine limit input = (case cut_at nl input of
     None \<Rightarrow> if limit < length input then TooLarge else Closed
   | Some (line, rest) \<Rightarrow> if limit < length line + 1 then TooLarge else Line line rest)"

lemma readLine_shorter: "readLine limit input = Line line rest \<Longrightarrow> length rest < length input"
  by (auto simp: readLine_def cut_at_Some split: option.splits if_splits)

text \<open>The lines written to the connection.\<close>

function serveConn :: "ctl_env \<Rightarrow> string \<Rightarrow> svc \<Rightarrow> string list \<times> svc" where
  "serveConn env input s = (case readLine MaxLineSize input of
     Closed \<Rightarrow> ([], s)
   | TooLarge \<Rightarrow> ([enc (ce_codec env) (response_json (failure ''request_too_large'' ''request exceeds size limit''))], s)
   | Line line rest \<Rightarrow>
       if line = '''' then serveConn env rest s
       else (case dispatch env line s of (resp, s') \<Rightarrow>
           (case serveConn env rest s' of (out, s'') \<Rightarrow> (enc (ce_codec env) (response_json resp) # out, s''))))"
  by pat_completeness auto

termination
  by (relation "measure (\<lambda>(env, input, s). length input)") (auto dest: readLine_shorter)

declare serveConn.simps [simp del]

section \<open>client.go\<close>

datatype ctl_failure = Transport string | Remote string string

text \<open>
  The answer a client reads: the first line the server wrote, None when the connection was closed. The
  scanner refuses a line that does not fit its buffer. The result is kept as it is written, null included.
\<close>

definition raw_field :: "string \<Rightarrow> obj \<Rightarrow> json option" where
  "raw_field k kvs = map_of (rev (map (\<lambda>(j, v). (to_lower j, v)) kvs)) k"

definition decode_ctl_response :: "json \<Rightarrow> ctl_response option" where
  "decode_ctl_response v = (case v of
     JNull \<Rightarrow> Some \<lparr>cp_ok = False, cp_result = None, cp_error = None\<rparr>
   | JObj kvs \<Rightarrow> Option.bind (bool_field ''ok'' kvs) (\<lambda>ok. Option.bind (objp_field ''error'' kvs) (\<lambda>err.
       case err of
         None \<Rightarrow> Some \<lparr>cp_ok = ok, cp_result = raw_field ''result'' kvs, cp_error = None\<rparr>
       | Some e \<Rightarrow> Option.bind (str_field ''code'' e) (\<lambda>c. Option.bind (str_field ''message'' e) (\<lambda>m.
           Some \<lparr>cp_ok = ok, cp_result = raw_field ''result'' kvs, cp_error = Some (c, m)\<rparr>))))
   | _ \<Rightarrow> None)"

definition Do :: "codec \<Rightarrow> (string \<Rightarrow> string option) \<Rightarrow> ctl_request \<Rightarrow> ctl_failure + ctl_response" where
  "Do cd exch r = (let line = enc cd (request_json r) in
     if MaxLineSize < length line then Inl (Transport ''control: request exceeds size limit'')
     else (case exch (line @ [nl]) of
         None \<Rightarrow> Inl (Transport ''EOF'')
       | Some answer \<Rightarrow>
           if MaxLineSize \<le> length answer then Inl (Transport ''bufio.Scanner: token too long'')
           else (case Option.bind (dec cd answer) decode_ctl_response of
               None \<Rightarrow> Inl (Transport ''control: invalid response'')
             | Some resp \<Rightarrow> (case cp_error resp of
                 Some (code, message) \<Rightarrow> if cp_ok resp then Inr resp else Inl (Remote code message)
               | None \<Rightarrow> Inr resp))))"

text \<open>Call leaves the decoding of the result to its caller: None is a response without one.\<close>

definition Call :: "codec \<Rightarrow> (string \<Rightarrow> string option) \<Rightarrow> ctl_request \<Rightarrow> ctl_failure + json option" where
  "Call cd exch r = map_sum id cp_result (Do cd exch r)"

text \<open>A client connected to the server: the first line of its output, and the state after it.\<close>

definition connection :: "ctl_env \<Rightarrow> svc \<Rightarrow> string \<Rightarrow> string option \<times> svc" where
  "connection env s input = (case serveConn env input s of
     ([], s') \<Rightarrow> (None, s') | (line # _, s') \<Rightarrow> (Some line, s'))"

end
