(* ===== verification/Control_Laws.thy ===== *)
theory Control_Laws
  imports Control Admin_Laws
begin

text \<open>
  The operations of the control socket as steps of the service, the round trip of a request, and the
  exchange of one request between the client and the server.
\<close>

section \<open>The operations\<close>

text \<open>What an operation of the socket does to the service: a step of it, or nothing.\<close>

definition steps_only :: "ctl_env \<Rightarrow> ctl_step \<Rightarrow> bool" where
  "steps_only env f \<longleftrightarrow> (\<forall>s. snd (f s) = s \<or>
     service_step (ce_crypto env) (ce_parse env) (ce_pw env) (ce_b64 env) s (snd (f s)) \<and> same_admin s (snd (f s)))"

lemma steps_reads: "steps_only env (reads f)"
  by (simp add: steps_only_def reads_def)

lemma steps_and_then: "(\<And>x. steps_only env (k x)) \<Longrightarrow> steps_only env (and_then f k)"
  by (auto simp: steps_only_def and_then_def split: sum.split)

lemma steps_inherit: "(\<And>e. steps_only env (k e)) \<Longrightarrow> steps_only env (inherit_enabled r f k)"
  by (simp add: inherit_enabled_def steps_and_then split: option.split)

lemma steps_tester: "(\<And>t. steps_only env (k t)) \<Longrightarrow> steps_only env (with_tester env k)"
  by (simp add: with_tester_def steps_reads split: option.split)

lemma steps_calls:
  assumes "\<And>s. service_step (ce_crypto env) (ce_parse env) (ce_pw env) (ce_b64 env) s (snd (f s))"
    "\<And>s. same_admin s (snd (f s))"
  shows "steps_only env (calls j f)"
  using assms by (simp add: steps_only_def calls_def split: prod.split) (metis snd_conv)

lemmas steps_rules = steps_reads steps_and_then steps_inherit steps_tester

lemma operations_steps: "(op, f) \<in> set (operations env r) \<Longrightarrow> steps_only env f"
proof -
  have "list_all (\<lambda>(op, f). steps_only env f) (operations env r)"
    unfolding operations_def provider_ops_def provider_key_ops_def model_ops_def other_ops_def
    by (simp add: steps_rules steps_calls service_step.intros admin_frames)
  then show "(op, f) \<in> set (operations env r) \<Longrightarrow> steps_only env f" by (auto simp: list_all_iff)
qed

lemma execute_steps: "steps_only env (execute env r)"
  by (auto simp: execute_def steps_reads dest!: map_of_SomeD split: option.split intro: operations_steps)

lemma execute_admin: "same_admin s (snd (execute env r s))"
  using execute_steps [of env r] unfolding steps_only_def by (metis same_admin_refl)

lemma dispatch_steps:
  "snd (dispatch env line s) = s \<or> (\<exists>r. snd (dispatch env line s) = snd (execute env r s))"
  by (auto simp: dispatch_def split: option.splits prod.splits sum.splits) (metis snd_conv)+

section \<open>The round trip of a request\<close>

abbreviation look :: "string \<Rightarrow> obj \<Rightarrow> json option" where
  "look \<equiv> raw_field"

lemmas look_def = raw_field_def

lemma field_look: "field k kvs = (case look k kvs of None \<Rightarrow> JNull | Some v \<Rightarrow> v)"
  by (simp add: field_def look_def)

lemma look_append: "look k (a @ b) = (case look k b of None \<Rightarrow> look k a | Some v \<Rightarrow> Some v)"
  by (simp add: look_def map_add_def split: option.split)

lemma look_cons: "look k ((j, v) # b) = (case look k b of None \<Rightarrow> if k = to_lower j then Some v else None | Some v \<Rightarrow> Some v)"
  by (simp add: look_def map_add_def split: option.split)

lemma look_parts:
  "look k [] = None"
  "look k (omit_zero j i) = (if k = to_lower j \<and> i \<noteq> 0 then Some (JInt i) else None)"
  "look k (omit_empty j t) = (if k = to_lower j \<and> t \<noteq> '''' then Some (JStr t) else None)"
  "look k (omit_false j b) = (if k = to_lower j \<and> b then Some (JBool True) else None)"
  "look k (omit_nil j f x) = (if k = to_lower j then map_option f x else None)"
  by (auto simp: look_def omit_zero_def omit_empty_def omit_false_def omit_nil_def opt_key_def split: option.split)

lemma request_keys:
  "to_lower ''op'' = ''op''" "to_lower ''id'' = ''id''" "to_lower ''name'' = ''name''" "to_lower ''type'' = ''type''"
  "to_lower ''prefix'' = ''prefix''" "to_lower ''base_url'' = ''base_url''" "to_lower ''key_selection'' = ''key_selection''"
  "to_lower ''api_key'' = ''api_key''" "to_lower ''secret'' = ''secret''" "to_lower ''text'' = ''text''"
  "to_lower ''preview'' = ''preview''" "to_lower ''enabled'' = ''enabled''" "to_lower ''provider_id'' = ''provider_id''"
  by code_simp+

lemma json_int_of_JInt: "in_int64 i \<Longrightarrow> json_int (JInt i) = Some i"
  by (simp add: json_int_def JInt_def)

lemma decode_request_json:
  assumes "in_int64 (ct_id r)" "in_int64 (ct_provider_id r)"
  shows "decode_request (request_json r) = Some r"
proof -
  let ?kvs = "[(''op'', JStr (ct_op r))] @ omit_zero ''id'' (ct_id r) @ omit_empty ''name'' (ct_name r) @
     omit_empty ''type'' (ct_type r) @ omit_empty ''prefix'' (ct_prefix r) @ omit_empty ''base_url'' (ct_base_url r) @
     omit_empty ''key_selection'' (ct_key_selection r) @ omit_nil ''api_key'' JStr (ct_api_key r) @
     omit_nil ''secret'' JStr (ct_secret r) @ omit_empty ''text'' (ct_text r) @
     omit_false ''preview'' (ct_preview r) @ omit_nil ''enabled'' JBool (ct_enabled r) @
     omit_zero ''provider_id'' (ct_provider_id r)"
  note looks = field_look look_append look_cons look_parts request_keys
  have "str_field ''op'' ?kvs = Some (ct_op r)" by (simp add: str_field_def looks)
  moreover have "str_field ''name'' ?kvs = Some (ct_name r)" by (simp add: str_field_def looks)
  moreover have "str_field ''type'' ?kvs = Some (ct_type r)" by (simp add: str_field_def looks)
  moreover have "str_field ''prefix'' ?kvs = Some (ct_prefix r)" by (simp add: str_field_def looks)
  moreover have "str_field ''base_url'' ?kvs = Some (ct_base_url r)" by (simp add: str_field_def looks)
  moreover have "str_field ''key_selection'' ?kvs = Some (ct_key_selection r)" by (simp add: str_field_def looks)
  moreover have "str_field ''text'' ?kvs = Some (ct_text r)" by (simp add: str_field_def looks)
  moreover have "strp_field ''api_key'' ?kvs = Some (ct_api_key r)"
    by (cases "ct_api_key r") (simp_all add: strp_field_def looks)
  moreover have "strp_field ''secret'' ?kvs = Some (ct_secret r)"
    by (cases "ct_secret r") (simp_all add: strp_field_def looks)
  moreover have "bool_field ''preview'' ?kvs = Some (ct_preview r)" by (simp add: bool_field_def looks)
  moreover have "boolp_field ''enabled'' ?kvs = Some (ct_enabled r)"
    by (cases "ct_enabled r") (simp_all add: boolp_field_def looks)
  moreover have "int_field ''id'' ?kvs = Some (ct_id r)"
    using assms(1) json_int_of_JInt by (auto simp: int_field_def looks JInt_def)
  moreover have "int_field ''provider_id'' ?kvs = Some (ct_provider_id r)"
    using assms(2) json_int_of_JInt by (auto simp: int_field_def looks JInt_def)
  ultimately have "request_fields ?kvs = Some r" by (simp only: request_fields_def bind.bind_lunit) simp
  then show ?thesis unfolding decode_request_def request_json_def by simp
qed

section \<open>The round trip of a response\<close>

lemma look_opt_key: "look k (opt_key j v) = (if k = to_lower j then v else None)"
  by (cases v) (simp_all add: look_def opt_key_def)

lemma response_keys:
  "to_lower ''ok'' = ''ok''" "to_lower ''result'' = ''result''" "to_lower ''error'' = ''error''"
  "to_lower ''code'' = ''code''" "to_lower ''message'' = ''message''"
  by code_simp+

lemma decode_response_json: "decode_ctl_response (response_json p) = Some p"
proof -
  let ?kvs = "[(''ok'', JBool (cp_ok p))] @ opt_key ''result'' (cp_result p) @ omit_nil ''error'' ctl_error_json (cp_error p)"
  note looks = field_look look_append look_cons look_parts look_opt_key response_keys
  have ok: "bool_field ''ok'' ?kvs = Some (cp_ok p)" by (simp add: bool_field_def looks)
  have result: "raw_field ''result'' ?kvs = cp_result p" by (simp add: looks split: option.split)
  have fields: "str_field ''code'' [(''code'', JStr c), (''message'', JStr m)] = Some c"
    "str_field ''message'' [(''code'', JStr c), (''message'', JStr m)] = Some m" for c m
    by (simp_all add: str_field_def looks)
  have err: "objp_field ''error'' ?kvs = Some (map_option (\<lambda>e. [(''code'', JStr (fst e)), (''message'', JStr (snd e))]) (cp_error p))"
    by (cases "cp_error p") (simp_all add: objp_field_def looks ctl_error_json_def)
  show ?thesis
    unfolding decode_ctl_response_def response_json_def json.case ok result err bind.bind_lunit option.case
    by (cases "cp_error p") (simp_all add: fields)
qed

section \<open>One exchange\<close>

text \<open>What the server answers to a request it can run.\<close>

definition answer_of :: "json result \<Rightarrow> ctl_response" where
  "answer_of r = (case r of Inl e \<Rightarrow> failureFor e | Inr v \<Rightarrow> \<lparr>cp_ok = True, cp_result = Some v, cp_error = None\<rparr>)"

lemma readLine_fits: "nl \<notin> set line \<Longrightarrow> length line < limit \<Longrightarrow> readLine limit (line @ nl # rest) = Line line rest"
  by (simp add: readLine_def)

lemma readLine_large: "nl \<notin> set line \<Longrightarrow> limit \<le> length line \<Longrightarrow> readLine limit (line @ nl # rest) = TooLarge"
  by (simp add: readLine_def)

lemma serve_end: "serveConn env '''' s = ([], s)"
  by (subst serveConn.simps) (simp add: readLine_def)

lemma serve_one:
  assumes "nl \<notin> set line" "line \<noteq> ''''" "length line < MaxLineSize" "dispatch env line s = (p, s')"
  shows "serveConn env (line @ [nl]) s = ([enc (ce_codec env) (response_json p)], s')"
  using assms by (subst serveConn.simps) (simp add: readLine_fits [of line MaxLineSize "[]"] serve_end)

lemma dispatch_request:
  assumes "ce_decode env line = Some (request_json r, '''')" "line \<noteq> ''''" "ct_op r \<noteq> ''''"
    "in_int64 (ct_id r)" "in_int64 (ct_provider_id r)"
  shows "dispatch env line s = (answer_of (fst (execute env r s)), snd (execute env r s))"
  using assms by (simp add: dispatch_def decode_request_json answer_of_def split: prod.split sum.split)

lemma failureFor_error: "\<exists>c m. failureFor e = failure c m"
  by (auto simp: failureFor_def split: svc_error.split)

text \<open>What the client makes of the answer.\<close>

definition client_sees :: "json result \<Rightarrow> ctl_failure + json option" where
  "client_sees r = (case r of
     Inr v \<Rightarrow> Inr (Some v)
   | Inl e \<Rightarrow> (case cp_error (failureFor e) of Some (c, m) \<Rightarrow> Inl (Remote c m) | None \<Rightarrow> Inr None))"

lemma client_reads:
  assumes "nl \<notin> set line" "length line \<le> MaxLineSize" "line = enc cd (request_json r)"
    "exch (line @ [nl]) = Some answer" "length answer < MaxLineSize" "dec cd answer = Some (response_json (answer_of x))"
  shows "Call cd exch r = client_sees x"
proof -
  obtain c m where f: "\<And>e. failureFor e = failure (c e) (m e)" using failureFor_error by metis
  show ?thesis
    using assms
    by (cases x) (simp_all add: Call_def Do_def Let_def decode_response_json client_sees_def answer_of_def f failure_def)
qed

end
