(* ===== verification/Server.thy ===== *)
theory Server
  imports Config_Laws Control_Laws
begin

text \<open>
  The running server as one state machine (cmd/pogu/serve.go): it is started over a database, serves
  requests over HTTP, runs operations of the control socket, and fetches the caveman skill from time to
  time. A step is one of these with any input and any environment over the same sealing, URL parsing and
  hashing. Requests that overlap are taken one after the other.

  The invariant: the service, the telemetry, the hub and the table of failed logins are consistent, and
  the setup mode is on exactly as long as there is no administrator.
\<close>

definition server_ok :: "api \<Rightarrow> bool" where
  "server_ok a \<longleftrightarrow> svc_ok (api_svc a) \<and> tel_ok (api_tel a) \<and> hub_ok (api_hub a) \<and> attempts_ok a \<and>
     (ap_active a \<longleftrightarrow> \<not> AdminInitialized (api_svc a))"

inductive server_step ::
  "crypto \<Rightarrow> (string \<Rightarrow> url_parts option) \<Rightarrow> password_prims \<Rightarrow> (string \<Rightarrow> string) \<Rightarrow>
    (http_req \<Rightarrow> resp_writer \<Rightarrow> resp_writer) \<Rightarrow> api \<Rightarrow> api \<Rightarrow> bool"
  for c parse pw b64 static where
  serve_request: "he_crypto env = c \<Longrightarrow> he_parse env = parse \<Longrightarrow> he_pw env = pw \<Longrightarrow> he_b64 env = b64 \<Longrightarrow>
    server_step c parse pw b64 static a (fst (Handler static env q a w))"
| run_command: "ce_crypto env = c \<Longrightarrow> ce_parse env = parse \<Longrightarrow> ce_pw env = pw \<Longrightarrow> ce_b64 env = b64 \<Longrightarrow>
    server_step c parse pw b64 static a (set_svc (snd (execute env r (api_svc a))) a)"
| sync_skill: "server_step c parse pw b64 static a
    (set_cave (snd (SyncCavemanSkill stamp fetched (as_cave (ap_state a)))) a)"

text \<open>A server started over a consistent database.\<close>

definition server_init :: "crypto \<Rightarrow> api \<Rightarrow> bool" where
  "server_init c a \<longleftrightarrow> (\<exists>n now raw st tel. wf_store st \<and> group_targets_live st \<and> tel_ok tel \<and>
     a = start_server c n now raw st tel)"

section \<open>The steps\<close>

lemma run_ok: "svc_run c parse pw b64 s s' \<Longrightarrow> svc_ok s \<Longrightarrow> svc_ok s'"
  by (induction rule: rtranclp_induct) (auto intro: step_ok)

lemma run_admin: "svc_run c parse pw b64 s s' \<Longrightarrow> AdminInitialized s \<Longrightarrow> AdminInitialized s'"
  by (induction rule: rtranclp_induct) (auto intro: admin_stays)

lemma calm_ok:
  assumes ok: "server_ok a" and calm: "calm env a a'" and new: "ap_active a \<Longrightarrow> \<not> AdminInitialized (api_svc a')"
  shows "server_ok a'"
  using run_ok [OF calmD(1) [OF calm]] run_admin [OF calmD(1) [OF calm]] calmD(2-4) [OF calm] ok new
  unfolding server_ok_def by blast

lemma ended_ok: "server_ok a \<Longrightarrow> setup_ended env a a' \<Longrightarrow> server_ok a'"
  using run_ok unfolding server_ok_def setup_ended_def by blast

lemma same_admin_iff: "same_admin s s' \<Longrightarrow> AdminInitialized s' = AdminInitialized s"
  by (simp add: same_admin_def AdminInitialized_def)

lemma Handler_ok:
  assumes ok: "server_ok a" and h: "Handler static env q a w = (a', w')"
  shows "server_ok a'"
  using Handler_effect [OF h]
proof (elim disjE conjE)
  assume "harmless env a a'"
  then show ?thesis
    using calm_ok [OF ok] ok same_config_admin unfolding harmless_def server_ok_def by blast
next
  assume "\<not> ap_active a" "calm env a a'"
  then show ?thesis using calm_ok [OF ok] by blast
next
  assume "calm env a a'" "same_admin (api_svc a) (api_svc a')"
  then show ?thesis
    using calm_ok [OF ok] ok same_admin_iff unfolding server_ok_def by blast
next
  assume "setup_ended env a a'"
  with ok show ?thesis by (rule ended_ok)
qed

lemma server_ok_svc:
  assumes "server_ok a" "svc_ok s" "same_admin (api_svc a) s"
  shows "server_ok (set_cave (s, sk) a)"
  using assms same_admin_iff [OF assms(3)] attempts_frame [of "set_cave (s, sk) a" a]
  by (simp add: server_ok_def)

lemma execute_ok: "svc_ok s \<Longrightarrow> svc_ok (snd (execute env r s))"
  using execute_steps [of env r] step_ok unfolding steps_only_def by metis

lemma server_step_ok: "server_step c parse pw b64 static a a' \<Longrightarrow> server_ok a \<Longrightarrow> server_ok a'"
proof (induction rule: server_step.induct)
  case (serve_request env a q w)
  then show ?case using Handler_ok [of a static env q w] by (metis prod.collapse)
next
  case (run_command env a r)
  then show ?case
    unfolding set_svc_def
    by (intro server_ok_svc execute_admin execute_ok) (simp_all add: server_ok_def)
next
  case (sync_skill a stamp fetched)
  obtain s sk where c: "as_cave (ap_state a) = (s, sk)" by (rule prod.exhaust)
  obtain r s' sk' where f: "SyncCavemanSkill stamp fetched (s, sk) = (r, s', sk')" by (rule prod_cases3)
  with sync_skill show ?case
    using server_ok_svc [of a s' sk'] admin_caveman(2) [of s stamp fetched sk] caveman_ok(2) [of s stamp fetched sk]
    by (simp add: c server_ok_def)
qed

lemma server_init_ok: "server_init c a \<Longrightarrow> server_ok a"
proof -
  assume "server_init c a"
  then obtain n now raw st tel where a: "a = start_server c n now raw st tel" and st: "wf_store st" "group_targets_live st" "tel_ok tel"
    by (auto simp: server_init_def)
  have "attempts_ok (new_api now s tel)" for s by (simp add: attempts_ok_def new_api_def)
  moreover have "tel_ok (ReapStale now tel)" by (rule writes_ok) (rule st(3))
  ultimately show ?thesis
    using New_ok [OF st(1,2), of c n] hub_ops_ok(1)
    by (auto simp: a start_server_def Let_def server_ok_def new_api_def EnableSetup_def attempts_ok_def)
qed

interpretation server: inductive_invariant "server_init c" "server_step c parse pw b64 static" server_ok
  for c parse pw b64 static
  by unfold_locales (auto intro: server_init_ok server_step_ok)

end
