(* ===== verification/Login_Laws.thy ===== *)
theory Login_Laws
  imports Request_Laws
begin

text \<open>
  The throttle of internal/httpapi/auth.go over time. A run of guesses is any sequence of login requests of
  one identity with wrong passwords, between which the rest of the server may do anything that leaves the
  identity's entry alone; it notes when a password was compared. From the fifth failure on the next
  comparison has to wait, twice as long each time, up to a minute.
\<close>

section \<open>The entry of an identity\<close>

lemma removed_key: "map_of (filter (\<lambda>kv. fst kv \<noteq> i) m) i = None"
  by (induction m) auto

lemma attempt_of_put: "attempt_of i (a\<lparr>ap_attempts := put i x m\<rparr>) = x"
  using removed_key [of i m] by (simp add: attempt_of_def put_def map_add_def)

lemma attempt_of_cleared: "attempt_of i (clearLoginFailures i a) = \<lparr>la_count = 0, la_blocked = None\<rparr>"
  by (simp add: attempt_of_def clearLoginFailures_def removed_key)

lemma record_attempt:
  "length (ap_attempts a) < 256 \<Longrightarrow> attempt_of i (recordLoginFailure i t t' a) = next_attempt t' (attempt_of i a)"
  by (simp add: recordLoginFailure_def Let_def evict_def attempt_of_put)

section \<open>Runs of guesses\<close>

definition login_password :: "http_env \<Rightarrow> http_req \<Rightarrow> string option" where
  "login_password env q =
     (case decodeJSON env (strict_obj [''password''] (str_field ''password'')) (hq_body q) of
        Inl _ \<Rightarrow> None | Inr p \<Rightarrow> Some p)"

text \<open>Whether the request gets as far as comparing its password, and whether that fails.\<close>

definition compares :: "http_env \<Rightarrow> http_req \<Rightarrow> api \<Rightarrow> bool" where
  "compares env q a \<longleftrightarrow> login_password env q \<noteq> None \<and> \<not> setupRequired a \<and>
     allowLogin (loginIdentity env q) (he_clock env 1) a \<and> \<not> he_gone env"

definition wrong_guess :: "http_env \<Rightarrow> http_req \<Rightarrow> api \<Rightarrow> bool" where
  "wrong_guess env q a \<longleftrightarrow> (case login_password env q of None \<Rightarrow> True
     | Some p \<Rightarrow> \<not> CheckAdminPassword (he_pw env) p (api_svc a))"

text \<open>The clock does not run backwards, and the table has room.\<close>

inductive guess_run :: "string \<Rightarrow> api \<Rightarrow> time list \<Rightarrow> api \<Rightarrow> bool" for i where
  no_guess: "guess_run i a [] a"
| guess: "guess_run i a ts b \<Longrightarrow> loginIdentity env q = i \<Longrightarrow> wrong_guess env q b \<Longrightarrow>
    length (ap_attempts b) < 256 \<Longrightarrow> he_clock env 1 \<le> he_clock env 3 \<Longrightarrow>
    (ts \<noteq> [] \<Longrightarrow> last ts \<le> he_clock env 1) \<Longrightarrow>
    guess_run i a (if compares env q b then ts @ [he_clock env 3] else ts) (fst (login env q b w))"
| others: "guess_run i a ts b \<Longrightarrow> attempt_of i b' = attempt_of i b \<Longrightarrow> guess_run i a ts b'"

lemma login_wrong:
  assumes "wrong_guess env q a"
  shows "fst (login env q a w) =
    (if compares env q a then recordLoginFailure (loginIdentity env q) (he_clock env 2) (he_clock env 3) a else a)"
  using assms
  by (auto simp: login_def with_body_def compares_def wrong_guess_def login_password_def Let_def split: sum.split sum.splits)

section \<open>The delay\<close>

definition delay :: "nat \<Rightarrow> int" where
  "delay n = (if n < 5 then 0 else backoff (min n 13))"

lemma delay_nonneg: "0 \<le> delay n"
  by (simp add: delay_def backoff_def nanos_per_second_def)

fun total_delay :: "nat \<Rightarrow> int" where
  "total_delay 0 = 0"
| "total_delay (Suc n) = total_delay n + (if n = 0 then 0 else delay n)"

lemma total_delay_bound: "11 \<le> n \<Longrightarrow> total_delay n = (63 + 60 * (int n - 11)) * nanos_per_second"
proof (induction n rule: nat_induct_at_least)
  case base
  show ?case by (simp add: eval_nat_numeral delay_def backoff_def)
next
  case (Suc n)
  have "2 ^ (min n 13 - 5) \<ge> (64 :: int)"
    using Suc.hyps power_increasing [of 6 "min n 13 - 5" "2 :: int"] by simp
  then have "delay n = 60 * nanos_per_second" using Suc.hyps by (simp add: delay_def backoff_def)
  with Suc show ?case by (simp add: algebra_simps)
qed

lemma backoff_mono: "m \<le> n \<Longrightarrow> backoff m \<le> backoff n"
  unfolding backoff_def
  by (intro mult_right_mono min.mono power_increasing) (auto simp: nanos_per_second_def)

definition guess_inv :: "time list \<Rightarrow> loginAttempt \<Rightarrow> bool" where
  "guess_inv ts x \<longleftrightarrow> min (length ts) 12 \<le> la_count x \<and>
     (5 \<le> length ts \<longrightarrow> (\<exists>b. la_blocked x = Some b \<and> last ts + delay (length ts) \<le> b)) \<and>
     (ts \<noteq> [] \<longrightarrow> hd ts + total_delay (length ts) \<le> last ts)"

lemma guess_inv_step:
  assumes inv: "guess_inv ts x" and allowed: "case la_blocked x of None \<Rightarrow> True | Some b \<Rightarrow> b < t"
    and clock: "ts \<noteq> [] \<Longrightarrow> last ts \<le> t" "t \<le> t'"
  shows "guess_inv (ts @ [t']) (next_attempt t' x)"
proof -
  let ?n = "length ts"
  have count: "min (?n + 1) 12 \<le> min (la_count x + 1) 12" using inv by (auto simp: guess_inv_def)
  have blocked: "\<exists>b. la_blocked (next_attempt t' x) = Some b \<and> t' + delay (?n + 1) \<le> b" if "5 \<le> ?n + 1"
  proof -
    have "min (?n + 1) 13 \<le> la_count x + 1" using inv by (auto simp: guess_inv_def)
    moreover from this that have "5 \<le> la_count x + 1" by simp
    ultimately show ?thesis
      using that backoff_mono [of "min (?n + 1) 13" "la_count x + 1"]
      by (simp add: next_attempt_def Let_def delay_def)
  qed
  have "hd (ts @ [t']) + total_delay (?n + 1) \<le> t'"
  proof (cases "ts = []")
    case False
    have "last ts + delay ?n \<le> t'"
    proof (cases "5 \<le> ?n")
      case True
      then obtain b where "la_blocked x = Some b" "last ts + delay ?n \<le> b" using inv by (auto simp: guess_inv_def)
      with allowed clock(2) show ?thesis by simp
    next
      case n: False
      with clock False show ?thesis by (simp add: delay_def)
    qed
    with inv False show ?thesis by (simp add: guess_inv_def)
  qed simp
  with count blocked show ?thesis
    by (simp add: guess_inv_def next_attempt_def Let_def)
qed

lemma guess_run_inv: "guess_run i a ts b \<Longrightarrow> guess_inv ts (attempt_of i b)"
proof (induction rule: guess_run.induct)
  case (no_guess a)
  show ?case by (simp add: guess_inv_def)
next
  case (guess a ts b env q w)
  show ?case
  proof (cases "compares env q b")
    case True
    then have "case la_blocked (attempt_of i b) of None \<Rightarrow> True | Some t \<Rightarrow> t < he_clock env 1"
      using guess.hyps(2) unfolding compares_def allowLogin_def by blast
    from guess_inv_step [OF guess.IH this guess.hyps(6,5)] True guess.hyps show ?thesis
      by (simp add: login_wrong record_attempt)
  next
    case False
    with guess show ?thesis by (simp add: login_wrong)
  qed
next
  case (others a ts b b')
  then show ?case by simp
qed

end
