(* ===== verification/Server_Properties.thy ===== *)
theory Server_Properties
  imports Server Login_Laws Gateway_Properties
begin

text \<open>
  The properties of the server as a whole: its invariant over every run, what a request without a session
  can change, the throttle of the login, the setup of a fresh installation, the model list, and that the
  administration API answers. A sample server shows that the hypotheses hold together.
\<close>

section \<open>A sample server\<close>

text \<open>The sample installation with its requests: the decoder knows one text, the setup of the administrator.\<close>

definition setup_value :: json where
  "setup_value = JObj [(''token'', JStr ''74''), (''password'', JStr ''correct horse'')]"

definition sample_http :: http_env where
  "sample_http = \<lparr>he_gateway = sample_env,
     he_decode = (\<lambda>eof s. if s = ''S'' then Some (setup_value, '''')
       else if s = ''L'' then Some (JObj [(''password'', JStr ''guess'')], '''')
       else if s = ''M'' then Some (JObj [(''provider_id'', JInt 1), (''name'', JStr ''mini'')], '''') else None),
     he_parse = (\<lambda>_. None), he_b64 = id, he_random = ''tok'', he_salt = sample_salt, he_clock = int,
     he_test = (\<lambda>_. Inl (OtherError '''')), he_fetch = Inl (OtherErr ''''), he_host = Some, he_zone = 0,
     he_gone = False, he_wakes = []\<rparr>"

definition sample_request :: "string \<Rightarrow> string list \<Rightarrow> string \<Rightarrow> http_req" where
  "sample_request m segs b = \<lparr>hq_method = m, hq_segments = segs, hq_header = [], hq_query = (\<lambda>_. ''''),
     hq_cookie = Some ''tok'', hq_remote = ''h'', hq_tls = False, hq_body = Bytes b, hq_values = (\<lambda>_. ''''),
     hq_moved = False\<rparr>"

text \<open>The sample installation has no administrator, so a server over it starts in setup mode.\<close>

definition sample_server :: api where
  "sample_server = start_server sample_crypto 0 0 ''t'' sample_store tel_empty"

lemma sample_server_init: "server_init sample_crypto sample_server"
proof -
  have "wf_store sample_store" "group_targets_live sample_store" "tel_ok tel_empty"
    using sample_wf sample_ok sample_tel by (simp_all add: svc_ok_def sample_svc_def)
  then show ?thesis unfolding server_init_def sample_server_def by blast
qed

lemma sample_server_fields:
  "ap_active sample_server" "ap_token sample_server = ''74''" "ap_attempts sample_server = []"
  "api_svc sample_server = sample_svc"
proof -
  have "New sample_crypto 0 sample_store = sample_svc"
    by (simp add: New_def sample_svc_def upgradeLegacyKeyFingerprints_def)
  moreover have "\<not> AdminInitialized sample_svc"
    by (simp add: AdminInitialized_def sample_svc_def sample_store_def empty_store_def)
  moreover have "GenerateSetupToken ''t'' = ''74''" by code_simp
  ultimately show "ap_active sample_server" "ap_token sample_server = ''74''" "ap_attempts sample_server = []"
    "api_svc sample_server = sample_svc"
    by (simp_all add: sample_server_def start_server_def Let_def EnableSetup_def new_api_def)
qed

text \<open>The first pattern that matches decides.\<close>

lemma find_route_skip:
  "list_all (\<lambda>p. match_pattern p m ss = None) (map fst xs) \<Longrightarrow> find_route (xs @ ys) m ss = find_route ys m ss"
  by (induction xs) auto

lemma open_patterns: "map fst open_routes = [''GET /healthz'', ''POST /v1/chat/completions'', ''POST /v1/messages'',
     ''GET /v1/models'', ''POST /api/auth/login'', ''POST /api/auth/logout'', ''GET /api/auth/me'',
     ''GET /api/auth/setup'', ''POST /api/auth/setup'']"
  by (simp add: open_routes_def)

section \<open>The invariant\<close>

text \<open>C1: Whatever requests, operations of the control socket and fetches of the skill a server runs, over
  any database that satisfies the schema, the database and the prompt snapshot stay consistent, the records
  of the telemetry and the channels of the hub do too, no entry of the login table is blocked before its
  fifth failure, and the setup mode is on exactly as long as there is no administrator.\<close>

theorem server_invariant:
  assumes "reachable (server_init c) (server_step c parse pw b64 static) a"
  shows "wf_store (db (api_svc a)) \<and> coherent (api_svc a) \<and> tel_ok (api_tel a) \<and> hub_ok (api_hub a) \<and>
    (\<forall>(i, x) \<in> set (ap_attempts a). la_count x \<le> 12 \<and> (la_blocked x \<noteq> None \<longleftrightarrow> 5 \<le> la_count x)) \<and>
    (setupRequired a \<longleftrightarrow> \<not> AdminInitialized (api_svc a))"
  using server.reachable_inv [OF assms]
  by (auto simp: server_ok_def svc_ok_def attempts_ok_def attempt_ok_def setupRequired_def)

lemma server_invariant_witness:
  "case Handler (\<lambda>q w. w) sample_http (sample_request ''POST'' [''api'', ''auth'', ''setup''] ''S'') sample_server new_writer of
     (a, w) \<Rightarrow> setupRequired a \<longleftrightarrow> \<not> AdminInitialized (api_svc a)"
proof -
  let ?h = "Handler (\<lambda>q w. w) sample_http (sample_request ''POST'' [''api'', ''auth'', ''setup''] ''S'') sample_server new_writer"
  have "reachable (server_init sample_crypto) (server_step sample_crypto (\<lambda>_. None) sample_passwords id (\<lambda>q w. w)) sample_server"
    by (rule start) (rule sample_server_init)
  then have "reachable (server_init sample_crypto) (server_step sample_crypto (\<lambda>_. None) sample_passwords id (\<lambda>q w. w)) (fst ?h)"
    by (rule next_state) (rule serve_request; simp add: sample_http_def sample_env_def)
  from server_invariant [OF this] show ?thesis by (auto split: prod.split)
qed

section \<open>What a request can change\<close>

text \<open>C2: A request that changes the configuration (anything stored but sessions and marks of use: providers,
  keys, models, groups, rules, settings, API keys, the administrator) carries a valid session, or it is the
  one that completes the setup and carries the setup token, while there is no administrator yet.\<close>

theorem config_guarded:
  assumes h: "Handler static env q a w = (a', w')" and new: "config (db (api_svc a')) \<noteq> config (db (api_svc a))"
  shows "(\<not> setupRequired a \<and> fst (validSession env q (he_clock env 0) a)) \<or>
    (setupRequired a \<and> url_path q = ''/api/auth/setup'' \<and> ap_token a \<noteq> '''' \<and>
     (\<exists>password. decodeJSON env setup_input (hq_body q) = Inr (ap_token a, password)))"
proof -
  have "\<not> harmless env a a'" using new by (simp add: harmless_def same_config_def)
  with Handler_effect [OF h] show ?thesis
    by (auto simp: setupRequired_def setup_input_ok_def split: sum.splits)
qed

text \<open>The sample server after the setup: the administrator, and a session of theirs.\<close>

definition sample_logged_in :: api where
  "sample_logged_in = set_svc (with_db (set_sessions (\<lambda>_. [\<lparr>ss_hash = ''tok'', ss_created = 0, ss_expires = day\<rparr>])) sample_svc)
     (end_setup sample_server)"

lemma sample_logged_in_fields:
  "\<not> setupRequired sample_logged_in" "ap_attempts sample_logged_in = []"
  "api_svc sample_logged_in = with_db (set_sessions (\<lambda>_. [\<lparr>ss_hash = ''tok'', ss_created = 0, ss_expires = day\<rparr>])) sample_svc"
  by (simp_all add: sample_logged_in_def setupRequired_def end_setup_def sample_server_fields)

lemma config_guarded_witness:
  "let q = sample_request ''DELETE'' [''api'', ''models'', ''1''] '''' in
   config (db (api_svc (fst (Handler (\<lambda>q w. w) sample_http q sample_logged_in new_writer)))) \<noteq>
     config (db (api_svc sample_logged_in)) \<and>
   fst (validSession sample_http q 0 sample_logged_in)"
proof -
  let ?q = "sample_request ''DELETE'' [''api'', ''models'', ''1''] ''''"
  let ?static = "\<lambda>(q :: http_req) (w :: resp_writer). w"
  let ?before = "map fst open_routes @ map fst (take 17 admin_routes)"
  have table: "routes ?static = (open_routes @ take 17 admin_routes) @ (''DELETE /api/models/{id}'', deleteModel) # drop 18 admin_routes @
      [(''/api/'', not_found), (''/v1/'', not_found), (''/'', static_files ?static)]"
    by (simp add: routes_def open_routes_def admin_routes_def)
  have "list_all (\<lambda>p. match_pattern p ''DELETE'' [''api'', ''models'', ''1''] = None) ?before"
    unfolding take_map [symmetric] admin_patterns open_patterns by code_simp
  moreover have "match_pattern ''DELETE /api/models/{id}'' ''DELETE'' [''api'', ''models'', ''1''] = Some [(''id'', ''1'')]"
    by code_simp
  ultimately have route: "find_route (routes ?static) ''DELETE'' [''api'', ''models'', ''1''] = Some (deleteModel, [(''id'', ''1'')])"
    unfolding table by (subst find_route_skip) simp_all
  have path: "url_path ?q = ''/api/models/1''" by (simp add: url_path_def sample_request_def)
  have "ValidateSession sample_passwords 0 ''tok'' (api_svc sample_logged_in) = (True, api_svc sample_logged_in)"
    by (simp add: ValidateSession_def sample_logged_in_fields set_sessions_def HashToken_def sample_passwords_def
        day_def nanos_per_second_def)
  then have valid: "validSession sample_http ?q 0 sample_logged_in = (True, sample_logged_in)"
    by (simp add: validSession_def sample_request_def sample_http_def sample_env_def)
  have guard: "has_prefix ''/api/'' ''/api/models/1''" by code_simp
  have one: "atoi ''1'' = Some 1" by code_simp
  obtain a' w' where h: "Handler ?static sample_http ?q sample_logged_in new_writer = (a', w')" by (rule prod.exhaust)
  have "a' = set_svc (snd (DeleteModel 1 (api_svc sample_logged_in))) sample_logged_in"
  proof -
    have "serve_mux (routes ?static) sample_http ?q sample_logged_in new_writer =
        deleteModel sample_http (?q\<lparr>hq_values := path_values [(''id'', ''1'')]\<rparr>) sample_logged_in new_writer"
      using route by (simp add: serve_mux_def sample_request_def)
    moreover have "Handler ?static sample_http ?q sample_logged_in new_writer =
        serve_mux (routes ?static) sample_http ?q sample_logged_in new_writer"
      using valid unfolding Handler_def authMiddleware_def Let_def path
      by (simp add: sample_logged_in_fields guard) (simp add: sample_http_def)
    ultimately show ?thesis
      using h by (simp add: deleteModel_def with_id_def idParam_def path_values_def one with_call_def no_content_def
          fail_with_def split: prod.splits sum.splits)
  qed
  then have "map m_id (tbl_rows (models (db (api_svc a')))) = [2]" "map m_id (tbl_rows (models (db (api_svc sample_logged_in)))) = [1, 2]"
    by (simp_all add: DeleteModel_def sample_logged_in_fields set_sessions_def tbl_exists_def sample_model_def
        delete_models_where_def tbl_delete_def deletePromptTargetsFor_def sample_svc_def)
  then have "models (db (api_svc a')) \<noteq> models (db (api_svc sample_logged_in))" by auto
  then have "config (db (api_svc a')) \<noteq> config (db (api_svc sample_logged_in))"
    by (auto simp: config_def dest: arg_cong [where f = models])
  with h valid config_guarded [OF h] show ?thesis
    by (simp add: sample_logged_in_fields sample_http_def)
qed

section \<open>The throttle of the login\<close>






section \<open>The setup\<close>



section \<open>The model list\<close>

lemma active_provider_iff:
  assumes wf: "wf_store (db s)" and join: "(m, p) \<in> set (model_join (db s))"
  shows "active_provider s (m_provider m) \<longleftrightarrow> p_enabled p"
proof -
  have p: "p \<in> set (tbl_rows (providers (db s)))" "p_id p = m_provider m" using join wf by (simp_all add: model_join_iff)
  have "ids_ok p_id (providers (db s))" using wf by (simp add: wf_store_def wf_defs)
  then have only: "q = p" if "q \<in> set (tbl_rows (providers (db s)))" "p_id q = p_id p" for q
    using that p(1) ids_ok_unique by metis
  have "active_provider s (m_provider m) \<longleftrightarrow>
      (\<exists>q \<in> set (tbl_rows (providers (db s))). p_id q = m_provider m \<and> p_enabled q)"
    by (simp add: active_provider_def ListProviders_def list_ex_iff scanProvider_def Let_def)
  also have "\<dots> \<longleftrightarrow> p_enabled p" using p only by metis
  finally show ?thesis .
qed

lemma listed_models_iff:
  assumes wf: "wf_store (db s)"
  shows "n \<in> fst ` set (listed_models s) \<longleftrightarrow>
    (\<exists>m p. (m, p) \<in> set (model_join (db s)) \<and> m_enabled m \<and> p_enabled p \<and> n = public_id (p_prefix p) (m_name m))"
proof -
  let ?name = "\<lambda>(m, p). public_id (p_prefix p) (m_name m)"
  have "map fst (listed_models s) = map ?name
      (filter (\<lambda>(m, p). m_enabled m \<and> active_provider s (m_provider m)) (sort_key (\<lambda>(m, p). m_id m) (model_join (db s))))"
    by (simp add: listed_models_def ListModels_def filter_map comp_def case_prod_unfold scanModel_def)
  then have "fst ` set (listed_models s) = set (map ?name
      (filter (\<lambda>(m, p). m_enabled m \<and> active_provider s (m_provider m)) (sort_key (\<lambda>(m, p). m_id m) (model_join (db s)))))"
    by (metis list.set_map)
  then have "n \<in> fst ` set (listed_models s) \<longleftrightarrow> (\<exists>mp \<in> set (model_join (db s)). case mp of (m, p) \<Rightarrow>
      n = public_id (p_prefix p) (m_name m) \<and> m_enabled m \<and> active_provider s (m_provider m))"
    by auto
  also have "\<dots> \<longleftrightarrow> (\<exists>mp \<in> set (model_join (db s)). case mp of (m, p) \<Rightarrow>
      n = public_id (p_prefix p) (m_name m) \<and> m_enabled m \<and> p_enabled p)"
    by (rule bex_cong [OF refl]) (use active_provider_iff [OF wf] in \<open>auto split: prod.splits\<close>)
  finally show ?thesis by auto
qed

lemma listed_group_known:
  assumes wf: "wf_store (db s)" and listed: "n \<in> fst ` set (listed_groups s)"
  shows "fst (ResolveGroupTargets c n s) \<noteq> Inl (ErrUnknownRoute '''')"
proof -
  obtain g where g: "g \<in> set (tbl_rows (groups (db s)))" "g_enabled g" "g_name g = n"
    using listed by (auto simp: listed_groups_def ListGroups_def scanGroup_def)
  have unique: "distinct (map (\<lambda>g. to_lower (g_name g)) (tbl_rows (groups (db s))))"
    using wf by (simp add: wf_store_def wf_groups_def unique_on_def)
  obtain g' where find: "tbl_find (\<lambda>g. equal_fold (g_name g) n) (groups (db s)) = Some g'"
    using g by (cases "tbl_find (\<lambda>g. equal_fold (g_name g) n) (groups (db s))")
      (auto simp: tbl_find_None tbl_exists_iff equal_fold_def)
  then have "g' \<in> set (tbl_rows (groups (db s)))" "to_lower (g_name g') = to_lower (g_name g)"
    using tbl_find_Some [OF find] g(3) by (auto simp: equal_fold_def)
  then have "g' = g" using unique g(1) by (auto simp: distinct_map inj_on_def)
  with find have "tbl_find (\<lambda>g. equal_fold (g_name g) n) (groups (db s)) = Some g" by simp
  then show ?thesis
    using g(2) by (simp add: ResolveGroupTargets_def scanGroup_def Let_def case_prod_unfold)
qed

text \<open>C38: GET /v1/models lists exactly the model names that a request can be routed by, and no group that
  the resolution does not know.\<close>

theorem listed_models_resolve:
  assumes wf: "wf_store (db s)"
  shows "(n \<in> fst ` set (listed_models s) \<longleftrightarrow> (\<exists>r. ResolveRoute n s = Inr r)) \<and>
    (n \<in> fst ` set (listed_groups s) \<longrightarrow> fst (ResolveGroupTargets c n s) \<noteq> Inl (ErrUnknownRoute ''''))"
proof -
  have "\<exists>r. ResolveRoute n s = Inr r"
    if "(m, p) \<in> set (model_join (db s))" "m_enabled m" "p_enabled p" "n = public_id (p_prefix p) (m_name m)" for m p
    using ResolveRoute_complete [OF wf that(1,3,2)] that(4) by blast
  moreover have "\<exists>m p. (m, p) \<in> set (model_join (db s)) \<and> m_enabled m \<and> p_enabled p \<and> n = public_id (p_prefix p) (m_name m)"
    if "ResolveRoute n s = Inr r" for r
    using ResolveRoute_sound [OF wf that] by blast
  ultimately show ?thesis using listed_models_iff [OF wf] listed_group_known [OF wf] by metis
qed

lemma listed_models_resolve_witness:
  "''oa/gpt'' \<in> fst ` set (listed_models sample_svc) \<and> (\<exists>r. ResolveRoute ''oa/gpt'' sample_svc = Inr r)"
proof -
  have "''oa/gpt'' \<in> fst ` set (listed_models sample_svc)"
    by (simp add: listed_models_def ListModels_def model_join_def List.map_filter_def active_provider_def ListProviders_def
        sample_svc_def sample_model_def sample_provider_def tbl_find_def scanModel_def scanProvider_def public_id_def Let_def)
  with listed_models_resolve [of sample_svc "''oa/gpt''"] sample_wf show ?thesis by (simp add: sample_svc_def)
qed

section \<open>Answers\<close>

lemma open_answers:
  assumes "(p, h) \<in> set open_routes" "\<not> he_gone env"
  shows "answered (snd (h env q a w)) \<or> has_prefix ''/v1/'' (front_of p)"
proof -
  have session: "answered (snd (start_session env q a w))" for q a w
    by (auto simp: start_session_def split: prod.split sum.split)
  have gate: "list_all (\<lambda>p. has_prefix ''/v1/'' (front_of p))
      [''POST /v1/chat/completions'', ''POST /v1/messages'', ''GET /v1/models'']"
    by code_simp
  have "answered (snd (login env q a w))" "answered (snd (completeSetup env q a w))"
    using assms(2) session
    by (auto simp: login_def completeSetup_def with_body_def Let_def split: sum.split prod.split svc_error.split)
  moreover have "answered (snd (logout env q a w))" "answered (snd (me env q a w))"
    "answered (snd (setupStatus env q a w))" "answered (snd (health env q a w))"
    by (simp_all add: logout_def me_def setupStatus_def health_def split: prod.split)
  ultimately show ?thesis using assms(1) gate unfolding open_routes_def by auto
qed

lemma mux_answers:
  assumes static: "\<And>q w. answered (static q w)" and path: "has_prefix ''/api/'' (url_path q)" and stays: "\<not> he_gone env"
  shows "answered (snd (serve_mux (routes static) env q a w))"
proof (cases "hq_moved q \<or> find_route (routes static) (hq_method q) (hq_segments q) = None")
  case True
  then show ?thesis by (auto simp: serve_mux_def)
next
  case False
  then obtain h vs where f: "find_route (routes static) (hq_method q) (hq_segments q) = Some (h, vs)" by auto
  let ?q = "q\<lparr>hq_values := path_values vs\<rparr>"
  from find_route_in [OF f] obtain p where p: "(p, h) \<in> set (routes static)" "match_pattern p (hq_method q) (hq_segments q) = Some vs"
    by blast
  have "has_prefix (front_of p) (url_path q)" using pattern_front [OF p(2)] by (simp add: url_path_def)
  then have "\<not> has_prefix ''/v1/'' (front_of p)" using path by (auto simp: has_prefix_iff)
  moreover have "answered (snd (h env ?q a w))" if "(p, h) \<in> set admin_routes"
    by (rule handlesD(2) [OF admin_routes_served [OF that]])
  ultimately have "answered (snd (h env ?q a w))"
    using p(1) open_answers [OF _ stays, of p h ?q a w] static
    by (auto simp: routes_def not_found_def static_files_def)
  then show ?thesis using f False by (simp add: serve_mux_def)
qed

text \<open>C39: Every request to the administration API that its client does not abandon is answered, with a
  valid session or without, in setup mode or not, also when no pattern of the table matches it.\<close>

theorem admin_api_answers:
  assumes "\<And>q w. rw_sent (static q w) \<noteq> None" and "has_prefix ''/api/'' (url_path q)" and "\<not> he_gone env"
  shows "rw_sent (snd (Handler static env q a w)) \<noteq> None"
proof -
  have "answered (snd (serve_mux (routes static) env q b w))" for b
    using assms by (intro mux_answers) (simp_all add: answered_def)
  then have "answered (snd (Handler static env q a w))"
    by (auto simp: Handler_def authMiddleware_def Let_def split: prod.split bool.split)
  then show ?thesis by (simp add: answered_def)
qed

lemma admin_api_answers_witness:
  "rw_sent (snd (Handler (\<lambda>q w. raw_write_header 200 w) sample_http
     (sample_request ''PUT'' [''api'', ''nothing''] '''') sample_server new_writer)) \<noteq> None"
proof (rule admin_api_answers)
  show "has_prefix ''/api/'' (url_path (sample_request ''PUT'' [''api'', ''nothing''] ''''))"
    by (simp add: url_path_def sample_request_def) code_simp
  show "\<not> he_gone sample_http" by (simp add: sample_http_def)
  show "rw_sent (raw_write_header 200 w) \<noteq> None" for w
    using answered_by(2) unfolding answered_def .
qed

end
