(* ===== verification/Socket.thy ===== *)
theory Socket
  imports Prelude
begin

text \<open>
  internal/control/server.go around its connections: Start, acceptLoop and Close over the parts of the
  operating system they touch, the files at socket paths, the open listeners and the open connections.
  What is said over a connection is in Control. The calls of the system that may fail for a reason of
  their own do so where \<open>faults\<close> says. Several daemons share the system; each has its own Server value.
\<close>

section \<open>The operating system\<close>

text \<open>What is at a path: something else, or the socket of a listener, and whether only its owner may use it.\<close>

datatype sock_node = Plain | Sock nat bool

record os_state =
  os_node :: "string \<Rightarrow> sock_node option"
  os_listening :: "nat list"
  os_next :: nat
  os_conns :: "nat list"

record faults =
  ft_inspect :: bool
  ft_remove :: bool
  ft_listen :: bool
  ft_chmod :: bool
  ft_close :: bool

definition no_faults :: faults where
  "no_faults = \<lparr>ft_inspect = False, ft_remove = False, ft_listen = False, ft_chmod = False, ft_close = False\<rparr>"

text \<open>A socket without its listener refuses connections.\<close>

definition dial :: "string \<Rightarrow> os_state \<Rightarrow> bool" where
  "dial path os \<longleftrightarrow> (case os_node os path of Some (Sock n _) \<Rightarrow> n \<in> set (os_listening os) | _ \<Rightarrow> False)"

definition unlink :: "string \<Rightarrow> os_state \<Rightarrow> os_state" where
  "unlink path os = os\<lparr>os_node := (os_node os)(path := None)\<rparr>"

definition bind_listener :: "string \<Rightarrow> os_state \<Rightarrow> os_state" where
  "bind_listener path os = os\<lparr>os_node := (os_node os)(path \<mapsto> Sock (os_next os) False),
     os_listening := os_next os # os_listening os, os_next := os_next os + 1\<rparr>"

definition secure :: "string \<Rightarrow> os_state \<Rightarrow> os_state" where
  "secure path os = (case os_node os path of
     Some (Sock n _) \<Rightarrow> os\<lparr>os_node := (os_node os)(path \<mapsto> Sock n True)\<rparr> | _ \<Rightarrow> os)"

text \<open>UnixListener.Close removes the file at its path first.\<close>

definition close_listener :: "nat \<Rightarrow> string \<Rightarrow> os_state \<Rightarrow> os_state" where
  "close_listener n path os = (unlink path os)\<lparr>os_listening := filter (\<lambda>m. m \<noteq> n) (os_listening os)\<rparr>"

definition close_conns :: "nat list \<Rightarrow> os_state \<Rightarrow> os_state" where
  "close_conns cs os = os\<lparr>os_conns := filter (\<lambda>c. c \<notin> set cs) (os_conns os)\<rparr>"

section \<open>The server\<close>

record ctl_server =
  cs_listener :: "nat option"
  cs_path :: string
  cs_conns :: "nat list"
  cs_closed :: bool

definition new_ctl_server :: ctl_server where
  "new_ctl_server = \<lparr>cs_listener = None, cs_path = '''', cs_conns = [], cs_closed = False\<rparr>"

text \<open>The first part of Start: the path is free afterwards, or the start is refused.\<close>

definition free_path :: "faults \<Rightarrow> string \<Rightarrow> os_state \<Rightarrow> string option \<times> os_state" where
  "free_path ft path os =
     (if ft_inspect ft then (Some ''control: inspect socket'', os)
      else (case os_node os path of
          None \<Rightarrow> (None, os)
        | Some Plain \<Rightarrow> (Some ''control: refusing to replace non-socket'', os)
        | Some (Sock _ _) \<Rightarrow>
            if dial path os then (Some ''control: another daemon is already running'', os)
            else if ft_remove ft then (Some ''control: remove stale socket'', os)
            else (None, unlink path os)))"

text \<open>The second part: a listener with a socket for its owner only.\<close>

definition open_listener :: "faults \<Rightarrow> string \<Rightarrow> os_state \<Rightarrow> (string + nat) \<times> os_state" where
  "open_listener ft path os =
     (if ft_listen ft \<or> os_node os path \<noteq> None then (Inl ''control: listen'', os)
      else (let n = os_next os; os' = bind_listener path os in
        if ft_chmod ft then (Inl ''control: secure socket'', unlink path (close_listener n path os'))
        else (Inr n, secure path os')))"

definition Start :: "faults \<Rightarrow> string \<Rightarrow> ctl_server \<times> os_state \<Rightarrow> string option \<times> ctl_server \<times> os_state" where
  "Start ft path so = (case so of (s, os) \<Rightarrow>
     if path = '''' then (Some ''control: socket path is empty'', s, os)
     else (case free_path ft path os of
         (Some m, os') \<Rightarrow> (Some m, s, os')
       | (None, os') \<Rightarrow> (case open_listener ft path os' of
             (Inl m, os'') \<Rightarrow> (Some m, s, os'')
           | (Inr n, os'') \<Rightarrow>
               if cs_listener s \<noteq> None \<and> \<not> cs_closed s
               then (Some ''control: server already started'', s, unlink path (close_listener n path os''))
               else (None, s\<lparr>cs_listener := Some n, cs_path := path, cs_closed := False\<rparr>, os''))))"

text \<open>
  One round of acceptLoop on its listener, and whether it goes on: a connection, or an error, which is
  net.ErrClosed when the listener is closed. The connection's own goroutine removes it at its end.
\<close>

datatype accepted = Conn nat | Accept_failed bool

definition accept_round :: "accepted \<Rightarrow> ctl_server \<times> os_state \<Rightarrow> bool \<times> ctl_server \<times> os_state" where
  "accept_round a so = (case so of (s, os) \<Rightarrow> (case a of
     Conn c \<Rightarrow> (True, s\<lparr>cs_conns := c # cs_conns s\<rparr>, os\<lparr>os_conns := c # os_conns os\<rparr>)
   | Accept_failed gone \<Rightarrow> (\<not> (cs_closed s \<or> gone), s, os)))"

definition conn_done :: "nat \<Rightarrow> ctl_server \<times> os_state \<Rightarrow> ctl_server \<times> os_state" where
  "conn_done c so = (case so of (s, os) \<Rightarrow>
     (s\<lparr>cs_conns := filter (\<lambda>d. d \<noteq> c) (cs_conns s)\<rparr>, close_conns [c] os))"

text \<open>os.Remove after the listener is closed, and what Close makes of the two errors.\<close>

definition Close :: "faults \<Rightarrow> ctl_server \<times> os_state \<Rightarrow> string option \<times> ctl_server \<times> os_state" where
  "Close ft so = (case so of (s, os) \<Rightarrow> (case cs_listener s of
     None \<Rightarrow> (None, s, os)
   | Some n \<Rightarrow>
       if cs_closed s then (None, s, os)
       else (let s' = s\<lparr>cs_closed := True, cs_listener := None, cs_path := ''''\<rparr>;
                 err = (if ft_close ft then Some ''close'' else None);
                 os1 = close_conns (cs_conns s) (close_listener n (cs_path s) os);
                 missing = (os_node os1 (cs_path s) = None);
                 e = (if missing then Some ''file does not exist'' else if ft_remove ft then Some ''remove'' else None);
                 os2 = (if e = None then unlink (cs_path s) os1 else os1) in
         (if err = None \<or> \<not> missing then (if err = None then e else err) else err, s', os2))))"

section \<open>Start call by call\<close>

text \<open>
  Where a Start is between its calls of the system: before os.Lstat, DialTimeout, os.Remove, ListenUnix,
  os.Chmod, and before the lock under which the listener is made the server's.
\<close>

datatype start_pc = At_inspect | At_probe | At_remove | At_listen | At_secure nat | At_publish nat | Started "string option"

definition start_round :: "faults \<Rightarrow> string \<Rightarrow> start_pc \<times> ctl_server \<times> os_state \<Rightarrow> start_pc \<times> ctl_server \<times> os_state" where
  "start_round ft path st = (case st of (pc, s, os) \<Rightarrow> (case pc of
     At_inspect \<Rightarrow>
       if path = '''' then (Started (Some ''control: socket path is empty''), s, os)
       else if ft_inspect ft then (Started (Some ''control: inspect socket''), s, os)
       else (case os_node os path of
           None \<Rightarrow> (At_listen, s, os)
         | Some Plain \<Rightarrow> (Started (Some ''control: refusing to replace non-socket''), s, os)
         | Some (Sock _ _) \<Rightarrow> (At_probe, s, os))
   | At_probe \<Rightarrow> if dial path os then (Started (Some ''control: another daemon is already running''), s, os) else (At_remove, s, os)
   | At_remove \<Rightarrow>
       if ft_remove ft \<or> os_node os path = None then (Started (Some ''control: remove stale socket''), s, os)
       else (At_listen, s, unlink path os)
   | At_listen \<Rightarrow>
       if ft_listen ft \<or> os_node os path \<noteq> None then (Started (Some ''control: listen''), s, os)
       else (At_secure (os_next os), s, bind_listener path os)
   | At_secure n \<Rightarrow>
       if ft_chmod ft \<or> os_node os path = None
       then (Started (Some ''control: secure socket''), s, unlink path (close_listener n path os))
       else (At_publish n, s, secure path os)
   | At_publish n \<Rightarrow>
       if cs_listener s \<noteq> None \<and> \<not> cs_closed s
       then (Started (Some ''control: server already started''), s, unlink path (close_listener n path os))
       else (Started None, s\<lparr>cs_listener := Some n, cs_path := path, cs_closed := False\<rparr>, os)
   | Started r \<Rightarrow> (Started r, s, os)))"

section \<open>Daemons that share a system\<close>

type_synonym daemons = "(nat \<Rightarrow> ctl_server) \<times> os_state"

abbreviation daemon_at :: "nat \<Rightarrow> daemons \<Rightarrow> ctl_server \<times> os_state" where
  "daemon_at i d \<equiv> (fst d i, snd d)"

definition put_at :: "nat \<Rightarrow> ctl_server \<times> os_state \<Rightarrow> daemons \<Rightarrow> daemons" where
  "put_at i so d = ((fst d)(i := fst so), snd so)"

text \<open>The starts of several daemons on one path, whose calls come in the given order.\<close>

definition start_schedule :: "string \<Rightarrow> nat list \<Rightarrow> (nat \<Rightarrow> start_pc) \<times> daemons \<Rightarrow> (nat \<Rightarrow> start_pc) \<times> daemons" where
  "start_schedule path is st = fold (\<lambda>i (pcs, d). case start_round no_faults path (pcs i, daemon_at i d) of
     (pc, so) \<Rightarrow> (pcs(i := pc), put_at i so d)) is st"

text \<open>
  The steps of the daemons when no two of their calls overlap. A connection is accepted on a listener that
  is open, under a number not in use.
\<close>

inductive socket_step :: "daemons \<Rightarrow> daemons \<Rightarrow> bool" where
  start_daemon: "socket_step d (put_at i (snd (Start ft path (daemon_at i d))) d)"
| accept_conn: "cs_listener (fst d i) = Some n \<Longrightarrow> c \<notin> set (os_conns (snd d)) \<Longrightarrow> (\<And>j. c \<notin> set (cs_conns (fst d j))) \<Longrightarrow>
    socket_step d (put_at i (snd (accept_round (Conn c) (daemon_at i d))) d)"
| end_conn: "c \<in> set (cs_conns (fst d i)) \<Longrightarrow> socket_step d (put_at i (conn_done c (daemon_at i d)) d)"
| close_daemon: "socket_step d (put_at i (snd (Close ft (daemon_at i d))) d)"

text \<open>
  The files, listeners and connections that are there before are those of other programs; the numbers of
  the open listeners are in use.
\<close>

definition socket_init :: "os_state \<Rightarrow> daemons \<Rightarrow> bool" where
  "socket_init os d \<longleftrightarrow> d = (\<lambda>_. new_ctl_server, os) \<and> (\<forall>n \<in> set (os_listening os). n < os_next os) \<and>
     (\<forall>p n b. os_node os p = Some (Sock n b) \<longrightarrow> n < os_next os)"

text \<open>What a start has to leave alone: other files and sockets that answer.\<close>

definition foreign :: "os_state \<Rightarrow> string \<Rightarrow> bool" where
  "foreign os p \<longleftrightarrow> os_node os p = Some Plain \<or> dial p os"

text \<open>
  The invariant: a running daemon's path holds its own socket, private and with its listener open; the
  listeners of two daemons differ; every open connection is one of before or in the table of a running
  daemon; and what was there before is still there.
\<close>

definition socket_ok :: "os_state \<Rightarrow> daemons \<Rightarrow> bool" where
  "socket_ok os0 d \<longleftrightarrow> (case d of (ss, os) \<Rightarrow>
     os_next os0 \<le> os_next os \<and> (\<forall>n \<in> set (os_listening os). n < os_next os) \<and>
     (\<forall>p n b. os_node os p = Some (Sock n b) \<longrightarrow> n < os_next os) \<and>
     (\<forall>i n. cs_listener (ss i) = Some n \<longrightarrow> \<not> cs_closed (ss i) \<and> os_next os0 \<le> n \<and> n \<in> set (os_listening os) \<and>
        os_node os (cs_path (ss i)) = Some (Sock n True)) \<and>
     (\<forall>i j n. cs_listener (ss i) = Some n \<longrightarrow> cs_listener (ss j) = Some n \<longrightarrow> i = j) \<and>
     (\<forall>c \<in> set (os_conns os). c \<in> set (os_conns os0) \<or> (\<exists>i. cs_listener (ss i) \<noteq> None \<and> c \<in> set (cs_conns (ss i)))) \<and>
     (\<forall>n \<in> set (os_listening os0). n < os_next os0 \<and> n \<in> set (os_listening os)) \<and>
     (\<forall>p. foreign os0 p \<longrightarrow> os_node os p = os_node os0 p))"

end
