(* ===== verification/Files.thy ===== *)
theory Files
  imports Server Socket
begin

text \<open>
  The files of an installation: slash-separated paths as path/filepath cleans and joins them, the master
  key file of internal/crypto/crypto.go, the configuration file of internal/config/config.go, and the
  runtime that cmd/pogu/serve.go opens over them. A file system maps paths to files; directories are not
  modelled, and of the failures of the file system only a missing file is.
\<close>

section \<open>Paths\<close>

text \<open>path.Clean: the elements kept so far, last first.\<close>

definition clean_step :: "bool \<Rightarrow> string \<Rightarrow> string list \<Rightarrow> string list" where
  "clean_step rooted p acc =
     (if p = '''' \<or> p = ''.'' then acc
      else if p = ''..'' then
        (case acc of [] \<Rightarrow> if rooted then [] else [''..'']
         | x # r \<Rightarrow> if x = ''..'' then ''..'' # acc else r)
      else p # acc)"

definition clean_path :: "string \<Rightarrow> string" where
  "clean_path s = (let rooted = has_prefix ''/'' s;
       body = join ''/'' (rev (fold (clean_step rooted) (split_on CHR ''/'' s) [])) in
     if rooted then CHR ''/'' # body else if body = '''' then ''.'' else body)"

definition join_path :: "string list \<Rightarrow> string" where
  "join_path es = (case dropWhile (\<lambda>e. e = '''') es of [] \<Rightarrow> '''' | ps \<Rightarrow> clean_path (join ''/'' ps))"

section \<open>Files\<close>

record file_entry =
  fl_regular :: bool
  fl_private :: bool
  fl_data :: string

type_synonym disk = "string \<Rightarrow> file_entry option"

definition private_file :: "string \<Rightarrow> file_entry" where
  "private_file s = \<lparr>fl_regular = True, fl_private = True, fl_data = s\<rparr>"

section \<open>The master key: crypto.go\<close>

datatype key_error = Missing_key | Bad_key string

definition readKey :: "string \<Rightarrow> disk \<Rightarrow> key_error + string" where
  "readKey path d = (case d path of
     None \<Rightarrow> Inl Missing_key
   | Some f \<Rightarrow>
       if \<not> fl_regular f then Inl (Bad_key ''master key must be a regular file'')
       else if \<not> fl_private f then Inl (Bad_key ''master key file permissions must not be accessible by group or others'')
       else if length (fl_data f) \<noteq> 32 then Inl (Bad_key ''invalid master key length'')
       else Inr (fl_data f))"

definition LoadKey :: "string \<Rightarrow> disk \<Rightarrow> key_error + string" where
  "LoadKey = readKey"

text \<open>
  The temporary file is written in full before it is linked to its name. \<open>rival\<close> is what another process
  has put there in the meantime: the link fails then, and its key is read.
\<close>

definition LoadOrCreateKey :: "string \<Rightarrow> string \<Rightarrow> file_entry option \<Rightarrow> disk \<Rightarrow> (key_error + string) \<times> disk" where
  "LoadOrCreateKey path fresh rival d = (case readKey path d of
     Inr key \<Rightarrow> (Inr key, d)
   | Inl (Bad_key m) \<Rightarrow> (Inl (Bad_key m), d)
   | Inl Missing_key \<Rightarrow>
       (let d1 = (case rival of None \<Rightarrow> d | Some f \<Rightarrow> d(path \<mapsto> f)) in
        if d1 path \<noteq> None then (readKey path d1, d1)
        else (Inr fresh, d1(path \<mapsto> private_file fresh))))"

section \<open>The configuration: config.go\<close>

definition DefaultDataDir :: string where "DefaultDataDir = ''data''"
definition DefaultListen :: string where "DefaultListen = ''127.0.0.1:8080''"
definition DefaultSocket :: string where "DefaultSocket = ''pogu.sock''"

record Config =
  cf_data_dir :: string
  cf_listen :: string
  cf_control_sock :: string
  cf_master_key :: string
  cf_database :: string

definition Default :: "string \<Rightarrow> Config" where
  "Default dataDir = (let dir = (if dataDir = '''' then DefaultDataDir else dataDir) in
     \<lparr>cf_data_dir = dir, cf_listen = DefaultListen, cf_control_sock = join_path [dir, DefaultSocket],
       cf_master_key = join_path [dir, ''master.key''], cf_database = join_path [dir, ''pogu.db'']\<rparr>)"

definition pathOf :: "string \<Rightarrow> string" where
  "pathOf dataDir = join_path [if dataDir = '''' then DefaultDataDir else dataDir, ''config.json'']"

definition config_json :: "Config \<Rightarrow> json" where
  "config_json c = JObj [(''data_dir'', JStr (cf_data_dir c)), (''listen'', JStr (cf_listen c)),
     (''control_socket'', JStr (cf_control_sock c)), (''master_key_file'', JStr (cf_master_key c)),
     (''database_file'', JStr (cf_database c))]"

definition decode_config :: "body \<Rightarrow> Config option" where
  "decode_config b = Option.bind (body_obj b) (\<lambda>kvs.
     Option.bind (str_field ''data_dir'' kvs) (\<lambda>dir. Option.bind (str_field ''listen'' kvs) (\<lambda>l.
     Option.bind (str_field ''control_socket'' kvs) (\<lambda>s. Option.bind (str_field ''master_key_file'' kvs) (\<lambda>k.
     Option.bind (str_field ''database_file'' kvs) (\<lambda>db.
       Some \<lparr>cf_data_dir = dir, cf_listen = l, cf_control_sock = s, cf_master_key = k, cf_database = db\<rparr>))))))"

text \<open>The file's value, or the one next to the data directory.\<close>

definition given_or :: "string \<Rightarrow> string \<Rightarrow> string" where
  "given_or given dflt = (if given = '''' then dflt else given)"

text \<open>None is a file that does not decode. \<open>dec\<close> is json.Unmarshal, \<open>pretty\<close> json.MarshalIndent.\<close>

definition Load :: "(string \<Rightarrow> body) \<Rightarrow> string \<Rightarrow> disk \<Rightarrow> Config option" where
  "Load decode dataDir d = (case d (pathOf dataDir) of
     None \<Rightarrow> Some (Default dataDir)
   | Some f \<Rightarrow> map_option (\<lambda>c.
       let def = Default (given_or (cf_data_dir c) (cf_data_dir (Default dataDir))) in
       def\<lparr>cf_listen := given_or (cf_listen c) DefaultListen,
         cf_control_sock := given_or (cf_control_sock c) (cf_control_sock def),
         cf_master_key := given_or (cf_master_key c) (cf_master_key def),
         cf_database := given_or (cf_database c) (cf_database def)\<rparr>) (decode_config (decode (fl_data f))))"

text \<open>The temporary file is renamed at the end, so only the result shows.\<close>

definition Save :: "(json \<Rightarrow> string) \<Rightarrow> Config \<Rightarrow> disk \<Rightarrow> disk" where
  "Save pretty c d = d(pathOf (cf_data_dir c) \<mapsto> private_file (pretty (config_json c) @ [nl]))"

section \<open>The runtime: serve.go\<close>

definition memory_path :: string where "memory_path = '':memory:''"

text \<open>The database file is there afterwards, for its owner only, unless SQLite is to interpret the path.\<close>

definition prepareFile :: "string \<Rightarrow> disk \<Rightarrow> string option \<times> disk" where
  "prepareFile path d =
     (if path = memory_path \<or> 5 < length path \<and> take 5 path = ''file:'' then (None, d)
      else (case d path of
          None \<Rightarrow> (None, d(path \<mapsto> private_file ''''))
        | Some f \<Rightarrow>
            if \<not> fl_regular f then (Some ''database path must be a regular file'', d)
            else (None, d(path \<mapsto> f\<lparr>fl_private := True\<rparr>))))"

text \<open>
  store.Open creates the tables that are missing; its last call is os.Chmod on the path as it is given. The
  contents of databases are kept beside the disk, by the path they are opened with.
\<close>

definition open_store :: "string \<Rightarrow> (string \<Rightarrow> store option) \<Rightarrow> disk \<Rightarrow> (string + store) \<times> disk" where
  "open_store path dbs d =
     (if path = '''' then (Inl ''database path is required'', d)
      else (case prepareFile path d of
          (Some m, d') \<Rightarrow> (Inl m, d')
        | (None, d') \<Rightarrow>
            if path = memory_path then (Inr empty_store, d')
            else (case d' path of
                None \<Rightarrow> (Inl ''no such file or directory'', d')
              | Some f \<Rightarrow> (Inr (case dbs path of None \<Rightarrow> empty_store | Some st \<Rightarrow> st), d'(path \<mapsto> f\<lparr>fl_private := True\<rparr>)))))"

text \<open>What is left of a database when it is closed: nothing of the one in memory.\<close>

definition keep_db :: "string \<Rightarrow> store \<Rightarrow> (string \<Rightarrow> store option) \<Rightarrow> string \<Rightarrow> store option" where
  "keep_db path st dbs = (if path = memory_path then dbs else dbs(path \<mapsto> st))"

text \<open>What an installation consists of, and the outside of one start of the program.\<close>

record installation =
  in_disk :: disk
  in_dbs :: "string \<Rightarrow> store option"
  in_tel :: "string \<Rightarrow> tel_store"
  in_os :: os_state

record boot_env =
  bt_decode :: "string \<Rightarrow> body"
  bt_pretty :: "json \<Rightarrow> string"
  bt_fresh :: string
  bt_rival :: "file_entry option"
  bt_crypto :: "string \<Rightarrow> crypto"
  bt_pw :: password_prims
  bt_salt :: string
  bt_token :: string
  bt_now :: time
  bt_faults :: faults

definition key_error_text :: "key_error \<Rightarrow> string" where
  "key_error_text e = (case e of Missing_key \<Rightarrow> ''file does not exist'' | Bad_key m \<Rightarrow> m)"

text \<open>The part that openRuntime and initCommand share, after the configuration: key, database, service.\<close>

definition open_service :: "boot_env \<Rightarrow> Config \<Rightarrow> installation \<Rightarrow> (string + svc \<times> string) \<times> installation" where
  "open_service env cfg inst =
     (case LoadOrCreateKey (cf_master_key cfg) (bt_fresh env) (bt_rival env) (in_disk inst) of
        (Inl e, d) \<Rightarrow> (Inl (key_error_text e), inst\<lparr>in_disk := d\<rparr>)
      | (Inr key, d) \<Rightarrow> (case open_store (cf_database cfg) (in_dbs inst) d of
          (Inl m, d) \<Rightarrow> (Inl m, inst\<lparr>in_disk := d\<rparr>)
        | (Inr st, d) \<Rightarrow> let s = New (bt_crypto env key) (length key) st in
            (Inr (s, key), inst\<lparr>in_disk := d, in_dbs := keep_db (cf_database cfg) (db s) (in_dbs inst)\<rparr>)))"

definition openRuntime ::
  "boot_env \<Rightarrow> string \<Rightarrow> installation \<Rightarrow> (string + Config \<times> svc \<times> string \<times> bool) \<times> installation" where
  "openRuntime env dataDir inst = (case Load (bt_decode env) dataDir (in_disk inst) of
     None \<Rightarrow> (Inl ''invalid configuration'', inst)
   | Some cfg \<Rightarrow>
       (let inst = (if in_disk inst (join_path [cf_data_dir cfg, ''config.json'']) = None
              then inst\<lparr>in_disk := Save (bt_pretty env) cfg (in_disk inst)\<rparr> else inst) in
        (case open_service env cfg inst of
           (Inl m, inst) \<Rightarrow> (Inl m, inst)
         | (Inr (s, key), inst) \<Rightarrow> (Inr (cfg, s, key, \<not> AdminInitialized s), inst))))"

text \<open>The paths of the system as the control socket's server finds them: the disk's files are no sockets.\<close>

definition with_files :: "disk \<Rightarrow> os_state \<Rightarrow> os_state" where
  "with_files d os = os\<lparr>os_node := (\<lambda>p. if d p = None then os_node os p else Some Plain)\<rparr>"

text \<open>serveCommand up to the point where it listens for HTTP: the address, the API value and the control socket.\<close>

definition serveCommand ::
  "boot_env \<Rightarrow> string \<Rightarrow> string \<Rightarrow> installation \<Rightarrow> (string + Config \<times> api \<times> ctl_server) \<times> installation" where
  "serveCommand env dataDir listen inst = (case openRuntime env dataDir inst of
     (Inl m, inst) \<Rightarrow> (Inl m, inst)
   | (Inr (cfg, s, key, setupMode), inst) \<Rightarrow>
       (let cfg = (if listen \<noteq> '''' then cfg\<lparr>cf_listen := listen\<rparr> else cfg) in
        case Start (bt_faults env) (cf_control_sock cfg) (new_ctl_server, with_files (in_disk inst) (in_os inst)) of
          (Some m, cs, os) \<Rightarrow> (Inl m, inst\<lparr>in_os := os\<rparr>)
        | (None, cs, os) \<Rightarrow>
            let tel = (if cf_database cfg = memory_path then tel_empty else in_tel inst (cf_database cfg));
                a = new_api (bt_now env) s tel in
            (Inr (cfg, if setupMode then EnableSetup (GenerateSetupToken (bt_token env)) a else a, cs), inst\<lparr>in_os := os\<rparr>)))"

text \<open>
  How serve ends: ListenAndServe returns, or a signal arrives and the shutdown succeeds or fails. The
  deferred calls close the control socket and the database.
\<close>

datatype serve_end = Listen_failed string | Listen_closed | Interrupted "string option"

definition end_serve :: "faults \<Rightarrow> serve_end \<Rightarrow> ctl_server \<Rightarrow> installation \<Rightarrow> string option \<times> installation" where
  "end_serve ft ev cs inst =
     (case ev of Listen_failed m \<Rightarrow> Some m | Listen_closed \<Rightarrow> None | Interrupted r \<Rightarrow> r,
      inst\<lparr>in_os := snd (snd (Close ft (cs, in_os inst)))\<rparr>)"

text \<open>
  The goroutine that fetches the skill, over what wakes it: the end of the process, or a due fetch (the first
  after thirty seconds, then one a week) with the time and what it gets. A failed one is only logged. The
  second component says whether it still waits.
\<close>

datatype sync_wake = Cancelled | Due string "svc_error + (int \<times> string result)"

fun syncCavemanLoop :: "sync_wake list \<Rightarrow> cave \<Rightarrow> cave \<times> bool" where
  "syncCavemanLoop [] cs = (cs, True)"
| "syncCavemanLoop (Cancelled # ws) cs = (cs, False)"
| "syncCavemanLoop (Due stamp fetched # ws) cs = syncCavemanLoop ws (snd (SyncCavemanSkill stamp fetched cs))"

definition initCommand :: "boot_env \<Rightarrow> string \<Rightarrow> string \<Rightarrow> installation \<Rightarrow> (string + string) \<times> installation" where
  "initCommand env dataDir password inst =
     (if password = '''' then (Inl ''--password or POGU_ADMIN_PASSWORD is required'', inst)
      else (let cfg = Default dataDir; inst = inst\<lparr>in_disk := Save (bt_pretty env) cfg (in_disk inst)\<rparr> in
        (case open_service env cfg inst of
           (Inl m, inst) \<Rightarrow> (Inl m, inst)
         | (Inr (s, key), inst) \<Rightarrow>
             (case InitializeAdmin (bt_pw env) (bt_salt env) (bt_now env) (bt_now env) password s of
                (Inl e, s') \<Rightarrow> (Inl (svc_error_text e), inst)
              | (Inr _, s') \<Rightarrow> (Inr (''initialized data directory '' @ cf_data_dir cfg),
                  inst\<lparr>in_dbs := keep_db (cf_database cfg) (db s') (in_dbs inst)\<rparr>)))))"

end
