(* ===== verification/Command.thy ===== *)
theory Command
  imports Files
begin

text \<open>
  The command line: the parsing of flags as package flag does it, cmd/pogu/main.go and controlcli.go. A
  command that talks to the daemon makes its calls over the control socket, each over a connection of its
  own; what is printed is the text of the value. The environment variables are arguments.
\<close>

section \<open>Package flag\<close>

text \<open>strconv.ParseInt with base 0: a prefix chooses the base, and underscores may separate digits.\<close>

definition digit_value :: "char \<Rightarrow> nat option" where
  "digit_value c = (if is_digit c then Some (code_of c - 48)
     else if is_lower (lower_char c) then Some (code_of (lower_char c) - 87) else None)"

fun digits_value :: "nat \<Rightarrow> nat \<Rightarrow> string \<Rightarrow> nat option" where
  "digits_value base a [] = Some a"
| "digits_value base a (c # s) = (if c = CHR ''_'' then digits_value base a s
     else (case digit_value c of None \<Rightarrow> None
       | Some v \<Rightarrow> if v < base then digits_value base (base * a + v) s else None))"

definition base_of :: "string \<Rightarrow> nat \<times> string" where
  "base_of s = (case s of
     c # r \<Rightarrow> if c \<noteq> CHR ''0'' then (10, s)
       else (case r of
           p # x # rest \<Rightarrow> if lower_char p = CHR ''b'' then (2, x # rest)
             else if lower_char p = CHR ''o'' then (8, x # rest)
             else if lower_char p = CHR ''x'' then (16, x # rest) else (8, r)
         | _ \<Rightarrow> (8, r))
   | [] \<Rightarrow> (10, s))"

text \<open>underscoreOK: an underscore follows a digit or the prefix, and a digit follows it.\<close>

fun underscores_ok :: "bool \<Rightarrow> string \<Rightarrow> bool" where
  "underscores_ok ok [] = True"
| "underscores_ok ok (c # s) = (if c = CHR ''_''
     then ok \<and> (case s of [] \<Rightarrow> False | d # _ \<Rightarrow> d \<noteq> CHR ''_'') \<and> underscores_ok False s
     else underscores_ok True s)"

definition parse_int :: "string \<Rightarrow> int option" where
  "parse_int s = (case unsigned_part s of (neg, ds) \<Rightarrow>
     (case base_of ds of (base, body) \<Rightarrow>
        if ds = '''' \<or> \<not> underscores_ok (base \<noteq> 10) body then None
        else (case digits_value base 0 body of None \<Rightarrow> None
          | Some n \<Rightarrow> let i = (if neg then - int n else int n) in if in_int64 i then Some i else None)))"

text \<open>A flag: its name, whether it is a boolean one, and what setting it does.\<close>

record 'v flag =
  fg_name :: string
  fg_bool :: bool
  fg_set :: "string \<Rightarrow> 'v \<Rightarrow> 'v option"

text \<open>The name and the value of an argument, cut at the first equals sign after the first character.\<close>

definition flag_parts :: "string \<Rightarrow> string \<times> string option" where
  "flag_parts name = (case name of [] \<Rightarrow> ([], None)
     | c # r \<Rightarrow> (case cut_at CHR ''='' r of None \<Rightarrow> (name, None) | Some (n, v) \<Rightarrow> (c # n, Some v)))"

definition bad_flag :: "string \<Rightarrow> bool" where
  "bad_flag name \<longleftrightarrow> (case name of [] \<Rightarrow> True | c # _ \<Rightarrow> c = CHR ''-'' \<or> c = CHR ''='')"

text \<open>The value of a flag, and the arguments after it; a boolean flag takes the next argument never.\<close>

definition flag_value :: "bool \<Rightarrow> string option \<Rightarrow> string list \<Rightarrow> (string \<times> string list) option" where
  "flag_value isbool val args =
     (if isbool then Some (case val of None \<Rightarrow> ''true'' | Some x \<Rightarrow> x, args)
      else (case val of Some x \<Rightarrow> Some (x, args)
        | None \<Rightarrow> (case args of [] \<Rightarrow> None | x # rest \<Rightarrow> Some (x, rest))))"

lemma flag_value_shorter: "flag_value b val args = Some (x, rest) \<Longrightarrow> length rest \<le> length args"
  by (auto simp: flag_value_def split: if_splits option.splits list.splits)

text \<open>FlagSet.Parse: an error, or the values, the names that were set, and the arguments left over.\<close>

function parse_flags ::
  "'v flag list \<Rightarrow> string list \<Rightarrow> 'v \<Rightarrow> string list \<Rightarrow> string + 'v \<times> string list \<times> string list" where
  "parse_flags flags [] v seen = Inr (v, seen, [])"
| "parse_flags flags (s # args) v seen =
     (if length s < 2 \<or> \<not> has_prefix ''-'' s then Inr (v, seen, s # args)
      else if s = ''--'' then Inr (v, seen, args)
      else let name = (if has_prefix ''--'' s then drop 2 s else drop 1 s); (n, val) = flag_parts name in
        if bad_flag name then Inl (''bad flag syntax: '' @ s)
        else (case find (\<lambda>f. fg_name f = n) flags of
            None \<Rightarrow> Inl (if n = ''help'' \<or> n = ''h'' then ''flag: help requested''
              else ''flag provided but not defined: -'' @ n)
          | Some f \<Rightarrow> (case flag_value (fg_bool f) val args of
              None \<Rightarrow> Inl (''flag needs an argument: -'' @ n)
            | Some (x, rest) \<Rightarrow> (case fg_set f x v of
                None \<Rightarrow> Inl (''invalid value for flag -'' @ n)
              | Some v' \<Rightarrow> parse_flags flags rest v' (n # seen)))))"
  by pat_completeness auto

termination
  by (relation "measure (\<lambda>(flags, args, v, seen). length args)") (auto dest: flag_value_shorter simp: less_Suc_eq_le)

section \<open>The control commands: controlcli.go\<close>

record cli_opts =
  co_id :: int
  co_provider_id :: int
  co_name :: string
  co_type :: string
  co_prefix :: string
  co_base_url :: string
  co_api_key :: string
  co_key_selection :: string
  co_secret :: string
  co_file :: string
  co_preview :: bool
  co_enabled :: "bool option"
  co_limit :: int

definition no_opts :: cli_opts where
  "no_opts = \<lparr>co_id = 0, co_provider_id = 0, co_name = '''', co_type = ''openai'', co_prefix = '''',
     co_base_url = '''', co_api_key = '''', co_key_selection = ''first'', co_secret = '''', co_file = '''',
     co_preview = False, co_enabled = None, co_limit = int TelemetryLimit\<rparr>"

definition str_flag :: "string \<Rightarrow> (string \<Rightarrow> cli_opts \<Rightarrow> cli_opts) \<Rightarrow> cli_opts flag" where
  "str_flag n f = \<lparr>fg_name = n, fg_bool = False, fg_set = (\<lambda>x v. Some (f x v))\<rparr>"

definition int_flag :: "string \<Rightarrow> (int \<Rightarrow> cli_opts \<Rightarrow> cli_opts) \<Rightarrow> cli_opts flag" where
  "int_flag n f = \<lparr>fg_name = n, fg_bool = False, fg_set = (\<lambda>x v. map_option (\<lambda>i. f i v) (parse_int x))\<rparr>"

definition bool_flag :: "string \<Rightarrow> (bool \<Rightarrow> cli_opts \<Rightarrow> cli_opts) \<Rightarrow> cli_opts flag" where
  "bool_flag n f = \<lparr>fg_name = n, fg_bool = True, fg_set = (\<lambda>x v. map_option (\<lambda>b. f b v) (parse_bool x))\<rparr>"

definition checked_flag :: "string \<Rightarrow> (string \<Rightarrow> bool) \<Rightarrow> (string \<Rightarrow> cli_opts \<Rightarrow> cli_opts) \<Rightarrow> cli_opts flag" where
  "checked_flag n ok f = \<lparr>fg_name = n, fg_bool = False, fg_set = (\<lambda>x v. if ok x then Some (f x v) else None)\<rparr>"

definition resource_flags :: "cli_opts flag list" where
  "resource_flags = [
     int_flag ''id'' (\<lambda>i v. v\<lparr>co_id := i\<rparr>), str_flag ''name'' (\<lambda>x v. v\<lparr>co_name := x\<rparr>),
     checked_flag ''type'' provider_type_valid (\<lambda>x v. v\<lparr>co_type := x\<rparr>),
     str_flag ''prefix'' (\<lambda>x v. v\<lparr>co_prefix := x\<rparr>), str_flag ''base-url'' (\<lambda>x v. v\<lparr>co_base_url := x\<rparr>),
     str_flag ''api-key'' (\<lambda>x v. v\<lparr>co_api_key := x\<rparr>),
     checked_flag ''key-selection'' key_selection_valid (\<lambda>x v. v\<lparr>co_key_selection := x\<rparr>),
     int_flag ''provider-id'' (\<lambda>i v. v\<lparr>co_provider_id := i\<rparr>),
     bool_flag ''enabled'' (\<lambda>b v. v\<lparr>co_enabled := Some b\<rparr>)]"

definition parseControlRequest :: "string \<Rightarrow> string \<Rightarrow> string list \<Rightarrow> string + ctl_request \<times> string list" where
  "parseControlRequest resource op args =
     (if op = ''list'' then Inr (no_request\<lparr>ct_op := resource @ ''.list''\<rparr>, [])
      else (case parse_flags resource_flags args no_opts [] of
          Inl m \<Rightarrow> Inl m
        | Inr (v, seen, _) \<Rightarrow> Inr (no_request\<lparr>ct_op := resource @ ''.'' @ op, ct_id := co_id v, ct_name := co_name v,
            ct_type := co_type v, ct_prefix := co_prefix v, ct_base_url := co_base_url v,
            ct_key_selection := co_key_selection v,
            ct_api_key := (if co_api_key v \<noteq> '''' \<or> op = ''create'' then Some (co_api_key v) else None),
            ct_provider_id := co_provider_id v, ct_enabled := co_enabled v\<rparr>, seen)))"

text \<open>
  The outside of a command: the client's side of the encoding, the text of a value, the daemon's
  environment at its n-th call, whether a daemon listens at a socket, and the files a command reads.
\<close>

record cli_env =
  cl_codec :: codec
  cl_pretty :: "json \<Rightarrow> string"
  cl_daemon :: "nat \<Rightarrow> ctl_env"
  cl_up :: "string \<Rightarrow> bool"
  cl_boot :: boot_env
  cl_read :: "string \<Rightarrow> string option"
  cl_stdin :: string

text \<open>A call, with the daemon's service as the state.\<close>

definition call_daemon :: "cli_env \<Rightarrow> nat \<Rightarrow> string \<Rightarrow> ctl_request \<Rightarrow> svc \<Rightarrow> (string + json option) \<times> svc" where
  "call_daemon env n sock r s =
     (if \<not> cl_up env sock then (Inl ''connect: no such file or directory'', s)
      else let line = enc (cl_codec env) (request_json r) in
        (case Call (cl_codec env) (\<lambda>i. fst (connection (cl_daemon env n) s i)) r of
           Inl (Transport m) \<Rightarrow> Inl m | Inl (Remote c m) \<Rightarrow> Inl (c @ '': '' @ m) | Inr v \<Rightarrow> Inr v,
         if MaxLineSize < length line then s else snd (connection (cl_daemon env n) s (line @ [nl]))))"

text \<open>printJSON of what Call decoded into an interface: nothing for null.\<close>

definition printed :: "cli_env \<Rightarrow> json option \<Rightarrow> string" where
  "printed env v = (case v of None \<Rightarrow> '''' | Some JNull \<Rightarrow> '''' | Some x \<Rightarrow> cl_pretty env x @ [nl])"

text \<open>The strings of a stored resource, as the client decodes them; an absent result leaves them empty.\<close>

definition current_fields :: "json option \<Rightarrow> string list \<Rightarrow> (string \<Rightarrow> string) option" where
  "current_fields v ks = (case v of
     None \<Rightarrow> Some (\<lambda>_. '''')
   | Some x \<Rightarrow> Option.bind (body_obj (Some x)) (\<lambda>kvs.
       if list_all (\<lambda>k. str_field k kvs \<noteq> None) ks
       then Some (\<lambda>k. case str_field k kvs of None \<Rightarrow> '''' | Some t \<Rightarrow> t) else None))"

definition provider_defaults :: "string list \<Rightarrow> (string \<Rightarrow> string) \<Rightarrow> ctl_request \<Rightarrow> ctl_request" where
  "provider_defaults seen cur r = r\<lparr>
     ct_name := (if ''name'' \<in> set seen then ct_name r else cur ''name''),
     ct_type := (if ''type'' \<in> set seen then ct_type r else cur ''type''),
     ct_prefix := (if ''prefix'' \<in> set seen then ct_prefix r else cur ''prefix''),
     ct_base_url := (if ''base-url'' \<in> set seen then ct_base_url r else cur ''base_url''),
     ct_key_selection := (if ''key-selection'' \<in> set seen then ct_key_selection r else cur ''key_selection'')\<rparr>"

definition model_defaults :: "string list \<Rightarrow> (string \<Rightarrow> string) \<Rightarrow> ctl_request \<Rightarrow> ctl_request" where
  "model_defaults seen cur r = r\<lparr>ct_name := (if ''name'' \<in> set seen then ct_name r else cur ''name'')\<rparr>"

definition fetch_current ::
  "cli_env \<Rightarrow> string \<Rightarrow> string \<Rightarrow> int \<Rightarrow> string list \<Rightarrow> svc \<Rightarrow> (string + (string \<Rightarrow> string)) \<times> svc" where
  "fetch_current env sock op i ks s = (case call_daemon env 0 sock (no_request\<lparr>ct_op := op, ct_id := i\<rparr>) s of
     (Inl m, s') \<Rightarrow> (Inl m, s')
   | (Inr v, s') \<Rightarrow> (case current_fields v ks of None \<Rightarrow> Inl ''json: cannot unmarshal'' | Some cur \<Rightarrow> Inr cur, s'))"

definition fillUpdateDefaults ::
  "cli_env \<Rightarrow> string \<Rightarrow> string \<Rightarrow> string list \<Rightarrow> ctl_request \<Rightarrow> svc \<Rightarrow> (string + ctl_request) \<times> svc" where
  "fillUpdateDefaults env sock resource seen r s =
     (if \<not> has_suffix ''.update'' (ct_op r) then (Inr r, s)
      else if resource = ''provider'' then
        (case fetch_current env sock ''provider.get'' (ct_id r)
            [''name'', ''type'', ''prefix'', ''base_url'', ''key_selection''] s of
           (x, s') \<Rightarrow> (map_sum id (\<lambda>cur. provider_defaults seen cur r) x, s'))
      else if resource = ''model'' then
        (case fetch_current env sock ''model.get'' (ct_id r) [''name''] s of
           (x, s') \<Rightarrow> (map_sum id (\<lambda>cur. model_defaults seen cur r) x, s'))
      else (Inr r, s))"

text \<open>The socket of the installation's configuration.\<close>

definition controlClient :: "cli_env \<Rightarrow> string \<Rightarrow> disk \<Rightarrow> string option" where
  "controlClient env dataDir d = map_option cf_control_sock (Load (bt_decode (cl_boot env)) dataDir d)"

definition run_call :: "cli_env \<Rightarrow> nat \<Rightarrow> string \<Rightarrow> ctl_request \<Rightarrow> svc \<Rightarrow> (string + string) \<times> svc" where
  "run_call env n sock r s = (case call_daemon env n sock r s of (v, s') \<Rightarrow> (map_sum id (printed env) v, s'))"

text \<open>A command that needs the client.\<close>

definition with_client ::
  "cli_env \<Rightarrow> string \<Rightarrow> disk \<Rightarrow> (string \<Rightarrow> svc \<Rightarrow> (string + string) \<times> svc) \<Rightarrow> svc \<Rightarrow> (string + string) \<times> svc" where
  "with_client env dataDir d k s = (case controlClient env dataDir d of
     None \<Rightarrow> (Inl ''invalid configuration'', s) | Some sock \<Rightarrow> k sock s)"

text \<open>The result as a control.Status: what is missing is zero.\<close>

definition decode_status :: "json option \<Rightarrow> json option" where
  "decode_status v = Option.bind (body_obj (case v of None \<Rightarrow> Some JNull | Some x \<Rightarrow> Some x)) (\<lambda>kvs.
     Option.bind (int_field ''providers'' kvs) (\<lambda>p. Option.bind (int_field ''models'' kvs) (\<lambda>m.
     Option.bind (int_field ''keys'' kvs) (\<lambda>k.
       Some (JObj [(''providers'', JInt p), (''models'', JInt m), (''keys'', JInt k)])))))"

definition controlStatus :: "cli_env \<Rightarrow> string \<Rightarrow> disk \<Rightarrow> svc \<Rightarrow> (string + string) \<times> svc" where
  "controlStatus env dataDir d = with_client env dataDir d (\<lambda>sock s.
     case call_daemon env 0 sock (no_request\<lparr>ct_op := ''status''\<rparr>) s of
       (Inl m, s') \<Rightarrow> (Inl (''connect to pogu daemon: '' @ m), s')
     | (Inr v, s') \<Rightarrow> (case decode_status v of
           None \<Rightarrow> Inl (''connect to pogu daemon: json: cannot unmarshal'')
         | Some x \<Rightarrow> Inr (cl_pretty env x @ [nl]), s'))"

definition controlResource :: "cli_env \<Rightarrow> string \<Rightarrow> disk \<Rightarrow> string \<Rightarrow> string list \<Rightarrow> svc \<Rightarrow> (string + string) \<times> svc" where
  "controlResource env dataDir d resource args s = (case args of
     [] \<Rightarrow> (Inl (resource @ '': operation is required''), s)
   | op # rest \<Rightarrow> with_client env dataDir d (\<lambda>sock s.
       case parseControlRequest resource op rest of
         Inl m \<Rightarrow> (Inl m, s)
       | Inr (r, seen) \<Rightarrow> (case fillUpdateDefaults env sock resource seen r s of
           (Inl m, s') \<Rightarrow> (Inl m, s')
         | (Inr r', s') \<Rightarrow> run_call env 1 sock r' s')) s)"

definition key_flags :: "cli_opts flag list" where
  "key_flags = [
     int_flag ''id'' (\<lambda>i v. v\<lparr>co_id := i\<rparr>), int_flag ''provider-id'' (\<lambda>i v. v\<lparr>co_provider_id := i\<rparr>),
     str_flag ''name'' (\<lambda>x v. v\<lparr>co_name := x\<rparr>), str_flag ''secret'' (\<lambda>x v. v\<lparr>co_secret := x\<rparr>),
     str_flag ''file'' (\<lambda>x v. v\<lparr>co_file := x\<rparr>), bool_flag ''preview'' (\<lambda>b v. v\<lparr>co_preview := b\<rparr>),
     bool_flag ''enabled'' (\<lambda>b v. v\<lparr>co_enabled := Some b\<rparr>)]"

text \<open>enable and disable are updates with the flag given.\<close>

definition key_operation :: "string \<Rightarrow> bool option \<Rightarrow> string \<times> bool option" where
  "key_operation op given = (if op = ''enable'' then (''update'', Some True)
     else if op = ''disable'' then (''update'', Some False) else (op, given))"

definition key_request :: "string \<Rightarrow> cli_opts \<Rightarrow> ctl_request" where
  "key_request op v = (case key_operation op (co_enabled v) of (op', en) \<Rightarrow>
     no_request\<lparr>ct_op := ''provider_key.'' @ op', ct_id := co_id v, ct_provider_id := co_provider_id v,
       ct_name := co_name v, ct_enabled := en,
       ct_secret := (if co_secret v \<noteq> '''' then Some (co_secret v) else None)\<rparr>)"

text \<open>The text of an import: a file, or standard input.\<close>

definition import_text :: "cli_env \<Rightarrow> string \<Rightarrow> string + string" where
  "import_text env path = (if path = '''' then Inr (cl_stdin env)
     else (case cl_read env path of None \<Rightarrow> Inl ''read import file'' | Some t \<Rightarrow> Inr t))"

definition send_key_request :: "cli_env \<Rightarrow> string \<Rightarrow> string \<Rightarrow> cli_opts \<Rightarrow> ctl_request \<Rightarrow> svc \<Rightarrow> (string + string) \<times> svc" where
  "send_key_request env sock op v r s =
     (if op = ''import'' then (case import_text env (co_file v) of
          Inl m \<Rightarrow> (Inl m, s)
        | Inr t \<Rightarrow> run_call env 1 sock (r\<lparr>ct_text := t, ct_preview := co_preview v\<rparr>) s)
      else run_call env 1 sock r s)"

definition controlProviderKey :: "cli_env \<Rightarrow> string \<Rightarrow> disk \<Rightarrow> string list \<Rightarrow> svc \<Rightarrow> (string + string) \<times> svc" where
  "controlProviderKey env dataDir d args s = (case args of
     [] \<Rightarrow> (Inl (''provider key: operation is required (list, create, get, update, enable, disable, primary, delete, test, import)''), s)
   | op # rest \<Rightarrow> with_client env dataDir d (\<lambda>sock s.
       case parse_flags key_flags rest no_opts [] of
         Inl m \<Rightarrow> (Inl m, s)
       | Inr (v, _, _) \<Rightarrow>
           (let r = key_request op v; op' = fst (key_operation op None) in
            if op' = ''update'' \<and> co_name v = ''''
            then (case fetch_current env sock ''provider_key.get'' (co_id v) [''name''] s of
                (Inl m, s') \<Rightarrow> (Inl m, s')
              | (Inr cur, s') \<Rightarrow> send_key_request env sock op' v (r\<lparr>ct_name := cur ''name''\<rparr>) s')
            else send_key_request env sock op' v r s)) s)"

text \<open>The entries are printed as they came; of a nil slice, null is.\<close>

definition limited :: "int \<Rightarrow> json \<Rightarrow> json" where
  "limited n v = (case v of JArr es \<Rightarrow> JArr (take (nat n) es) | _ \<Rightarrow> v)"

definition telemetryCommand :: "cli_env \<Rightarrow> string \<Rightarrow> disk \<Rightarrow> string list \<Rightarrow> svc \<Rightarrow> (string + string) \<times> svc" where
  "telemetryCommand env dataDir d args s =
     (if args = [] \<or> hd args \<noteq> ''list'' then (Inl ''telemetry: operation must be \"list\"'', s)
      else (case parse_flags [int_flag ''limit'' (\<lambda>i v. v\<lparr>co_limit := i\<rparr>)] (tl args) no_opts [] of
          Inl m \<Rightarrow> (Inl m, s)
        | Inr (v, _, rest) \<Rightarrow>
            if rest \<noteq> [] then (Inl (''unexpected argument '' @ hd rest), s)
            else if co_limit v < 1 \<or> 1000 < co_limit v then (Inl ''--limit must be between 1 and 1000'', s)
            else with_client env dataDir d (\<lambda>sock s.
              case call_daemon env 0 sock (no_request\<lparr>ct_op := ''telemetry.list''\<rparr>) s of
                (Inl m, s') \<Rightarrow> (Inl m, s')
              | (Inr None, s') \<Rightarrow> (Inr '''', s')
              | (Inr (Some x), s') \<Rightarrow> (Inr (cl_pretty env (limited (co_limit v) x) @ [nl]), s')) s))"

section \<open>main.go\<close>

definition data_dir_eq :: string where "data_dir_eq = ''--data-dir=''"

fun extractDataDir :: "string list \<Rightarrow> string \<Rightarrow> string + string list \<times> string" where
  "extractDataDir [] dir = Inr ([], dir)"
| "extractDataDir (a # args) dir =
     (if a = ''--data-dir'' then
        (case args of [] \<Rightarrow> Inl ''--data-dir requires a value''
         | x # rest \<Rightarrow> if x = '''' then Inl ''--data-dir requires a value'' else extractDataDir rest x)
      else if has_prefix data_dir_eq a then
        (let x = drop (length data_dir_eq) a in
         if x = '''' then Inl ''--data-dir requires a value'' else extractDataDir args x)
      else map_sum id (\<lambda>(out, d). (a # out, d)) (extractDataDir args dir))"

definition usage :: string where
  "usage = join [nl] [''usage:'', ''  pogu init --data-dir DIR --password PASSWORD'',
     ''  pogu serve --data-dir DIR [--listen HOST:PORT]'', ''  pogu status --data-dir DIR'',
     ''  pogu provider list|create|get|update|delete|test ...'',
     ''  pogu provider key list|create|get|update|enable|disable|delete|primary|test|import ...'',
     ''  pogu model list|create|get|update|delete ...'', ''  pogu key list|create|revoke ...'',
     ''  pogu telemetry list [--limit N]'']"

text \<open>
  One run of the program. The two commands that open the installation themselves leave it changed; serve
  ends in the server's initial state, and the others run against a daemon's service. An index out of
  range ends the program with a panic.
\<close>

datatype outcome = Failed string | Printed string | Serving Config api ctl_server | Panicked

definition one_flag :: "string \<Rightarrow> string list \<Rightarrow> string \<Rightarrow> string + string" where
  "one_flag n args dflt = (case parse_flags [str_flag n (\<lambda>x v. v\<lparr>co_name := x\<rparr>)] args (no_opts\<lparr>co_name := dflt\<rparr>) [] of
     Inl m \<Rightarrow> Inl m | Inr (v, _, _) \<Rightarrow> Inr (co_name v))"

definition by_daemon :: "(string + string) \<times> svc \<Rightarrow> installation \<Rightarrow> outcome \<times> installation \<times> svc" where
  "by_daemon r inst = (case r of (Inl m, s) \<Rightarrow> (Failed m, inst, s) | (Inr out, s) \<Rightarrow> (Printed out, inst, s))"

definition run ::
  "cli_env \<Rightarrow> string \<Rightarrow> string \<Rightarrow> string list \<Rightarrow> installation \<Rightarrow> svc \<Rightarrow> outcome \<times> installation \<times> svc" where
  "run env env_dir env_password args inst s =
     (if args = [] then (Failed usage, inst, s)
      else (case extractDataDir args (if env_dir = '''' then DefaultDataDir else env_dir) of
          Inl m \<Rightarrow> (Failed m, inst, s)
        | Inr ([], dir) \<Rightarrow> (Panicked, inst, s)
        | Inr (c # rest, dir) \<Rightarrow>
            if c = ''init'' then
              (case one_flag ''password'' rest env_password of
                 Inl m \<Rightarrow> (Failed m, inst, s)
               | Inr password \<Rightarrow> (case initCommand (cl_boot env) dir password inst of
                   (Inl m, inst') \<Rightarrow> (Failed m, inst', s) | (Inr out, inst') \<Rightarrow> (Printed (out @ [nl]), inst', s)))
            else if c = ''serve'' then
              (case one_flag ''listen'' rest '''' of
                 Inl m \<Rightarrow> (Failed m, inst, s)
               | Inr listen \<Rightarrow> (case serveCommand (cl_boot env) dir listen inst of
                   (Inl m, inst') \<Rightarrow> (Failed m, inst', s) | (Inr (cfg, a, cs), inst') \<Rightarrow> (Serving cfg a cs, inst', s)))
            else if c = ''status'' then by_daemon (controlStatus env dir (in_disk inst) s) inst
            else if c = ''provider'' \<and> rest \<noteq> [] \<and> hd rest = ''key''
            then by_daemon (controlProviderKey env dir (in_disk inst) (tl rest) s) inst
            else if c = ''provider'' \<or> c = ''model'' \<or> c = ''key''
            then by_daemon (controlResource env dir (in_disk inst) c rest s) inst
            else if c = ''telemetry'' then by_daemon (telemetryCommand env dir (in_disk inst) rest s) inst
            else (Failed (''unknown command '' @ c @ [nl] @ usage), inst, s)))"

end
