(* ===== verification/Socket_Laws.thy ===== *)
theory Socket_Laws
  imports Socket
begin

text \<open>
  What the steps of Socket keep: the invariant of daemons that share a system, by a lemma for each call of
  the system and each operation, and Start as the sequence of its calls.
\<close>

section \<open>The invariant\<close>

lemma socket_okI:
  assumes "os_next os0 \<le> os_next os" "\<And>n. n \<in> set (os_listening os) \<Longrightarrow> n < os_next os"
    "\<And>p n b. os_node os p = Some (Sock n b) \<Longrightarrow> n < os_next os"
    "\<And>i n. cs_listener (ss i) = Some n \<Longrightarrow> \<not> cs_closed (ss i) \<and> os_next os0 \<le> n \<and> n \<in> set (os_listening os) \<and>
      os_node os (cs_path (ss i)) = Some (Sock n True)"
    "\<And>i j n. cs_listener (ss i) = Some n \<Longrightarrow> cs_listener (ss j) = Some n \<Longrightarrow> i = j"
    "\<And>c. c \<in> set (os_conns os) \<Longrightarrow> c \<in> set (os_conns os0) \<or> (\<exists>i. cs_listener (ss i) \<noteq> None \<and> c \<in> set (cs_conns (ss i)))"
    "\<And>n. n \<in> set (os_listening os0) \<Longrightarrow> n < os_next os0 \<and> n \<in> set (os_listening os)"
    "\<And>p. foreign os0 p \<Longrightarrow> os_node os p = os_node os0 p"
  shows "socket_ok os0 (ss, os)"
  unfolding socket_ok_def prod.case using assms by blast

lemma socket_okD:
  assumes "socket_ok os0 (ss, os)"
  shows "os_next os0 \<le> os_next os" "\<And>n. n \<in> set (os_listening os) \<Longrightarrow> n < os_next os"
    "\<And>p n b. os_node os p = Some (Sock n b) \<Longrightarrow> n < os_next os"
    "\<And>i n. cs_listener (ss i) = Some n \<Longrightarrow> \<not> cs_closed (ss i) \<and> os_next os0 \<le> n \<and> n \<in> set (os_listening os) \<and>
      os_node os (cs_path (ss i)) = Some (Sock n True)"
    "\<And>i j n. cs_listener (ss i) = Some n \<Longrightarrow> cs_listener (ss j) = Some n \<Longrightarrow> i = j"
    "\<And>c. c \<in> set (os_conns os) \<Longrightarrow> c \<in> set (os_conns os0) \<or> (\<exists>i. cs_listener (ss i) \<noteq> None \<and> c \<in> set (cs_conns (ss i)))"
    "\<And>n. n \<in> set (os_listening os0) \<Longrightarrow> n < os_next os0 \<and> n \<in> set (os_listening os)"
    "\<And>p. foreign os0 p \<Longrightarrow> os_node os p = os_node os0 p"
  using assms unfolding socket_ok_def prod.case by blast+

lemma foreign_live: "socket_ok os0 (ss, os) \<Longrightarrow> foreign os0 p \<Longrightarrow> os_node os p = Some Plain \<or> dial p os"
  using socket_okD(7,8) [of os0 ss os] by (auto simp: foreign_def dial_def split: option.splits sock_node.splits)

lemma running_live: "socket_ok os0 (ss, os) \<Longrightarrow> cs_listener (ss i) = Some n \<Longrightarrow> dial (cs_path (ss i)) os"
  using socket_okD(4) [of os0 ss os i n] by (simp add: dial_def)

text \<open>A socket of a number given since is not one of before.\<close>

lemma own_not_foreign:
  assumes ok: "socket_ok os0 (ss, os)" and own: "os_node os path = Some (Sock n b)" "os_next os0 \<le> n"
  shows "\<not> foreign os0 path"
proof
  assume f: "foreign os0 path"
  then have "os_node os0 path = Some (Sock n b)" "dial path os0"
    using own(1) socket_okD(8) [OF ok f] by (auto simp: foreign_def)
  then show False using socket_okD(7) [OF ok, of n] own(2) by (auto simp: dial_def)
qed

lemma running_foreign: "socket_ok os0 (ss, os) \<Longrightarrow> cs_listener (ss i) = Some n \<Longrightarrow> \<not> foreign os0 (cs_path (ss i))"
  using own_not_foreign socket_okD(4) by blast

text \<open>A path where nothing answers can be cleared.\<close>

lemma unlink_ok:
  assumes ok: "socket_ok os0 (ss, os)" and stale: "os_node os path \<noteq> Some Plain" "\<not> dial path os"
  shows "socket_ok os0 (ss, unlink path os)"
proof -
  note D = socket_okD [OF ok]
  have "p \<noteq> path" if "foreign os0 p" for p using foreign_live [OF ok that] stale by auto
  moreover have "cs_path (ss i) \<noteq> path" if "cs_listener (ss i) = Some n" for i n
    using running_live [OF ok that] stale(2) by auto
  ultimately show ?thesis
    using D by (intro socket_okI) (auto simp: unlink_def split: if_splits)
qed

lemma free_path_ok:
  assumes ok: "socket_ok os0 (ss, os)" and free: "free_path ft path os = (r, os')"
  shows "socket_ok os0 (ss, os')" "r = None \<Longrightarrow> os_node os' path = None"
  using free unlink_ok [OF ok, of path] ok
  by (auto simp: free_path_def unlink_def split: if_splits option.splits sock_node.splits)

text \<open>A listener that no daemon has yet, on a path that was free.\<close>

lemma bind_ok:
  assumes ok: "socket_ok os0 (ss, os)" and free: "os_node os path = None"
  shows "socket_ok os0 (ss, bind_listener path os)"
proof -
  note D = socket_okD [OF ok]
  have "p \<noteq> path" if "foreign os0 p" for p using foreign_live [OF ok that] free by (auto simp: dial_def)
  moreover have "cs_path (ss i) \<noteq> path" if "cs_listener (ss i) = Some n" for i n
    using D(4) [OF that] free by auto
  ultimately show ?thesis
    using D by (intro socket_okI) (auto simp: bind_listener_def less_Suc_eq split: if_splits)
qed

lemma secure_ok:
  assumes ok: "socket_ok os0 (ss, os)" and new: "os_node os path = Some (Sock n b)" "os_next os0 \<le> n"
  shows "socket_ok os0 (ss, secure path os)"
proof -
  note D = socket_okD [OF ok]
  have "p \<noteq> path" if "foreign os0 p" for p using own_not_foreign [OF ok new] that by auto
  then show ?thesis
    using D new(1) by (intro socket_okI) (auto simp: secure_def split: if_splits)
qed

lemma close_listener_ok:
  assumes ok: "socket_ok os0 (ss, os)" and mine: "os_node os path = Some (Sock n b)" "os_next os0 \<le> n"
    and free: "\<And>i. cs_listener (ss i) \<noteq> Some n"
  shows "socket_ok os0 (ss, close_listener n path os)"
proof -
  note D = socket_okD [OF ok]
  have "p \<noteq> path" if "foreign os0 p" for p using own_not_foreign [OF ok mine] that by auto
  moreover have "cs_path (ss i) \<noteq> path" if "cs_listener (ss i) = Some m" for i m
    using D(4) [OF that] mine(1) free that by auto
  moreover have before: "m \<noteq> n" if "m \<in> set (os_listening os0)" for m using D(7) [OF that] mine(2) by auto
  ultimately show ?thesis
    using D before free by (intro socket_okI) (auto simp: close_listener_def unlink_def split: if_splits)
qed

lemma open_listener_ok:
  assumes ok: "socket_ok os0 (ss, os)" and opened: "open_listener ft path os = (r, os')"
  shows "socket_ok os0 (ss, os')"
    and "r = Inr n \<Longrightarrow> n = os_next os \<and> n \<in> set (os_listening os') \<and> os_node os' path = Some (Sock n True)"
proof -
  note D = socket_okD [OF ok]
  have unowned: "cs_listener (ss i) \<noteq> Some (os_next os)" for i
    using D(2,4) [of "os_next os"] D(4) [of i "os_next os"] by auto
  have bound: "os_node (bind_listener path os) path = Some (Sock (os_next os) False)"
    "os_listening (bind_listener path os) = os_next os # os_listening os" by (simp_all add: bind_listener_def)
  have gone: "unlink path (close_listener n path os) = close_listener n path os" for n os
    by (simp add: close_listener_def unlink_def)
  show "socket_ok os0 (ss, os')"
    using opened ok bind_ok [OF ok] secure_ok [OF bind_ok [OF ok] bound(1) D(1)]
      close_listener_ok [OF bind_ok [OF ok] bound(1) D(1) unowned]
    by (auto simp: open_listener_def Let_def gone split: if_splits)
  show "r = Inr n \<Longrightarrow> n = os_next os \<and> n \<in> set (os_listening os') \<and> os_node os' path = Some (Sock n True)"
    using opened bound by (auto simp: open_listener_def Let_def secure_def split: if_splits)
qed


text \<open>A change to one daemon and to the open connections.\<close>

lemma socket_ok_one:
  assumes ok: "socket_ok os0 (ss, os)" and rest: "\<And>j. j \<noteq> i \<Longrightarrow> ss' j = ss j"
    and mine: "\<And>n. cs_listener (ss' i) = Some n \<Longrightarrow> \<not> cs_closed (ss' i) \<and> os_next os0 \<le> n \<and> n \<in> set (os_listening os) \<and>
      os_node os (cs_path (ss' i)) = Some (Sock n True)"
    and alone: "\<And>n j. cs_listener (ss' i) = Some n \<Longrightarrow> j \<noteq> i \<Longrightarrow> cs_listener (ss j) \<noteq> Some n"
    and conns: "\<And>c. c \<in> set cs \<Longrightarrow> cs_listener (ss' i) \<noteq> None \<and> c \<in> set (cs_conns (ss' i)) \<or>
      c \<in> set (os_conns os) \<and> (cs_listener (ss i) = None \<or> c \<notin> set (cs_conns (ss i)))"
  shows "socket_ok os0 (ss', os\<lparr>os_conns := cs\<rparr>)"
proof (rule socket_okI)
  note D = socket_okD [OF ok]
  fix c assume "c \<in> set (os_conns (os\<lparr>os_conns := cs\<rparr>))"
  then have "cs_listener (ss' i) \<noteq> None \<and> c \<in> set (cs_conns (ss' i)) \<or>
      c \<in> set (os_conns os) \<and> (cs_listener (ss i) = None \<or> c \<notin> set (cs_conns (ss i)))"
    by (intro conns) simp
  moreover have "c \<in> set (os_conns os0) \<or> (\<exists>j. cs_listener (ss' j) \<noteq> None \<and> c \<in> set (cs_conns (ss' j)))"
    if c: "c \<in> set (os_conns os)" "cs_listener (ss i) = None \<or> c \<notin> set (cs_conns (ss i))"
  proof (cases "c \<in> set (os_conns os0)")
    case False
    then obtain j where j: "cs_listener (ss j) \<noteq> None" "c \<in> set (cs_conns (ss j))" using D(6) [OF c(1)] by blast
    then have "ss' j = ss j" using c(2) rest by metis
    then show ?thesis using j by metis
  qed simp
  ultimately show "c \<in> set (os_conns os0) \<or> (\<exists>j. cs_listener (ss' j) \<noteq> None \<and> c \<in> set (cs_conns (ss' j)))" by blast
next
  note D = socket_okD [OF ok]
  fix j n assume j: "cs_listener (ss' j) = Some n"
  show "\<not> cs_closed (ss' j) \<and> os_next os0 \<le> n \<and> n \<in> set (os_listening (os\<lparr>os_conns := cs\<rparr>)) \<and>
      os_node (os\<lparr>os_conns := cs\<rparr>) (cs_path (ss' j)) = Some (Sock n True)"
    using mine rest D(4) j by (cases "j = i") simp_all
  fix k assume "cs_listener (ss' k) = Some n"
  then show "j = k"
    using alone rest D(5) j by (metis (no_types))
qed (use socket_okD [OF ok] in simp_all)

text \<open>The four operations.\<close>

lemma socket_ok_put:
  assumes ok: "socket_ok os0 (ss, os)" and new: "n \<in> set (os_listening os)" "os_next os0 \<le> n" "os_node os path = Some (Sock n True)"
    and free: "\<And>i. cs_listener (ss i) \<noteq> Some n" and idle: "cs_listener (ss i) = None \<or> cs_closed (ss i)"
  shows "socket_ok os0 (ss(i := (ss i)\<lparr>cs_listener := Some n, cs_path := path, cs_closed := False\<rparr>), os)"
proof -
  note D = socket_okD [OF ok]
  have none: "cs_listener (ss i) = None" using idle D(4) [of i] by (cases "cs_listener (ss i)") auto
  have "socket_ok os0 (ss(i := (ss i)\<lparr>cs_listener := Some n, cs_path := path, cs_closed := False\<rparr>), os\<lparr>os_conns := os_conns os\<rparr>)"
    by (rule socket_ok_one [OF ok, of i]) (use new free none in simp_all)
  then show ?thesis by simp
qed

lemma start_ok:
  assumes ok: "socket_ok os0 (ss, os)"
  shows "socket_ok os0 (put_at i (snd (Start ft path (ss i, os))) (ss, os))"
proof (cases "path = ''''")
  case True
  then show ?thesis using ok by (simp add: Start_def put_at_def)
next
  case False
  obtain r os1 where f: "free_path ft path os = (r, os1)" by fastforce
  obtain q os2 where o: "open_listener ft path os1 = (q, os2)" by fastforce
  note ok1 = free_path_ok(1) [OF ok f] and ok2 = open_listener_ok(1) [OF free_path_ok(1) [OF ok f] o]
  have new: "n \<in> set (os_listening os2)" "os_next os0 \<le> n" "os_node os2 path = Some (Sock n True)"
      "cs_listener (ss j) \<noteq> Some n" if "q = Inr n" for n j
    using open_listener_ok(2) [OF ok1 o that] socket_okD(1,2,4) [OF ok1] by fastforce+
  have gone: "unlink path (close_listener n path os) = close_listener n path os" for n os
    by (simp add: close_listener_def unlink_def)
  show ?thesis
    using False ok1 ok2 f o socket_ok_put [OF ok2 new(1,2,3,4)] close_listener_ok [OF ok2 new(3) new(2,4)]
    by (auto simp: Start_def put_at_def gone split: option.splits sum.splits)
qed

lemma accept_ok:
  assumes ok: "socket_ok os0 (ss, os)" and run: "cs_listener (ss i) = Some n"
  shows "socket_ok os0 (put_at i (snd (accept_round (Conn c) (ss i, os))) (ss, os))"
proof -
  have "socket_ok os0 (ss(i := (ss i)\<lparr>cs_conns := c # cs_conns (ss i)\<rparr>), os\<lparr>os_conns := c # os_conns os\<rparr>)"
    by (rule socket_ok_one [OF ok, of i]) (use socket_okD(4,5) [OF ok] run in auto)
  then show ?thesis by (simp add: accept_round_def put_at_def)
qed

lemma end_ok:
  assumes ok: "socket_ok os0 (ss, os)"
  shows "socket_ok os0 (put_at i (conn_done c (ss i, os)) (ss, os))"
proof -
  have "socket_ok os0 (ss(i := (ss i)\<lparr>cs_conns := filter (\<lambda>d. d \<noteq> c) (cs_conns (ss i))\<rparr>),
      os\<lparr>os_conns := filter (\<lambda>d. d \<noteq> c) (os_conns os)\<rparr>)"
    by (rule socket_ok_one [OF ok, of i]) (use socket_okD(4,5) [OF ok] in auto)
  then show ?thesis by (simp add: conn_done_def put_at_def close_conns_def)
qed

text \<open>Close of a server that runs: the socket is gone with the listener, whatever os.Remove says then.\<close>

lemma Close_running:
  assumes "cs_listener s = Some n" "\<not> cs_closed s"
  shows "Close ft (s, os) = (if ft_close ft then Some ''close'' else Some ''file does not exist'',
      s\<lparr>cs_closed := True, cs_listener := None, cs_path := ''''\<rparr>, close_conns (cs_conns s) (close_listener n (cs_path s) os))"
  using assms by (simp add: Close_def Let_def close_conns_def close_listener_def unlink_def)

lemma Close_idle: "cs_listener s = None \<or> cs_closed s \<Longrightarrow> Close ft (s, os) = (None, s, os)"
  by (auto simp: Close_def split: option.splits)

lemma close_ok:
  assumes ok: "socket_ok os0 (ss, os)"
  shows "socket_ok os0 (put_at i (snd (Close ft (ss i, os))) (ss, os))"
proof (cases "cs_listener (ss i)")
  case None
  then show ?thesis using ok Close_idle [of "ss i" ft os] by (simp add: put_at_def)
next
  case (Some n)
  note D = socket_okD [OF ok]
  let ?s = "(ss i)\<lparr>cs_closed := True, cs_listener := None, cs_path := ''''\<rparr>"
  have running: "\<not> cs_closed (ss i)" "os_next os0 \<le> n" "os_node os (cs_path (ss i)) = Some (Sock n True)" using D(4) [OF Some] by auto
  have rest: "socket_ok os0 (ss(i := ?s), os\<lparr>os_conns := filter (\<lambda>c. c \<notin> set (cs_conns (ss i))) (os_conns os)\<rparr>)" (is "socket_ok os0 (?ss, ?os)")
    by (rule socket_ok_one [OF ok, of i]) simp_all
  have others: "cs_listener (?ss j) \<noteq> Some n" for j using D(5) [of i n j] Some by (cases "j = i") auto
  have "socket_ok os0 (?ss, close_listener n (cs_path (ss i)) ?os)"
    by (rule close_listener_ok [OF rest _ running(2) others]) (simp add: running(3))
  moreover have "close_conns (cs_conns (ss i)) (close_listener n (cs_path (ss i)) os) = close_listener n (cs_path (ss i)) ?os"
    by (simp add: close_conns_def close_listener_def unlink_def)
  ultimately show ?thesis by (simp add: Close_running [OF Some running(1)] put_at_def)
qed

lemma socket_init_ok: "socket_init os0 d \<Longrightarrow> socket_ok os0 d"
  by (cases d) (auto simp: socket_init_def new_ctl_server_def intro!: socket_okI)

lemma socket_step_ok:
  assumes "socket_step d d'" "socket_ok os0 d"
  shows "socket_ok os0 d'"
proof -
  obtain ss os where d: "d = (ss, os)" by fastforce
  from assms show ?thesis unfolding d
    by (cases rule: socket_step.cases) (simp_all only: fst_conv snd_conv start_ok accept_ok end_ok close_ok)
qed

interpretation sockets: inductive_invariant "socket_init os0" socket_step "socket_ok os0"
  by unfold_locales (rule socket_init_ok, assumption, erule socket_step_ok, assumption)

lemma Start_live: "dial path os \<Longrightarrow> \<exists>m. Start ft path (s, os) = (Some m, s, os)"
  by (auto simp: Start_def free_path_def dial_def split: option.splits sock_node.splits)

lemma Start_done:
  assumes "Start ft path (s, os) = (None, s', os')"
  shows "\<not> foreign os path" "\<exists>n. cs_listener s' = Some n \<and> cs_path s' = path \<and> os_node os' path = Some (Sock n True) \<and> dial path os'"
  using assms by (auto simp: Start_def free_path_def open_listener_def bind_listener_def unlink_def secure_def foreign_def dial_def Let_def
      split: if_splits option.splits sock_node.splits sum.splits prod.splits)

lemma Start_closed:
  assumes "Start ft path (new_ctl_server, os) = (None, s', os')"
  shows "os_node (snd (snd (Close ft' (s', os')))) path = None"
proof -
  have "cs_listener s' = Some (os_next (snd (free_path ft path os))) \<and> \<not> cs_closed s' \<and> cs_path s' = path"
    using assms by (auto simp: Start_def open_listener_def new_ctl_server_def Let_def
        split: if_splits option.splits sum.splits prod.splits)
  then show ?thesis using Close_running [of s'] by (auto simp: close_conns_def close_listener_def unlink_def)
qed

text \<open>Start is its calls one after the other.\<close>

lemma Start_call_by_call:
  "(start_round ft path ^^ 6) (At_inspect, s, os) = (Started (fst (Start ft path (s, os))), snd (Start ft path (s, os)))"
  by (simp add: numeral_eq_Suc start_round_def Start_def free_path_def open_listener_def Let_def bind_listener_def unlink_def
      secure_def close_listener_def split: option.splits sock_node.splits sum.splits prod.splits)

section \<open>What the daemons do, in detail\<close>

lemma daemon_facts:
  assumes "reachable (socket_init os0) socket_step (ss, os)"
  shows "cs_listener (ss i) = Some n \<Longrightarrow> os_node os (cs_path (ss i)) = Some (Sock n True) \<and> dial (cs_path (ss i)) os \<and>
      \<not> foreign os0 (cs_path (ss i)) \<and> (\<forall>ft j. \<exists>m. Start ft (cs_path (ss i)) (ss j, os) = (Some m, ss j, os)) \<and>
      (\<forall>j. cs_listener (ss j) \<noteq> None \<longrightarrow> cs_path (ss j) = cs_path (ss i) \<longrightarrow> j = i)"
    and "foreign os0 p \<Longrightarrow> os_node os p = os_node os0 p \<and> (dial p os0 \<longrightarrow> dial p os)"
    and "c \<in> set (os_conns os) \<Longrightarrow> c \<in> set (os_conns os0) \<or> (\<exists>i. cs_listener (ss i) \<noteq> None \<and> c \<in> set (cs_conns (ss i)))"
proof -
  have ok: "socket_ok os0 (ss, os)" using sockets.reachable_inv [OF assms] .
  note D = socket_okD [OF ok]
  show "c \<in> set (os_conns os) \<Longrightarrow> c \<in> set (os_conns os0) \<or> (\<exists>i. cs_listener (ss i) \<noteq> None \<and> c \<in> set (cs_conns (ss i)))"
    by (rule D(6))
  show "foreign os0 p \<Longrightarrow> os_node os p = os_node os0 p \<and> (dial p os0 \<longrightarrow> dial p os)"
    using D(7,8) by (auto simp: dial_def split: option.splits sock_node.splits)
  assume run: "cs_listener (ss i) = Some n"
  have live: "dial (cs_path (ss i)) os" by (rule running_live [OF ok run])
  have "j = i" if j: "cs_listener (ss j) \<noteq> None" "cs_path (ss j) = cs_path (ss i)" for j
  proof -
    obtain m where m: "cs_listener (ss j) = Some m" using j(1) by blast
    then have "m = n" using D(4) [OF m] D(4) [OF run] j(2) by simp
    then show ?thesis using D(5) [OF m] run by simp
  qed
  then show "os_node os (cs_path (ss i)) = Some (Sock n True) \<and> dial (cs_path (ss i)) os \<and>
      \<not> foreign os0 (cs_path (ss i)) \<and> (\<forall>ft j. \<exists>m. Start ft (cs_path (ss i)) (ss j, os) = (Some m, ss j, os)) \<and>
      (\<forall>j. cs_listener (ss j) \<noteq> None \<longrightarrow> cs_path (ss j) = cs_path (ss i) \<longrightarrow> j = i)"
    using D(4) [OF run] live running_foreign [OF ok run] Start_live [OF live] by (intro conjI allI impI) simp_all
qed

lemma refused_facts:
  assumes "Start ft path (s, os) = (r, s', os')" "\<forall>n \<in> set (os_listening os). n < os_next os"
  shows "r \<noteq> None \<Longrightarrow> s' = s \<and> os_listening os' = os_listening os \<and> os_conns os' = os_conns os \<and>
      (\<forall>p. p \<noteq> path \<longrightarrow> os_node os' p = os_node os p) \<and>
      (os_node os' path = os_node os path \<or> os_node os path \<noteq> Some Plain \<and> \<not> dial path os \<and> os_node os' path = None)"
    and "foreign os path \<Longrightarrow> r \<noteq> None"
proof -
  have new: "filter (\<lambda>m. m \<noteq> os_next os) (os_listening os) = os_listening os"
    using assms(2) by (intro filter_True) auto
  show "r \<noteq> None \<Longrightarrow> s' = s \<and> os_listening os' = os_listening os \<and> os_conns os' = os_conns os \<and>
      (\<forall>p. p \<noteq> path \<longrightarrow> os_node os' p = os_node os p) \<and>
      (os_node os' path = os_node os path \<or> os_node os path \<noteq> Some Plain \<and> \<not> dial path os \<and> os_node os' path = None)"
    using assms(1) new by (auto simp: Start_def free_path_def open_listener_def bind_listener_def unlink_def secure_def
        close_listener_def Let_def split: option.splits sock_node.splits sum.splits prod.splits if_splits)
  show "foreign os path \<Longrightarrow> r \<noteq> None"
    using assms(1) by (auto simp: foreign_def Start_def free_path_def dial_def split: option.splits sock_node.splits if_splits)
qed

lemma restart_facts:
  assumes "path \<noteq> ''''" "cs_listener s = None" "\<forall>n \<in> set (os_listening os). n < os_next os"
    and "os_node os path = None \<or> (\<exists>n b. os_node os path = Some (Sock n b) \<and> n \<notin> set (os_listening os))"
    and "Start no_faults path (s, os) = (r, s1, os1)" "Close no_faults (s1, os1) = (e, s2, os2)"
  shows "r = None" "os_node os1 = (os_node os)(path \<mapsto> Sock (os_next os) True)" "dial path os1"
    "e = Some ''file does not exist''" "cs_listener s2 = None" "os_node os2 = (os_node os)(path := None)"
    "os_listening os2 = os_listening os" "os_conns os2 = filter (\<lambda>c. c \<notin> set (cs_conns s)) (os_conns os)"
    "fst (Start no_faults path (s2, os2)) = None"
proof -
  have new: "filter (\<lambda>m. m \<noteq> os_next os) (os_listening os) = os_listening os"
    using assms(3) by (intro filter_True) auto
  have "os\<lparr>os_node := (os_node os)(path := None)\<rparr> = os" if "os_node os path = None" using that by (simp add: fun_upd_idem)
  then have free: "free_path no_faults path os = (None, unlink path os)"
    using assms(4) by (auto simp: free_path_def no_faults_def dial_def unlink_def)
  then have start: "r = None" "s1 = s\<lparr>cs_listener := Some (os_next os), cs_path := path, cs_closed := False\<rparr>"
    "os1 = os\<lparr>os_node := (os_node os)(path \<mapsto> Sock (os_next os) True), os_listening := os_next os # os_listening os, os_next := os_next os + 1\<rparr>"
    using assms(1,2,5) by (auto simp: Start_def open_listener_def no_faults_def bind_listener_def unlink_def secure_def Let_def)
  have closed: "e = Some ''file does not exist''" "s2 = s1\<lparr>cs_closed := True, cs_listener := None, cs_path := ''''\<rparr>"
    "os2 = close_conns (cs_conns s1) (close_listener (os_next os) path os1)"
    using assms(6) Close_running [of s1 "os_next os" no_faults os1] start(2) by (auto simp: no_faults_def)
  show "r = None" "os_node os1 = (os_node os)(path \<mapsto> Sock (os_next os) True)" "dial path os1"
    "e = Some ''file does not exist''" "cs_listener s2 = None" "os_node os2 = (os_node os)(path := None)"
    "os_listening os2 = os_listening os" "os_conns os2 = filter (\<lambda>c. c \<notin> set (cs_conns s)) (os_conns os)"
    using start closed new by (simp_all add: dial_def close_conns_def close_listener_def unlink_def)
  show "fst (Start no_faults path (s2, os2)) = None"
    using start closed assms(1)
    by (simp add: Start_def free_path_def open_listener_def no_faults_def bind_listener_def unlink_def secure_def Let_def
        close_conns_def close_listener_def)
qed

text \<open>The order of the calls of two starts: the second looks at the path before the first removes the socket.\<close>

definition race_order :: "nat list" where
  "race_order = [0, 0, 1, 1, 0, 0, 0, 0, 1, 1, 1, 1]"

lemma race_facts:
  assumes "path \<noteq> ''''" "os_node os path = Some (Sock m b)" "m \<notin> set (os_listening os)"
    and "start_schedule path race_order ((\<lambda>_. At_inspect), (\<lambda>_. new_ctl_server), os) = (pcs, d)"
  shows "pcs 0 = Started None" "pcs 1 = Started None"
    "cs_listener (fst d 0) = Some (os_next os)" "cs_path (fst d 0) = path" "os_next os \<in> set (os_listening (snd d))"
    "cs_listener (fst d 1) = Some (Suc (os_next os))" "cs_path (fst d 1) = path"
    "os_node (snd d) path = Some (Sock (Suc (os_next os)) True)"
    "\<not> dial path (snd (snd (Close no_faults (daemon_at 0 d))))"
  using assms
  by (auto simp: start_schedule_def race_order_def start_round_def no_faults_def new_ctl_server_def put_at_def bind_listener_def
      unlink_def secure_def dial_def Close_def close_listener_def close_conns_def Let_def split: option.splits)

end
