(* ===== verification/Socket_Properties.thy ===== *)
theory Socket_Properties
  imports Socket_Laws
begin

text \<open>
  The control socket's life: what daemons that share a system keep of each other, what a start that fails
  leaves, what a start and a close do, and what two starts whose calls interleave can do.
\<close>

text \<open>C6: Daemons that share a system, in any order of their starts, connections and closes with any failures
  of the system's calls, each keep what is theirs: a running daemon's path holds its own socket, private
  and answering, and no start by any daemon on that path gets through or changes anything; two running
  daemons have different paths; other files and sockets that answered before are as they were, and no
  daemon runs on them; and an open connection is one of before or in the table of a running daemon.
\<close>

lemma control_socket_lifecycle:
  assumes "reachable (socket_init os0) socket_step (ss, os)"
  shows "(\<forall>i n. cs_listener (ss i) = Some n \<longrightarrow>
      os_node os (cs_path (ss i)) = Some (Sock n True) \<and> dial (cs_path (ss i)) os \<and> \<not> foreign os0 (cs_path (ss i)) \<and>
      (\<forall>ft j. \<exists>m. Start ft (cs_path (ss i)) (ss j, os) = (Some m, ss j, os)) \<and>
      (\<forall>j. cs_listener (ss j) \<noteq> None \<longrightarrow> cs_path (ss j) = cs_path (ss i) \<longrightarrow> j = i)) \<and>
    (\<forall>p. foreign os0 p \<longrightarrow> os_node os p = os_node os0 p \<and> (dial p os0 \<longrightarrow> dial p os)) \<and>
    (\<forall>c. c \<in> set (os_conns os) \<longrightarrow> c \<in> set (os_conns os0) \<or> (\<exists>i. cs_listener (ss i) \<noteq> None \<and> c \<in> set (cs_conns (ss i))))"
  by (intro conjI allI impI) (use daemon_facts [OF assms] in blast)+

text \<open>A daemon that starts over the socket of one that crashed, beside another program's listener.\<close>

definition crashed_os :: os_state where
  "crashed_os = \<lparr>os_node = [''/run/pogu.sock'' \<mapsto> Sock 0 True, ''/run/db.sock'' \<mapsto> Sock 1 False, ''/run/pid'' \<mapsto> Plain],
     os_listening = [1], os_next = 2, os_conns = [7]\<rparr>"

lemma control_socket_lifecycle_witness:
  "\<exists>ss os. reachable (socket_init crashed_os) socket_step (ss, os) \<and> cs_listener (ss 0) = Some 2 \<and>
     os_node os ''/run/pogu.sock'' = Some (Sock 2 True) \<and> dial ''/run/db.sock'' os \<and> (7::nat) \<in> set (os_conns os)"
proof -
  define d where "d = put_at 0 (snd (Start no_faults ''/run/pogu.sock'' (daemon_at 0 (\<lambda>_. new_ctl_server, crashed_os)))) (\<lambda>_. new_ctl_server, crashed_os)"
  have "reachable (socket_init crashed_os) socket_step (\<lambda>_. new_ctl_server, crashed_os)"
    by (rule reachable.start) (simp add: socket_init_def crashed_os_def)
  then have r: "reachable (socket_init crashed_os) socket_step (fst d, snd d)"
    unfolding d_def prod.collapse by (rule reachable.next_state) (rule start_daemon)
  have run: "cs_listener (fst d 0) = Some 2" "cs_path (fst d 0) = ''/run/pogu.sock''" "7 \<in> set (os_conns (snd d))"
    by (simp_all add: d_def put_at_def Start_def free_path_def open_listener_def no_faults_def crashed_os_def dial_def
        bind_listener_def unlink_def secure_def new_ctl_server_def Let_def)
  have f: "foreign crashed_os ''/run/db.sock''" "dial ''/run/db.sock'' crashed_os" by (simp_all add: foreign_def crashed_os_def dial_def)
  note kept = control_socket_lifecycle [OF r]
  have "os_node (snd d) (cs_path (fst d 0)) = Some (Sock 2 True)" "dial ''/run/db.sock'' (snd d)"
    using kept [THEN conjunct1, rule_format, OF run(1)] kept [THEN conjunct2, THEN conjunct1, rule_format, OF f(1)] f(2) by simp_all
  then show ?thesis using r run by (intro exI [of _ "fst d"] exI [of _ "snd d"]) simp
qed

text \<open>A start that fails leaves the server, the listeners, the connections and every other path as they
  were, and its own path too unless a socket without a listener was there. A start on a path that holds
  another kind of file, or a socket that answers, fails.
\<close>

lemma control_start_refused:
  assumes "Start ft path (s, os) = (r, s', os')" "\<forall>n \<in> set (os_listening os). n < os_next os"
  shows "(r \<noteq> None \<longrightarrow> s' = s \<and> os_listening os' = os_listening os \<and> os_conns os' = os_conns os \<and>
      (\<forall>p. p \<noteq> path \<longrightarrow> os_node os' p = os_node os p) \<and>
      (os_node os' path = os_node os path \<or> os_node os path \<noteq> Some Plain \<and> \<not> dial path os \<and> os_node os' path = None)) \<and>
    (foreign os path \<longrightarrow> r \<noteq> None)"
  using refused_facts [OF assms] by blast

lemma control_start_refused_witness:
  "Start no_faults ''/run/pid'' (new_ctl_server, crashed_os) = (Some ''control: refusing to replace non-socket'', new_ctl_server, crashed_os) \<and>
   fst (Start no_faults ''/run/pid'' (new_ctl_server, crashed_os)) \<noteq> None"
proof -
  have s: "Start no_faults ''/run/pid'' (new_ctl_server, crashed_os) = (Some ''control: refusing to replace non-socket'', new_ctl_server, crashed_os)"
    by (simp add: Start_def free_path_def no_faults_def crashed_os_def)
  then show ?thesis using control_start_refused [OF s] by (simp add: crashed_os_def foreign_def)
qed

text \<open>C14: A server that does not run, started without failures on a free path or over a stale socket, listens
  there on a private socket; closing it removes the socket and the listener and closes its connections,
  and yet Close reports that the file does not exist; and it can be started again.
\<close>

lemma control_restart:
  assumes "path \<noteq> ''''" "cs_listener s = None" "\<forall>n \<in> set (os_listening os). n < os_next os"
    and "os_node os path = None \<or> (\<exists>n b. os_node os path = Some (Sock n b) \<and> n \<notin> set (os_listening os))"
    and "Start no_faults path (s, os) = (r, s1, os1)" "Close no_faults (s1, os1) = (e, s2, os2)"
  shows "r = None \<and> os_node os1 = (os_node os)(path \<mapsto> Sock (os_next os) True) \<and> dial path os1 \<and>
    e = Some ''file does not exist'' \<and> cs_listener s2 = None \<and> os_node os2 = (os_node os)(path := None) \<and>
    os_listening os2 = os_listening os \<and> os_conns os2 = filter (\<lambda>c. c \<notin> set (cs_conns s)) (os_conns os) \<and>
    fst (Start no_faults path (s2, os2)) = None"
  using restart_facts [OF assms] by (intro conjI)

lemma control_restart_witness:
  "fst (Close no_faults (snd (Start no_faults ''/run/pogu.sock'' (new_ctl_server, crashed_os)))) = Some ''file does not exist''"
proof -
  obtain r s1 os1 where s: "Start no_faults ''/run/pogu.sock'' (new_ctl_server, crashed_os) = (r, s1, os1)" using prod_cases3 .
  obtain e s2 os2 where c: "Close no_faults (s1, os1) = (e, s2, os2)" using prod_cases3 .
  show ?thesis
    using control_restart [OF _ _ _ _ s c] unfolding s snd_conv c fst_conv by (force simp: crashed_os_def new_ctl_server_def)
qed



end
