(* ===== verification/Control_Properties.thy ===== *)
theory Control_Properties
  imports Command Server_Properties Socket_Properties
begin

text \<open>
  The properties of the control socket, the command line and the files: what reaches the daemon and what
  comes back, the limit on a line, that an update from the command line leaves what it does not name, and
  that a second start finds the installation the first one left.
\<close>

section \<open>One request over the socket\<close>

text \<open>
  The texts of one exchange pass: the request is one line that the daemon decodes to the same value, and
  the client decodes the answer to the value the daemon encoded; the numbers are Go's int64.
\<close>

definition carries :: "codec \<Rightarrow> ctl_env \<Rightarrow> ctl_request \<Rightarrow> svc \<Rightarrow> bool" where
  "carries cd env r s \<longleftrightarrow>
     (let line = enc cd (request_json r); p = response_json (answer_of (fst (execute env r s)));
          answer = enc (ce_codec env) p in
      nl \<notin> set line \<and> line \<noteq> '''' \<and> length line < MaxLineSize \<and> ce_decode env line = Some (request_json r, '''') \<and>
      in_int64 (ct_id r) \<and> in_int64 (ct_provider_id r) \<and>
      length answer < MaxLineSize \<and> dec cd answer = Some p)"

lemma exchange:
  assumes "carries cd env r s" "ct_op r \<noteq> ''''"
  shows "connection env s (enc cd (request_json r) @ [nl]) =
      (Some (enc (ce_codec env) (response_json (answer_of (fst (execute env r s))))), snd (execute env r s))"
    and "Call cd (\<lambda>i. fst (connection env s i)) r = client_sees (fst (execute env r s))"
proof -
  let ?line = "enc cd (request_json r)"
  have carry: "nl \<notin> set ?line" "?line \<noteq> ''''" "length ?line < MaxLineSize" "ce_decode env ?line = Some (request_json r, '''')"
    "in_int64 (ct_id r)" "in_int64 (ct_provider_id r)"
    "length (enc (ce_codec env) (response_json (answer_of (fst (execute env r s))))) < MaxLineSize"
    "dec cd (enc (ce_codec env) (response_json (answer_of (fst (execute env r s))))) =
       Some (response_json (answer_of (fst (execute env r s))))"
    using assms(1) by (simp_all add: carries_def Let_def)
  have "dispatch env ?line s = (answer_of (fst (execute env r s)), snd (execute env r s))"
    using carry assms(2) by (intro dispatch_request)
  then show c: "connection env s (?line @ [nl]) =
      (Some (enc (ce_codec env) (response_json (answer_of (fst (execute env r s))))), snd (execute env r s))"
    using carry by (simp add: connection_def serve_one)
  show "Call cd (\<lambda>i. fst (connection env s i)) r = client_sees (fst (execute env r s))"
    using carry by (intro client_reads [of ?line _ _ "\<lambda>i. fst (connection env s i)"]) (simp_all add: c)
qed


text \<open>A daemon and a client between which one request passes.\<close>

definition sample_parts :: url_parts where
  "sample_parts = \<lparr>u_scheme = ''https'', u_host = ''h'', u_has_user = False, u_raw_query = [], u_fragment = []\<rparr>"

definition sample_daemon :: "ctl_request \<Rightarrow> ctl_env" where
  "sample_daemon r = \<lparr>ce_crypto = sample_crypto, ce_pw = sample_passwords, ce_codec = \<lparr>enc = (\<lambda>_. ''A''), dec = (\<lambda>_. None)\<rparr>,
     ce_decode = (\<lambda>_. Some (request_json r, '''')), ce_parse = (\<lambda>_. Some sample_parts), ce_b64 = id, ce_random = ''r'', ce_now = 7,
     ce_tester = None, ce_tel = None\<rparr>"






section \<open>The limit on a line\<close>

text \<open>A request of more than a mebibyte leaves the daemon's service as it is and fails: the client refuses
  it, or, when the text has exactly the limit's length, sends it and the daemon, which counts the line's end,
  answers that it is too large.\<close>

theorem control_line_limit:
  fixes cd env r s
  defines "line \<equiv> enc cd (request_json r)" and "refusal \<equiv> response_json (failure ''request_too_large'' ''request exceeds size limit'')"
  assumes long: "MaxLineSize \<le> length line" and one: "nl \<notin> set line"
    and answer: "length (enc (ce_codec env) refusal) < MaxLineSize" "dec cd (enc (ce_codec env) refusal) = Some refusal"
  shows "snd (connection env s (line @ [nl])) = s \<and>
    Call cd (\<lambda>i. fst (connection env s i)) r =
      Inl (if length line = MaxLineSize then Remote ''request_too_large'' ''request exceeds size limit''
           else Transport ''control: request exceeds size limit'')"
proof -
  have "serveConn env (line @ [nl]) s = ([enc (ce_codec env) refusal], s)"
    using readLine_large [OF one long, of "[]"] by (subst serveConn.simps) (simp add: refusal_def)
  then have c: "connection env s (line @ [nl]) = (Some (enc (ce_codec env) refusal), s)" by (simp add: connection_def)
  have "decode_ctl_response refusal = Some (failure ''request_too_large'' ''request exceeds size limit'')"
    unfolding refusal_def by (rule decode_response_json)
  with c answer long show ?thesis
    unfolding Call_def Do_def line_def [symmetric] by (simp add: Let_def failure_def)
qed

lemma control_line_limit_witness:
  "Call \<lparr>enc = (\<lambda>_. replicate MaxLineSize CHR ''x''),
      dec = (\<lambda>_. Some (response_json (failure ''request_too_large'' ''request exceeds size limit'')))\<rparr>
     (\<lambda>i. fst (connection (sample_daemon no_request) sample_svc i)) no_request =
   Inl (Remote ''request_too_large'' ''request exceeds size limit'')"
proof -
  let ?cd = "\<lparr>enc = (\<lambda>_. replicate MaxLineSize CHR ''x''),
      dec = (\<lambda>_. Some (response_json (failure ''request_too_large'' ''request exceeds size limit'')))\<rparr> :: codec"
  have "length (enc (ce_codec (sample_daemon no_request)) v) < MaxLineSize" for v
    by (simp add: sample_daemon_def MaxLineSize_def)
  then show ?thesis
    using control_line_limit [of ?cd no_request "sample_daemon no_request" sample_svc] by (simp add: nl_def)
qed

section \<open>Updates from the command line\<close>

lemma call_carried:
  assumes "cl_up env sock" "carries (cl_codec env) (cl_daemon env n) r s" "ct_op r \<noteq> ''''"
  shows "snd (call_daemon env n sock r s) = snd (execute (cl_daemon env n) r s)"
    and "fst (execute (cl_daemon env n) r s) = Inr v \<Longrightarrow> fst (call_daemon env n sock r s) = Inr (Some v)"
proof -
  have "\<not> MaxLineSize < length (enc (cl_codec env) (request_json r))"
    using assms(2) by (simp add: carries_def Let_def)
  then show "snd (call_daemon env n sock r s) = snd (execute (cl_daemon env n) r s)"
    using assms(1) exchange(1) [OF assms(2,3)] by (simp add: call_daemon_def Let_def)
  show "fst (execute (cl_daemon env n) r s) = Inr v \<Longrightarrow> fst (call_daemon env n sock r s) = Inr (Some v)"
    using assms(1) exchange(2) [OF assms(2,3)] by (simp add: call_daemon_def Let_def client_sees_def)
qed

lemma execute_provider:
  "ct_op r = ''provider.get'' \<Longrightarrow> execute env r s = (map_sum id provider_json (GetProvider (ct_id r) s), s)"
  "ct_op r = ''provider.update'' \<Longrightarrow> GetProvider (ct_id r) s = Inr v \<Longrightarrow>
    snd (execute env r s) = snd (UpdateProvider (ce_parse env) (ce_now env) (ct_id r) (ct_name r) (ct_type r) (ct_prefix r)
      (ct_base_url r) (case ct_enabled r of None \<Rightarrow> pv_enabled v | Some e \<Rightarrow> e) [ct_key_selection r] s)"
  by (simp_all add: execute_def operations_def provider_ops_def reads_def calls_def inherit_enabled_def and_then_def
      case_prod_unfold split: option.split)

text \<open>The strings of a stored provider that an update can change.\<close>

definition stored_field :: "Provider \<Rightarrow> string \<Rightarrow> string" where
  "stored_field v k = (if k = ''name'' then pv_name v else if k = ''type'' then pv_type v
     else if k = ''prefix'' then pv_prefix v else if k = ''base_url'' then pv_base_url v else pv_key_selection v)"

lemma provider_fields:
  "\<exists>cur. current_fields (Some (provider_json v)) [''name'', ''type'', ''prefix'', ''base_url'', ''key_selection''] = Some cur \<and>
     (\<forall>seen r. provider_defaults seen cur r = provider_defaults seen (stored_field v) r)"
proof -
  let ?kvs = "[(''id'', JInt (pv_id v)), (''name'', JStr (pv_name v)), (''type'', JStr (pv_type v)),
     (''prefix'', JStr (pv_prefix v)), (''base_url'', JStr (pv_base_url v)), (''has_api_key'', JBool (pv_has_key v)),
     (''key_count'', JInt (int (pv_key_count v))), (''key_selection'', JStr (pv_key_selection v)),
     (''enabled'', JBool (pv_enabled v)), (''created_at'', JTime (pv_created v)), (''updated_at'', JTime (pv_updated v))]"
  have keys: "to_lower ''has_api_key'' = ''has_api_key''" "to_lower ''key_count'' = ''key_count''"
    "to_lower ''created_at'' = ''created_at''" "to_lower ''updated_at'' = ''updated_at''"
    by code_simp+
  have "list_all (\<lambda>k. str_field k ?kvs = Some (stored_field v k)) [''name'', ''type'', ''prefix'', ''base_url'', ''key_selection'']"
    by (simp add: str_field_def field_look look_cons look_parts request_keys keys stored_field_def)
  then show ?thesis
    by (auto simp: current_fields_def body_obj_def provider_json_def provider_defaults_def)
qed

text \<open>C12: A provider update from the command line changes the fields whose flags are given; every other field
  keeps the value the daemon has stored, the enabled flag included.\<close>

theorem cli_update_partial:
  assumes parsed: "parseControlRequest ''provider'' ''update'' args = Inr (r, seen)"
    and up: "controlClient env dir d = Some sock" "cl_up env sock"
    and v: "GetProvider (ct_id r) s = Inr v"
    and pass: "carries (cl_codec env) (cl_daemon env 0) (no_request\<lparr>ct_op := ''provider.get'', ct_id := ct_id r\<rparr>) s"
      "carries (cl_codec env) (cl_daemon env 1) (provider_defaults seen (stored_field v) r) s"
  shows "snd (controlResource env dir d ''provider'' (''update'' # args) s) =
    snd (UpdateProvider (ce_parse (cl_daemon env 1)) (ce_now (cl_daemon env 1)) (ct_id r)
      (if ''name'' \<in> set seen then ct_name r else pv_name v)
      (if ''type'' \<in> set seen then ct_type r else pv_type v)
      (if ''prefix'' \<in> set seen then ct_prefix r else pv_prefix v)
      (if ''base-url'' \<in> set seen then ct_base_url r else pv_base_url v)
      (case ct_enabled r of None \<Rightarrow> pv_enabled v | Some e \<Rightarrow> e)
      [if ''key-selection'' \<in> set seen then ct_key_selection r else pv_key_selection v] s)"
proof -
  let ?get = "no_request\<lparr>ct_op := ''provider.get'', ct_id := ct_id r\<rparr>"
  let ?upd = "provider_defaults seen (stored_field v) r"
  have r: "ct_op r = ''provider.update''"
    using parsed by (auto simp: parseControlRequest_def split: sum.splits)
  have get: "execute (cl_daemon env 0) ?get s = (Inr (provider_json v), s)"
    using v by (simp add: execute_provider)
  have "call_daemon env 0 sock ?get s = (Inr (Some (provider_json v)), s)"
    using call_carried [OF up(2) pass(1)] get by (simp add: prod_eq_iff)
  moreover obtain cur where "current_fields (Some (provider_json v)) [''name'', ''type'', ''prefix'', ''base_url'', ''key_selection''] = Some cur"
    "provider_defaults seen cur r = ?upd" using provider_fields [of v] by blast
  moreover have "has_suffix ''.update'' ''provider.update''" by code_simp
  ultimately have fill: "fillUpdateDefaults env sock ''provider'' seen r s = (Inr ?upd, s)"
    by (simp add: fillUpdateDefaults_def fetch_current_def r)
  have "snd (controlResource env dir d ''provider'' (''update'' # args) s) = snd (call_daemon env 1 sock ?upd s)"
    by (simp add: controlResource_def with_client_def up(1) parsed fill run_call_def split: prod.split)
  also have "\<dots> = snd (execute (cl_daemon env 1) ?upd s)"
    by (rule call_carried(1) [OF up(2) pass(2)]) (simp add: provider_defaults_def r)
  also have "\<dots> = snd (UpdateProvider (ce_parse (cl_daemon env 1)) (ce_now (cl_daemon env 1)) (ct_id ?upd) (ct_name ?upd)
      (ct_type ?upd) (ct_prefix ?upd) (ct_base_url ?upd)
      (case ct_enabled ?upd of None \<Rightarrow> pv_enabled v | Some e \<Rightarrow> e) [ct_key_selection ?upd] s)"
    by (rule execute_provider(2)) (simp_all add: provider_defaults_def r v)
  finally show ?thesis
    unfolding provider_defaults_def ctl_request.simps stored_field_def by simp
qed

text \<open>A command line over the sample: the first call is the read, the second the update.\<close>

abbreviation sample_read :: ctl_request where
  "sample_read \<equiv> no_request\<lparr>ct_op := ''provider.get'', ct_id := 1\<rparr>"

definition sample_change :: ctl_request where
  "sample_change = \<lparr>ct_op = ''provider.update'', ct_id = 1, ct_name = ''Z'', ct_type = ''openai'', ct_prefix = ''oa'',
     ct_base_url = ''https://h'', ct_key_selection = ''round_robin'', ct_api_key = None, ct_secret = None, ct_text = '''',
     ct_preview = False, ct_enabled = None, ct_provider_id = 0\<rparr>"

definition sample_second :: ctl_env where
  "sample_second = (sample_daemon sample_change)\<lparr>ce_codec := \<lparr>enc = (\<lambda>_. ''B''), dec = (\<lambda>_. None)\<rparr>\<rparr>"

definition sample_boot :: boot_env where
  "sample_boot = \<lparr>bt_decode = (\<lambda>_. Some (config_json (Default ''data''))), bt_pretty = (\<lambda>_. ''C''), bt_fresh = replicate 32 CHR ''k'', bt_rival = None,
     bt_crypto = (\<lambda>_. sample_crypto), bt_pw = sample_passwords, bt_salt = sample_salt, bt_token = ''t'', bt_now = 0,
     bt_faults = no_faults\<rparr>"

definition sample_cli :: cli_env where
  "sample_cli = \<lparr>cl_codec = \<lparr>enc = (\<lambda>_. ''Q''), dec = (\<lambda>t. Some (response_json (answer_of (if t = ''A''
       then fst (execute (sample_daemon sample_read) sample_read sample_svc)
       else fst (execute sample_second sample_change sample_svc)))))\<rparr>,
     cl_pretty = (\<lambda>_. ''''), cl_daemon = (\<lambda>n. if n = 0 then sample_daemon sample_read else sample_second),
     cl_up = (\<lambda>_. True), cl_boot = sample_boot, cl_read = (\<lambda>_. None), cl_stdin = ''''\<rparr>"

lemma cli_update_partial_witness:
  "map (\<lambda>p. (p_id p, p_name p, p_prefix p, p_key_selection p)) (tbl_rows (providers (db (snd
     (controlResource sample_cli ''data'' Map.empty ''provider'' [''update'', ''--id'', ''1'', ''--name'', ''Z''] sample_svc))))) =
   [(1, ''Z'', ''oa'', ''round_robin''), (2, ''B'', ''an'', ''first'')]"
proof -
  let ?v = "scanProvider sample_store (sample_provider 1 ''A'' ''openai'' ''oa'' ''round_robin'')"
  let ?r = "no_request\<lparr>ct_op := ''provider.update'', ct_id := 1, ct_name := ''Z'', ct_type := ''openai'', ct_key_selection := ''first''\<rparr>"
  have parsed: "parseControlRequest ''provider'' ''update'' [''--id'', ''1'', ''--name'', ''Z''] = Inr (?r, [''name'', ''id''])"
    by code_simp
  have v: "GetProvider 1 sample_svc = Inr ?v"
    by (simp add: GetProvider_def tbl_find_def) (simp add: sample_rows)
  have "provider_defaults [''name'', ''id''] (stored_field ?v) ?r = sample_change"
    by (simp add: provider_defaults_def stored_field_def sample_change_def no_request_def scanProvider_def sample_provider_def Let_def
        key_selection_valid_def enum_defs)
  moreover have "carries (cl_codec sample_cli) (cl_daemon sample_cli 1) sample_change sample_svc"
    by (simp add: carries_def sample_cli_def sample_second_def sample_daemon_def sample_change_def MaxLineSize_def nl_def in_int64_def)
  moreover have "carries (cl_codec sample_cli) (cl_daemon sample_cli 0) sample_read sample_svc"
    by (simp add: carries_def sample_cli_def sample_daemon_def MaxLineSize_def nl_def in_int64_def no_request_def)
  moreover have "controlClient sample_cli ''data'' Map.empty = Some (cf_control_sock (Default ''data''))" "cl_up sample_cli x" for x
    by (simp_all add: controlClient_def Load_def sample_cli_def)
  ultimately have "snd (controlResource sample_cli ''data'' Map.empty ''provider'' [''update'', ''--id'', ''1'', ''--name'', ''Z''] sample_svc) =
      snd (UpdateProvider (\<lambda>_. Some sample_parts) 7 1 ''Z'' ''openai'' ''oa'' ''https://h'' True [''round_robin''] sample_svc)"
    using cli_update_partial [OF parsed, of sample_cli "''data''" Map.empty _ sample_svc ?v] v
    by (simp add: sample_cli_def sample_second_def sample_daemon_def no_request_def scanProvider_def sample_provider_def Let_def
        key_selection_valid_def enum_defs)
  moreover have "validateProviderInput (\<lambda>_. Some sample_parts) ''Z'' ''openai'' ''oa'' ''https://h'' = Inr ()"
    "pick_selection [''round_robin''] ''round_robin'' = Inr ''round_robin''"
    "trim_space ''Z'' = ''Z''" "trim_space ''oa'' = ''oa''" "trim_right_slash (trim_space ''https://h'') = ''https://h''"
    by code_simp+
  ultimately show ?thesis
    by (simp add: UpdateProvider_def tbl_find_def tbl_exists_def sample_provider_def update_provider_def tbl_update_def
        set_provider_row_def Let_def)
qed

section \<open>The files of an installation\<close>

lemma clean_path_not_empty: "clean_path s \<noteq> ''''"
  by (simp add: clean_path_def Let_def)

lemma join_path_not_empty: "e \<noteq> '''' \<Longrightarrow> join_path (e # es) \<noteq> ''''"
  by (simp add: join_path_def clean_path_not_empty)

lemma Default_fields:
  "cf_data_dir (Default dir) = (if dir = '''' then DefaultDataDir else dir)" "cf_listen (Default dir) = DefaultListen"
  "cf_data_dir (Default dir) \<noteq> ''''" "cf_control_sock (Default dir) \<noteq> ''''" "cf_master_key (Default dir) \<noteq> ''''"
  "cf_database (Default dir) \<noteq> ''''" "Default (cf_data_dir (Default dir)) = Default dir"
  by (auto simp: Default_def Let_def DefaultDataDir_def join_path_not_empty)

lemma config_keys:
  "to_lower ''data_dir'' = ''data_dir''" "to_lower ''listen'' = ''listen''" "to_lower ''control_socket'' = ''control_socket''"
  "to_lower ''master_key_file'' = ''master_key_file''" "to_lower ''database_file'' = ''database_file''"
  by code_simp+

lemma decode_config_json: "decode_config (Some (config_json c)) = Some c"
  by (simp add: decode_config_def config_json_def body_obj_def str_field_def field_look look_cons look_parts config_keys)

text \<open>A configuration that is saved is the one loaded from its data directory later, provided none of
  its entries is empty; without a file, the defaults for that directory are loaded.\<close>

lemma config_roundtrip:
  assumes passes: "decode (pretty (config_json c) @ [nl]) = Some (config_json c)"
    and filled: "cf_data_dir c \<noteq> ''''" "cf_listen c \<noteq> ''''" "cf_control_sock c \<noteq> ''''" "cf_master_key c \<noteq> ''''" "cf_database c \<noteq> ''''"
  shows "Load decode (cf_data_dir c) (Save pretty c d) = Some c \<and>
    (d (pathOf dir) = None \<longrightarrow> Load decode dir d = Some (Default dir))"
  using filled
  by (simp add: Load_def Save_def private_file_def passes decode_config_json given_or_def Default_def Let_def)

text \<open>
  What the start of a server does to the files: nothing that is there is written over, at most a file is
  closed to others.
\<close>

definition files_kept :: "disk \<Rightarrow> disk \<Rightarrow> bool" where
  "files_kept d d' \<longleftrightarrow> (\<forall>p f. d p = Some f \<longrightarrow> (\<exists>g. d' p = Some g \<and> fl_data g = fl_data f \<and>
     fl_regular g = fl_regular f \<and> (fl_private f \<longrightarrow> fl_private g)))"

lemma files_keptI: "(\<And>p f. d p = Some f \<Longrightarrow> d' p = Some f) \<Longrightarrow> files_kept d d'"
  by (auto simp: files_kept_def)

lemma files_kept_trans: "files_kept d d' \<Longrightarrow> files_kept d' d'' \<Longrightarrow> files_kept d d''"
  unfolding files_kept_def by metis

lemma files_kept_there: "files_kept d d' \<Longrightarrow> d p = Some f \<Longrightarrow> d' p \<noteq> None"
  unfolding files_kept_def by fastforce

lemma readKey_kept: "files_kept d d' \<Longrightarrow> readKey path d = Inr key \<Longrightarrow> readKey path d' = Inr key"
  unfolding files_kept_def readKey_def by (fastforce split: option.splits if_splits)

lemma Load_kept: "files_kept d d' \<Longrightarrow> d (pathOf dir) = Some f \<Longrightarrow> Load decode dir d' = Load decode dir d"
  unfolding files_kept_def Load_def by fastforce

lemma prepareFile_kept: "prepareFile path d = (r, d') \<Longrightarrow> files_kept d d'"
  by (auto simp: prepareFile_def files_kept_def split: if_splits option.splits)

lemma open_store_opened:
  assumes "open_store path dbs d = (Inr st, d')"
  shows "path \<noteq> ''''" "files_kept d d'"
    "st = (if path = memory_path then empty_store else case dbs path of None \<Rightarrow> empty_store | Some st \<Rightarrow> st)"
    "path \<noteq> memory_path \<Longrightarrow> open_store path dbs' d' = (Inr (case dbs' path of None \<Rightarrow> empty_store | Some st \<Rightarrow> st), d')"
proof -
  obtain d1 where p: "prepareFile path d = (None, d1)" "path \<noteq> ''''"
    using assms by (auto simp: open_store_def split: if_splits prod.splits option.splits)
  show "path \<noteq> ''''" by (rule p(2))
  show "st = (if path = memory_path then empty_store else case dbs path of None \<Rightarrow> empty_store | Some st \<Rightarrow> st)"
    using assms p by (auto simp: open_store_def split: if_splits option.splits)
  have "files_kept d1 d'" using assms p by (auto simp: open_store_def files_kept_def split: if_splits option.splits)
  then show "files_kept d d'" using prepareFile_kept [OF p(1)] by (rule files_kept_trans [rotated])
  assume disk: "path \<noteq> memory_path"
  then obtain f where f: "d1 path = Some f" "d' = d1(path \<mapsto> f\<lparr>fl_private := True\<rparr>)"
    using assms p by (auto simp: open_store_def split: option.splits)
  have "prepareFile path d' = (None, d')"
    using p(1) disk f by (auto simp: prepareFile_def private_file_def fun_upd_idem_iff split: if_splits option.splits)
  then show "open_store path dbs' d' = (Inr (case dbs' path of None \<Rightarrow> empty_store | Some st \<Rightarrow> st), d')"
    using p(2) disk f by (simp add: open_store_def fun_upd_idem_iff)
qed

lemma open_store_kept: "open_store path dbs d = (r, d') \<Longrightarrow> files_kept d d'"
  by (cases r) (auto simp: open_store_def open_store_opened(2) split: if_splits prod.splits option.splits
      dest!: prepareFile_kept intro: files_keptI)

lemma LoadOrCreateKey_keeps: "d p = Some f \<Longrightarrow> snd (LoadOrCreateKey path fresh rival d) p = Some f"
  by (auto simp: LoadOrCreateKey_def readKey_def Let_def split: option.split)

lemma LoadOrCreateKey_reads:
  "length fresh = 32 \<Longrightarrow> LoadOrCreateKey path fresh rival d = (Inr key, d') \<Longrightarrow> readKey path d' = Inr key"
  by (auto simp: LoadOrCreateKey_def Let_def private_file_def readKey_def split: sum.splits key_error.splits option.splits if_splits)

lemma LoadOrCreateKey_found: "readKey path d = Inr key \<Longrightarrow> LoadOrCreateKey path fresh rival d = (Inr key, d)"
  by (simp add: LoadOrCreateKey_def)

lemma Load_again:
  assumes "Load decode dir d = Some c" "d (join_path [cf_data_dir c, ''config.json'']) = None"
    and "decode (pretty (config_json (Default dir)) @ [nl]) = Some (config_json (Default dir))"
  shows "Load decode dir (Save pretty c d) = Some c"
proof (cases "d (pathOf dir)")
  case None
  then have "c = Default dir" using assms(1) by (simp add: Load_def)
  moreover have "pathOf (cf_data_dir (Default dir)) = pathOf dir"
    by (simp add: Default_fields(1) pathOf_def DefaultDataDir_def)
  ultimately show ?thesis
    using assms(3) Default_fields [of dir]
    by (simp add: Load_def Save_def private_file_def decode_config_json given_or_def DefaultListen_def)
next
  case (Some f)
  have "cf_data_dir c \<noteq> ''''"
    using assms(1) Some by (auto simp: Load_def Let_def Default_fields(3))
  then have "pathOf (cf_data_dir c) \<noteq> pathOf dir"
    using assms(2) Some by (auto simp: pathOf_def)
  then show ?thesis using assms(1) by (simp add: Load_def Save_def)
qed

definition configured :: "boot_env \<Rightarrow> Config \<Rightarrow> installation \<Rightarrow> disk" where
  "configured env cfg inst = (if in_disk inst (join_path [cf_data_dir cfg, ''config.json'']) = None
     then Save (bt_pretty env) cfg (in_disk inst) else in_disk inst)"

lemma openRuntime_split:
  assumes "openRuntime env dir inst = (Inr (cfg, s, key, setup_mode), inst')"
  obtains d1 st where "Load (bt_decode env) dir (in_disk inst) = Some cfg"
    "LoadOrCreateKey (cf_master_key cfg) (bt_fresh env) (bt_rival env) (configured env cfg inst) = (Inr key, d1)"
    "open_store (cf_database cfg) (in_dbs inst) d1 = (Inr st, in_disk inst')"
    "in_dbs inst' = keep_db (cf_database cfg) (db s) (in_dbs inst)" "s = New (bt_crypto env key) (length key) st"
    "setup_mode = (\<not> AdminInitialized s)" "in_tel inst' = in_tel inst" "in_os inst' = in_os inst"
proof -
  have load: "Load (bt_decode env) dir (in_disk inst) = Some cfg"
    using assms by (auto simp: openRuntime_def Let_def split: option.splits sum.splits prod.splits)
  let ?inst = "inst\<lparr>in_disk := configured env cfg inst\<rparr>"
  have "(case open_service env cfg ?inst of (Inl m, inst) \<Rightarrow> (Inl m, inst)
       | (Inr (s, key), inst) \<Rightarrow> (Inr (cfg, s, key, \<not> AdminInitialized s), inst)) = (Inr (cfg, s, key, setup_mode), inst')"
    using assms load by (simp add: openRuntime_def Let_def configured_def if_distrib [of "\<lambda>d. inst\<lparr>in_disk := d\<rparr>"] cong: if_cong)
  then have opened: "open_service env cfg ?inst = (Inr (s, key), inst')" and fresh: "setup_mode = (\<not> AdminInitialized s)"
    by (auto split: prod.splits sum.splits)
  obtain k d1 where k: "LoadOrCreateKey (cf_master_key cfg) (bt_fresh env) (bt_rival env) (configured env cfg inst) = (k, d1)"
    by fastforce
  obtain r d2 where r: "open_store (cf_database cfg) (in_dbs inst) d1 = (r, d2)" by fastforce
  obtain st where "k = Inr key" "r = Inr st" "s = New (bt_crypto env key) (length key) st"
      "inst' = ?inst\<lparr>in_disk := d2, in_dbs := keep_db (cf_database cfg) (db s) (in_dbs inst)\<rparr>"
    using opened k r by (auto simp: open_service_def Let_def split: sum.splits)
  then show thesis using load k r fresh by (intro that [of d1 st]) simp_all
qed

lemma config_path: "dir \<noteq> '''' \<Longrightarrow> pathOf dir = join_path [dir, ''config.json'']"
  by (simp add: pathOf_def)

lemma Load_dir: "Load decode dir d = Some c \<Longrightarrow> cf_data_dir c \<noteq> ''''"
  by (auto simp: Load_def Let_def Default_fields(3) split: option.splits)

text \<open>The configuration file is there after the start, and it is the one the start read.\<close>

lemma configured_file:
  assumes load: "Load (bt_decode env) dir (in_disk inst) = Some cfg"
    and passes: "bt_decode env (bt_pretty env (config_json (Default dir)) @ [nl]) = Some (config_json (Default dir))"
  obtains f g where "configured env cfg inst (pathOf dir) = Some f" "configured env cfg inst (join_path [cf_data_dir cfg, ''config.json'']) = Some g"
    "Load (bt_decode env) dir (configured env cfg inst) = Some cfg"
    "\<And>p f. in_disk inst p = Some f \<Longrightarrow> configured env cfg inst p = Some f"
proof -
  let ?d = "configured env cfg inst" and ?p = "join_path [cf_data_dir cfg, ''config.json'']"
  have path: "pathOf (cf_data_dir cfg) = ?p" using Load_dir [OF load] by (rule config_path)
  have there: "?d ?p \<noteq> None" by (auto simp: configured_def Save_def path)
  have again: "Load (bt_decode env) dir ?d = Some cfg"
    using Load_again [OF load, of "bt_pretty env"] passes load by (simp add: configured_def)
  have kept: "?d p = Some f" if "in_disk inst p = Some f" for p f
    using that by (auto simp: configured_def Save_def path)
  have "?d (pathOf dir) \<noteq> None"
  proof (cases "in_disk inst (pathOf dir)")
    case None
    then have "cfg = Default dir" using load by (simp add: Load_def)
    then have "?p = pathOf dir" unfolding path [symmetric] by (simp add: Default_fields(1) pathOf_def DefaultDataDir_def)
    with there show ?thesis by simp
  next
    case (Some f)
    then show ?thesis using kept by auto
  qed
  with there again kept that show thesis by auto
qed

text \<open>C13: Starting a server over an installation leaves the contents of every file that is there, and, unless
  the database is kept in memory, a second start finds the same configuration, the same master key and the same
  administrator, and changes no file; its database is the same too when no key carries a fingerprint of the
  old form.\<close>

theorem restart_finds_installation:
  assumes first: "openRuntime env dir inst = (Inr (cfg, s, key, setup_mode), inst')"
    and env: "bt_decode env' = bt_decode env" "bt_crypto env' = bt_crypto env" "length (bt_fresh env) = 32"
    and passes: "bt_decode env (bt_pretty env (config_json (Default dir)) @ [nl]) = Some (config_json (Default dir))"
    and disk: "cf_database cfg \<noteq> memory_path"
  shows "files_kept (in_disk inst) (in_disk inst') \<and>
    (\<exists>s' inst''. openRuntime env' dir inst' = (Inr (cfg, s', key, setup_mode), inst'') \<and> in_disk inst'' = in_disk inst' \<and>
       admin (db s') = admin (db s) \<and>
       (list_all (\<lambda>k. length (pk_hash k) = 32) (tbl_rows (provider_keys (db s))) \<longrightarrow> db s' = db s))"
proof -
  obtain d1 st where parts: "Load (bt_decode env) dir (in_disk inst) = Some cfg"
    "LoadOrCreateKey (cf_master_key cfg) (bt_fresh env) (bt_rival env) (configured env cfg inst) = (Inr key, d1)"
    "open_store (cf_database cfg) (in_dbs inst) d1 = (Inr st, in_disk inst')"
    "in_dbs inst' = keep_db (cf_database cfg) (db s) (in_dbs inst)" "setup_mode = (\<not> AdminInitialized s)"
    using openRuntime_split [OF first] by metis
  let ?d = "configured env cfg inst"
  obtain f g where found: "?d (pathOf dir) = Some f" "?d (join_path [cf_data_dir cfg, ''config.json'']) = Some g"
      "Load (bt_decode env) dir ?d = Some cfg" and kept: "\<And>p f. in_disk inst p = Some f \<Longrightarrow> ?d p = Some f"
    using configured_file [OF parts(1) passes] by blast
  have stored: "files_kept d1 (in_disk inst')" by (rule open_store_opened(2) [OF parts(3)])
  have later: "files_kept ?d (in_disk inst')"
    by (rule files_kept_trans [OF files_keptI stored]) (use LoadOrCreateKey_keeps parts(2) in \<open>metis snd_conv\<close>)
  have load: "Load (bt_decode env') dir (in_disk inst') = Some cfg"
    using found(3) Load_kept [OF later found(1)] by (simp add: env(1))
  have key: "LoadOrCreateKey (cf_master_key cfg) fresh rival (in_disk inst') = (Inr key, in_disk inst')" for fresh rival
    by (rule LoadOrCreateKey_found) (rule readKey_kept [OF stored LoadOrCreateKey_reads [OF env(3) parts(2)]])
  let ?s = "New (bt_crypto env key) (length key) (db s)"
  have adm: "admin (db ?s) = admin (db s)"
    using admin_New [of s "bt_crypto env key" "length key"] by (simp add: same_admin_def)
  have "openRuntime env' dir inst' = (Inr (cfg, ?s, key, \<not> AdminInitialized ?s),
      inst'\<lparr>in_disk := in_disk inst', in_dbs := keep_db (cf_database cfg) (db ?s) (in_dbs inst')\<rparr>)"
    using files_kept_there [OF later found(2)] key open_store_opened(4) [OF parts(3) disk] parts(4) disk
    by (auto simp: openRuntime_def load open_service_def keep_db_def Let_def env(2))
  moreover have "(\<not> AdminInitialized ?s) = setup_mode"
    using adm parts(5) by (simp add: AdminInitialized_def)
  moreover have "db ?s = db s" if "list_all (\<lambda>k. length (pk_hash k) = 32) (tbl_rows (provider_keys (db s)))"
    using that by (simp add: New_def upgradeLegacyKeyFingerprints_def list_all_iff filter_empty_conv)
  moreover have "files_kept (in_disk inst) (in_disk inst')" by (rule files_kept_trans [OF files_keptI later]) (rule kept)
  ultimately show ?thesis using adm by auto
qed

text \<open>C40: A server that serve starts over a consistent database, or over none, is one of those that the
  properties of the server's runs begin with, its secrets sealed with the key in the master key file; it
  listens at the given address, and its control socket answers, for its owner only, at a path where neither a
  file was nor a socket that answered. However serve ends, that path is free again and the configuration, the
  key and the database are as they are.\<close>

theorem serve_starts:
  assumes "serveCommand env dir listen inst = (Inr (cfg, a, cs), inst')" and "length (bt_fresh env) = 32"
    and "\<And>st. in_dbs inst (cf_database cfg) = Some st \<Longrightarrow> wf_store st \<and> group_targets_live st"
    and "tel_ok (in_tel inst (cf_database cfg))"
  shows "\<exists>key. LoadKey (cf_master_key cfg) (in_disk inst') = Inr key \<and> server_init (bt_crypto env key) a \<and>
    (listen \<noteq> '''' \<longrightarrow> cf_listen cfg = listen) \<and> \<not> foreign (with_files (in_disk inst') (in_os inst)) (cf_control_sock cfg) \<and>
    (\<exists>n. cs_listener cs = Some n \<and> os_node (in_os inst') (cf_control_sock cfg) = Some (Sock n True) \<and> dial (cf_control_sock cfg) (in_os inst')) \<and>
    os_node (in_os (snd (end_serve ft ev cs inst'))) (cf_control_sock cfg) = None \<and>
    in_disk (snd (end_serve ft ev cs inst')) = in_disk inst' \<and> in_dbs (snd (end_serve ft ev cs inst')) = in_dbs inst'"
proof -
  let ?tel = "\<lambda>c. if cf_database c = memory_path then tel_empty else in_tel inst (cf_database c)"
  obtain cfg' s key m inst1 os where open1: "openRuntime env dir inst = (Inr (cfg', s, key, m), inst1)"
    and cfg: "cfg = (if listen \<noteq> '''' then cfg'\<lparr>cf_listen := listen\<rparr> else cfg')"
    and sock: "Start (bt_faults env) (cf_control_sock cfg) (new_ctl_server, with_files (in_disk inst1) (in_os inst1)) = (None, cs, os)"
    and a: "inst' = inst1\<lparr>in_os := os\<rparr>" "a = (let a = new_api (bt_now env) s (if cf_database cfg = memory_path then tel_empty else in_tel inst1 (cf_database cfg)) in
        if m then EnableSetup (GenerateSetupToken (bt_token env)) a else a)"
    using assms(1) unfolding serveCommand_def Let_def by (auto split: prod.splits sum.splits option.splits)
  obtain d1 st where parts:
    "LoadOrCreateKey (cf_master_key cfg') (bt_fresh env) (bt_rival env) (configured env cfg' inst) = (Inr key, d1)"
    "open_store (cf_database cfg') (in_dbs inst) d1 = (Inr st, in_disk inst1)" "s = New (bt_crypto env key) (length key) st"
    "m = (\<not> AdminInitialized s)" "in_tel inst1 = in_tel inst" "in_os inst1 = in_os inst"
    using openRuntime_split [OF open1] by metis
  have same: "cf_database cfg = cf_database cfg'" "cf_master_key cfg = cf_master_key cfg'" by (simp_all add: cfg)
  have "wf_store st \<and> group_targets_live st"
    using assms(3) wf_empty open_store_opened(3) [OF parts(2)] same by (auto simp: group_targets_live_def empty_store_def split: option.split)
  moreover have "a = start_server (bt_crypto env key) (length key) (bt_now env) (bt_token env) st (?tel cfg)"
    using parts(3-5) by (simp add: a start_server_def Let_def same)
  moreover have "tel_ok (?tel cfg)" using assms(4) sample_tel(1) by simp
  ultimately have "server_init (bt_crypto env key) a"
    unfolding server_init_def by blast
  moreover have "LoadKey (cf_master_key cfg) (in_disk inst') = Inr key"
    using readKey_kept [OF open_store_opened(2) [OF parts(2)] LoadOrCreateKey_reads [OF assms(2) parts(1)]]
    by (simp add: LoadKey_def same a)
  moreover have "os_node (in_os (snd (end_serve ft ev cs inst'))) (cf_control_sock cfg) = None"
    using Start_closed [OF sock] by (simp add: end_serve_def a(1))
  ultimately show ?thesis
    using Start_done [OF sock] parts(6) a(1) by (auto simp: cfg end_serve_def)
qed

text \<open>A first start in an empty directory.\<close>

definition sample_place :: installation where
  "sample_place = \<lparr>in_disk = Map.empty, in_dbs = (\<lambda>_. Some sample_store), in_tel = (\<lambda>_. tel_empty), in_os = crashed_os\<rparr>"

lemma sample_opens:
  "\<exists>inst'. openRuntime sample_boot ''data'' sample_place =
     (Inr (Default ''data'', New sample_crypto 32 sample_store, replicate 32 CHR ''k'', True), inst') \<and>
     in_os inst' = crashed_os \<and> in_disk inst' ''data/pogu.sock'' = None"
proof -
  have "join_path [''data'', ''config.json''] = ''data/config.json''" "join_path [''data'', ''master.key''] = ''data/master.key''"
    "join_path [''data'', ''pogu.db''] = ''data/pogu.db''"
    by code_simp+
  moreover have "\<not> AdminInitialized (New sample_crypto 32 sample_store)"
    using admin_New [of sample_svc sample_crypto 32]
    by (simp add: same_admin_def AdminInitialized_def sample_svc_def)
  moreover have "Load (bt_decode sample_boot) ''data'' Map.empty = Some (Default ''data'')" by (simp add: Load_def)
  moreover have "cf_database (Default ''data'') \<noteq> ''''" by (simp add: Default_fields)
  ultimately show ?thesis
    by (simp add: openRuntime_def sample_place_def Let_def open_service_def open_store_def prepareFile_def memory_path_def
        LoadOrCreateKey_def readKey_def private_file_def Save_def pathOf_def Default_def sample_boot_def)
qed

lemma restart_finds_installation_witness:
  "\<exists>cfg s key inst' s' inst''. openRuntime sample_boot ''data'' sample_place = (Inr (cfg, s, key, True), inst') \<and>
     openRuntime (sample_boot\<lparr>bt_fresh := ''''\<rparr>) ''data'' inst' = (Inr (cfg, s', key, True), inst'') \<and> in_disk inst'' = in_disk inst'"
proof -
  obtain inst' where first: "openRuntime sample_boot ''data'' sample_place =
      (Inr (Default ''data'', New sample_crypto 32 sample_store, replicate 32 CHR ''k'', True), inst')"
    using sample_opens by blast
  have env: "bt_decode (sample_boot\<lparr>bt_fresh := ''''\<rparr>) = bt_decode sample_boot"
    "bt_crypto (sample_boot\<lparr>bt_fresh := ''''\<rparr>) = bt_crypto sample_boot" "length (bt_fresh sample_boot) = 32"
    "bt_decode sample_boot (bt_pretty sample_boot (config_json (Default ''data'')) @ [nl]) = Some (config_json (Default ''data''))"
    by (simp_all add: sample_boot_def)
  have disk: "cf_database (Default ''data'') \<noteq> memory_path" by code_simp
  show ?thesis using restart_finds_installation [OF first env disk] first by blast
qed

lemma serve_starts_witness:
  "\<exists>cfg a cs inst'. serveCommand sample_boot ''data'' ''h:1'' sample_place = (Inr (cfg, a, cs), inst') \<and>
     server_init sample_crypto a \<and> cf_listen cfg = ''h:1'' \<and> dial (cf_control_sock cfg) (in_os inst')"
proof -
  obtain inst1 where first: "openRuntime sample_boot ''data'' sample_place =
      (Inr (Default ''data'', New sample_crypto 32 sample_store, replicate 32 CHR ''k'', True), inst1)"
    and inst1: "in_os inst1 = crashed_os" "in_disk inst1 ''data/pogu.sock'' = None"
    using sample_opens by blast
  have "cf_control_sock (Default ''data'') = ''data/pogu.sock''" by code_simp
  then have "fst (Start no_faults (cf_control_sock (Default ''data'')) (new_ctl_server, with_files (in_disk inst1) (in_os inst1))) = None"
    by (simp add: Start_def free_path_def open_listener_def no_faults_def new_ctl_server_def with_files_def inst1 crashed_os_def Let_def)
  then obtain cs os where
    "Start no_faults (cf_control_sock (Default ''data'')) (new_ctl_server, with_files (in_disk inst1) (in_os inst1)) = (None, cs, os)"
    using prod_cases3 by (metis fst_conv)
  moreover have "bt_faults sample_boot = no_faults" by (simp add: sample_boot_def)
  ultimately obtain a inst' where serve: "serveCommand sample_boot ''data'' ''h:1'' sample_place =
      (Inr ((Default ''data'')\<lparr>cf_listen := ''h:1''\<rparr>, a, cs), inst')"
    using first by (simp add: serveCommand_def Let_def)
  have stored: "wf_store st \<and> group_targets_live st" if "in_dbs sample_place x = Some st" for x st
    using that sample_wf sample_ok by (auto simp: sample_place_def svc_ok_def)
  have rest: "length (bt_fresh sample_boot) = 32" "tel_ok (in_tel sample_place x)" "bt_crypto sample_boot key = sample_crypto" for x key
    by (simp_all add: sample_boot_def sample_place_def sample_tel)
  show ?thesis
    using serve_starts [OF serve rest(1) stored [where x = "cf_database ((Default ''data'')\<lparr>cf_listen := ''h:1''\<rparr>)"] rest(2)] serve rest(3) by auto
qed

section \<open>Surprises of the start and of the command line\<close>

text \<open>init writes the default configuration over whatever file is there, also when it then fails because the
  installation has an administrator already.\<close>

lemma init_overwrites_config:
  assumes "password \<noteq> ''''"
  shows "in_disk (snd (initCommand env dir password inst)) (pathOf dir) =
    Some (private_file (bt_pretty env (config_json (Default dir)) @ [nl]))"
proof -
  let ?inst = "inst\<lparr>in_disk := Save (bt_pretty env) (Default dir) (in_disk inst)\<rparr>"
  have "pathOf (cf_data_dir (Default dir)) = pathOf dir"
    by (simp add: Default_fields(1) pathOf_def DefaultDataDir_def)
  then have written: "in_disk ?inst (pathOf dir) = Some (private_file (bt_pretty env (config_json (Default dir)) @ [nl]))"
    by (simp add: Save_def)
  have "files_kept (in_disk ?inst) (in_disk (snd (open_service env (Default dir) ?inst)))"
  proof -
    obtain k d where k: "LoadOrCreateKey (cf_master_key (Default dir)) (bt_fresh env) (bt_rival env) (in_disk ?inst) = (k, d)"
      by fastforce
    have "files_kept (in_disk ?inst) d" by (rule files_keptI) (use LoadOrCreateKey_keeps k in \<open>metis snd_conv\<close>)
    then show ?thesis
      using k by (auto simp: open_service_def Let_def split: prod.split sum.split dest!: open_store_kept intro: files_kept_trans)
  qed
  then have "in_disk (snd (open_service env (Default dir) ?inst)) (pathOf dir) =
      Some (private_file (bt_pretty env (config_json (Default dir)) @ [nl]))"
    using written by (fastforce simp: files_kept_def private_file_def)
  moreover have "in_disk (snd (initCommand env dir password inst)) = in_disk (snd (open_service env (Default dir) ?inst))"
    using assms by (auto simp: initCommand_def Let_def split: prod.split sum.split)
  ultimately show ?thesis by simp
qed

text \<open>
  A database path that SQLite reads as a URI passes prepareFile, but os.Chmod takes it for the name of a
  file, so the database never opens.
\<close>

lemma uri_database_refused:
  assumes "5 < length path" "take 5 path = ''file:''" "d path = None"
  shows "open_store path dbs d = (Inl ''no such file or directory'', d)"
  using assms by (auto simp: open_store_def prepareFile_def memory_path_def)

text \<open>An argument list that names a data directory and no command makes the program index an empty slice.\<close>

lemma run_without_command: "run env env_dir password [''--data-dir'', ''d''] inst s = (Panicked, inst, s)"
  by (simp add: run_def)

section \<open>The fetches of the skill\<close>

text \<open>The loop changes the server through the fetches that are steps of it, and each leaves the state or succeeds.\<close>

lemma syncCavemanLoop_steps:
  "(server_step c parse pw b64 static)\<^sup>*\<^sup>* a (set_cave (fst (syncCavemanLoop ws (as_cave (ap_state a)))) a)"
proof (induction ws "as_cave (ap_state a)" arbitrary: a rule: syncCavemanLoop.induct)
  case (3 stamp fetched ws)
  let ?a = "set_cave (snd (SyncCavemanSkill stamp fetched (as_cave (ap_state a)))) a"
  have "(server_step c parse pw b64 static)\<^sup>*\<^sup>* ?a (set_cave (fst (syncCavemanLoop ws (as_cave (ap_state ?a)))) ?a)"
    by (rule 3) simp
  moreover have "server_step c parse pw b64 static a ?a" by (rule sync_skill)
  moreover have "set_cave x (set_cave y a) = set_cave x a" for x y by (simp add: set_cave_def)
  ultimately show ?case by (simp add: converse_rtranclp_into_rtranclp)
qed (simp_all add: set_cave_def)

lemma sync_failed: "fst (SyncCavemanSkill stamp fetched cs) = Inl e \<Longrightarrow> snd (SyncCavemanSkill stamp fetched cs) = cs"
  by (auto simp: SyncCavemanSkill_def Let_def split: sum.splits if_splits)


end
