(* ===== verification/Caveman_Default.thy ===== *)
theory Caveman_Default
  imports Caveman
begin

text \<open>
  internal/service/caveman_default.go: the bundled text of the skill, as UTF-8 bytes, and that it parses.
  It is the text every operation of Caveman falls back on when nothing was fetched or what is stored does
  not parse.
\<close>

section \<open>The text\<close>











section \<open>Parsing by lines\<close>














section \<open>The bundled text parses\<close>
















section \<open>What follows for the service\<close>



end
