(* ===== verification/Time_Texts.thy ===== *)
theory Time_Texts
  imports Wire
begin

text \<open>
  The comparison of timestamps in SQL, justified: store.Now and the other writers format an instant with
  time.RFC3339Nano, Timestamps orders instants by what it says of such texts, and Wire has the whole text.
  For the years from 0 to 9999 the bytewise order of the texts is the order of Timestamps.
\<close>

section \<open>Texts of one length\<close>

lemma lex_append: "length a = length b \<Longrightarrow> a < b \<Longrightarrow> a @ c < b @ (d :: string)"
  by (induction a b rule: list_induct2) auto

lemma lex_same: "c < d \<Longrightarrow> a @ c < a @ (d :: string)"
  by (induction a) auto

lemma lex_same_iff: "a @ c \<le> a @ d \<longleftrightarrow> c \<le> (d :: string)"
  by (induction a) auto

lemma digit_less: "i < j \<Longrightarrow> j < 10 \<Longrightarrow> digit_char i < digit_char j"
  by (simp add: digit_char_def less_char_def)

lemma length_pad [simp]: "length (pad_digits k n) = k"
  by (induction k arbitrary: n) auto

lemma pad_less: "n < m \<Longrightarrow> m < 10 ^ k \<Longrightarrow> pad_digits k n < pad_digits k m"
proof (induction k arbitrary: n m)
  case (Suc k)
  show ?case
  proof (cases "n div 10 = m div 10")
    case True
    then have "n mod 10 < m mod 10" using Suc.prems(1) by (metis div_mult_mod_eq nat_add_left_cancel_less)
    then show ?thesis using True by (simp add: lex_same digit_less)
  next
    case False
    then have "n div 10 < m div 10" using Suc.prems(1) by (meson div_le_mono le_neq_implies_less less_imp_le)
    moreover have "m div 10 < 10 ^ k" using Suc.prems(2) by (simp add: less_mult_imp_div_less mult.commute)
    ultimately show ?thesis using Suc.IH by (simp add: lex_append)
  qed
qed simp

lemma two_less: "0 \<le> i \<Longrightarrow> i < j \<Longrightarrow> j < 100 \<Longrightarrow> two_digits i < two_digits j"
  by (simp add: two_digits_def pad_less nat_less_iff)

lemma length_two [simp]: "length (two_digits i) = 2"
  by (simp add: two_digits_def)

section \<open>Dates and clocks\<close>

interpretation month_texts: bucketing month_of month_start
  by unfold_locales (use month_of_spec month_start_Suc in auto)

lemma month_of_mono: "d \<le> e \<Longrightarrow> month_of d \<le> month_of e"
  using month_texts.index_le [of "month_of d" e] month_of_spec [of d] by linarith

lemma month_short: "month_start (k + 1) \<le> month_start k + 31"
proof -
  define y m where "y = k div 12" and "m = k mod 12"
  have k: "k = 12 * y + m" and m: "0 \<le> m" "m < 12" by (simp_all add: y_def m_def)
  show ?thesis
    unfolding k month_start_at [OF m] month_start_next [OF m] using twelve [OF m] by (auto simp: days_before_def)
qed

lemma date_less:
  assumes "0 \<le> month_of d" "d < e" "month_of e < 120000"
  shows "date_text d < date_text e"
proof -
  let ?j = "month_of d" and ?k = "month_of e"
  have le: "?j \<le> ?k" using assms(2) by (intro month_of_mono) simp
  show ?thesis
  proof (cases "?j = ?k")
    case True
    have "0 \<le> d - month_start ?j" "e - month_start ?k < 31"
      using month_of_spec [of d] month_of_spec [of e] month_short [of ?k] by linarith+
    then have "two_digits (d - month_start ?j + 1) < two_digits (e - month_start ?k + 1)"
      using assms(2) True by (intro two_less) simp_all
    then show ?thesis using True by (simp add: date_text_def Let_def lex_same)
  next
    case False
    then have less: "?j < ?k" using le by simp
    show ?thesis
    proof (cases "?j div 12 = ?k div 12")
      case True
      then have "?j mod 12 < ?k mod 12" using less by (metis add_less_cancel_left div_mult_mod_eq)
      then have "two_digits (?j mod 12 + 1) < two_digits (?k mod 12 + 1)" by (intro two_less) (simp_all add: pos_mod_bound add.commute)
      then show ?thesis using True by (simp add: date_text_def Let_def lex_same lex_append)
    next
      case False
      then have "?j div 12 < ?k div 12" using less by (meson order.strict_iff_order zdiv_mono1 less_imp_le zero_less_numeral)
      moreover have "0 \<le> ?j div 12" "?k div 12 < 10000" using assms by simp_all
      ultimately have "pad_digits 4 (nat (?j div 12)) < pad_digits 4 (nat (?k div 12))"
        by (intro pad_less) (simp_all add: nat_less_iff)
      then show ?thesis by (simp add: date_text_def Let_def lex_append)
    qed
  qed
qed

lemma length_date [simp]: "length (date_text d) = 10"
  by (simp add: date_text_def Let_def)

lemma length_clock [simp]: "length (clock_text s) = 8"
  by (simp add: clock_text_def)

lemma clock_less:
  assumes "0 \<le> a" "a < b" "b < 86400"
  shows "clock_text a < clock_text b"
proof (cases "a div 3600 = b div 3600")
  case hour: True
  have split: "s div 60 = 60 * (s div 3600) + s div 60 mod 60" for s :: int
    using div_mult_mod_eq [of "s div 60" 60] by (simp add: zdiv_zmult2_eq [symmetric] mult.commute)
  show ?thesis
  proof (cases "a div 60 = b div 60")
    case True
    then have "a mod 60 < b mod 60" using assms(2) by (metis add_less_cancel_left div_mult_mod_eq)
    then have "two_digits (a mod 60) < two_digits (b mod 60)" by (intro two_less) (simp_all add: pos_mod_bound less_trans [of _ 60])
    then show ?thesis using hour True by (simp add: clock_text_def lex_same)
  next
    case False
    then have "a div 60 < b div 60" using assms(2) by (meson order.strict_iff_order zdiv_mono1 less_imp_le zero_less_numeral)
    then have "a div 60 mod 60 < b div 60 mod 60" using split [of a] split [of b] hour by linarith
    then have "two_digits (a div 60 mod 60) < two_digits (b div 60 mod 60)" by (intro two_less) (simp_all add: pos_mod_bound less_trans [of _ 60])
    then show ?thesis using hour by (simp add: clock_text_def lex_same lex_append)
  qed
next
  case False
  then have "a div 3600 < b div 3600" using assms(2) by (meson order.strict_iff_order zdiv_mono1 less_imp_le zero_less_numeral)
  then have "two_digits (a div 3600) < two_digits (b div 3600)" using assms by (intro two_less) simp_all
  then show ?thesis by (simp add: clock_text_def lex_append)
qed

section \<open>Instants\<close>

definition four_digit_year :: "time \<Rightarrow> bool" where
  "four_digit_year t \<longleftrightarrow> 0 \<le> month_of (local_day 0 t) div 12 \<and> month_of (local_day 0 t) div 12 < 10000"

lemma four_digit_months: "four_digit_year t \<longleftrightarrow> 0 \<le> month_of (local_day 0 t) \<and> month_of (local_day 0 t) < 120000"
  unfolding four_digit_year_def by linarith

lemma day_of_seconds: "local_day 0 t = t div nanos_per_second div 86400"
  "t mod day_ns div nanos_per_second = t div nanos_per_second mod 86400"
proof -
  have day: "day_ns = nanos_per_second * 86400" by (simp add: day_ns_def hour_ns_def)
  show "local_day 0 t = t div nanos_per_second div 86400"
    by (simp add: local_day_def day zdiv_zmult2_eq nanos_per_second_def)
  have "t mod day_ns = nanos_per_second * (t div nanos_per_second mod 86400) + t mod nanos_per_second"
    unfolding day by (rule zmod_zmult2_eq) simp
  then show "t mod day_ns div nanos_per_second = t div nanos_per_second mod 86400"
    by (simp add: nanos_per_second_def)
qed

lemma length_seconds [simp]: "length (seconds_text 0 t) = 19"
  by (simp add: seconds_text_def)

lemma seconds_less:
  assumes "four_digit_year t" "four_digit_year u" "t div nanos_per_second < u div nanos_per_second"
  shows "seconds_text 0 t < seconds_text 0 u"
proof (cases "local_day 0 t = local_day 0 u")
  case True
  then have "t div nanos_per_second mod 86400 < u div nanos_per_second mod 86400"
    using assms(3) unfolding day_of_seconds by (metis add_less_cancel_left div_mult_mod_eq)
  then have "clock_text (t div nanos_per_second mod 86400) < clock_text (u div nanos_per_second mod 86400)"
    by (intro clock_less) simp_all
  then show ?thesis using True by (simp add: seconds_text_def day_of_seconds(2) lex_same)
next
  case False
  then have "local_day 0 t < local_day 0 u"
    using assms(3) unfolding day_of_seconds by (meson order.strict_iff_order zdiv_mono1 less_imp_le zero_less_numeral)
  then have "date_text (local_day 0 t) < date_text (local_day 0 u)"
    using assms(1,2) unfolding four_digit_months by (intro date_less) simp_all
  then show ?thesis by (simp add: seconds_text_def lex_append)
qed

lemma seconds_same: "t div nanos_per_second = u div nanos_per_second \<Longrightarrow> seconds_text 0 t = seconds_text 0 u"
  by (simp add: seconds_text_def day_of_seconds)

lemma nano_text: "rfc3339nano 0 t = seconds_text 0 t @ frac_text (nat (t mod nanos_per_second))"
  by (simp add: rfc3339nano_def fraction_text_zone)

text \<open>A fraction is found again in its text.\<close>

lemma trim_right_inj:
  assumes "trim_right (\<lambda>c. c = z) a = trim_right (\<lambda>c. c = z) b" "length a = length b"
  shows "a = b"
proof -
  have "\<exists>n. s = trim_right (\<lambda>c. c = z) s @ replicate n z" for s
    using trim_right_prefix [of s "\<lambda>c. c = z"] by (metis replicate_eqI)
  then obtain m n where "a = trim_right (\<lambda>c. c = z) a @ replicate m z" "b = trim_right (\<lambda>c. c = z) b @ replicate n z"
    by metis
  then show ?thesis using assms by (metis append_eq_append_conv length_append length_replicate add_left_cancel)
qed

lemma pad_inj: "n < 10 ^ k \<Longrightarrow> m < 10 ^ k \<Longrightarrow> pad_digits k n = pad_digits k m \<Longrightarrow> n = m"
  using pad_less [of n m k] pad_less [of m n k] by (metis less_irrefl linorder_neqE_nat)

lemma frac_inj:
  assumes "n < 10 ^ 9" "m < 10 ^ 9" "frac_text n = frac_text m"
  shows "n = m"
proof (cases "n = 0 \<or> m = 0")
  case True
  then show ?thesis using assms(3) by (auto simp: frac_text_def split: if_splits)
next
  case False
  then have "trim_right (\<lambda>c. c = CHR ''0'') (pad_digits 9 n) = trim_right (\<lambda>c. c = CHR ''0'') (pad_digits 9 m)"
    using assms(3) by (simp add: frac_text_def)
  then have "pad_digits 9 n = pad_digits 9 m" by (rule trim_right_inj) (simp only: length_pad)
  then show ?thesis by (rule pad_inj [OF assms(1,2)])
qed

text \<open>C26: The texts the code stores for two instants of the years 0 to 9999 compare bytewise, as SQLite compares
  them, exactly as the model compares the instants, and are the same only for the same instant.\<close>

theorem stored_time_order:
  assumes "four_digit_year t" "four_digit_year u"
  shows "(rfc3339nano 0 t \<le> rfc3339nano 0 u \<longleftrightarrow> text_le t u) \<and> (rfc3339nano 0 t < rfc3339nano 0 u \<longleftrightarrow> text_less t u) \<and>
    (rfc3339nano 0 t = rfc3339nano 0 u \<longleftrightarrow> t = u)"
proof -
  let ?s = "\<lambda>t. t div nanos_per_second" and ?f = "\<lambda>t. frac_text (nat (t mod nanos_per_second))"
  have strict: "rfc3339nano 0 t < rfc3339nano 0 u" if "?s t < ?s u" "four_digit_year t" "four_digit_year u" for t u
    using seconds_less [OF that(2,3,1)] by (simp add: nano_text lex_append)
  have same: "rfc3339nano 0 t \<le> rfc3339nano 0 u \<longleftrightarrow> ?f t \<le> ?f u" if "?s t = ?s u" for t u
    using seconds_same [OF that] by (simp add: nano_text lex_same_iff)
  have le: "rfc3339nano 0 t \<le> rfc3339nano 0 u \<longleftrightarrow> text_le t u" if "four_digit_year t" "four_digit_year u" for t u
    using strict [of t u] strict [of u t] same [of t u] that
    by (cases "?s t" "?s u" rule: linorder_cases) (auto simp: text_le_def text_key_def less_eq_prod_def)
  have frac: "nat (t mod nanos_per_second) < 10 ^ 9" for t by (simp add: nanos_per_second_def nat_less_iff)
  have "t = u" if eq: "rfc3339nano 0 t = rfc3339nano 0 u"
  proof -
    have s: "?s t = ?s u" using strict [of t u] strict [of u t] assms eq by (metis less_irrefl linorder_neqE)
    then have "?f t = ?f u" using seconds_same [OF s] eq by (simp add: nano_text)
    then have "nat (t mod nanos_per_second) = nat (u mod nanos_per_second)" by (rule frac_inj [OF frac frac])
    then have "t mod nanos_per_second = u mod nanos_per_second"
      by (simp add: nanos_per_second_def eq_nat_nat_iff)
    then show ?thesis using s by (metis div_mult_mod_eq)
  qed
  then show ?thesis
    using le [OF assms] le [OF assms(2,1)] text_not_le [of u t] by (auto simp: not_le [symmetric])
qed

lemma stored_time_order_witness:
  "(1700000000000000000 :: time) < 1700000000500000000 \<and> rfc3339nano 0 1700000000500000000 < rfc3339nano 0 1700000000000000000"
proof -
  have years: "four_digit_year 1700000000500000000" "four_digit_year 1700000000000000000" by code_simp+
  have "CHR ''.'' # x < ''Z''" for x by (simp add: less_char_def)
  then have "text_less 1700000000500000000 1700000000000000000"
    by (simp add: text_less_def text_key_def nanos_per_second_def frac_text_def less_prod_def)
  then show ?thesis using stored_time_order [OF years] by simp
qed

end
