(* ===== verification/Monitoring_Rows.thy ===== *)
theory Monitoring_Rows
  imports Monitoring_Laws
begin

text \<open>
  How monitoring.go reads the attempts and prompt rules of many requests with one query each, and that it
  gives every request what Monitoring reads for it alone.
\<close>

section \<open>The queries\<close>

text \<open>out[k] = append(out[k], v).\<close>

definition append_row :: "'k \<times> 'v \<Rightarrow> ('k \<rightharpoonup> 'v list) \<Rightarrow> ('k \<rightharpoonup> 'v list)" where
  "append_row kv out = out(fst kv \<mapsto> (case out (fst kv) of None \<Rightarrow> [snd kv] | Some vs \<Rightarrow> vs @ [snd kv]))"

text \<open>Prompt rules are in the order of their positions in the state.\<close>

definition promptRulesFor :: "string list \<Rightarrow> tel_store \<Rightarrow> string \<rightharpoonup> PromptRuleRef list" where
  "promptRulesFor ids st = (if ids = [] then Map.empty
     else fold append_row (sort_key fst (filter (\<lambda>p. fst p \<in> set ids) (tel_prompts st))) Map.empty)"

definition attemptViewsFor :: "string list \<Rightarrow> tel_store \<Rightarrow> string \<rightharpoonup> AttemptView list" where
  "attemptViewsFor ids st = (if ids = [] then Map.empty
     else fold append_row (map (\<lambda>a. (ta_request a, attempt_view a))
         (sort_key (\<lambda>a. (ta_request a, ta_number a)) (filter (\<lambda>a. ta_request a \<in> set ids) (tel_attempts st))))
       (\<lambda>i. if i \<in> set ids then Some [] else None))"

text \<open>A request that the query gives twice is taken once.\<close>

definition first_rows :: "tel_request list \<Rightarrow> tel_request list" where
  "first_rows rs = fold (\<lambda>r out. if tr_id r \<in> set (map tr_id out) then out else out @ [r]) rs []"

definition collectRows :: "(int \<Rightarrow> string option) \<Rightarrow> tel_store \<Rightarrow> tel_request list \<Rightarrow> MonitoringRecord list" where
  "collectRows names st rs = (let scans = first_rows rs; order = map tr_id scans in
     if scans = [] then []
     else let atts = attemptViewsFor order st; prompts = promptRulesFor order st in
       map (\<lambda>r. let rec = scanMonitoringRow names st r;
           rec = (case atts (tr_id r) of None \<Rightarrow> rec | Some as \<Rightarrow> rec\<lparr>mr_attempts := as\<rparr>) in
         case prompts (tr_id r) of None \<Rightarrow> rec | Some refs \<Rightarrow> rec\<lparr>mr_prompts := refs\<rparr>) scans)"

section \<open>Each request gets its own\<close>

lemma append_rows:
  "fold append_row rows out k = (let vs = map snd (filter (\<lambda>r. fst r = k) rows) in
     case out k of None \<Rightarrow> if vs = [] then None else Some vs | Some us \<Rightarrow> Some (us @ vs))"
  by (induction rows arbitrary: out) (auto simp: append_row_def Let_def split: option.split)

lemma insort_same_key: "\<forall>y \<in> set (x # ys). f y = c \<Longrightarrow> insort_key (\<lambda>y. (f y, g y)) x ys = insort_key g x ys"
  for f :: "'a \<Rightarrow> 'b :: linorder" and g :: "'a \<Rightarrow> 'c :: linorder"
  by (induction ys) auto

lemma sort_same_key: "\<forall>y \<in> set ys. f y = c \<Longrightarrow> sort_key (\<lambda>y. (f y, g y)) ys = sort_key g ys"
  for f :: "'a \<Rightarrow> 'b :: linorder" and g :: "'a \<Rightarrow> 'c :: linorder"
proof (induction ys)
  case (Cons y ys)
  then have "\<forall>z \<in> set (y # sort_key g ys). f z = c" by simp
  then show ?case using Cons insort_same_key [of y "sort_key g ys" f c g] by simp
qed simp

lemma sort_one_key: "\<forall>y \<in> set ys. f y = c \<Longrightarrow> sort_key f ys = ys" for f :: "'a \<Rightarrow> 'b :: linorder"
proof (induction ys)
  case (Cons y ys)
  then show ?case by (cases ys) auto
qed simp

lemma attemptViewsFor_each:
  assumes "i \<in> set ids"
  shows "attemptViewsFor ids st i = Some (map attempt_view (listAttempts i st))"
proof -
  let ?as = "filter (\<lambda>a. ta_request a \<in> set ids) (tel_attempts st)"
  have "filter (\<lambda>a. ta_request a = i) ?as = filter (\<lambda>a. ta_request a = i) (tel_attempts st)"
    using assms by (auto simp: filter_filter intro: filter_cong)
  then have "filter (\<lambda>a. ta_request a = i) (sort_key (\<lambda>a. (ta_request a, ta_number a)) ?as) = listAttempts i st"
    using sort_same_key [of "filter (\<lambda>a. ta_request a = i) (tel_attempts st)" ta_request i ta_number]
    by (simp add: filter_sort listAttempts_def)
  then have "map snd (filter (\<lambda>r. fst r = i) (map (\<lambda>a. (ta_request a, attempt_view a))
      (sort_key (\<lambda>a. (ta_request a, ta_number a)) ?as))) = map attempt_view (listAttempts i st)"
    by (simp add: filter_map comp_def)
  then show ?thesis using assms by (auto simp: attemptViewsFor_def append_rows)
qed

lemma promptRulesFor_each:
  assumes "i \<in> set ids"
  shows "promptRulesFor ids st i = (if listPromptRules_of i st = [] then None else Some (listPromptRules_of i st))"
proof -
  let ?ps = "filter (\<lambda>p. fst p \<in> set ids) (tel_prompts st)"
  have "filter (\<lambda>p. fst p = i) ?ps = filter (\<lambda>p. fst p = i) (tel_prompts st)"
    using assms by (auto simp: filter_filter intro: filter_cong)
  then have "map snd (filter (\<lambda>p. fst p = i) (sort_key fst ?ps)) = listPromptRules_of i st"
    using sort_one_key [of "filter (\<lambda>p. fst p = i) (tel_prompts st)" fst i]
    by (simp add: filter_sort listPromptRules_of_def)
  then show ?thesis using assms by (auto simp: promptRulesFor_def append_rows)
qed

lemma first_rows_distinct: "distinct (map tr_id rs) \<Longrightarrow> first_rows rs = rs"
proof -
  have "distinct (map tr_id (out @ rs)) \<Longrightarrow>
      fold (\<lambda>r out. if tr_id r \<in> set (map tr_id out) then out else out @ [r]) rs out = out @ rs" for out
    by (induction rs arbitrary: out) auto
  from this [of "[]"] show "distinct (map tr_id rs) \<Longrightarrow> first_rows rs = rs" by (simp add: first_rows_def)
qed

theorem collectRows_each:
  assumes "distinct (map tr_id rs)"
  shows "collectRows names st rs = map (collect_record names st) rs"
proof -
  have "scanMonitoringRow names st r\<lparr>mr_prompts := []\<rparr> = scanMonitoringRow names st r" for r
    by (simp add: scanMonitoringRow_def)
  then show ?thesis
    using attemptViewsFor_each [of _ "map tr_id rs" st] promptRulesFor_each [of _ "map tr_id rs" st]
    by (auto simp: collectRows_def first_rows_distinct [OF assms] Let_def collect_record_def scanMonitoringRow_def)
qed

text \<open>So the window is read this way, as are the page and the recent requests: their rows are requests of the table.\<close>

lemma windowQuery_rows:
  assumes "tel_ok st"
  shows "windowQuery names st start fin sc = collectRows names st (oldest_first (filter (in_window st start fin sc) (tel_requests st)))"
proof -
  have "distinct (map tr_id (filter (in_window st start fin sc) (tel_requests st)))"
    using assms by (simp add: tel_ok_def distinct_map_filter)
  then have "distinct (map tr_id (oldest_first (filter (in_window st start fin sc) (tel_requests st))))"
    by (simp add: oldest_first_def distinct_map inj_on_def)
  then show ?thesis by (simp add: windowQuery_def collectRows_each)
qed

section \<open>A bucket observes as the totals do\<close>

text \<open>Bucket.observe, which is written out again in the code.\<close>

definition Bucket_observe :: "MonitoringRecord \<Rightarrow> Bucket \<Rightarrow> Bucket" where
  "Bucket_observe rec b0 =
     (let b = b0\<lparr>ty_requests := ty_requests b0 + 1\<rparr>;
          b = (if mr_cancelled rec then b\<lparr>ty_cancelled := ty_cancelled b + 1\<rparr>
               else if (case mr_status rec of None \<Rightarrow> False | Some s \<Rightarrow> 400 \<le> s) \<or> mr_error rec \<noteq> ErrNone then b\<lparr>ty_failed := ty_failed b + 1\<rparr>
               else b\<lparr>ty_succeeded := ty_succeeded b + 1\<rparr>);
          b = b\<lparr>ty_inputs := tokenTotals_add (us_input (mr_usage rec)) (ty_inputs b)\<rparr>;
          b = b\<lparr>ty_outputs := tokenTotals_add (us_output (mr_usage rec)) (ty_outputs b)\<rparr> in
      (case mr_latency rec of None \<Rightarrow> b
       | Some l \<Rightarrow> b\<lparr>ty_latency_sum := ty_latency_sum b + l, ty_latency_count := ty_latency_count b + 1\<rparr>))"

lemma Bucket_observe_eq: "Bucket_observe rec b = observe rec b"
  by (auto simp: Bucket_observe_def observe_def record_failed_def Let_def split: option.split)


end
