(* ===== verification/Web.thy ===== *)
theory Web
  imports Files
begin

text \<open>
  internal/web/web.go: the handler of the embedded front end. The embedded tree is built outside the
  repository and is the argument \<open>site\<close>; net/http's file server over it is the argument \<open>files\<close>, given the
  path it serves. Both are functions of the path.
\<close>

datatype entry = Directory | Regular string

definition is_file :: "entry option \<Rightarrow> bool" where
  "is_file e = (case e of Some (Regular _) \<Rightarrow> True | _ \<Rightarrow> False)"

text \<open>http.Error and http.NotFound.\<close>

definition http_error :: "string \<Rightarrow> int \<Rightarrow> resp_writer \<Rightarrow> resp_writer" where
  "http_error message status w = snd (raw_write (message @ [nl]) (raw_write_header status
     (w\<lparr>rw_header := header_set ''X-Content-Type-Options'' ''nosniff''
        (header_set ''Content-Type'' ''text/plain; charset=utf-8'' (rw_header w))\<rparr>)))"

definition http_not_found :: "resp_writer \<Rightarrow> resp_writer" where
  "http_not_found = http_error ''404 page not found'' 404"

definition no_cache :: "resp_writer \<Rightarrow> resp_writer" where
  "no_cache w = w\<lparr>rw_header := header_set ''Cache-Control'' ''no-cache'' (rw_header w)\<rparr>"

text \<open>path.Ext is not empty: the last element has a dot.\<close>

definition has_ext :: "string \<Rightarrow> bool" where
  "has_ext path \<longleftrightarrow> CHR ''.'' \<in> set (last (split_on CHR ''/'' path))"

text \<open>The paths the front end leaves to the API.\<close>

definition api_path :: "string \<Rightarrow> bool" where
  "api_path path \<longleftrightarrow> has_prefix ''/api/'' path \<or> path = ''/api'' \<or> has_prefix ''/v1/'' path \<or> path = ''/v1'' \<or>
     has_prefix ''/healthz'' path"

definition asset_path :: "string \<Rightarrow> string" where
  "asset_path path = (let p = clean_path (if has_prefix ''/'' path then drop 1 path else path) in
     if p = ''.'' \<or> p = '''' then ''index.html'' else p)"

definition web_handler ::
  "(string \<Rightarrow> entry option) \<Rightarrow> (string \<Rightarrow> http_req \<Rightarrow> resp_writer \<Rightarrow> resp_writer) \<Rightarrow> http_req \<Rightarrow> resp_writer \<Rightarrow> resp_writer" where
  "web_handler site files q w =
     (let path = url_path q; clean = asset_path path in
      if hq_method q \<noteq> ''GET'' \<and> hq_method q \<noteq> ''HEAD'' then http_error ''method not allowed'' 405 w
      else if api_path path then http_not_found w
      else if is_file (site clean)
      then files path q (if clean = ''index.html'' then no_cache w else w)
      else if has_prefix ''/assets/'' path \<or> has_ext clean then http_not_found w
      else files ''/'' q (no_cache w))"

end
