(* ===== verification/Spec2Isabelle.thy ===== *)
theory Spec2Isabelle
  imports Service_Properties Stream_Properties Translate_Properties Gateway_Properties Server_Properties
    Control_Properties Caveman_Default Time_Texts Monitoring_Rows Web
begin

text \<open>
  pogu is a gateway in front of language model providers. Clients send chat (OpenAI) or messages
  (Anthropic) requests with an API key; the gateway resolves the model they name to a provider model
  or to a group of them, injects the configured prompts, translates the request into the provider's
  protocol, tries the provider's keys in order, translates the answer back and records what happened.
  An administrator configures it through a JSON API, or from the command line through a control socket,
  and follows its traffic on a dashboard.

  The program's parts and the theories that model them (file names are relative to src/internal):

  \<^item> \<^bold>\<open>Vocabulary.\<close> Prelude (Go strings as byte lists, the functions of the package strings, decimals,
    rune counting, the error sum), Json (decoded JSON values and the decoding rules of encoding/json),
    Types (service/types.go and validate.go), Timestamps (the order of RFC3339Nano texts), Time_Texts (that it
    is the order of the texts themselves).
  \<^item> \<^bold>\<open>Storage.\<close> Table (SQLite tables as row lists with AUTOINCREMENT sequences, and the locale
    \<open>ordered_rows\<close> of the tables with positions) and Store (store/schema.go: one record per row, the
    constraints as \<open>wf_store\<close>, cascades as functions; the Service value of service/service.go as the
    record \<open>svc\<close>).
  \<^item> \<^bold>\<open>Service operations.\<close> Round_Robin, Provider_Keys, Providers, Key_Import, Models, Model_Groups,
    Prompt_Rules, Access, Caveman: one definition per exported operation of the file of service/ with
    that subject. An operation takes the state and its arguments, returns its result (\<open>Inl\<close> an error
    or \<open>Inr\<close> a value) with the new state, and follows the order of the checks, statements and early
    returns of the code. A transaction that is rolled back returns the old database. Service closes
    them under an inductive step relation. Caveman_Default (service/caveman_default.go) is the bundled
    text of the skill.
  \<^item> \<^bold>\<open>Cryptography.\<close> Crypto and Password (crypto/crypto.go, crypto/password.go).
  \<^item> \<^bold>\<open>Protocols.\<close> Reasoning, Prompts, Translate_Base, Translate_Anthropic, Translate_Chat,
    Translate_Responses (provider/reasoning.go, prompts.go, common.go, translate_*.go): requests and
    complete responses. Sse, Stream_Base, Stream_Anthropic, Stream_Responses (provider/sse.go,
    stream_*.go): the event scanner and the stream translators, each a state with a step per event.
    Usage (provider/usage.go): token usage.
  \<^item> \<^bold>\<open>One attempt.\<close> Client (provider/client.go) and Proxy (provider/proxy.go, proxy_responses.go): the
    request to the provider, the response writer and its commit, the eight proxying functions.
  \<^item> \<^bold>\<open>Records.\<close> Telemetry, Calendar, Monitoring, Monitoring_Rows (telemetry/telemetry.go, monitoring.go), Monitor_Hub and
    Gateway_Telemetry (httpapi/monitor_hub.go, gateway_telemetry.go).
  \<^item> \<^bold>\<open>The gateway.\<close> Gateway (httpapi/gateway.go): the handler of both protocols from authentication
    to the answer, composed of all of the above.
  \<^item> \<^bold>\<open>The HTTP server.\<close> Http (requests, the API value of httpapi/api.go as the record \<open>api\<close>, errors.go,
    and the early returns that handlers share), Wire (the JSON of every resource, as the tags of the
    structs give it), Auth_Http (auth.go), Handlers (providers.go, provider_keys.go, models.go, groups.go,
    keys.go, promptrules.go, settings.go), Monitoring_Http (monitoring.go, the event stream included) and
    Api (the routing table with the matching of net/http's patterns, the model list of gateway.go, the
    start of the API value). A handler takes the environment, the request, the state and the response
    writer. Web (web/web.go) is the handler of the embedded files, which Api takes as an argument.
  \<^item> \<^bold>\<open>The control socket.\<close> Control (control/types.go, ops.go, server.go, client.go): a request and a response
    per line, the operations, the server's side of a connection and the client's. Socket (Start, acceptLoop and
    Close of control/server.go): the life of the socket over the paths, listeners and connections of the
    system, for several daemons that share it, with Start also as the sequence of its calls.
  \<^item> \<^bold>\<open>The program.\<close> Files (config/config.go, the key file of crypto/crypto.go, the opening of the database in
    store/store.go, the commands serve and init and the fetching loop of cmd/pogu/serve.go over a disk that
    maps paths to files) and Command (cmd/pogu/main.go, controlcli.go
    and the flags of package flag). A run of the program ends in a failure, a printed text, a panic or the
    initial state of a server.
  \<^item> \<^bold>\<open>The running server.\<close> Server: a state machine whose steps are whole HTTP requests, operations of the
    control socket and fetches of the skill, started by Files over a database.

  What the lemmas show, by group:

  \<^item> each service operation preserves the schema's constraints and the coherence of the prompt
    snapshot, so both hold in every reachable state, whatever order of calls and restarts
    (Service); Service_Properties describes what resolution, ordering, import, access and prompt rules
    give on every branch;
  \<^item> the event scanner does not depend on how the network cuts the bytes, and reads back the frames
    the program writes. The streams the translators emit are accepted by an automaton of the target
    protocol, for every input, and under the stated condition on the order of tool calls from chat to
    Anthropic (Stream_Properties). The automata and the contract are in Stream_Base;
  \<^item> translated requests keep the effort level, the content blocks and the tool calls
    (Translate_Properties); Translate_Laws also shows that a two-step translation never fails at its
    second step;
  \<^item> Proxy_Laws: an attempt begins the client's response only after the provider answered with
    success, and otherwise leaves the writer as it was. Gateway_Laws builds the failover on this:
    an attempt that hands over to the next key left the client's response untouched, the recorded
    attempts are a prefix of the candidates, each closed, and every request ends with an answer unless
    the client gave up (Gateway_Properties, with the bytes a client of a stream gets);
  \<^item> Monitoring_Laws: the counters of a time series add up to the summary's; Monitoring_Rows: the one query for
    the attempts of many requests gives each its own;
  \<^item> Server_Laws, Handler_Laws, Request_Laws: what a request may do to the server. Every handler changes the
    service through steps of its state machine and keeps the records and the hub consistent; Route_Laws
    shows which path a pattern can match, Config_Laws that a request without a session leaves the
    configuration alone unless it completes the setup, Admin_Laws that nothing removes the administrator.
    Server composes these into the invariant of the running server, and Login_Laws follows the login
    throttle over time; Server_Properties states the results;
  \<^item> Control_Laws: the operations of the socket are steps of the service, requests and responses survive
    their encoding. Control_Properties: an exchange over the socket end to end, its limit on a line, partial
    updates from the command line, and that a restart finds the installation as it was left;
  \<^item> Socket_Laws: the invariant of daemons that share a system, by a lemma for each call of the system.
    Socket_Properties: what the daemons keep of each other and of other programs, what a refused start leaves,
    what starting and closing do, and the race that two overlapping starts have;
  \<^item> Caveman_Default: the bundled text parses, by lemmas on the lines of such a text;
  \<^item> Time_Texts: padded digits, dates and clocks compare like numbers, so the stored texts of two instants
    compare as Timestamps says and are the same only for the same instant.

  Interfaces are locales, each interpreted on the code's own definitions: \<open>ordered_rows\<close> (Table; keys
  of a provider, members of a group, prompt rules), \<open>failover_order\<close> (Round_Robin; both strategies),
  \<open>bucketing\<close> (Calendar; the monitoring ranges, the months), \<open>counter\<close> (Monitoring_Laws; four counters), \<open>chunked\<close>
  (Prelude; the event scanner and the usage tee), \<open>inductive_invariant\<close> (Prelude; the service, the
  server and the daemons at their sockets), \<open>stream_protocol\<close> (Stream_Base; the three translators), \<open>svc_frame\<close> (Service; what the resolving
  operations leave alone: prompts, administrator, configuration) and \<open>effect\<close> (Handler_Laws; the changes
  through service operations, and the calm ones).

  What is outside the repository is an argument: AES-GCM, HMAC, Argon2id, SHA-256 and base64
  (\<open>crypto_prims\<close>, \<open>password_prims\<close>, \<open>b64\<close>), url.ParseRequestURI and net/url (\<open>parse\<close>,
  \<open>url_prims\<close>), json.Marshal and json.Unmarshal of texts nested in a body (\<open>codec\<close>), random bytes,
  fresh identifiers (\<open>rid\<close>), clock readings and the outcome of each HTTP exchange (\<open>gateway_env\<close>,
  \<open>http_env\<close>), the decoder of encoding/json over a stream, net.SplitHostPort, what wakes an event stream,
  the daemon behind the command line (\<open>cli_env\<close>), indented JSON, and the embedded files.
  A theorem that relies on one of them says on what, as a hypothesis; its witness instantiates it.

  Bounds. Every loop of the model is structural or runs over a finite list, so no definition needs
  fuel: a response body is the finite list of the chunks read from it, with the way reading ended; a
  body that never ends is covered by the properties of its finite prefixes (the translators'
  step lemmas hold after every event). The filling of a time series recurs with a termination proof
  on the distance to the end of the window. The round-robin cursor is a 64-bit word and wraps. Ints
  of the code that only count are HOL integers; JSON numbers and averages are exact rationals.

  Not modelled: the rounding of float64; log lines; failures of file and SQLite I/O (constraint
  violations, a missing file and the failures of the calls on sockets are modelled); interleavings inside an
  operation that the code runs under its mutex or in a transaction, and of whole requests with each other;
  the transport of net/http (compression, timeouts, cancellation other than as the outcome of an exchange);
  the process around the server (listening for HTTP and signals, of which Files has only the outcome that
  ends serve, and the timers of syncCavemanLoop, which are what wakes it): they are calls of the operating
  system. A listener is taken to answer the probe of Start within its 200 milliseconds. Two paths of the
  database that name one file (a path and its file: form) are taken for different ones. The front end under
  ui/ is not Go.
\<close>

end
